(* ===== verification/Prelude.thy ===== *)
theory Prelude
  imports Main "HOL-Library.Word" "HOL-Library.Monad_Syntax"
begin

unbundle bit_operations_syntax

text \<open>
  Shared vocabulary of the development.

  \<^item> Machine integers are words of the width the C source declares.  The firmware is compiled with
    \<open>-fsigned-char\<close> (\<open>src/openrtos/def.cmake\<close>), so a plain \<open>char\<close> that takes part in arithmetic
    is read with \<open>sint\<close>; a \<open>uint8_t\<close> is read with \<open>uint\<close>.
  \<^item> C objects are lists of fixed length.  \<open>rd\<close>, \<open>wr\<close>, \<open>slice\<close> and \<open>blit\<close> are the array read, the
    array write, the source side and the destination side of \<open>memcpy\<close>.  Each returns \<open>None\<close> when the access
    leaves the object, which is undefined behaviour in C.  A model function of type
    \<open>\<dots> option\<close> therefore returns \<open>None\<close> exactly when the C code performs such an access, or (where a
    theory says so) uses the result of a function that ended without a \<open>return\<close>.
  \<^item> Log output, delays (\<open>usleep\<close>, \<open>sleep\<close>) and thread creation are not part of the models.
\<close>

type_synonym u8 = "8 word"
type_synonym u16 = "16 word"
type_synonym u32 = "32 word"
type_synonym u64 = "64 word"
type_synonym bytes = "u8 list"

named_theorems mem_defs \<open>definitions of the memory accesses\<close>
named_theorems mem_simps \<open>accesses that stay inside their object\<close>

section \<open>Bounded memory accesses\<close>

definition rd :: "'a list \<Rightarrow> nat \<Rightarrow> 'a option" where
  [mem_defs]: "rd xs i = (if i < length xs then Some (xs ! i) else None)"

definition wr :: "'a list \<Rightarrow> nat \<Rightarrow> 'a \<Rightarrow> 'a list option" where
  [mem_defs]: "wr xs i x = (if i < length xs then Some (xs[i := x]) else None)"

definition slice :: "'a list \<Rightarrow> nat \<Rightarrow> nat \<Rightarrow> 'a list option" where
  [mem_defs]: "slice xs i n = (if i + n \<le> length xs then Some (take n (drop i xs)) else None)"

definition blit :: "'a list \<Rightarrow> nat \<Rightarrow> 'a list \<Rightarrow> 'a list option" where
  [mem_defs]: "blit dst i src =
     (if i + length src \<le> length dst
      then Some (take i dst @ src @ drop (i + length src) dst) else None)"

text \<open>Array access with a C \<open>int\<close> subscript, which may be negative.\<close>

definition rdi :: "'a list \<Rightarrow> int \<Rightarrow> 'a option" where
  [mem_defs]: "rdi xs i = (if 0 \<le> i then rd xs (nat i) else None)"

definition wri :: "'a list \<Rightarrow> int \<Rightarrow> 'a \<Rightarrow> 'a list option" where
  [mem_defs]: "wri xs i x = (if 0 \<le> i then wr xs (nat i) x else None)"

lemma rd_inside [mem_simps]: "i < length xs \<Longrightarrow> rd xs i = Some (xs ! i)"
  by (simp add: rd_def)

lemma rdi_inside [mem_simps]: "0 \<le> i \<Longrightarrow> nat i < length xs \<Longrightarrow> rdi xs i = Some (xs ! nat i)"
  by (simp add: rdi_def rd_def)

lemma wri_inside [mem_simps]: "0 \<le> i \<Longrightarrow> nat i < length xs \<Longrightarrow> wri xs i x = Some (xs[nat i := x])"
  by (simp add: wri_def wr_def)

lemma wr_inside [mem_simps]: "i < length xs \<Longrightarrow> wr xs i x = Some (xs[i := x])"
  by (simp add: wr_def)

lemma slice_inside [mem_simps]:
  "i + n \<le> length xs \<Longrightarrow> slice xs i n = Some (take n (drop i xs))"
  by (simp add: slice_def)

lemma blit_inside [mem_simps]:
  "i + length src \<le> length dst \<Longrightarrow>
   blit dst i src = Some (take i dst @ src @ drop (i + length src) dst)"
  by (simp add: blit_def)

lemma rd_Some: "rd xs i = Some x \<longleftrightarrow> i < length xs \<and> x = xs ! i"
  by (auto simp: rd_def)

lemma rdi_Some: "rdi xs i = Some x \<longleftrightarrow> 0 \<le> i \<and> nat i < length xs \<and> x = xs ! nat i"
  by (auto simp: rdi_def rd_def)

lemma wr_Some: "wr xs i x = Some ys \<longleftrightarrow> i < length xs \<and> ys = xs[i := x]"
  by (auto simp: wr_def)

lemma slice_Some: "slice xs i n = Some ys \<longleftrightarrow> i + n \<le> length xs \<and> ys = take n (drop i xs)"
  by (auto simp: slice_def)

lemma blit_Some:
  "blit dst i src = Some ys \<longleftrightarrow>
   i + length src \<le> length dst \<and> ys = take i dst @ src @ drop (i + length src) dst"
  by (auto simp: blit_def)

lemma length_wr: "wr xs i x = Some ys \<Longrightarrow> length ys = length xs"
  by (auto simp: wr_Some)

lemma length_wri: "wri xs i x = Some ys \<Longrightarrow> length ys = length xs"
  by (auto simp: wri_def wr_Some split: if_splits)

lemma length_slice: "slice xs i n = Some ys \<Longrightarrow> length ys = n"
  by (auto simp: slice_Some)

lemma length_blit: "blit dst i src = Some ys \<Longrightarrow> length ys = length dst"
  by (auto simp: blit_Some)

lemma slice_append_mid:
  "length pre = i \<Longrightarrow> length mid = n \<Longrightarrow> slice (pre @ mid @ post) i n = Some mid"
  by (auto simp: slice_def)

lemma rd_append_mid: "length pre = i \<Longrightarrow> rd (pre @ x # post) i = Some x"
  by (auto simp: rd_def nth_append)

lemma nth_blit:
  "blit dst i src = Some ys \<Longrightarrow> k < length dst \<Longrightarrow>
   ys ! k = (if k < i then dst ! k else if k < i + length src then src ! (k - i) else dst ! k)"
  by (auto simp: blit_Some nth_append min_def)

section \<open>Partial correctness of a computation\<close>

text \<open>\<open>yields P r\<close>: whenever the computation \<open>r\<close> is defined, its result satisfies \<open>P\<close>.  The rules
  follow the structure of a model function, so that a frame fact about it is one application of them.\<close>

named_theorems yields_rules \<open>structural rules of yields\<close>

definition yields :: "('a \<Rightarrow> bool) \<Rightarrow> 'a option \<Rightarrow> bool" where
  "yields P r \<longleftrightarrow> (\<forall>x. r = Some x \<longrightarrow> P x)"

lemma yieldsD: "yields P r \<Longrightarrow> r = Some x \<Longrightarrow> P x"
  by (simp add: yields_def)

lemma yields_None [yields_rules]: "yields P None"
  by (simp add: yields_def)

lemma yields_Some [yields_rules]: "P x \<Longrightarrow> yields P (Some x)"
  by (simp add: yields_def)

lemma yields_if [yields_rules]: "(b \<Longrightarrow> yields P x) \<Longrightarrow> (\<not> b \<Longrightarrow> yields P y) \<Longrightarrow> yields P (if b then x else y)"
  by simp

lemma yields_bind [yields_rules]: "(\<And>x. r = Some x \<Longrightarrow> yields P (f x)) \<Longrightarrow> yields P (Option.bind r f)"
  by (cases r) (simp_all add: yields_def)

lemma yields_prod [yields_rules]: "(\<And>a b. x = (a, b) \<Longrightarrow> yields P (f a b)) \<Longrightarrow> yields P (case x of (a, b) \<Rightarrow> f a b)"
  by (cases x) simp

lemma yields_option [yields_rules]:
  "(x = None \<Longrightarrow> yields P a) \<Longrightarrow> (\<And>y. x = Some y \<Longrightarrow> yields P (f y)) \<Longrightarrow>
   yields P (case x of None \<Rightarrow> a | Some y \<Rightarrow> f y)"
  by (cases x) simp_all

section \<open>Bytes and words\<close>

text \<open>The value an \<open>int16\<close> or \<open>uint16\<close> object takes from two bytes in memory (little endian).\<close>

definition le16 :: "u8 \<Rightarrow> u8 \<Rightarrow> u16" where
  "le16 lo hi = ucast lo OR push_bit 8 (ucast hi)"

definition lo8 :: "u16 \<Rightarrow> u8" where
  "lo8 w = ucast w"

definition hi8 :: "u16 \<Rightarrow> u8" where
  "hi8 w = ucast (drop_bit 8 w)"

definition mem16 :: "u16 \<Rightarrow> bytes" where
  "mem16 w = [lo8 w, hi8 w]"

lemma le16_lo_hi [simp]: "le16 (lo8 w) (hi8 w) = w"
  unfolding le16_def lo8_def hi8_def
  by (rule bit_word_eqI) (auto simp: bit_simps)

lemma lo8_le16 [simp]: "lo8 (le16 lo hi) = lo"
  unfolding le16_def lo8_def
  by (rule bit_word_eqI) (auto simp: bit_simps)

lemma hi8_le16 [simp]: "hi8 (le16 lo hi) = hi"
  unfolding le16_def hi8_def
  by (rule bit_word_eqI) (auto simp: bit_simps dest: bit_imp_le_length)

lemma le16_eq_iff [simp]: "le16 a b = le16 c d \<longleftrightarrow> a = c \<and> b = d"
  by (metis lo8_le16 hi8_le16)

lemma le16_eqI: "lo8 x = lo8 y \<Longrightarrow> hi8 x = hi8 y \<Longrightarrow> x = y"
  by (metis le16_lo_hi)

lemma length_mem16 [simp]: "length (mem16 w) = 2"
  by (simp add: mem16_def)

lemma unat_u8_less [simp]: "unat (b :: u8) < 256"
  by (rule order_less_le_trans [OF unsigned_less]) simp

lemma unat_u16_less [simp]: "unat (b :: u16) < 65536"
  by (rule order_less_le_trans [OF unsigned_less]) simp

lemma unat_ucast_u8 [simp]: "unat (ucast (b :: u8) :: u16) = unat b"
proof -
  have "unat b < 2 ^ 16" by (rule order_less_trans [OF unat_u8_less]) simp
  then show ?thesis by (simp add: unsigned_ucast_eq take_bit_nat_eq_self)
qed

text \<open>Numbers stored in a byte or a 16-bit field.\<close>

definition w8 :: "nat \<Rightarrow> u8" where
  "w8 n = word_of_nat n"

definition w16 :: "nat \<Rightarrow> u16" where
  "w16 n = word_of_nat n"

lemma unat_w8: "n < 256 \<Longrightarrow> unat (w8 n) = n"
  unfolding w8_def by (subst unat_of_nat) simp

lemma unat_w16: "n < 65536 \<Longrightarrow> unat (w16 n) = n"
  unfolding w16_def by (subst unat_of_nat) simp

lemma w16_unat [simp]: "w16 (unat w) = w"
  by (simp add: w16_def)

lemma w8_unat [simp]: "w8 (unat w) = w"
  by (simp add: w8_def)

lemma uint_le16: "uint (le16 lo hi) = uint lo + 256 * uint hi"
proof -
  have "le16 lo hi = ucast lo + push_bit 8 (ucast hi)"
    unfolding le16_def
    by (rule disjunctive_add [symmetric])
       (auto simp: bit_simps dest: bit_imp_le_length)
  moreover have "uint (ucast lo + push_bit 8 (ucast hi) :: u16) = uint lo + 256 * uint hi"
    using uint_lt2p [of lo] uint_lt2p [of hi]
    by (simp add: push_bit_eq_mult uint_word_ariths unsigned_ucast_eq take_bit_eq_mod)
  ultimately show ?thesis by simp
qed

lemma unat_le16: "unat (le16 lo hi) = unat lo + 256 * unat hi"
proof -
  have "int (unat (le16 lo hi)) = int (unat lo + 256 * unat hi)"
    using uint_le16 [of lo hi] by simp
  then show ?thesis by (rule int_int_eq [THEN iffD1])
qed

section \<open>C strings\<close>

text \<open>A C string is the part of a \<open>char\<close> array before the first NUL.\<close>

definition cstr :: "bytes \<Rightarrow> bytes" where
  "cstr xs = takeWhile (\<lambda>c. c \<noteq> 0) xs"

definition str_bytes :: "string \<Rightarrow> bytes" where
  "str_bytes s = map (\<lambda>c. word_of_nat (of_char c)) s"

end
