(* ===== verification/Xor_Linear.thy ===== *)
theory Xor_Linear
  imports Prelude
begin

text \<open>
  Functions on machine words that respect exclusive or.  A table of 256 words is determined by its eight
  entries at the powers of two when it is such a function (\<open>xor_span\<close> builds the table from them), and two
  such functions that agree on those eight bytes agree everywhere.  The theory of the checksums uses
  both facts to relate lookup tables to shift registers.
\<close>

section \<open>Cancellation\<close>

lemma xor_eq_zero: "a XOR b = 0 \<longleftrightarrow> a = (b :: 'a::len word)"
  by (metis xor.assoc xor_self_eq xor.left_neutral xor.right_neutral)

lemma xor_cancel_left: "x XOR a = x XOR b \<longleftrightarrow> a = (b :: 'a::len word)"
  by (metis xor.assoc xor_self_eq xor.left_neutral)

lemma xor_cancel_right: "a XOR x = b XOR x \<longleftrightarrow> a = (b :: 'a::len word)"
  by (metis xor.commute xor_cancel_left)

lemma xor_rearrange:
  fixes x :: "'a::len word"
  assumes "(x XOR a) XOR b = (x XOR a') XOR b'"
  shows "a XOR a' = b XOR b'"
proof -
  have "x XOR (a XOR b) = x XOR (a' XOR b')" using assms by (simp add: xor.assoc)
  then have "a XOR b = a' XOR b'" by (simp add: xor_cancel_left)
  then have "a' XOR (a XOR b) = b'" by (simp add: xor.assoc [symmetric])
  then have "(a XOR a') XOR b = b'" by (simp add: xor.assoc xor.commute xor.left_commute)
  then show ?thesis by (metis xor.assoc xor_self_eq xor.right_neutral xor.commute)
qed

section \<open>Functions on bytes that respect exclusive or\<close>

lemma u8_xor_top:
  fixes b :: u8
  assumes k: "k < 8" and b: "bit b k" "take_bit (Suc k) b = b"
  shows "b = push_bit k 1 XOR take_bit k b" and "unat b = 2 ^ k + unat (take_bit k b)"
proof -
  show x: "b = push_bit k 1 XOR take_bit k b"
  proof (rule bit_word_eqI)
    fix n assume "n < LENGTH(8)"
    have "bit b n \<longrightarrow> n < Suc k" using b by (metis bit_take_bit_iff)
    then show "bit b n = bit (push_bit k 1 XOR take_bit k b) n"
      using k b \<open>n < LENGTH(8)\<close> by (auto simp: bit_simps less_Suc_eq)
  qed
  have "push_bit k 1 AND take_bit k b = 0"
    by (rule bit_word_eqI) (auto simp: bit_simps)
  then have "b = push_bit k 1 + take_bit k b"
    using x by (simp add: disjunctive_add_eq_xor)
  moreover have "unat (take_bit k b) < 2 ^ k"
    by (simp add: unsigned_take_bit_eq)
  moreover have "(2::nat) ^ k \<le> 128" using power_increasing [of k 7 "2::nat"] k by simp
  moreover have "unat (push_bit k (1::u8)) = 2 ^ k"
    proof -
    have "unat (push_bit k (1::u8)) = push_bit k 1"
      using \<open>(2::nat) ^ k \<le> 128\<close> unsigned_push_bit_eq [of k "1::u8", where 'a = nat]
      by (simp add: take_bit_eq_mod push_bit_eq_mult del: push_bit_of_1)
    then show ?thesis by simp
  qed
  moreover have "unat b = (unat (push_bit k (1::u8)) + unat (take_bit k b)) mod 2 ^ LENGTH(8)"
    using arg_cong [OF \<open>b = push_bit k 1 + take_bit k b\<close>, of unat] by (simp only: unat_word_ariths(1))
  ultimately show "unat b = 2 ^ k + unat (take_bit k b)"
    by simp
qed

definition xor_linear :: "('a::len word \<Rightarrow> 'b::len word) \<Rightarrow> bool" where
  "xor_linear g \<longleftrightarrow> (\<forall>a b. g (a XOR b) = g a XOR g b)"

lemma xor_linear_0: "xor_linear g \<Longrightarrow> g 0 = 0"
  unfolding xor_linear_def by (metis xor_self_eq)

fun xor_span :: "u16 list \<Rightarrow> u16 list" where
  "xor_span [] = [0]"
| "xor_span (b # bs) = (let t = xor_span bs in t @ map (\<lambda>x. b XOR x) t)"

lemma length_xor_span: "length (xor_span bs) = 2 ^ length bs"
  by (induction bs) (auto simp: Let_def)

definition basis :: "(u8 \<Rightarrow> u16) \<Rightarrow> nat \<Rightarrow> u16 list" where
  "basis g k = map (\<lambda>i. g (push_bit i 1)) (rev [0..<k])"

lemma xor_span_nth:
  assumes g: "xor_linear g" and "k \<le> 8" "take_bit k b = b"
  shows "xor_span (basis g k) ! unat b = g b"
  using assms(2,3)
proof (induction k arbitrary: b)
  case 0
  then show ?case using xor_linear_0 [OF g] by (simp add: basis_def)
next
  case (Suc k)
  have len: "length (xor_span (basis g k)) = 2 ^ k" by (simp add: length_xor_span basis_def)
  have step: "xor_span (basis g (Suc k)) =
      xor_span (basis g k) @ map (\<lambda>x. g (push_bit k 1) XOR x) (xor_span (basis g k))"
    by (simp add: basis_def Let_def)
  have lt: "unat (take_bit k b) < 2 ^ k" by (simp add: unsigned_take_bit_eq)
  show ?case
  proof (cases "bit b k")
    case True
    note top = u8_xor_top [OF _ True Suc.prems(2)]
    have "g b = g (push_bit k 1) XOR g (take_bit k b)"
      using g top(1) Suc.prems(1) unfolding xor_linear_def by (metis Suc_le_eq)
    moreover have "xor_span (basis g k) ! unat (take_bit k b) = g (take_bit k b)"
      using Suc by (intro Suc.IH) auto
    ultimately show ?thesis
      using top(2) Suc.prems(1) lt by (simp add: step nth_append len)
  next
    case False
    then have b: "take_bit k b = b"
      using Suc.prems(2) by (metis (no_types, lifting) bit_eqI bit_take_bit_iff less_Suc_eq)
    then show ?thesis using Suc.IH [OF _ b] Suc.prems(1) lt by (simp add: step nth_append len)
  qed
qed

lemma xor_span_byte:
  assumes "xor_linear g" "tab = xor_span (basis g 8)"
  shows "tab ! unat (b :: u8) = g b"
  using xor_span_nth [OF assms(1), of 8 b] assms(2) take_bit_length_eq [of b] by simp

lemma xor_linear_ext:
  assumes "xor_linear f" "xor_linear g" "basis f 8 = basis g 8"
  shows "f b = g (b :: u8)"
  using xor_span_byte [OF assms(1) refl, of b] xor_span_byte [OF assms(2) refl, of b] assms(3) by simp

lemma xor_linear_comp: "xor_linear f \<Longrightarrow> xor_linear g \<Longrightarrow> xor_linear (\<lambda>x. f (g x))"
  by (simp add: xor_linear_def)

lemma xor_linear_funpow: "xor_linear (f :: 'a::len word \<Rightarrow> 'a word) \<Longrightarrow> xor_linear (f ^^ n)"
  unfolding xor_linear_def by (induction n) simp_all

lemma xor_linear_inj:
  "xor_linear g \<Longrightarrow> (\<And>x. g x = 0 \<Longrightarrow> x = 0) \<Longrightarrow> g a = g b \<longleftrightarrow> a = b"
  unfolding xor_linear_def by (metis xor_self_eq xor.assoc xor.right_neutral)
end
