(* ===== verification/Crc.thy ===== *)
theory Crc
  imports Xor_Linear
begin

text \<open>
  The cyclic redundancy checks of the firmware.

  \<^item> \<open>calcCRC\<close> (\<open>src/project/tsct2007a/tsctobd.c\<close>): the table-driven CRC-16 with polynomial 0x1021 of
    the OBD/IDA link.
  \<^item> \<open>CalcuCRC16\<close> and \<open>TsctCrc16\<close> (\<open>tsctcommon.c\<close>, tables of \<open>crc16table.h\<close>): the Modbus CRC, once on a
    16-bit register and once on two separate bytes.

  Each is shown equal to the bit-serial shift register that defines the code, and the detection power
  (every corruption confined to two adjacent bytes changes the checksum) is proved once in the locale
  \<open>byte_crc\<close> and obtained for both registers by interpretation.
\<close>

section \<open>The tables\<close>

definition crc16tab :: "u16 list" where
  "crc16tab = [
    0x0000, 0x1021, 0x2042, 0x3063, 0x4084, 0x50A5, 0x60C6, 0x70E7,
    0x8108, 0x9129, 0xA14A, 0xB16B, 0xC18C, 0xD1AD, 0xE1CE, 0xF1EF,
    0x1231, 0x0210, 0x3273, 0x2252, 0x52B5, 0x4294, 0x72F7, 0x62D6,
    0x9339, 0x8318, 0xB37B, 0xA35A, 0xD3BD, 0xC39C, 0xF3FF, 0xE3DE,
    0x2462, 0x3443, 0x0420, 0x1401, 0x64E6, 0x74C7, 0x44A4, 0x5485,
    0xA56A, 0xB54B, 0x8528, 0x9509, 0xE5EE, 0xF5CF, 0xC5AC, 0xD58D,
    0x3653, 0x2672, 0x1611, 0x0630, 0x76D7, 0x66F6, 0x5695, 0x46B4,
    0xB75B, 0xA77A, 0x9719, 0x8738, 0xF7DF, 0xE7FE, 0xD79D, 0xC7BC,
    0x48C4, 0x58E5, 0x6886, 0x78A7, 0x0840, 0x1861, 0x2802, 0x3823,
    0xC9CC, 0xD9ED, 0xE98E, 0xF9AF, 0x8948, 0x9969, 0xA90A, 0xB92B,
    0x5AF5, 0x4AD4, 0x7AB7, 0x6A96, 0x1A71, 0x0A50, 0x3A33, 0x2A12,
    0xDBFD, 0xCBDC, 0xFBBF, 0xEB9E, 0x9B79, 0x8B58, 0xBB3B, 0xAB1A,
    0x6CA6, 0x7C87, 0x4CE4, 0x5CC5, 0x2C22, 0x3C03, 0x0C60, 0x1C41,
    0xEDAE, 0xFD8F, 0xCDEC, 0xDDCD, 0xAD2A, 0xBD0B, 0x8D68, 0x9D49,
    0x7E97, 0x6EB6, 0x5ED5, 0x4EF4, 0x3E13, 0x2E32, 0x1E51, 0x0E70,
    0xFF9F, 0xEFBE, 0xDFDD, 0xCFFC, 0xBF1B, 0xAF3A, 0x9F59, 0x8F78,
    0x9188, 0x81A9, 0xB1CA, 0xA1EB, 0xD10C, 0xC12D, 0xF14E, 0xE16F,
    0x1080, 0x00A1, 0x30C2, 0x20E3, 0x5004, 0x4025, 0x7046, 0x6067,
    0x83B9, 0x9398, 0xA3FB, 0xB3DA, 0xC33D, 0xD31C, 0xE37F, 0xF35E,
    0x02B1, 0x1290, 0x22F3, 0x32D2, 0x4235, 0x5214, 0x6277, 0x7256,
    0xB5EA, 0xA5CB, 0x95A8, 0x8589, 0xF56E, 0xE54F, 0xD52C, 0xC50D,
    0x34E2, 0x24C3, 0x14A0, 0x0481, 0x7466, 0x6447, 0x5424, 0x4405,
    0xA7DB, 0xB7FA, 0x8799, 0x97B8, 0xE75F, 0xF77E, 0xC71D, 0xD73C,
    0x26D3, 0x36F2, 0x0691, 0x16B0, 0x6657, 0x7676, 0x4615, 0x5634,
    0xD94C, 0xC96D, 0xF90E, 0xE92F, 0x99C8, 0x89E9, 0xB98A, 0xA9AB,
    0x5844, 0x4865, 0x7806, 0x6827, 0x18C0, 0x08E1, 0x3882, 0x28A3,
    0xCB7D, 0xDB5C, 0xEB3F, 0xFB1E, 0x8BF9, 0x9BD8, 0xABBB, 0xBB9A,
    0x4A75, 0x5A54, 0x6A37, 0x7A16, 0x0AF1, 0x1AD0, 0x2AB3, 0x3A92,
    0xFD2E, 0xED0F, 0xDD6C, 0xCD4D, 0xBDAA, 0xAD8B, 0x9DE8, 0x8DC9,
    0x7C26, 0x6C07, 0x5C64, 0x4C45, 0x3CA2, 0x2C83, 0x1CE0, 0x0CC1,
    0xEF1F, 0xFF3E, 0xCF5D, 0xDF7C, 0xAF9B, 0xBFBA, 0x8FD9, 0x9FF8,
    0x6E17, 0x7E36, 0x4E55, 0x5E74, 0x2E93, 0x3EB2, 0x0ED1, 0x1EF0]"

definition CRC16_TABLE :: "u16 list" where
  "CRC16_TABLE = [
    0x0000, 0xC0C1, 0xC181, 0x0140, 0xC301, 0x03C0, 0x0280, 0xC241,
    0xC601, 0x06C0, 0x0780, 0xC741, 0x0500, 0xC5C1, 0xC481, 0x0440,
    0xCC01, 0x0CC0, 0x0D80, 0xCD41, 0x0F00, 0xCFC1, 0xCE81, 0x0E40,
    0x0A00, 0xCAC1, 0xCB81, 0x0B40, 0xC901, 0x09C0, 0x0880, 0xC841,
    0xD801, 0x18C0, 0x1980, 0xD941, 0x1B00, 0xDBC1, 0xDA81, 0x1A40,
    0x1E00, 0xDEC1, 0xDF81, 0x1F40, 0xDD01, 0x1DC0, 0x1C80, 0xDC41,
    0x1400, 0xD4C1, 0xD581, 0x1540, 0xD701, 0x17C0, 0x1680, 0xD641,
    0xD201, 0x12C0, 0x1380, 0xD341, 0x1100, 0xD1C1, 0xD081, 0x1040,
    0xF001, 0x30C0, 0x3180, 0xF141, 0x3300, 0xF3C1, 0xF281, 0x3240,
    0x3600, 0xF6C1, 0xF781, 0x3740, 0xF501, 0x35C0, 0x3480, 0xF441,
    0x3C00, 0xFCC1, 0xFD81, 0x3D40, 0xFF01, 0x3FC0, 0x3E80, 0xFE41,
    0xFA01, 0x3AC0, 0x3B80, 0xFB41, 0x3900, 0xF9C1, 0xF881, 0x3840,
    0x2800, 0xE8C1, 0xE981, 0x2940, 0xEB01, 0x2BC0, 0x2A80, 0xEA41,
    0xEE01, 0x2EC0, 0x2F80, 0xEF41, 0x2D00, 0xEDC1, 0xEC81, 0x2C40,
    0xE401, 0x24C0, 0x2580, 0xE541, 0x2700, 0xE7C1, 0xE681, 0x2640,
    0x2200, 0xE2C1, 0xE381, 0x2340, 0xE101, 0x21C0, 0x2080, 0xE041,
    0xA001, 0x60C0, 0x6180, 0xA141, 0x6300, 0xA3C1, 0xA281, 0x6240,
    0x6600, 0xA6C1, 0xA781, 0x6740, 0xA501, 0x65C0, 0x6480, 0xA441,
    0x6C00, 0xACC1, 0xAD81, 0x6D40, 0xAF01, 0x6FC0, 0x6E80, 0xAE41,
    0xAA01, 0x6AC0, 0x6B80, 0xAB41, 0x6900, 0xA9C1, 0xA881, 0x6840,
    0x7800, 0xB8C1, 0xB981, 0x7940, 0xBB01, 0x7BC0, 0x7A80, 0xBA41,
    0xBE01, 0x7EC0, 0x7F80, 0xBF41, 0x7D00, 0xBDC1, 0xBC81, 0x7C40,
    0xB401, 0x74C0, 0x7580, 0xB541, 0x7700, 0xB7C1, 0xB681, 0x7640,
    0x7200, 0xB2C1, 0xB381, 0x7340, 0xB101, 0x71C0, 0x7080, 0xB041,
    0x5000, 0x90C1, 0x9181, 0x5140, 0x9301, 0x53C0, 0x5280, 0x9241,
    0x9601, 0x56C0, 0x5780, 0x9741, 0x5500, 0x95C1, 0x9481, 0x5440,
    0x9C01, 0x5CC0, 0x5D80, 0x9D41, 0x5F00, 0x9FC1, 0x9E81, 0x5E40,
    0x5A00, 0x9AC1, 0x9B81, 0x5B40, 0x9901, 0x59C0, 0x5880, 0x9841,
    0x8801, 0x48C0, 0x4980, 0x8941, 0x4B00, 0x8BC1, 0x8A81, 0x4A40,
    0x4E00, 0x8EC1, 0x8F81, 0x4F40, 0x8D01, 0x4DC0, 0x4C80, 0x8C41,
    0x4400, 0x84C1, 0x8581, 0x4540, 0x8701, 0x47C0, 0x4680, 0x8641,
    0x8201, 0x42C0, 0x4380, 0x8341, 0x4100, 0x81C1, 0x8081, 0x4040]"

definition table_crc_hi :: "u8 list" where
  "table_crc_hi = [
    0x00, 0xC1, 0x81, 0x40, 0x01, 0xC0, 0x80, 0x41, 0x01, 0xC0, 0x80, 0x41, 0x00, 0xC1, 0x81, 0x40,
    0x01, 0xC0, 0x80, 0x41, 0x00, 0xC1, 0x81, 0x40, 0x00, 0xC1, 0x81, 0x40, 0x01, 0xC0, 0x80, 0x41,
    0x01, 0xC0, 0x80, 0x41, 0x00, 0xC1, 0x81, 0x40, 0x00, 0xC1, 0x81, 0x40, 0x01, 0xC0, 0x80, 0x41,
    0x00, 0xC1, 0x81, 0x40, 0x01, 0xC0, 0x80, 0x41, 0x01, 0xC0, 0x80, 0x41, 0x00, 0xC1, 0x81, 0x40,
    0x01, 0xC0, 0x80, 0x41, 0x00, 0xC1, 0x81, 0x40, 0x00, 0xC1, 0x81, 0x40, 0x01, 0xC0, 0x80, 0x41,
    0x00, 0xC1, 0x81, 0x40, 0x01, 0xC0, 0x80, 0x41, 0x01, 0xC0, 0x80, 0x41, 0x00, 0xC1, 0x81, 0x40,
    0x00, 0xC1, 0x81, 0x40, 0x01, 0xC0, 0x80, 0x41, 0x01, 0xC0, 0x80, 0x41, 0x00, 0xC1, 0x81, 0x40,
    0x01, 0xC0, 0x80, 0x41, 0x00, 0xC1, 0x81, 0x40, 0x00, 0xC1, 0x81, 0x40, 0x01, 0xC0, 0x80, 0x41,
    0x01, 0xC0, 0x80, 0x41, 0x00, 0xC1, 0x81, 0x40, 0x00, 0xC1, 0x81, 0x40, 0x01, 0xC0, 0x80, 0x41,
    0x00, 0xC1, 0x81, 0x40, 0x01, 0xC0, 0x80, 0x41, 0x01, 0xC0, 0x80, 0x41, 0x00, 0xC1, 0x81, 0x40,
    0x00, 0xC1, 0x81, 0x40, 0x01, 0xC0, 0x80, 0x41, 0x01, 0xC0, 0x80, 0x41, 0x00, 0xC1, 0x81, 0x40,
    0x01, 0xC0, 0x80, 0x41, 0x00, 0xC1, 0x81, 0x40, 0x00, 0xC1, 0x81, 0x40, 0x01, 0xC0, 0x80, 0x41,
    0x00, 0xC1, 0x81, 0x40, 0x01, 0xC0, 0x80, 0x41, 0x01, 0xC0, 0x80, 0x41, 0x00, 0xC1, 0x81, 0x40,
    0x01, 0xC0, 0x80, 0x41, 0x00, 0xC1, 0x81, 0x40, 0x00, 0xC1, 0x81, 0x40, 0x01, 0xC0, 0x80, 0x41,
    0x01, 0xC0, 0x80, 0x41, 0x00, 0xC1, 0x81, 0x40, 0x00, 0xC1, 0x81, 0x40, 0x01, 0xC0, 0x80, 0x41,
    0x00, 0xC1, 0x81, 0x40, 0x01, 0xC0, 0x80, 0x41, 0x01, 0xC0, 0x80, 0x41, 0x00, 0xC1, 0x81, 0x40]"

definition table_crc_lo :: "u8 list" where
  "table_crc_lo = [
    0x00, 0xC0, 0xC1, 0x01, 0xC3, 0x03, 0x02, 0xC2, 0xC6, 0x06, 0x07, 0xC7, 0x05, 0xC5, 0xC4, 0x04,
    0xCC, 0x0C, 0x0D, 0xCD, 0x0F, 0xCF, 0xCE, 0x0E, 0x0A, 0xCA, 0xCB, 0x0B, 0xC9, 0x09, 0x08, 0xC8,
    0xD8, 0x18, 0x19, 0xD9, 0x1B, 0xDB, 0xDA, 0x1A, 0x1E, 0xDE, 0xDF, 0x1F, 0xDD, 0x1D, 0x1C, 0xDC,
    0x14, 0xD4, 0xD5, 0x15, 0xD7, 0x17, 0x16, 0xD6, 0xD2, 0x12, 0x13, 0xD3, 0x11, 0xD1, 0xD0, 0x10,
    0xF0, 0x30, 0x31, 0xF1, 0x33, 0xF3, 0xF2, 0x32, 0x36, 0xF6, 0xF7, 0x37, 0xF5, 0x35, 0x34, 0xF4,
    0x3C, 0xFC, 0xFD, 0x3D, 0xFF, 0x3F, 0x3E, 0xFE, 0xFA, 0x3A, 0x3B, 0xFB, 0x39, 0xF9, 0xF8, 0x38,
    0x28, 0xE8, 0xE9, 0x29, 0xEB, 0x2B, 0x2A, 0xEA, 0xEE, 0x2E, 0x2F, 0xEF, 0x2D, 0xED, 0xEC, 0x2C,
    0xE4, 0x24, 0x25, 0xE5, 0x27, 0xE7, 0xE6, 0x26, 0x22, 0xE2, 0xE3, 0x23, 0xE1, 0x21, 0x20, 0xE0,
    0xA0, 0x60, 0x61, 0xA1, 0x63, 0xA3, 0xA2, 0x62, 0x66, 0xA6, 0xA7, 0x67, 0xA5, 0x65, 0x64, 0xA4,
    0x6C, 0xAC, 0xAD, 0x6D, 0xAF, 0x6F, 0x6E, 0xAE, 0xAA, 0x6A, 0x6B, 0xAB, 0x69, 0xA9, 0xA8, 0x68,
    0x78, 0xB8, 0xB9, 0x79, 0xBB, 0x7B, 0x7A, 0xBA, 0xBE, 0x7E, 0x7F, 0xBF, 0x7D, 0xBD, 0xBC, 0x7C,
    0xB4, 0x74, 0x75, 0xB5, 0x77, 0xB7, 0xB6, 0x76, 0x72, 0xB2, 0xB3, 0x73, 0xB1, 0x71, 0x70, 0xB0,
    0x50, 0x90, 0x91, 0x51, 0x93, 0x53, 0x52, 0x92, 0x96, 0x56, 0x57, 0x97, 0x55, 0x95, 0x94, 0x54,
    0x9C, 0x5C, 0x5D, 0x9D, 0x5F, 0x9F, 0x9E, 0x5E, 0x5A, 0x9A, 0x9B, 0x5B, 0x99, 0x59, 0x58, 0x98,
    0x88, 0x48, 0x49, 0x89, 0x4B, 0x8B, 0x8A, 0x4A, 0x4E, 0x8E, 0x8F, 0x4F, 0x8D, 0x4D, 0x4C, 0x8C,
    0x44, 0x84, 0x85, 0x45, 0x87, 0x47, 0x46, 0x86, 0x82, 0x42, 0x43, 0x83, 0x41, 0x81, 0x80, 0x40]"

section \<open>The checksum functions\<close>

text \<open>\<open>calcCRC\<close>: one loop iteration and the loop over \<open>len\<close> bytes from register 0.\<close>

definition calcCRC_step :: "u16 \<Rightarrow> u8 \<Rightarrow> u16" where
  "calcCRC_step crc b =
     push_bit 8 crc XOR crc16tab ! unat ((drop_bit 8 crc XOR ucast b) AND 0x00FF)"

definition calcCRC :: "bytes \<Rightarrow> u16" where
  "calcCRC crcdata = foldl calcCRC_step 0 crcdata"

text \<open>\<open>CalcuCRC16\<close>: \<open>data\<close> is \<open>const char *\<close>, so the byte is sign-extended before the XOR; the mask keeps
  its low eight bits.\<close>

definition CalcuCRC16_step :: "u16 \<Rightarrow> u8 \<Rightarrow> u16" where
  "CalcuCRC16_step crc b =
     (let x = crc XOR scast b in drop_bit 8 crc XOR CRC16_TABLE ! unat (x AND 0x00FF))"

definition CalcuCRC16 :: "bytes \<Rightarrow> u16" where
  "CalcuCRC16 data = foldl CalcuCRC16_step 0xFFFF data"

text \<open>\<open>TsctCrc16\<close>: the register is the pair \<open>(crc_hi, crc_lo)\<close>.\<close>

definition TsctCrc16_step :: "u8 \<times> u8 \<Rightarrow> u8 \<Rightarrow> u8 \<times> u8" where
  "TsctCrc16_step r b =
     (let i = unat (fst r XOR b) in (snd r XOR table_crc_hi ! i, table_crc_lo ! i))"

definition TsctCrc16 :: "bytes \<Rightarrow> u16" where
  "TsctCrc16 buffer =
     (let r = foldl TsctCrc16_step (0xFF, 0xFF) buffer
      in push_bit 8 (ucast (fst r)) OR ucast (snd r))"

section \<open>Bit-serial reference registers\<close>

text \<open>One shift of the register: most significant bit first with polynomial 0x1021, and least significant
  bit first with the reflected polynomial 0xA001.\<close>

definition lfsr_ccitt :: "u16 \<Rightarrow> u16" where
  "lfsr_ccitt w = push_bit 1 w XOR (if bit w 15 then 0x1021 else 0)"

definition lfsr_modbus :: "u16 \<Rightarrow> u16" where
  "lfsr_modbus w = drop_bit 1 w XOR (if bit w 0 then 0xA001 else 0)"

definition emb_ccitt :: "u8 \<Rightarrow> u16" where
  "emb_ccitt b = push_bit 8 (ucast b)"

definition emb_modbus :: "u8 \<Rightarrow> u16" where
  "emb_modbus b = ucast b"

text \<open>The register that takes in a byte and shifts eight times, over a whole message.\<close>

definition crc_serial :: "(u16 \<Rightarrow> u16) \<Rightarrow> (u8 \<Rightarrow> u16) \<Rightarrow> u16 \<Rightarrow> bytes \<Rightarrow> u16" where
  "crc_serial lfsr emb init bs = foldl (\<lambda>c b. (lfsr ^^ 8) (c XOR emb b)) init bs"

section \<open>What a byte-wise checksum register promises\<close>

locale byte_crc =
  fixes lfsr :: "u16 \<Rightarrow> u16"
    and emb :: "u8 \<Rightarrow> u16"
    and step :: "u16 \<Rightarrow> u8 \<Rightarrow> u16"
  assumes step_serial: "step c b = (lfsr ^^ 8) (c XOR emb b)"
    and lfsr_linear: "xor_linear lfsr"
    and lfsr_zero: "lfsr w = 0 \<Longrightarrow> w = 0"
    and emb_linear: "xor_linear emb"
    and emb_zero: "emb b = 0 \<Longrightarrow> b = 0"
    and no_alias: "(lfsr ^^ 8) (emb a) = emb b \<Longrightarrow> a = 0"
begin

lemma foldl_serial: "foldl step c bs = crc_serial lfsr emb c bs"
proof -
  have "step = (\<lambda>c b. (lfsr ^^ 8) (c XOR emb b))"
    by (intro ext) (rule step_serial)
  then show ?thesis by (simp only: crc_serial_def)
qed

lemma funpow_zero: "(lfsr ^^ n) w = 0 \<Longrightarrow> w = 0"
  by (induction n) (auto dest: lfsr_zero)

lemma funpow_inj: "(lfsr ^^ n) v = (lfsr ^^ n) w \<longleftrightarrow> v = w"
  by (rule xor_linear_inj [OF xor_linear_funpow [OF lfsr_linear]]) (rule funpow_zero)

lemma emb_inj: "emb a = emb b \<longleftrightarrow> a = b"
  by (rule xor_linear_inj [OF emb_linear]) (rule emb_zero)

lemma step_inj: "step c b = step d b \<longleftrightarrow> c = d"
  by (simp add: step_serial funpow_inj xor_cancel_right)

lemma step_byte_inj: "step c a = step c b \<longleftrightarrow> a = b"
  by (simp add: step_serial funpow_inj xor_cancel_left emb_inj)

lemma foldl_inj: "foldl step c bs = foldl step d bs \<longleftrightarrow> c = d"
  by (induction bs arbitrary: c d) (auto simp: step_inj)

text \<open>A corruption confined to two adjacent bytes always changes the register.\<close>

lemma detects_two_bytes:
  assumes "foldl step c (xs @ [a, b] @ ys) = foldl step c (xs @ [a', b'] @ ys)"
  shows "a = a' \<and> b = b'"
proof -
  let ?c = "foldl step c xs" and ?f = "lfsr ^^ 8"
  have f: "?f (v XOR w) = ?f v XOR ?f w" for v w
    using xor_linear_funpow [OF lfsr_linear, of 8] by (simp add: xor_linear_def)
  have e: "emb (v XOR w) = emb v XOR emb w" for v w
    using emb_linear by (simp add: xor_linear_def)
  have "step (step ?c a) b = step (step ?c a') b'"
    using assms by (simp add: foldl_inj)
  then have "?f (?c XOR emb a) XOR emb b = ?f (?c XOR emb a') XOR emb b'"
    by (simp add: step_serial funpow_inj)
  then have "?f (emb (a XOR a')) = emb (b XOR b')"
    unfolding f e by (rule xor_rearrange)
  then have "a XOR a' = 0" by (rule no_alias)
  then have "a = a'" by (simp add: xor_eq_zero)
  then show ?thesis
    using \<open>step (step ?c a) b = step (step ?c a') b'\<close> by (simp add: step_byte_inj)
qed

end

section \<open>The two registers of the firmware\<close>

lemma lfsr_ccitt_linear: "xor_linear lfsr_ccitt"
  unfolding xor_linear_def
proof (intro allI)
  fix a b :: u16
  show "lfsr_ccitt (a XOR b) = lfsr_ccitt a XOR lfsr_ccitt b"
    by (cases "bit a 15"; cases "bit b 15")
       (simp_all add: lfsr_ccitt_def bit_xor_iff xor.assoc xor.commute xor.left_commute)
qed

lemma lfsr_modbus_linear: "xor_linear lfsr_modbus"
  unfolding xor_linear_def
proof (intro allI)
  fix a b :: u16
  show "lfsr_modbus (a XOR b) = lfsr_modbus a XOR lfsr_modbus b"
    by (cases "bit a 0"; cases "bit b 0")
       (simp_all add: lfsr_modbus_def bit_xor_iff xor.assoc xor.commute xor.left_commute)
qed

lemma lfsr_ccitt_zero: "lfsr_ccitt w = 0 \<Longrightarrow> w = 0"
proof -
  assume z: "lfsr_ccitt w = 0"
  have "bit (lfsr_ccitt w) 0 = bit w 15"
    unfolding lfsr_ccitt_def bit_xor_iff by (simp add: bit_0)
  then have top: "\<not> bit w 15" using z by simp
  then have p: "push_bit 1 w = 0" using z by (simp add: lfsr_ccitt_def)
  show ?thesis
  proof (rule bit_word_eqI)
    fix n assume n: "n < LENGTH(16)"
    have "bit (push_bit 1 w) (Suc n) = bit 0 (Suc n)" using p by simp
    then have "n < 15 \<longrightarrow> \<not> bit w n" by (simp only: bit_push_bit_iff) simp
    then show "bit w n = bit 0 n"
      using top n by (cases "n = 15") auto
  qed
qed

lemma lfsr_modbus_zero: "lfsr_modbus w = 0 \<Longrightarrow> w = 0"
proof -
  assume z: "lfsr_modbus w = 0"
  have "\<not> bit w 16" by (auto dest: bit_imp_le_length)
  then have "bit (lfsr_modbus w) 15 = bit w 0"
    by (simp add: lfsr_modbus_def bit_xor_iff bit_drop_bit_eq)
  then have low: "\<not> bit w 0" using z by simp
  then have p: "drop_bit 1 w = 0" using z by (simp add: lfsr_modbus_def)
  show ?thesis
  proof (rule bit_word_eqI)
    fix n assume n: "n < LENGTH(16)"
    show "bit w n = bit 0 n"
    proof (cases n)
      case 0
      then show ?thesis using low by simp
    next
      case (Suc m)
      have "bit (drop_bit 1 w) m = bit 0 m" using p by simp
      then show ?thesis using Suc by (simp add: bit_drop_bit_eq)
    qed
  qed
qed

lemma emb_ccitt_linear: "xor_linear emb_ccitt"
  unfolding xor_linear_def emb_ccitt_def
  by (auto intro!: bit_word_eqI simp: bit_simps)

lemma emb_modbus_linear: "xor_linear emb_modbus"
  unfolding xor_linear_def emb_modbus_def
  by (auto intro!: bit_word_eqI simp: bit_simps)

lemma basis_8: "basis g 8 = [g 128, g 64, g 32, g 16, g 8, g 4, g 2, g 1]"
  by (simp add: basis_def numeral_eq_Suc upt_rec)

lemma ccitt_bits: "map (lfsr_ccitt ^^ 8) [0x8000, 0x4000, 0x2000, 0x1000, 0x0800, 0x0400, 0x0200, 0x0100] = [0x9188, 0x48C4, 0x2462, 0x1231, 0x8108, 0x4084, 0x2042, 0x1021]"
  by code_simp

lemma crc16tab_span: "crc16tab = xor_span [0x9188, 0x48C4, 0x2462, 0x1231, 0x8108, 0x4084, 0x2042, 0x1021]"
  by code_simp

lemma basis_ccitt:
  "basis (\<lambda>b. (lfsr_ccitt ^^ 8) (emb_ccitt b)) 8 = [0x9188, 0x48C4, 0x2462, 0x1231, 0x8108, 0x4084, 0x2042, 0x1021]"
  using ccitt_bits by (simp add: basis_8 emb_ccitt_def)

lemma crc16tab_serial: "crc16tab ! unat b = (lfsr_ccitt ^^ 8) (emb_ccitt b)"
proof (rule xor_span_byte [where g = "\<lambda>b. (lfsr_ccitt ^^ 8) (emb_ccitt b)"])
  show "xor_linear (\<lambda>b. (lfsr_ccitt ^^ 8) (emb_ccitt b))"
    by (rule xor_linear_comp [OF xor_linear_funpow [OF lfsr_ccitt_linear] emb_ccitt_linear])
  show "crc16tab = xor_span (basis (\<lambda>b. (lfsr_ccitt ^^ 8) (emb_ccitt b)) 8)"
    by (simp only: basis_ccitt crc16tab_span)
qed

lemma modbus_bits: "map (lfsr_modbus ^^ 8) [128, 64, 32, 16, 8, 4, 2, 1] = [0xA001, 0xF001, 0xD801, 0xCC01, 0xC601, 0xC301, 0xC181, 0xC0C1]"
  by code_simp

lemma CRC16_TABLE_span: "CRC16_TABLE = xor_span [0xA001, 0xF001, 0xD801, 0xCC01, 0xC601, 0xC301, 0xC181, 0xC0C1]"
  by code_simp

lemma basis_modbus:
  "basis (\<lambda>b. (lfsr_modbus ^^ 8) (emb_modbus b)) 8 = [0xA001, 0xF001, 0xD801, 0xCC01, 0xC601, 0xC301, 0xC181, 0xC0C1]"
  using modbus_bits by (simp add: basis_8 emb_modbus_def)

lemma CRC16_TABLE_serial: "CRC16_TABLE ! unat b = (lfsr_modbus ^^ 8) (emb_modbus b)"
proof (rule xor_span_byte [where g = "\<lambda>b. (lfsr_modbus ^^ 8) (emb_modbus b)"])
  show "xor_linear (\<lambda>b. (lfsr_modbus ^^ 8) (emb_modbus b))"
    by (rule xor_linear_comp [OF xor_linear_funpow [OF lfsr_modbus_linear] emb_modbus_linear])
  show "CRC16_TABLE = xor_span (basis (\<lambda>b. (lfsr_modbus ^^ 8) (emb_modbus b)) 8)"
    by (simp only: basis_modbus CRC16_TABLE_span)
qed

text \<open>The byte that is not looked up is shifted through unchanged.\<close>

lemma shift_ccitt: "(lfsr_ccitt ^^ 8) (emb_modbus b) = emb_ccitt b"
proof (rule xor_linear_ext [where f = "\<lambda>b. (lfsr_ccitt ^^ 8) (emb_modbus b)"])
  show "xor_linear (\<lambda>b. (lfsr_ccitt ^^ 8) (emb_modbus b))"
    by (rule xor_linear_comp [OF xor_linear_funpow [OF lfsr_ccitt_linear] emb_modbus_linear])
  have "map (lfsr_ccitt ^^ 8) [128, 64, 32, 16, 8, 4, 2, 1] =
      [0x8000, 0x4000, 0x2000, 0x1000, 0x0800, 0x0400, 0x0200, 0x0100]"
    by code_simp
  then show "basis (\<lambda>b. (lfsr_ccitt ^^ 8) (emb_modbus b)) 8 = basis emb_ccitt 8"
    by (simp add: basis_8 emb_modbus_def emb_ccitt_def)
qed (rule emb_ccitt_linear)

lemma shift_modbus: "(lfsr_modbus ^^ 8) (emb_ccitt b) = emb_modbus b"
proof (rule xor_linear_ext [where f = "\<lambda>b. (lfsr_modbus ^^ 8) (emb_ccitt b)"])
  show "xor_linear (\<lambda>b. (lfsr_modbus ^^ 8) (emb_ccitt b))"
    by (rule xor_linear_comp [OF xor_linear_funpow [OF lfsr_modbus_linear] emb_ccitt_linear])
  have "map (lfsr_modbus ^^ 8) [0x8000, 0x4000, 0x2000, 0x1000, 0x0800, 0x0400, 0x0200, 0x0100] =
      [128, 64, 32, 16, 8, 4, 2, 1]"
    by code_simp
  then show "basis (\<lambda>b. (lfsr_modbus ^^ 8) (emb_ccitt b)) 8 = basis emb_modbus 8"
    by (simp add: basis_8 emb_modbus_def emb_ccitt_def)
qed (rule emb_modbus_linear)

lemma word_split: "crc = emb_modbus (lo8 crc) XOR emb_ccitt (hi8 crc)"
  unfolding emb_modbus_def emb_ccitt_def lo8_def hi8_def
  by (rule bit_word_eqI) (auto simp: bit_simps)

lemma and_FF: "w AND 0x00FF = take_bit 8 (w :: u16)"
  by (simp add: take_bit_eq_mask mask_eq_exp_minus_1)

lemma calcCRC_step_serial: "calcCRC_step crc b = (lfsr_ccitt ^^ 8) (crc XOR emb_ccitt b)"
proof -
  let ?f = "lfsr_ccitt ^^ 8"
  have f: "?f (v XOR w) = ?f v XOR ?f w" for v w
    using xor_linear_funpow [OF lfsr_ccitt_linear, of 8] by (simp add: xor_linear_def)
  have e: "emb_ccitt (v XOR w) = emb_ccitt v XOR emb_ccitt w" for v w
    using emb_ccitt_linear by (simp add: xor_linear_def)
  have i: "(drop_bit 8 crc XOR ucast b) AND 0x00FF = (ucast (hi8 crc XOR b) :: u16)"
    unfolding hi8_def and_FF
    by (rule bit_word_eqI) (auto simp: bit_simps dest: bit_imp_le_length)
  have "calcCRC_step crc b = emb_ccitt (lo8 crc) XOR ?f (emb_ccitt (hi8 crc XOR b))"
  proof -
    have "push_bit 8 crc = emb_ccitt (lo8 crc)"
      unfolding emb_ccitt_def lo8_def by (rule bit_word_eqI) (auto simp: bit_simps)
    then show ?thesis
      by (simp add: calcCRC_step_def i crc16tab_serial [symmetric])
  qed
  also have "\<dots> = ?f ((emb_modbus (lo8 crc) XOR emb_ccitt (hi8 crc)) XOR emb_ccitt b)"
    by (simp only: f e shift_ccitt xor.assoc)
  finally show ?thesis by (simp only: word_split [of crc, symmetric])
qed

lemma CalcuCRC16_step_index:
  "CalcuCRC16_step crc b = emb_modbus (hi8 crc) XOR CRC16_TABLE ! unat (lo8 crc XOR b)"
proof -
  have i: "(crc XOR scast b) AND 0x00FF = (ucast (lo8 crc XOR b) :: u16)"
    unfolding lo8_def and_FF
  proof (rule bit_word_eqI)
    fix n assume "n < LENGTH(16)"
    then show "bit (take_bit 8 (crc XOR scast b)) n = bit (ucast (ucast crc XOR b) :: u16) n"
      by (cases "n = 7"; cases "n < 7") (auto simp: bit_simps min_def dest: bit_imp_le_length)
  qed
  have "drop_bit 8 crc = emb_modbus (hi8 crc)"
    unfolding emb_modbus_def hi8_def
    by (rule bit_word_eqI) (auto simp: bit_simps dest: bit_imp_le_length)
  then show ?thesis
    by (simp add: CalcuCRC16_step_def i)
qed

lemma CalcuCRC16_step_serial: "CalcuCRC16_step crc b = (lfsr_modbus ^^ 8) (crc XOR emb_modbus b)"
proof -
  let ?f = "lfsr_modbus ^^ 8"
  have f: "?f (v XOR w) = ?f v XOR ?f w" for v w
    using xor_linear_funpow [OF lfsr_modbus_linear, of 8] by (simp add: xor_linear_def)
  have e: "emb_modbus (v XOR w) = emb_modbus v XOR emb_modbus w" for v w
    using emb_modbus_linear by (simp add: xor_linear_def)
  have "CalcuCRC16_step crc b = emb_modbus (hi8 crc) XOR ?f (emb_modbus (lo8 crc XOR b))"
    by (simp add: CalcuCRC16_step_index CRC16_TABLE_serial)
  also have "\<dots> = ?f ((emb_modbus (lo8 crc) XOR emb_ccitt (hi8 crc)) XOR emb_modbus b)"
    by (simp only: f e shift_modbus xor.assoc xor.left_commute)
  finally show ?thesis by (simp only: word_split [of crc, symmetric])
qed

lemma low_byte_ccitt: "0 \<notin> set (map lo8 (tl crc16tab))"
  by code_simp

lemma high_byte_modbus: "0 \<notin> set (map hi8 (tl CRC16_TABLE))"
  by code_simp

lemma nth_tl_byte:
  assumes "0 \<notin> set (map f (tl tab))" "length tab = 256" "f (tab ! unat b) = 0"
  shows "b = (0 :: u8)"
proof (rule ccontr)
  assume "b \<noteq> 0"
  then obtain n where n: "unat b = Suc n" by (metis not0_implies_Suc unat_eq_zero)
  have "f (tl tab ! n) \<in> set (map f (tl tab))"
    using assms(2) n unat_u8_less [of b] by (intro in_set_conv_nth [THEN iffD2]) auto
  then show False using assms n by (cases tab) auto
qed

interpretation ccitt: byte_crc lfsr_ccitt emb_ccitt calcCRC_step
proof unfold_locales
  show "b = 0" if "emb_ccitt b = 0" for b
  proof -
    have "b = hi8 (emb_ccitt b)"
      unfolding emb_ccitt_def hi8_def
      by (rule bit_word_eqI) (auto simp: bit_simps)
    then show ?thesis using that by (simp add: hi8_def)
  qed
  show "a = 0" if "(lfsr_ccitt ^^ 8) (emb_ccitt a) = emb_ccitt b" for a b
  proof (rule nth_tl_byte [OF low_byte_ccitt])
    have "lo8 (emb_ccitt b) = 0"
      unfolding emb_ccitt_def lo8_def by (rule bit_word_eqI) (auto simp: bit_simps)
    then show "lo8 (crc16tab ! unat a) = 0" using that by (simp add: crc16tab_serial)
  qed (simp add: crc16tab_def)
qed (rule calcCRC_step_serial lfsr_ccitt_linear emb_ccitt_linear | erule lfsr_ccitt_zero)+

interpretation modbus: byte_crc lfsr_modbus emb_modbus CalcuCRC16_step
proof unfold_locales
  show "b = 0" if "emb_modbus b = 0" for b
  proof -
    have "b = lo8 (emb_modbus b)"
      unfolding emb_modbus_def lo8_def
      by (rule bit_word_eqI) (auto simp: bit_simps)
    then show ?thesis using that by (simp add: lo8_def)
  qed
  show "a = 0" if "(lfsr_modbus ^^ 8) (emb_modbus a) = emb_modbus b" for a b
  proof (rule nth_tl_byte [OF high_byte_modbus])
    have "hi8 (emb_modbus b) = 0"
      unfolding emb_modbus_def hi8_def
      by (rule bit_word_eqI) (auto simp: bit_simps dest: bit_imp_le_length)
    then show "hi8 (CRC16_TABLE ! unat a) = 0" using that by (simp add: CRC16_TABLE_serial)
  qed (simp add: CRC16_TABLE_def)
qed (rule CalcuCRC16_step_serial lfsr_modbus_linear emb_modbus_linear | erule lfsr_modbus_zero)+


section \<open>The two-byte form of the Modbus register\<close>

lemma table_lo8: "map lo8 CRC16_TABLE = table_crc_hi"
  by code_simp

lemma table_hi8: "map hi8 CRC16_TABLE = table_crc_lo"
  by code_simp

lemma TsctCrc16_step_bytes:
  "TsctCrc16_step (lo8 c, hi8 c) b = (lo8 (CalcuCRC16_step c b), hi8 (CalcuCRC16_step c b))"
proof -
  have t: "length CRC16_TABLE = 256" by (simp add: CRC16_TABLE_def)
  have lo: "table_crc_hi ! unat i = lo8 (CRC16_TABLE ! unat i)" for i :: u8
    using arg_cong [OF table_lo8, of "\<lambda>l. l ! unat i"] by (simp add: t)
  have hi: "table_crc_lo ! unat i = hi8 (CRC16_TABLE ! unat i)" for i :: u8
    using arg_cong [OF table_hi8, of "\<lambda>l. l ! unat i"] by (simp add: t)
  have x: "lo8 (emb_modbus a XOR w) = a XOR lo8 w" "hi8 (emb_modbus a XOR w) = hi8 w" for a w
    unfolding emb_modbus_def lo8_def hi8_def
    by (rule bit_word_eqI; auto simp: bit_simps dest: bit_imp_le_length)+
  show ?thesis
    by (simp add: TsctCrc16_step_def CalcuCRC16_step_index lo hi x Let_def)
qed

lemma TsctCrc16_foldl:
  "foldl TsctCrc16_step (lo8 c, hi8 c) bs =
   (lo8 (foldl CalcuCRC16_step c bs), hi8 (foldl CalcuCRC16_step c bs))"
  by (induction bs arbitrary: c) (simp_all add: TsctCrc16_step_bytes)

section \<open>Properties\<close>

text \<open>C32. The table-driven \<open>calcCRC\<close> of the OBD link is the bit-serial CRC-16 with polynomial 0x1021 and
  initial value 0, for every message.\<close>

theorem calcCRC_is_serial: "calcCRC crcdata = crc_serial lfsr_ccitt emb_ccitt 0 crcdata"
  by (simp only: calcCRC_def ccitt.foldl_serial)

text \<open>\<open>CalcuCRC16\<close> is the bit-serial Modbus CRC (reflected polynomial 0xA001, initial value 0xFFFF), and
  \<open>TsctCrc16\<close>, which keeps the register in two bytes and uses two byte tables, returns the same value with
  its bytes exchanged.\<close>

theorem modbus_crc_is_serial:
  "CalcuCRC16 data = crc_serial lfsr_modbus emb_modbus 0xFFFF data \<and>
   TsctCrc16 data = le16 (hi8 (CalcuCRC16 data)) (lo8 (CalcuCRC16 data))"
proof
  show "CalcuCRC16 data = crc_serial lfsr_modbus emb_modbus 0xFFFF data"
    by (simp only: CalcuCRC16_def modbus.foldl_serial)
  have "(0xFF, 0xFF) = (lo8 0xFFFF, hi8 0xFFFF)" by (simp add: lo8_def hi8_def)
  then show "TsctCrc16 data = le16 (hi8 (CalcuCRC16 data)) (lo8 (CalcuCRC16 data))"
    by (simp only: TsctCrc16_def CalcuCRC16_def TsctCrc16_foldl Let_def fst_conv snd_conv le16_def or.commute)
qed

text \<open>C33. Both checksums detect every corruption that is confined to two adjacent bytes, wherever it is
  in a message of any length: the checksums of two such messages agree only if the messages do.\<close>

theorem crc_detects_two_bytes:
  "(calcCRC (xs @ [a, b] @ ys) = calcCRC (xs @ [a', b'] @ ys) \<longleftrightarrow> a = a' \<and> b = b') \<and>
   (CalcuCRC16 (xs @ [a, b] @ ys) = CalcuCRC16 (xs @ [a', b'] @ ys) \<longleftrightarrow> a = a' \<and> b = b')"
  unfolding calcCRC_def CalcuCRC16_def
  using ccitt.detects_two_bytes [of 0 xs a b ys a' b'] modbus.detects_two_bytes [of "0xFFFF" xs a b ys a' b']
  by blast

end
