(* ===== verification/Ring.thy ===== *)
theory Ring
  imports Prelude
begin

text \<open>
  The byte queue between the serial readers and the protocol tasks (\<open>ReadQueue\<close> of
  \<open>src/project/tsct2007a/tsctcommon.h\<close>, operations of \<open>tsctcommon.c\<close>): a ring of 64 slots in which
  \<open>front\<close> is the last slot read and \<open>rear\<close> the last slot written, so that it holds at most 63 bytes.

  The locale \<open>byte_fifo\<close> states what the users of the queue rely on (a bounded first-in first-out list);
  the ring implements it by interpretation.
\<close>

section \<open>Model\<close>

definition READ_QUEUE_SIZE :: int where
  "READ_QUEUE_SIZE = 64"

record ReadQueue =
  queue :: bytes
  rear :: int
  front :: int

definition ReadQueueInit :: "ReadQueue \<Rightarrow> ReadQueue" where
  "ReadQueueInit q = q\<lparr>front := 0, rear := 0\<rparr>"

definition ReadQueueIsEmpty :: "ReadQueue \<Rightarrow> bool" where
  "ReadQueueIsEmpty q \<longleftrightarrow> front q = rear q"

definition ReadQueueIsFull :: "ReadQueue \<Rightarrow> bool" where
  "ReadQueueIsFull q \<longleftrightarrow> (rear q + 1) mod READ_QUEUE_SIZE = front q"

text \<open>\<open>None\<close> is an access outside the 64 slots.\<close>

definition ReadQueueEnqueue :: "ReadQueue \<Rightarrow> u8 \<Rightarrow> ReadQueue option" where
  "ReadQueueEnqueue q c =
     (if ReadQueueIsFull q then Some q
      else do {
        let r = (rear q + 1) mod READ_QUEUE_SIZE;
        b \<leftarrow> wr (queue q) (nat r) c;
        Some (q\<lparr>rear := r, queue := b\<rparr>)
      })"

definition ReadQueueDequeue :: "ReadQueue \<Rightarrow> (u8 \<times> ReadQueue) option" where
  "ReadQueueDequeue q =
     (if ReadQueueIsEmpty q then Some (0, q)
      else do {
        let f = (front q + 1) mod READ_QUEUE_SIZE;
        c \<leftarrow> rdi (queue q) f;
        Some (c, q\<lparr>front := f\<rparr>)
      })"

definition GetQueueDataNum :: "ReadQueue \<Rightarrow> int" where
  "GetQueueDataNum q =
     (let nSize = rear q - front q
      in if nSize < 0 then nSize + READ_QUEUE_SIZE else nSize)"

text \<open>Storing a block of bytes one by one, as the reader tasks do, and taking \<open>n\<close> bytes.\<close>

primrec enq_all :: "('q \<Rightarrow> u8 \<Rightarrow> 'q option) \<Rightarrow> bytes \<Rightarrow> 'q \<Rightarrow> 'q option" where
  "enq_all enq [] q = Some q"
| "enq_all enq (c # cs) q = Option.bind (enq q c) (enq_all enq cs)"

primrec deq_n :: "('q \<Rightarrow> (u8 \<times> 'q) option) \<Rightarrow> nat \<Rightarrow> 'q \<Rightarrow> (bytes \<times> 'q) option" where
  "deq_n deq 0 q = Some ([], q)"
| "deq_n deq (Suc n) q =
     Option.bind (deq q) (\<lambda>(c, q'). Option.bind (deq_n deq n q') (\<lambda>(cs, q''). Some (c # cs, q'')))"

text \<open>The loop with which the tasks empty the queue into a response buffer; the first argument is the room left
  (\<open>200 - size\<close> where the code bounds \<open>size\<close> by 200).  \<open>drain_whole\<close> is the loop without a bound: a byte more than
  the buffer holds is a store outside it.\<close>

fun drain_queue :: "nat \<Rightarrow> ReadQueue \<Rightarrow> bytes \<Rightarrow> nat \<Rightarrow> (ReadQueue \<times> bytes \<times> nat) option" where
  "drain_queue 0 q response sz = Some (q, response, sz)"
| "drain_queue (Suc n) q response sz =
     (if ReadQueueIsEmpty q then Some (q, response, sz)
      else do {
        (c, q) \<leftarrow> ReadQueueDequeue q;
        response \<leftarrow> wr response sz c;
        drain_queue n q response (Suc sz)
      })"

definition drain_whole :: "ReadQueue \<Rightarrow> bytes \<Rightarrow> (ReadQueue \<times> bytes \<times> nat) option" where
  "drain_whole q response = do {
     (q, response, sz) \<leftarrow> drain_queue (length response) q response 0;
     if ReadQueueIsEmpty q then Some (q, response, sz) else None
   }"

section \<open>The interface: a bounded queue of bytes\<close>

locale byte_fifo =
  fixes inv :: "'q \<Rightarrow> bool"
    and abs :: "'q \<Rightarrow> bytes"
    and cap :: nat
    and enq :: "'q \<Rightarrow> u8 \<Rightarrow> 'q option"
    and deq :: "'q \<Rightarrow> (u8 \<times> 'q) option"
    and size :: "'q \<Rightarrow> int"
  assumes abs_cap: "inv q \<Longrightarrow> length (abs q) \<le> cap"
    and size_abs: "inv q \<Longrightarrow> size q = int (length (abs q))"
    and enq_room: "inv q \<Longrightarrow> length (abs q) < cap \<Longrightarrow>
           \<exists>q'. enq q c = Some q' \<and> inv q' \<and> abs q' = abs q @ [c]"
    and enq_full: "inv q \<Longrightarrow> length (abs q) = cap \<Longrightarrow> enq q c = Some q"
    and deq_cons: "inv q \<Longrightarrow> abs q = x # xs \<Longrightarrow>
           \<exists>q'. deq q = Some (x, q') \<and> inv q' \<and> abs q' = xs"
    and deq_nil: "inv q \<Longrightarrow> abs q = [] \<Longrightarrow> deq q = Some (0, q)"
begin

lemma enq_step:
  assumes "inv q"
  shows "\<exists>q'. enq q c = Some q' \<and> inv q' \<and> abs q' = take cap (abs q @ [c])"
proof (cases "length (abs q) < cap")
  case True
  then show ?thesis using enq_room [OF assms True, of c] by auto
next
  case False
  then have "length (abs q) = cap" using abs_cap [OF assms] by simp
  then show ?thesis using enq_full [OF assms, of c] assms by auto
qed

lemma enq_all_ok:
  "inv q \<Longrightarrow> \<exists>q'. enq_all enq cs q = Some q' \<and> inv q' \<and> abs q' = take cap (abs q @ cs)"
proof (induction cs arbitrary: q)
  case Nil
  then show ?case using abs_cap by auto
next
  case (Cons c cs)
  obtain q1 where q1: "enq q c = Some q1" "inv q1" "abs q1 = take cap (abs q @ [c])"
    using enq_step [OF Cons.prems] by blast
  obtain q2 where q2: "enq_all enq cs q1 = Some q2" "inv q2" "abs q2 = take cap (abs q1 @ cs)"
    using Cons.IH [OF q1(2)] by blast
  have "take cap (take cap (abs q @ [c]) @ cs) = take cap (abs q @ c # cs)"
    using abs_cap [OF Cons.prems] by (cases "length (abs q) = cap") auto
  then show ?case using q1 q2 by auto
qed

lemma deq_n_ok:
  "inv q \<Longrightarrow> n \<le> length (abs q) \<Longrightarrow>
   \<exists>q'. deq_n deq n q = Some (take n (abs q), q') \<and> inv q' \<and> abs q' = drop n (abs q)"
proof (induction n arbitrary: q)
  case (Suc n)
  then obtain x xs where x: "abs q = x # xs" by (cases "abs q") auto
  obtain q1 where q1: "deq q = Some (x, q1)" "inv q1" "abs q1 = xs"
    using deq_cons [OF Suc.prems(1) x] by blast
  obtain q2 where "deq_n deq n q1 = Some (take n (abs q1), q2)" "inv q2" "abs q2 = drop n (abs q1)"
    using Suc.IH [OF q1(2)] Suc.prems(2) q1(3) x by auto
  then show ?case using q1 x by auto
qed simp

text \<open>A block that fits comes out unchanged and in order.\<close>

lemma transfer:
  assumes "inv q" "abs q = []" "length cs \<le> cap"
  shows "\<exists>q' q''. enq_all enq cs q = Some q' \<and> deq_n deq (length cs) q' = Some (cs, q'') \<and> abs q'' = []"
proof -
  obtain q' where q': "enq_all enq cs q = Some q'" "inv q'" "abs q' = cs"
    using enq_all_ok [OF assms(1), of cs] assms by auto
  then show ?thesis using deq_n_ok [OF q'(2), of "length cs"] by auto
qed

end

section \<open>The ring implements it\<close>

definition ring_inv :: "ReadQueue \<Rightarrow> bool" where
  "ring_inv q \<longleftrightarrow> length (queue q) = 64 \<and> 0 \<le> front q \<and> front q < 64 \<and> 0 \<le> rear q \<and> rear q < 64"

definition ring_list :: "ReadQueue \<Rightarrow> bytes" where
  "ring_list q =
     map (\<lambda>k. queue q ! nat ((front q + 1 + int k) mod 64)) [0..<nat ((rear q - front q) mod 64)]"

lemma ring_list_length:
  "ring_inv q \<Longrightarrow> int (length (ring_list q)) = (rear q - front q) mod 64"
  by (simp add: ring_list_def)

lemma mod64_diff:
  assumes "0 \<le> (f::int)" "f < 64" "0 \<le> r" "r < 64"
  shows "(r - f) mod 64 = (if f \<le> r then r - f else r - f + 64)"
proof (cases "f \<le> r")
  case False
  have "(r - f) mod 64 = (r - f + 64) mod 64" by (rule mod_add_self2 [symmetric])
  also have "\<dots> = r - f + 64" by (rule mod_pos_pos_trivial) (use False assms in auto)
  finally show ?thesis using False by simp
qed (use assms in simp)

lemma mod64_add:
  assumes "0 \<le> (f::int)" "f < 64" "0 \<le> k" "k \<le> 64"
  shows "(f + k) mod 64 = (if f + k < 64 then f + k else f + k - 64)"
proof (cases "f + k < 64")
  case False
  have "(f + k) mod 64 = (f + k - 64 + 64) mod 64" by simp
  also have "\<dots> = (f + k - 64) mod 64" by (rule mod_add_self2)
  also have "\<dots> = f + k - 64" by (rule mod_pos_pos_trivial) (use False assms in auto)
  finally show ?thesis using False by simp
qed (use assms in simp)

lemmas mod64_succ = mod64_add [of _ 1, simplified]

lemma ring_list_nth:
  "k < length (ring_list q) \<Longrightarrow> ring_list q ! k = queue q ! nat ((front q + 1 + int k) mod 64)"
  by (simp add: ring_list_def)

interpretation ring: byte_fifo ring_inv ring_list 63 ReadQueueEnqueue ReadQueueDequeue GetQueueDataNum
proof
  fix q assume q: "ring_inv q"
  show "length (ring_list q) \<le> 63"
    using q by (auto simp: ring_inv_def ring_list_def mod64_diff)
  show "GetQueueDataNum q = int (length (ring_list q))"
    using q by (auto simp: ring_inv_def ring_list_length GetQueueDataNum_def READ_QUEUE_SIZE_def mod64_diff)
next
  fix q c assume q: "ring_inv q" and full: "length (ring_list q) = 63"
  then have "(rear q - front q) mod 64 = 63" using ring_list_length [OF q] by simp
  then have "(rear q + 1) mod 64 = front q"
    using q by (auto simp: ring_inv_def mod64_diff mod64_succ split: if_splits)
  then show "ReadQueueEnqueue q c = Some q"
    by (simp add: ReadQueueEnqueue_def ReadQueueIsFull_def READ_QUEUE_SIZE_def)
next
  fix q assume q: "ring_inv q" and e: "ring_list q = []"
  then have "(rear q - front q) mod 64 = 0" using ring_list_length [OF q] by simp
  then have "front q = rear q" using q by (auto simp: ring_inv_def mod64_diff split: if_splits)
  then show "ReadQueueDequeue q = Some (0, q)"
    by (simp add: ReadQueueDequeue_def ReadQueueIsEmpty_def)
next
  fix q c assume q: "ring_inv q" and room: "length (ring_list q) < 63"
  let ?r = "(rear q + 1) mod 64" and ?n = "nat ((rear q - front q) mod 64)"
  let ?q = "q\<lparr>rear := ?r, queue := (queue q)[nat ?r := c]\<rparr>"
  have n: "(rear q - front q) mod 64 < 63" using ring_list_length [OF q] room by linarith
  have nf: "\<not> ReadQueueIsFull q"
    using q n by (auto simp: ReadQueueIsFull_def READ_QUEUE_SIZE_def ring_inv_def mod64_diff mod64_succ
        split: if_splits)
  have "ReadQueueEnqueue q c = Some ?q"
    using q nf by (simp add: ReadQueueEnqueue_def READ_QUEUE_SIZE_def mem_simps ring_inv_def Let_def)
  moreover have inv: "ring_inv ?q" using q by (simp add: ring_inv_def)
  moreover have "ring_list ?q = ring_list q @ [c]"
  proof (rule nth_equalityI)
    have "(?r - front q) mod 64 = (rear q - front q) mod 64 + 1"
      using n q by (auto simp: ring_inv_def mod64_diff mod64_succ split: if_splits)
    then have len: "int (length (ring_list ?q)) = int (length (ring_list q)) + 1"
      using ring_list_length [OF q] ring_list_length [OF inv] by simp
    then show "length (ring_list ?q) = length (ring_list q @ [c])" by simp
    fix k assume k: "k < length (ring_list ?q)"
    show "ring_list ?q ! k = (ring_list q @ [c]) ! k"
    proof (cases "k < length (ring_list q)")
      case True
      have "(front q + 1 + int k) mod 64 \<noteq> ?r"
        using True q ring_list_length [OF q] n mod64_add [of "front q" "1 + int k"]
        by (auto simp: ring_inv_def mod64_diff mod64_succ add.assoc split: if_splits)
      then have "nat ((front q + 1 + int k) mod 64) \<noteq> nat ?r" by simp
      then show ?thesis using True k by (simp add: ring_list_nth nth_append)
    next
      case False
      then have "int k = (rear q - front q) mod 64" using k len ring_list_length [OF q] by linarith
      then have "(front q + 1 + int k) mod 64 = ((front q + 1) + (rear q - front q)) mod 64"
        by (simp only: mod_add_right_eq)
      then have "(front q + 1 + int k) mod 64 = ?r" by (simp add: algebra_simps)
      moreover have "nat ?r < length (queue q)" using q by (simp add: ring_inv_def)
      ultimately show ?thesis using False k len by (simp add: ring_list_nth nth_append)
    qed
  qed
  ultimately show "\<exists>q'. ReadQueueEnqueue q c = Some q' \<and> ring_inv q' \<and> ring_list q' = ring_list q @ [c]"
    by blast
next
  fix q x xs assume q: "ring_inv q" and cons: "ring_list q = x # xs"
  let ?f = "(front q + 1) mod 64"
  let ?q = "q\<lparr>front := ?f\<rparr>"
  have len: "(rear q - front q) mod 64 = int (length xs) + 1" using ring_list_length [OF q] cons by simp
  have ne: "\<not> ReadQueueIsEmpty q" using len by (auto simp: ReadQueueIsEmpty_def)
  have x: "x = queue q ! nat ?f" using ring_list_nth [of 0 q] cons by simp
  have "ReadQueueDequeue q = Some (x, ?q)"
    using q ne x by (simp add: ReadQueueDequeue_def READ_QUEUE_SIZE_def mem_simps ring_inv_def Let_def)
  moreover have inv: "ring_inv ?q" using q by (simp add: ring_inv_def)
  moreover have "ring_list ?q = xs"
  proof (rule nth_equalityI)
    have "(rear q - ?f) mod 64 = int (length xs)"
      using len q by (auto simp: ring_inv_def mod64_diff mod64_succ split: if_splits)
    then show l: "length (ring_list ?q) = length xs" using ring_list_length [OF inv] by simp
    fix k assume k: "k < length (ring_list ?q)"
    have "(1 + int k + ?f) mod 64 = (1 + int k + (front q + 1)) mod 64" by (simp only: mod_add_right_eq)
    then have "(?f + 1 + int k) mod 64 = (front q + 1 + int (Suc k)) mod 64" by (simp add: algebra_simps)
    then show "ring_list ?q ! k = xs ! k"
      using k l ring_list_nth [of "Suc k" q] cons by (simp add: ring_list_nth)
  qed
  ultimately show "\<exists>q'. ReadQueueDequeue q = Some (x, q') \<and> ring_inv q' \<and> ring_list q' = xs"
    by blast
qed

lemma ReadQueueInit_inv [simp]:
  "length (queue q) = 64 \<Longrightarrow> ring_inv (ReadQueueInit q) \<and> ring_list (ReadQueueInit q) = []"
  by (simp add: ReadQueueInit_def ring_inv_def ring_list_def)

section \<open>Draining the queue\<close>

lemma ring_empty: "ring_inv q \<Longrightarrow> ReadQueueIsEmpty q \<longleftrightarrow> ring_list q = []"
  using ring_list_length [of q] by (auto simp: ReadQueueIsEmpty_def ring_list_def ring_inv_def mod64_diff split: if_splits)

lemma drain_queue_all:
  assumes "ring_inv q" "length (ring_list q) \<le> n" "length pre = sz" "length r = sz + length (ring_list q)"
  shows "\<exists>q'. drain_queue n q (pre @ drop sz r @ post) sz = Some (q', pre @ ring_list q @ post, sz + length (ring_list q)) \<and>
    ring_inv q' \<and> ring_list q' = []"
  using assms
proof (induction n arbitrary: q pre sz r)
  case 0
  then show ?case by simp
next
  case (Suc n)
  show ?case
  proof (cases "ring_list q")
    case Nil
    then show ?thesis using Suc.prems ring_empty [OF Suc.prems(1)] by simp
  next
    case (Cons x xs)
    obtain q1 where q1: "ReadQueueDequeue q = Some (x, q1)" "ring_inv q1" "ring_list q1 = xs"
      using ring.deq_cons [OF Suc.prems(1) Cons] by blast
    have ne: "\<not> ReadQueueIsEmpty q" using ring_empty [OF Suc.prems(1)] Cons by simp
    obtain y where d: "drop sz r = y # drop (Suc sz) r"
      using Suc.prems(4) Cons by (metis Cons_nth_drop_Suc length_Cons less_add_Suc1 add_Suc_right)
    have w: "wr (pre @ drop sz r @ post) sz x = Some ((pre @ [x]) @ drop (Suc sz) r @ post)"
      using Suc.prems(3) by (simp add: wr_def d list_update_append)
    show ?thesis
      using Suc.IH [OF q1(2), of "pre @ [x]" "Suc sz" r] Suc.prems q1 ne w Cons by simp
  qed
qed

lemma drain_whole_all:
  assumes "ring_inv q" "length r = n" "64 \<le> n"
  shows "\<exists>q'. drain_whole q r = Some (q', ring_list q @ drop (length (ring_list q)) r, length (ring_list q)) \<and>
    ring_inv q' \<and> ring_list q' = []"
proof -
  have l: "length (ring_list q) \<le> 63" by (rule ring.abs_cap [OF assms(1)])
  have "take (length (ring_list q)) r @ drop (length (ring_list q)) r = r" by simp
  then obtain q' where "drain_queue n q r 0 =
      Some (q', ring_list q @ drop (length (ring_list q)) r, length (ring_list q))" "ring_inv q'" "ring_list q' = []"
    using drain_queue_all [OF assms(1), of n "[]" 0 "take (length (ring_list q)) r" "drop (length (ring_list q)) r"] l assms
    by (auto simp: min_def)
  then show ?thesis using assms by (auto simp: drain_whole_def ring_empty)
qed

section \<open>Properties\<close>

text \<open>C25. The read queue is a bounded first-in first-out queue: a reader that stores a block of bytes in a
  queue with any contents keeps the invariant and leaves the old contents followed by the block, cut off at
  63 bytes (what does not fit is dropped), and reading \<open>n\<close> bytes back returns the oldest \<open>n\<close> in order.\<close>

theorem read_queue_fifo:
  assumes "ring_inv q"
  shows "\<exists>q'. enq_all ReadQueueEnqueue cs q = Some q' \<and> ring_inv q' \<and>
           ring_list q' = take 63 (ring_list q @ cs) \<and>
           GetQueueDataNum q' = int (min 63 (length (ring_list q) + length cs)) \<and>
           (\<exists>q''. deq_n ReadQueueDequeue (min 63 (length (ring_list q) + length cs)) q' =
                   Some (take 63 (ring_list q @ cs), q'') \<and> ring_list q'' = [])"
proof -
  obtain q' where q': "enq_all ReadQueueEnqueue cs q = Some q'" "ring_inv q'"
      "ring_list q' = take 63 (ring_list q @ cs)"
    using ring.enq_all_ok [OF assms] by blast
  then have len: "length (ring_list q') = min 63 (length (ring_list q) + length cs)"
    by (simp only: length_take length_append min.commute)
  obtain q'' where "deq_n ReadQueueDequeue (length (ring_list q')) q' = Some (ring_list q', q'')"
      "ring_list q'' = []"
    using ring.deq_n_ok [OF q'(2), of "length (ring_list q')"] by auto
  then show ?thesis
    using q'(1,2) ring.size_abs [OF q'(2)] unfolding len [symmetric] q'(3) [symmetric] by blast
qed

theorem read_queue_fifo_witness:
  "\<exists>q'. enq_all ReadQueueEnqueue [1, 2, 3] (ReadQueueInit \<lparr>queue = replicate 64 0, rear = 7, front = 9\<rparr>) =
     Some q' \<and> ring_list q' = [1, 2, 3]"
  using read_queue_fifo [of "ReadQueueInit \<lparr>queue = replicate 64 0, rear = 7, front = 9\<rparr>" "[1, 2, 3]"]
  by auto

end
