(* ===== verification/Obd_Link.thy ===== *)
theory Obd_Link
  imports Crc
begin

text \<open>
  The frame layer of the OBD/IDA serial link (\<open>src/project/tsct2007a/tsctobd.c\<close>, \<open>tsctobd.h\<close>).

  A frame is STX, a 16-bit length (little endian, number of bytes of command and data), the command, the
  data, the CRC over length, command and data (little endian) and ETX.  \<open>MakeTx\<close> and \<open>SendBuff\<close> build a
  frame; \<open>ValidIda\<close> takes what one \<open>read\<close> returned, joins it with a pending first part and splits it into
  up to five frames.  Its receive buffer, its pending size and the five result slots are the state
  \<open>ida_link\<close>.  \<open>None\<close> is undefined behaviour: an access outside a buffer, or the end of \<open>ValidIda\<close> without
  a \<open>return\<close>, which is what happens after a fifth frame.
\<close>

section \<open>Frames and the transmit side\<close>

abbreviation STX_CODE :: u8 where "STX_CODE \<equiv> 0x02"
abbreviation ETX_CODE :: u8 where "ETX_CODE \<equiv> 0x03"
abbreviation HEADER_SIZE :: nat where "HEADER_SIZE \<equiv> 7"

record IDA_DATA_FORM =
  Stx8 :: u8
  Lenth16 :: u16
  Cmd8 :: u8
  Data8 :: bytes
  Crc16 :: u16
  Etx8 :: u8

text \<open>The bytes of the members \<open>Lenth16\<close>, \<open>Cmd8\<close> and \<open>Data8\<close>, which are adjacent in memory, and the effect of
  copying \<open>bs\<close> to the address of \<open>Lenth16\<close>.\<close>

definition form_region :: "IDA_DATA_FORM \<Rightarrow> bytes" where
  "form_region f = mem16 (Lenth16 f) @ [Cmd8 f] @ Data8 f"

definition form_load :: "IDA_DATA_FORM \<Rightarrow> bytes \<Rightarrow> IDA_DATA_FORM option" where
  "form_load f bs = do {
     r \<leftarrow> blit (form_region f) 0 bs;
     Some (f\<lparr>Lenth16 := le16 (r ! 0) (r ! 1), Cmd8 := r ! 2, Data8 := drop 3 r\<rparr>)
   }"

definition MakeTx :: "u8 \<Rightarrow> u16 \<Rightarrow> IDA_DATA_FORM \<Rightarrow> IDA_DATA_FORM option" where
  "MakeTx Addr8 AddrLen16 tx = do {
     let tx = tx\<lparr>Stx8 := STX_CODE, Lenth16 := AddrLen16, Cmd8 := Addr8\<rparr>;
     body \<leftarrow> slice (form_region tx) 0 (2 + unat AddrLen16);
     Some (tx\<lparr>Crc16 := calcCRC body, Etx8 := ETX_CODE\<rparr>)
   }"

definition SendBuff :: "bytes \<Rightarrow> u8 \<Rightarrow> IDA_DATA_FORM \<Rightarrow> bytes option" where
  "SendBuff Des BuffLen tx = do {
     d \<leftarrow> slice (Data8 tx) 0 (unat BuffLen);
     blit Des 0 ([Stx8 tx] @ mem16 (Lenth16 tx) @ [Cmd8 tx] @ d @ mem16 (Crc16 tx) @ [Etx8 tx])
   }"

section \<open>The receive side\<close>

record ida_link =
  pars_buf :: bytes
  dataContinSize :: u16
  IdaRxDataForm :: "IDA_DATA_FORM list"

text \<open>\<open>Src[stx_idx+1] + Src[stx_idx+2] * 0x100\<close>: both bytes are plain \<open>char\<close>, hence sign-extended, and the
  sum is stored in a \<open>uint16_t\<close>.\<close>

definition ida_data_length :: "u8 \<Rightarrow> u8 \<Rightarrow> u16" where
  "ida_data_length lo hi = scast lo + scast hi * 0x100"

definition find_stx :: "bytes \<Rightarrow> nat \<Rightarrow> nat \<Rightarrow> nat option option" where
  "find_stx Src end_idx sz =
     (if sz \<le> length Src then Some (find (\<lambda>j. Src ! j = STX_CODE) [end_idx..<sz]) else None)"

text \<open>One iteration of the packet loop: \<open>Some None\<close> is \<open>return Packet_No\<close>, \<open>Some (Some (end_idx, rx))\<close> is the end
  of an iteration that accepted a packet.\<close>

definition ValidIda_packet ::
  "bytes \<Rightarrow> nat \<Rightarrow> nat \<Rightarrow> nat \<Rightarrow> IDA_DATA_FORM list \<Rightarrow> (nat \<times> IDA_DATA_FORM list) option option" where
  "ValidIda_packet Src sz i end_idx rx = do {
     stx \<leftarrow> find_stx Src end_idx sz;
     case stx of None \<Rightarrow> Some None | Some stx_idx \<Rightarrow>
     if sz < stx_idx + HEADER_SIZE then Some None
     else do {
       b1 \<leftarrow> rd Src (stx_idx + 1);
       b2 \<leftarrow> rd Src (stx_idx + 2);
       let data_length = unat (ida_data_length b1 b2);
       let end_idx = (stx_idx + (HEADER_SIZE - 2) + data_length) mod 2 ^ 16;
       let packet_len = (HEADER_SIZE - 1 + data_length) mod 2 ^ 16;
       if sz < end_idx + 1 then Some None
       else do {
         e \<leftarrow> rd Src end_idx;
         if e \<noteq> ETX_CODE then Some None
         else do {
           hi \<leftarrow> rdi Src (int end_idx - 1);
           lo \<leftarrow> rdi Src (int end_idx - 2);
           body \<leftarrow> slice Src (stx_idx + 1) (nat (int packet_len - 4));
           if calcCRC body \<noteq> le16 lo hi then Some None
           else do {
             bs \<leftarrow> (if packet_len = 0 then None else slice Src (stx_idx + 1) (packet_len - 1));
             f \<leftarrow> rd rx i;
             f' \<leftarrow> form_load f bs;
             Some (Some (end_idx, rx[i := f']))
           }
         }
       }
     }
   }"

text \<open>The loop over the packets; the first argument counts the iterations that are left of five.  When an
  iteration starts, \<open>Packet_No\<close> equals the number of accepted packets.\<close>

fun ValidIda_loop ::
  "nat \<Rightarrow> nat \<Rightarrow> bytes \<Rightarrow> nat \<Rightarrow> nat \<Rightarrow> IDA_DATA_FORM list \<Rightarrow> (nat \<times> IDA_DATA_FORM list) option" where
  "ValidIda_loop 0 Packet_No Src sz end_idx rx = None"
| "ValidIda_loop (Suc n) Packet_No Src sz end_idx rx =
     Option.bind (ValidIda_packet Src sz Packet_No end_idx rx) (\<lambda>r.
       case r of None \<Rightarrow> Some (Packet_No, rx)
       | Some (end_idx', rx') \<Rightarrow> ValidIda_loop n (Packet_No + 1) Src sz end_idx' rx')"

text \<open>\<open>ValidIda\<close> on the \<open>sz\<close> bytes \<open>rx_Src\<close> that \<open>read\<close> returned; the number of accepted packets and the new
  state.\<close>

definition ValidIda :: "bytes \<Rightarrow> ida_link \<Rightarrow> (nat \<times> ida_link) option" where
  "ValidIda rx_Src st = do {
     let sz = length rx_Src;
     let pend = unat (dataContinSize st);
     last_byte \<leftarrow> rdi rx_Src (int sz - 1);
     if pend = 0 then do {
       Src \<leftarrow> blit (replicate 512 0) 0 rx_Src;
       if last_byte \<noteq> ETX_CODE
       then Some (0, st\<lparr>pars_buf := Src, dataContinSize := w16 sz\<rparr>)
       else do {
         (n, rx) \<leftarrow> ValidIda_loop 5 0 Src sz 0 (IdaRxDataForm st);
         Some (n, st\<lparr>pars_buf := Src, IdaRxDataForm := rx\<rparr>)
       }
     }
     else if pend + sz > 516 then Some (0, st\<lparr>dataContinSize := 0\<rparr>)
     else if last_byte \<noteq> ETX_CODE then Some (0, st\<lparr>dataContinSize := 0\<rparr>)
     else do {
       Src \<leftarrow> blit (pars_buf st) pend rx_Src;
       (n, rx) \<leftarrow> ValidIda_loop 5 0 Src (sz + pend) 0 (IdaRxDataForm st);
       Some (n, st\<lparr>pars_buf := Src, dataContinSize := 0, IdaRxDataForm := rx\<rparr>)
     }
   }"

end
