(* ===== verification/Obd_Frames.thy ===== *)
theory Obd_Frames
  imports Obd_Link
begin

text \<open>
  Frames of the OBD/IDA link on the wire: what \<open>MakeTx\<close> and \<open>SendBuff\<close> emit, what \<open>ValidIda\<close> accepts, and
  the frames it cannot receive.
\<close>

section \<open>Frames on the wire\<close>

text \<open>The body of a frame (what the CRC covers) and the frame as it should look on the wire.\<close>

definition ida_body :: "u8 \<Rightarrow> bytes \<Rightarrow> bytes" where
  "ida_body cmd data = mem16 (w16 (Suc (length data))) @ [cmd] @ data"

definition ida_frame :: "u8 \<Rightarrow> bytes \<Rightarrow> bytes" where
  "ida_frame cmd data =
     [STX_CODE] @ ida_body cmd data @ mem16 (calcCRC (ida_body cmd data)) @ [ETX_CODE]"

lemma length_ida_body [simp]: "length (ida_body cmd data) = length data + 3"
  by (simp add: ida_body_def)

lemma length_ida_frame [simp]: "length (ida_frame cmd data) = length data + 7"
  by (simp add: ida_frame_def)

lemma length_form_region [simp]: "length (form_region f) = length (Data8 f) + 3"
  by (simp add: form_region_def)

text \<open>The receive slot \<open>f\<close> holds command \<open>cmd\<close> and data \<open>data\<close>.\<close>

definition form_holds :: "IDA_DATA_FORM \<Rightarrow> u8 \<Rightarrow> bytes \<Rightarrow> bool" where
  "form_holds f cmd data \<longleftrightarrow>
     Lenth16 f = w16 (Suc (length data)) \<and> Cmd8 f = cmd \<and>
     length (Data8 f) = 512 \<and> take (length data) (Data8 f) = data"

lemma form_load_inside:
  assumes "length bs \<le> length (Data8 f)"
  shows "form_load f (l # h # c # bs) =
    Some (f\<lparr>Lenth16 := le16 l h, Cmd8 := c, Data8 := bs @ drop (length bs) (Data8 f)\<rparr>)"
  using assms by (simp add: form_load_def form_region_def mem16_def blit_def numeral_eq_Suc)

lemma MakeTx_inside:
  assumes "n < length (Data8 tx)" "n < 65535"
  shows "MakeTx cmd (w16 (Suc n)) tx =
    Some (tx\<lparr>Stx8 := STX_CODE, Lenth16 := w16 (Suc n), Cmd8 := cmd,
             Crc16 := calcCRC (ida_body cmd (take n (Data8 tx))), Etx8 := ETX_CODE\<rparr>)"
  using assms by (simp add: MakeTx_def form_region_def mem16_def slice_def ida_body_def unat_w16 Let_def)

lemma SendBuff_MakeTx:
  assumes "n < 256" "n < length (Data8 tx)" "n + 7 \<le> length Des"
  shows "Option.bind (MakeTx cmd (w16 (Suc n)) tx) (SendBuff Des (w8 n)) =
    Some (ida_frame cmd (take n (Data8 tx)) @ drop (n + 7) Des)"
proof -
  have n7: "n + 7 = Suc (Suc (Suc (Suc (Suc (Suc (Suc n))))))" by simp
  show ?thesis
    using assms(1,2) assms(3) [unfolded n7] unfolding n7
    by (simp add: MakeTx_inside SendBuff_def slice_def blit_def unat_w8 ida_frame_def ida_body_def
        min_def mem16_def del: add_2_eq_Suc')
qed

section \<open>The length field\<close>

lemma sint_u8: "sint (b :: u8) = uint b - (if 128 \<le> uint b then 256 else 0)"
proof -
  have r: "0 \<le> uint b" "uint b < 256" using uint_lt2p [of b] by simp_all
  have "bit (uint b) 7 \<longleftrightarrow> 128 \<le> uint b"
  proof -
    have "bit (uint b) 7 \<longleftrightarrow> odd (uint b div 128)" by (simp add: bit_iff_odd)
    also have "\<dots> \<longleftrightarrow> 128 \<le> uint b"
    proof (cases "128 \<le> uint b")
      case True
      then have "uint b div 128 = 1" using r by (intro div_pos_geq [THEN trans]) (auto simp: div_pos_pos_trivial)
      then show ?thesis using True by simp
    qed (use r in \<open>simp add: div_pos_pos_trivial\<close>)
    finally show ?thesis .
  qed
  then show ?thesis
    using r by (simp add: sint_uint signed_take_bit_eq_take_bit_minus take_bit_int_eq_self)
qed

lemma ida_data_length_le16:
  "ida_data_length lo hi = le16 lo hi - (if 128 \<le> unat lo then 256 else 0)"
proof -
  have le: "word_of_int (uint lo + 256 * uint hi) = le16 lo hi"
    by (simp only: uint_le16 [symmetric] word_of_int_uint)
  have da: "ida_data_length lo hi = word_of_int (sint lo + 256 * sint hi)"
    unfolding ida_data_length_def scast_eq by (simp only: of_int_add of_int_mult of_int_numeral mult.commute)
  have u: "128 \<le> uint lo \<longleftrightarrow> 128 \<le> unat lo"
    using word_le_nat_alt [of 128 lo] by (simp add: word_le_def)
  have w: "word_of_int (a - (if p then 256 else 0) + 256 * (b - (if q then 256 else 0))) =
      (word_of_int (a + 256 * b) - (if p then 256 else 0) :: u16)" for a b :: int and p q
  proof -
    have "(65536 :: u16) = 0" by simp
    then show ?thesis by (cases p; cases q) (simp_all add: algebra_simps)
  qed
  show ?thesis unfolding da sint_u8 w le u ..
qed

lemma unat_lo8: "unat (lo8 w) = unat w mod 256"
  by (simp add: lo8_def unsigned_ucast_eq take_bit_eq_mod)

lemma ida_data_length_w16:
  "n < 65536 \<Longrightarrow> n mod 256 < 128 \<Longrightarrow> ida_data_length (lo8 (w16 n)) (hi8 (w16 n)) = w16 n"
  by (simp add: ida_data_length_le16 unat_lo8 unat_w16)

section \<open>Receiving one frame\<close>

lemma find_append:
  "find P (xs @ ys) = (case find P xs of None \<Rightarrow> find P ys | Some x \<Rightarrow> Some x)"
  by (induction xs) auto

lemma find_upt:
  assumes "a \<le> k" "k < b" "P k" "\<And>j. a \<le> j \<Longrightarrow> j < k \<Longrightarrow> \<not> P j"
  shows "find P [a..<b] = Some k"
proof -
  have "[a..<b] = [a..<k] @ k # [Suc k..<b]"
    using assms(1,2) by (metis less_imp_add_positive upt_add_eq_append upt_conv_Cons)
  moreover have "find P [a..<k] = None"
    using assms(4) by (auto simp: find_None_iff)
  ultimately show ?thesis using assms(3) by (simp add: find_append)
qed

lemma rd_append_skip: "length xs \<le> i \<Longrightarrow> rd (xs @ ys) i = rd ys (i - length xs)"
  by (auto simp: rd_def nth_append)

lemma ValidIda_packet_frame:
  assumes src: "Src = pre @ ida_frame cmd data @ post" and len: "length Src = 512"
    and n: "Suc (length data) mod 256 < 128"
    and sz: "length pre + length data + 7 \<le> sz" "sz \<le> 512"
    and e: "e \<le> length pre" "STX_CODE \<notin> set (drop e pre)"
    and i: "i < length rx" "length (Data8 (rx ! i)) = 512"
  shows "\<exists>f. ValidIda_packet Src sz i e rx = Some (Some (length pre + length data + 6, rx[i := f])) \<and>
           form_holds f cmd data"
proof -
  let ?p = "length pre" and ?n = "length data" and ?b = "ida_body cmd data"
  let ?c = "calcCRC ?b"
  have stx: "find_stx Src e sz = Some (Some ?p)"
    unfolding find_stx_def using sz len
  proof (simp, intro find_upt)
    show "Src ! ?p = STX_CODE" by (simp add: src ida_frame_def nth_append)
    fix j assume "e \<le> j" "j < ?p"
    then have "Src ! j \<in> set (drop e pre)"
      unfolding src in_set_conv_nth by (intro exI [of _ "j - e"]) (auto simp: nth_append)
    then show "Src ! j \<noteq> STX_CODE" using e(2) by metis
  qed (use e sz in auto)
  have small: "?n \<le> 505" using sz by simp
  have b1: "rd Src (Suc ?p) = Some (lo8 (w16 (Suc ?n)))" and b2: "rd Src (Suc (Suc ?p)) = Some (hi8 (w16 (Suc ?n)))"
    by (simp_all add: src ida_frame_def ida_body_def mem16_def rd_def nth_append)
  have dl: "unat (ida_data_length (lo8 (w16 (Suc ?n))) (hi8 (w16 (Suc ?n)))) = Suc ?n"
    using n small by (simp add: ida_data_length_w16 unat_w16)
  have src': "Src = (pre @ [STX_CODE] @ ?b) @ [lo8 ?c, hi8 ?c, ETX_CODE] @ post"
    by (simp add: src ida_frame_def mem16_def)
  have t: "rd Src (6 + (?p + ?n)) = Some ETX_CODE"
    "rdi Src (int (?p + ?n + 6) - 1) = Some (hi8 ?c)"
    "rdi Src (int (?p + ?n + 6) - 2) = Some (lo8 ?c)"
    by (simp_all add: src' rd_def rdi_def nth_append nat_add_distrib add.commute)
  have body: "slice Src (?p + 1) (?n + 3) = Some ?b"
    unfolding src' by (simp add: slice_def)
  have bs: "slice Src (?p + 1) (?n + 6) = Some (?b @ [lo8 ?c, hi8 ?c, ETX_CODE])"
    unfolding src' by (simp add: slice_def)
  obtain f where f: "form_load (rx ! i) (?b @ [lo8 ?c, hi8 ?c, ETX_CODE]) = Some f" "form_holds f cmd data"
    using small i(2)
    by (simp add: ida_body_def mem16_def form_load_inside form_holds_def)
  have n3: "nat (3 + int ?n) = ?n + 3" "nat (int ?n + 3) = ?n + 3" by simp_all
  have "ValidIda_packet Src sz i e rx = Some (Some (?p + ?n + 6, rx[i := f]))"
    using small sz f(1) i(1) t body bs
    by (simp add: ValidIda_packet_def stx b1 b2 dl n3 Let_def rd_inside add.commute)
  then show ?thesis using f(2) by blast
qed

section \<open>Receiving a sequence of frames\<close>

definition ida_wire :: "(u8 \<times> bytes) list \<Rightarrow> bytes" where
  "ida_wire fs = concat (map (\<lambda>(c, d). ida_frame c d) fs)"

text \<open>The frames whose length field the receiver reads as it was sent.\<close>

definition short_frame :: "u8 \<times> bytes \<Rightarrow> bool" where
  "short_frame f \<longleftrightarrow> Suc (length (snd f)) mod 256 < 128"

lemma ida_wire_simps [simp]:
  "ida_wire [] = []" "ida_wire ((c, d) # fs) = ida_frame c d @ ida_wire fs"
  by (simp_all add: ida_wire_def)

lemma ValidIda_packet_no_stx:
  assumes "sz \<le> length Src" "STX_CODE \<notin> set (drop e (take sz Src))"
  shows "ValidIda_packet Src sz i e rx = Some None"
proof -
  have "find (\<lambda>j. Src ! j = STX_CODE) [e..<sz] = None"
    unfolding find_None_iff
  proof (intro notI, elim exE conjE)
    fix j assume j: "j \<in> set [e..<sz]" "Src ! j = STX_CODE"
    then have "Src ! j = drop e (take sz Src) ! (j - e)" "j - e < length (drop e (take sz Src))"
      using assms(1) by auto
    then show False using assms(2) j(2) by (metis nth_mem)
  qed
  then show ?thesis using assms(1) by (simp add: ValidIda_packet_def find_stx_def)
qed

lemma ValidIda_loop_frames:
  assumes "length fs < n" "Src = pre @ ida_wire fs @ post" "length Src = 512"
    "sz = length pre + length (ida_wire fs)" "e \<le> length pre" "STX_CODE \<notin> set (drop e pre)"
    "k + length fs \<le> length rx" "\<forall>f\<in>set rx. length (Data8 f) = 512" "\<forall>f\<in>set fs. short_frame f"
  shows "\<exists>rx'. ValidIda_loop n k Src sz e rx = Some (k + length fs, rx') \<and> length rx' = length rx \<and>
     (\<forall>f\<in>set rx'. length (Data8 f) = 512) \<and> (\<forall>j<k. rx' ! j = rx ! j) \<and>
     (\<forall>j<length fs. form_holds (rx' ! (k + j)) (fst (fs ! j)) (snd (fs ! j)))"
  using assms
proof (induction fs arbitrary: n k pre e rx)
  case Nil
  then obtain m where n: "n = Suc m" by (metis gr0_implies_Suc list.size(3))
  have "ValidIda_packet Src sz k e rx = Some None"
    using Nil.prems by (intro ValidIda_packet_no_stx) auto
  then show ?case using Nil.prems by (simp add: n)
next
  case (Cons f fs)
  obtain c d where f: "f = (c, d)" by (cases f)
  obtain m where n: "n = Suc m" using Cons.prems(1) by (metis less_imp_Suc_add add_Suc_right)
  let ?pre = "pre @ ida_frame c d" and ?e = "length pre + length d + 6"
  have sz: "sz \<le> 512" "length pre + length d + 7 \<le> sz"
    using Cons.prems(2-4) by (simp_all add: f)
  obtain g where g: "ValidIda_packet Src sz k e rx = Some (Some (?e, rx[k := g]))" "form_holds g c d"
    using ValidIda_packet_frame [of Src pre c d "ida_wire fs @ post" sz e k rx] Cons.prems sz
    by (auto simp: f short_frame_def)
  let ?b = "[STX_CODE] @ ida_body c d @ mem16 (calcCRC (ida_body c d))"
  have "?pre = (pre @ ?b) @ [ETX_CODE]" by (simp add: ida_frame_def)
  moreover have "length (pre @ ?b) = ?e" by simp
  ultimately have "drop ?e ?pre = [ETX_CODE]" by (metis append_eq_conv_conj)
  then have "\<exists>rx'. ValidIda_loop m (k + 1) Src sz ?e (rx[k := g]) = Some (k + 1 + length fs, rx') \<and>
      length rx' = length (rx[k := g]) \<and> (\<forall>f\<in>set rx'. length (Data8 f) = 512) \<and>
      (\<forall>j<k + 1. rx' ! j = rx[k := g] ! j) \<and>
      (\<forall>j<length fs. form_holds (rx' ! (k + 1 + j)) (fst (fs ! j)) (snd (fs ! j)))"
    using Cons.prems g(2) n
    by (intro Cons.IH [where pre = ?pre])
       (auto simp: f form_holds_def dest!: subsetD [OF set_update_subset_insert])
  then obtain rx' where rx': "ValidIda_loop m (k + 1) Src sz ?e (rx[k := g]) = Some (k + 1 + length fs, rx')"
      "length rx' = length rx" "\<forall>f\<in>set rx'. length (Data8 f) = 512"
      "\<forall>j<k + 1. rx' ! j = rx[k := g] ! j"
      "\<forall>j<length fs. form_holds (rx' ! (k + 1 + j)) (fst (fs ! j)) (snd (fs ! j))"
    by auto
  have "form_holds (rx' ! (k + j)) (fst ((f # fs) ! j)) (snd ((f # fs) ! j))" if "j < length (f # fs)" for j
  proof (cases j)
    case 0
    then show ?thesis using rx'(4) g(2) Cons.prems(7) by (simp add: f)
  next
    case (Suc i)
    then show ?thesis using rx'(5) that by auto
  qed
  moreover have "\<forall>j<k. rx' ! j = rx ! j" using rx'(4) by auto
  ultimately show ?case using rx' g(1) by (auto simp: n)
qed

text \<open>The reassembly buffer is 512 bytes long and the five slots have 512 data bytes each.\<close>

definition link_inv :: "ida_link \<Rightarrow> bool" where
  "link_inv st \<longleftrightarrow> length (pars_buf st) = 512 \<and> unat (dataContinSize st) \<le> 512 \<and>
     length (IdaRxDataForm st) = 5 \<and> (\<forall>f\<in>set (IdaRxDataForm st). length (Data8 f) = 512)"

definition slots_hold :: "IDA_DATA_FORM list \<Rightarrow> (u8 \<times> bytes) list \<Rightarrow> bool" where
  "slots_hold rx fs \<longleftrightarrow>
     (\<forall>j<length fs. form_holds (rx ! j) (fst (fs ! j)) (snd (fs ! j)))"

lemma last_ida_wire:
  assumes "fs \<noteq> []"
  shows "\<exists>xs. ida_wire fs = xs @ [ETX_CODE]"
proof -
  obtain gs c d where "fs = gs @ [(c, d)]" using assms by (metis rev_exhaust surj_pair)
  then show ?thesis by (simp add: ida_wire_def ida_frame_def)
qed

lemma rdi_last: "rdi (xs @ [x]) (int (length (xs @ [x])) - 1) = Some x"
  by (simp add: rdi_def rd_def)

lemma ValidIda_whole:
  assumes inv: "link_inv st" and idle: "dataContinSize st = 0"
    and fs: "fs \<noteq> []" "length fs \<le> 4" "\<forall>f\<in>set fs. short_frame f" "length (ida_wire fs) \<le> 512"
  shows "\<exists>st'. ValidIda (ida_wire fs) st = Some (length fs, st') \<and> link_inv st' \<and>
           dataContinSize st' = 0 \<and> slots_hold (IdaRxDataForm st') fs"
proof -
  obtain xs where xs: "ida_wire fs = xs @ [ETX_CODE]" using last_ida_wire [OF fs(1)] by blast
  let ?pad = "replicate (512 - length (ida_wire fs)) 0"
  let ?Src = "ida_wire fs @ ?pad"
  have b: "blit (replicate 512 0) 0 (ida_wire fs) = Some ?Src"
    using fs(4) by (simp add: blit_def)
  obtain rx where rx: "ValidIda_loop 5 0 ?Src (length (ida_wire fs)) 0 (IdaRxDataForm st) = Some (length fs, rx)"
      "length rx = 5" "\<forall>f\<in>set rx. length (Data8 f) = 512" "slots_hold rx fs"
    using ValidIda_loop_frames [of fs 5 ?Src "[]" ?pad "length (ida_wire fs)" 0 0 "IdaRxDataForm st"] fs inv
    by (auto simp: link_inv_def slots_hold_def)
  have "ValidIda (ida_wire fs) st = Some (length fs, st\<lparr>pars_buf := ?Src, IdaRxDataForm := rx\<rparr>)"
    using b rx(1) idle rdi_last [of xs ETX_CODE] by (simp add: ValidIda_def Let_def xs [symmetric])
  then show ?thesis
    using rx inv idle fs(4) by (auto simp: link_inv_def)
qed

text \<open>A transmission that arrives in two parts, the first of which does not end in ETX.\<close>

lemma ValidIda_two_parts:
  assumes inv: "link_inv st" and idle: "dataContinSize st = 0"
    and fs: "fs \<noteq> []" "length fs \<le> 4" "\<forall>f\<in>set fs. short_frame f" "length (ida_wire fs) \<le> 512"
    and parts: "ida_wire fs = a @ b" "a \<noteq> []" "b \<noteq> []" "last a \<noteq> ETX_CODE"
  shows "\<exists>st1 st2. ValidIda a st = Some (0, st1) \<and> ValidIda b st1 = Some (length fs, st2) \<and>
           link_inv st2 \<and> dataContinSize st2 = 0 \<and> slots_hold (IdaRxDataForm st2) fs"
proof -
  let ?pad = "replicate (512 - length (ida_wire fs)) 0"
  let ?Src1 = "a @ replicate (512 - length a) 0" and ?Src = "ida_wire fs @ ?pad"
  let ?st1 = "st\<lparr>pars_buf := ?Src1, dataContinSize := w16 (length a)\<rparr>"
  have len: "length a + length b \<le> 512" "0 < length a" using fs(4) parts by auto
  obtain ys where ys: "b = ys @ [ETX_CODE]"
    using last_ida_wire [OF fs(1)] parts(1,3) by (metis append_butlast_last_id last_append last_snoc)
  have 1: "ValidIda a st = Some (0, ?st1)"
    using len idle parts(4) rdi_last [of "butlast a" "last a"] parts(2)
    by (simp add: ValidIda_def Let_def blit_def)
  have u: "unat (w16 (length a)) = length a" using len by (simp add: unat_w16)
  have b2: "blit ?Src1 (length a) b = Some ?Src"
    using len by (simp add: blit_def parts(1))
  obtain rx where rx: "ValidIda_loop 5 0 ?Src (length (ida_wire fs)) 0 (IdaRxDataForm st) = Some (length fs, rx)"
      "length rx = 5" "\<forall>f\<in>set rx. length (Data8 f) = 512" "slots_hold rx fs"
    using ValidIda_loop_frames [of fs 5 ?Src "[]" ?pad "length (ida_wire fs)" 0 0 "IdaRxDataForm st"] fs inv
    by (auto simp: link_inv_def slots_hold_def)
  have "length b + length a = length (ida_wire fs)" using parts(1) by simp
  then have "ValidIda b ?st1 = Some (length fs, ?st1\<lparr>pars_buf := ?Src, dataContinSize := 0, IdaRxDataForm := rx\<rparr>)"
    using b2 rx(1) len rdi_last [of ys ETX_CODE] by (simp add: ValidIda_def Let_def u ys [symmetric])
  then show ?thesis
    using 1 rx inv fs(4) by (auto simp: link_inv_def)
qed

end
