(* ===== verification/Obd_Sound.thy ===== *)
theory Obd_Sound
  imports Obd_Frames
begin

text \<open>
  What \<open>ValidIda\<close> accepts is a well-formed frame with a correct checksum, and what it does with input that
  is not.
\<close>

section \<open>Accepted packets\<close>

lemma find_stx_Some:
  assumes "find_stx Src e sz = Some (Some p)"
  shows "sz \<le> length Src" "e \<le> p" "p < sz" "Src ! p = STX_CODE"
  using assms by (auto simp: find_stx_def find_Some_iff split: if_splits)

lemma lo8_ida_data_length: "lo8 (ida_data_length lo hi) = lo"
proof -
  have "lo8 (w - 256) = lo8 w" for w :: u16
  proof -
    have l: "uint (lo8 v) = uint v mod 256" for v :: u16
      by (simp add: lo8_def unsigned_ucast_eq take_bit_eq_mod)
    have "uint (w - 256) = (uint w - 256) mod 65536" by (simp add: uint_word_ariths)
    then have "uint (lo8 (w - 256)) = (uint w - 256) mod 256" unfolding l by (simp add: mod_mod_cancel)
    also have "\<dots> = uint (lo8 w)" unfolding l by simp
    finally show ?thesis by (rule word_uint_eqI)
  qed
  then show ?thesis by (simp add: ida_data_length_le16)
qed

lemma ValidIda_packet_accept:
  assumes "ValidIda_packet Src sz i e rx = Some (Some (e', rx'))" "length Src = 512"
  obtains p n f where "e \<le> p" "p < sz" "Src ! p = STX_CODE" "1 \<le> n" "p + n \<le> 512" "p + 7 \<le> sz"
    "e' = (p + n - 1) mod 65536" "e' < sz" "Src ! e' = ETX_CODE" "2 \<le> e'" 
    "n = (6 + unat (ida_data_length (Src ! (p + 1)) (Src ! (p + 2)))) mod 65536"
    "le16 (Src ! (e' - 2)) (Src ! (e' - 1)) = calcCRC (take (n - 4) (drop (p + 1) Src))"
    "i < length rx" "rx' = rx[i := f]" "form_load (rx ! i) (take (n - 1) (drop (p + 1) Src)) = Some f"
proof -
  obtain p where p: "find_stx Src e sz = Some (Some p)" "\<not> sz < p + 7"
    using assms(1) by (auto simp: ValidIda_packet_def Option.bind_eq_Some_conv split: option.splits if_splits)
  note stx = find_stx_Some [OF p(1)]
  have r: "rd Src (p + 1) = Some (Src ! (p + 1))" "rd Src (p + 2) = Some (Src ! (p + 2))"
    using p(2) stx assms(2) by (simp_all add: rd_inside)
  let ?d = "unat (ida_data_length (Src ! (p + 1)) (Src ! (p + 2)))"
  define n where "n = (6 + ?d) mod 65536"
  define E where "E = (p + 5 + ?d) mod 65536"
  have nE: "(HEADER_SIZE - 1 + ?d) mod 2 ^ 16 = n" "(p + (HEADER_SIZE - 2) + ?d) mod 2 ^ 16 = E"
    by (simp_all add: n_def E_def)
  note main = assms(1) [unfolded ValidIda_packet_def p(1) Option.bind.simps option.case if_not_P [OF p(2)] r Let_def nE]
  from main obtain f where f: "\<not> sz < E + 1" "Src ! E = ETX_CODE" "e' = E" "rx' = rx[i := f]" "i < length rx"
      "0 \<le> int E - 2" "le16 (Src ! (E - 2)) (Src ! (E - 1)) = calcCRC (take (n - 4) (drop (p + 1) Src))"
      "n \<noteq> 0" "p + 1 + (n - 1) \<le> 512" "form_load (rx ! i) (take (n - 1) (drop (p + 1) Src)) = Some f"
    using assms(2)
    by (auto simp: Option.bind_eq_Some_conv rd_Some rdi_Some slice_Some nat_diff_distrib'
        split: if_splits)
  have "(p + n - 1) mod 65536 = E"
  proof -
    have "(p + n - 1) mod 65536 = (p + n - 1 + 65536) mod 65536" by (rule mod_add_self2 [symmetric])
    also have "p + n - 1 + 65536 = p + 65535 + n" using f(8) by simp
    also have "(p + 65535 + n) mod 65536 = (p + 65535 + (6 + ?d)) mod 65536"
      unfolding n_def by (rule mod_add_right_eq)
    also have "p + 65535 + (6 + ?d) = p + 5 + ?d + 65536" by simp
    also have "(p + 5 + ?d + 65536) mod 65536 = E" unfolding E_def by (rule mod_add_self2)
    finally show ?thesis .
  qed
  then have e': "e' = (p + n - 1) mod 65536" using f(3) by simp
  show thesis
  proof (rule that [of p n f])
    show "p + 7 \<le> sz" "e' < sz" "2 \<le> e'" "1 \<le> n" "p + n \<le> 512"
      using p(2) f(1,3,6,8,9) by linarith+
    show "Src ! e' = ETX_CODE" using f(2,3) by simp
    show "le16 (Src ! (e' - 2)) (Src ! (e' - 1)) = calcCRC (take (n - 4) (drop (p + 1) Src))"
      using f(3,7) by simp
  qed (fact stx e' n_def f)+
qed

text \<open>A slot \<open>f\<close> was filled from a well-formed frame at position \<open>p\<close> of the buffer.\<close>

definition frame_at :: "bytes \<Rightarrow> nat \<Rightarrow> bytes \<Rightarrow> bool" where
  "frame_at Src p body \<longleftrightarrow>
     2 \<le> length body \<and> p + length body + 4 \<le> length Src \<and>
     take (length body + 4) (drop p Src) = [STX_CODE] @ body @ mem16 (calcCRC body) @ [ETX_CODE]"

lemma calcCRC_small: "calcCRC [] = 0" "calcCRC [255] = 0x1EF0"
  by (simp_all add: calcCRC_def calcCRC_step_def crc16tab_def)

lemma u8_eqI: "unat (b :: u8) = unat c \<Longrightarrow> b = c"
  by (rule word_unat_eq_iff [THEN iffD2])

lemma wrapped_length:
  assumes n: "n = (6 + unat (w :: u16)) mod 65536" "n < 6"
  shows "unat w = 65530 + n"
proof (cases "unat w < 65530")
  case True
  then have "(6 + unat w) mod 65536 = 6 + unat w" by (intro mod_less) linarith
  then show ?thesis using n by linarith
next
  case False
  then have "(6 + unat w) mod 65536 = (6 + unat w - 65536) mod 65536" by (intro le_mod_geq) linarith
  also have "\<dots> = 6 + unat w - 65536" using unat_u16_less [of w] by (intro mod_less) linarith
  finally show ?thesis using n(1) False by linarith
qed

text \<open>The wrap-around lengths -5 to -1 are not accepted.\<close>

lemma no_wrapped_length:
  assumes n: "n = (6 + unat (ida_data_length lo hi)) mod 65536" "n < 6"
    and "n = 0 \<or> n = 1 \<or> n = 2 \<and> lo = ETX_CODE \<or> n = 3 \<and> hi = ETX_CODE \<or>
         n = 4 \<and> lo = 0 \<or> n = 5 \<and> hi = 0xF0"
  shows "n = 0 \<or> n = 1"
proof -
  let ?d = "unat (ida_data_length lo hi)"
  have lo: "unat lo = ?d mod 256" using lo8_ida_data_length [of lo hi] by (metis unat_lo8)
  have dn: "?d = 65530 + n" by (rule wrapped_length [OF n])
  then have lon: "unat lo = (65530 + n) mod 256" using lo by (simp only:)
  have "n \<noteq> 2 \<or> lo \<noteq> ETX_CODE" "n \<noteq> 4 \<or> lo \<noteq> 0" using lon by auto
  moreover have "n \<noteq> 3 \<or> hi \<noteq> ETX_CODE"
  proof (intro disjCI notI, simp)
    assume h: "n = 3" "hi = ETX_CODE"
    then have "lo = 253" using lon by (intro u8_eqI) simp
    then show False using dn h by (simp add: ida_data_length_def)
  qed
  moreover have "n \<noteq> 5 \<or> hi \<noteq> 0xF0"
  proof (intro disjCI notI, simp)
    assume h: "n = 5" "hi = 0xF0"
    then have "lo = 255" using lon by (intro u8_eqI) simp
    then show False using dn h by (simp add: ida_data_length_def)
  qed
  ultimately show ?thesis using assms(3) by blast
qed

lemma take_frame:
  assumes "4 \<le> n" "p + n \<le> length Src"
  shows "take n (drop p Src) =
    [Src ! p] @ take (n - 4) (drop (p + 1) Src) @ [Src ! (p + n - 3), Src ! (p + n - 2), Src ! (p + n - 1)]"
proof -
  obtain m where m: "n = 1 + (m + 3)" using le_Suc_ex [OF assms(1)] by auto
  have one: "take 1 (drop k Src) = [Src ! k]" if "k < length Src" for k
    using that by (simp add: take_Suc_conv_app_nth)
  have three: "take 3 (drop k Src) = [Src ! k, Src ! (k + 1), Src ! (k + 2)]" if "k + 3 \<le> length Src" for k
    using that by (simp add: numeral_3_eq_3 take_Suc_conv_app_nth)
  have "take n (drop p Src) = take 1 (drop p Src) @ take m (drop (p + 1) Src) @ take 3 (drop (p + 1 + m) Src)"
    unfolding m take_add by (simp add: add.commute)
  moreover have "p + n - 3 = p + 1 + m" "p + n - 2 = p + 1 + m + 1" "p + n - 1 = p + 1 + m + 2" "n - 4 = m"
    using m by simp_all
  ultimately show ?thesis
    using assms(2) m one [of p] three [of "p + 1 + m"] by (simp only:)
qed

lemma form_load_region:
  assumes "form_load f bs = Some g"
  shows "form_region g = bs @ drop (length bs) (form_region f)" "length (Data8 g) = length (Data8 f)"
proof -
  obtain r where r: "r = bs @ drop (length bs) (form_region f)" "length bs \<le> length (form_region f)"
      "g = f\<lparr>Lenth16 := le16 (r ! 0) (r ! 1), Cmd8 := r ! 2, Data8 := drop 3 r\<rparr>"
    using assms by (auto simp: form_load_def blit_Some Option.bind_eq_Some_conv)
  have len: "length r = length (Data8 f) + 3" using r(2) by (simp add: r(1))
  then have "length r = Suc (Suc (Suc (length (Data8 f))))" by simp
  then obtain a b c d where "r = a # b # c # d" by (auto simp: length_Suc_conv)
  then show "form_region g = bs @ drop (length bs) (form_region f)" "length (Data8 g) = length (Data8 f)"
    using r len by (simp_all add: form_region_def mem16_def)
qed

lemma ValidIda_packet_sound:
  assumes acc: "ValidIda_packet Src sz i e rx = Some (Some (e', rx'))" and len: "length Src = 512"
  shows "\<exists>p body f. e \<le> p \<and> p + length body + 4 = e' + 1 \<and> e' < sz \<and> frame_at Src p body \<and> i < length rx \<and>
           rx' = rx[i := f] \<and> length (Data8 f) = length (Data8 (rx ! i)) \<and>
           take (length body) (form_region f) = body"
proof -
  obtain p n f where p: "e \<le> p" "Src ! p = STX_CODE" "1 \<le> n" "p + n \<le> 512" "p + 7 \<le> sz"
      "e' = (p + n - 1) mod 65536" "e' < sz" "Src ! e' = ETX_CODE" "2 \<le> e'"
      "n = (6 + unat (ida_data_length (Src ! (p + 1)) (Src ! (p + 2)))) mod 65536"
      "le16 (Src ! (e' - 2)) (Src ! (e' - 1)) = calcCRC (take (n - 4) (drop (p + 1) Src))"
      "i < length rx" "rx' = rx[i := f]" "form_load (rx ! i) (take (n - 1) (drop (p + 1) Src)) = Some f"
    using ValidIda_packet_accept [OF acc len] by metis
  have e': "e' = p + n - 1" using p(4,6) by simp
  have "6 \<le> n"
  proof (rule ccontr)
    assume "\<not> 6 \<le> n"
    moreover have "n \<noteq> 1" using p(2,8) e' by auto
    moreover have "n = 2 \<Longrightarrow> Src ! (p + 1) = ETX_CODE" using p(8) e' by simp
    moreover have "n = 3 \<Longrightarrow> Src ! (p + 2) = ETX_CODE" using p(8) e' by simp
    moreover have "n = 4 \<Longrightarrow> Src ! (p + 1) = 0"
    proof -
      assume n4: "n = 4"
      have "le16 (Src ! (p + 1)) (Src ! (p + 2)) = 0"
        using p(11) e' n4 calcCRC_small by simp
      then have "lo8 (le16 (Src ! (p + 1)) (Src ! (p + 2))) = lo8 0" by (rule arg_cong)
      moreover have "lo8 0 = 0" by (simp add: lo8_def)
      ultimately show ?thesis by simp
    qed
    moreover have "n = 5 \<Longrightarrow> Src ! (p + 2) = 0xF0"
    proof -
      assume n5: "n = 5"
      have b: "take (n - 4) (drop (p + 1) Src) = [Src ! (p + 1)]"
        using n5 p(4) len by (simp add: take_Suc_conv_app_nth)
      have lo: "Src ! (p + 1) = 255"
      proof -
        have "unat (ida_data_length (Src ! (p + 1)) (Src ! (p + 2))) = 65535"
          using wrapped_length [OF p(10)] n5 by simp
        then have "unat (Src ! (p + 1)) = 255"
          using unat_lo8 [of "ida_data_length (Src ! (p + 1)) (Src ! (p + 2))"]
          by (simp add: lo8_ida_data_length)
        then show ?thesis by (intro u8_eqI) simp
      qed
      have "le16 (Src ! (p + 2)) (Src ! (p + 3)) = 0x1EF0"
        using p(11) e' n5 b lo calcCRC_small by (simp add: add.commute)
      then have "lo8 (le16 (Src ! (p + 2)) (Src ! (p + 3))) = lo8 0x1EF0" by (rule arg_cong)
      moreover have "lo8 0x1EF0 = 0xF0" by (simp add: lo8_def)
      ultimately show ?thesis by simp
    qed
    moreover have "n = 1 \<or> n = 2 \<or> n = 3 \<or> n = 4 \<or> n = 5" using p(3) \<open>\<not> 6 \<le> n\<close> by linarith
    ultimately show False using no_wrapped_length [OF p(10)] by fastforce
  qed
  define body where "body = take (n - 4) (drop (p + 1) Src)"
  have lb: "length body = n - 4" using p(4) \<open>6 \<le> n\<close> len by (simp add: body_def)
  have "mem16 (calcCRC body) = [Src ! (p + n - 3), Src ! (p + n - 2)]"
  proof -
    have "calcCRC body = le16 (Src ! (e' - 2)) (Src ! (e' - 1))" using p(11) by (simp only: body_def)
    moreover have "e' - 2 = p + n - 3" "e' - 1 = p + n - 2" using e' \<open>6 \<le> n\<close> by simp_all
    ultimately show ?thesis by (simp only: mem16_def lo8_le16 hi8_le16)
  qed
  then have "frame_at Src p body"
    using take_frame [of n p Src] \<open>6 \<le> n\<close> p(2,4,8) len lb e' by (simp add: frame_at_def body_def)
  moreover have "take (length body) (form_region f) = body"
  proof -
    have "length (take (n - 1) (drop (p + 1) Src)) = n - 1" using p(4) len by simp
    moreover have "min (n - 4) (n - 1) = n - 4" "n - 4 - (n - 1) = 0" using \<open>6 \<le> n\<close> by simp_all
    ultimately show ?thesis
      unfolding lb form_load_region(1) [OF p(14)] take_append take_take by (simp only: body_def take0 append_Nil2)
  qed
  ultimately show ?thesis using p lb e' \<open>6 \<le> n\<close> form_load_region(2) [OF p(14)]
    by (intro exI [of _ p] exI [of _ body] exI [of _ f]) auto
qed

section \<open>The whole input\<close>

definition slot_ok :: "bytes \<Rightarrow> IDA_DATA_FORM \<Rightarrow> bool" where
  "slot_ok Src f \<longleftrightarrow>
     (\<exists>p body. frame_at Src p body \<and> take (length body) (form_region f) = body)"

lemma ValidIda_packet_slots:
  assumes "ValidIda_packet Src sz i e rx = Some (Some (e', rx'))" "length Src = 512"
    and "\<forall>f\<in>set rx. length (Data8 f) = 512"
  shows "\<exists>f. rx' = rx[i := f] \<and> i < length rx \<and> length (Data8 f) = 512 \<and> slot_ok Src f"
proof -
  obtain p body f where f: "frame_at Src p body" "i < length rx" "rx' = rx[i := f]"
      "take (length body) (form_region f) = body" "length (Data8 f) = length (Data8 (rx ! i))"
    using ValidIda_packet_sound [OF assms(1,2)] by blast
  then show ?thesis using assms(3) by (auto simp: slot_ok_def)
qed

lemma ValidIda_loop_sound:
  assumes "ValidIda_loop n k Src sz e rx = Some (m, rx')" "length Src = 512"
    and "\<forall>f\<in>set rx. length (Data8 f) = 512"
  shows "k \<le> m \<and> m < k + n \<and> length rx' = length rx \<and> (\<forall>f\<in>set rx'. length (Data8 f) = 512) \<and>
    (\<forall>j<k. rx' ! j = rx ! j) \<and> (\<forall>j. k \<le> j \<and> j < m \<longrightarrow> slot_ok Src (rx' ! j))"
  using assms
proof (induction n k Src sz e rx rule: ValidIda_loop.induct)
  case (2 n k Src sz e rx)
  from "2.prems"(1) obtain r where r: "ValidIda_packet Src sz k e rx = Some r"
    by (auto simp: Option.bind_eq_Some_conv)
  show ?case
  proof (cases r)
    case None
    then show ?thesis using "2.prems" r by auto
  next
    case (Some er)
    obtain e1 rx1 where er: "er = (e1, rx1)" by (cases er)
    obtain f where f: "rx1 = rx[k := f]" "k < length rx" "length (Data8 f) = 512" "slot_ok Src f"
      using ValidIda_packet_slots [OF _ "2.prems"(2,3)] r Some er by metis
    have run: "ValidIda_loop n (k + 1) Src sz e1 rx1 = Some (m, rx')"
      using "2.prems"(1) r Some er by simp
    have "\<forall>g\<in>set rx1. length (Data8 g) = 512"
      using "2.prems"(3) f(1,3) set_update_subset_insert [of rx k f] by auto
    then have IH: "k + 1 \<le> m" "m < k + 1 + n" "length rx' = length rx1" "\<forall>f\<in>set rx'. length (Data8 f) = 512"
        "\<forall>j<k + 1. rx' ! j = rx1 ! j" "\<forall>j. k + 1 \<le> j \<and> j < m \<longrightarrow> slot_ok Src (rx' ! j)"
      using "2.IH" [OF r Some er [symmetric] run "2.prems"(2)] by auto
    have "slot_ok Src (rx' ! j)" if "k \<le> j" "j < m" for j
      using IH(5,6) f that by (cases "j = k") auto
    then show ?thesis using IH f by auto
  qed
qed simp

lemma ValidIda_inv_sound:
  assumes "ValidIda bs st = Some (k, st')" and inv: "link_inv st"
  shows "link_inv st' \<and> k \<le> 4 \<and> (\<forall>j<k. slot_ok (pars_buf st') (IdaRxDataForm st' ! j))"
proof (cases "unat (dataContinSize st) = 0")
  case True
  then obtain x Src where 1: "blit (replicate 512 0) 0 bs = Some Src" "rdi bs (int (length bs) - 1) = Some x"
    using assms(1) by (auto simp: ValidIda_def Let_def Option.bind_eq_Some_conv)
  then have len: "length Src = 512" "length bs \<le> 512" by (auto simp: blit_Some)
  show ?thesis
  proof (cases "x = ETX_CODE")
    case False
    then have "k = 0 \<and> st' = st\<lparr>pars_buf := Src, dataContinSize := w16 (length bs)\<rparr>"
      using assms(1) True 1 by (simp add: ValidIda_def Let_def)
    then show ?thesis using inv len by (simp add: link_inv_def unat_w16)
  next
    case True
    then obtain rx where "ValidIda_loop 5 0 Src (length bs) 0 (IdaRxDataForm st) = Some (k, rx)"
        "st' = st\<lparr>pars_buf := Src, IdaRxDataForm := rx\<rparr>"
      using assms(1) \<open>unat (dataContinSize st) = 0\<close> 1 by (auto simp: ValidIda_def Let_def Option.bind_eq_Some_conv)
    then show ?thesis
      using ValidIda_loop_sound [OF _ len(1)] inv len by (fastforce simp: link_inv_def)
  qed
next
  case False
  let ?pend = "unat (dataContinSize st)"
  obtain x where x: "rdi bs (int (length bs) - 1) = Some x"
    using assms(1) by (auto simp: ValidIda_def Let_def Option.bind_eq_Some_conv)
  show ?thesis
  proof (cases "?pend + length bs > 516 \<or> x \<noteq> ETX_CODE")
    case True
    then have "k = 0 \<and> st' = st\<lparr>dataContinSize := 0\<rparr>"
      using assms(1) False x by (auto simp: ValidIda_def Let_def split: if_splits)
    then show ?thesis using inv by (simp add: link_inv_def)
  next
    case ok: False
    then obtain Src rx where 1: "blit (pars_buf st) ?pend bs = Some Src"
        "ValidIda_loop 5 0 Src (length bs + ?pend) 0 (IdaRxDataForm st) = Some (k, rx)"
        "st' = st\<lparr>pars_buf := Src, dataContinSize := 0, IdaRxDataForm := rx\<rparr>"
      using assms(1) False x by (auto simp: ValidIda_def Let_def Option.bind_eq_Some_conv split: if_splits)
    have len: "length Src = 512" using 1(1) inv by (auto simp: length_blit link_inv_def)
    show ?thesis
      using ValidIda_loop_sound [OF 1(2) len] inv len 1(3) by (fastforce simp: link_inv_def)
  qed
qed

lemma ValidIda_loop_full:
  assumes "n \<le> length fs" "Src = pre @ ida_wire fs @ post" "length Src = 512"
    "sz = length pre + length (ida_wire fs)" "e \<le> length pre" "STX_CODE \<notin> set (drop e pre)"
    "k + n \<le> length rx" "\<forall>f\<in>set rx. length (Data8 f) = 512" "\<forall>f\<in>set fs. short_frame f"
  shows "ValidIda_loop n k Src sz e rx = None"
  using assms
proof (induction n arbitrary: fs k pre e rx)
  case (Suc n)
  then obtain c d gs where fs: "fs = (c, d) # gs" by (cases fs) auto
  let ?pre = "pre @ ida_frame c d" and ?e = "length pre + length d + 6"
  obtain g where g: "ValidIda_packet Src sz k e rx = Some (Some (?e, rx[k := g]))" "form_holds g c d"
    using ValidIda_packet_frame [of Src pre c d "ida_wire gs @ post" sz e k rx] Suc.prems
    by (auto simp: fs short_frame_def)
  let ?b = "[STX_CODE] @ ida_body c d @ mem16 (calcCRC (ida_body c d))"
  have "?pre = (pre @ ?b) @ [ETX_CODE]" by (simp add: ida_frame_def)
  moreover have "length (pre @ ?b) = ?e" by simp
  ultimately have "drop ?e ?pre = [ETX_CODE]" by (metis append_eq_conv_conj)
  then have "ValidIda_loop n (k + 1) Src sz ?e (rx[k := g]) = None"
    using Suc.prems g(2)
    by (intro Suc.IH [where pre = ?pre and fs = gs])
       (auto simp: fs form_holds_def dest!: subsetD [OF set_update_subset_insert])
  then show ?case using g(1) by simp
qed simp

section \<open>Input the receiver cannot handle\<close>

text \<open>A single frame whose length field is between 128 and 255.\<close>

lemma ValidIda_packet_long:
  assumes n: "128 \<le> Suc (length data)" "Suc (length data) \<le> 255"
    and len: "length (ida_frame cmd data @ post) = 512"
  shows "ValidIda_packet (ida_frame cmd data @ post) (length data + 7) 0 0 rx = Some None"
proof -
  let ?S = "ida_frame cmd data @ post" and ?n = "Suc (length data)"
  obtain d0 ds where ds: "data = d0 # ds" using n by (cases data) auto
  have stx: "find_stx ?S 0 (length data + 7) = Some (Some 0)"
    using len by (auto simp: find_stx_def ida_frame_def intro!: find_upt)
  have lo: "unat (lo8 (w16 ?n)) = ?n" and hi: "hi8 (w16 ?n) = 0"
  proof -
    show lo: "unat (lo8 (w16 ?n)) = ?n" using n by (simp add: unat_lo8 unat_w16)
    have "unat (le16 (lo8 (w16 ?n)) (hi8 (w16 ?n))) = ?n" using n by (simp add: unat_w16)
    then have "unat (hi8 (w16 ?n)) = 0" unfolding unat_le16 lo by simp
    then show "hi8 (w16 ?n) = 0" by (rule unat_eq_zero [THEN iffD1])
  qed
  have S: "?S ! 0 = STX_CODE" "?S ! 1 = lo8 (w16 ?n)" "?S ! 2 = 0" "?S ! 3 = cmd" "?S ! 4 = d0"
    using hi by (simp_all add: ida_frame_def ida_body_def mem16_def ds)
  have "le16 (lo8 (w16 ?n)) 0 = w16 ?n" using le16_lo_hi [of "w16 ?n"] hi by simp
  moreover have "unat (w16 ?n - 256) = 65280 + ?n"
    using n by (simp add: unat_sub_if' unat_w16)
  ultimately have dl: "unat (ida_data_length (lo8 (w16 ?n)) 0) = 65280 + ?n"
    using n lo by (simp add: ida_data_length_le16)
  have r: "rd ?S (0 + 1) = Some (lo8 (w16 ?n))" "rd ?S (0 + 2) = Some 0"
    using S(2,3) len by (simp_all add: rd_def numeral_2_eq_2)
  note unf = ValidIda_packet_def stx Option.bind.simps option.case r Let_def dl
  show ?thesis
  proof (cases "?n \<le> 250")
    case True
    then have "(0 + (HEADER_SIZE - 2) + (65280 + ?n)) mod 2 ^ 16 = 65285 + ?n" by simp
    then show ?thesis using n unfolding unf by simp
  next
    case False
    define m where "m = ?n - 251"
    have m: "m < 5" "?n = 251 + m" using n False by (auto simp: m_def)
    have E: "(0 + (HEADER_SIZE - 2) + (65280 + ?n)) mod 2 ^ 16 = m"
      and L: "(HEADER_SIZE - 1 + (65280 + ?n)) mod 2 ^ 16 = m + 1"
      using m by (simp_all add: mod_if)
    have big: "\<not> length data + 7 < 0 + 7" "\<not> length data + 7 < m + 1" using m by auto
    have R: "rd ?S m = Some (?S ! m)" using m len by (simp add: rd_def)
    have ne: "?S ! m = ETX_CODE \<Longrightarrow> 2 \<le> m \<and>
        calcCRC (take (m - 3) (drop 1 ?S)) \<noteq> le16 (?S ! (m - 2)) (?S ! (m - 1))"
    proof -
      assume e: "?S ! m = ETX_CODE"
      have l1: "unat (?S ! 1) = ?n" using S(2) lo by simp
      have "m \<noteq> 0" using e S(1) by (intro notI) simp
      moreover have "m \<noteq> 1" using e l1 m by (intro notI) simp
      moreover have "m \<noteq> 2" using e S(3) by (intro notI) simp
      ultimately have m34: "m = 3 \<or> m = 4" using m(1) by linarith
      have c3: "calcCRC (take (m - 3) (drop 1 ?S)) \<noteq> le16 (?S ! (m - 2)) (?S ! (m - 1))" if m3: "m = 3"
      proof
        assume "calcCRC (take (m - 3) (drop 1 ?S)) = le16 (?S ! (m - 2)) (?S ! (m - 1))"
        then have "le16 (?S ! 1) (?S ! 2) = 0" using m3 calcCRC_small by simp
        then have "unat (le16 (?S ! 1) (?S ! 2)) = 0" by simp
        then show False unfolding unat_le16 l1 by simp
      qed
      have c4: "calcCRC (take (m - 3) (drop 1 ?S)) \<noteq> le16 (?S ! (m - 2)) (?S ! (m - 1))" if m4: "m = 4"
      proof
        assume a: "calcCRC (take (m - 3) (drop 1 ?S)) = le16 (?S ! (m - 2)) (?S ! (m - 1))"
        have t1: "2 \<le> length xs \<Longrightarrow> take 1 (drop 1 xs) = [xs ! 1]" for xs :: bytes
          by (simp add: take_Suc_conv_app_nth)
        have "?S ! 1 = 255" using l1 m(2) m4 by (intro u8_eqI) simp
        then have t: "take (m - 3) (drop 1 ?S) = [255]" using t1 [of ?S] len m4 by simp
        have i: "m - 2 = 2" "m - 1 = 3" using m4 by simp_all
        have "lo8 (le16 (?S ! 2) (?S ! 3)) = lo8 0x1EF0"
          using a unfolding t calcCRC_small i by simp
        then have "?S ! 2 = 0xF0" by (simp only: lo8_le16) (simp add: lo8_def)
        then show False using S(3) by simp
      qed
      have "2 \<le> m" using m34 by linarith
      then show ?thesis using m34 c3 c4 by blast
    qed
    show ?thesis
    proof (cases "?S ! m = ETX_CODE")
      case True
      then have m2: "2 \<le> m" and c: "calcCRC (take (m - 3) (drop 1 ?S)) \<noteq> le16 (?S ! (m - 2)) (?S ! (m - 1))"
        using ne by auto
      have rr: "rdi ?S (int m - 1) = Some (?S ! (m - 1))" "rdi ?S (int m - 2) = Some (?S ! (m - 2))"
        using m2 m(1) len by (simp_all add: rdi_def rd_def nat_diff_distrib')
      have sl: "slice ?S (0 + 1) (nat (int (m + 1) - 4)) = Some (take (m - 3) (drop 1 ?S))"
        using m(1) len by (simp add: slice_def nat_diff_distrib')
      show ?thesis unfolding unf E L R Option.bind.simps rr sl using big True c by simp
    next
      case False
      then show ?thesis unfolding unf E L R Option.bind.simps using big by simp
    qed
  qed
qed

section \<open>Properties\<close>

text \<open>The state after start-up: all buffers zero, nothing pending.\<close>

definition idle_form :: IDA_DATA_FORM where
  "idle_form = \<lparr>Stx8 = 0, Lenth16 = 0, Cmd8 = 0, Data8 = replicate 512 0, Crc16 = 0, Etx8 = 0\<rparr>"

definition idle_link :: ida_link where
  "idle_link = \<lparr>pars_buf = replicate 512 0, dataContinSize = 0, IdaRxDataForm = replicate 5 idle_form\<rparr>"

lemma idle_link [simp]: "link_inv idle_link" "dataContinSize idle_link = 0"
  by (simp_all add: idle_link_def link_inv_def idle_form_def)

text \<open>What \<open>MakeTx\<close> followed by \<open>SendBuff\<close> puts into the request buffer is the frame of the command and of
  the first \<open>n\<close> data bytes, and the rest of the buffer is unchanged.\<close>

theorem obd_frame_sent:
  assumes "n < 256" "n < length (Data8 tx)" "n + 7 \<le> length Des"
  shows "Option.bind (MakeTx cmd (w16 (Suc n)) tx) (SendBuff Des (w8 n)) =
    Some (ida_frame cmd (take n (Data8 tx)) @ drop (n + 7) Des)"
  using assms by (rule SendBuff_MakeTx)

theorem obd_frame_sent_witness:
  "Option.bind (MakeTx 0x12 (w16 (Suc 13)) idle_form) (SendBuff (replicate 30 0) (w8 13)) =
    Some (ida_frame 0x12 (replicate 13 0) @ replicate 10 0)"
  using obd_frame_sent [where n = 13 and tx = idle_form and Des = "replicate 30 0" and cmd = "0x12"]
  by (simp add: idle_form_def)

text \<open>C35. A read on an idle link that returns one to four complete frames in at most 512 bytes, each with a length field
  whose low byte is below 128, is split into exactly these frames: the slots hold the commands and data that were sent.
  A frame whose length byte is 128 or more is lost (\<open>ida_long_frame_lost\<close>).\<close>

theorem ida_frames_received:
  assumes "link_inv st" "dataContinSize st = 0" "fs \<noteq> []" "length fs \<le> 4"
    "\<forall>f\<in>set fs. short_frame f" "length (ida_wire fs) \<le> 512"
  shows "\<exists>st'. ValidIda (ida_wire fs) st = Some (length fs, st') \<and> link_inv st' \<and>
           dataContinSize st' = 0 \<and> slots_hold (IdaRxDataForm st') fs"
  using assms by (rule ValidIda_whole)

theorem ida_frames_received_witness:
  "\<exists>st'. ValidIda (ida_wire [(0x21, [50]), (0x01, [])]) idle_link = Some (2, st') \<and>
     slots_hold (IdaRxDataForm st') [(0x21, [50]), (0x01, [])]"
  using ida_frames_received [of idle_link "[(0x21, [50]), (0x01, [])]"]
  by (auto simp: short_frame_def)

text \<open>The same transmission is received when it arrives in two reads, wherever it is split, provided the
  first part does not end in an ETX byte.\<close>

theorem ida_frames_received_split:
  assumes "link_inv st" "dataContinSize st = 0" "fs \<noteq> []" "length fs \<le> 4"
    "\<forall>f\<in>set fs. short_frame f" "length (ida_wire fs) \<le> 512"
    "ida_wire fs = a @ b" "a \<noteq> []" "b \<noteq> []" "last a \<noteq> ETX_CODE"
  shows "\<exists>st1 st2. ValidIda a st = Some (0, st1) \<and> ValidIda b st1 = Some (length fs, st2) \<and>
           link_inv st2 \<and> dataContinSize st2 = 0 \<and> slots_hold (IdaRxDataForm st2) fs"
  using assms by (rule ValidIda_two_parts)

theorem ida_frames_received_split_witness:
  "\<exists>st1 st2. ValidIda (take 4 (ida_wire [(0x21, [50])])) idle_link = Some (0, st1) \<and>
     ValidIda (drop 4 (ida_wire [(0x21, [50])])) st1 = Some (1, st2) \<and>
     slots_hold (IdaRxDataForm st2) [(0x21, [50])]"
proof -
  have "last (take 4 (ida_wire [(0x21, [50])])) \<noteq> ETX_CODE"
    by (simp add: ida_frame_def ida_body_def mem16_def w16_def)
  moreover have "ida_frame 0x21 [50] \<noteq> []" by (simp add: ida_frame_def)
  ultimately show ?thesis
    using ida_frames_received_split [of idle_link "[(0x21, [50])]" "take 4 (ida_wire [(0x21, [50])])"
        "drop 4 (ida_wire [(0x21, [50])])"]
    by (auto simp: short_frame_def)
qed

text \<open>Whatever bytes arrive, every packet that \<open>ValidIda\<close> reports lies in the receive buffer as a
  well-formed frame (STX, at least the two length bytes, the CRC of what is between, ETX), its slot starts with the
  bytes of that frame, at most four packets are reported, and the invariant of the receive state is kept.\<close>

theorem ida_accept_sound:
  assumes "ValidIda bs st = Some (k, st')" "link_inv st"
  shows "link_inv st' \<and> k \<le> 4 \<and>
    (\<forall>j<k. \<exists>p body. frame_at (pars_buf st') p body \<and>
             take (length body) (form_region (IdaRxDataForm st' ! j)) = body)"
  using ValidIda_inv_sound [OF assms] by (simp add: slot_ok_def)

theorem ida_accept_sound_witness:
  "\<exists>k st'. ValidIda [0x02, 0x03] idle_link = Some (k, st') \<and> link_inv st' \<and> k \<le> 4"
proof -
  have "ValidIda [0x02, 0x03] idle_link = Some (0, idle_link\<lparr>pars_buf := [0x02, 0x03] @ replicate 510 0\<rparr>)"
    by (simp add: ValidIda_def idle_link_def blit_def rdi_def rd_def numeral_eq_Suc ValidIda_packet_def
        find_stx_def Let_def upt_rec)
  then show ?thesis using ida_accept_sound [OF _ idle_link(1)] by blast
qed

text \<open>A frame with a length field between 128 and 255 is never received: it is well formed and its
  checksum is right, but \<open>ValidIda\<close> reports no packet and leaves the slots alone.  (The length byte is read
  through a signed \<open>char\<close>; the battery report of a car with more than about 80 cells has this size.)\<close>

theorem ida_long_frame_lost:
  assumes "link_inv st" "dataContinSize st = 0" "127 \<le> length data" "length data \<le> 254"
  shows "\<exists>st'. ValidIda (ida_frame cmd data) st = Some (0, st') \<and> IdaRxDataForm st' = IdaRxDataForm st"
proof -
  let ?pad = "replicate (512 - length (ida_frame cmd data)) 0"
  have b: "blit (replicate 512 0) 0 (ida_frame cmd data) = Some (ida_frame cmd data @ ?pad)"
    using assms(4) by (simp add: blit_def)
  have l: "rdi (ida_frame cmd data) (int (length (ida_frame cmd data)) - 1) = Some ETX_CODE"
    using rdi_last [of "[STX_CODE] @ ida_body cmd data @ mem16 (calcCRC (ida_body cmd data))" ETX_CODE]
    by (simp add: ida_frame_def)
  have p: "ValidIda_packet (ida_frame cmd data @ ?pad) (length (ida_frame cmd data)) 0 0 rx = Some None" for rx
    using ValidIda_packet_long [of data cmd ?pad rx] assms(3,4) by simp
  have "ValidIda_loop 5 0 (ida_frame cmd data @ ?pad) (length (ida_frame cmd data)) 0 rx = Some (0, rx)" for rx
    using p [of rx] by (simp add: numeral_eq_Suc)
  then show ?thesis
    using assms(2) b l by (simp add: ValidIda_def Let_def)
qed

theorem ida_long_frame_lost_witness:
  "\<exists>st'. ValidIda (ida_frame 0x23 (replicate 200 7)) idle_link = Some (0, st') \<and>
     IdaRxDataForm st' = IdaRxDataForm idle_link"
  by (rule ida_long_frame_lost) auto

lemma ValidIda_undefined:
  assumes "link_inv st"
  shows "dataContinSize st = 0 \<Longrightarrow> length fs = 5 \<Longrightarrow> \<forall>f\<in>set fs. short_frame f \<Longrightarrow> length (ida_wire fs) \<le> 512 \<Longrightarrow>
           ValidIda (ida_wire fs) st = None"
    and "512 < unat (dataContinSize st) + length (bs @ [ETX_CODE]) \<Longrightarrow> dataContinSize st \<noteq> 0 \<Longrightarrow>
           unat (dataContinSize st) + length (bs @ [ETX_CODE]) \<le> 516 \<Longrightarrow> ValidIda (bs @ [ETX_CODE]) st = None"
    and "dataContinSize st = 0 \<Longrightarrow> ValidIda [0, 0, 3, 2, 0xFA, 0, x, y, z, 3] st = None"
proof -
  {
    assume a: "dataContinSize st = 0" "length fs = 5" "\<forall>f\<in>set fs. short_frame f" "length (ida_wire fs) \<le> 512"
    then have "fs \<noteq> []" by auto
    then obtain xs where xs: "ida_wire fs = xs @ [ETX_CODE]" using last_ida_wire by blast
    let ?pad = "replicate (512 - length (ida_wire fs)) 0"
    have "blit (replicate 512 0) 0 (ida_wire fs) = Some (ida_wire fs @ ?pad)"
      using a(4) by (simp add: blit_def)
    moreover have "ValidIda_loop 5 0 (ida_wire fs @ ?pad) (length (ida_wire fs)) 0 (IdaRxDataForm st) = None"
      by (rule ValidIda_loop_full [where pre = "[]"]) (use a assms in \<open>auto simp: link_inv_def\<close>)
    ultimately show "ValidIda (ida_wire fs) st = None"
      using a(1) rdi_last [of xs ETX_CODE] by (simp add: ValidIda_def Let_def xs [symmetric])
  next
    assume a: "512 < unat (dataContinSize st) + length (bs @ [ETX_CODE])" "dataContinSize st \<noteq> 0"
      "unat (dataContinSize st) + length (bs @ [ETX_CODE]) \<le> 516"
    have "unat (dataContinSize st) \<noteq> 0" using a(2) unat_eq_zero by blast
    moreover have "blit (pars_buf st) (unat (dataContinSize st)) (bs @ [ETX_CODE]) = None"
      using a(1) assms by (simp add: blit_def link_inv_def)
    ultimately show "ValidIda (bs @ [ETX_CODE]) st = None"
      using a(3) rdi_last [of bs ETX_CODE] by (simp add: ValidIda_def Let_def)
  next
    assume a: "dataContinSize st = 0"
    let ?S = "[0, 0, 3, 2, 0xFA, 0, x, y, z, 3] @ replicate 502 0"
    have "find_stx ?S 0 10 = Some (Some 3)"
      by (simp add: find_stx_def upt_rec)
    then have "ValidIda_packet ?S 10 0 0 rx = None" for rx
      by (simp add: ValidIda_packet_def rd_def rdi_def slice_def Let_def ida_data_length_def le16_def calcCRC_small)
    then show "ValidIda [0, 0, 3, 2, 0xFA, 0, x, y, z, 3] st = None"
      using a by (simp add: ValidIda_def Let_def blit_def rdi_def rd_def numeral_eq_Suc)
  }
qed

text \<open>Inputs on which \<open>ValidIda\<close> has undefined behaviour: five complete frames in one read (the function
  ends without returning a count), a second part that fills the buffer to 513 to 516 bytes (the guard compares
  with 516, the buffer has 512), and a ten-byte input whose length field is negative as a signed number (the
  size given to \<open>memcpy\<close> is then -1).\<close>

theorem ida_undefined_inputs:
  assumes "link_inv st"
  shows "(dataContinSize st = 0 \<and> length fs = 5 \<and> (\<forall>f\<in>set fs. short_frame f) \<and> length (ida_wire fs) \<le> 512 \<longrightarrow>
            ValidIda (ida_wire fs) st = None) \<and>
         (dataContinSize st \<noteq> 0 \<and> 512 < unat (dataContinSize st) + length bs + 1 \<and>
            unat (dataContinSize st) + length bs + 1 \<le> 516 \<longrightarrow> ValidIda (bs @ [ETX_CODE]) st = None) \<and>
         (dataContinSize st = 0 \<longrightarrow> ValidIda [0, 0, 3, 2, 0xFA, 0, x, y, z, 3] st = None)"
  using ValidIda_undefined(1) [OF assms, of fs] ValidIda_undefined(2) [OF assms, of bs]
    ValidIda_undefined(3) [OF assms, of x y z] by simp

theorem ida_undefined_inputs_witness:
  "ValidIda [0, 0, 3, 2, 0xFA, 0, 1, 1, 1, 3] idle_link = None"
  using ida_undefined_inputs [OF idle_link(1), where x = 1 and y = 1 and z = 1] by simp

end
