(* ===== verification/App_Info.thy ===== *)
theory App_Info
  imports Prelude
begin

text \<open>
  Enumerations of \<open>src/project/tsct2007a/ctrlboard.h\<close> and \<open>tsctwsclient.h\<close> that several components share: the
  position in the charging sequence (\<open>shmDataAppInfo.app_order\<close>), the reason why a session ended
  (\<open>charge_comp_status\<close>) and the OCPP status of a connector.
\<close>

datatype APP_ORDER =
    APP_ORDER_NONE | APP_ORDER_WAIT | APP_ORDER_AUTH_METHOD | APP_ORDER_KAKAO_QR
  | APP_ORDER_CARD_READER | APP_ORDER_REMOTE_CHECK | APP_ORDER_CUSTOMER_AUTH
  | APP_ORDER_CONNECTOR_SELECT | APP_ORDER_CONNECT_IN | APP_ORDER_PAYMENT_METHOD
  | APP_ORDER_CHARGE_INPUT | APP_ORDER_CHARGE_READY | APP_ORDER_CHARGING
  | APP_ORDER_CHARGING_STOP | APP_ORDER_CHARGE_END | APP_ORDER_CUSTOMER_CONFIRM
  | APP_ORDER_PAYMENT | APP_ORDER_CONNECT_OUT | APP_ORDER_FINISH | APP_ORDER_CAR_NUMAUTH
  | APP_ORDER_CANCEL_PREPAY | APP_ORDER_ERR_REBOOT

datatype CHARGE_END_CODE =
    END_NONE | END_NOMAL | END_BTN | END_EMG | END_UNPLUG | END_ERR | END_SERVER | END_CAR | END_CARD

datatype CP_STATUS_CODE =
    CP_STATUS_CODE_NONE | CP_STATUS_CODE_PEND | CP_STATUS_CODE_AVAIL | CP_STATUS_CODE_PREPARE
  | CP_STATUS_CODE_CHARGING | CP_STATUS_CODE_SUSPENDEDEV | CP_STATUS_CODE_SUSPENDEDEVSE
  | CP_STATUS_CODE_FNISH | CP_STATUS_CODE_RESERVED | CP_STATUS_CODE_UNAVAIL | CP_STATUS_CODE_FAULT

end
