(* ===== verification/Obd.thy ===== *)
theory Obd
  imports Obd_Sound App_Info
begin

text \<open>
  The commands of the OBD/IDA link (\<open>src/project/tsct2007a/tsctobd.c\<close>): what the charger sends once a second
  (\<open>ObdSenario\<close>, \<open>ObdRS232ReqTask\<close>), how it answers the requests of the adapter (\<open>ParsRxData\<close>,
  \<open>ObdRS232ReadTask\<close>) and its start-up values (\<open>ObdInit\<close>).

  The globals of the file are the record \<open>obd\<close>; what other components provide (meter values, clock,
  configuration, position in the charging sequence) is the record \<open>obd_env\<close>; what the tasks do to the outside is a
  list of \<open>obd_act\<close>.  One call of a step function is one iteration of the task's loop.
\<close>

section \<open>State\<close>

record IDA_DATA =
  Soc :: u8
  PackVolt :: u16
  PackCurr :: u16
  CelVoltMin :: u8
  CelVoltMax :: u8
  CellTempMin :: u8
  CellTempMax :: u8
  CurrRatio :: u8
  CurrRatio_old :: u8

record IDA_KERI_DATA =
  TimeStamp :: u32
  Vin :: bytes
  kSoc :: u16
  Soh :: u8
  kPackCurr :: u16
  kPackVolt :: u16
  CellVolt :: bytes
  cellVoltLen :: u8
  ModulTemp :: bytes
  modulTempLen :: u8

record IDA_VAS_RAW_DATA =
  dataLenth :: u16
  vas_data :: bytes

record obd =
  IdaTxDataForm :: IDA_DATA_FORM
  ida :: ida_link
  IdaData :: IDA_DATA
  IdaKeriData :: "IDA_KERI_DATA list"
  idaVasRawData :: "IDA_VAS_RAW_DATA list"
  IdaKeriData_idx :: u8
  RespWaitCnt :: u16
  ResWaitCmd :: u8

record obd_env =
  env_app_order :: APP_ORDER
  evccIdFlg :: bool
  chkModeMac :: bytes
  AMICurrent :: u16
  AMIVolt :: u16
  tv_sec :: u32

datatype obd_act =
    Act_write bytes
  | Act_comp_status CHARGE_END_CODE
  | Act_StopCharge
  | Act_ch2FinishLayer

abbreviation ACK_CODE :: u8 where "ACK_CODE \<equiv> 0x06"
abbreviation NACK_CODE :: u8 where "NACK_CODE \<equiv> 0x15"
abbreviation CMD_STARTCHRG :: u8 where "CMD_STARTCHRG \<equiv> 0x10"
abbreviation CMD_CHRGINFO :: u8 where "CMD_CHRGINFO \<equiv> 0x12"
abbreviation CMD_GETMACID :: u8 where "CMD_GETMACID \<equiv> 0x01"
abbreviation CMD_GETWIFI :: u8 where "CMD_GETWIFI \<equiv> 0x02"
abbreviation CMD_REPRTWIFI :: u8 where "CMD_REPRTWIFI \<equiv> 0x03"
abbreviation CMD_SETCURR :: u8 where "CMD_SETCURR \<equiv> 0x21"
abbreviation CMD_SENDBWD :: u8 where "CMD_SENDBWD \<equiv> 0x22"
abbreviation CMD_SENDKERID :: u8 where "CMD_SENDKERID \<equiv> 0x23"
abbreviation CMD_EMGSTOP :: u8 where "CMD_EMGSTOP \<equiv> 0x2A"

section \<open>The periodic report\<close>

text \<open>The bytes of an \<open>uint32_t\<close> in memory.\<close>

definition mem32 :: "u32 \<Rightarrow> bytes" where
  "mem32 w = [ucast w, ucast (drop_bit 8 w), ucast (drop_bit 16 w), ucast (drop_bit 24 w)]"

text \<open>\<open>SendCmd_StartChrg\<close> and \<open>SendCmd_ReportParam\<close> differ in the first byte only.\<close>

definition report_data :: "u8 \<Rightarrow> obd_env \<Rightarrow> bytes \<Rightarrow> bytes option" where
  "report_data b0 env d = do {
     d \<leftarrow> blit d 0 (replicate 14 0);
     d \<leftarrow> wr d 0 b0;
     d \<leftarrow> blit d 5 (mem16 (AMICurrent env));
     d \<leftarrow> blit d 9 (mem16 (AMIVolt env * 10));
     blit d 1 (mem32 (tv_sec env))
   }"

definition SendCmd_StartChrg :: "obd_env \<Rightarrow> IDA_DATA_FORM \<Rightarrow> (u8 \<times> IDA_DATA_FORM) option" where
  "SendCmd_StartChrg env tx = do {
     d \<leftarrow> report_data 0x01 env (Data8 tx);
     tx \<leftarrow> MakeTx CMD_CHRGINFO 14 (tx\<lparr>Data8 := d\<rparr>);
     Some (14, tx)
   }"

definition SendCmd_ReportParam :: "obd_env \<Rightarrow> IDA_DATA_FORM \<Rightarrow> (u8 \<times> IDA_DATA_FORM) option" where
  "SendCmd_ReportParam env tx = do {
     d \<leftarrow> report_data 0x00 env (Data8 tx);
     tx \<leftarrow> MakeTx CMD_CHRGINFO 14 (tx\<lparr>Data8 := d\<rparr>);
     Some (14, tx)
   }"

definition ObdSenario :: "obd_env \<Rightarrow> IDA_DATA_FORM \<Rightarrow> (u8 \<times> IDA_DATA_FORM) option" where
  "ObdSenario env tx =
     (if env_app_order env = APP_ORDER_CHARGING \<and> evccIdFlg env then SendCmd_StartChrg env tx
      else SendCmd_ReportParam env tx)"

text \<open>One iteration of \<open>ObdRS232ReqTask\<close>; the second component of the state is its local \<open>RespMissCnt\<close>.\<close>

definition ObdRS232ReqTask :: "obd_env \<Rightarrow> obd \<times> u8 \<Rightarrow> ((obd \<times> u8) \<times> obd_act list) option" where
  "ObdRS232ReqTask env s = (case s of (st, RespMissCnt) \<Rightarrow>
     let st1 = (if RespWaitCnt st \<noteq> 0 then st\<lparr>RespWaitCnt := RespWaitCnt st + 1\<rparr> else st) in
     if RespWaitCnt st \<noteq> 0 \<and> RespWaitCnt st1 > 10
     then Some ((st1\<lparr>ResWaitCmd := 0, RespWaitCnt := 0\<rparr>, RespMissCnt + 1), [])
     else do {
       (ret_8, tx) \<leftarrow> ObdSenario env (IdaTxDataForm st1);
       let st2 = st1\<lparr>IdaTxDataForm := tx\<rparr>;
       if ret_8 = 0 then Some ((st2, RespMissCnt), [])
       else do {
         request \<leftarrow> SendBuff (replicate 30 0) (ret_8 - 1) tx;
         out \<leftarrow> slice request 0 (unat ret_8 + 6);
         Some ((st2\<lparr>RespWaitCnt := 1, ResWaitCmd := Cmd8 tx\<rparr>, RespMissCnt), [Act_write out])
       }
     })"

section \<open>Requests of the adapter\<close>

text \<open>The result of handling one command: the flag \<open>ParsRxData\<close> returns, the new state, the effects.\<close>

type_synonym obd_result = "bool \<times> obd \<times> obd_act list"

definition tx_ack :: "obd \<Rightarrow> obd option" where
  "tx_ack st = do {
     d \<leftarrow> wr (Data8 (IdaTxDataForm st)) 0 ACK_CODE;
     Some (st\<lparr>IdaTxDataForm := (IdaTxDataForm st)\<lparr>Data8 := d, Lenth16 := 2\<rparr>\<rparr>)
   }"

text \<open>\<open>CMD_GETMACID\<close>: one hexadecimal digit of the configured MAC address, and one iteration of the loop
  over its pairs of digits.\<close>

definition mac_digit :: "u8 \<Rightarrow> u8" where
  "mac_digit c =
     (if 0x30 \<le> c \<and> c \<le> 0x39 then c - 0x30
      else if 0x41 \<le> c \<and> c \<le> 0x46 then c - 0x41 + 10 else 0)"

definition mac_pair :: "bytes \<Rightarrow> nat \<Rightarrow> bytes \<Rightarrow> bytes option" where
  "mac_pair mac i d = do {
     a \<leftarrow> rd mac i;
     b \<leftarrow> rd mac (i + 1);
     d \<leftarrow> wr d (i div 2) (push_bit 4 (mac_digit a) + mac_digit b);
     d \<leftarrow> wr d (6 + i) a;
     wr d (6 + i + 1) b
   }"

fun mac_loop :: "bytes \<Rightarrow> nat list \<Rightarrow> bytes \<Rightarrow> bytes option" where
  "mac_loop mac [] d = Some d"
| "mac_loop mac (i # is) d = Option.bind (mac_pair mac i d) (mac_loop mac is)"

definition Pars_GETMACID :: "obd_env \<Rightarrow> obd \<Rightarrow> obd_result option" where
  "Pars_GETMACID env st = do {
     d \<leftarrow> mac_loop (chkModeMac env) [0, 2, 4, 6, 8, 10] (Data8 (IdaTxDataForm st));
     Some (True, st\<lparr>IdaTxDataForm := (IdaTxDataForm st)\<lparr>Data8 := d, Lenth16 := 19\<rparr>\<rparr>, [])
   }"

text \<open>\<open>CMD_REPRTWIFI\<close>: while a car is charging the case ends in \<open>break\<close> and the function ends without a
  \<open>return\<close>.\<close>

definition Pars_REPRTWIFI :: "obd_env \<Rightarrow> obd \<Rightarrow> obd_result option" where
  "Pars_REPRTWIFI env st =
     (if env_app_order env \<noteq> APP_ORDER_CHARGING \<and> env_app_order env \<noteq> APP_ORDER_CHARGE_READY
      then Some (False, st, []) else None)"

definition Pars_SETCURR :: "IDA_DATA_FORM \<Rightarrow> obd \<Rightarrow> obd_result option" where
  "Pars_SETCURR f st = do {
     d0 \<leftarrow> rd (Data8 f) 0;
     if d0 \<le> 0x64
     then do {
       st \<leftarrow> tx_ack (st\<lparr>IdaData := (IdaData st)\<lparr>CurrRatio := d0\<rparr>\<rparr>);
       Some (True, st, [])
     }
     else Some (False, st, [])
   }"

definition Pars_SENDBWD :: "IDA_DATA_FORM \<Rightarrow> obd \<Rightarrow> obd_result option" where
  "Pars_SENDBWD f st =
     (if Lenth16 f = 0x0a
      then do {
        d \<leftarrow> slice (Data8 f) 0 9;
        st \<leftarrow> tx_ack (st\<lparr>IdaData := (IdaData st)\<lparr>
          Soc := d ! 0, PackVolt := le16 (d ! 1) (d ! 2), PackCurr := le16 (d ! 3) (d ! 4),
          CelVoltMin := d ! 5, CelVoltMax := d ! 6, CellTempMin := d ! 7, CellTempMax := d ! 8\<rparr>\<rparr>);
        Some (True, st, [])
      }
      else Some (False, st, []))"

text \<open>\<open>CMD_SENDKERID\<close>: the checks, in the order of the code; the two variable lengths are results.\<close>

definition be16 :: "u8 \<Rightarrow> u8 \<Rightarrow> u16" where
  "be16 hi lo = ucast hi * 0x100 + ucast lo"

definition kerid_check :: "IDA_DATA_FORM \<Rightarrow> (nat \<times> nat) option" where
  "kerid_check f = (let L = unat (Lenth16 f); D = (\<lambda>i. Data8 f ! i) in
     if L < 7 then None else if D 0 \<noteq> 0xA1 then None else if D 1 \<noteq> 0x04 then None
     else if L < 7 + 19 then None else if D 6 \<noteq> 0xA2 then None else if D 7 \<noteq> 0x11 then None
     else if L < 7 + 19 + 3 then None else if D 25 \<noteq> 0xA3 then None else if D 26 \<noteq> 0x01 then None
     else if L < 7 + 19 + 3 + 3 then None else if D 28 \<noteq> 0xA4 then None else if D 29 \<noteq> 0x01 then None
     else if L < 7 + 19 + 3 + 3 + 4 then None else if D 31 \<noteq> 0xA5 then None else if D 32 \<noteq> 0x02 then None
     else if L < 7 + 19 + 3 + 3 + 4 + 4 then None else if D 35 \<noteq> 0xA6 then None else if D 36 \<noteq> 0x02 then None
     else if L < 7 + 19 + 3 + 3 + 4 + 4 + 3 then None else if D 39 \<noteq> 0xA7 then None
     else (let id_tmp = unat (be16 (D 40) (D 41)) in
       if id_tmp > 192 then None
       else if L < 7 + 19 + 3 + 3 + 4 + 4 + 3 + id_tmp then None
       else if L < 7 + 19 + 3 + 3 + 4 + 4 + 3 + id_tmp + 2 then None
       else if D (42 + id_tmp) \<noteq> 0xA8 then None
       else (let id_tmp1 = unat (D (43 + id_tmp)) in
         if id_tmp1 > 20 then None
         else if L < 7 + 19 + 3 + 3 + 4 + 4 + 3 + id_tmp + 2 + id_tmp1 then None
         else Some (id_tmp, id_tmp1))))"

text \<open>The record that is written into slot \<open>k\<close>; the two lengths are assigned inside the copy loops, so an
  empty list leaves the old value.\<close>

definition kerid_fill :: "IDA_DATA_FORM \<Rightarrow> nat \<Rightarrow> nat \<Rightarrow> IDA_KERI_DATA \<Rightarrow> IDA_KERI_DATA option" where
  "kerid_fill f id_tmp id_tmp1 k = (let D = (\<lambda>i. Data8 f ! i) in do {
     vin \<leftarrow> slice (Data8 f) 8 17;
     cells \<leftarrow> slice (Data8 f) 42 id_tmp;
     temps \<leftarrow> slice (Data8 f) (44 + id_tmp) id_tmp1;
     vin' \<leftarrow> blit (Vin k) 0 vin;
     cells' \<leftarrow> blit (CellVolt k) 0 cells;
     temps' \<leftarrow> blit (ModulTemp k) 0 temps;
     Some (k\<lparr>
       TimeStamp := ucast (D 2) * 0x1000000 + ucast (D 3) * 0x10000 + ucast (D 4) * 0x100 + ucast (D 5),
       Vin := vin', kSoc := ucast (D 27), Soh := D 30,
       kPackCurr := be16 (D 33) (D 34), kPackVolt := be16 (D 37) (D 38),
       CellVolt := cells', cellVoltLen := (if id_tmp = 0 then cellVoltLen k else w8 id_tmp),
       ModulTemp := temps', modulTempLen := (if id_tmp1 = 0 then modulTempLen k else w8 id_tmp1)\<rparr>)
   })"

text \<open>Making room when all thirty slots are taken, and filling slot \<open>IdaKeriData_idx\<close>.\<close>

definition kerid_room :: "obd \<Rightarrow> obd option" where
  "kerid_room st =
     (if IdaKeriData_idx st > 29
      then do {
        rest \<leftarrow> slice (IdaKeriData st) 1 29;
        shifted \<leftarrow> blit (IdaKeriData st) 0 rest;
        Some (st\<lparr>IdaKeriData := shifted, IdaKeriData_idx := 29\<rparr>)
      }
      else Some st)"

definition kerid_store :: "IDA_DATA_FORM \<Rightarrow> nat \<Rightarrow> nat \<Rightarrow> obd \<Rightarrow> obd option" where
  "kerid_store f id_tmp id_tmp1 st = do {
     let i = unat (IdaKeriData_idx st);
     k \<leftarrow> rd (IdaKeriData st) i;
     k' \<leftarrow> kerid_fill f id_tmp id_tmp1 k;
     v \<leftarrow> rd (idaVasRawData st) i;
     let n = Lenth16 f - 6;
     raw \<leftarrow> slice (Data8 f) 6 (unat n);
     d \<leftarrow> blit (vas_data v) 0 raw;
     st \<leftarrow> tx_ack (st\<lparr>IdaKeriData := (IdaKeriData st)[i := k'],
                   idaVasRawData := (idaVasRawData st)[i := v\<lparr>dataLenth := n, vas_data := d\<rparr>]\<rparr>);
     Some (st\<lparr>IdaKeriData_idx := IdaKeriData_idx st + 1\<rparr>)
   }"

definition Pars_SENDKERID :: "IDA_DATA_FORM \<Rightarrow> obd \<Rightarrow> obd_result option" where
  "Pars_SENDKERID f st = (case kerid_check f of
     None \<Rightarrow> Some (False, st, [])
   | Some (id_tmp, id_tmp1) \<Rightarrow> do {
       st \<leftarrow> kerid_room st;
       st \<leftarrow> kerid_store f id_tmp id_tmp1 st;
       Some (True, st, [])
     })"

definition Pars_EMGSTOP :: "obd_env \<Rightarrow> obd \<Rightarrow> obd_result option" where
  "Pars_EMGSTOP env st =
     (if env_app_order env = APP_ORDER_CHARGING \<or> env_app_order env = APP_ORDER_CHARGE_READY
      then do {
        st \<leftarrow> tx_ack st;
        Some (True, st, [Act_comp_status END_ERR, Act_StopCharge, Act_ch2FinishLayer])
      }
      else Some (False, st, []))"

definition ParsRxData :: "obd_env \<Rightarrow> nat \<Rightarrow> obd \<Rightarrow> obd_result option" where
  "ParsRxData env No st = do {
     f \<leftarrow> rd (IdaRxDataForm (ida st)) No;
     if Cmd8 f = CMD_GETMACID then Pars_GETMACID env st
     else if Cmd8 f = CMD_GETWIFI then Some (False, st, [])
     else if Cmd8 f = CMD_REPRTWIFI then Pars_REPRTWIFI env st
     else if Cmd8 f = CMD_SETCURR then Pars_SETCURR f st
     else if Cmd8 f = CMD_SENDBWD then Pars_SENDBWD f st
     else if Cmd8 f = CMD_SENDKERID then Pars_SENDKERID f st
     else if Cmd8 f = CMD_EMGSTOP then Pars_EMGSTOP env st
     else Some (False, st, [])
   }"

section \<open>The reading task\<close>

text \<open>The answer to a request: an acknowledgement built by \<open>ParsRxData\<close>, or NACK.  The buffer \<open>request\<close> is an
  uninitialised local array, given as an argument.\<close>

definition Answer :: "bytes \<Rightarrow> u8 \<Rightarrow> bool \<Rightarrow> obd \<Rightarrow> (obd \<times> obd_act list) option" where
  "Answer request cmd ok st =
     (if ok
      then do {
        tx \<leftarrow> MakeTx cmd (Lenth16 (IdaTxDataForm st)) (IdaTxDataForm st);
        req \<leftarrow> SendBuff request (ucast (Lenth16 tx - 1)) tx;
        out \<leftarrow> slice req 0 (unat (Lenth16 tx) + 6);
        Some (st\<lparr>IdaTxDataForm := tx\<rparr>, [Act_write out])
      }
      else do {
        d \<leftarrow> wr (Data8 (IdaTxDataForm st)) 0 NACK_CODE;
        tx \<leftarrow> MakeTx cmd 2 ((IdaTxDataForm st)\<lparr>Data8 := d\<rparr>);
        req \<leftarrow> SendBuff request 1 tx;
        out \<leftarrow> slice req 0 8;
        Some (st\<lparr>IdaTxDataForm := tx\<rparr>, [Act_write out])
      })"

text \<open>One received packet: a response to the last command of the charger, or a request.\<close>

definition ReadTask_packet :: "obd_env \<Rightarrow> bytes \<Rightarrow> nat \<Rightarrow> obd \<Rightarrow> (obd \<times> obd_act list) option" where
  "ReadTask_packet env request i st = do {
     f \<leftarrow> rd (IdaRxDataForm (ida st)) i;
     if CMD_STARTCHRG \<le> Cmd8 f \<and> Cmd8 f \<le> 0x1F
     then (if ResWaitCmd st \<noteq> Cmd8 f then Some (st, [])
           else do {
             d0 \<leftarrow> rd (Data8 f) 0;
             if d0 = ACK_CODE then Some (st\<lparr>RespWaitCnt := 0, ResWaitCmd := 0\<rparr>, [])
             else Some (st, [])
           })
     else do {
       (ok, st, acts) \<leftarrow> ParsRxData env i st;
       (st, out) \<leftarrow> Answer request (Cmd8 f) ok st;
       Some (st, acts @ out)
     }
   }"

fun ReadTask_packets :: "obd_env \<Rightarrow> bytes \<Rightarrow> nat list \<Rightarrow> obd \<Rightarrow> (obd \<times> obd_act list) option" where
  "ReadTask_packets env request [] st = Some (st, [])"
| "ReadTask_packets env request (i # is) st = do {
     (st, a) \<leftarrow> ReadTask_packet env request i st;
     (st, b) \<leftarrow> ReadTask_packets env request is st;
     Some (st, a @ b)
   }"

text \<open>A negative result of \<open>read\<close> is passed on as a size of 65535: without pending bytes this size is copied, with
  pending bytes it is too long and they are dropped.\<close>

definition ValidIda_failed :: "ida_link \<Rightarrow> (nat \<times> ida_link) option" where
  "ValidIda_failed st = (if dataContinSize st = 0 then None else Some (0, st\<lparr>dataContinSize := 0\<rparr>))"

text \<open>One iteration of \<open>ObdRS232ReadTask\<close>, given the bytes that \<open>read\<close> returned, or \<open>None\<close> for a failed \<open>read\<close>.\<close>

definition ObdRS232ReadTask :: "obd_env \<Rightarrow> bytes \<Rightarrow> bytes option \<Rightarrow> obd \<Rightarrow> (obd \<times> obd_act list) option" where
  "ObdRS232ReadTask env request rx_buf st =
     (if rx_buf = Some [] then Some (st, [])
      else do {
        (ret_8, l) \<leftarrow> (case rx_buf of Some bs \<Rightarrow> ValidIda bs (ida st) | None \<Rightarrow> ValidIda_failed (ida st));
        ReadTask_packets env request [0..<ret_8] (st\<lparr>ida := l\<rparr>)
      })"

definition ObdInit :: "obd \<Rightarrow> obd" where
  "ObdInit st = st\<lparr>IdaData := (IdaData st)\<lparr>CurrRatio := 100, CurrRatio_old := 100\<rparr>, IdaKeriData_idx := 0\<rparr>"

end
