(* ===== verification/Obd_Thms.thy ===== *)
theory Obd_Thms
  imports Obd
begin

text \<open>
  Invariant, functional behaviour and error behaviour of the OBD/IDA commands.
\<close>

section \<open>Well-formed states\<close>

text \<open>Array sizes of the globals, the ring index of the battery records and the range of the current ratio.\<close>

definition keri_ok :: "IDA_KERI_DATA \<Rightarrow> bool" where
  "keri_ok k \<longleftrightarrow> length (Vin k) = 17 \<and> length (CellVolt k) = 192 \<and> length (ModulTemp k) = 20"

definition obd_inv :: "obd \<Rightarrow> bool" where
  "obd_inv st \<longleftrightarrow> length (Data8 (IdaTxDataForm st)) = 512 \<and> link_inv (ida st) \<and>
     length (IdaKeriData st) = 30 \<and> (\<forall>k\<in>set (IdaKeriData st). keri_ok k) \<and>
     length (idaVasRawData st) = 30 \<and> (\<forall>v\<in>set (idaVasRawData st). length (vas_data v) = 1024) \<and>
     unat (IdaKeriData_idx st) \<le> 30 \<and> unat (CurrRatio (IdaData st)) \<le> 100"

lemma obd_inv_tx:
  "obd_inv st \<Longrightarrow> length (Data8 tx) = 512 \<Longrightarrow> obd_inv (st\<lparr>IdaTxDataForm := tx\<rparr>)"
  by (simp add: obd_inv_def)

lemma MakeTx_Data8: "MakeTx c n tx = Some tx' \<Longrightarrow> Data8 tx' = Data8 tx"
  by (auto simp: MakeTx_def Let_def Option.bind_eq_Some_conv)

lemma tx_ack_Some:
  assumes "length (Data8 (IdaTxDataForm st)) = 512"
  shows "tx_ack st = Some (st\<lparr>IdaTxDataForm := (IdaTxDataForm st)\<lparr>
           Data8 := (Data8 (IdaTxDataForm st))[0 := ACK_CODE], Lenth16 := 2\<rparr>\<rparr>)"
  using assms by (simp add: tx_ack_def wr_inside)

lemma tx_ack_inv: "obd_inv st \<Longrightarrow> tx_ack st = Some st' \<Longrightarrow> obd_inv st'"
  by (auto simp: obd_inv_def tx_ack_Some)

lemma length_mac_loop: "mac_loop mac js d = Some d' \<Longrightarrow> length d' = length d"
proof (induction js arbitrary: d)
  case (Cons j js)
  then obtain e where e: "mac_pair mac j d = Some e" "mac_loop mac js e = Some d'"
    by (auto simp: Option.bind_eq_Some_conv)
  moreover have "length e = length d"
    using e(1) by (auto simp: mac_pair_def Option.bind_eq_Some_conv dest!: length_wr)
  ultimately show ?case using Cons.IH by simp
qed simp

lemma kerid_fill_ok: "kerid_fill f a b k = Some k' \<Longrightarrow> keri_ok k \<Longrightarrow> keri_ok k'"
  by (auto simp: kerid_fill_def keri_ok_def Let_def Option.bind_eq_Some_conv dest!: length_blit)

lemma shift_ok:
  assumes "slice xs 1 29 = Some r" "blit xs 0 r = Some ys"
  shows "length ys = length xs" "set ys \<subseteq> set xs"
  using assms by (auto simp: slice_Some blit_Some dest: in_set_takeD in_set_dropD)

lemma kerid_room_inv:
  assumes "obd_inv st" "kerid_room st = Some s0"
  shows "obd_inv s0 \<and> unat (IdaKeriData_idx s0) \<le> 29"
proof (cases "IdaKeriData_idx st > 29")
  case True
  then obtain r ys where r: "slice (IdaKeriData st) 1 29 = Some r" "blit (IdaKeriData st) 0 r = Some ys"
      "s0 = st\<lparr>IdaKeriData := ys, IdaKeriData_idx := 29\<rparr>"
    using assms(2) by (auto simp: kerid_room_def Option.bind_eq_Some_conv)
  then show ?thesis using assms(1) shift_ok [OF r(1,2)] by (auto simp: obd_inv_def)
next
  case False
  then have "unat (IdaKeriData_idx st) \<le> 29" by (simp add: word_le_nat_alt not_less)
  then show ?thesis using assms False by (simp add: kerid_room_def)
qed

lemma kerid_store_inv:
  assumes "obd_inv st" "unat (IdaKeriData_idx st) \<le> 29" "kerid_store f a b st = Some st'"
  shows "obd_inv st'"
proof -
  let ?i = "unat (IdaKeriData_idx st)"
  from assms(3) obtain k k' v raw d s1 where s: "rd (IdaKeriData st) ?i = Some k" "kerid_fill f a b k = Some k'"
      "rd (idaVasRawData st) ?i = Some v" "blit (vas_data v) 0 raw = Some d"
      "tx_ack (st\<lparr>IdaKeriData := (IdaKeriData st)[?i := k'],
         idaVasRawData := (idaVasRawData st)[?i := v\<lparr>dataLenth := Lenth16 f - 6, vas_data := d\<rparr>]\<rparr>) = Some s1"
      "st' = s1\<lparr>IdaKeriData_idx := IdaKeriData_idx s1 + 1\<rparr>"
    by (auto simp: kerid_store_def Let_def Option.bind_eq_Some_conv)
  have "keri_ok k'" using kerid_fill_ok [OF s(2)] s(1) assms(1) by (auto simp: rd_Some obd_inv_def)
  moreover have "length d = 1024" using length_blit [OF s(4)] s(3) assms(1) by (auto simp: rd_Some obd_inv_def)
  moreover have "unat (IdaKeriData_idx st + 1) \<le> 30"
    using assms(2) by (simp add: unat_word_ariths)
  ultimately show ?thesis
    using s(5,6) assms(1)
    by (auto simp: obd_inv_def tx_ack_Some dest!: subsetD [OF set_update_subset_insert])
qed

lemma Pars_SENDKERID_inv:
  assumes "obd_inv st" "Pars_SENDKERID f st = Some (b, st', acts)"
  shows "obd_inv st'"
proof (cases "kerid_check f")
  case None
  then show ?thesis using assms by (simp add: Pars_SENDKERID_def)
next
  case (Some ab)
  then obtain x y s0 where "kerid_room st = Some s0" "kerid_store f x y s0 = Some st'"
    using assms(2) by (cases ab) (auto simp: Pars_SENDKERID_def Option.bind_eq_Some_conv)
  then show ?thesis using kerid_room_inv [OF assms(1)] kerid_store_inv by blast
qed

lemma ParsRxData_inv:
  assumes "obd_inv st" "ParsRxData env No st = Some (b, st', acts)"
  shows "obd_inv st'"
proof -
  have mac: "obd_inv st'" if "Pars_GETMACID env st = Some (b, st', acts)"
    using that assms(1) by (auto simp: Pars_GETMACID_def Option.bind_eq_Some_conv obd_inv_def
        simp del: mac_loop.simps dest!: length_mac_loop)
  have wifi: "obd_inv st'" if "Pars_REPRTWIFI env st = Some (b, st', acts)"
    using that assms(1) by (auto simp: Pars_REPRTWIFI_def split: if_splits)
  have curr: "obd_inv st'" if c: "Pars_SETCURR f st = Some (b, st', acts)" for f
  proof -
    obtain d0 where d0: "rd (Data8 f) 0 = Some d0" using c by (auto simp: Pars_SETCURR_def Option.bind_eq_Some_conv)
    have "d0 \<le> 0x64 \<Longrightarrow> unat d0 \<le> 100" by (simp add: word_le_nat_alt)
    then show ?thesis
      using c d0 assms(1) by (auto simp: Pars_SETCURR_def Option.bind_eq_Some_conv obd_inv_def tx_ack_Some split: if_splits)
  qed
  have bwd: "obd_inv st'" if "Pars_SENDBWD f st = Some (b, st', acts)" for f
    using that assms(1)
    by (auto simp: Pars_SENDBWD_def Option.bind_eq_Some_conv obd_inv_def tx_ack_Some split: if_splits)
  have emg: "obd_inv st'" if "Pars_EMGSTOP env st = Some (b, st', acts)"
    using that assms(1)
    by (auto simp: Pars_EMGSTOP_def Option.bind_eq_Some_conv obd_inv_def tx_ack_Some split: if_splits)
  obtain f where "rd (IdaRxDataForm (ida st)) No = Some f"
    using assms(2) by (auto simp: ParsRxData_def Option.bind_eq_Some_conv)
  then show ?thesis
    using assms mac wifi curr bwd emg Pars_SENDKERID_inv by (auto simp: ParsRxData_def split: if_splits)
qed

section \<open>Answers\<close>

lemma take_first: "length xs = 512 \<Longrightarrow> take (Suc 0) (xs[0 := c]) = [c]"
  by (cases xs) auto

lemma tx_ack_form:
  assumes "obd_inv st" "tx_ack st = Some st'"
  shows "Lenth16 (IdaTxDataForm st') = 2 \<and> take 1 (Data8 (IdaTxDataForm st')) = [ACK_CODE]"
proof -
  have len: "length (Data8 (IdaTxDataForm st)) = 512" using assms(1) by (simp add: obd_inv_def)
  then show ?thesis using assms(2) by (auto simp: tx_ack_Some take_first)
qed

lemma kerid_store_form:
  assumes "obd_inv st" "unat (IdaKeriData_idx st) \<le> 29" "kerid_store f a b st = Some st'"
  shows "Lenth16 (IdaTxDataForm st') = 2 \<and> take 1 (Data8 (IdaTxDataForm st')) = [ACK_CODE]"
  using assms(1,3)
  by (auto simp: kerid_store_def Let_def Option.bind_eq_Some_conv obd_inv_def tx_ack_Some take_first)

lemma ParsRxData_ack:
  assumes "obd_inv st" "ParsRxData env No st = Some (True, st', acts)" "rd (IdaRxDataForm (ida st)) No = Some f"
  shows "if Cmd8 f = CMD_GETMACID then Lenth16 (IdaTxDataForm st') = 19
         else Lenth16 (IdaTxDataForm st') = 2 \<and> take 1 (Data8 (IdaTxDataForm st')) = [ACK_CODE]"
proof -
  have len: "length (Data8 (IdaTxDataForm st)) = 512" using assms(1) by (simp add: obd_inv_def)
  have ker: "Lenth16 (IdaTxDataForm st') = 2 \<and> take 1 (Data8 (IdaTxDataForm st')) = [ACK_CODE]"
    if k: "Pars_SENDKERID f st = Some (True, st', acts)"
  proof -
    obtain x y s0 where "kerid_room st = Some s0" "kerid_store f x y s0 = Some st'"
      using k by (auto simp: Pars_SENDKERID_def Option.bind_eq_Some_conv split: option.splits)
    then show ?thesis using kerid_room_inv [OF assms(1)] kerid_store_form by blast
  qed
  show ?thesis
    using assms(2,3) len ker
    by (auto simp: ParsRxData_def Pars_GETMACID_def Pars_REPRTWIFI_def Pars_SETCURR_def Pars_SENDBWD_def
        Pars_EMGSTOP_def Option.bind_eq_Some_conv tx_ack_Some take_first split: if_splits)
qed

lemma Answer_frame:
  assumes "length (Data8 (IdaTxDataForm st)) = 512" "length request = 30"
    "ok \<Longrightarrow> Lenth16 (IdaTxDataForm st) = w16 (Suc n)" "ok \<Longrightarrow> n < 24"
  shows "\<exists>tx. Answer request cmd ok st = Some (st\<lparr>IdaTxDataForm := tx\<rparr>,
           [Act_write (ida_frame cmd (if ok then take n (Data8 (IdaTxDataForm st)) else [NACK_CODE]))]) \<and>
         length (Data8 tx) = 512"
proof (cases ok)
  case True
  let ?tx = "IdaTxDataForm st"
  have n: "n < 24" "Lenth16 ?tx = w16 (Suc n)" using assms(3,4) True by simp_all
  obtain tx where tx: "MakeTx cmd (w16 (Suc n)) ?tx = Some tx" "Data8 tx = Data8 ?tx" "Lenth16 tx = w16 (Suc n)"
    using MakeTx_inside [of n ?tx cmd] n assms(1) by simp
  have "SendBuff request (w8 n) tx = Some (ida_frame cmd (take n (Data8 ?tx)) @ drop (n + 7) request)"
    using SendBuff_MakeTx [of n ?tx request cmd] tx(1) n assms(1,2) by simp
  moreover have "ucast (w16 (Suc n) - 1) = w8 n"
  proof -
    have "w16 (Suc n) - 1 = w16 n" by (simp add: w16_def)
    moreover have "lo8 (w16 n) = w8 n" by (rule u8_eqI) (use n in \<open>simp add: unat_lo8 unat_w16 unat_w8\<close>)
    ultimately show ?thesis by (simp add: lo8_def)
  qed
  moreover have "slice (ida_frame cmd (take n (Data8 ?tx)) @ drop (n + 7) request) 0 (unat (w16 (Suc n)) + 6) =
      Some (ida_frame cmd (take n (Data8 ?tx)))"
    using n assms(1,2) by (simp add: slice_def unat_w16)
  ultimately show ?thesis
    using True n tx assms(1) by (intro exI [of _ tx]) (simp add: Answer_def)
next
  case False
  let ?tx = "(IdaTxDataForm st)\<lparr>Data8 := (Data8 (IdaTxDataForm st))[0 := NACK_CODE]\<rparr>"
  have w: "w16 (Suc (Suc 0)) = 2" "w8 (Suc 0) = 1" by (simp_all add: w16_def w8_def)
  have t: "take (Suc 0) (Data8 ?tx) = [NACK_CODE]"
    using assms(1) by (simp add: take_first)
  obtain tx where tx: "MakeTx cmd 2 ?tx = Some tx" "Data8 tx = Data8 ?tx"
    using MakeTx_inside [of 1 ?tx cmd] assms(1) by (simp add: w)
  have "SendBuff request 1 tx = Some (ida_frame cmd [NACK_CODE] @ drop 8 request)"
    using SendBuff_MakeTx [of 1 ?tx request cmd] tx(1) assms(1,2) t by (simp add: w)
  then show ?thesis
    using False tx assms(1,2) by (intro exI [of _ tx]) (simp add: Answer_def wr_inside slice_def)
qed

text \<open>Handling one request always ends with one frame, which carries the command of the request.\<close>

lemma ReadTask_packet_request:
  assumes inv: "obd_inv st" and req: "length request = 30"
    and f: "rd (IdaRxDataForm (ida st)) i = Some f" "\<not> (CMD_STARTCHRG \<le> Cmd8 f \<and> Cmd8 f \<le> 0x1F)"
    and pars: "ParsRxData env i st = Some (ok, st1, acts)"
  shows "\<exists>st' data. ReadTask_packet env request i st = Some (st', acts @ [Act_write (ida_frame (Cmd8 f) data)]) \<and>
    obd_inv st' \<and> st' = st1\<lparr>IdaTxDataForm := IdaTxDataForm st'\<rparr> \<and>
    data = (if \<not> ok then [NACK_CODE] else if Cmd8 f = CMD_GETMACID then take 18 (Data8 (IdaTxDataForm st1))
            else [ACK_CODE])"
proof -
  have inv1: "obd_inv st1" by (rule ParsRxData_inv [OF inv pars])
  define n where "n = (if Cmd8 f = CMD_GETMACID then 18 else 1 :: nat)"
  have L: "ok \<Longrightarrow> Lenth16 (IdaTxDataForm st1) = w16 (Suc n)"
    and D: "ok \<Longrightarrow> take n (Data8 (IdaTxDataForm st1)) = (if Cmd8 f = CMD_GETMACID
              then take 18 (Data8 (IdaTxDataForm st1)) else [ACK_CODE])"
    using ParsRxData_ack [OF inv _ f(1)] pars by (auto simp: n_def w16_def split: if_splits)
  have "n < 24" "length (Data8 (IdaTxDataForm st1)) = 512"
    using inv1 by (auto simp: n_def obd_inv_def)
  then obtain tx where tx: "Answer request (Cmd8 f) ok st1 = Some (st1\<lparr>IdaTxDataForm := tx\<rparr>,
      [Act_write (ida_frame (Cmd8 f) (if ok then take n (Data8 (IdaTxDataForm st1)) else [NACK_CODE]))])"
      "length (Data8 tx) = 512"
    using Answer_frame [of st1 request ok n "Cmd8 f"] L req by blast
  have "ReadTask_packet env request i st = Some (st1\<lparr>IdaTxDataForm := tx\<rparr>, acts @ [Act_write (ida_frame (Cmd8 f)
      (if ok then take n (Data8 (IdaTxDataForm st1)) else [NACK_CODE]))])"
    using f pars tx(1) by (auto simp: ReadTask_packet_def)
  then show ?thesis
    using obd_inv_tx [OF inv1 tx(2)] D by (cases ok) auto
qed

lemma ReadTask_packet_inv:
  assumes inv: "obd_inv st" and req: "length request = 30"
    and run: "ReadTask_packet env request i st = Some (st', acts)"
  shows "obd_inv st'"
proof -
  obtain f where f: "rd (IdaRxDataForm (ida st)) i = Some f"
    using run by (auto simp: ReadTask_packet_def Option.bind_eq_Some_conv)
  show ?thesis
  proof (cases "CMD_STARTCHRG \<le> Cmd8 f \<and> Cmd8 f \<le> 0x1F")
    case True
    then show ?thesis
      using run f inv by (auto simp: ReadTask_packet_def Option.bind_eq_Some_conv obd_inv_def split: if_splits)
  next
    case False
    then obtain ok st1 a where p: "ParsRxData env i st = Some (ok, st1, a)"
      using run f by (auto simp: ReadTask_packet_def Option.bind_eq_Some_conv)
    then show ?thesis using ReadTask_packet_request [OF inv req f False p] run by auto
  qed
qed

lemma ReadTask_packets_inv:
  "ReadTask_packets env request js st = Some (st', acts) \<Longrightarrow> obd_inv st \<Longrightarrow> length request = 30 \<Longrightarrow> obd_inv st'"
  by (induction js arbitrary: st acts)
     (auto simp: Option.bind_eq_Some_conv dest: ReadTask_packet_inv)

lemma ReadTask_inv:
  assumes "obd_inv st" "length request = 30" "ObdRS232ReadTask env request bs st = Some (st', acts)"
  shows "obd_inv st'"
proof (cases "bs = Some []")
  case False
  then obtain k l where v: "(case bs of Some b \<Rightarrow> ValidIda b (ida st) | None \<Rightarrow> ValidIda_failed (ida st)) = Some (k, l)" and
      "ReadTask_packets env request [0..<k] (st\<lparr>ida := l\<rparr>) = Some (st', acts)"
    using assms(3) by (auto simp: ObdRS232ReadTask_def Option.bind_eq_Some_conv)
  moreover have "obd_inv (st\<lparr>ida := l\<rparr>)"
  proof (cases bs)
    case None
    then show ?thesis using v assms(1) by (auto simp: ValidIda_failed_def obd_inv_def link_inv_def split: if_splits)
  next
    case (Some b)
    then show ?thesis using ValidIda_inv_sound [of b "ida st"] v assms(1) by (simp add: obd_inv_def)
  qed
  ultimately show ?thesis using ReadTask_packets_inv assms(2) by blast
qed (use assms in \<open>simp add: ObdRS232ReadTask_def\<close>)

section \<open>Battery records\<close>

text \<open>The payload of a \<open>CMD_SENDKERID\<close> request for given values.\<close>

definition kerid_head :: "u8 \<Rightarrow> u8 \<Rightarrow> u8 \<Rightarrow> u8 \<Rightarrow> bytes \<Rightarrow> u8 \<Rightarrow> u8 \<Rightarrow> u16 \<Rightarrow> u16 \<Rightarrow> bytes" where
  "kerid_head t3 t2 t1 t0 vin soc soh cur volt =
     [0xA1, 4, t3, t2, t1, t0, 0xA2, 0x11] @ vin @
     [0xA3, 1, soc, 0xA4, 1, soh, 0xA5, 2, hi8 cur, lo8 cur, 0xA6, 2, hi8 volt, lo8 volt]"

definition kerid_tail :: "bytes \<Rightarrow> bytes \<Rightarrow> bytes" where
  "kerid_tail cells temps =
     [0xA7, hi8 (w16 (length cells)), lo8 (w16 (length cells))] @ cells @ [0xA8, w8 (length temps)] @ temps"

lemma be16_bytes: "be16 (hi8 w) (lo8 w) = w"
proof -
  have "be16 h l = le16 l h" for h l
  proof -
    have "be16 h l = ucast l + push_bit 8 (ucast h)"
      by (simp add: be16_def push_bit_eq_mult)
    also have "\<dots> = le16 l h"
      unfolding le16_def
      by (rule disjunctive_add) (auto simp: bit_simps dest: bit_imp_le_length)
    finally show ?thesis .
  qed
  then show ?thesis by simp
qed

lemma kerid_index:
  assumes d: "D = kerid_head t3 t2 t1 t0 vin soc soh cur volt @ kerid_tail cells temps @ rest"
    and vin: "length vin = 17"
  shows "D ! 0 = 0xA1" "D ! 1 = 4" "D ! 2 = t3" "D ! 3 = t2" "D ! 4 = t1" "D ! 5 = t0" "D ! 6 = 0xA2" "D ! 7 = 0x11"
    "D ! 25 = 0xA3" "D ! 26 = 1" "D ! 27 = soc" "D ! 28 = 0xA4" "D ! 29 = 1" "D ! 30 = soh"
    "D ! 31 = 0xA5" "D ! 32 = 2" "D ! 33 = hi8 cur" "D ! 34 = lo8 cur" "D ! 35 = 0xA6" "D ! 36 = 2"
    "D ! 37 = hi8 volt" "D ! 38 = lo8 volt" "D ! 39 = 0xA7"
    "D ! 40 = hi8 (w16 (length cells))" "D ! 41 = lo8 (w16 (length cells))"
    "D ! (42 + length cells) = 0xA8" "D ! (43 + length cells) = w8 (length temps)"
    "slice D 8 17 = Some vin" "slice D 42 (length cells) = Some cells"
  unfolding d kerid_head_def kerid_tail_def using vin
  by (simp_all add: nth_append slice_def)

lemma kerid_temps:
  assumes d: "D = kerid_head t3 t2 t1 t0 vin soc soh cur volt @ kerid_tail cells temps @ rest"
    and vin: "length vin = 17"
  shows "slice D (44 + length cells) (length temps) = Some temps"
proof -
  let ?pre = "kerid_head t3 t2 t1 t0 vin soc soh cur volt @
    [0xA7, hi8 (w16 (length cells)), lo8 (w16 (length cells))] @ cells @ [0xA8, w8 (length temps)]"
  have "D = ?pre @ temps @ rest" by (simp add: d kerid_tail_def)
  moreover have "length ?pre = 44 + length cells" using vin by (simp add: kerid_head_def)
  ultimately show ?thesis by (simp only: slice_append_mid)
qed

lemma kerid_check_payload:
  assumes d: "Data8 f = kerid_head t3 t2 t1 t0 vin soc soh cur volt @ kerid_tail cells temps @ rest"
    and vin: "length vin = 17" and cells: "length cells \<le> 192" and temps: "length temps \<le> 20"
    and len: "Lenth16 f = w16 (45 + length cells + length temps)"
  shows "kerid_check f = Some (length cells, length temps)"
proof -
  note ix = kerid_index [OF d vin]
  have c: "unat (be16 (hi8 (w16 (length cells))) (lo8 (w16 (length cells)))) = length cells"
    using cells by (simp add: be16_bytes unat_w16)
  have t: "unat (w8 (length temps)) = length temps" using temps by (simp add: unat_w8)
  have l: "unat (Lenth16 f) = 45 + length cells + length temps"
    using cells temps by (simp add: len unat_w16)
  show ?thesis
    unfolding kerid_check_def Let_def l using cells temps by (simp add: ix ix(2) [unfolded One_nat_def] c t)
qed

lemma Lenth_minus_6: "6 \<le> n \<Longrightarrow> n < 65536 \<Longrightarrow> w16 n - 6 = w16 (n - 6)"
  by (simp add: w16_def of_nat_diff)

lemma kerid_fill_payload:
  assumes d: "Data8 f = kerid_head t3 t2 t1 t0 vin soc soh cur volt @ kerid_tail cells temps @ rest"
    and vin: "length vin = 17" and cells: "length cells \<le> 192" and temps: "length temps \<le> 20"
    and k: "keri_ok k"
  shows "kerid_fill f (length cells) (length temps) k = Some (k\<lparr>
       TimeStamp := ucast t3 * 0x1000000 + ucast t2 * 0x10000 + ucast t1 * 0x100 + ucast t0,
       Vin := vin, kSoc := ucast soc, Soh := soh, kPackCurr := cur, kPackVolt := volt,
       CellVolt := cells @ drop (length cells) (CellVolt k),
       cellVoltLen := (if cells = [] then cellVoltLen k else w8 (length cells)),
       ModulTemp := temps @ drop (length temps) (ModulTemp k),
       modulTempLen := (if temps = [] then modulTempLen k else w8 (length temps))\<rparr>)"
proof -
  note ix = kerid_index [OF d vin] kerid_temps [OF d vin]
  have "blit (Vin k) 0 vin = Some vin" using k vin by (simp add: blit_def keri_ok_def)
  moreover have "blit (CellVolt k) 0 cells = Some (cells @ drop (length cells) (CellVolt k))"
    using k cells by (simp add: blit_def keri_ok_def)
  moreover have "blit (ModulTemp k) 0 temps = Some (temps @ drop (length temps) (ModulTemp k))"
    using k temps by (simp add: blit_def keri_ok_def)
  ultimately show ?thesis
    unfolding kerid_fill_def Let_def by (simp add: ix be16_bytes)
qed

lemma Pars_SENDKERID_payload:
  assumes inv: "obd_inv st" and idx: "unat (IdaKeriData_idx st) \<le> 29"
    and d: "Data8 f = kerid_head t3 t2 t1 t0 vin soc soh cur volt @ kerid_tail cells temps @ rest"
    and lenf: "length (Data8 f) = 512" "Lenth16 f = w16 (45 + length cells + length temps)"
    and vin: "length vin = 17" and cells: "length cells \<le> 192" and temps: "length temps \<le> 20"
  shows "\<exists>st' k v. Pars_SENDKERID f st = Some (True, st', []) \<and> obd_inv st' \<and>
    IdaKeriData_idx st' = IdaKeriData_idx st + 1 \<and>
    IdaKeriData st' = (IdaKeriData st)[unat (IdaKeriData_idx st) := k] \<and>
    TimeStamp k = ucast t3 * 0x1000000 + ucast t2 * 0x10000 + ucast t1 * 0x100 + ucast t0 \<and>
    Vin k = vin \<and> kSoc k = ucast soc \<and> Soh k = soh \<and> kPackCurr k = cur \<and> kPackVolt k = volt \<and>
    take (length cells) (CellVolt k) = cells \<and> take (length temps) (ModulTemp k) = temps \<and>
    idaVasRawData st' = (idaVasRawData st)[unat (IdaKeriData_idx st) := v] \<and>
    unat (dataLenth v) = 39 + length cells + length temps \<and>
    take (39 + length cells + length temps) (vas_data v) = take (39 + length cells + length temps) (drop 6 (Data8 f))"
proof -
  let ?i = "unat (IdaKeriData_idx st)" and ?n = "39 + length cells + length temps"
  have i: "?i < length (IdaKeriData st)" "?i < length (idaVasRawData st)" using inv idx by (auto simp: obd_inv_def)
  let ?k = "IdaKeriData st ! ?i" and ?v = "idaVasRawData st ! ?i"
  have ok: "keri_ok ?k" "length (vas_data ?v) = 1024" using inv i by (auto simp: obd_inv_def)
  note chk = kerid_check_payload [OF d vin cells temps lenf(2)]
  note fill = kerid_fill_payload [OF d vin cells temps ok(1)]
  have room: "kerid_room st = Some st"
    using idx by (simp add: kerid_room_def word_less_nat_alt)
  have n6: "Lenth16 f - 6 = w16 ?n" and nn: "unat (w16 ?n) = ?n"
    using cells temps Lenth_minus_6 [of "45 + length cells + length temps"]
    by (simp_all add: lenf(2) unat_w16 add.assoc)
  have raw: "slice (Data8 f) 6 ?n = Some (take ?n (drop 6 (Data8 f)))"
    using lenf(1) cells temps by (simp add: slice_def)
  have dd: "blit (vas_data ?v) 0 (take ?n (drop 6 (Data8 f))) =
      Some (take ?n (drop 6 (Data8 f)) @ drop ?n (vas_data ?v))"
    using lenf(1) cells temps ok(2) by (simp add: blit_def)
  have tx: "length (Data8 (IdaTxDataForm st)) = 512" using inv by (simp add: obd_inv_def)
  obtain k' where k': "kerid_fill f (length cells) (length temps) ?k = Some k'" 
      "TimeStamp k' = ucast t3 * 0x1000000 + ucast t2 * 0x10000 + ucast t1 * 0x100 + ucast t0"
      "Vin k' = vin" "kSoc k' = ucast soc" "Soh k' = soh" "kPackCurr k' = cur" "kPackVolt k' = volt"
      "take (length cells) (CellVolt k') = cells" "take (length temps) (ModulTemp k') = temps"
    using fill by simp
  let ?v' = "?v\<lparr>dataLenth := w16 ?n, vas_data := take ?n (drop 6 (Data8 f)) @ drop ?n (vas_data ?v)\<rparr>"
  obtain st' where st': "Pars_SENDKERID f st = Some (True, st', [])"
      "IdaKeriData_idx st' = IdaKeriData_idx st + 1"
      "IdaKeriData st' = (IdaKeriData st)[?i := k']" "idaVasRawData st' = (idaVasRawData st)[?i := ?v']"
    using i raw dd
    by (simp add: Pars_SENDKERID_def chk room kerid_store_def Let_def rd_inside k'(1) n6 nn tx_ack_Some tx)
  have "take ?n (vas_data ?v') = take ?n (drop 6 (Data8 f))" "unat (dataLenth ?v') = ?n"
    using lenf(1) cells temps nn by simp_all
  then show ?thesis
    using st' k'(2-) Pars_SENDKERID_inv [OF inv st'(1)] by blast
qed

section \<open>The periodic report\<close>

definition report_bytes :: "u8 \<Rightarrow> obd_env \<Rightarrow> bytes" where
  "report_bytes b0 env = [b0] @ mem32 (tv_sec env) @ mem16 (AMICurrent env) @ [0, 0] @ mem16 (AMIVolt env * 10) @ [0, 0]"

lemma length_mem32 [simp]: "length (mem32 w) = 4"
  by (simp add: mem32_def)

lemma report_data_bytes:
  assumes "length d = 512"
  shows "report_data b0 env d = Some (report_bytes b0 env @ [0] @ drop 14 d)"
proof -
  define z where "z = drop 14 d"
  have z: "length z = 498" using assms by (simp add: z_def)
  have d0: "blit d 0 (replicate 14 0) = Some (replicate 14 0 @ z)"
    using assms by (simp add: blit_def z_def)
  have d1: "wr (replicate 14 0 @ z) 0 b0 = Some ([b0, 0, 0, 0, 0, 0, 0, 0, 0, 0, 0, 0, 0, 0] @ z)"
    by (simp add: wr_def numeral_eq_Suc)
  obtain c1 c2 where c: "mem16 (AMICurrent env) = [c1, c2]" by (simp add: mem16_def)
  obtain v1 v2 where v: "mem16 (AMIVolt env * 10) = [v1, v2]" by (simp add: mem16_def)
  obtain t1 t2 t3 t4 where t: "mem32 (tv_sec env) = [t1, t2, t3, t4]" by (simp add: mem32_def)
  show ?thesis
    using z assms
    by (simp add: report_data_def d0 d1 blit_def c v t report_bytes_def flip: z_def)
qed

lemma length_report_bytes [simp]: "length (report_bytes b0 env) = 13"
  by (simp add: report_bytes_def)

lemma ObdSenario_frame:
  assumes "length (Data8 tx) = 512"
  shows "\<exists>tx'. ObdSenario env tx = Some (14, tx') \<and> Cmd8 tx' = CMD_CHRGINFO \<and> length (Data8 tx') = 512 \<and>
    SendBuff (replicate 30 0) 13 tx' =
      Some (ida_frame CMD_CHRGINFO (report_bytes
        (if env_app_order env = APP_ORDER_CHARGING \<and> evccIdFlg env then 1 else 0) env) @ replicate 10 0)"
proof -
  have w: "w16 14 = 14" "w8 13 = 13" by (simp_all add: w16_def w8_def)
  have one: "\<exists>tx'. MakeTx CMD_CHRGINFO 14 (tx\<lparr>Data8 := report_bytes b env @ [0] @ drop 14 (Data8 tx)\<rparr>) = Some tx' \<and>
      Cmd8 tx' = CMD_CHRGINFO \<and> length (Data8 tx') = 512 \<and>
      SendBuff (replicate 30 0) 13 tx' = Some (ida_frame CMD_CHRGINFO (report_bytes b env) @ replicate 10 0)" for b
    using MakeTx_inside [of 13 "tx\<lparr>Data8 := report_bytes b env @ [0] @ drop 14 (Data8 tx)\<rparr>" CMD_CHRGINFO]
      SendBuff_MakeTx [of 13 "tx\<lparr>Data8 := report_bytes b env @ [0] @ drop 14 (Data8 tx)\<rparr>" "replicate 30 0" CMD_CHRGINFO]
      assms by (simp add: w)
  show ?thesis
    using one [of 0] one [of 1] assms
    by (auto simp: ObdSenario_def SendCmd_StartChrg_def SendCmd_ReportParam_def report_data_bytes)
qed

lemma ReqTask_frame:
  assumes "obd_inv st" "RespWaitCnt st \<le> 1"
  shows "\<exists>st'. ObdRS232ReqTask env (st, m) = Some ((st', m),
      [Act_write (ida_frame CMD_CHRGINFO (report_bytes
        (if env_app_order env = APP_ORDER_CHARGING \<and> evccIdFlg env then 1 else 0) env))]) \<and>
    obd_inv st' \<and> RespWaitCnt st' = 1 \<and> ResWaitCmd st' = CMD_CHRGINFO"
proof -
  let ?st1 = "if RespWaitCnt st \<noteq> 0 then st\<lparr>RespWaitCnt := RespWaitCnt st + 1\<rparr> else st"
  let ?b = "if env_app_order env = APP_ORDER_CHARGING \<and> evccIdFlg env then 1 else 0"
  have tx: "IdaTxDataForm ?st1 = IdaTxDataForm st" by simp
  have len: "length (Data8 (IdaTxDataForm st)) = 512" using assms(1) by (simp add: obd_inv_def)
  obtain tx' where t: "ObdSenario env (IdaTxDataForm st) = Some (14, tx')" "Cmd8 tx' = CMD_CHRGINFO"
      "length (Data8 tx') = 512"
      "SendBuff (replicate 30 0) 13 tx' = Some (ida_frame CMD_CHRGINFO (report_bytes ?b env) @ replicate 10 0)"
    using ObdSenario_frame [OF len, of env] by blast
  have "RespWaitCnt st = 0 \<or> RespWaitCnt st = 1"
  proof -
    have "unat (RespWaitCnt st) \<le> 1" using assms(2) by (simp add: word_le_nat_alt)
    then have "unat (RespWaitCnt st) = unat (0::u16) \<or> unat (RespWaitCnt st) = unat (1::u16)" by auto
    then show ?thesis by (simp only: word_unat_eq_iff)
  qed
  moreover have "slice (ida_frame CMD_CHRGINFO (report_bytes ?b env) @ replicate 10 0) 0 20 =
      Some (ida_frame CMD_CHRGINFO (report_bytes ?b env))"
    by (simp add: slice_def)
  ultimately have "ObdRS232ReqTask env (st, m) = Some ((?st1\<lparr>IdaTxDataForm := tx', RespWaitCnt := 1,
      ResWaitCmd := CMD_CHRGINFO\<rparr>, m), [Act_write (ida_frame CMD_CHRGINFO (report_bytes ?b env))])"
    using t by (auto simp: ObdRS232ReqTask_def Let_def)
  moreover have "obd_inv (?st1\<lparr>IdaTxDataForm := tx', RespWaitCnt := 1, ResWaitCmd := CMD_CHRGINFO\<rparr>)"
    using assms(1) t(3) by (auto simp: obd_inv_def)
  ultimately show ?thesis by force
qed

section \<open>Both tasks\<close>

lemma tx_ack_wait: "tx_ack st = Some st' \<Longrightarrow> RespWaitCnt st' = RespWaitCnt st"
  by (auto simp: tx_ack_def Option.bind_eq_Some_conv)

lemma ParsRxData_wait:
  assumes "ParsRxData env No st = Some (b, st', acts)"
  shows "RespWaitCnt st' = RespWaitCnt st"
proof -
  have room: "kerid_room st = Some s0 \<Longrightarrow> RespWaitCnt s0 = RespWaitCnt st" for s0
    by (auto simp: kerid_room_def Option.bind_eq_Some_conv split: if_splits)
  have store: "kerid_store f x y s0 = Some s1 \<Longrightarrow> RespWaitCnt s1 = RespWaitCnt s0" for f x y s0 s1
    by (auto simp: kerid_store_def Let_def Option.bind_eq_Some_conv dest!: tx_ack_wait)
  have kerid: "Pars_SENDKERID f st = Some (b, st', acts) \<Longrightarrow> RespWaitCnt st' = RespWaitCnt st" for f
    by (auto simp: Pars_SENDKERID_def Option.bind_eq_Some_conv split: option.splits dest!: room store)
  show ?thesis
    using assms kerid
    by (auto simp: ParsRxData_def Pars_GETMACID_def Pars_REPRTWIFI_def Pars_SETCURR_def Pars_SENDBWD_def
        Pars_EMGSTOP_def Option.bind_eq_Some_conv split: if_splits dest!: tx_ack_wait)
qed

lemma Answer_wait: "Answer r c ok st = Some (st', a) \<Longrightarrow> RespWaitCnt st' = RespWaitCnt st"
  by (auto simp: Answer_def Option.bind_eq_Some_conv split: if_splits)

lemma ReadTask_packet_wait:
  assumes "ReadTask_packet env request i st = Some (st', acts)"
  shows "RespWaitCnt st' = RespWaitCnt st \<or> RespWaitCnt st' = 0"
  using assms
  by (auto simp: ReadTask_packet_def Option.bind_eq_Some_conv split: if_splits
      dest!: Answer_wait ParsRxData_wait)

lemma ReadTask_packets_wait:
  "ReadTask_packets env request js st = Some (st', acts) \<Longrightarrow> RespWaitCnt st \<le> 1 \<Longrightarrow> RespWaitCnt st' \<le> 1"
  by (induction js arbitrary: st acts)
     (auto simp: Option.bind_eq_Some_conv dest!: ReadTask_packet_wait)

lemma ReadTask_wait:
  "ObdRS232ReadTask env request bs st = Some (st', acts) \<Longrightarrow> RespWaitCnt st \<le> 1 \<Longrightarrow> RespWaitCnt st' \<le> 1"
  by (auto simp: ObdRS232ReadTask_def Option.bind_eq_Some_conv split: if_splits dest!: ReadTask_packets_wait
    simp del: ReadTask_packets.simps split del: option.split)

text \<open>The two tasks interleave at the granularity of their loop bodies.  The second component is the local
  \<open>RespMissCnt\<close> of the request task.\<close>

inductive obd_step :: "obd \<times> u8 \<Rightarrow> obd \<times> u8 \<Rightarrow> bool" where
  read: "ObdRS232ReadTask env request bs st = Some (st', acts) \<Longrightarrow> length request = 30 \<Longrightarrow>
           obd_step (st, m) (st', m)"
| req: "ObdRS232ReqTask env s = Some (s', acts) \<Longrightarrow> obd_step s s'"

inductive_cases obd_stepE: "obd_step s s'"

definition obd_good :: "obd \<times> u8 \<Rightarrow> bool" where
  "obd_good s \<longleftrightarrow> obd_inv (fst s) \<and> RespWaitCnt (fst s) \<le> 1"

lemma obd_step_good: "obd_step s s' \<Longrightarrow> obd_good s \<Longrightarrow> obd_good s' \<and> snd s' = snd s"
proof (induction rule: obd_step.induct)
  case (read env request bs st st' acts m)
  then have "obd_inv st'" "RespWaitCnt st' \<le> 1"
    using ReadTask_inv [OF _ read(2,1)] ReadTask_wait [OF read(1)] by (simp_all add: obd_good_def)
  then show ?case by (simp add: obd_good_def)
next
  case (req env s s' acts)
  obtain st m where s: "s = (st, m)" by (cases s)
  have g: "obd_inv st" "RespWaitCnt st \<le> 1" using req(2) by (simp_all add: obd_good_def s)
  obtain st' a where t: "ObdRS232ReqTask env (st, m) = Some ((st', m), a)" "obd_inv st'" "RespWaitCnt st' = 1"
    using ReqTask_frame [OF g, of env m] by blast
  have "s' = (st', m)" using req(1) t(1) by (simp add: s)
  then show ?case using t(2,3) by (simp add: obd_good_def s)
qed

section \<open>Properties\<close>

text \<open>C26. However the two tasks interleave and whatever the adapter sends, failed reads included, as long as the passes of
  the read task stay inside the arrays: the current ratio set by the adapter is at most 100 percent, the index of
  the battery records is at most 30, the buffers keep their sizes; the next pass of the request task is always
  defined, sends a new report and restarts the count of passes without a response at 1, so that the
  response timeout never fires (the count of missed responses does not change).  Passes of the read task that leave the
  arrays do exist (\<open>ida_undefined_inputs\<close>); such a pass is no step here.\<close>

theorem obd_tasks_safe:
  assumes "obd_step\<^sup>*\<^sup>* (st, m) (st', m')" "obd_inv st" "RespWaitCnt st \<le> 1"
  shows "obd_inv st' \<and> unat (CurrRatio (IdaData st')) \<le> 100 \<and> unat (IdaKeriData_idx st') \<le> 30 \<and>
         RespWaitCnt st' \<le> 1 \<and> m' = m \<and>
         (\<forall>env. \<exists>st2 acts. ObdRS232ReqTask env (st', m') = Some ((st2, m'), acts) \<and> obd_inv st2 \<and> RespWaitCnt st2 = 1)"
proof -
  have "obd_good s' \<and> snd s' = snd s" if "obd_step\<^sup>*\<^sup>* s s'" "obd_good s" for s s'
    using that by (induction rule: rtranclp_induct) (auto dest: obd_step_good)
  moreover have "obd_good (st, m)" using assms(2,3) by (simp add: obd_good_def)
  ultimately have g: "obd_inv st'" "RespWaitCnt st' \<le> 1" "m' = m"
    using assms(1) by (fastforce simp: obd_good_def)+
  moreover have "unat (CurrRatio (IdaData st')) \<le> 100" "unat (IdaKeriData_idx st') \<le> 30"
    using g(1) unfolding obd_inv_def by blast+
  moreover have "\<exists>st2 acts. ObdRS232ReqTask env (st', m') = Some ((st2, m'), acts) \<and> obd_inv st2 \<and> RespWaitCnt st2 = 1" for env
    using ReqTask_frame [OF g(1,2), of env m'] by blast
  ultimately show ?thesis by blast
qed

text \<open>The state after \<open>ObdInit\<close>.\<close>

definition start_keri :: IDA_KERI_DATA where
  "start_keri = \<lparr>TimeStamp = 0, Vin = replicate 17 0, kSoc = 0, Soh = 0, kPackCurr = 0, kPackVolt = 0,
     CellVolt = replicate 192 0, cellVoltLen = 0, ModulTemp = replicate 20 0, modulTempLen = 0\<rparr>"

definition start_obd :: obd where
  "start_obd = ObdInit \<lparr>IdaTxDataForm = idle_form, ida = idle_link,
     IdaData = \<lparr>Soc = 0, PackVolt = 0, PackCurr = 0, CelVoltMin = 0, CelVoltMax = 0, CellTempMin = 0,
       CellTempMax = 0, CurrRatio = 0, CurrRatio_old = 0\<rparr>,
     IdaKeriData = replicate 30 start_keri,
     idaVasRawData = replicate 30 \<lparr>dataLenth = 0, vas_data = replicate 1024 0\<rparr>,
     IdaKeriData_idx = 0, RespWaitCnt = 0, ResWaitCmd = 0\<rparr>"

lemma start_obd [simp]: "obd_inv start_obd" "RespWaitCnt start_obd = 0"
  by (simp_all add: start_obd_def ObdInit_def obd_inv_def start_keri_def keri_ok_def idle_form_def)

definition obd_env_std :: obd_env where
  "obd_env_std = \<lparr>env_app_order = APP_ORDER_WAIT, evccIdFlg = False, chkModeMac = replicate 13 0x41,
     AMICurrent = 0, AMIVolt = 0, tv_sec = 0\<rparr>"

text \<open>The adapter sends the first byte of a frame, then the request task makes a pass.\<close>

theorem obd_tasks_safe_witness:
  "\<exists>st1 st2. obd_step (start_obd, 0) (st1, 0) \<and> dataContinSize (ida st1) = 1 \<and> obd_step (st1, 0) (st2, 0) \<and>
     obd_inv st2 \<and> unat (CurrRatio (IdaData st2)) \<le> 100 \<and> RespWaitCnt st2 = 1"
proof -
  let ?b = "STX_CODE # replicate 511 0"
  let ?st1 = "start_obd\<lparr>ida := (ida start_obd)\<lparr>pars_buf := ?b, dataContinSize := 1\<rparr>\<rparr>"
  have l: "dataContinSize (ida start_obd) = 0" by (simp add: start_obd_def ObdInit_def idle_link_def)
  have b: "blit (replicate 512 0) 0 [STX_CODE] = Some ?b" by (simp add: blit_def)
  have "ValidIda [STX_CODE] (ida start_obd) = Some (0, (ida start_obd)\<lparr>pars_buf := ?b, dataContinSize := 1\<rparr>)"
    using l b by (simp add: ValidIda_def rdi_def rd_def w16_def)
  then have "ObdRS232ReadTask obd_env_std (replicate 30 0) (Some [STX_CODE]) start_obd = Some (?st1, [])"
    by (simp add: ObdRS232ReadTask_def)
  then have s: "obd_step (start_obd, 0) (?st1, 0)" by (rule obd_step.read) simp
  then have r: "obd_step\<^sup>*\<^sup>* (start_obd, 0) (?st1, 0)" by blast
  obtain st2 acts where q: "ObdRS232ReqTask obd_env_std (?st1, 0) = Some ((st2, 0), acts)" "RespWaitCnt st2 = 1"
    using obd_tasks_safe [OF r start_obd(1)] by fastforce
  then have s2: "obd_step (?st1, 0) (st2, 0)" by (intro obd_step.req)
  then have "obd_step\<^sup>*\<^sup>* (start_obd, 0) (st2, 0)" using r by simp
  then have "obd_inv st2" "unat (CurrRatio (IdaData st2)) \<le> 100" using obd_tasks_safe [OF _ start_obd(1)] by fastforce+
  then show ?thesis using s s2 q(2) by (intro exI [of _ ?st1] exI [of _ st2]) simp
qed

text \<open>C34. A request of the adapter is answered by exactly one frame, written after the other effects of the
  request: it carries the command of the request and the data NACK when \<open>ParsRxData\<close> refused it, the MAC address
  for \<open>CMD_GETMACID\<close>, and ACK otherwise.\<close>

theorem obd_request_answered:
  assumes "obd_inv st" "length request = 30"
    and "rd (IdaRxDataForm (ida st)) i = Some f" "\<not> (CMD_STARTCHRG \<le> Cmd8 f \<and> Cmd8 f \<le> 0x1F)"
    and "ParsRxData env i st = Some (ok, st1, acts)"
  shows "\<exists>st' data. ReadTask_packet env request i st = Some (st', acts @ [Act_write (ida_frame (Cmd8 f) data)]) \<and>
    obd_inv st' \<and> st' = st1\<lparr>IdaTxDataForm := IdaTxDataForm st'\<rparr> \<and>
    data = (if \<not> ok then [NACK_CODE] else if Cmd8 f = CMD_GETMACID then take 18 (Data8 (IdaTxDataForm st1))
            else [ACK_CODE])"
  using assms by (rule ReadTask_packet_request)

theorem obd_request_answered_witness:
  "\<exists>st'. ReadTask_packet \<lparr>env_app_order = APP_ORDER_WAIT, evccIdFlg = False, chkModeMac = replicate 13 0x41,
       AMICurrent = 0, AMIVolt = 0, tv_sec = 0\<rparr> (replicate 30 0) 0 start_obd =
     Some (st', [Act_write (ida_frame 0 [NACK_CODE])])"
proof -
  let ?e = "\<lparr>env_app_order = APP_ORDER_WAIT, evccIdFlg = False, chkModeMac = replicate 13 0x41,
       AMICurrent = 0, AMIVolt = 0, tv_sec = 0\<rparr> :: obd_env"
  have f: "rd (IdaRxDataForm (ida start_obd)) 0 = Some idle_form"
    by (simp add: rd_def start_obd_def ObdInit_def idle_link_def)
  have p: "ParsRxData ?e 0 start_obd = Some (False, start_obd, [])"
    using f by (simp add: ParsRxData_def idle_form_def)
  show ?thesis
    using obd_request_answered [OF _ _ f _ p, of "replicate 30 0"] by (auto simp: idle_form_def)
qed

text \<open>Every pass of the request task (\<open>RespWaitCnt\<close> at most 1) sends one frame with command
  \<open>CMD_CHRGINFO\<close>: whether a car with a known EVCC id is charging, the time, the current and ten times the voltage
  of the meter.\<close>

theorem obd_report_sent:
  assumes "obd_inv st" "RespWaitCnt st \<le> 1"
  shows "\<exists>st'. ObdRS232ReqTask env (st, m) = Some ((st', m),
      [Act_write (ida_frame CMD_CHRGINFO
        ([if env_app_order env = APP_ORDER_CHARGING \<and> evccIdFlg env then 1 else 0] @ mem32 (tv_sec env) @
         mem16 (AMICurrent env) @ [0, 0] @ mem16 (AMIVolt env * 10) @ [0, 0]))]) \<and>
    obd_inv st' \<and> RespWaitCnt st' = 1 \<and> ResWaitCmd st' = CMD_CHRGINFO"
  using ReqTask_frame [OF assms, of env m] by (simp add: report_bytes_def)

theorem obd_report_sent_witness:
  "\<exists>st'. obd_inv st' \<and> RespWaitCnt st' = 1 \<and> (\<exists>out. ObdRS232ReqTask \<lparr>env_app_order = APP_ORDER_CHARGING,
     evccIdFlg = True, chkModeMac = [], AMICurrent = 320, AMIVolt = 220, tv_sec = 1\<rparr> (start_obd, 0) =
     Some ((st', 0), [Act_write out]))"
  using obd_report_sent [of start_obd "\<lparr>env_app_order = APP_ORDER_CHARGING,
     evccIdFlg = True, chkModeMac = [], AMICurrent = 320, AMIVolt = 220, tv_sec = 1\<rparr>" 0] by auto

text \<open>A battery report (\<open>CMD_SENDKERID\<close>) whose tagged fields are complete is stored: the next record holds
  the transmitted time stamp, vehicle number, state of charge, state of health, current, voltage, cell voltages
  and temperatures.  The raw copy for the server is one byte longer than the rest of the payload.\<close>

theorem obd_battery_report_stored:
  assumes "obd_inv st" "unat (IdaKeriData_idx st) \<le> 29"
    and "Data8 f = kerid_head t3 t2 t1 t0 vin soc soh cur volt @ kerid_tail cells temps @ rest"
    and "length (Data8 f) = 512" "Lenth16 f = w16 (45 + length cells + length temps)"
    and "length vin = 17" "length cells \<le> 192" "length temps \<le> 20"
  shows "\<exists>st' k v. Pars_SENDKERID f st = Some (True, st', []) \<and> obd_inv st' \<and>
    IdaKeriData_idx st' = IdaKeriData_idx st + 1 \<and>
    IdaKeriData st' = (IdaKeriData st)[unat (IdaKeriData_idx st) := k] \<and>
    TimeStamp k = ucast t3 * 0x1000000 + ucast t2 * 0x10000 + ucast t1 * 0x100 + ucast t0 \<and>
    Vin k = vin \<and> kSoc k = ucast soc \<and> Soh k = soh \<and> kPackCurr k = cur \<and> kPackVolt k = volt \<and>
    take (length cells) (CellVolt k) = cells \<and> take (length temps) (ModulTemp k) = temps \<and>
    idaVasRawData st' = (idaVasRawData st)[unat (IdaKeriData_idx st) := v] \<and>
    unat (dataLenth v) = 39 + length cells + length temps \<and>
    take (39 + length cells + length temps) (vas_data v) = take (39 + length cells + length temps) (drop 6 (Data8 f))"
  using assms by (rule Pars_SENDKERID_payload)

theorem obd_battery_report_stored_witness:
  "\<exists>st' k. Pars_SENDKERID (idle_form\<lparr>Lenth16 := w16 (45 + 2 + 1),
       Data8 := kerid_head 0 0 1 2 (replicate 17 0x41) 80 99 300 7000 @ kerid_tail [200, 201] [25] @ replicate 465 0\<rparr>)
     start_obd = Some (True, st', []) \<and> IdaKeriData st' = (IdaKeriData start_obd)[0 := k] \<and>
     kPackVolt k = 7000 \<and> take (Suc (Suc 0)) (CellVolt k) = [200, 201]"
proof -
  let ?f = "idle_form\<lparr>Lenth16 := w16 (45 + 2 + 1),
       Data8 := kerid_head 0 0 1 2 (replicate 17 0x41) 80 99 300 7000 @ kerid_tail [200, 201] [25] @ replicate 465 0\<rparr>"
  have "IdaKeriData_idx start_obd = 0" by (simp add: start_obd_def ObdInit_def)
  then show ?thesis
    using obd_battery_report_stored [of start_obd ?f 0 0 1 2 "replicate 17 0x41" 80 99 300 7000 "[200, 201]" "[25]"
        "replicate 465 0"]
    by (auto simp: kerid_head_def kerid_tail_def)
qed

end
