(* ===== verification/Secc_Modbus.thy ===== *)
theory Secc_Modbus
  imports Crc
begin

text \<open>
  The Modbus link to the PLC modem (SECC): \<open>src/project/tsct2007a/tsctsecc.c\<close> and \<open>tsctsecc.h\<close>, the state and
  the frame layer.  The globals of the file are the record \<open>secc\<close>.  A 16-bit member of a request structure holds
  the value with its bytes exchanged (\<open>Led2Bed16\<close>), so that its memory image is big endian.

  \<open>MakeReadTx\<close> and \<open>MakeWriteTx\<close> prepare a request, \<open>ValidSecc\<close> checks what one \<open>read\<close> returned, joined with a
  pending first part, against the outstanding request.
\<close>

section \<open>State\<close>

record SECC_MODBUS_READ_TX_S =
  rId01 :: u8
  rFuncCode :: u8
  rReqAddr :: u16
  rReqAddrLen :: u16
  rCrc16 :: u16

record SECC_MODBUS_WRITE_TX_S =
  wId01 :: u8
  wFuncCode :: u8
  wReqAddr :: u16
  wReqAddrLen :: u16
  wDatalen :: u8
  wData16 :: "u16 list"
  wCrc16 :: u16

text \<open>Of the received registers, those that the program stores.\<close>

record SECC_READ_DATA =
  ready :: u16
  stcode :: u16
  secc_errcode :: u16
  swVer :: u16
  chrgPrtcl :: u16
  pwmduty :: u16
  pwmvoltage :: u16
  soc :: u16
  vasMapCnt :: u16
  vasEnable :: u16
  vasStat :: u16
  vasErrcd :: u16
  vasRxCnt :: u16
  vasChksum :: u16
  vasLen :: u16

record SECC_WRITE_DATA =
  status_fault :: u16
  payment :: u16
  MaxCurr :: u16
  NormVolt :: u16
  NormFreq :: u16
  MaxPower :: u16

record SECC_VAS_READ_DATA =
  v_timeStamp :: u32
  v_vin :: bytes
  v_soc :: u8
  v_soh :: u8
  batPackCurr :: u16
  batPackVolt :: u16
  batCellVolt :: bytes
  v_cellVoltLen :: u8
  batModulTemp :: bytes
  v_modulTempLen :: u8

record SECC_VAS_RAW_DATA =
  r_dataLenth :: u16
  r_data :: bytes

datatype SECC_INIT_STEP =
    SECC_INIT_STEP_NONE | SECC_INIT_STEP_CSMR | SECC_INIT_STEP_EVSER | SECC_INIT_STEP_CHRGPRM
  | SECC_INIT_STEP_CHRGTYPE | SECC_INIT_STEP_PAYOPT | SECC_INIT_STEP_INIT | SECC_INIT_STEP_CSMSTAT
  | SECC_INIT_STEP_CSMERR | SECC_INIT_STEP_PWMDUTY | SECC_INIT_STEP_PWMVOLT | SECC_INIT_STEP_VASREQ
  | SECC_INIT_STEP_VASREADREQ | SECC_INIT_STEP_VASCHK | SECC_INIT_STEP_DONE

datatype SECC_CHRG_STEP =
    SECC_CHRG_STEP_NONE | SECC_CHRG_STEP_REQID | SECC_CHRG_STEP_CHKID | SECC_CHRG_STEP_START
  | SECC_CHRG_STEP_HANDSH | SECC_CHRG_STEP_AUTHCHK | SECC_CHRG_STEP_PRMCHK | SECC_CHRG_STEP_CHARGING

record secc =
  SeccModbusReadTx :: SECC_MODBUS_READ_TX_S
  SeccModbusWriteTx :: SECC_MODBUS_WRITE_TX_S
  DataLen :: u8
  Data16 :: bytes
  SeccRxData :: SECC_READ_DATA
  SeccTxData :: SECC_WRITE_DATA
  SeccInitStep :: SECC_INIT_STEP
  SeccChrgStep :: SECC_CHRG_STEP
  PlcRespWaitCnt :: u16
  SendChkFlg :: bool
  charge_cnt :: u8
  vasReadCd :: u8
  vasDataBuf :: bytes
  bPlcConn :: bool
  rebootCnt :: u32
  prcCnt :: u8
  reinitCnt :: u16
  seccContinSize :: u16
  secc_pars_buf :: bytes
  seccVasRxData :: "SECC_VAS_READ_DATA list"
  charging_soc :: u8
  seccVasRawData :: "SECC_VAS_RAW_DATA list"
  seccVasDataCnt :: u8

section \<open>Requests\<close>

abbreviation CHRG_ID :: u8 where "CHRG_ID \<equiv> 0x01"
abbreviation FC_READ :: u8 where "FC_READ \<equiv> 0x04"
abbreviation FC_WRITE :: u8 where "FC_WRITE \<equiv> 0x10"

definition Led2Bed16 :: "u16 \<Rightarrow> u16" where
  "Led2Bed16 Led16 = (drop_bit 8 Led16 AND 0xff) + (push_bit 8 Led16 AND 0xff00)"

text \<open>The memory image of the first six, and of all eight, bytes of a read request.\<close>

definition read_tx_head :: "SECC_MODBUS_READ_TX_S \<Rightarrow> bytes" where
  "read_tx_head t = [rId01 t, rFuncCode t] @ mem16 (rReqAddr t) @ mem16 (rReqAddrLen t)"

definition read_tx_mem :: "SECC_MODBUS_READ_TX_S \<Rightarrow> bytes" where
  "read_tx_mem t = read_tx_head t @ mem16 (rCrc16 t)"

definition write_tx_head :: "SECC_MODBUS_WRITE_TX_S \<Rightarrow> bytes" where
  "write_tx_head t = [wId01 t, wFuncCode t] @ mem16 (wReqAddr t) @ mem16 (wReqAddrLen t) @ [wDatalen t]"

definition mem16s :: "u16 list \<Rightarrow> bytes" where
  "mem16s ws = concat (map mem16 ws)"

text \<open>Both functions return the code by which the task sends the request: 1 read, 2 write.\<close>

definition MakeReadTx :: "u16 \<Rightarrow> u16 \<Rightarrow> secc \<Rightarrow> (u8 \<times> secc) option" where
  "MakeReadTx Addr16 AddrLen16 st =
     (let t = (SeccModbusReadTx st)\<lparr>rId01 := CHRG_ID, rFuncCode := FC_READ, rReqAddr := Led2Bed16 Addr16,
                rReqAddrLen := Led2Bed16 AddrLen16\<rparr>
      in Some (1, st\<lparr>SeccModbusReadTx := t\<lparr>rCrc16 := Led2Bed16 (TsctCrc16 (read_tx_head t))\<rparr>\<rparr>))"

definition MakeWriteTx :: "u16 \<Rightarrow> u16 \<Rightarrow> secc \<Rightarrow> (u8 \<times> secc) option" where
  "MakeWriteTx Addr16 AddrLen16 st = do {
     let t = (SeccModbusWriteTx st)\<lparr>wId01 := CHRG_ID, wFuncCode := FC_WRITE, wReqAddr := Led2Bed16 Addr16,
                wReqAddrLen := Led2Bed16 AddrLen16, wDatalen := ucast (2 * AddrLen16)\<rparr>;
     data \<leftarrow> slice (mem16s (wData16 t)) 0 (unat (wDatalen t));
     crc_tmp \<leftarrow> blit (replicate 20 0) 0 (write_tx_head t @ data);
     Some (2, st\<lparr>SeccModbusWriteTx :=
               t\<lparr>wCrc16 := Led2Bed16 (TsctCrc16 (take (7 + unat (wDatalen t)) crc_tmp))\<rparr>\<rparr>)
   }"

text \<open>\<open>SeccModbusWriteTx.Data16[i] = Led2Bed16(v)\<close>.\<close>

definition set_wdata :: "nat \<Rightarrow> u16 \<Rightarrow> secc \<Rightarrow> secc option" where
  "set_wdata i v st = do {
     d \<leftarrow> wr (wData16 (SeccModbusWriteTx st)) i (Led2Bed16 v);
     Some (st\<lparr>SeccModbusWriteTx := (SeccModbusWriteTx st)\<lparr>wData16 := d\<rparr>\<rparr>)
   }"

section \<open>Responses\<close>

text \<open>The length checks for the two function codes on \<open>sz\<close> bytes: too short, too long or exact.\<close>

datatype fit = Short | Exact | Long

definition rsp_fit :: "u8 \<Rightarrow> u8 \<Rightarrow> nat \<Rightarrow> fit option" where
  "rsp_fit fc len sz =
     (if fc = FC_READ
      then Some (if int (unat len) > int sz - 5 then Short else if int (unat len) < int sz - 5 then Long else Exact)
      else if fc = FC_WRITE
      then Some (if 8 > sz then Short else if 8 < sz then Long else Exact)
      else None)"

text \<open>The checks that follow when one complete message is in the buffer.\<close>

definition ValidSecc_packet :: "bytes \<Rightarrow> nat \<Rightarrow> secc \<Rightarrow> (bool \<times> secc) option" where
  "ValidSecc_packet Src sz st =
     (if sz < 5 then Some (False, st)
      else do {
        b0 \<leftarrow> rd Src 0;
        if b0 \<noteq> CHRG_ID then Some (False, st)
        else do {
          fc \<leftarrow> rd Src 1;
          b2 \<leftarrow> rd Src 2;
          b3 \<leftarrow> rd Src 3;
          b4 \<leftarrow> rd Src 4;
          b5 \<leftarrow> rd Src 5;
          body \<leftarrow> slice Src 0 (sz - 2);
          c1 \<leftarrow> rd Src (sz - 2);
          c2 \<leftarrow> rd Src (sz - 1);
          let crc_ok = (TsctCrc16 body = le16 c2 c1);
          if fc = FC_READ
          then (if rFuncCode (SeccModbusReadTx st) \<noteq> fc
                  \<or> unat (Led2Bed16 (rReqAddrLen (SeccModbusReadTx st))) * 2 \<noteq> unat b2
                  \<or> int (unat b2) \<noteq> int sz - 5
                then Some (False, st)
                else Some (crc_ok, st\<lparr>DataLen := w8 (sz - 5)\<rparr>))
          else if fc = FC_WRITE
          then (if wFuncCode (SeccModbusWriteTx st) \<noteq> fc
                  \<or> wReqAddr (SeccModbusWriteTx st) \<noteq> le16 b2 b3
                  \<or> wReqAddrLen (SeccModbusWriteTx st) \<noteq> le16 b4 b5
                  \<or> 8 \<noteq> sz
                then Some (False, st)
                else Some (crc_ok, st))
          else Some (False, st)
        }
      })"

definition ValidSecc :: "bytes \<Rightarrow> secc \<Rightarrow> (bool \<times> secc) option" where
  "ValidSecc rx_Src st = do {
     let sz = length rx_Src;
     let pend = unat (seccContinSize st);
     if pend = 0 then do {
       Src \<leftarrow> blit (replicate 512 0) 0 rx_Src;
       let st = st\<lparr>secc_pars_buf := Src\<rparr>;
       if sz < 2 then Some (False, st\<lparr>seccContinSize := w16 sz\<rparr>)
       else (case rsp_fit (Src ! 1) (Src ! 2) sz of
           None \<Rightarrow> Some (False, st\<lparr>seccContinSize := 0\<rparr>)
         | Some Short \<Rightarrow> Some (False, st\<lparr>seccContinSize := w16 sz\<rparr>)
         | Some Long \<Rightarrow> Some (False, st\<lparr>seccContinSize := 0\<rparr>)
         | Some Exact \<Rightarrow> ValidSecc_packet Src sz st)
     }
     else if pend + sz \<ge> 512 then Some (False, st\<lparr>seccContinSize := 0\<rparr>)
     else do {
       Src \<leftarrow> blit (secc_pars_buf st) pend rx_Src;
       let sz = sz + pend;
       let st = st\<lparr>secc_pars_buf := Src, seccContinSize := 0\<rparr>;
       (case rsp_fit (Src ! 1) (Src ! 2) sz of
           Some Exact \<Rightarrow> ValidSecc_packet Src sz st
         | _ \<Rightarrow> Some (False, st))
     }
   }"

end
