(* ===== verification/Secc_Steps.thy ===== *)
theory Secc_Steps
  imports Secc_Modbus
begin

text \<open>
  The sequences that drive the PLC modem (\<open>src/project/tsct2007a/tsctsecc.c\<close>): start-up (\<open>InitSecc\<close>), charging
  (\<open>ChrgSecc\<close>), their selection (\<open>SeccSenario\<close>) and the request task (\<open>SeccRS232ReqTask\<close>).  Each function returns
  the code of the request it prepared (0 none, 1 read, 2 write).
\<close>

section \<open>Single requests\<close>

abbreviation MAX_LEN :: int where "MAX_LEN \<equiv> 90"

text \<open>Bits of \<open>SeccTxData.status_fault\<close>.\<close>

abbreviation (input) SECC_STAT_EVSE_READY :: nat where "SECC_STAT_EVSE_READY \<equiv> 0"
abbreviation (input) SECC_STAT_CHARG :: nat where "SECC_STAT_CHARG \<equiv> 1"
abbreviation (input) SECC_STAT_STOP :: nat where "SECC_STAT_STOP \<equiv> 2"
abbreviation (input) SECC_STAT_AUTHFIN :: nat where "SECC_STAT_AUTHFIN \<equiv> 5"
abbreviation (input) SECC_STAT_CHRGPRMFIN :: nat where "SECC_STAT_CHRGPRMFIN \<equiv> 6"

text \<open>Values of \<open>SeccRxData.stcode\<close>.\<close>

abbreviation (input) CSM_STAT_NONE :: u16 where "CSM_STAT_NONE \<equiv> 0"
abbreviation (input) CSM_STAT_READY :: u16 where "CSM_STAT_READY \<equiv> 1"
abbreviation (input) CSM_STAT_WAITHANDSHAKE :: u16 where "CSM_STAT_WAITHANDSHAKE \<equiv> 2"
abbreviation (input) CSM_STAT_SESSIONREADY :: u16 where "CSM_STAT_SESSIONREADY \<equiv> 3"
abbreviation (input) CSM_STAT_AUTHCHECK :: u16 where "CSM_STAT_AUTHCHECK \<equiv> 4"
abbreviation (input) CSM_STAT_CHARGPRMCHK :: u16 where "CSM_STAT_CHARGPRMCHK \<equiv> 5"
abbreviation (input) CSM_STAT_CHRG :: u16 where "CSM_STAT_CHRG \<equiv> 8"
abbreviation (input) CSM_STAT_STOPCHRG :: u16 where "CSM_STAT_STOPCHRG \<equiv> 9"
abbreviation (input) CSM_STAT_NARMALSTOP :: u16 where "CSM_STAT_NARMALSTOP \<equiv> 11"

definition fault_set :: "nat \<Rightarrow> secc \<Rightarrow> secc" where
  "fault_set n st = st\<lparr>SeccTxData := (SeccTxData st)\<lparr>status_fault := set_bit n (status_fault (SeccTxData st))\<rparr>\<rparr>"

definition fault_clear :: "nat \<Rightarrow> secc \<Rightarrow> secc" where
  "fault_clear n st = st\<lparr>SeccTxData := (SeccTxData st)\<lparr>status_fault := unset_bit n (status_fault (SeccTxData st))\<rparr>\<rparr>"

definition fault_bit :: "nat \<Rightarrow> secc \<Rightarrow> bool" where
  "fault_bit n st \<longleftrightarrow> bit (status_fault (SeccTxData st)) n"

type_synonym request = "(u8 \<times> secc) option"

definition vas_rest :: "secc \<Rightarrow> int" where
  "vas_rest st = uint (vasMapCnt (SeccRxData st)) - 10 - MAX_LEN * (uint (vasReadCd st) - 1)"

definition ReadVasData :: "secc \<Rightarrow> request" where
  "ReadVasData st =
     (let addr = word_of_int (32011 + MAX_LEN * (uint (vasReadCd st) - 1))
      in if vas_rest st > MAX_LEN then MakeReadTx addr 90 st else MakeReadTx addr (word_of_int (vas_rest st)) st)"

definition ChkVasData :: "secc \<Rightarrow> request" where
  "ChkVasData st = MakeReadTx 32001 10 st"

definition ChckSeccStat :: "secc \<Rightarrow> request" where
  "ChckSeccStat st = MakeReadTx 30002 6 st"

definition ChckSeccSoC :: "secc \<Rightarrow> request" where
  "ChckSeccSoC st = MakeReadTx 30040 1 st"

definition SendChrgReady :: "secc \<Rightarrow> request" where
  "SendChrgReady st = Option.bind (set_wdata 0 (status_fault (SeccTxData st)) st) (MakeWriteTx 40001 1)"

definition SendChrgPrm :: "secc \<Rightarrow> request" where
  "SendChrgPrm st = do {
     st \<leftarrow> set_wdata 0 (MaxCurr (SeccTxData st)) st;
     st \<leftarrow> set_wdata 1 (NormVolt (SeccTxData st)) st;
     st \<leftarrow> set_wdata 2 (NormFreq (SeccTxData st)) st;
     st \<leftarrow> set_wdata 3 (MaxPower (SeccTxData st)) st;
     MakeWriteTx 40027 4 st
   }"

definition Secc_IsReady :: "secc \<Rightarrow> bool" where
  "Secc_IsReady st = bPlcConn st"

section \<open>Start-up\<close>

text \<open>A step that sends a write request until \<open>SendChkFlg\<close> is cleared by its acknowledgement and then moves on;
  \<open>again\<close> tells whether the next step starts with the flag set.\<close>

definition InitSecc_step :: "(secc \<Rightarrow> request) \<Rightarrow> SECC_INIT_STEP \<Rightarrow> bool \<Rightarrow> secc \<Rightarrow> request" where
  "InitSecc_step send nxt again st =
     (if SendChkFlg st then send st
      else Some (0, st\<lparr>SeccInitStep := nxt, SendChkFlg := (if again then True else SendChkFlg st)\<rparr>))"

definition InitSecc :: "secc \<Rightarrow> request" where
  "InitSecc st = (case SeccInitStep st of
     SECC_INIT_STEP_NONE \<Rightarrow>
       (if ready (SeccRxData st) = 0 then MakeReadTx 30001 1 st
        else Some (0, st\<lparr>SeccInitStep := SECC_INIT_STEP_CSMR, SendChkFlg := True\<rparr>))
   | SECC_INIT_STEP_CSMR \<Rightarrow> InitSecc_step SendChrgReady SECC_INIT_STEP_EVSER True st
   | SECC_INIT_STEP_EVSER \<Rightarrow> InitSecc_step SendChrgPrm SECC_INIT_STEP_CHRGPRM True st
   | SECC_INIT_STEP_CHRGPRM \<Rightarrow>
       InitSecc_step (\<lambda>st. Option.bind (set_wdata 0 192 st) (MakeWriteTx 40006 1)) SECC_INIT_STEP_CHRGTYPE True st
   | SECC_INIT_STEP_CHRGTYPE \<Rightarrow>
       InitSecc_step (\<lambda>st. Option.bind (set_wdata 0 (payment (SeccTxData st)) st) (MakeWriteTx 40007 1))
         SECC_INIT_STEP_INIT False st
   | SECC_INIT_STEP_PAYOPT \<Rightarrow> InitSecc_step SendChrgReady SECC_INIT_STEP_INIT False st
   | SECC_INIT_STEP_INIT \<Rightarrow>
       (if stcode (SeccRxData st) = CSM_STAT_NONE \<or> secc_errcode (SeccRxData st) \<noteq> 0 then MakeReadTx 30002 6 st
        else Some (0, st\<lparr>SendChkFlg := True, SeccInitStep := SECC_INIT_STEP_VASREQ\<rparr>))
   | SECC_INIT_STEP_VASREQ \<Rightarrow>
       InitSecc_step (\<lambda>st. Option.bind (set_wdata 0 1 st) (MakeWriteTx 40009 1)) SECC_INIT_STEP_VASREADREQ False st
   | SECC_INIT_STEP_VASREADREQ \<Rightarrow> MakeReadTx 32002 1 (st\<lparr>SeccInitStep := SECC_INIT_STEP_VASCHK\<rparr>)
   | SECC_INIT_STEP_VASCHK \<Rightarrow>
       (if vasEnable (SeccRxData st) = 0 then Some (0, st\<lparr>SeccInitStep := SECC_INIT_STEP_VASREQ\<rparr>)
        else Some (0, st\<lparr>bPlcConn := True, SeccInitStep := SECC_INIT_STEP_DONE\<rparr>))
   | _ \<Rightarrow> Some (0, st))"

section \<open>Charging\<close>

text \<open>The position of a step in the enumeration.\<close>

primrec chrg_step_no :: "SECC_CHRG_STEP \<Rightarrow> nat" where
  "chrg_step_no SECC_CHRG_STEP_NONE = 0"
| "chrg_step_no SECC_CHRG_STEP_REQID = 1"
| "chrg_step_no SECC_CHRG_STEP_CHKID = 2"
| "chrg_step_no SECC_CHRG_STEP_START = 3"
| "chrg_step_no SECC_CHRG_STEP_HANDSH = 4"
| "chrg_step_no SECC_CHRG_STEP_AUTHCHK = 5"
| "chrg_step_no SECC_CHRG_STEP_PRMCHK = 6"
| "chrg_step_no SECC_CHRG_STEP_CHARGING = 7"

definition stopped_code :: "u16 \<Rightarrow> bool" where
  "stopped_code c \<longleftrightarrow> CSM_STAT_STOPCHRG \<le> c \<and> c \<le> CSM_STAT_NARMALSTOP"

definition ChrgSecc_stop :: "secc \<Rightarrow> request" where
  "ChrgSecc_stop st =
     ChckSeccStat (fault_set SECC_STAT_STOP (fault_clear SECC_STAT_CHARG (st\<lparr>SeccChrgStep := SECC_CHRG_STEP_NONE\<rparr>)))"

definition ChrgSecc_handsh :: "bool \<Rightarrow> secc \<Rightarrow> request" where
  "ChrgSecc_handsh model_co st = (let c = stcode (SeccRxData st); v = pwmvoltage (SeccRxData st) in
     if c = CSM_STAT_CHRG then
       (if 50 \<le> v \<and> v \<le> 70
        then Some (0, st\<lparr>SeccChrgStep := (if model_co then SECC_CHRG_STEP_REQID else SECC_CHRG_STEP_CHARGING)\<rparr>)
        else Some (0, st))
     else if c = CSM_STAT_AUTHCHECK then ChckSeccStat (st\<lparr>SeccChrgStep := SECC_CHRG_STEP_AUTHCHK, SendChkFlg := True\<rparr>)
     else if c = CSM_STAT_CHARGPRMCHK then ChckSeccStat (st\<lparr>SeccChrgStep := SECC_CHRG_STEP_PRMCHK, SendChkFlg := True\<rparr>)
     else if c = CSM_STAT_WAITHANDSHAKE then ChckSeccStat st
     else if c = CSM_STAT_SESSIONREADY then ChckSeccStat st
     else if c < CSM_STAT_WAITHANDSHAKE then ChckSeccStat (st\<lparr>SeccChrgStep := SECC_CHRG_STEP_START, SendChkFlg := True\<rparr>)
     else if stopped_code c then ChrgSecc_stop st
     else ChckSeccStat st)"

definition ChrgSecc_charging :: "secc \<Rightarrow> request" where
  "ChrgSecc_charging st =
     (if stcode (SeccRxData st) \<ge> CSM_STAT_STOPCHRG then Some (0, st\<lparr>vasReadCd := 0\<rparr>)
      else (let n = (if charge_cnt st > 20 then 0 else charge_cnt st + 1); st = st\<lparr>charge_cnt := n\<rparr> in
        if vasReadCd st \<noteq> 0 then ReadVasData st
        else if n mod 10 = 0 then ChkVasData st
        else if n mod 10 = 2 then SendChrgPrm st
        else if n mod 10 = 4 then ChckSeccSoC st
        else ChckSeccStat st))"

text \<open>\<open>ChrgSecc\<close>; \<open>evcc\<close> is the global \<open>evccIdFlg\<close> and \<open>model_co\<close> tells whether the model name is
  \<open>TSCT-2007CO\<close>.\<close>

definition ChrgSecc :: "bool \<Rightarrow> bool \<Rightarrow> secc \<Rightarrow> request" where
  "ChrgSecc evcc model_co st =
     (if stopped_code (stcode (SeccRxData st)) then ChrgSecc_stop st
      else if chrg_step_no (SeccChrgStep st) > chrg_step_no SECC_CHRG_STEP_START \<and> fault_bit SECC_STAT_STOP st
      then SendChrgReady st
      else if fault_bit SECC_STAT_CHARG st then (case SeccChrgStep st of
          SECC_CHRG_STEP_NONE \<Rightarrow>
            Some (0, fault_set SECC_STAT_CHRGPRMFIN (fault_set SECC_STAT_AUTHFIN
                   (st\<lparr>prcCnt := 0, SendChkFlg := True, SeccChrgStep := SECC_CHRG_STEP_START\<rparr>)))
        | SECC_CHRG_STEP_REQID \<Rightarrow>
            MakeReadTx 30061 10 (st\<lparr>prcCnt := prcCnt st + 1, SeccChrgStep := SECC_CHRG_STEP_CHKID\<rparr>)
        | SECC_CHRG_STEP_CHKID \<Rightarrow>
            (if evcc \<or> prcCnt st > 20 then Some (0, st\<lparr>SeccChrgStep := SECC_CHRG_STEP_CHARGING\<rparr>)
             else Some (0, st\<lparr>SeccChrgStep := SECC_CHRG_STEP_REQID\<rparr>))
        | SECC_CHRG_STEP_START \<Rightarrow>
            (if SendChkFlg st then SendChrgReady st
             else Some (0, st\<lparr>SeccChrgStep := SECC_CHRG_STEP_HANDSH\<rparr>))
        | SECC_CHRG_STEP_HANDSH \<Rightarrow> ChrgSecc_handsh model_co st
        | SECC_CHRG_STEP_AUTHCHK \<Rightarrow> (let st = fault_set SECC_STAT_AUTHFIN st in
            if SendChkFlg st then SendChrgReady st
            else Some (0, st\<lparr>SeccChrgStep := SECC_CHRG_STEP_HANDSH\<rparr>))
        | SECC_CHRG_STEP_PRMCHK \<Rightarrow> (let st = fault_set SECC_STAT_CHRGPRMFIN st in
            if SendChkFlg st then SendChrgReady st
            else Some (0, st\<lparr>SeccChrgStep := SECC_CHRG_STEP_HANDSH\<rparr>))
        | SECC_CHRG_STEP_CHARGING \<Rightarrow> ChrgSecc_charging st)
      else Some (0, st\<lparr>SeccChrgStep := SECC_CHRG_STEP_NONE\<rparr>))"

definition SeccSenario :: "bool \<Rightarrow> bool \<Rightarrow> secc \<Rightarrow> request" where
  "SeccSenario evcc model_co st =
     (let st = (if stcode (SeccRxData st) = CSM_STAT_NONE \<and> SeccInitStep st = SECC_INIT_STEP_DONE
                then fault_set SECC_STAT_STOP (fault_clear SECC_STAT_CHARG
                       (st\<lparr>reinitCnt := 0, SeccInitStep := SECC_INIT_STEP_NONE\<rparr>))
                else st\<lparr>reinitCnt := 0\<rparr>) in
      if SeccInitStep st \<noteq> SECC_INIT_STEP_DONE then InitSecc st
      else if fault_bit SECC_STAT_CHARG st
      then do {
        (ret8, st) \<leftarrow> ChrgSecc evcc model_co st;
        if ret8 \<noteq> 0 then Some (ret8, st) else ChckSeccStat st
      }
      else ChckSeccStat (st\<lparr>SeccChrgStep := SECC_CHRG_STEP_NONE\<rparr>))"

section \<open>The request task\<close>

datatype secc_act = Secc_write bytes | Secc_power_cycle

text \<open>The bytes of the prepared request; \<open>char request[30]\<close>.\<close>

definition secc_send :: "u8 \<Rightarrow> secc \<Rightarrow> secc_act list option" where
  "secc_send ret_8 st =
     (if ret_8 = 1 then Some [Secc_write (read_tx_mem (SeccModbusReadTx st))]
      else if ret_8 = 2 then do {
        let t = SeccModbusWriteTx st;
        data \<leftarrow> slice (mem16s (wData16 t)) 0 (unat (wDatalen t));
        request \<leftarrow> blit (replicate 30 0) 0 (write_tx_head t @ data @ mem16 (wCrc16 t));
        out \<leftarrow> slice request 0 (9 + unat (wDatalen t));
        Some [Secc_write out]
      }
      else Some [])"

text \<open>The sequence that an iteration which does not wait calls; \<open>seccReqStep\<close> is a local of the task.\<close>

definition ReqTask_choice :: "bool \<Rightarrow> bool \<Rightarrow> secc \<Rightarrow> u8 \<Rightarrow> ((u8 \<times> secc) \<times> u8) option" where
  "ReqTask_choice evcc model_co st seccReqStep =
         (if SeccInitStep st \<noteq> SECC_INIT_STEP_DONE
          then do { r \<leftarrow> InitSecc st; Some (r, seccReqStep) }
          else (let k = (if seccReqStep + 1 > 2 then 0 else seccReqStep + 1) in
            if k = 0 then do { r \<leftarrow> ChckSeccStat st; Some (r, k) }
            else if k = 1 then do { r \<leftarrow> SendChrgReady st; Some (r, k) }
            else if k = 2 then do { r \<leftarrow> SeccSenario evcc model_co st; Some (r, 0) }
            else do { r \<leftarrow> ChckSeccStat st; Some (r, 0) }))"

text \<open>One iteration of \<open>SeccRS232ReqTask\<close>; the second component is its local \<open>seccReqStep\<close>.\<close>

definition SeccRS232ReqTask :: "bool \<Rightarrow> bool \<Rightarrow> secc \<times> u8 \<Rightarrow> ((secc \<times> u8) \<times> secc_act list) option" where
  "SeccRS232ReqTask evcc model_co s = (case s of (st, seccReqStep) \<Rightarrow>
     if PlcRespWaitCnt st \<noteq> 0
     then (let n = PlcRespWaitCnt st + 1 in
       if n > 10
       then Some ((st\<lparr>vasReadCd := 0, bPlcConn := False, rebootCnt := rebootCnt st + 1, PlcRespWaitCnt := 0\<rparr>,
                   seccReqStep), [])
       else Some ((st\<lparr>PlcRespWaitCnt := n\<rparr>, seccReqStep), []))
     else do {
       ((ret_8, st), k) \<leftarrow>
         ReqTask_choice evcc model_co st seccReqStep;
       out \<leftarrow> secc_send ret_8 st;
       let st = (if ret_8 \<noteq> 0 then st\<lparr>PlcRespWaitCnt := 1\<rparr> else st);
       if rebootCnt st < 10 then Some ((st, k), out)
       else Some ((st\<lparr>rebootCnt := 0, bPlcConn := False, SeccInitStep := SECC_INIT_STEP_NONE\<rparr>, k),
                  out @ [Secc_power_cycle])
     })"

end
