(* ===== verification/Secc_Vas.thy ===== *)
theory Secc_Vas
  imports Secc_Steps
begin

text \<open>
  The receiving side of the PLC modem link (\<open>src/project/tsct2007a/tsctsecc.c\<close>): the assignment of register
  values (\<open>ParsRxData\<close>), the vehicle data that arrive in blocks of 90 registers (\<open>vasParsFunc\<close>), the read task
  (\<open>SeccRS232ReadTask\<close>) and the start values (\<open>VasDataInit\<close>, \<open>SeccInit\<close>).  \<open>None\<close> is an access outside an array.
\<close>

section \<open>Vehicle data\<close>

text \<open>The copy loop with exchanged bytes: \<open>off\<close> is \<open>MAX_LEN * (vasReadCd-1) * 2\<close>, which is negative when
  \<open>vasReadCd\<close> is 0; the first argument counts the remaining iterations.\<close>

fun vas_copy :: "nat \<Rightarrow> nat \<Rightarrow> int \<Rightarrow> bytes \<Rightarrow> bytes \<Rightarrow> bytes option" where
  "vas_copy 0 i off src8 buf8 = Some buf8"
| "vas_copy (Suc n) i off src8 buf8 = do {
     hi \<leftarrow> rd src8 (i + 1);
     lo \<leftarrow> rd src8 i;
     buf8 \<leftarrow> wri buf8 (off + int i) hi;
     buf8 \<leftarrow> wri buf8 (off + int i + 1) lo;
     vas_copy n (i + 2) off src8 buf8
   }"

definition vas_chksum :: "bytes \<Rightarrow> u8" where
  "vas_chksum bs = foldl (\<lambda>c b. c XOR b) 0 bs"

text \<open>The fields of the vehicle record, from the complete block.\<close>

definition vas_fill :: "bytes \<Rightarrow> SECC_VAS_READ_DATA \<Rightarrow> SECC_VAS_READ_DATA option" where
  "vas_fill b d = do {
     vin \<leftarrow> slice b 8 17;
     let cl = unat (b ! 41);
     cells \<leftarrow> slice b 42 cl;
     let ml = unat (b ! (43 + cl));
     temps \<leftarrow> slice b (44 + cl) ml;
     vin' \<leftarrow> blit (v_vin d) 0 vin;
     cells' \<leftarrow> blit (batCellVolt d) 0 cells;
     temps' \<leftarrow> blit (batModulTemp d) 0 temps;
     Some (d\<lparr>
       v_timeStamp := push_bit 24 (ucast (b ! 2)) + push_bit 16 (ucast (b ! 3)) + push_bit 8 (ucast (b ! 4))
                        + ucast (b ! 5),
       v_vin := vin', v_soc := b ! 27, v_soh := b ! 30,
       batPackCurr := push_bit 8 (ucast (b ! 33)) + ucast (b ! 34),
       batPackVolt := push_bit 8 (ucast (b ! 37)) + ucast (b ! 38),
       v_cellVoltLen := b ! 41, batCellVolt := cells',
       v_modulTempLen := b ! (43 + cl), batModulTemp := temps'\<rparr>)
   }"

text \<open>\<open>vasParsFunc\<close> on the registers of the last response; the length of the block is
  \<open>(vasMapCnt - 10) * 2\<close>, an \<open>int\<close> that the loop compares as \<open>uint32_t\<close>, so that a negative value runs out of
  the buffer.\<close>

definition vasParsFunc :: "secc \<Rightarrow> (bool \<times> secc) option" where
  "vasParsFunc st = do {
     let rest = vas_rest st;
     let cnt = unat (seccVasDataCnt st);
     buf \<leftarrow> vas_copy ((unat (DataLen st) + 1) div 2) 0 (MAX_LEN * (uint (vasReadCd st) - 1) * 2) (Data16 st) (vasDataBuf st);
     let st = st\<lparr>vasDataBuf := buf\<rparr>;
     if rest > MAX_LEN then Some (False, st\<lparr>vasReadCd := vasReadCd st + 1\<rparr>)
     else do {
       let st = st\<lparr>vasReadCd := 0\<rparr>;
       let total = (uint (vasMapCnt (SeccRxData st)) - 10) * 2;
       block \<leftarrow> (if total < 0 then None else slice buf 0 (nat total));
       if ucast (vas_chksum block) \<noteq> vasChksum (SeccRxData st) then Some (False, st)
       else do {
         des \<leftarrow> rd (seccVasRxData st) cnt;
         des' \<leftarrow> vas_fill buf des;
         raw \<leftarrow> rd (seccVasRawData st) cnt;
         let n = word_of_int (total - 6);
         bytes \<leftarrow> slice buf 6 (unat n);
         rdata \<leftarrow> blit (r_data raw) 0 bytes;
         Some (True, st\<lparr>seccVasRxData := (seccVasRxData st)[cnt := des'],
                        seccVasRawData := (seccVasRawData st)[cnt := raw\<lparr>r_dataLenth := n, r_data := rdata\<rparr>]\<rparr>)
       }
     }
   }"

section \<open>Registers\<close>

text \<open>The switch of \<open>ParsRxData\<close>: its cases in order, each falls through to the next while bytes are left.\<close>

definition reg_cases :: "nat list" where
  "reg_cases = [30001, 30002, 30003, 30004, 30005, 30006, 30007, 30040,
     32001, 32002, 32003, 32004, 32005, 32006, 32007, 32008, 32009, 32010]"

definition set_reg :: "nat \<Rightarrow> u16 \<Rightarrow> secc \<Rightarrow> secc" where
  "set_reg a v st = (let d = SeccRxData st in
     if a = 30001 then st\<lparr>SeccRxData := d\<lparr>ready := v\<rparr>\<rparr>
     else if a = 30002 then st\<lparr>SeccRxData := d\<lparr>stcode := v\<rparr>\<rparr>
     else if a = 30003 then st\<lparr>SeccRxData := d\<lparr>secc_errcode := v\<rparr>\<rparr>
     else if a = 30004 then st\<lparr>SeccRxData := d\<lparr>swVer := v\<rparr>\<rparr>
     else if a = 30005 then st\<lparr>SeccRxData := d\<lparr>chrgPrtcl := v\<rparr>\<rparr>
     else if a = 30006 then st\<lparr>SeccRxData := d\<lparr>pwmduty := v\<rparr>\<rparr>
     else if a = 30007 then st\<lparr>SeccRxData := d\<lparr>pwmvoltage := v\<rparr>\<rparr>
     else if a = 30040 then st\<lparr>SeccRxData := d\<lparr>soc := v\<rparr>\<rparr>
     else if a = 32001 then st\<lparr>SeccRxData := d\<lparr>vasMapCnt := v\<rparr>\<rparr>
     else if a = 32002 then st\<lparr>SeccRxData := d\<lparr>vasEnable := v\<rparr>\<rparr>
     else if a = 32003 then st\<lparr>SeccRxData := d\<lparr>vasStat := v\<rparr>\<rparr>
     else if a = 32004 then st\<lparr>SeccRxData := d\<lparr>vasErrcd := v\<rparr>\<rparr>
     else if a = 32005 then
       (if vasRxCnt d \<noteq> v
        then (let st' = st\<lparr>SeccRxData := d\<lparr>vasRxCnt := v\<rparr>\<rparr> in if v \<noteq> 0 then st'\<lparr>vasReadCd := 1\<rparr> else st')
        else st)
     else if a = 32009 then st\<lparr>SeccRxData := d\<lparr>vasChksum := v\<rparr>\<rparr>
     else if a = 32010 then st\<lparr>SeccRxData := d\<lparr>vasLen := v\<rparr>\<rparr>
     else st)"

text \<open>\<open>Led2Bed16(SeccModbusReadRx.Data16[i])\<close> from the memory image of \<open>Data16\<close>.\<close>

definition rx_reg :: "secc \<Rightarrow> int \<Rightarrow> u16 option" where
  "rx_reg st i = do {
     b0 \<leftarrow> rdi (Data16 st) (2 * i);
     b1 \<leftarrow> rdi (Data16 st) (2 * i + 1);
     Some (Led2Bed16 (le16 b0 b1))
   }"

text \<open>\<open>tmp\<close> is a \<open>uint8_t\<close>, so \<open>tmp <= 0\<close> holds for 0 only; \<open>DataLen - tmp\<close> is an \<open>int\<close> (and even).\<close>

fun pars_regs :: "nat list \<Rightarrow> u8 \<Rightarrow> secc \<Rightarrow> secc option" where
  "pars_regs [] tmp st = Some st"
| "pars_regs (a # as) tmp st = do {
     v \<leftarrow> rx_reg st ((uint (DataLen st) - uint tmp) div 2);
     let st = set_reg a v st;
     let tmp = tmp - 2;
     if tmp = 0 then Some st else pars_regs as tmp st
   }"

definition ParsRxData_regs :: "secc \<Rightarrow> secc option" where
  "ParsRxData_regs st =
     pars_regs (dropWhile (\<lambda>a. a \<noteq> unat (Led2Bed16 (rReqAddr (SeccModbusReadTx st)))) reg_cases) (DataLen st) st"

definition ParsRxData_secc :: "secc \<Rightarrow> secc option" where
  "ParsRxData_secc st = do {
     st \<leftarrow> ParsRxData_regs st;
     if unat (Led2Bed16 (rReqAddr (SeccModbusReadTx st))) > 32010
     then do {
       (ret_b, st) \<leftarrow> vasParsFunc st;
       if ret_b
       then do {
         d \<leftarrow> rd (seccVasRxData st) (unat (seccVasDataCnt st));
         let st = st\<lparr>charging_soc := v_soc d\<rparr>;
         Some (if seccVasDataCnt st > 29 then st\<lparr>seccVasDataCnt := 29\<rparr>
               else st\<lparr>seccVasDataCnt := seccVasDataCnt st + 1\<rparr>)
       }
       else Some st
     }
     else Some st
   }"

section \<open>The read task\<close>

text \<open>A negative result of \<open>read\<close> is passed on as a size of 65535: without pending bytes this size is copied, with
  pending bytes it is too long and they are dropped.\<close>

definition ValidSecc_failed :: "secc \<Rightarrow> (bool \<times> secc) option" where
  "ValidSecc_failed st = (if seccContinSize st = 0 then None else Some (False, st\<lparr>seccContinSize := 0\<rparr>))"

text \<open>One iteration, given the bytes that \<open>read\<close> returned, or \<open>None\<close> for a failed \<open>read\<close>.\<close>

definition SeccRS232ReadTask :: "bytes option \<Rightarrow> secc \<Rightarrow> secc option" where
  "SeccRS232ReadTask buffer st =
     (if buffer = Some [] then Some st
      else do {
        (ret_b, st) \<leftarrow> (case buffer of Some bs \<Rightarrow> ValidSecc bs st | None \<Rightarrow> ValidSecc_failed st);
        if \<not> ret_b then Some st
        else do {
          let st = st\<lparr>rebootCnt := 0, PlcRespWaitCnt := 0\<rparr>;
          fc \<leftarrow> rd (secc_pars_buf st) 1;
          if fc = FC_READ
          then do {
            bs \<leftarrow> slice (secc_pars_buf st) 3 (unat (DataLen st));
            d \<leftarrow> blit (replicate 1024 0) 0 bs;
            ParsRxData_secc (st\<lparr>Data16 := d\<rparr>)
          }
          else if fc = FC_WRITE then Some (st\<lparr>SendChkFlg := False\<rparr>)
          else Some st
        }
      })"

section \<open>Start values\<close>

definition zero_vas :: SECC_VAS_READ_DATA where
  "zero_vas = \<lparr>v_timeStamp = 0, v_vin = replicate 17 0, v_soc = 0, v_soh = 0, batPackCurr = 0, batPackVolt = 0,
     batCellVolt = replicate 65535 0, v_cellVoltLen = 0, batModulTemp = replicate 255 0, v_modulTempLen = 0\<rparr>"

definition VasDataInit :: "secc \<Rightarrow> secc" where
  "VasDataInit st = st\<lparr>seccVasRxData := replicate 30 zero_vas, seccVasDataCnt := 0, charging_soc := 0\<rparr>"

definition SeccInit :: "secc \<Rightarrow> secc" where
  "SeccInit st = st\<lparr>bPlcConn := False,
     SeccTxData := (SeccTxData st)\<lparr>status_fault := 1, NormVolt := 2200, MaxCurr := 315, NormFreq := 60,
       MaxPower := 70, payment := 0\<rparr>,
     SeccRxData := (SeccRxData st)\<lparr>stcode := CSM_STAT_READY, secc_errcode := 0xffff\<rparr>\<rparr>"

end
