(* ===== verification/Secc_Link.thy ===== *)
theory Secc_Link
  imports Secc_Vas
begin

text \<open>
  The frame layer of the PLC modem link: the requests that are sent are Modbus frames with a correct CRC, a
  correct response is accepted in one or two parts, and only such responses are accepted.
\<close>

section \<open>Frames\<close>

text \<open>Big-endian bytes of a register and a message followed by its CRC.\<close>

definition be_bytes :: "u16 \<Rightarrow> bytes" where
  "be_bytes w = [hi8 w, lo8 w]"

definition mb_frame :: "bytes \<Rightarrow> bytes" where
  "mb_frame bs = bs @ be_bytes (TsctCrc16 bs)"

definition read_request :: "u16 \<Rightarrow> u16 \<Rightarrow> bytes" where
  "read_request a n = mb_frame ([CHRG_ID, FC_READ] @ be_bytes a @ be_bytes n)"

definition write_request :: "u16 \<Rightarrow> u16 list \<Rightarrow> bytes" where
  "write_request a vs = mb_frame ([CHRG_ID, FC_WRITE] @ be_bytes a @ be_bytes (w16 (length vs)) @
     [w8 (2 * length vs)] @ concat (map be_bytes vs))"

definition read_response :: "u16 list \<Rightarrow> bytes" where
  "read_response vs = mb_frame ([CHRG_ID, FC_READ, w8 (2 * length vs)] @ concat (map be_bytes vs))"

definition write_response :: "u16 \<Rightarrow> u16 \<Rightarrow> bytes" where
  "write_response a n = mb_frame ([CHRG_ID, FC_WRITE] @ be_bytes a @ be_bytes n)"

lemma length_be_bytes [simp]: "length (be_bytes w) = 2"
  by (simp add: be_bytes_def)

lemma length_concat_be [simp]: "length (concat (map be_bytes vs)) = 2 * length vs"
  by (induction vs) auto

lemma length_mb_frame [simp]: "length (mb_frame bs) = length bs + 2"
  by (simp add: mb_frame_def)

lemma length_read_response [simp]: "length (read_response vs) = 2 * length vs + 5"
  by (simp add: read_response_def)

lemma length_write_response [simp]: "length (write_response a n) = 8"
  by (simp add: write_response_def)

lemma Led2Bed16_le16: "Led2Bed16 w = le16 (hi8 w) (lo8 w)"
proof -
  have "Led2Bed16 w = (drop_bit 8 w AND 0xff) OR (push_bit 8 w AND 0xff00)"
    unfolding Led2Bed16_def
  proof (rule disjunctive_add)
    fix n
    have "take_bit 8 (drop_bit 8 w) AND (push_bit 8 w) = 0"
      by (rule bit_word_eqI) (auto simp: bit_simps)
    then show "\<not> bit (drop_bit 8 w AND 0xff) n \<or> \<not> bit (push_bit 8 w AND 0xff00) n"
      unfolding and_FF by (metis bit_0_eq bit_and_iff bot_apply bot_bool_def)
  qed
  also have "\<dots> = le16 (hi8 w) (lo8 w)"
  proof (rule le16_eqI)
    show "lo8 ((drop_bit 8 w AND 0xff) OR (push_bit 8 w AND 0xff00)) = lo8 (le16 (hi8 w) (lo8 w))"
      unfolding and_FF lo8_le16
      unfolding lo8_def hi8_def
      by (rule bit_word_eqI) (auto simp: bit_simps)
  next
    have f: "(0xff00 :: u16) = push_bit 8 0xff" by simp
    have "push_bit 8 w AND 0xff00 = push_bit 8 (take_bit 8 w)"
      unfolding f push_bit_and [symmetric] and_FF ..
    then show "hi8 ((drop_bit 8 w AND 0xff) OR (push_bit 8 w AND 0xff00)) = hi8 (le16 (hi8 w) (lo8 w))"
      unfolding and_FF hi8_le16
      unfolding lo8_def hi8_def
      by (simp only:) (rule bit_word_eqI, auto simp: bit_simps)
  qed
  finally show ?thesis .
qed

lemma Led2Bed16_twice [simp]: "Led2Bed16 (Led2Bed16 w) = w"
  by (simp add: Led2Bed16_le16)

lemma mem16_Led2Bed16 [simp]: "mem16 (Led2Bed16 w) = be_bytes w"
  by (simp add: mem16_def Led2Bed16_le16 be_bytes_def)

section \<open>Requests\<close>

lemma MakeReadTx_frame:
  "\<exists>st'. MakeReadTx a n st = Some (1, st') \<and> read_tx_mem (SeccModbusReadTx st') = read_request a n \<and>
     rFuncCode (SeccModbusReadTx st') = FC_READ \<and> rReqAddr (SeccModbusReadTx st') = Led2Bed16 a \<and>
     rReqAddrLen (SeccModbusReadTx st') = Led2Bed16 n \<and> st' = st\<lparr>SeccModbusReadTx := SeccModbusReadTx st'\<rparr>"
  by (simp add: MakeReadTx_def Let_def read_tx_mem_def read_tx_head_def read_request_def mb_frame_def)

lemma mem16s_append: "mem16s (xs @ ys) = mem16s xs @ mem16s ys"
  by (simp add: mem16s_def)

lemma length_mem16s [simp]: "length (mem16s ws) = 2 * length ws"
  by (induction ws) (auto simp: mem16s_def)

lemma mem16s_Led2Bed16: "mem16s (map Led2Bed16 vs) = concat (map be_bytes vs)"
  by (induction vs) (auto simp: mem16s_def)

lemma MakeWriteTx_frame:
  assumes d: "wData16 (SeccModbusWriteTx st) = map Led2Bed16 vs @ rest" and n: "length vs \<le> 6"
  shows "\<exists>st'. MakeWriteTx a (w16 (length vs)) st = Some (2, st') \<and>
     secc_send 2 st' = Some [Secc_write (write_request a vs)] \<and>
     wFuncCode (SeccModbusWriteTx st') = FC_WRITE \<and> wReqAddr (SeccModbusWriteTx st') = Led2Bed16 a \<and>
     wReqAddrLen (SeccModbusWriteTx st') = Led2Bed16 (w16 (length vs)) \<and>
     wData16 (SeccModbusWriteTx st') = wData16 (SeccModbusWriteTx st) \<and>
     st' = st\<lparr>SeccModbusWriteTx := SeccModbusWriteTx st'\<rparr>"
proof -
  let ?n = "2 * length vs"
  have len: "ucast (2 * w16 (length vs)) = w8 ?n"
  proof -
    have "2 * w16 (length vs) = w16 ?n" by (simp add: w16_def)
    moreover have "lo8 (w16 ?n) = w8 ?n" by (rule word_unat_eq_iff [THEN iffD2])
      (use n in \<open>simp add: lo8_def unsigned_ucast_eq take_bit_nat_eq_self unat_w16 unat_w8\<close>)
    ultimately show ?thesis by (simp add: lo8_def)
  qed
  have u: "unat (w8 ?n) = ?n" using n by (simp add: unat_w8)
  have data: "slice (mem16s (wData16 (SeccModbusWriteTx st))) 0 ?n = Some (concat (map be_bytes vs))"
    unfolding d mem16s_append mem16s_Led2Bed16 by (simp add: slice_def)
  have b20: "length xs = 7 \<Longrightarrow> blit (replicate 20 0) 0 (xs @ concat (map be_bytes vs)) =
      Some ((xs @ concat (map be_bytes vs)) @ replicate (13 - ?n) 0)" for xs :: bytes
    using n by (simp add: blit_def)
  have b30: "length xs = 7 \<Longrightarrow> blit (replicate 30 0) 0 (xs @ concat (map be_bytes vs) @ be_bytes c) =
      Some ((xs @ concat (map be_bytes vs) @ be_bytes c) @ replicate (21 - ?n) 0)" for xs :: bytes and c
    using n by (simp add: blit_def)
  have s30: "length xs = 9 + ?n \<Longrightarrow> slice (xs @ ys) 0 (9 + ?n) = Some xs" for xs ys :: bytes
    by (simp add: slice_def)
  define h where "h = [CHRG_ID, FC_WRITE] @ be_bytes a @ be_bytes (w16 (length vs)) @ [w8 ?n]"
  have h7: "length h = 7" by (simp add: h_def)
  let ?t = "(SeccModbusWriteTx st)\<lparr>wId01 := CHRG_ID, wFuncCode := FC_WRITE, wReqAddr := Led2Bed16 a,
                wReqAddrLen := Led2Bed16 (w16 (length vs)), wDatalen := w8 ?n\<rparr>"
  let ?c = "TsctCrc16 (h @ concat (map be_bytes vs))"
  have wh: "write_tx_head (?t\<lparr>wCrc16 := x\<rparr>) = h" "write_tx_head ?t = h" for x
    by (simp_all add: write_tx_head_def h_def)
  have t20: "take (7 + ?n) ((h @ concat (map be_bytes vs)) @ replicate (13 - ?n) 0) = h @ concat (map be_bytes vs)"
    using h7 by simp
  let ?st' = "st\<lparr>SeccModbusWriteTx := ?t\<lparr>wCrc16 := Led2Bed16 ?c\<rparr>\<rparr>"
  have "MakeWriteTx a (w16 (length vs)) st = Some (2, ?st')"
    unfolding MakeWriteTx_def Let_def len wh using u data b20 [OF h7] t20 by simp
  moreover have "secc_send 2 ?st' = Some [Secc_write (h @ concat (map be_bytes vs) @ be_bytes ?c)]"
    using u data b30 [OF h7, of ?c] s30 [of "h @ concat (map be_bytes vs) @ be_bytes ?c" "replicate (21 - ?n) 0"] h7 wh(1)
    by (simp add: secc_send_def Let_def)
  moreover have "h @ concat (map be_bytes vs) @ be_bytes ?c = write_request a vs"
    by (simp add: write_request_def mb_frame_def h_def)
  ultimately show ?thesis by (intro exI [of _ ?st']) simp
qed

section \<open>Accepting a response\<close>

lemma le16_be: "le16 (lo8 w) (hi8 w) = w"
  by simp

lemma ValidSecc_packet_read:
  assumes src: "Src = read_response vs @ pad" "length Src = 512" and n: "length vs \<le> 127"
    and tx: "rFuncCode (SeccModbusReadTx st) = FC_READ" "rReqAddrLen (SeccModbusReadTx st) = Led2Bed16 (w16 (length vs))"
  shows "ValidSecc_packet Src (2 * length vs + 5) st = Some (True, st\<lparr>DataLen := w8 (2 * length vs)\<rparr>)"
proof -
  let ?n = "2 * length vs" and ?body = "[CHRG_ID, FC_READ, w8 (2 * length vs)] @ concat (map be_bytes vs)"
  have s: "Src = ?body @ be_bytes (TsctCrc16 ?body) @ pad"
    using src(1) by (simp add: read_response_def mb_frame_def)
  have r: "rd Src i = Some (Src ! i)" if "i < 512" for i using that src(2) by (simp add: rd_inside)
  have b: "Src ! 0 = CHRG_ID" "Src ! 1 = FC_READ" "Src ! 2 = w8 ?n" by (simp_all add: s)
  have body: "slice Src 0 (?n + 3) = Some ?body"
    using slice_append_mid [of "[]" 0 ?body "?n + 3"] by (simp add: s)
  have c: "Src ! (?n + 3) = hi8 (TsctCrc16 ?body)" "Src ! (?n + 4) = lo8 (TsctCrc16 ?body)"
    by (simp_all add: s be_bytes_def nth_append)
  have u: "unat (w8 ?n) = ?n" "unat (w16 (length vs)) = length vs" using n by (simp_all add: unat_w8 unat_w16)
  have i: "?n + 5 - 2 = ?n + 3" "?n + 5 - 1 = ?n + 4" "?n + 5 - 5 = ?n" by simp_all
  have lt: "?n + 3 < 512" "?n + 4 < 512" using n by simp_all
  show ?thesis
    unfolding ValidSecc_packet_def i
    using n by (simp add: r lt b [unfolded One_nat_def] body c u tx Let_def)
qed

lemma ValidSecc_packet_write:
  assumes src: "Src = write_response a n @ pad" "length Src = 512"
    and tx: "wFuncCode (SeccModbusWriteTx st) = FC_WRITE" "wReqAddr (SeccModbusWriteTx st) = Led2Bed16 a"
      "wReqAddrLen (SeccModbusWriteTx st) = Led2Bed16 n"
  shows "ValidSecc_packet Src 8 st = Some (True, st)"
proof -
  let ?body = "[CHRG_ID, FC_WRITE] @ be_bytes a @ be_bytes n"
  have s: "Src = ?body @ be_bytes (TsctCrc16 ?body) @ pad"
    using src(1) by (simp add: write_response_def mb_frame_def)
  have r: "rd Src i = Some (Src ! i)" if "i < 512" for i using that src(2) by (simp add: rd_inside)
  have b: "Src ! 0 = CHRG_ID" "Src ! 1 = FC_WRITE" "Src ! 2 = hi8 a" "Src ! 3 = lo8 a" "Src ! 4 = hi8 n" "Src ! 5 = lo8 n"
    "Src ! 6 = hi8 (TsctCrc16 ?body)" "Src ! 7 = lo8 (TsctCrc16 ?body)"
    by (simp_all add: s be_bytes_def)
  have body: "slice Src 0 6 = Some ?body" unfolding s by (simp add: slice_def be_bytes_def)
  show ?thesis
    unfolding ValidSecc_packet_def by (simp add: r b [unfolded One_nat_def] body tx Let_def Led2Bed16_le16)
qed

section \<open>Responses that arrive in one or in two parts\<close>

text \<open>A response that fits the outstanding request, its length and what the acceptance leaves in the state.\<close>

definition fits_read :: "u16 list \<Rightarrow> secc \<Rightarrow> bool" where
  "fits_read vs st \<longleftrightarrow> length vs \<le> 127 \<and> rFuncCode (SeccModbusReadTx st) = FC_READ \<and>
     rReqAddrLen (SeccModbusReadTx st) = Led2Bed16 (w16 (length vs))"

definition fits_write :: "u16 \<Rightarrow> u16 \<Rightarrow> secc \<Rightarrow> bool" where
  "fits_write a n st \<longleftrightarrow> wFuncCode (SeccModbusWriteTx st) = FC_WRITE \<and>
     wReqAddr (SeccModbusWriteTx st) = Led2Bed16 a \<and> wReqAddrLen (SeccModbusWriteTx st) = Led2Bed16 n"

lemma uint_w8: "n < 256 \<Longrightarrow> uint (w8 n) = int n"
  by (metis of_nat_unat unat_w8)

lemma read_response_nth:
  assumes "length vs \<le> 127"
  shows "read_response vs ! Suc 0 = FC_READ \<and> uint (read_response vs ! 2) = 2 * int (length vs)"
proof -
  have "uint (w8 (2 * length vs)) = int (2 * length vs)" by (rule uint_w8) (use assms in simp)
  then show ?thesis by (simp add: read_response_def mb_frame_def)
qed

lemma write_response_nth: "write_response a n ! Suc 0 = FC_WRITE"
  by (simp add: write_response_def mb_frame_def)

lemma rsp_fit_prefix:
  assumes m: "(\<exists>vs. m = read_response vs \<and> length vs \<le> 127) \<or> (\<exists>a n. m = write_response a n)"
    and sz: "2 \<le> sz" "sz \<le> length m" and pad: "2 < sz \<or> (\<forall>b \<in> set pad. b = 0)" "3 \<le> sz + length pad"
  shows "rsp_fit ((take sz m @ pad) ! Suc 0) ((take sz m @ pad) ! 2) sz = Some (if sz < length m then Short else Exact)"
proof -
  have b1: "(take sz m @ pad) ! Suc 0 = m ! Suc 0" using sz by (simp add: nth_append)
  have b2: "(take sz m @ pad) ! 2 = (if 2 < sz then m ! 2 else 0)"
  proof (cases "2 < sz")
    case True
    then show ?thesis using sz by (simp add: nth_append)
  next
    case False
    then have "sz = 2" "pad ! 0 \<in> set pad" using sz pad(2) by (auto intro: nth_mem)
    then show ?thesis using pad(1) sz False by (simp add: nth_append min_def)
  qed
  from m show ?thesis
  proof (elim disjE exE conjE)
    fix vs assume "m = read_response vs" "length vs \<le> 127"
    then show ?thesis unfolding b1 b2 using read_response_nth [of vs] sz by (auto simp: rsp_fit_def)
  next
    fix a n assume "m = write_response a n"
    then show ?thesis unfolding b1 b2 using write_response_nth [of a n] sz by (auto simp: rsp_fit_def)
  qed
qed

lemma ValidSecc_whole:
  assumes m: "(\<exists>vs. m = read_response vs \<and> length vs \<le> 127) \<or> (\<exists>a n. m = write_response a n)"
    and p: "seccContinSize st = 0"
  shows "ValidSecc m st =
    ValidSecc_packet (m @ replicate (512 - length m) 0) (length m)
      (st\<lparr>secc_pars_buf := m @ replicate (512 - length m) 0\<rparr>)"
proof -
  have len: "2 \<le> length m" "length m \<le> 259" using m by auto
  have "rsp_fit ((m @ replicate (512 - length m) 0) ! Suc 0) ((m @ replicate (512 - length m) 0) ! 2) (length m) = Some Exact"
    using rsp_fit_prefix [OF m, of "length m" "replicate (512 - length m) 0"] len by simp
  then show ?thesis using p len by (simp add: ValidSecc_def blit_def Let_def)
qed

lemma ValidSecc_parts:
  assumes m: "(\<exists>vs. m = read_response vs \<and> length vs \<le> 127) \<or> (\<exists>a n. m = write_response a n)"
    and p: "seccContinSize st = 0" and xy: "m = x @ y" "x \<noteq> []" "y \<noteq> []"
  shows "\<exists>st1. ValidSecc x st = Some (False, st1) \<and>
    st1 = st\<lparr>secc_pars_buf := secc_pars_buf st1, seccContinSize := w16 (length x)\<rparr> \<and>
    ValidSecc y st1 = ValidSecc_packet (m @ replicate (512 - length m) 0) (length m)
      (st\<lparr>secc_pars_buf := m @ replicate (512 - length m) 0\<rparr>)"
proof -
  have len: "length m \<le> 259" "5 \<le> length m" using m by auto
  have lx: "0 < length x" "length x < length m" "length x + length y = length m" using xy by auto
  let ?pad = "replicate (512 - length x) (0 :: u8)"
  let ?st1 = "st\<lparr>secc_pars_buf := x @ ?pad, seccContinSize := w16 (length x)\<rparr>"
  have x: "x = take (length x) m" using xy(1) by simp
  have fx: "2 \<le> length x \<Longrightarrow> rsp_fit ((x @ ?pad) ! Suc 0) ((x @ ?pad) ! 2) (length x) = Some Short"
    using rsp_fit_prefix [OF m, of "length x" ?pad] lx len x by simp
  have one: "ValidSecc x st = Some (False, ?st1)"
    using fx lx len p by (simp add: ValidSecc_def Let_def blit_def)
  have buf: "blit (x @ ?pad) (length x) y = Some (m @ replicate (512 - length m) 0)"
  proof -
    have "length x + length y \<le> 512" using lx(3) len(1) by linarith
    then show ?thesis unfolding blit_def xy(1) by simp
  qed
  have fit: "rsp_fit ((m @ replicate (512 - length m) 0) ! Suc 0) ((m @ replicate (512 - length m) 0) ! 2) (length m) = Some Exact"
    using rsp_fit_prefix [OF m, of "length m" "replicate (512 - length m) 0"] len by simp
  have u: "unat (w16 (length x)) = length x" using lx len by (simp add: unat_w16)
  have sum: "length y + length x = length m" using lx by simp
  have "ValidSecc y ?st1 = ValidSecc_packet (m @ replicate (512 - length m) 0) (length m)
      (st\<lparr>secc_pars_buf := m @ replicate (512 - length m) 0, seccContinSize := 0\<rparr>)"
  proof -
    have c: "length x \<noteq> 0" "\<not> 512 \<le> length m" using lx len by auto
    have f: "seccContinSize ?st1 = w16 (length x)" "secc_pars_buf ?st1 = x @ ?pad" by simp_all
    show ?thesis
      unfolding ValidSecc_def Let_def f u if_not_P [OF c(1)] add.commute [of "length x"] sum if_not_P [OF c(2)] buf
        bind.bind_lunit One_nat_def fit option.case fit.case
      by simp
  qed
  moreover have "st\<lparr>secc_pars_buf := m @ replicate (512 - length m) 0, seccContinSize := 0\<rparr> =
      st\<lparr>secc_pars_buf := m @ replicate (512 - length m) 0\<rparr>"
    using p by simp
  ultimately show ?thesis using one by (intro exI [of _ ?st1]) simp
qed

end
