(* ===== verification/Secc_Recv.thy ===== *)
theory Secc_Recv
  imports Secc_Link
begin

text \<open>
  What the read task of the PLC modem link does with a response: acceptance is sound, a response in two parts has
  the effect of the whole one, and each polled register ends up in its field.
\<close>

section \<open>Soundness of the acceptance\<close>

lemma be_bytes_onto: "length bs = 2 * n \<Longrightarrow> \<exists>vs. length vs = n \<and> concat (map be_bytes vs) = bs"
proof (induction n arbitrary: bs)
  case 0
  then show ?case by simp
next
  case (Suc n)
  then obtain a b cs where bs: "bs = a # b # cs" "length cs = 2 * n"
    by (cases bs; cases "tl bs") auto
  obtain vs where "length vs = n" "concat (map be_bytes vs) = cs" using Suc.IH [OF bs(2)] by blast
  then have "length (le16 b a # vs) = Suc n \<and> concat (map be_bytes (le16 b a # vs)) = bs"
    by (simp add: bs(1) be_bytes_def)
  then show ?case by blast
qed

text \<open>The responses that answer the outstanding request.\<close>

definition answers :: "bytes \<Rightarrow> secc \<Rightarrow> bool" where
  "answers m st \<longleftrightarrow>
     (\<exists>vs. m = read_response vs \<and> length vs \<le> 127 \<and> rFuncCode (SeccModbusReadTx st) = FC_READ \<and>
           rReqAddrLen (SeccModbusReadTx st) = Led2Bed16 (w16 (length vs))) \<or>
     (wFuncCode (SeccModbusWriteTx st) = FC_WRITE \<and>
      m = write_response (Led2Bed16 (wReqAddr (SeccModbusWriteTx st))) (Led2Bed16 (wReqAddrLen (SeccModbusWriteTx st))))"

lemma split_nth: "i < length xs \<Longrightarrow> xs = take i xs @ xs ! i # drop (Suc i) xs"
  by (rule id_take_nth_drop)

lemma take_Suc_Suc: "Suc i < length xs \<Longrightarrow> take (Suc (Suc i)) xs = take i xs @ [xs ! i, xs ! Suc i]"
  by (simp add: take_Suc_conv_app_nth)

lemma take_3: "3 \<le> length xs \<Longrightarrow> take 3 xs = [xs ! 0, xs ! 1, xs ! 2]"
  using take_Suc_Suc [of 0 xs] take_Suc_conv_app_nth [of 2 xs] by (simp add: numeral_2_eq_2 numeral_3_eq_3)

lemma take_6: "6 \<le> length xs \<Longrightarrow> take 6 xs = [xs ! 0, xs ! 1, xs ! 2, xs ! 3, xs ! 4, xs ! 5]"
  using take_3 [of xs] take_3 [of "drop 3 xs"] take_add [of 3 3 xs] by simp

lemma crc_frame:
  assumes "sz \<le> length Src" "2 \<le> sz" "TsctCrc16 (take (sz - 2) Src) = le16 (Src ! (sz - 1)) (Src ! (sz - 2))"
  shows "take sz Src = mb_frame (take (sz - 2) Src)"
proof -
  have "take sz Src = take (sz - 2) Src @ [Src ! (sz - 2), Src ! (sz - 1)]"
    using take_Suc_Suc [of "sz - 2" Src] assms(1,2) by (simp add: Suc_diff_Suc numeral_2_eq_2)
  then show ?thesis using assms(3) by (simp add: mb_frame_def be_bytes_def)
qed

lemma sound_read:
  assumes len: "length Src = 512" and sz: "5 \<le> sz" "sz \<le> 512"
    and b: "Src ! 0 = CHRG_ID" "Src ! 1 = FC_READ" "int (unat (Src ! 2)) = int sz - 5"
      "unat (Led2Bed16 (rReqAddrLen (SeccModbusReadTx st))) * 2 = unat (Src ! 2)"
      "rFuncCode (SeccModbusReadTx st) = FC_READ"
    and crc: "TsctCrc16 (take (sz - 2) Src) = le16 (Src ! (sz - 1)) (Src ! (sz - 2))"
  shows "answers (take sz Src) st"
proof -
  define n where "n = unat (Led2Bed16 (rReqAddrLen (SeccModbusReadTx st)))"
  have n: "unat (Src ! 2) = 2 * n" "sz = 2 * n + 5" "n \<le> 127"
    using b(3,4) unat_u8_less [of "Src ! 2"] unfolding n_def by linarith+
  have "length (drop 3 (take (sz - 2) Src)) = 2 * n" using len sz n by simp
  then obtain vs where vs: "length vs = n" "concat (map be_bytes vs) = drop 3 (take (sz - 2) Src)"
    using be_bytes_onto by blast
  have "Src ! 2 = w8 (2 * n)" using n(1) w8_unat [of "Src ! 2"] by simp
  then have "take 3 (take (sz - 2) Src) = [CHRG_ID, FC_READ, w8 (2 * n)]"
    using take_3 [of "take (sz - 2) Src"] len sz b(1,2) n(2) by simp
  then have "take (sz - 2) Src = [CHRG_ID, FC_READ, w8 (2 * length vs)] @ concat (map be_bytes vs)"
    using append_take_drop_id [of 3 "take (sz - 2) Src"] vs by simp
  then have "take sz Src = read_response vs"
    using crc_frame [OF _ _ crc] len sz by (simp add: read_response_def)
  moreover have "rReqAddrLen (SeccModbusReadTx st) = Led2Bed16 (w16 (length vs))"
    using vs(1) by (simp add: n_def)
  ultimately show ?thesis using vs(1) n(3) b(5) by (auto simp: answers_def)
qed

lemma sound_write:
  assumes len: "length Src = 512"
    and b: "Src ! 0 = CHRG_ID" "Src ! 1 = FC_WRITE" "wFuncCode (SeccModbusWriteTx st) = FC_WRITE"
      "wReqAddr (SeccModbusWriteTx st) = le16 (Src ! 2) (Src ! 3)"
      "wReqAddrLen (SeccModbusWriteTx st) = le16 (Src ! 4) (Src ! 5)"
    and crc: "TsctCrc16 (take 6 Src) = le16 (Src ! 7) (Src ! 6)"
  shows "answers (take 8 Src) st"
proof -
  have "Led2Bed16 (wReqAddr (SeccModbusWriteTx st)) = le16 (Src ! 3) (Src ! 2)"
    "Led2Bed16 (wReqAddrLen (SeccModbusWriteTx st)) = le16 (Src ! 5) (Src ! 4)"
    unfolding b(4,5) by (simp_all add: Led2Bed16_le16)
  moreover have "take 6 Src = [CHRG_ID, FC_WRITE, Src ! 2, Src ! 3, Src ! 4, Src ! 5]"
    using take_6 [of Src] len b(1,2) by simp
  ultimately show ?thesis
    using crc_frame [of 8 Src] crc len b(3) by (simp add: answers_def write_response_def be_bytes_def)
qed

lemma ValidSecc_packet_sound:
  assumes len: "length Src = 512" and sz: "sz \<le> 512"
    and v: "ValidSecc_packet Src sz st = Some (True, st')"
  shows "answers (take sz Src) st \<and> st' = st\<lparr>DataLen := DataLen st'\<rparr>"
proof -
  have sz5: "5 \<le> sz" using v by (auto simp: ValidSecc_packet_def split: if_splits)
  have r: "i < 512 \<Longrightarrow> rd Src i = Some (Src ! i)" for i using len by (simp add: rd_inside)
  have s: "slice Src 0 (sz - 2) = Some (take (sz - 2) Src)" using len sz by (simp add: slice_def)
  have lt: "sz - 2 < 512" "sz - 1 < 512" using sz sz5 by auto
  have c: "\<not> sz < 5" "(0::nat) < 512" "(1::nat) < 512" "(2::nat) < 512" "(3::nat) < 512" "(4::nat) < 512" "(5::nat) < 512"
    using sz5 by auto
  note v' = v [unfolded ValidSecc_packet_def Let_def if_not_P [OF c(1)] r [OF c(2)] r [OF c(3)] r [OF c(4)] r [OF c(5)]
      r [OF c(6)] r [OF c(7)] r [OF lt(1)] r [OF lt(2)] s bind.bind_lunit]
  have id: "Src ! 0 = CHRG_ID" using v' by (simp split: if_splits)
  show ?thesis
  proof (cases "Src ! 1 = FC_READ")
    case True
    have k: "\<not> (rFuncCode (SeccModbusReadTx st) \<noteq> Src ! 1
        \<or> unat (Led2Bed16 (rReqAddrLen (SeccModbusReadTx st))) * 2 \<noteq> unat (Src ! 2)
        \<or> int (unat (Src ! 2)) \<noteq> int sz - 5)"
      by (rule notI, use v' in \<open>simp only: id True simp_thms if_True if_False option.inject prod.inject\<close>)
    have "st' = st\<lparr>DataLen := w8 (sz - 5)\<rparr>"
        "TsctCrc16 (take (sz - 2) Src) = le16 (Src ! (sz - 1)) (Src ! (sz - 2))"
      using v' by (simp_all only: id True if_not_P [OF k [unfolded True]] simp_thms if_True if_False option.inject prod.inject)
    then show ?thesis using sound_read [OF len sz5 sz id True] k True by simp
  next
    case False
    then have f: "Src ! 1 = FC_WRITE" using v' by (simp add: id split: if_split_asm)
    have k: "\<not> (wFuncCode (SeccModbusWriteTx st) \<noteq> Src ! 1
        \<or> wReqAddr (SeccModbusWriteTx st) \<noteq> le16 (Src ! 2) (Src ! 3)
        \<or> wReqAddrLen (SeccModbusWriteTx st) \<noteq> le16 (Src ! 4) (Src ! 5) \<or> 8 \<noteq> sz)"
      by (rule notI, use v' in \<open>simp only: id f if_not_P [OF False [unfolded f]] simp_thms if_True if_False option.inject prod.inject\<close>)
    have "st' = st" "TsctCrc16 (take (sz - 2) Src) = le16 (Src ! (sz - 1)) (Src ! (sz - 2))"
      using v' by (simp_all only: id f if_not_P [OF False [unfolded f]] if_not_P [OF k [unfolded f]] simp_thms if_True if_False option.inject prod.inject)
    then show ?thesis using sound_write [OF len id f] k f by simp
  qed
qed

lemma ValidSecc_sound:
  assumes inv: "length (secc_pars_buf st) = 512" "length bs \<le> 512" and v: "ValidSecc bs st = Some (True, st')"
  shows "\<exists>m. m = take (unat (seccContinSize st)) (secc_pars_buf st) @ bs \<and> answers m st \<and>
     st' = st\<lparr>secc_pars_buf := m @ drop (length m) (secc_pars_buf st'), seccContinSize := 0, DataLen := DataLen st'\<rparr> \<and>
     length (secc_pars_buf st') = 512 \<and> length m \<le> 512"
proof (cases "unat (seccContinSize st) = 0")
  case True
  have z: "seccContinSize st = 0" using True by (simp add: unat_eq_0)
  define Src where "Src = bs @ replicate (512 - length bs) 0"
  have l: "length Src = 512" "take (length bs) Src = bs" using inv(2) by (simp_all add: Src_def)
  have "blit (replicate 512 0) 0 bs = Some Src" using inv(2) by (simp add: blit_def Src_def)
  then have p: "ValidSecc_packet Src (length bs) (st\<lparr>secc_pars_buf := Src\<rparr>) = Some (True, st')"
    using v True by (simp add: ValidSecc_def Let_def split: if_splits option.splits fit.splits)
  have a: "answers bs st" using ValidSecc_packet_sound [OF l(1) inv(2) p] l(2) by (simp add: answers_def)
  have s: "st' = st\<lparr>secc_pars_buf := Src, DataLen := DataLen st'\<rparr>"
    using ValidSecc_packet_sound [OF l(1) inv(2) p] by blast
  then have "secc_pars_buf st' = Src" by (cases st') simp
  moreover have "Src = bs @ drop (length bs) Src" using l(2) append_take_drop_id [of "length bs" Src] by simp
  moreover have "st\<lparr>secc_pars_buf := Src, seccContinSize := 0, DataLen := DataLen st'\<rparr> = st\<lparr>secc_pars_buf := Src, DataLen := DataLen st'\<rparr>"
    using z by simp
  ultimately show ?thesis using s a l(1) inv(2) True by (intro exI [of _ bs]) simp
next
  case False
  define k where "k = unat (seccContinSize st)"
  have fit: "\<not> 512 \<le> k + length bs" using v False by (auto simp: ValidSecc_def k_def split: if_splits)
  define Src where "Src = take k (secc_pars_buf st) @ bs @ drop (k + length bs) (secc_pars_buf st)"
  let ?m = "take k (secc_pars_buf st) @ bs"
  have l: "length Src = 512" "take (length bs + k) Src = ?m" "length ?m = length bs + k" "length bs + k \<le> 512"
    using inv fit by (auto simp: Src_def)
  have "blit (secc_pars_buf st) k bs = Some Src" using inv fit by (simp add: blit_def Src_def)
  then have p: "ValidSecc_packet Src (length bs + k) (st\<lparr>secc_pars_buf := Src, seccContinSize := 0\<rparr>) = Some (True, st')"
    using v False fit by (simp add: ValidSecc_def Let_def k_def split: if_splits option.splits fit.splits)
  have a: "answers ?m st" using ValidSecc_packet_sound [OF l(1,4) p] l(2) by (simp add: answers_def)
  have s: "st' = st\<lparr>secc_pars_buf := Src, seccContinSize := 0, DataLen := DataLen st'\<rparr>"
    using ValidSecc_packet_sound [OF l(1,4) p] by blast
  then have "secc_pars_buf st' = Src" by (cases st') simp
  moreover have "Src = ?m @ drop (length ?m) Src"
    unfolding l(3) by (metis l(2) append_take_drop_id)
  ultimately show ?thesis using s a l(1,3,4) by (intro exI [of _ ?m]) (simp add: k_def)
qed

section \<open>The read task on a response\<close>

definition pad512 :: "bytes \<Rightarrow> bytes" where
  "pad512 m = m @ replicate (512 - length m) 0"

text \<open>The state in which \<open>ParsRxData\<close> starts after a response to a read request.\<close>

definition rx_state :: "u16 list \<Rightarrow> secc \<Rightarrow> secc" where
  "rx_state vs st = st\<lparr>secc_pars_buf := pad512 (read_response vs), DataLen := w8 (2 * length vs),
     rebootCnt := 0, PlcRespWaitCnt := 0,
     Data16 := concat (map be_bytes vs) @ replicate (1024 - 2 * length vs) 0\<rparr>"

lemma ReadTask_read:
  assumes p: "seccContinSize st = 0" and f: "fits_read vs st"
  shows "SeccRS232ReadTask (Some (read_response vs)) st = ParsRxData_secc (rx_state vs st)"
proof -
  let ?n = "2 * length vs" and ?m = "read_response vs"
  have n: "length vs \<le> 127" using f by (simp add: fits_read_def)
  have v: "ValidSecc ?m st = Some (True, st\<lparr>secc_pars_buf := pad512 ?m, DataLen := w8 ?n\<rparr>)"
    using ValidSecc_whole [OF _ p, of ?m] ValidSecc_packet_read [of "pad512 ?m" vs "replicate (512 - length ?m) 0"] f n
    by (auto simp: pad512_def fits_read_def)
  have m: "pad512 ?m = [CHRG_ID, FC_READ, w8 ?n] @ concat (map be_bytes vs) @
      (be_bytes (TsctCrc16 ([CHRG_ID, FC_READ, w8 ?n] @ concat (map be_bytes vs))) @ replicate (512 - length ?m) 0)"
    by (simp add: pad512_def read_response_def mb_frame_def)
  have u: "unat (w8 ?n) = ?n" using n by (simp add: unat_w8)
  have b: "rd (pad512 ?m) 1 = Some FC_READ" "slice (pad512 ?m) 3 ?n = Some (concat (map be_bytes vs))"
    unfolding m by (simp_all add: rd_def slice_def)
  have d: "blit (replicate 1024 0) 0 (concat (map be_bytes vs)) = Some (concat (map be_bytes vs) @ replicate (1024 - ?n) 0)"
    using n by (simp add: blit_def)
  have ne: "?m \<noteq> []" by (simp add: read_response_def mb_frame_def)
  show ?thesis
    using v b d ne by (simp add: SeccRS232ReadTask_def u rx_state_def)
qed

lemma ReadTask_write:
  assumes p: "seccContinSize st = 0" and f: "fits_write a n st"
  shows "SeccRS232ReadTask (Some (write_response a n)) st =
    Some (st\<lparr>secc_pars_buf := pad512 (write_response a n), rebootCnt := 0, PlcRespWaitCnt := 0, SendChkFlg := False\<rparr>)"
proof -
  let ?m = "write_response a n"
  have v: "ValidSecc ?m st = Some (True, st\<lparr>secc_pars_buf := pad512 ?m\<rparr>)"
    using ValidSecc_whole [OF _ p, of ?m] ValidSecc_packet_write [of "pad512 ?m" a n "replicate (512 - length ?m) 0"] f
    by (auto simp: pad512_def fits_write_def)
  have b: "rd (pad512 ?m) 1 = Some FC_WRITE" by (simp add: pad512_def write_response_def mb_frame_def rd_def)
  have ne: "?m \<noteq> []" by (simp add: write_response_def mb_frame_def)
  show ?thesis using v b ne by (simp add: SeccRS232ReadTask_def)
qed

text \<open>The switch of \<open>ParsRxData\<close> assigns the received values to the registers that follow the requested one in
  the order of its cases.\<close>

abbreviation set_regs :: "(nat \<times> u16) list \<Rightarrow> secc \<Rightarrow> secc" where
  "set_regs avs st \<equiv> foldl (\<lambda>s (a, v). set_reg a v s) st avs"

lemma set_reg_frame [simp]:
  "DataLen (set_reg a v st) = DataLen st" "Data16 (set_reg a v st) = Data16 st"
  "SeccModbusReadTx (set_reg a v st) = SeccModbusReadTx st"
  by (simp_all add: set_reg_def Let_def)

lemma rx_reg_nth:
  assumes "Data16 st = concat (map be_bytes vs) @ pad" "k < length vs"
  shows "rx_reg st (int k) = Some (vs ! k)"
proof -
  have n: "(concat (map be_bytes vs) @ pad) ! (2 * k) = hi8 (vs ! k) \<and>
        (concat (map be_bytes vs) @ pad) ! Suc (2 * k) = lo8 (vs ! k)"
    using assms(2)
  proof (induction vs arbitrary: k)
    case Nil
    then show ?case by simp
  next
    case (Cons v vs)
    then show ?case by (cases k) (auto simp: be_bytes_def)
  qed
  have l: "2 * k < length (Data16 st)" "Suc (2 * k) < length (Data16 st)" using assms by simp_all
  have "nat (2 * int k) = 2 * k" "nat (2 * int k + 1) = Suc (2 * k)" by auto
  then show ?thesis
    using n l by (simp add: rx_reg_def rdi_def rd_def assms(1) Led2Bed16_le16)
qed

lemma pars_regs_assign:
  assumes "DataLen st = w8 (2 * length vs)" "Data16 st = concat (map be_bytes vs) @ pad"
    "length vs \<le> 127" "k < length vs"
  shows "pars_regs as (w8 (2 * (length vs - k))) st = Some (set_regs (zip as (drop k vs)) st)"
  using assms
proof (induction as arbitrary: k st)
  case Nil
  then show ?case by simp
next
  case (Cons a as)
  let ?t = "w8 (2 * (length vs - k))"
  have u: "uint ?t = 2 * (int (length vs) - int k)" "uint (DataLen st) = 2 * int (length vs)"
    using Cons.prems by (simp_all add: uint_w8 of_nat_diff)
  have i: "(uint (w8 (2 * length vs)) - uint ?t) div 2 = int k" using u Cons.prems(1) by simp
  have v: "rx_reg st (int k) = Some (vs ! k)" by (rule rx_reg_nth [OF Cons.prems(2,4)])
  have "?t - 2 = w8 (2 * (length vs - k) - 2)"
    using Cons.prems(4) by (simp add: w8_def of_nat_diff)
  also have "2 * (length vs - k) - 2 = 2 * (length vs - Suc k)" by simp
  finally have t: "?t - 2 = w8 (2 * (length vs - Suc k))" .
  have d: "drop k vs = vs ! k # drop (Suc k) vs" using Cons.prems(4) by (simp add: Cons_nth_drop_Suc)
  show ?case
  proof (cases "Suc k < length vs")
    case True
    have "w8 (2 * (length vs - Suc k)) \<noteq> 0"
    proof
      assume "w8 (2 * (length vs - Suc k)) = 0"
      then have "unat (w8 (2 * (length vs - Suc k))) = 0" by simp
      then show False using True Cons.prems(3) by (simp add: unat_w8)
    qed
    then show ?thesis
      using Cons.IH [of "set_reg a (vs ! k) st" "Suc k"] Cons.prems True by (simp add: i v t d Let_def)
  next
    case False
    then have "length vs - Suc k = 0" "drop (Suc k) vs = []" using Cons.prems(4) by auto
    moreover from this have "w8 (2 * (length vs - Suc k)) = 0" by (simp add: w8_def)
    ultimately show ?thesis using Cons.prems(1) by (simp add: i v t d Let_def)
  qed
qed

text \<open>The requests that poll a run of registers: address and number.  The last one is answered by values that
  \<open>ParsRxData\<close> does not store.\<close>

definition polled :: "(nat \<times> nat) list" where
  "polled = [(30001, 1), (30002, 6), (30040, 1), (32001, 10), (32002, 1), (30061, 10)]"

lemma addr16: "a < 65536 \<Longrightarrow> unat (Led2Bed16 (Led2Bed16 (w16 a))) = a"
  by (simp add: unat_w16)

lemma polled_cases:
  assumes "(a, n) \<in> set polled" "a \<noteq> 30061"
  shows "\<exists>rest. dropWhile (\<lambda>b. b \<noteq> a) reg_cases = [a ..< a + n] @ rest"
proof -
  have "dropWhile (\<lambda>b. b \<noteq> a) reg_cases =
      [a ..< a + n] @ drop n (dropWhile (\<lambda>b. b \<noteq> a) reg_cases)"
  proof -
    from assms consider "a = 30001" "n = 1" | "a = 30002" "n = 6" | "a = 30040" "n = 1" | "a = 32001" "n = 10"
      | "a = 32002" "n = 1"
      by (auto simp: polled_def)
    then show ?thesis by cases (simp_all add: reg_cases_def)
  qed
  then show ?thesis by blast
qed

lemma ParsRxData_read:
  assumes "(a, length vs) \<in> set polled" "rReqAddr (SeccModbusReadTx st) = Led2Bed16 (w16 a)"
  shows "ParsRxData_secc (rx_state vs st) =
     Some (if a = 30061 then rx_state vs st else set_regs (zip [a ..< a + length vs] vs) (rx_state vs st))"
proof -
  have l: "1 \<le> length vs" "length vs \<le> 127" and a: "a < 32010" using assms(1) by (auto simp: polled_def)
  have vs0: "vs \<noteq> []" using l by auto
  let ?r = "rx_state vs st"
  have addr: "unat (Led2Bed16 (rReqAddr (SeccModbusReadTx ?r))) = a"
    using a by (simp add: rx_state_def assms(2) unat_w16)
  have "ParsRxData_regs ?r = pars_regs (dropWhile (\<lambda>b. b \<noteq> a) reg_cases) (w8 (2 * length vs)) ?r"
    by (simp add: ParsRxData_regs_def addr) (simp add: rx_state_def)
  also have "\<dots> = Some (set_regs (zip (dropWhile (\<lambda>b. b \<noteq> a) reg_cases) vs) ?r)"
    using pars_regs_assign [of ?r vs "replicate (1024 - 2 * length vs) 0" 0] l vs0 by (simp add: rx_state_def)
  also have "zip (dropWhile (\<lambda>b. b \<noteq> a) reg_cases) vs = (if a = 30061 then [] else zip [a ..< a + length vs] vs)"
  proof (cases "a = 30061")
    case True
    then show ?thesis by (simp add: reg_cases_def)
  next
    case False
    then obtain rest where "dropWhile (\<lambda>b. b \<noteq> a) reg_cases = [a ..< a + length vs] @ rest"
      using polled_cases [OF assms(1)] by blast
    then show ?thesis using False by (simp add: zip_append1)
  qed
  finally have r: "ParsRxData_regs ?r =
     Some (if a = 30061 then ?r else set_regs (zip [a ..< a + length vs] vs) ?r)" by simp
  have "unat (Led2Bed16 (rReqAddr (SeccModbusReadTx
     (if a = 30061 then ?r else set_regs (zip [a ..< a + length vs] vs) ?r)))) = a"
  proof -
    have "SeccModbusReadTx (set_regs avs s) = SeccModbusReadTx s" for avs s
      by (induction avs arbitrary: s) auto
    then show ?thesis using addr by simp
  qed
  then show ?thesis using r a by (simp add: ParsRxData_secc_def)
qed

end
