(* ===== verification/Secc_Thms.thy ===== *)
theory Secc_Thms
  imports Secc_Recv
begin

text \<open>
  Properties of the PLC modem link: what is received, what is sent, and how the start-up proceeds.
\<close>

section \<open>A concrete state\<close>

definition zero_read_tx :: SECC_MODBUS_READ_TX_S where
  "zero_read_tx = \<lparr>rId01 = 0, rFuncCode = 0, rReqAddr = 0, rReqAddrLen = 0, rCrc16 = 0\<rparr>"

definition zero_write_tx :: SECC_MODBUS_WRITE_TX_S where
  "zero_write_tx = \<lparr>wId01 = 0, wFuncCode = 0, wReqAddr = 0, wReqAddrLen = 0, wDatalen = 0,
     wData16 = replicate 127 0, wCrc16 = 0\<rparr>"

text \<open>The globals are zero when \<open>SeccInit\<close> runs.\<close>

definition start_secc :: secc where
  "start_secc = VasDataInit (SeccInit \<lparr>SeccModbusReadTx = zero_read_tx, SeccModbusWriteTx = zero_write_tx,
     DataLen = 0, Data16 = replicate 1024 0,
     SeccRxData = \<lparr>ready = 0, stcode = 0, secc_errcode = 0, swVer = 0, chrgPrtcl = 0, pwmduty = 0, pwmvoltage = 0,
       soc = 0, vasMapCnt = 0, vasEnable = 0, vasStat = 0, vasErrcd = 0, vasRxCnt = 0, vasChksum = 0, vasLen = 0\<rparr>,
     SeccTxData = \<lparr>status_fault = 0, payment = 0, MaxCurr = 0, NormVolt = 0, NormFreq = 0, MaxPower = 0\<rparr>,
     SeccInitStep = SECC_INIT_STEP_NONE, SeccChrgStep = SECC_CHRG_STEP_NONE, PlcRespWaitCnt = 0, SendChkFlg = False,
     charge_cnt = 0, vasReadCd = 0, vasDataBuf = replicate 1024 0, bPlcConn = False, rebootCnt = 0, prcCnt = 0,
     reinitCnt = 0, seccContinSize = 0, secc_pars_buf = replicate 512 0, seccVasRxData = [], charging_soc = 0,
     seccVasRawData = replicate 30 \<lparr>r_dataLenth = 0, r_data = replicate 1024 0\<rparr>, seccVasDataCnt = 0\<rparr>)"

lemma start_secc [simp]:
  "seccContinSize start_secc = 0" "PlcRespWaitCnt start_secc = 0" "rebootCnt start_secc = 0"
  "length (secc_pars_buf start_secc) = 512" "length (wData16 (SeccModbusWriteTx start_secc)) = 127"
  "SeccInitStep start_secc = SECC_INIT_STEP_NONE" "bPlcConn start_secc = False"
  by (simp_all add: start_secc_def VasDataInit_def SeccInit_def zero_write_tx_def)

section \<open>Received responses\<close>

text \<open>A response that arrives in two reads, wherever it is split, has exactly the effect of the whole response:
  the first read only stores its part, the second one completes it.\<close>

theorem secc_split_transparent:
  assumes "(\<exists>vs. m = read_response vs \<and> length vs \<le> 127) \<or> (\<exists>a n. m = write_response a n)"
    and "seccContinSize st = 0" and "m = x @ y" "x \<noteq> []" "y \<noteq> []"
  shows "Option.bind (SeccRS232ReadTask (Some x) st) (SeccRS232ReadTask (Some y)) = SeccRS232ReadTask (Some m) st \<and>
         (\<exists>st1. SeccRS232ReadTask (Some x) st = Some st1 \<and> PlcRespWaitCnt st1 = PlcRespWaitCnt st)"
proof -
  obtain st1 where s: "ValidSecc x st = Some (False, st1)"
      "st1 = st\<lparr>secc_pars_buf := secc_pars_buf st1, seccContinSize := w16 (length x)\<rparr>"
      "ValidSecc y st1 = ValidSecc m st"
    using ValidSecc_parts [OF assms] ValidSecc_whole [OF assms(1,2)] by auto
  have "SeccRS232ReadTask (Some x) st = Some st1" using assms(4) s(1) by (simp add: SeccRS232ReadTask_def)
  moreover have "SeccRS232ReadTask (Some y) st1 = SeccRS232ReadTask (Some m) st"
    using assms(3-5) by (simp add: SeccRS232ReadTask_def s(3))
  moreover have "PlcRespWaitCnt st1 = PlcRespWaitCnt st" by (subst s(2)) simp
  ultimately show ?thesis by simp
qed

theorem secc_split_transparent_witness:
  "Option.bind (SeccRS232ReadTask (Some (take 3 (read_response [7]))) start_secc) (SeccRS232ReadTask (Some (drop 3 (read_response [7])))) =
   SeccRS232ReadTask (Some (read_response [7])) start_secc"
proof -
  have "length (take 3 (read_response [7])) = 3" "length (drop 3 (read_response [7])) = 4" by simp_all
  then have "take 3 (read_response [7]) \<noteq> []" "drop 3 (read_response [7]) \<noteq> []" by (metis list.size(3) zero_neq_numeral)+
  moreover have "(\<exists>vs. read_response [7] = read_response vs \<and> length vs \<le> 127) \<or> (\<exists>a n. read_response [7] = write_response a n)"
    by (rule disjI1, rule exI [of _ "[7]"]) simp
  ultimately show ?thesis
    using secc_split_transparent [of "read_response [7]" start_secc "take 3 (read_response [7])" "drop 3 (read_response [7])"]
    by simp
qed

text \<open>C28. What \<open>ValidSecc\<close> accepts: when it returns true, the pending first part and the bytes just read form a frame with a
  correct CRC that is either a read response with the number of registers that the last read request asked for, or the
  echo of the address and the number of the last write request - whichever of the two was sent last, and whether or not an
  answer is still due (\<open>late_read_accepted\<close>).  Nothing but the receive buffer and the received length changes.\<close>

theorem secc_accept_sound:
  assumes "length (secc_pars_buf st) = 512" "length bs \<le> 512" "ValidSecc bs st = Some (True, st')"
  shows "\<exists>m. m = take (unat (seccContinSize st)) (secc_pars_buf st) @ bs \<and> take (length m) (secc_pars_buf st') = m \<and>
     ((\<exists>vs. m = read_response vs \<and> rFuncCode (SeccModbusReadTx st) = FC_READ \<and>
            length vs = unat (Led2Bed16 (rReqAddrLen (SeccModbusReadTx st)))) \<or>
      (wFuncCode (SeccModbusWriteTx st) = FC_WRITE \<and>
       m = write_response (Led2Bed16 (wReqAddr (SeccModbusWriteTx st))) (Led2Bed16 (wReqAddrLen (SeccModbusWriteTx st))))) \<and>
     st' = st\<lparr>secc_pars_buf := secc_pars_buf st', seccContinSize := 0, DataLen := DataLen st'\<rparr>"
proof -
  obtain m where m: "m = take (unat (seccContinSize st)) (secc_pars_buf st) @ bs" "answers m st"
      "st' = st\<lparr>secc_pars_buf := m @ drop (length m) (secc_pars_buf st'), seccContinSize := 0, DataLen := DataLen st'\<rparr>"
    using ValidSecc_sound [OF assms] by blast
  have b: "secc_pars_buf st' = m @ drop (length m) (secc_pars_buf st')" by (subst m(3)) simp
  have "take (length m) (secc_pars_buf st') = m" by (subst b) simp
  moreover have "st' = st\<lparr>secc_pars_buf := secc_pars_buf st', seccContinSize := 0, DataLen := DataLen st'\<rparr>"
    using m(3) by (simp only: b [symmetric])
  moreover have "unat (Led2Bed16 (rReqAddrLen (SeccModbusReadTx st))) = length vs"
    if "rReqAddrLen (SeccModbusReadTx st) = Led2Bed16 (w16 (length vs))" "length vs \<le> 127" for vs :: "u16 list"
    using that by (simp add: unat_w16)
  ultimately show ?thesis using m(1,2) unfolding answers_def by metis
qed

theorem secc_accept_sound_witness:
  "\<exists>st st'. ValidSecc (write_response 40001 1) st = Some (True, st') \<and>
     take 8 (secc_pars_buf st') = write_response 40001 1"
proof -
  let ?st = "start_secc\<lparr>SeccModbusWriteTx := zero_write_tx\<lparr>wFuncCode := FC_WRITE, wReqAddr := Led2Bed16 40001,
     wReqAddrLen := Led2Bed16 1\<rparr>\<rparr>"
  have z: "seccContinSize ?st = 0" by simp
  have "ValidSecc (write_response 40001 1) ?st = Some (True, ?st\<lparr>secc_pars_buf := pad512 (write_response 40001 1)\<rparr>)"
    using ValidSecc_whole [OF _ z, of "write_response 40001 1"]
      ValidSecc_packet_write [of "pad512 (write_response 40001 1)" 40001 1 "replicate (512 - length (write_response 40001 1)) 0"]
    by (auto simp: pad512_def)
  then obtain st' where v: "ValidSecc (write_response 40001 1) ?st = Some (True, st')" by blast
  have "take 8 (secc_pars_buf st') = write_response 40001 1"
    using secc_accept_sound [OF _ _ v] by simp
  with v show ?thesis by blast
qed

text \<open>The answer to the last read request is accepted while a write is outstanding (or nothing is), and ends the wait.\<close>

lemma late_read_accepted:
  assumes "seccContinSize st = 0" "fits_read vs st" "SendChkFlg st"
  shows "ValidSecc (read_response vs) st =
      Some (True, st\<lparr>secc_pars_buf := pad512 (read_response vs), DataLen := w8 (2 * length vs)\<rparr>) \<and>
    SeccRS232ReadTask (Some (read_response vs)) st = ParsRxData_secc (rx_state vs st) \<and> PlcRespWaitCnt (rx_state vs st) = 0"
proof -
  have "length vs \<le> 127" using assms(2) by (simp add: fits_read_def)
  then have "ValidSecc (read_response vs) st =
      Some (True, st\<lparr>secc_pars_buf := pad512 (read_response vs), DataLen := w8 (2 * length vs)\<rparr>)"
    using ValidSecc_whole [OF _ assms(1), of "read_response vs"] assms(2)
      ValidSecc_packet_read [of "pad512 (read_response vs)" vs "replicate (512 - length (read_response vs)) 0"]
    by (auto simp: pad512_def fits_read_def)
  then show ?thesis using ReadTask_read [OF assms(1,2)] by (simp add: rx_state_def)
qed

lemma list_1: "length vs = 1 \<Longrightarrow> [vs ! 0] = vs"
  by (cases vs) auto

lemma list_6: "length vs = 6 \<Longrightarrow> [vs ! 0, vs ! 1, vs ! 2, vs ! 3, vs ! 4, vs ! 5] = vs"
  using take_6 [of vs] by simp

lemma list_10: "length vs = 10 \<Longrightarrow>
    [vs ! 0, vs ! 1, vs ! 2, vs ! 3, vs ! 4, vs ! 5, vs ! 6, vs ! 7, vs ! 8, vs ! 9] = vs"
  using take_6 [of vs] list_1 [of "drop 9 vs"] take_3 [of "drop 6 vs"] take_add [of 6 3 vs] append_take_drop_id [of 9 vs]
  by simp

lemma polledE:
  fixes a :: u16
  assumes "(unat a, n) \<in> set polled"
  obtains "a = 30001" "n = 1" | "a = 30002" "n = 6" | "a = 30040" "n = 1" | "a = 32001" "n = 10"
    | "a = 32002" "n = 1" | "a = 30061" "n = 10"
proof -
  have u: "unat a = k \<Longrightarrow> a = word_of_nat k" for k by auto
  from assms consider "unat a = 30001" "n = 1" | "unat a = 30002" "n = 6" | "unat a = 30040" "n = 1"
    | "unat a = 32001" "n = 10" | "unat a = 32002" "n = 1" | "unat a = 30061" "n = 10"
    by (auto simp: polled_def)
  then show thesis by cases (drule u, simp add: that)+
qed

text \<open>What the assignments of a polled run do to the state.\<close>

lemma set_regs_polled:
  fixes a :: u16
  assumes "(unat a, length vs) \<in> set polled" "a \<noteq> 30061"
  shows "set_regs (zip [unat a ..< unat a + length vs] vs) st = st\<lparr>SeccRxData := (let d = SeccRxData st in
       if a = 30001 then d\<lparr>ready := vs ! 0\<rparr>
       else if a = 30002 then d\<lparr>stcode := vs ! 0, secc_errcode := vs ! 1, swVer := vs ! 2, chrgPrtcl := vs ! 3,
                                pwmduty := vs ! 4, pwmvoltage := vs ! 5\<rparr>
       else if a = 30040 then d\<lparr>soc := vs ! 0\<rparr>
       else if a = 32001 then d\<lparr>vasMapCnt := vs ! 0, vasEnable := vs ! 1, vasStat := vs ! 2, vasErrcd := vs ! 3,
                                vasRxCnt := vs ! 4, vasChksum := vs ! 8, vasLen := vs ! 9\<rparr>
       else if a = 32002 then d\<lparr>vasEnable := vs ! 0\<rparr> else d),
     vasReadCd := (if a = 32001 \<and> vs ! 4 \<noteq> 0 \<and> vs ! 4 \<noteq> vasRxCnt (SeccRxData st) then 1 else vasReadCd st)\<rparr>"
  using assms(1)
proof (cases rule: polledE)
  case 1
  then obtain v0 where "vs = [v0]" by (metis list_1)
  then show ?thesis using 1 by (simp add: set_reg_def Let_def)
next
  case 2
  then obtain v0 v1 v2 v3 v4 v5 where "vs = [v0, v1, v2, v3, v4, v5]" by (metis list_6)
  then show ?thesis using 2 by (simp add: set_reg_def Let_def)
next
  case 3
  then obtain v0 where "vs = [v0]" by (metis list_1)
  then show ?thesis using 3 by (simp add: set_reg_def Let_def)
next
  case 4
  then obtain v0 v1 v2 v3 v4 v5 v6 v7 v8 v9 where "vs = [v0, v1, v2, v3, v4, v5, v6, v7, v8, v9]" by (metis list_10)
  then show ?thesis using 4 by (simp add: set_reg_def Let_def)
next
  case 5
  then obtain v0 where "vs = [v0]" by (metis list_1)
  then show ?thesis using 5 by (simp add: set_reg_def Let_def)
next
  case 6
  then show ?thesis using assms(2) by simp
qed

lemma ReadTask_polled:
  assumes "(unat a, length vs) \<in> set polled" "seccContinSize st = 0"
    and "rFuncCode (SeccModbusReadTx st) = FC_READ" "rReqAddr (SeccModbusReadTx st) = Led2Bed16 a"
      "rReqAddrLen (SeccModbusReadTx st) = Led2Bed16 (w16 (length vs))"
  shows "SeccRS232ReadTask (Some (read_response vs)) st =
     Some (if a = 30061 then rx_state vs st else set_regs (zip [unat a ..< unat a + length vs] vs) (rx_state vs st))"
proof -
  have "length vs \<le> 127" using assms(1) by (auto simp: polled_def)
  then have "fits_read vs st" using assms(3,5) by (simp add: fits_read_def)
  moreover have "rReqAddr (SeccModbusReadTx st) = Led2Bed16 (w16 (unat a))" using assms(4) by simp
  moreover have "unat a = 30061 \<longleftrightarrow> a = 30061" by (auto simp: word_unat_eq_iff)
  ultimately show ?thesis using ReadTask_read [OF assms(2)] ParsRxData_read [OF assms(1)] by simp
qed

text \<open>The registers of a polled run are stored in the fields they belong to, and the answer ends the wait for
  a response; the control status is in registers 30002 to 30007, the state of the vehicle data in 32001 to 32010,
  where a change of the message count to a number other than 0 starts the collection of the data.\<close>

theorem secc_registers_read:
  assumes "(unat a, length vs) \<in> set polled" "MakeReadTx a (w16 (length vs)) st0 = Some (1, st)"
    and "seccContinSize st0 = 0"
  shows "\<exists>st'. SeccRS232ReadTask (Some (read_response vs)) st = Some st' \<and> PlcRespWaitCnt st' = 0 \<and> rebootCnt st' = 0 \<and>
     SeccRxData st' = (let d = SeccRxData st0 in
       if a = 30001 then d\<lparr>ready := vs ! 0\<rparr>
       else if a = 30002 then d\<lparr>stcode := vs ! 0, secc_errcode := vs ! 1, swVer := vs ! 2, chrgPrtcl := vs ! 3,
                                pwmduty := vs ! 4, pwmvoltage := vs ! 5\<rparr>
       else if a = 30040 then d\<lparr>soc := vs ! 0\<rparr>
       else if a = 32001 then d\<lparr>vasMapCnt := vs ! 0, vasEnable := vs ! 1, vasStat := vs ! 2, vasErrcd := vs ! 3,
                                vasRxCnt := vs ! 4, vasChksum := vs ! 8, vasLen := vs ! 9\<rparr>
       else if a = 32002 then d\<lparr>vasEnable := vs ! 0\<rparr> else d) \<and>
     vasReadCd st' = (if a = 32001 \<and> vs ! 4 \<noteq> 0 \<and> vs ! 4 \<noteq> vasRxCnt (SeccRxData st0) then 1 else vasReadCd st0) \<and>
     SeccInitStep st' = SeccInitStep st0 \<and> SeccChrgStep st' = SeccChrgStep st0 \<and> SendChkFlg st' = SendChkFlg st0"
proof -
  let ?n = "w16 (length vs)"
  obtain st1 where r: "MakeReadTx a ?n st0 = Some (1, st1)" "rFuncCode (SeccModbusReadTx st1) = FC_READ"
      "rReqAddr (SeccModbusReadTx st1) = Led2Bed16 a" "rReqAddrLen (SeccModbusReadTx st1) = Led2Bed16 ?n"
      "st1 = st0\<lparr>SeccModbusReadTx := SeccModbusReadTx st1\<rparr>"
    using MakeReadTx_frame [of a ?n st0] by blast
  have st1: "st1 = st" using assms(2) r(1) by simp
  have same: "SeccRxData st = SeccRxData st0" "vasReadCd st = vasReadCd st0" "SeccInitStep st = SeccInitStep st0"
      "SeccChrgStep st = SeccChrgStep st0" "SendChkFlg st = SendChkFlg st0" "seccContinSize st = 0"
    using assms(3) by (subst r(5) [unfolded st1], simp)+
  have t: "SeccRS232ReadTask (Some (read_response vs)) st =
     Some (if a = 30061 then rx_state vs st else set_regs (zip [unat a ..< unat a + length vs] vs) (rx_state vs st))"
    by (rule ReadTask_polled [OF assms(1) same(6)]) (use r st1 in simp_all)
  show ?thesis
  proof (cases "a = 30061")
    case True
    then show ?thesis using t by (simp add: rx_state_def same)
  next
    case False
    then show ?thesis using t set_regs_polled [OF assms(1) False] by (simp add: rx_state_def same)
  qed
qed

theorem secc_registers_read_witness:
  "\<exists>st st'. MakeReadTx 30002 6 start_secc = Some (1, st) \<and>
     SeccRS232ReadTask (Some (read_response [1, 0, 2, 3, 4, 60])) st = Some st' \<and> stcode (SeccRxData st') = 1 \<and>
     pwmvoltage (SeccRxData st') = 60"
proof -
  obtain st where m: "MakeReadTx 30002 6 start_secc = Some (1, st)" using MakeReadTx_frame by blast
  have n: "w16 (length [1, 0, 2, 3, 4, 60 :: u16]) = 6" by (simp add: w16_def)
  show ?thesis
    using secc_registers_read [of 30002 "[1, 0, 2, 3, 4, 60]" start_secc st] m
    unfolding n by (auto simp: polled_def Let_def)
qed

end
