(* ===== verification/Secc_Run.thy ===== *)
theory Secc_Run
  imports Secc_Thms
begin

text \<open>
  The request task of the PLC modem link: every pass is defined and writes a correctly framed Modbus request at
  most; the timeout; the start-up against a modem that answers; the stop of a charging session.
\<close>

section \<open>Prepared requests\<close>

definition tx_ok :: "secc \<Rightarrow> bool" where
  "tx_ok st \<longleftrightarrow> length (wData16 (SeccModbusWriteTx st)) = 127"

text \<open>What the sequences leave alone.\<close>

definition kept :: "secc \<Rightarrow> secc \<Rightarrow> bool" where
  "kept st st' \<longleftrightarrow> DataLen st' = DataLen st \<and> Data16 st' = Data16 st \<and> SeccRxData st' = SeccRxData st \<and>
     PlcRespWaitCnt st' = PlcRespWaitCnt st \<and> vasDataBuf st' = vasDataBuf st \<and> rebootCnt st' = rebootCnt st \<and>
     seccContinSize st' = seccContinSize st \<and> secc_pars_buf st' = secc_pars_buf st \<and>
     seccVasRxData st' = seccVasRxData st \<and> charging_soc st' = charging_soc st \<and>
     seccVasRawData st' = seccVasRawData st \<and> seccVasDataCnt st' = seccVasDataCnt st"

lemma kept_refl [simp]: "kept st st"
  by (simp add: kept_def)

text \<open>The outstanding request of a state, with the code that the sequences return for it.\<close>

definition prepared :: "u8 \<Rightarrow> secc \<Rightarrow> bytes list \<Rightarrow> bool" where
  "prepared ret st out \<longleftrightarrow> (ret = 0 \<and> out = []) \<or>
     (ret = 1 \<and> (\<exists>a n. out = [read_request a n] \<and> read_tx_mem (SeccModbusReadTx st) = read_request a n \<and>
        rFuncCode (SeccModbusReadTx st) = FC_READ \<and> rReqAddr (SeccModbusReadTx st) = Led2Bed16 a \<and>
        rReqAddrLen (SeccModbusReadTx st) = Led2Bed16 n)) \<or>
     (ret = 2 \<and> (\<exists>a vs. out = [write_request a vs] \<and> length vs \<le> 4 \<and>
        secc_send 2 st = Some [Secc_write (write_request a vs)] \<and>
        wFuncCode (SeccModbusWriteTx st) = FC_WRITE \<and> wReqAddr (SeccModbusWriteTx st) = Led2Bed16 a \<and>
        wReqAddrLen (SeccModbusWriteTx st) = Led2Bed16 (w16 (length vs))))"

definition makes :: "secc \<Rightarrow> request \<Rightarrow> bool" where
  "makes st r \<longleftrightarrow> (\<exists>ret st' out. r = Some (ret, st') \<and> tx_ok st' \<and> kept st st' \<and> prepared ret st' out)"

lemma makes_none [intro]: "tx_ok st \<Longrightarrow> kept st0 st \<Longrightarrow> makes st0 (Some (0, st))"
  by (auto simp: makes_def prepared_def)

lemma makes_read [intro]:
  assumes "tx_ok st" "kept st0 st"
  shows "makes st0 (MakeReadTx a n st)"
proof -
  obtain st' where m: "MakeReadTx a n st = Some (1, st')" "read_tx_mem (SeccModbusReadTx st') = read_request a n"
      "rFuncCode (SeccModbusReadTx st') = FC_READ" "rReqAddr (SeccModbusReadTx st') = Led2Bed16 a"
      "rReqAddrLen (SeccModbusReadTx st') = Led2Bed16 n" and s: "st' = st\<lparr>SeccModbusReadTx := SeccModbusReadTx st'\<rparr>"
    using MakeReadTx_frame [of a n st] by blast
  have "tx_ok st'" "kept st0 st'" using assms by (subst s, simp add: tx_ok_def kept_def)+
  then show ?thesis using m by (auto simp: makes_def prepared_def)
qed

lemma makes_write:
  assumes "wData16 (SeccModbusWriteTx st) = map Led2Bed16 vs @ rest" "length vs \<le> 4" "tx_ok st" "kept st0 st"
  shows "makes st0 (MakeWriteTx a (w16 (length vs)) st)"
proof -
  obtain st' where m: "MakeWriteTx a (w16 (length vs)) st = Some (2, st')"
      "secc_send 2 st' = Some [Secc_write (write_request a vs)]"
      "wFuncCode (SeccModbusWriteTx st') = FC_WRITE" "wReqAddr (SeccModbusWriteTx st') = Led2Bed16 a"
      "wReqAddrLen (SeccModbusWriteTx st') = Led2Bed16 (w16 (length vs))"
      "wData16 (SeccModbusWriteTx st') = wData16 (SeccModbusWriteTx st)"
    and s: "st' = st\<lparr>SeccModbusWriteTx := SeccModbusWriteTx st'\<rparr>"
    using MakeWriteTx_frame [OF assms(1), of a] assms(2) by auto
  have "tx_ok st'" using assms(3) m(6) by (simp add: tx_ok_def)
  moreover have "kept st0 st'" using assms(4) by (subst s) (simp add: kept_def)
  ultimately show ?thesis using m assms(2) by (auto simp: makes_def prepared_def)
qed

text \<open>One 16-bit value written to register \<open>a\<close>.\<close>

lemma set_wdata_0:
  assumes "tx_ok st"
  shows "\<exists>t. set_wdata 0 v st = Some (st\<lparr>SeccModbusWriteTx := t\<rparr>) \<and> length (wData16 t) = 127 \<and>
    wData16 t = map Led2Bed16 [v] @ tl (wData16 (SeccModbusWriteTx st))"
proof -
  obtain x xs where d: "wData16 (SeccModbusWriteTx st) = x # xs" "length xs = 126"
    using assms by (cases "wData16 (SeccModbusWriteTx st)") (auto simp: tx_ok_def)
  let ?t = "(SeccModbusWriteTx st)\<lparr>wData16 := Led2Bed16 v # xs\<rparr>"
  have "set_wdata 0 v st = Some (st\<lparr>SeccModbusWriteTx := ?t\<rparr>)" using d by (simp add: set_wdata_def wr_def)
  then show ?thesis using d by (intro exI [of _ ?t]) simp
qed

lemma w16_1 [simp]: "w16 (Suc 0) = 1" "w16 4 = 4"
  by (simp_all add: w16_def)

lemma makes_write_1 [intro]:
  assumes "tx_ok st" "kept st0 st"
  shows "makes st0 (Option.bind (set_wdata 0 v st) (MakeWriteTx a 1))"
proof -
  obtain t where t: "set_wdata 0 v st = Some (st\<lparr>SeccModbusWriteTx := t\<rparr>)" "length (wData16 t) = 127"
      "wData16 t = map Led2Bed16 [v] @ tl (wData16 (SeccModbusWriteTx st))"
    using set_wdata_0 [OF assms(1)] by blast
  have "makes st0 (MakeWriteTx a (w16 (length [v])) (st\<lparr>SeccModbusWriteTx := t\<rparr>))"
    by (rule makes_write) (use t assms in \<open>simp_all add: tx_ok_def kept_def\<close>)
  then show ?thesis by (simp add: t(1))
qed

lemma first_4: "4 \<le> length xs \<Longrightarrow> xs = [xs ! 0, xs ! 1, xs ! 2, xs ! 3] @ drop 4 xs"
  using take_3 [of xs] take_Suc_conv_app_nth [of 3 xs] append_take_drop_id [of 4 xs] by simp

lemma makes_prm [intro]:
  assumes "tx_ok st" "kept st0 st"
  shows "makes st0 (SendChrgPrm st)"
proof -
  obtain x0 x1 x2 x3 xs where d: "wData16 (SeccModbusWriteTx st) = x0 # x1 # x2 # x3 # xs"
    using first_4 [of "wData16 (SeccModbusWriteTx st)"] assms(1) by (auto simp: tx_ok_def)
  let ?vs = "[MaxCurr (SeccTxData st), NormVolt (SeccTxData st), NormFreq (SeccTxData st), MaxPower (SeccTxData st)]"
  let ?st = "st\<lparr>SeccModbusWriteTx := (SeccModbusWriteTx st)\<lparr>wData16 := map Led2Bed16 ?vs @ xs\<rparr>\<rparr>"
  have "SendChrgPrm st = MakeWriteTx 40027 (w16 (length ?vs)) ?st"
    by (simp add: SendChrgPrm_def set_wdata_def wr_def d eval_nat_numeral w16_def)
  moreover have "makes st0 (MakeWriteTx 40027 (w16 (length ?vs)) ?st)"
    by (rule makes_write [where rest = xs]) (use d assms in \<open>simp_all add: tx_ok_def kept_def\<close>)
  ultimately show ?thesis by simp
qed

lemma makes_ready [intro]: "tx_ok st \<Longrightarrow> kept st0 st \<Longrightarrow> makes st0 (SendChrgReady st)"
  unfolding SendChrgReady_def by (rule makes_write_1)

lemma makes_reads [intro]:
  assumes "tx_ok st" "kept st0 st"
  shows "makes st0 (ChckSeccStat st)" "makes st0 (ChkVasData st)" "makes st0 (ChckSeccSoC st)" "makes st0 (ReadVasData st)"
  using assms by (auto simp: ChckSeccStat_def ChkVasData_def ChckSeccSoC_def ReadVasData_def Let_def)

section \<open>The sequences prepare requests\<close>

lemma kept_update [simp]:
  "kept st0 (st\<lparr>SeccInitStep := x0\<rparr>) = kept st0 st" "tx_ok (st\<lparr>SeccInitStep := x0\<rparr>) = tx_ok st"
  "kept st0 (st\<lparr>SeccChrgStep := x1\<rparr>) = kept st0 st" "tx_ok (st\<lparr>SeccChrgStep := x1\<rparr>) = tx_ok st"
  "kept st0 (st\<lparr>SendChkFlg := x2\<rparr>) = kept st0 st" "tx_ok (st\<lparr>SendChkFlg := x2\<rparr>) = tx_ok st"
  "kept st0 (st\<lparr>charge_cnt := x3\<rparr>) = kept st0 st" "tx_ok (st\<lparr>charge_cnt := x3\<rparr>) = tx_ok st"
  "kept st0 (st\<lparr>vasReadCd := x4\<rparr>) = kept st0 st" "tx_ok (st\<lparr>vasReadCd := x4\<rparr>) = tx_ok st"
  "kept st0 (st\<lparr>bPlcConn := x5\<rparr>) = kept st0 st" "tx_ok (st\<lparr>bPlcConn := x5\<rparr>) = tx_ok st"
  "kept st0 (st\<lparr>prcCnt := x6\<rparr>) = kept st0 st" "tx_ok (st\<lparr>prcCnt := x6\<rparr>) = tx_ok st"
  "kept st0 (st\<lparr>reinitCnt := x7\<rparr>) = kept st0 st" "tx_ok (st\<lparr>reinitCnt := x7\<rparr>) = tx_ok st"
  "kept st0 (st\<lparr>SeccTxData := x8\<rparr>) = kept st0 st" "tx_ok (st\<lparr>SeccTxData := x8\<rparr>) = tx_ok st"
  by (simp_all add: kept_def tx_ok_def)

lemma kept_fault [simp]:
  "kept st0 (fault_set n st) = kept st0 st" "tx_ok (fault_set n st) = tx_ok st"
  "kept st0 (fault_clear n st) = kept st0 st" "tx_ok (fault_clear n st) = tx_ok st"
  by (simp_all add: fault_set_def fault_clear_def)

lemma makes_step [intro]:
  assumes "tx_ok st" "kept st0 st" "makes st0 (send st)"
  shows "makes st0 (InitSecc_step send nxt again st)"
  unfolding InitSecc_step_def using assms by auto

lemma makes_InitSecc:
  assumes "tx_ok st"
  shows "makes st (InitSecc st)"
  unfolding InitSecc_def
  by (cases "SeccInitStep st") (use assms in \<open>auto intro!: makes_step\<close>)

lemma makes_stop: "tx_ok st \<Longrightarrow> kept st0 st \<Longrightarrow> makes st0 (ChrgSecc_stop st)"
  by (auto simp: ChrgSecc_stop_def)

lemma makes_handsh: "tx_ok st \<Longrightarrow> kept st0 st \<Longrightarrow> makes st0 (ChrgSecc_handsh co st)"
  unfolding ChrgSecc_handsh_def Let_def by (auto intro!: makes_stop)

lemma makes_charging: "tx_ok st \<Longrightarrow> kept st0 st \<Longrightarrow> makes st0 (ChrgSecc_charging st)"
  unfolding ChrgSecc_charging_def Let_def by auto

lemma makes_ChrgSecc:
  assumes "tx_ok st" "kept st0 st"
  shows "makes st0 (ChrgSecc evcc co st)"
  unfolding ChrgSecc_def Let_def
  by (cases "SeccChrgStep st")
     (use assms in \<open>auto intro!: makes_stop makes_handsh makes_charging\<close>)

lemma makes_SeccSenario:
  assumes "tx_ok st"
  shows "makes st (SeccSenario evcc co st)"
proof -
  define s where "s = (if stcode (SeccRxData st) = CSM_STAT_NONE \<and> SeccInitStep st = SECC_INIT_STEP_DONE
                then fault_set SECC_STAT_STOP (fault_clear SECC_STAT_CHARG
                       (st\<lparr>reinitCnt := 0, SeccInitStep := SECC_INIT_STEP_NONE\<rparr>))
                else st\<lparr>reinitCnt := 0\<rparr>)"
  have k: "tx_ok s" "kept st s" using assms by (auto simp: s_def)
  have trans: "makes st r" if "makes s r" for r
    using that k(2) by (auto simp: makes_def kept_def)
  have charge: "makes st (Option.bind (ChrgSecc evcc co s) (\<lambda>(ret8, st). if ret8 \<noteq> 0 then Some (ret8, st) else ChckSeccStat st))"
  proof -
    obtain ret s1 out where r: "ChrgSecc evcc co s = Some (ret, s1)" "tx_ok s1" "kept st s1" "prepared ret s1 out"
      using makes_ChrgSecc [OF k, of evcc co] by (auto simp: makes_def)
    show ?thesis using r makes_reads(1) [OF r(2,3)] by (auto simp: makes_def)
  qed
  show ?thesis
    unfolding SeccSenario_def Let_def s_def [symmetric]
    using charge trans [OF makes_InitSecc [OF k(1)]] makes_reads(1) [of "s\<lparr>SeccChrgStep := SECC_CHRG_STEP_NONE\<rparr>" st] k
    by auto
qed

section \<open>The request task\<close>

text \<open>The requests that an action list writes.\<close>

definition written :: "secc_act list \<Rightarrow> bytes list" where
  "written acts = concat (map (\<lambda>a. case a of Secc_write b \<Rightarrow> [b] | Secc_power_cycle \<Rightarrow> []) acts)"

lemma secc_send_prepared: "prepared ret st out \<Longrightarrow> secc_send ret st = Some (map Secc_write out)"
  by (auto simp: prepared_def secc_send_def)

lemma ReqTask_choice_makes:
  assumes "tx_ok st"
  shows "\<exists>ret st' k' out. ReqTask_choice evcc co st k = Some ((ret, st'), k') \<and> tx_ok st' \<and> kept st st' \<and> prepared ret st' out"
proof -
  have m: "makes st r \<Longrightarrow> \<exists>ret st' k' out. Option.bind r (\<lambda>r. Some (r, j)) = Some ((ret, st'), k') \<and> tx_ok st' \<and> kept st st' \<and> prepared ret st' out"
    for r and j :: u8
    by (auto simp: makes_def)
  show ?thesis
    unfolding ReqTask_choice_def Let_def
    using m [OF makes_InitSecc [OF assms]] m [OF makes_reads(1) [OF assms kept_refl]] m [OF makes_ready [OF assms kept_refl]]
      m [OF makes_SeccSenario [OF assms, of evcc co]]
    by simp
qed

lemma ReqTask_send:
  assumes "PlcRespWaitCnt st = 0" "ReqTask_choice evcc co st k = Some ((ret, st1), k')" "prepared ret st1 out"
  shows "SeccRS232ReqTask evcc co (st, k) =
    (let st2 = (if ret \<noteq> 0 then st1\<lparr>PlcRespWaitCnt := 1\<rparr> else st1) in
     if rebootCnt st1 < 10 then Some ((st2, k'), map Secc_write out)
     else Some ((st2\<lparr>rebootCnt := 0, bPlcConn := False, SeccInitStep := SECC_INIT_STEP_NONE\<rparr>, k'),
                map Secc_write out @ [Secc_power_cycle]))"
  using assms(1,2) secc_send_prepared [OF assms(3)] by (simp add: SeccRS232ReqTask_def Let_def)

lemma written_map [simp]: "written (map Secc_write out) = out"
  by (induction out) (auto simp: written_def)

lemma written_append [simp]: "written (as @ bs) = written as @ written bs"
  by (simp add: written_def)

lemma written_simps [simp]: "written [] = []" "written [Secc_power_cycle] = []" "written [Secc_write b] = [b]"
  by (simp_all add: written_def)

lemma ReqTask_wait:
  assumes "PlcRespWaitCnt st \<noteq> 0"
  shows "SeccRS232ReqTask evcc co (st, k) = Some ((if PlcRespWaitCnt st + 1 > 10
      then st\<lparr>vasReadCd := 0, bPlcConn := False, rebootCnt := rebootCnt st + 1, PlcRespWaitCnt := 0\<rparr>
      else st\<lparr>PlcRespWaitCnt := PlcRespWaitCnt st + 1\<rparr>, k), [])"
  using assms by (simp add: SeccRS232ReqTask_def Let_def)

lemma prepared_fields:
  assumes "prepared ret st out" "SeccModbusReadTx st' = SeccModbusReadTx st" "SeccModbusWriteTx st' = SeccModbusWriteTx st"
  shows "prepared ret st' out"
  using assms by (auto simp: prepared_def secc_send_def)

text \<open>Every pass of the request task is defined. A pass that waits for a response writes nothing; any other pass
  writes at most one message, which is a Modbus read or write request with a correct CRC that the link remembers as
  the outstanding one, and starts the wait for its response.\<close>

theorem secc_requests_framed:
  assumes "length (wData16 (SeccModbusWriteTx st)) = 127"
  shows "\<exists>st' k' acts. SeccRS232ReqTask evcc co (st, k) = Some ((st', k'), acts) \<and>
     length (wData16 (SeccModbusWriteTx st')) = 127 \<and> (PlcRespWaitCnt st \<noteq> 0 \<longrightarrow> acts = []) \<and>
     (written acts = [] \<or> (PlcRespWaitCnt st' = 1 \<and>
       ((\<exists>a n. written acts = [read_request a n] \<and> rFuncCode (SeccModbusReadTx st') = FC_READ \<and>
          rReqAddr (SeccModbusReadTx st') = Led2Bed16 a \<and> rReqAddrLen (SeccModbusReadTx st') = Led2Bed16 n) \<or>
        (\<exists>a vs. written acts = [write_request a vs] \<and> length vs \<le> 4 \<and> wFuncCode (SeccModbusWriteTx st') = FC_WRITE \<and>
          wReqAddr (SeccModbusWriteTx st') = Led2Bed16 a \<and>
          wReqAddrLen (SeccModbusWriteTx st') = Led2Bed16 (w16 (length vs))))))"
proof (cases "PlcRespWaitCnt st = 0")
  case True
  obtain ret st1 k1 out where c: "ReqTask_choice evcc co st k = Some ((ret, st1), k1)" "tx_ok st1" "kept st st1"
      "prepared ret st1 out"
    using ReqTask_choice_makes [of st evcc co k] assms by (auto simp: tx_ok_def)
  define st2 where "st2 = (if ret \<noteq> 0 then st1\<lparr>PlcRespWaitCnt := 1\<rparr> else st1)"
  define st3 where "st3 = (if rebootCnt st1 < 10 then st2
      else st2\<lparr>rebootCnt := 0, bPlcConn := False, SeccInitStep := SECC_INIT_STEP_NONE\<rparr>)"
  obtain acts where r: "SeccRS232ReqTask evcc co (st, k) = Some ((st3, k1), acts)" "written acts = out"
  proof
    let ?acts = "map Secc_write out @ (if rebootCnt st1 < 10 then [] else [Secc_power_cycle])"
    show "SeccRS232ReqTask evcc co (st, k) = Some ((st3, k1), ?acts)"
      unfolding ReqTask_send [OF True c(1,4)] Let_def st2_def [symmetric] st3_def by simp
    show "written ?acts = out" by simp
  qed
  have f: "SeccModbusReadTx st3 = SeccModbusReadTx st1" "SeccModbusWriteTx st3 = SeccModbusWriteTx st1"
    by (simp_all add: st3_def st2_def)
  have w: "ret \<noteq> 0 \<Longrightarrow> PlcRespWaitCnt st3 = 1" by (simp add: st3_def st2_def)
  have "length (wData16 (SeccModbusWriteTx st3)) = 127" using c(2) by (simp add: tx_ok_def f)
  moreover have "out = [] \<or> ret \<noteq> 0" using c(4) by (auto simp: prepared_def)
  ultimately show ?thesis using True r w c(4) unfolding prepared_def f [symmetric] by auto
next
  case False
  then show ?thesis using ReqTask_wait [OF False, of evcc co k] assms by auto
qed

theorem secc_requests_framed_witness:
  "\<exists>st' acts. SeccRS232ReqTask False False (start_secc, 0) = Some (st', acts) \<and> length (written acts) \<le> 1"
proof -
  obtain st' k' acts where "SeccRS232ReqTask False False (start_secc, 0) = Some ((st', k'), acts)"
      "written acts = [] \<or> (\<exists>b. written acts = [b])"
    using secc_requests_framed [of start_secc False False 0] by auto
  then show ?thesis by auto
qed

section \<open>The timeout\<close>

text \<open>\<open>n\<close> passes of the request task without any reception, with everything they do.\<close>

primrec req_passes :: "bool \<Rightarrow> bool \<Rightarrow> nat \<Rightarrow> secc \<times> u8 \<Rightarrow> ((secc \<times> u8) \<times> secc_act list) option" where
  "req_passes evcc co 0 s = Some (s, [])"
| "req_passes evcc co (Suc n) s = do {
     (s, acts) \<leftarrow> SeccRS232ReqTask evcc co s;
     (s, more) \<leftarrow> req_passes evcc co n s;
     Some (s, acts @ more)
   }"

lemma req_passes_wait:
  assumes "PlcRespWaitCnt st = w16 (11 - Suc n)" "n < 10"
  shows "req_passes evcc co (Suc n) (st, k) =
    Some ((st\<lparr>vasReadCd := 0, bPlcConn := False, rebootCnt := rebootCnt st + 1, PlcRespWaitCnt := 0\<rparr>, k), [])"
  using assms
proof (induction n arbitrary: st)
  case 0
  then have w: "PlcRespWaitCnt st = 10" by (simp add: w16_def)
  then show ?case using ReqTask_wait [of st evcc co k] by simp
next
  case (Suc n)
  have u: "unat (PlcRespWaitCnt st) = 11 - Suc (Suc n)" using Suc.prems by (simp add: unat_w16)
  have nz: "PlcRespWaitCnt st \<noteq> 0" using u Suc.prems(2) by auto
  have p: "PlcRespWaitCnt st + 1 = w16 (11 - Suc n)"
    using Suc.prems by (simp add: w16_def of_nat_diff)
  have "unat (w16 (11 - Suc n)) \<le> 10" by (simp add: unat_w16)
  then have "\<not> PlcRespWaitCnt st + 1 > 10" unfolding p by (simp add: word_less_nat_alt)
  then have r: "SeccRS232ReqTask evcc co (st, k) = Some ((st\<lparr>PlcRespWaitCnt := PlcRespWaitCnt st + 1\<rparr>, k), [])"
    using ReqTask_wait [OF nz, of evcc co k] by simp
  have "req_passes evcc co (Suc n) (st\<lparr>PlcRespWaitCnt := PlcRespWaitCnt st + 1\<rparr>, k) =
    Some ((st\<lparr>vasReadCd := 0, bPlcConn := False, rebootCnt := rebootCnt st + 1, PlcRespWaitCnt := 0\<rparr>, k), [])"
    using Suc.IH [of "st\<lparr>PlcRespWaitCnt := PlcRespWaitCnt st + 1\<rparr>"] Suc.prems(2) p by simp
  then show ?case unfolding req_passes.simps(2) [of evcc co "Suc n"] r by simp
qed

text \<open>C29. A request that is not answered is given up after ten further passes, in which nothing is written: the
  link counts as lost, the collection of vehicle data is abandoned and the failure is counted. When ten requests in
  a row have failed, the next pass ends with a power cycle of the modem and the start-up begins anew.\<close>

theorem secc_timeout:
  assumes "PlcRespWaitCnt st = 1" "length (wData16 (SeccModbusWriteTx st)) = 127"
  shows "\<exists>lost. req_passes evcc co 10 (st, k) = Some ((lost, k), []) \<and>
     lost = st\<lparr>vasReadCd := 0, bPlcConn := False, rebootCnt := rebootCnt st + 1, PlcRespWaitCnt := 0\<rparr> \<and>
     (10 \<le> rebootCnt lost \<longrightarrow> (\<exists>st' k' acts. SeccRS232ReqTask evcc co (lost, k) = Some ((st', k'), acts) \<and>
        last acts = Secc_power_cycle \<and> rebootCnt st' = 0 \<and> \<not> Secc_IsReady st' \<and>
        SeccInitStep st' = SECC_INIT_STEP_NONE))"
proof -
  let ?lost = "st\<lparr>vasReadCd := 0, bPlcConn := False, rebootCnt := rebootCnt st + 1, PlcRespWaitCnt := 0\<rparr>"
  have "req_passes evcc co (Suc 9) (st, k) = Some ((?lost, k), [])"
    by (rule req_passes_wait) (use assms(1) in \<open>simp_all add: w16_def\<close>)
  then have "req_passes evcc co 10 (st, k) = Some ((?lost, k), [])" by (simp only: Suc_numeral) simp
  moreover have "\<exists>st' k' acts. SeccRS232ReqTask evcc co (?lost, k) = Some ((st', k'), acts) \<and>
        last acts = Secc_power_cycle \<and> rebootCnt st' = 0 \<and> \<not> Secc_IsReady st' \<and> SeccInitStep st' = SECC_INIT_STEP_NONE"
    if b: "10 \<le> rebootCnt ?lost"
  proof -
    obtain ret st1 k1 out where c: "ReqTask_choice evcc co ?lost k = Some ((ret, st1), k1)" "kept ?lost st1"
        "prepared ret st1 out"
      using ReqTask_choice_makes [of ?lost evcc co k] assms(2) by (auto simp: tx_ok_def)
    have "\<not> rebootCnt st1 < 10" using b c(2) by (simp add: kept_def)
    then show ?thesis using ReqTask_send [OF _ c(1,3)] by (simp add: Let_def Secc_IsReady_def)
  qed
  ultimately show ?thesis by blast
qed

theorem secc_timeout_witness:
  "\<exists>lost. req_passes False False 10 (start_secc\<lparr>PlcRespWaitCnt := 1, rebootCnt := 9\<rparr>, 0) = Some ((lost, 0), []) \<and>
     (\<exists>st' acts. SeccRS232ReqTask False False (lost, 0) = Some (st', acts) \<and> last acts = Secc_power_cycle)"
proof -
  let ?st = "start_secc\<lparr>PlcRespWaitCnt := 1, rebootCnt := 9\<rparr>"
  obtain lost where "req_passes False False 10 (?st, 0) = Some ((lost, 0), [])"
      "lost = ?st\<lparr>vasReadCd := 0, bPlcConn := False, rebootCnt := rebootCnt ?st + 1, PlcRespWaitCnt := 0\<rparr>"
      "10 \<le> rebootCnt lost \<Longrightarrow> \<exists>st' k' acts. SeccRS232ReqTask False False (lost, 0) = Some ((st', k'), acts) \<and>
         last acts = Secc_power_cycle"
    using secc_timeout [of ?st False False 0] by auto
  moreover from this have "10 \<le> rebootCnt lost" by simp
  ultimately show ?thesis by blast
qed

section \<open>Start-up against a modem that answers\<close>

text \<open>The response of a modem whose register \<open>a\<close> holds \<open>R a\<close>, and one pass of the request task followed by the
  reception of that response.\<close>

definition modem_reply :: "(u16 \<Rightarrow> u16) \<Rightarrow> bytes \<Rightarrow> bytes" where
  "modem_reply R b = (let a = le16 (b ! 3) (b ! 2); n = le16 (b ! 5) (b ! 4) in
     if b ! 1 = FC_READ then read_response (map (\<lambda>i. R (a + w16 i)) [0 ..< unat n]) else write_response a n)"

definition exchange :: "(u16 \<Rightarrow> u16) \<Rightarrow> bool \<Rightarrow> bool \<Rightarrow> secc \<times> u8 \<Rightarrow> (secc \<times> u8) option" where
  "exchange R evcc co s = do {
     ((st, k), acts) \<leftarrow> SeccRS232ReqTask evcc co s;
     st \<leftarrow> SeccRS232ReadTask (Some (concat (map (modem_reply R) (written acts)))) st;
     Some (st, k)
   }"

primrec exchanges :: "(u16 \<Rightarrow> u16) \<Rightarrow> bool \<Rightarrow> bool \<Rightarrow> nat \<Rightarrow> secc \<times> u8 \<Rightarrow> (secc \<times> u8) option" where
  "exchanges R evcc co 0 s = Some s"
| "exchanges R evcc co (Suc n) s = Option.bind (exchange R evcc co s) (exchanges R evcc co n)"

lemma modem_reply_read [simp]: "modem_reply R (read_request a n) = read_response (map (\<lambda>i. R (a + w16 i)) [0 ..< unat n])"
  by (simp add: modem_reply_def read_request_def mb_frame_def be_bytes_def)

lemma modem_reply_write [simp]: "modem_reply R (write_request a vs) = write_response a (w16 (length vs))"
  by (simp add: modem_reply_def write_request_def mb_frame_def be_bytes_def)

text \<open>The state in which the link is ready for the next request.\<close>

definition idle :: "secc \<Rightarrow> bool" where
  "idle st \<longleftrightarrow> tx_ok st \<and> PlcRespWaitCnt st = 0 \<and> seccContinSize st = 0 \<and> rebootCnt st < 10"

text \<open>The effect of an exchange on the fields that the start-up reads, by the kind of request.\<close>

definition same_flow :: "secc \<Rightarrow> secc \<Rightarrow> bool" where
  "same_flow st st' \<longleftrightarrow> SeccInitStep st' = SeccInitStep st \<and> bPlcConn st' = bPlcConn st"

lemma exchange_none:
  assumes "idle st" "SeccInitStep st \<noteq> SECC_INIT_STEP_DONE" "InitSecc st = Some (0, st1)" "idle st1"
  shows "exchange R evcc co (st, k) = Some (st1, k)"
proof -
  have "ReqTask_choice evcc co st k = Some ((0, st1), k)" using assms(2,3) by (simp add: ReqTask_choice_def)
  moreover have "prepared 0 st1 []" by (simp add: prepared_def)
  ultimately show ?thesis
    using ReqTask_send [of st evcc co k 0 st1 k "[]"] assms(1,4)
    by (simp add: idle_def exchange_def Let_def SeccRS232ReadTask_def)
qed

lemma exchange_read:
  assumes "idle st" "SeccInitStep st \<noteq> SECC_INIT_STEP_DONE" "InitSecc st = MakeReadTx a n st1" "idle st1"
    and p: "(unat a, unat n) \<in> set polled" "a \<noteq> 30061"
  shows "\<exists>st'. exchange R evcc co (st, k) = Some (st', k) \<and> idle st' \<and> same_flow st1 st' \<and>
     SendChkFlg st' = SendChkFlg st1 \<and>
     (a = 30001 \<longrightarrow> ready (SeccRxData st') = R 30001) \<and>
     (a = 30002 \<longrightarrow> stcode (SeccRxData st') = R 30002 \<and> secc_errcode (SeccRxData st') = R 30003) \<and>
     (a = 32002 \<longrightarrow> vasEnable (SeccRxData st') = R 32002)"
proof -
  obtain st2 where m: "MakeReadTx a n st1 = Some (1, st2)" "read_tx_mem (SeccModbusReadTx st2) = read_request a n"
      "rFuncCode (SeccModbusReadTx st2) = FC_READ" "rReqAddr (SeccModbusReadTx st2) = Led2Bed16 a"
      "rReqAddrLen (SeccModbusReadTx st2) = Led2Bed16 n" and s: "st2 = st1\<lparr>SeccModbusReadTx := SeccModbusReadTx st2\<rparr>"
    using MakeReadTx_frame [of a n st1] by blast
  let ?vs = "map (\<lambda>i. R (a + w16 i)) [0 ..< unat n]" and ?st3 = "st2\<lparr>PlcRespWaitCnt := 1\<rparr>"
  have c: "ReqTask_choice evcc co st k = Some ((1, st2), k)" using assms(2,3) m(1) by (simp add: ReqTask_choice_def)
  have pr: "prepared 1 st2 [read_request a n]" using m by (auto simp: prepared_def)
  have i2: "tx_ok st2" "seccContinSize st2 = 0" "rebootCnt st2 < 10" "SeccInitStep st2 = SeccInitStep st1"
      "bPlcConn st2 = bPlcConn st1" "SendChkFlg st2 = SendChkFlg st1"
    using assms(4) by (subst s, simp add: idle_def tx_ok_def)+
  have r: "SeccRS232ReqTask evcc co (st, k) = Some ((?st3, k), [Secc_write (read_request a n)])"
    using ReqTask_send [OF _ c pr] assms(1) i2(3) by (simp add: idle_def Let_def)
  have t: "SeccRS232ReadTask (Some (read_response ?vs)) ?st3 =
     Some (if a = 30061 then rx_state ?vs ?st3 else set_regs (zip [unat a ..< unat a + length ?vs] ?vs) (rx_state ?vs ?st3))"
    by (rule ReadTask_polled) (use p m i2 in simp_all)
  let ?st4 = "set_regs (zip [unat a ..< unat a + length ?vs] ?vs) (rx_state ?vs ?st3)"
  have e: "exchange R evcc co (st, k) = Some (?st4, k)"
    using r t p(2) by (simp add: exchange_def)
  note st4 = set_regs_polled [of a ?vs "rx_state ?vs ?st3", OF _ p(2), simplified length_map length_upt diff_zero, OF p(1)]
  have "idle ?st4" "same_flow st1 ?st4" "SendChkFlg ?st4 = SendChkFlg st1"
    unfolding length_map length_upt diff_zero st4 using i2
    by (simp_all add: idle_def same_flow_def tx_ok_def rx_state_def)
  moreover from p(1) have "(a = 30001 \<longrightarrow> ready (SeccRxData ?st4) = R 30001) \<and>
     (a = 30002 \<longrightarrow> stcode (SeccRxData ?st4) = R 30002 \<and> secc_errcode (SeccRxData ?st4) = R 30003) \<and>
     (a = 32002 \<longrightarrow> vasEnable (SeccRxData ?st4) = R 32002)"
    unfolding length_map length_upt diff_zero st4
    by (cases rule: polledE) (simp_all add: rx_state_def Let_def w16_def)
  ultimately show ?thesis using e by blast
qed

lemma exchange_write:
  assumes "idle st" "SeccInitStep st \<noteq> SECC_INIT_STEP_DONE" "InitSecc st = r" "makes st r"
    and "r = Some (2, st1)"
  shows "\<exists>st'. exchange R evcc co (st, k) = Some (st', k) \<and> idle st' \<and> same_flow st1 st' \<and>
     SeccRxData st' = SeccRxData st \<and> \<not> SendChkFlg st'"
proof -
  obtain out where o: "tx_ok st1" "kept st st1" "prepared 2 st1 out" using assms(4,5) by (auto simp: makes_def)
  then obtain a vs where w: "out = [write_request a vs]" "wFuncCode (SeccModbusWriteTx st1) = FC_WRITE"
      "wReqAddr (SeccModbusWriteTx st1) = Led2Bed16 a" "wReqAddrLen (SeccModbusWriteTx st1) = Led2Bed16 (w16 (length vs))"
    by (auto simp: prepared_def)
  have c: "ReqTask_choice evcc co st k = Some ((2, st1), k)" using assms(2,3,5) by (simp add: ReqTask_choice_def)
  have k: "PlcRespWaitCnt st = 0" "rebootCnt st1 < 10" "seccContinSize st1 = 0" "SeccRxData st1 = SeccRxData st"
    using assms(1) o(2) by (simp_all add: idle_def kept_def)
  let ?st2 = "st1\<lparr>PlcRespWaitCnt := 1\<rparr>"
  have r: "SeccRS232ReqTask evcc co (st, k) = Some ((?st2, k), [Secc_write (write_request a vs)])"
    using ReqTask_send [OF k(1) c o(3)] k(2) by (simp add: Let_def w(1))
  have f: "fits_write a (w16 (length vs)) ?st2" "seccContinSize ?st2 = 0" using w k(3) by (simp_all add: fits_write_def)
  have "exchange R evcc co (st, k) = Some (?st2\<lparr>secc_pars_buf := pad512 (write_response a (w16 (length vs))),
      rebootCnt := 0, PlcRespWaitCnt := 0, SendChkFlg := False\<rparr>, k)"
    using ReadTask_write [OF f(2,1)] by (simp add: exchange_def r)
  then show ?thesis using o(1) k by (auto simp: idle_def same_flow_def tx_ok_def)
qed

end
