(* ===== verification/Secc_Live.thy ===== *)
theory Secc_Live
  imports Secc_Run
begin

text \<open>
  The start-up of the PLC modem link ends: a measure on the state falls with every exchange.
\<close>

section \<open>Write requests leave the step alone\<close>

lemma MakeWriteTx_flow: "MakeWriteTx a n st = Some (ret, st1) \<Longrightarrow> ret = 2 \<and> same_flow st st1"
  by (auto simp: MakeWriteTx_def Let_def Option.bind_eq_Some_conv same_flow_def)

lemma set_wdata_flow: "set_wdata i v st = Some st1 \<Longrightarrow> same_flow st st1"
  by (auto simp: set_wdata_def Option.bind_eq_Some_conv same_flow_def)

lemma same_flow_trans: "same_flow a b \<Longrightarrow> same_flow b c \<Longrightarrow> same_flow a c"
  by (simp add: same_flow_def)

lemma write_1_flow: "Option.bind (set_wdata 0 v st) (MakeWriteTx a 1) = Some (ret, st1) \<Longrightarrow> ret = 2 \<and> same_flow st st1"
  by (auto simp: Option.bind_eq_Some_conv dest!: MakeWriteTx_flow set_wdata_flow intro: same_flow_trans)

lemma ready_flow: "SendChrgReady st = Some (ret, st1) \<Longrightarrow> ret = 2 \<and> same_flow st st1"
  unfolding SendChrgReady_def by (rule write_1_flow)

lemma prm_flow: "SendChrgPrm st = Some (ret, st1) \<Longrightarrow> ret = 2 \<and> same_flow st st1"
  unfolding SendChrgPrm_def
  by (auto simp: Option.bind_eq_Some_conv dest!: MakeWriteTx_flow set_wdata_flow) (simp add: same_flow_def)

text \<open>A step that sends until its acknowledgement arrives needs two exchanges.\<close>

lemma exchange_send:
  assumes "idle st" "SeccInitStep st \<noteq> SECC_INIT_STEP_DONE" "InitSecc st = InitSecc_step send nxt again st"
    and m: "makes st (send st)" and f: "\<And>ret st1. send st = Some (ret, st1) \<Longrightarrow> ret = 2 \<and> same_flow st st1"
    and "SendChkFlg st"
  shows "\<exists>st'. exchange R evcc co (st, k) = Some (st', k) \<and> idle st' \<and> same_flow st st' \<and>
     SeccRxData st' = SeccRxData st \<and> \<not> SendChkFlg st'"
proof -
  obtain ret st1 where s: "send st = Some (ret, st1)" using m by (auto simp: makes_def)
  then have r: "send st = Some (2, st1)" "same_flow st st1" using f by auto
  have i: "InitSecc st = send st" using assms(3,6) by (simp add: InitSecc_step_def)
  show ?thesis
    using exchange_write [OF assms(1,2) i m r(1), of R evcc co k] r(2) same_flow_trans by blast
qed

lemma exchange_ack:
  assumes "idle st" "SeccInitStep st \<noteq> SECC_INIT_STEP_DONE" "InitSecc st = InitSecc_step send nxt again st"
    and "\<not> SendChkFlg st"
  shows "\<exists>st'. exchange R evcc co (st, k) = Some (st', k) \<and> idle st' \<and> SeccInitStep st' = nxt \<and>
     bPlcConn st' = bPlcConn st \<and> SeccRxData st' = SeccRxData st"
proof -
  let ?st' = "st\<lparr>SeccInitStep := nxt, SendChkFlg := (if again then True else SendChkFlg st)\<rparr>"
  have "InitSecc st = Some (0, ?st')" using assms(3,4) by (simp add: InitSecc_step_def)
  moreover have "idle ?st'" using assms(1) by (simp add: idle_def tx_ok_def)
  ultimately show ?thesis using exchange_none [OF assms(1,2)] by auto
qed

section \<open>The measure\<close>

definition starting :: "secc \<Rightarrow> bool" where
  "starting st \<longleftrightarrow> SeccInitStep st \<notin>
     {SECC_INIT_STEP_CSMSTAT, SECC_INIT_STEP_CSMERR, SECC_INIT_STEP_PWMDUTY, SECC_INIT_STEP_PWMVOLT, SECC_INIT_STEP_DONE}"

definition init_rank :: "secc \<Rightarrow> nat" where
  "init_rank st = (case SeccInitStep st of
     SECC_INIT_STEP_NONE \<Rightarrow> (if ready (SeccRxData st) = 0 then 16 else 15)
   | SECC_INIT_STEP_CSMR \<Rightarrow> (if SendChkFlg st then 14 else 13)
   | SECC_INIT_STEP_EVSER \<Rightarrow> (if SendChkFlg st then 12 else 11)
   | SECC_INIT_STEP_CHRGPRM \<Rightarrow> (if SendChkFlg st then 10 else 9)
   | SECC_INIT_STEP_CHRGTYPE \<Rightarrow> (if SendChkFlg st then 8 else 7)
   | SECC_INIT_STEP_PAYOPT \<Rightarrow> (if SendChkFlg st then 8 else 7)
   | SECC_INIT_STEP_INIT \<Rightarrow>
       (if stcode (SeccRxData st) = 0 \<or> secc_errcode (SeccRxData st) \<noteq> 0 then 6 else 5)
   | SECC_INIT_STEP_VASREQ \<Rightarrow> (if SendChkFlg st then 4 else 3)
   | SECC_INIT_STEP_VASREADREQ \<Rightarrow> 2
   | SECC_INIT_STEP_VASCHK \<Rightarrow> (if vasEnable (SeccRxData st) = 0 then 5 else 1)
   | _ \<Rightarrow> 0)"

text \<open>What an exchange achieves: either the start-up is still going on, or the link is up.\<close>

definition advanced :: "secc \<Rightarrow> secc \<Rightarrow> bool" where
  "advanced st st' \<longleftrightarrow> idle st' \<and> init_rank st' < init_rank st \<and>
     (starting st' \<or> SeccInitStep st' = SECC_INIT_STEP_DONE \<and> bPlcConn st')"

lemma advance_send:
  assumes "idle st" "starting st" "InitSecc st = InitSecc_step send nxt again st"
    and "makes st (send st)" "\<And>ret st1. send st = Some (ret, st1) \<Longrightarrow> ret = 2 \<and> same_flow st st1"
    and "SeccInitStep st \<in> {SECC_INIT_STEP_CSMR, SECC_INIT_STEP_EVSER, SECC_INIT_STEP_CHRGPRM, SECC_INIT_STEP_CHRGTYPE,
       SECC_INIT_STEP_PAYOPT, SECC_INIT_STEP_VASREQ}"
    and n: "\<And>st'. SeccInitStep st' = nxt \<Longrightarrow> starting st' \<and> init_rank st' < init_rank (st\<lparr>SendChkFlg := False\<rparr>)"
  shows "\<exists>st'. exchange R evcc co (st, k) = Some (st', k) \<and> advanced st st'"
proof -
  have d: "SeccInitStep st \<noteq> SECC_INIT_STEP_DONE" using assms(2) by (auto simp: starting_def)
  show ?thesis
  proof (cases "SendChkFlg st")
    case True
    obtain st' where s: "exchange R evcc co (st, k) = Some (st', k)" "idle st'" "same_flow st st'" "\<not> SendChkFlg st'"
      using exchange_send [OF assms(1) d assms(3-5) True, of R evcc co k] by blast
    have e: "SeccInitStep st' = SeccInitStep st" using s(3) by (simp add: same_flow_def)
    have "starting st'" using assms(2) by (simp add: starting_def e)
    moreover from assms(6) have "init_rank st' < init_rank st"
      unfolding insert_iff empty_iff
      by (elim disjE FalseE) (simp_all add: init_rank_def e s(4) True)
    ultimately show ?thesis using s(1,2) by (auto simp: advanced_def)
  next
    case False
    obtain st' where s: "exchange R evcc co (st, k) = Some (st', k)" "idle st'" "SeccInitStep st' = nxt"
      using exchange_ack [OF assms(1) d assms(3) False, of R evcc co k] by blast
    have "init_rank (st\<lparr>SendChkFlg := False\<rparr>) = init_rank st" using False by (simp add: init_rank_def)
    then show ?thesis using s n [OF s(3)] by (auto simp: advanced_def)
  qed
qed

lemma advance:
  assumes i: "idle st" and s: "starting st"
    and R: "R 30001 \<noteq> 0" "R 30002 \<noteq> 0" "R 30003 = 0" "R 32002 \<noteq> 0"
  shows "\<exists>st'. exchange R evcc co (st, k) = Some (st', k) \<and> advanced st st'"
proof -
  have tx: "tx_ok st" using i by (simp add: idle_def)
  have d: "SeccInitStep st \<noteq> SECC_INIT_STEP_DONE" using s by (auto simp: starting_def)
  have idle_up: "idle (st\<lparr>SeccInitStep := a\<rparr>)" "idle (st\<lparr>SendChkFlg := b\<rparr>)" "idle (st\<lparr>SeccInitStep := a, SendChkFlg := b\<rparr>)"
    "idle (st\<lparr>SendChkFlg := b, SeccInitStep := a\<rparr>)" "idle (st\<lparr>bPlcConn := b, SeccInitStep := a\<rparr>)" for a b
    using i by (simp_all add: idle_def)
  note none = exchange_none [OF i d]
  show ?thesis
  proof (cases "SeccInitStep st")
    case SECC_INIT_STEP_NONE
    show ?thesis
    proof (cases "ready (SeccRxData st) = 0")
      case True
      then have "InitSecc st = MakeReadTx 30001 1 st" by (simp add: InitSecc_def SECC_INIT_STEP_NONE)
      then obtain st' where "exchange R evcc co (st, k) = Some (st', k)" "idle st'" "same_flow st st'"
          "ready (SeccRxData st') = R 30001"
        using exchange_read [OF i d _ i, of 30001 1 R evcc co k] by (auto simp: polled_def)
      then show ?thesis
        using SECC_INIT_STEP_NONE True R by (auto simp: advanced_def same_flow_def starting_def init_rank_def)
    next
      case False
      then have "InitSecc st = Some (0, st\<lparr>SeccInitStep := SECC_INIT_STEP_CSMR, SendChkFlg := True\<rparr>)"
        by (simp add: InitSecc_def SECC_INIT_STEP_NONE)
      from none [OF this idle_up(3)] show ?thesis
        using SECC_INIT_STEP_NONE False idle_up by (auto simp: advanced_def starting_def init_rank_def)
    qed
  next
    case SECC_INIT_STEP_CSMR
    show ?thesis
      by (rule advance_send [OF i s, of SendChrgReady SECC_INIT_STEP_EVSER True])
         (use SECC_INIT_STEP_CSMR tx in \<open>auto simp: InitSecc_def starting_def init_rank_def dest: ready_flow\<close>)
  next
    case SECC_INIT_STEP_EVSER
    show ?thesis
      by (rule advance_send [OF i s, of SendChrgPrm SECC_INIT_STEP_CHRGPRM True])
         (use SECC_INIT_STEP_EVSER tx in \<open>auto simp: InitSecc_def starting_def init_rank_def dest: prm_flow\<close>)
  next
    case SECC_INIT_STEP_CHRGPRM
    show ?thesis
      by (rule advance_send [OF i s, of "\<lambda>st. Option.bind (set_wdata 0 192 st) (MakeWriteTx 40006 1)" SECC_INIT_STEP_CHRGTYPE True])
         (use SECC_INIT_STEP_CHRGPRM tx in \<open>auto simp: InitSecc_def starting_def init_rank_def dest: write_1_flow\<close>)
  next
    case SECC_INIT_STEP_CHRGTYPE
    show ?thesis
      by (rule advance_send [OF i s, of "\<lambda>st. Option.bind (set_wdata 0 (payment (SeccTxData st)) st) (MakeWriteTx 40007 1)" SECC_INIT_STEP_INIT False])
         (use SECC_INIT_STEP_CHRGTYPE tx in \<open>auto simp: InitSecc_def starting_def init_rank_def dest: write_1_flow\<close>)
  next
    case SECC_INIT_STEP_PAYOPT
    show ?thesis
      by (rule advance_send [OF i s, of SendChrgReady SECC_INIT_STEP_INIT False])
         (use SECC_INIT_STEP_PAYOPT tx in \<open>auto simp: InitSecc_def starting_def init_rank_def dest: ready_flow\<close>)
  next
    case SECC_INIT_STEP_INIT
    show ?thesis
    proof (cases "stcode (SeccRxData st) = 0 \<or> secc_errcode (SeccRxData st) \<noteq> 0")
      case True
      then have "InitSecc st = MakeReadTx 30002 6 st" by (simp add: InitSecc_def SECC_INIT_STEP_INIT)
      then obtain st' where "exchange R evcc co (st, k) = Some (st', k)" "idle st'" "same_flow st st'"
          "stcode (SeccRxData st') = R 30002" "secc_errcode (SeccRxData st') = R 30003"
        using exchange_read [OF i d _ i, of 30002 6 R evcc co k] by (auto simp: polled_def)
      then show ?thesis
        using SECC_INIT_STEP_INIT True R by (auto simp: advanced_def same_flow_def starting_def init_rank_def)
    next
      case False
      then have "InitSecc st = Some (0, st\<lparr>SendChkFlg := True, SeccInitStep := SECC_INIT_STEP_VASREQ\<rparr>)"
        by (simp add: InitSecc_def SECC_INIT_STEP_INIT)
      from none [OF this idle_up(4)] show ?thesis
        using SECC_INIT_STEP_INIT False idle_up by (auto simp: advanced_def starting_def init_rank_def)
    qed
  next
    case SECC_INIT_STEP_VASREQ
    show ?thesis
      by (rule advance_send [OF i s, of "\<lambda>st. Option.bind (set_wdata 0 1 st) (MakeWriteTx 40009 1)" SECC_INIT_STEP_VASREADREQ False])
         (use SECC_INIT_STEP_VASREQ tx in \<open>auto simp: InitSecc_def starting_def init_rank_def dest: write_1_flow\<close>)
  next
    case SECC_INIT_STEP_VASREADREQ
    let ?st1 = "st\<lparr>SeccInitStep := SECC_INIT_STEP_VASCHK\<rparr>"
    have "InitSecc st = MakeReadTx 32002 1 ?st1" by (simp add: InitSecc_def SECC_INIT_STEP_VASREADREQ)
    then obtain st' where "exchange R evcc co (st, k) = Some (st', k)" "idle st'" "same_flow ?st1 st'"
        "vasEnable (SeccRxData st') = R 32002"
      using exchange_read [OF i d _ idle_up(1), of 32002 1 SECC_INIT_STEP_VASCHK R evcc co k] by (auto simp: polled_def)
    then show ?thesis
      using SECC_INIT_STEP_VASREADREQ R by (auto simp: advanced_def same_flow_def starting_def init_rank_def)
  next
    case SECC_INIT_STEP_VASCHK
    show ?thesis
    proof (cases "vasEnable (SeccRxData st) = 0")
      case True
      then have "InitSecc st = Some (0, st\<lparr>SeccInitStep := SECC_INIT_STEP_VASREQ\<rparr>)"
        by (simp add: InitSecc_def SECC_INIT_STEP_VASCHK)
      from none [OF this idle_up(1)] show ?thesis
        using SECC_INIT_STEP_VASCHK True idle_up by (auto simp: advanced_def starting_def init_rank_def)
    next
      case False
      then have "InitSecc st = Some (0, st\<lparr>bPlcConn := True, SeccInitStep := SECC_INIT_STEP_DONE\<rparr>)"
        by (simp add: InitSecc_def SECC_INIT_STEP_VASCHK)
      from none [OF this idle_up(5)] show ?thesis
        using SECC_INIT_STEP_VASCHK False idle_up by (auto simp: advanced_def starting_def init_rank_def)
    qed
  qed (use s in \<open>simp_all add: starting_def\<close>)
qed

lemma start_up:
  assumes "idle st" "starting st" "R 30001 \<noteq> 0" "R 30002 \<noteq> 0" "R 30003 = 0" "R 32002 \<noteq> 0"
  shows "\<exists>n \<le> init_rank st. \<exists>st'. exchanges R evcc co n (st, k) = Some (st', k) \<and>
     SeccInitStep st' = SECC_INIT_STEP_DONE \<and> bPlcConn st'"
  using assms(1,2)
proof (induction "init_rank st" arbitrary: st rule: less_induct)
  case less
  obtain st1 where s: "exchange R evcc co (st, k) = Some (st1, k)" "advanced st st1"
    using advance [OF less.prems assms(3-6)] by blast
  show ?case
  proof (cases "starting st1")
    case True
    obtain n st' where "n \<le> init_rank st1" "exchanges R evcc co n (st1, k) = Some (st', k)"
        "SeccInitStep st' = SECC_INIT_STEP_DONE" "bPlcConn st'"
      using less.hyps [of st1] s(2) True by (auto simp: advanced_def)
    moreover from this have "Suc n \<le> init_rank st" using s(2) by (simp add: advanced_def)
    ultimately show ?thesis using s(1) by (intro exI [of _ "Suc n"]) simp
  next
    case False
    then have "exchanges R evcc co 1 (st, k) = Some (st1, k)" "1 \<le> init_rank st"
      using s by (simp_all add: advanced_def)
    then show ?thesis using s(2) False unfolding advanced_def by blast
  qed
qed

text \<open>C27. The start-up ends: against a modem that answers every request, reports ready, a state, no error and the
  vehicle data service, the link is up after at most 16 exchanges, from wherever the sequence stands.\<close>

theorem secc_start_up_ends:
  assumes "length (wData16 (SeccModbusWriteTx st)) = 127" "PlcRespWaitCnt st = 0" "seccContinSize st = 0"
    and "rebootCnt st < 10"
    and "SeccInitStep st \<notin> {SECC_INIT_STEP_CSMSTAT, SECC_INIT_STEP_CSMERR, SECC_INIT_STEP_PWMDUTY,
           SECC_INIT_STEP_PWMVOLT, SECC_INIT_STEP_DONE}"
    and "R 30001 \<noteq> 0" "R 30002 \<noteq> 0" "R 30003 = 0" "R 32002 \<noteq> 0"
  shows "\<exists>n \<le> 16. \<exists>st'. exchanges R evcc co n (st, k) = Some (st', k) \<and>
     SeccInitStep st' = SECC_INIT_STEP_DONE \<and> Secc_IsReady st'"
proof -
  have "idle st" "starting st" using assms(1-5) by (simp_all add: idle_def tx_ok_def starting_def)
  moreover have "init_rank st \<le> 16" by (simp add: init_rank_def split: SECC_INIT_STEP.split)
  ultimately show ?thesis
    using start_up [of st R evcc co k] assms(6-9) unfolding Secc_IsReady_def by (meson le_trans)
qed

theorem secc_start_up_ends_witness:
  "\<exists>n \<le> 16. \<exists>st'. exchanges (\<lambda>a. if a = 30003 then 0 else 1) False False n (start_secc, 0) = Some (st', 0) \<and>
     Secc_IsReady st'"
  using secc_start_up_ends [of start_secc "\<lambda>a. if a = 30003 then 0 else 1" False False 0] by auto

end
