(* ===== verification/Secc_Charge.thy ===== *)
theory Secc_Charge
  imports Secc_Live
begin

text \<open>
  The charging sequence of the PLC modem link and the loss of the link: when charging is entered, how it is stopped,
  and that a link which was lost once stays lost until the start-up runs again.
\<close>

section \<open>Frame facts of the sequences\<close>

named_theorems flow_intros \<open>the sequences leave the start-up step and the connection flag alone\<close>

definition flows :: "secc \<Rightarrow> request \<Rightarrow> bool" where
  "flows st r \<longleftrightarrow> (\<forall>ret st'. r = Some (ret, st') \<longrightarrow> same_flow st st')"

lemma flows_none [flow_intros]: "same_flow st0 st \<Longrightarrow> flows st0 (Some (n, st))"
  by (simp add: flows_def)

lemma flows_read [flow_intros]: "same_flow st0 st \<Longrightarrow> flows st0 (MakeReadTx a n st)"
  by (auto simp: flows_def MakeReadTx_def Let_def same_flow_def)

lemma flows_ready [flow_intros]: "same_flow st0 st \<Longrightarrow> flows st0 (SendChrgReady st)"
  by (auto simp: flows_def same_flow_def dest!: ready_flow)

lemma flows_prm [flow_intros]: "same_flow st0 st \<Longrightarrow> flows st0 (SendChrgPrm st)"
  by (auto simp: flows_def same_flow_def dest!: prm_flow)

lemma flows_reads [flow_intros]:
  assumes "same_flow st0 st"
  shows "flows st0 (ChckSeccStat st)" "flows st0 (ChkVasData st)" "flows st0 (ChckSeccSoC st)" "flows st0 (ReadVasData st)"
  using assms by (auto simp: ChckSeccStat_def ChkVasData_def ChckSeccSoC_def ReadVasData_def Let_def intro!: flow_intros)

lemma same_flow_update [simp]:
  "same_flow st0 (st\<lparr>SeccChrgStep := a\<rparr>) = same_flow st0 st" "same_flow st0 (st\<lparr>SendChkFlg := b\<rparr>) = same_flow st0 st"
  "same_flow st0 (st\<lparr>charge_cnt := c\<rparr>) = same_flow st0 st" "same_flow st0 (st\<lparr>vasReadCd := d\<rparr>) = same_flow st0 st"
  "same_flow st0 (st\<lparr>prcCnt := e\<rparr>) = same_flow st0 st" "same_flow st0 (st\<lparr>reinitCnt := f\<rparr>) = same_flow st0 st"
  "same_flow st0 (st\<lparr>charging_soc := g\<rparr>) = same_flow st0 st" "same_flow st0 (st\<lparr>seccVasDataCnt := h\<rparr>) = same_flow st0 st"
  "same_flow st0 (fault_set n st) = same_flow st0 st" "same_flow st0 (fault_clear n st) = same_flow st0 st"
  by (simp_all add: same_flow_def fault_set_def fault_clear_def)

lemma same_flow_refl [simp]: "same_flow st st"
  by (simp add: same_flow_def)

lemma flows_stop [flow_intros]: "same_flow st0 st \<Longrightarrow> flows st0 (ChrgSecc_stop st)"
  unfolding ChrgSecc_stop_def by (rule flow_intros) simp

lemma flows_handsh [flow_intros]: "same_flow st0 st \<Longrightarrow> flows st0 (ChrgSecc_handsh co st)"
  unfolding ChrgSecc_handsh_def Let_def by (auto intro!: flow_intros)

lemma flows_charging [flow_intros]: "same_flow st0 st \<Longrightarrow> flows st0 (ChrgSecc_charging st)"
  unfolding ChrgSecc_charging_def Let_def by (auto intro!: flow_intros)

lemma flows_ChrgSecc [flow_intros]: "same_flow st0 st \<Longrightarrow> flows st0 (ChrgSecc evcc co st)"
  unfolding ChrgSecc_def Let_def by (cases "SeccChrgStep st") (auto intro!: flow_intros)

lemma flows_SeccSenario:
  assumes "SeccInitStep st = SECC_INIT_STEP_DONE" "stcode (SeccRxData st) \<noteq> 0"
  shows "flows st (SeccSenario evcc co st)"
proof -
  have "flows st (Option.bind (ChrgSecc evcc co (st\<lparr>reinitCnt := 0\<rparr>))
      (\<lambda>(ret8, st). if ret8 \<noteq> 0 then Some (ret8, st) else ChckSeccStat st))"
  proof (cases "ChrgSecc evcc co (st\<lparr>reinitCnt := 0\<rparr>)")
    case None
    then show ?thesis by (simp add: flows_def)
  next
    case (Some a)
    obtain ret st1 where a: "a = (ret, st1)" by (cases a)
    have "same_flow st st1"
      using flows_ChrgSecc [of st "st\<lparr>reinitCnt := 0\<rparr>" evcc co] by (simp add: flows_def Some a)
    then show ?thesis by (auto simp: Some a intro!: flow_intros)
  qed
  then show ?thesis using assms by (auto simp: SeccSenario_def Let_def intro!: flow_intros)
qed

lemma ReqTask_choice_flow:
  assumes "SeccInitStep st = SECC_INIT_STEP_DONE" "stcode (SeccRxData st) \<noteq> 0"
    and "ReqTask_choice evcc co st k = Some ((ret, st'), k')"
  shows "same_flow st st'"
proof -
  have "flows st r \<Longrightarrow> Option.bind r (\<lambda>r. Some (r, j)) = Some ((ret, st'), k') \<Longrightarrow> same_flow st st'" for r and j :: u8
    by (auto simp: flows_def Option.bind_eq_Some_conv)
  note b = this
  show ?thesis
    using assms(3) b [OF flows_SeccSenario [OF assms(1,2)]] b [OF flows_reads(1) [OF same_flow_refl]]
      b [OF flows_ready [OF same_flow_refl]]
    by (auto simp: ReqTask_choice_def Let_def assms(1) split: if_splits)
qed

section \<open>The read task never restores the link\<close>

lemma set_reg_flow: "same_flow st (set_reg a v st)"
  by (simp add: set_reg_def Let_def same_flow_def)

lemma pars_regs_flow: "pars_regs as t st = Some st' \<Longrightarrow> same_flow st st'"
proof (induction as arbitrary: t st)
  case Nil
  then show ?case by simp
next
  case (Cons a as)
  then obtain v where "pars_regs as (t - 2) (set_reg a v st) = Some st' \<or> st' = set_reg a v st"
    by (auto simp: Let_def Option.bind_eq_Some_conv split: if_splits)
  then show ?case using Cons.IH set_reg_flow same_flow_trans by blast
qed

lemma vasParsFunc_flow: "yields (\<lambda>(b, st'). same_flow st st') (vasParsFunc st)"
  unfolding vasParsFunc_def Let_def by (intro yields_rules) (simp_all add: same_flow_def)

lemma ParsRxData_flow: "yields (same_flow st) (ParsRxData_secc st)"
proof -
  have r: "same_flow st st1" if "ParsRxData_regs st = Some st1" for st1
    using that pars_regs_flow by (auto simp: ParsRxData_regs_def)
  have v: "same_flow st st2" if "ParsRxData_regs st = Some st1" "vasParsFunc st1 = Some (b, st2)" for st1 b st2
    using r [OF that(1)] yieldsD [OF vasParsFunc_flow that(2)] by (auto intro: same_flow_trans)
  show ?thesis
    unfolding ParsRxData_secc_def Let_def
    by (intro yields_rules) (auto intro: r v)
qed

lemma ValidSecc_packet_flow: "yields (\<lambda>(b, st'). same_flow st st') (ValidSecc_packet Src sz st)"
  unfolding ValidSecc_packet_def Let_def by (intro yields_rules) (simp_all (no_asm) add: same_flow_def)

lemma ValidSecc_flow: "yields (\<lambda>(b, st'). same_flow st st') (ValidSecc bs st)"
proof -
  have p: "yields (\<lambda>(b, st'). same_flow st st') (ValidSecc_packet Src sz st1)" if "same_flow st st1" for Src sz st1
    using ValidSecc_packet_flow [of st1 Src sz] that by (auto simp: yields_def intro: same_flow_trans)
  have f: "yields (\<lambda>(b, st'). same_flow st st') (case x of None \<Rightarrow> n | Some Short \<Rightarrow> s | Some Long \<Rightarrow> l | Some Exact \<Rightarrow> e)"
    if "yields (\<lambda>(b, st'). same_flow st st') n" "yields (\<lambda>(b, st'). same_flow st st') s"
      "yields (\<lambda>(b, st'). same_flow st st') l" "yields (\<lambda>(b, st'). same_flow st st') e" for x n s l e
    using that by (simp split: option.split fit.split)
  show ?thesis
    unfolding ValidSecc_def Let_def
    by (intro yields_if yields_bind yields_Some f p) (simp_all add: same_flow_def)
qed

lemma ReadTask_flow:
  assumes "SeccRS232ReadTask bs st = Some st'"
  shows "same_flow st st'"
proof -
  have v: "same_flow st st1"
    if "(case bs of Some b \<Rightarrow> ValidSecc b st | None \<Rightarrow> ValidSecc_failed st) = Some (b, st1)" for b st1
  proof (cases bs)
    case None
    then show ?thesis using that by (auto simp: ValidSecc_failed_def same_flow_def split: if_splits)
  next
    case (Some x)
    then show ?thesis using yieldsD [OF ValidSecc_flow, of x st] that by fastforce
  qed
  have p: "yields (same_flow st) (ParsRxData_secc st2)" if "same_flow st st2" for st2
    using ParsRxData_flow [of st2] that by (auto simp: yields_def intro: same_flow_trans)
  have "yields (same_flow st) (SeccRS232ReadTask bs st)"
    unfolding SeccRS232ReadTask_def Let_def
    by (intro yields_if yields_bind yields_prod yields_Some p) (use v in \<open>auto simp: same_flow_def\<close>)
  then show ?thesis using assms by (rule yieldsD)
qed

section \<open>Properties\<close>

text \<open>The two tasks in operation: passes of the request task and receptions, from states in which the modem is not in
  its idle state and has not missed ten requests in a row.\<close>

inductive operation :: "secc \<times> u8 \<Rightarrow> secc \<times> u8 \<Rightarrow> bool" where
  read: "SeccRS232ReadTask bs st = Some st' \<Longrightarrow> operation (st, k) (st', k)"
| req: "SeccRS232ReqTask evcc co (st, k) = Some ((st', k'), acts) \<Longrightarrow> stcode (SeccRxData st) \<noteq> CSM_STAT_NONE \<Longrightarrow>
     rebootCnt st < 10 \<Longrightarrow> length (wData16 (SeccModbusWriteTx st)) = 127 \<Longrightarrow> operation (st, k) (st', k')"

lemma operation_lost:
  assumes "operation s s'" "SeccInitStep (fst s) = SECC_INIT_STEP_DONE" "\<not> bPlcConn (fst s)"
  shows "SeccInitStep (fst s') = SECC_INIT_STEP_DONE \<and> \<not> bPlcConn (fst s')"
  using assms
proof (induction rule: operation.induct)
  case (read bs st st' k)
  then show ?case using ReadTask_flow by (auto simp: same_flow_def)
next
  case (req evcc co st k st' k' acts)
  show ?case
  proof (cases "PlcRespWaitCnt st = 0")
    case True
    obtain ret st1 k1 out where c: "ReqTask_choice evcc co st k = Some ((ret, st1), k1)" "kept st st1" "prepared ret st1 out"
      using ReqTask_choice_makes [of st evcc co k] req(4) by (auto simp: tx_ok_def)
    have f: "same_flow st st1" using ReqTask_choice_flow [OF _ _ c(1)] req(2,5) by simp
    have "rebootCnt st1 < 10" using c(2) req(3) by (simp add: kept_def)
    then have "st' = (if ret \<noteq> 0 then st1\<lparr>PlcRespWaitCnt := 1\<rparr> else st1)"
      using req(1) ReqTask_send [OF True c(1,3)] by (simp add: Let_def)
    then show ?thesis using f req(5,6) by (auto simp: same_flow_def)
  next
    case False
    then show ?thesis using req(1,5,6) ReqTask_wait [OF False, of evcc co k] by (auto split: if_splits)
  qed
qed

text \<open>A link that was lost once stays lost in operation: after one timeout in the charging phase (the start-up
  done and the connection flag cleared) no response of the modem and no pass of the request task sets the flag
  again, as long as the modem reports a state and answers at least every tenth request; the flag is set by the
  start-up sequence only.\<close>

theorem secc_lost_stays_lost:
  assumes "operation\<^sup>*\<^sup>* (st, k) (st', k')" "SeccInitStep st = SECC_INIT_STEP_DONE" "\<not> Secc_IsReady st"
  shows "\<not> Secc_IsReady st' \<and> SeccInitStep st' = SECC_INIT_STEP_DONE"
proof -
  have "SeccInitStep (fst s') = SECC_INIT_STEP_DONE \<and> \<not> bPlcConn (fst s')"
    if "operation\<^sup>*\<^sup>* s s'" "SeccInitStep (fst s) = SECC_INIT_STEP_DONE" "\<not> bPlcConn (fst s)" for s s'
    using that by (induction rule: rtranclp_induct) (auto dest: operation_lost)
  from this [OF assms(1)] show ?thesis using assms(2,3) by (simp add: Secc_IsReady_def)
qed

theorem secc_lost_stays_lost_witness:
  "\<exists>st'. operation (start_secc\<lparr>SeccInitStep := SECC_INIT_STEP_DONE, PlcRespWaitCnt := 10\<rparr>, 0) (st', 0) \<and>
     PlcRespWaitCnt st' = 0 \<and> \<not> Secc_IsReady st'"
proof -
  let ?st = "start_secc\<lparr>SeccInitStep := SECC_INIT_STEP_DONE, PlcRespWaitCnt := 10\<rparr>"
  let ?st' = "?st\<lparr>vasReadCd := 0, bPlcConn := False, rebootCnt := rebootCnt ?st + 1, PlcRespWaitCnt := 0\<rparr>"
  have "SeccRS232ReqTask False False (?st, 0) = Some ((?st', 0), [])"
    using ReqTask_wait [of ?st False False 0] by simp
  then have o: "operation (?st, 0) (?st', 0)"
    by (rule operation.req) (simp_all add: start_secc_def VasDataInit_def SeccInit_def zero_write_tx_def)
  then have "\<not> Secc_IsReady ?st'"
    using secc_lost_stays_lost [OF r_into_rtranclp [where r = operation, OF o]] by (simp add: Secc_IsReady_def)
  then show ?thesis using o by (intro exI [of _ ?st']) simp
qed

section \<open>Charging\<close>

text \<open>The requests leave the charging step and the status word alone.\<close>

definition same_charge :: "secc \<Rightarrow> secc \<Rightarrow> bool" where
  "same_charge st st' \<longleftrightarrow> SeccChrgStep st' = SeccChrgStep st \<and> SeccTxData st' = SeccTxData st"

named_theorems charge_intros \<open>requests under a predicate on the step and the status word\<close>

lemma same_charge_read: "yields (\<lambda>(ret, st'). ret = 1 \<and> same_charge st st') (MakeReadTx a n st)"
  by (simp add: yields_def MakeReadTx_def Let_def same_charge_def)

lemma same_charge_write: "yields (\<lambda>(ret, st'). ret = 2 \<and> same_charge st st') (MakeWriteTx a n st)"
  unfolding MakeWriteTx_def Let_def by (intro yields_rules) (simp add: same_charge_def)

lemma same_charge_wdata: "yields (same_charge st) (set_wdata i v st)"
  unfolding set_wdata_def by (intro yields_rules) (simp add: same_charge_def)

lemma yields_charge:
  assumes "yields (\<lambda>(ret, st'). ret = n \<and> same_charge st st') r" "\<And>st'. same_charge st st' \<Longrightarrow> P (n, st')"
  shows "yields P r"
  using assms by (auto simp: yields_def)

lemma same_charge_ready: "yields (\<lambda>(ret, st'). ret = 2 \<and> same_charge st st') (SendChrgReady st)"
  unfolding SendChrgReady_def
proof (intro yields_bind)
  fix st1 assume "set_wdata 0 (status_fault (SeccTxData st)) st = Some st1"
  then have "same_charge st st1" by (rule yieldsD [OF same_charge_wdata])
  then show "yields (\<lambda>(ret, st'). ret = 2 \<and> same_charge st st') (MakeWriteTx 40001 1 st1)"
    using same_charge_write [of st1 40001 1] by (auto simp: yields_def same_charge_def)
qed

lemma same_charge_prm: "yields (\<lambda>(ret, st'). ret = 2 \<and> same_charge st st') (SendChrgPrm st)"
  unfolding SendChrgPrm_def
proof (intro yields_bind)
  fix s1 s2 s3 s4 assume "set_wdata 0 (MaxCurr (SeccTxData st)) st = Some s1" "set_wdata 1 (NormVolt (SeccTxData s1)) s1 = Some s2"
    "set_wdata 2 (NormFreq (SeccTxData s2)) s2 = Some s3" "set_wdata 3 (MaxPower (SeccTxData s3)) s3 = Some s4"
  then have "same_charge st s1" "same_charge s1 s2" "same_charge s2 s3" "same_charge s3 s4"
    by (auto dest: yieldsD [OF same_charge_wdata])
  then have "same_charge st s4" by (simp add: same_charge_def)
  then show "yields (\<lambda>(ret, st'). ret = 2 \<and> same_charge st st') (MakeWriteTx 40027 4 s4)"
    using same_charge_write [of s4 40027 4] by (auto simp: yields_def same_charge_def)
qed

lemmas charge_reads =
  yields_charge [OF same_charge_read [of _ 30002 6], folded ChckSeccStat_def]
  yields_charge [OF same_charge_read [of _ 32001 10], folded ChkVasData_def]
  yields_charge [OF same_charge_read [of _ 30040 1], folded ChckSeccSoC_def]
  yields_charge [OF same_charge_read]
  yields_charge [OF same_charge_ready]
  yields_charge [OF same_charge_prm]

lemma charge_vas: "(\<And>st'. same_charge st st' \<Longrightarrow> P (1, st')) \<Longrightarrow> yields P (ReadVasData st)"
  unfolding ReadVasData_def Let_def by (intro yields_rules charge_reads)

lemmas charge_rules = yields_if yields_Some charge_reads charge_vas

text \<open>The conditions under which the step \<open>CHARGING\<close> can be entered.\<close>

definition may_charge :: "bool \<Rightarrow> bool \<Rightarrow> secc \<Rightarrow> bool" where
  "may_charge evcc co st \<longleftrightarrow> fault_bit SECC_STAT_CHARG st \<and> \<not> stopped_code (stcode (SeccRxData st)) \<and>
     (SeccChrgStep st = SECC_CHRG_STEP_HANDSH \<and> \<not> fault_bit SECC_STAT_STOP st \<and> \<not> co \<and> stcode (SeccRxData st) = CSM_STAT_CHRG \<and>
        50 \<le> pwmvoltage (SeccRxData st) \<and> pwmvoltage (SeccRxData st) \<le> 70 \<or>
      SeccChrgStep st = SECC_CHRG_STEP_CHKID \<and> (evcc \<or> prcCnt st > 20))"

definition enters :: "bool \<Rightarrow> bool \<Rightarrow> secc \<Rightarrow> u8 \<times> secc \<Rightarrow> bool" where
  "enters evcc co st = (\<lambda>(ret, st'). SeccChrgStep st \<noteq> SECC_CHRG_STEP_CHARGING \<longrightarrow>
     SeccChrgStep st' = SECC_CHRG_STEP_CHARGING \<longrightarrow> may_charge evcc co st)"

lemma fault_charge [simp]:
  "SeccChrgStep (fault_set n st) = SeccChrgStep st" "SeccChrgStep (fault_clear n st) = SeccChrgStep st"
  by (simp_all add: fault_set_def fault_clear_def)

lemma enters_stop: "yields (enters evcc co st) (ChrgSecc_stop st)"
  unfolding ChrgSecc_stop_def by (intro charge_rules) (simp add: enters_def same_charge_def)

lemma enters_handsh:
  assumes "SeccChrgStep st = SECC_CHRG_STEP_HANDSH" "fault_bit SECC_STAT_CHARG st" "\<not> fault_bit SECC_STAT_STOP st"
    and "\<not> stopped_code (stcode (SeccRxData st))"
  shows "yields (enters evcc co st) (ChrgSecc_handsh co st)"
  unfolding ChrgSecc_handsh_def Let_def
  by (intro charge_rules enters_stop) (use assms in \<open>simp_all add: enters_def same_charge_def may_charge_def\<close>)

lemma enters_ChrgSecc: "yields (enters evcc co st) (ChrgSecc evcc co st)"
proof (cases "stopped_code (stcode (SeccRxData st))")
  case True
  then show ?thesis unfolding ChrgSecc_def using enters_stop by simp
next
  case ns: False
  have ready: "yields (enters evcc co st) (SendChrgReady st1)" if "SeccChrgStep st1 = SeccChrgStep st" for st1
    using that by (intro charge_rules) (simp add: enters_def same_charge_def)
  have step: "yields (enters evcc co st) r" if
    "\<lbrakk>fault_bit SECC_STAT_CHARG st; SeccChrgStep st = SECC_CHRG_STEP_HANDSH \<longrightarrow> \<not> fault_bit SECC_STAT_STOP st\<rbrakk> \<Longrightarrow> yields (enters evcc co st) r1"
    "r = (if chrg_step_no (SeccChrgStep st) > chrg_step_no SECC_CHRG_STEP_START \<and> fault_bit SECC_STAT_STOP st
      then SendChrgReady st else if fault_bit SECC_STAT_CHARG st then r1
      else Some (0, st\<lparr>SeccChrgStep := SECC_CHRG_STEP_NONE\<rparr>))" for r r1
    unfolding that(2)
    by (intro yields_if ready refl yields_Some that(1)) (auto simp: enters_def)
  show ?thesis
  proof (cases "SeccChrgStep st")
    case SECC_CHRG_STEP_CHARGING
    then show ?thesis by (simp add: yields_def enters_def)
  next
    case SECC_CHRG_STEP_HANDSH
    show ?thesis
      by (rule step [of "ChrgSecc_handsh co st"])
         (use ns SECC_CHRG_STEP_HANDSH enters_handsh in \<open>simp_all add: ChrgSecc_def\<close>)
  next
    case SECC_CHRG_STEP_NONE
    show ?thesis
      by (rule step, simp_all only: ChrgSecc_def ns if_False SECC_CHRG_STEP_NONE SECC_CHRG_STEP.case)
         (intro charge_rules ready, simp add: enters_def)
  next
    case SECC_CHRG_STEP_REQID
    show ?thesis
      by (rule step, simp_all only: ChrgSecc_def ns if_False SECC_CHRG_STEP_REQID SECC_CHRG_STEP.case)
         (intro charge_rules ready, simp add: enters_def same_charge_def)
  next
    case SECC_CHRG_STEP_CHKID
    show ?thesis
      by (rule step, simp_all only: ChrgSecc_def ns if_False SECC_CHRG_STEP_CHKID SECC_CHRG_STEP.case)
         (intro charge_rules ready, simp_all add: enters_def same_charge_def may_charge_def SECC_CHRG_STEP_CHKID ns)
  next
    case SECC_CHRG_STEP_START
    show ?thesis
      by (rule step, simp_all only: ChrgSecc_def ns if_False SECC_CHRG_STEP_START SECC_CHRG_STEP.case)
         (intro charge_rules ready refl, simp add: enters_def)
  next
    case SECC_CHRG_STEP_AUTHCHK
    show ?thesis
      by (rule step, simp_all only: ChrgSecc_def ns if_False SECC_CHRG_STEP_AUTHCHK SECC_CHRG_STEP.case Let_def)
         (intro charge_rules ready, simp_all add: enters_def SECC_CHRG_STEP_AUTHCHK same_charge_def)
  next
    case SECC_CHRG_STEP_PRMCHK
    show ?thesis
      by (rule step, simp_all only: ChrgSecc_def ns if_False SECC_CHRG_STEP_PRMCHK SECC_CHRG_STEP.case Let_def)
         (intro charge_rules ready, simp_all add: enters_def SECC_CHRG_STEP_PRMCHK same_charge_def)
  qed
qed

lemma write_1_charge: "yields (\<lambda>(ret, st'). ret = 2 \<and> same_charge st st') (Option.bind (set_wdata 0 v st) (MakeWriteTx a 1))"
proof (intro yields_bind)
  fix s1 assume "set_wdata 0 v st = Some s1"
  then have "same_charge st s1" by (auto dest: yieldsD [OF same_charge_wdata])
  then show "yields (\<lambda>(ret, st'). ret = 2 \<and> same_charge st st') (MakeWriteTx a 1 s1)"
    using same_charge_write [of s1 a 1] by (auto simp: yields_def same_charge_def)
qed

lemma InitSecc_charge: "yields (\<lambda>(ret, st'). SeccChrgStep st' = SeccChrgStep st) (InitSecc st)"
  unfolding InitSecc_def InitSecc_step_def
  by (cases "SeccInitStep st"; simp only: SECC_INIT_STEP.case;
      intro charge_rules yields_charge [OF write_1_charge]; simp add: same_charge_def)

lemma SeccSenario_enters:
  "yields (\<lambda>r. enters evcc co st r \<and> (SeccChrgStep st \<noteq> SECC_CHRG_STEP_CHARGING \<longrightarrow>
     SeccChrgStep (snd r) = SECC_CHRG_STEP_CHARGING \<longrightarrow>
     SeccInitStep st = SECC_INIT_STEP_DONE \<and> stcode (SeccRxData st) \<noteq> CSM_STAT_NONE)) (SeccSenario evcc co st)"
  (is "yields ?P _")
proof -
  have init: "yields ?P (InitSecc s)" if "SeccChrgStep s = SeccChrgStep st" for s
    using InitSecc_charge [of s] that by (auto simp: yields_def enters_def)
  define s where "s = st\<lparr>reinitCnt := 0\<rparr>"
  have se: "enters evcc co s = enters evcc co st"
    by (simp add: enters_def may_charge_def s_def fault_bit_def fun_eq_iff)
  have charge: "yields ?P (Option.bind (ChrgSecc evcc co s) (\<lambda>(ret8, st). if ret8 \<noteq> 0 then Some (ret8, st) else ChckSeccStat st))"
    if d: "SeccInitStep st = SECC_INIT_STEP_DONE" "stcode (SeccRxData st) \<noteq> CSM_STAT_NONE"
  proof (intro yields_bind yields_prod yields_if yields_Some charge_reads)
    fix x ret s1
    assume r: "ChrgSecc evcc co s = Some x" "x = (ret, s1)"
    have e: "enters evcc co st (ret, s1)" using yieldsD [OF enters_ChrgSecc r(1)] r(2) by (simp add: se)
    then show "?P (ret, s1)" using d by simp
    fix s2 assume "same_charge s1 s2"
    then show "?P (1, s2)" using e d by (simp add: enters_def same_charge_def)
  qed
  have idle: "yields ?P (ChckSeccStat (s'\<lparr>SeccChrgStep := SECC_CHRG_STEP_NONE\<rparr>))" for s'
    by (intro charge_reads) (simp add: enters_def same_charge_def)
  show ?thesis
    using init [of "fault_set SECC_STAT_STOP (fault_clear SECC_STAT_CHARG
                       (st\<lparr>reinitCnt := 0, SeccInitStep := SECC_INIT_STEP_NONE\<rparr>))"] init [of s] charge idle
    unfolding SeccSenario_def Let_def s_def [symmetric]
    by (cases "SeccInitStep st = SECC_INIT_STEP_DONE") (auto simp: s_def fault_set_def fault_clear_def)
qed

text \<open>C14. Charging is entered on the vehicle's request only: the sequence moves to \<open>CHARGING\<close> only while the charger
  commands charging and the modem does not report a stop, and either no stop is commanded and the modem reports the
  charging state with a pilot voltage between 5 and 7 volts at the end of the handshake, or the vehicle
  identification, which that handshake starts on the model \<open>TSCT-2007CO\<close>, is finished.\<close>

theorem secc_charging_entered:
  assumes "SeccSenario evcc co st = Some (ret, st')" "SeccChrgStep st \<noteq> SECC_CHRG_STEP_CHARGING"
    and "SeccChrgStep st' = SECC_CHRG_STEP_CHARGING"
  shows "SeccInitStep st = SECC_INIT_STEP_DONE \<and> stcode (SeccRxData st) \<noteq> CSM_STAT_NONE \<and>
     fault_bit SECC_STAT_CHARG st \<and> \<not> stopped_code (stcode (SeccRxData st)) \<and>
     (SeccChrgStep st = SECC_CHRG_STEP_HANDSH \<and> \<not> fault_bit SECC_STAT_STOP st \<and> \<not> co \<and> stcode (SeccRxData st) = CSM_STAT_CHRG \<and>
        50 \<le> pwmvoltage (SeccRxData st) \<and> pwmvoltage (SeccRxData st) \<le> 70 \<or>
      SeccChrgStep st = SECC_CHRG_STEP_CHKID \<and> (evcc \<or> prcCnt st > 20))"
  using yieldsD [OF SeccSenario_enters assms(1)] assms(2,3) by (simp add: enters_def may_charge_def)

theorem secc_charging_entered_witness:
  "\<exists>st ret st'. SeccSenario False False st = Some (ret, st') \<and> SeccChrgStep st = SECC_CHRG_STEP_HANDSH \<and>
     SeccChrgStep st' = SECC_CHRG_STEP_CHARGING \<and> pwmvoltage (SeccRxData st) \<le> 70"
proof -
  let ?st = "start_secc\<lparr>SeccInitStep := SECC_INIT_STEP_DONE, SeccChrgStep := SECC_CHRG_STEP_HANDSH,
     SeccTxData := (SeccTxData start_secc)\<lparr>status_fault := 2\<rparr>,
     SeccRxData := (SeccRxData start_secc)\<lparr>stcode := CSM_STAT_CHRG, pwmvoltage := 60\<rparr>\<rparr>"
  have "\<exists>ret st'. SeccSenario False False ?st = Some (ret, st') \<and> SeccChrgStep st' = SECC_CHRG_STEP_CHARGING"
    by (simp add: SeccSenario_def Let_def fault_bit_def ChrgSecc_def stopped_code_def ChrgSecc_handsh_def
        ChckSeccStat_def MakeReadTx_def bit_numeral_rec)
  then obtain ret st' where s: "SeccSenario False False ?st = Some (ret, st')" "SeccChrgStep st' = SECC_CHRG_STEP_CHARGING"
    by blast
  have "pwmvoltage (SeccRxData ?st) \<le> 70" using secc_charging_entered [OF s(1) _ s(2)] by simp
  then show ?thesis using s by (intro exI [of _ ?st]) simp
qed

text \<open>When the modem reports a stop while the charger commands charging, the next pass of the sequence withdraws
  the command, sets the stop bit, leaves the charging sequence and reads the status; from then on, until charging is
  commanded again, the sequence only reads the status.\<close>

theorem secc_stop_reported:
  assumes "SeccInitStep st = SECC_INIT_STEP_DONE" "fault_bit SECC_STAT_CHARG st" "stopped_code (stcode (SeccRxData st))"
  shows "\<exists>st'. SeccSenario evcc co st = Some (1, st') \<and> \<not> fault_bit SECC_STAT_CHARG st' \<and>
     fault_bit SECC_STAT_STOP st' \<and> SeccChrgStep st' = SECC_CHRG_STEP_NONE \<and>
     read_tx_mem (SeccModbusReadTx st') = read_request 30002 6 \<and> SeccInitStep st' = SECC_INIT_STEP_DONE \<and>
     (\<forall>evcc co. \<exists>st''. SeccSenario evcc co st' = Some (1, st'') \<and> SeccTxData st'' = SeccTxData st' \<and>
        SeccChrgStep st'' = SECC_CHRG_STEP_NONE \<and> read_tx_mem (SeccModbusReadTx st'') = read_request 30002 6)"
proof -
  have nz: "stcode (SeccRxData st) \<noteq> 0" using assms(3) by (auto simp: stopped_code_def)
  let ?s = "fault_set SECC_STAT_STOP (fault_clear SECC_STAT_CHARG (st\<lparr>reinitCnt := 0, SeccChrgStep := SECC_CHRG_STEP_NONE\<rparr>))"
  obtain st' where m: "ChckSeccStat ?s = Some (1, st')" "read_tx_mem (SeccModbusReadTx st') = read_request 30002 6"
      "st' = ?s\<lparr>SeccModbusReadTx := SeccModbusReadTx st'\<rparr>"
    using MakeReadTx_frame [of 30002 6 ?s] unfolding ChckSeccStat_def by blast
  have f: "SeccTxData st' = SeccTxData ?s" "SeccChrgStep st' = SECC_CHRG_STEP_NONE" "SeccRxData st' = SeccRxData st"
      "SeccInitStep st' = SECC_INIT_STEP_DONE"
    using assms(1) by (subst m(3), simp add: fault_set_def fault_clear_def)+
  have b: "\<not> fault_bit SECC_STAT_CHARG st'" "fault_bit SECC_STAT_STOP st'"
    unfolding fault_bit_def f(1) by (simp_all add: fault_set_def fault_clear_def bit_simps)
  have "SeccSenario evcc co st = Some (1, st')"
    using assms nz m(1) by (simp add: SeccSenario_def Let_def fault_bit_def ChrgSecc_def ChrgSecc_stop_def)
  moreover have "\<exists>st''. SeccSenario evcc co st' = Some (1, st'') \<and> SeccTxData st'' = SeccTxData st' \<and>
        SeccChrgStep st'' = SECC_CHRG_STEP_NONE \<and> read_tx_mem (SeccModbusReadTx st'') = read_request 30002 6" for evcc co
  proof -
    let ?t = "st'\<lparr>reinitCnt := 0, SeccChrgStep := SECC_CHRG_STEP_NONE\<rparr>"
    obtain st'' where n: "ChckSeccStat ?t = Some (1, st'')" "read_tx_mem (SeccModbusReadTx st'') = read_request 30002 6"
        "st'' = ?t\<lparr>SeccModbusReadTx := SeccModbusReadTx st''\<rparr>"
      using MakeReadTx_frame [of 30002 6 ?t] unfolding ChckSeccStat_def by blast
    have "SeccTxData st'' = SeccTxData st'" "SeccChrgStep st'' = SECC_CHRG_STEP_NONE" by (subst n(3), simp)+
    then show ?thesis using n(1,2) nz b(1) by (auto simp: SeccSenario_def Let_def f fault_bit_def)
  qed
  ultimately show ?thesis using b f(2,4) m(2) by blast
qed

theorem secc_stop_reported_witness:
  "\<exists>st'. SeccSenario False False (start_secc\<lparr>SeccInitStep := SECC_INIT_STEP_DONE, SeccChrgStep := SECC_CHRG_STEP_CHARGING,
     SeccTxData := (SeccTxData start_secc)\<lparr>status_fault := 2\<rparr>,
     SeccRxData := (SeccRxData start_secc)\<lparr>stcode := CSM_STAT_STOPCHRG\<rparr>\<rparr>) = Some (1, st') \<and>
     \<not> fault_bit SECC_STAT_CHARG st' \<and> fault_bit SECC_STAT_STOP st'"
proof -
  let ?st = "start_secc\<lparr>SeccInitStep := SECC_INIT_STEP_DONE, SeccChrgStep := SECC_CHRG_STEP_CHARGING,
     SeccTxData := (SeccTxData start_secc)\<lparr>status_fault := 2\<rparr>,
     SeccRxData := (SeccRxData start_secc)\<lparr>stcode := CSM_STAT_STOPCHRG\<rparr>\<rparr>"
  have "SeccInitStep ?st = SECC_INIT_STEP_DONE" "fault_bit SECC_STAT_CHARG ?st" "stopped_code (stcode (SeccRxData ?st))"
    by (simp_all add: fault_bit_def stopped_code_def bit_numeral_rec)
  from secc_stop_reported [OF this, of False False] show ?thesis by blast
qed

end
