(* ===== verification/Common.thy ===== *)
theory Common
  imports App_Info
begin

text \<open>
  Shared helpers of \<open>src/project/tsct2007a/tsctcommon.c\<close>: byte order, the equipment status bits, decimal and BCD
  conversions, the conversion of vehicle plate letters, the upload callback, and the small decisions (door lock,
  ground fault).
\<close>

section \<open>Byte order\<close>

definition FourByteOrder :: "bytes \<Rightarrow> u32 option" where
  "FourByteOrder buf = do {
     b0 \<leftarrow> rd buf 0;
     b1 \<leftarrow> rd buf 1;
     b2 \<leftarrow> rd buf 2;
     b3 \<leftarrow> rd buf 3;
     Some (push_bit 24 (ucast b0) OR push_bit 16 (ucast b1) OR push_bit 8 (ucast b2) OR ucast b3)
   }"

definition ValueOrderFourByte :: "bytes \<Rightarrow> u32 \<Rightarrow> bytes option" where
  "ValueOrderFourByte buf nValue = do {
     buf \<leftarrow> wr buf 0 (ucast (drop_bit 24 nValue));
     buf \<leftarrow> wr buf 1 (ucast (drop_bit 16 nValue));
     buf \<leftarrow> wr buf 2 (ucast (drop_bit 8 nValue));
     wr buf 3 (ucast nValue)
   }"

section \<open>Equipment status\<close>

text \<open>The argument is \<open>shmDataAppInfo.eqp_status\<close>, 8 bytes.  A bit that is set means no error.\<close>

definition CstSetEpqStatus :: "nat \<Rightarrow> bool \<Rightarrow> bytes \<Rightarrow> bytes option" where
  "CstSetEpqStatus nBit bSet eqp_status = do {
     let nCnt = nBit div 8;
     let nResidue = nBit mod 8;
     b \<leftarrow> rd eqp_status nCnt;
     wr eqp_status nCnt (if bSet then b OR push_bit nResidue 1 else b AND NOT (push_bit nResidue 1))
   }"

definition CstGetEpqStatus :: "nat \<Rightarrow> bytes \<Rightarrow> bool option" where
  "CstGetEpqStatus nBit eqp_status = do {
     let nCnt = nBit div 8;
     let nResidue = nBit mod 8;
     b \<leftarrow> rd eqp_status nCnt;
     Some (if b AND push_bit nResidue 1 \<noteq> 0 then False else True)
   }"

section \<open>Decimal strings\<close>

text \<open>\<open>atoi\<close> on the object whose remaining bytes are given: white space, a sign, digits.  \<open>None\<close> when the conversion
  reads past the object or the number does not fit an \<open>int\<close>.\<close>

definition is_digit :: "u8 \<Rightarrow> bool" where
  "is_digit c \<longleftrightarrow> 0x30 \<le> c \<and> c \<le> 0x39"

definition is_space :: "u8 \<Rightarrow> bool" where
  "is_space c \<longleftrightarrow> c = 0x20 \<or> 9 \<le> c \<and> c \<le> 13"

fun atoi_digits :: "bytes \<Rightarrow> int \<Rightarrow> int option" where
  "atoi_digits [] acc = None"
| "atoi_digits (c # cs) acc =
     (if is_digit c then atoi_digits cs (10 * acc + (uint c - 0x30)) else Some acc)"

fun atoi_sign :: "bytes \<Rightarrow> int option" where
  "atoi_sign [] = None"
| "atoi_sign (c # cs) =
     (if c = 0x2D then map_option uminus (atoi_digits cs 0)
      else if c = 0x2B then atoi_digits cs 0
      else atoi_digits (c # cs) 0)"

definition atoi :: "bytes \<Rightarrow> int option" where
  "atoi obj = do {
     v \<leftarrow> atoi_sign (dropWhile is_space obj);
     if - (2 ^ 31) \<le> v \<and> v < 2 ^ 31 then Some v else None
   }"

text \<open>\<open>strncpy\<close> of at most \<open>n\<close> bytes: the copied string, padded with zeros to \<open>n\<close> bytes.\<close>

fun strncpy_src :: "bytes \<Rightarrow> nat \<Rightarrow> bytes option" where
  "strncpy_src p 0 = Some []"
| "strncpy_src [] (Suc n) = None"
| "strncpy_src (c # cs) (Suc n) =
     (if c = 0 then Some (replicate (Suc n) 0) else Option.bind (strncpy_src cs n) (\<lambda>bs. Some (c # bs)))"

definition CharToInt :: "bytes \<Rightarrow> u8 \<Rightarrow> u32 option" where
  "CharToInt p len =
     (if len > 0
      then do {
        bs \<leftarrow> strncpy_src p (unat len);
        string \<leftarrow> blit (replicate 32 0) 0 bs;
        v \<leftarrow> atoi string;
        Some (word_of_int v)
      }
      else Some 0)"

section \<open>BCD\<close>

text \<open>The operand is a \<open>char\<close>: \<open>nValue >> 4\<close> keeps its sign.\<close>

definition CstConvertBCD :: "u8 \<Rightarrow> int option" where
  "CstConvertBCD nValue =
     atoi [word_of_int (sint nValue div 16) OR 0x30, (nValue AND 0x0f) OR 0x30]"

text \<open>Two ASCII digits in one byte.\<close>

definition pack_digits :: "u8 \<Rightarrow> u8 \<Rightarrow> u8" where
  "pack_digits a b = push_bit 4 a OR (b AND 0x0F)"

text \<open>The result is the packed buffer and the argument, whose odd digits are masked.\<close>

definition CstBCDToInt :: "bytes \<Rightarrow> bytes \<Rightarrow> (bytes \<times> bytes) option" where
  "CstBCDToInt pBuf pValue = do {
     v0 \<leftarrow> rd pValue 0;
     v1 \<leftarrow> rd pValue 1;
     v2 \<leftarrow> rd pValue 2;
     v3 \<leftarrow> rd pValue 3;
     v4 \<leftarrow> rd pValue 4;
     v5 \<leftarrow> rd pValue 5;
     pBuf \<leftarrow> blit pBuf 0 [pack_digits v0 v1, pack_digits v2 v3, pack_digits v4 v5];
     Some (pBuf, pValue[1 := v1 AND 0x0F, 3 := v3 AND 0x0F, 5 := v5 AND 0x0F])
   }"

definition bcd_byte :: "u32 \<Rightarrow> u8" where
  "bcd_byte temp = ucast (push_bit 4 (temp div 10) OR (temp mod 10))"

definition CstTimeValueToBCD :: "bytes \<Rightarrow> u32 \<Rightarrow> bytes option" where
  "CstTimeValueToBCD pBuf Value =
     blit pBuf 0 [bcd_byte Value, bcd_byte (Value div 100), bcd_byte (Value div 100 div 100)]"

text \<open>The broken-down local time and the formats \<open>%d\<close> and \<open>%02d\<close>.\<close>

record tm =
  tm_year :: int
  tm_mon :: int
  tm_mday :: int
  tm_hour :: int
  tm_min :: int
  tm_sec :: int

fun dec_nat :: "nat \<Rightarrow> bytes" where
  "dec_nat n = (if n < 10 then [w8 (0x30 + n)] else dec_nat (n div 10) @ [w8 (0x30 + n mod 10)])"

declare dec_nat.simps [simp del]

definition fmt_d :: "int \<Rightarrow> bytes" where
  "fmt_d i = (if i < 0 then 0x2D # dec_nat (nat (- i)) else dec_nat (nat i))"

definition fmt_02d :: "int \<Rightarrow> bytes" where
  "fmt_02d i = (if 0 \<le> i \<and> i < 10 then 0x30 # fmt_d i else fmt_d i)"

definition date_digits :: "tm \<Rightarrow> bytes" where
  "date_digits t = fmt_d (tm_year t + 1900) @ fmt_02d (tm_mon t + 1) @ fmt_02d (tm_mday t) @ fmt_02d (tm_hour t) @
     fmt_02d (tm_min t) @ fmt_02d (tm_sec t)"

text \<open>The loop over the pairs of digits: \<open>n\<close> pairs are left, \<open>index\<close> is the next byte of the result.\<close>

fun date_pack :: "nat \<Rightarrow> nat \<Rightarrow> bytes \<Rightarrow> bytes \<Rightarrow> bytes option" where
  "date_pack 0 index temp buf = Some buf"
| "date_pack (Suc n) index temp buf = do {
     a \<leftarrow> rd temp (2 * index);
     b \<leftarrow> rd temp (2 * index + 1);
     buf \<leftarrow> wr buf index (pack_digits a b);
     date_pack n (Suc index) temp buf
   }"

definition CurrentDateTime :: "tm \<Rightarrow> bytes \<Rightarrow> bytes option" where
  "CurrentDateTime t buf = do {
     temp \<leftarrow> blit (replicate 15 0) 0 (date_digits t @ [0]);
     date_pack 7 0 temp buf
   }"

section \<open>Letters of a vehicle plate\<close>

definition CarNumEUC_KR :: "bytes list" where
  "CarNumEUC_KR =
    [[0xB0, 0xA1], [0xB3, 0xAA], [0xB4, 0xD9], [0xB6, 0xF3], [0xB8, 0xB6], [0xB0, 0xC5], [0xB3, 0xCA],
     [0xB4, 0xF5], [0xB7, 0xAF], [0xB8, 0xD3], [0xB9, 0xF6], [0xBC, 0xAD], [0xBE, 0xEE], [0xC0, 0xFA],
     [0xB0, 0xED], [0xB3, 0xEB], [0xB5, 0xB5], [0xB7, 0xCE], [0xB8, 0xF0], [0xBA, 0xB8], [0xBC, 0xD2],
     [0xBF, 0xC0], [0xC1, 0xB6], [0xB1, 0xB8], [0xB4, 0xA9], [0xB5, 0xCE], [0xB7, 0xE7], [0xB9, 0xAB],
     [0xBA, 0xCE], [0xBC, 0xF6], [0xBF, 0xEC], [0xC1, 0xD6], [0xBE, 0xC6], [0xB9, 0xD9], [0xBB, 0xE7],
     [0xC0, 0xDA], [0xB9, 0xE8], [0xC7, 0xCF], [0xC7, 0xE3], [0xC8, 0xA3], [0xC5, 0xD7], [0xBD, 0xBA],
     [0xC6, 0xAE], [0xC4, 0xAB]]"

definition CarNumUTF8 :: "bytes list" where
  "CarNumUTF8 =
    [[0xEA, 0xB0, 0x80], [0xEB, 0x82, 0x98], [0xEB, 0x8B, 0xA4], [0xEB, 0x9D, 0xBC], [0xEB, 0xA7, 0x88],
     [0xEA, 0xB1, 0xB0], [0xEB, 0x84, 0x88], [0xEB, 0x8D, 0x94], [0xEB, 0x9F, 0xAC], [0xEB, 0xA8, 0xB8],
     [0xEB, 0xB2, 0x84], [0xEC, 0x84, 0x9C], [0xEC, 0x96, 0xB4], [0xEC, 0xA0, 0x80], [0xEA, 0xB3, 0xA0],
     [0xEB, 0x85, 0xB8], [0xEB, 0x8F, 0x84], [0xEB, 0xA1, 0x9C], [0xEB, 0xAA, 0xA8], [0xEB, 0xB3, 0xB4],
     [0xEC, 0x86, 0x8C], [0xEC, 0x98, 0xA4], [0xEC, 0xA1, 0xB0], [0xEA, 0xB5, 0xAC], [0xEB, 0x88, 0x84],
     [0xEB, 0x91, 0x90], [0xEB, 0xA3, 0xA8], [0xEB, 0xAC, 0xB4], [0xEB, 0xB6, 0x80], [0xEC, 0x88, 0x98],
     [0xEC, 0x9A, 0xB0], [0xEC, 0xA3, 0xBC], [0xEC, 0x95, 0x84], [0xEB, 0xB0, 0x94], [0xEC, 0x82, 0xAC],
     [0xEC, 0x9E, 0x90], [0xEB, 0xB0, 0xB0], [0xED, 0x95, 0x98], [0xED, 0x97, 0x88], [0xED, 0x98, 0xB8],
     [0xED, 0x85, 0x8C], [0xEC, 0x8A, 0xA4], [0xED, 0x8A, 0xB8], [0xEC, 0xB9, 0xB4]]"

text \<open>The search loop; \<open>UTF8\<close> is left alone when the letter is not in the table.\<close>

fun euckr_search :: "bytes \<Rightarrow> bytes list \<Rightarrow> bytes list \<Rightarrow> bytes \<Rightarrow> bytes option" where
  "euckr_search temp (k # ks) (u # us) UTF8 =
     (if k ! 0 = temp ! 0 \<and> k ! 1 = temp ! 1 then blit UTF8 0 u else euckr_search temp ks us UTF8)"
| "euckr_search temp _ _ UTF8 = Some UTF8"

definition CstEUCKR2UTF8 :: "bytes \<Rightarrow> bytes \<Rightarrow> bytes option" where
  "CstEUCKR2UTF8 UTF8 EUKkr = do {
     t0 \<leftarrow> rd EUKkr 0;
     t1 \<leftarrow> rd EUKkr 1;
     euckr_search [t0, t1] CarNumEUC_KR CarNumUTF8 UTF8
   }"

section \<open>Upload callback\<close>

text \<open>\<open>readptr\<close> is the rest of the object that the pointer points into.  The result is the number of bytes and the
  bytes copied to \<open>ptr\<close>; \<open>size_t\<close> has 32 bits.\<close>

record WriteThis =
  readptr :: bytes
  sizeleft :: nat

definition read_callback :: "nat \<Rightarrow> nat \<Rightarrow> WriteThis \<Rightarrow> (nat \<times> bytes \<times> WriteThis) option" where
  "read_callback sz nmemb upload =
     (let mx = sz * nmemb mod 2 ^ 32 in
      if mx < 1 then Some (0, [], upload)
      else if sizeleft upload \<noteq> 0
      then (let copylen = (if mx > sizeleft upload then sizeleft upload else mx) in do {
        bs \<leftarrow> slice (readptr upload) 0 copylen;
        Some (copylen, bs, upload\<lparr>readptr := drop copylen (readptr upload), sizeleft := sizeleft upload - copylen\<rparr>)
      })
      else Some (0, [], upload))"

section \<open>Door lock and ground fault\<close>

abbreviation (input) B_TYPE :: int where "B_TYPE \<equiv> 8001"
abbreviation (input) BC_TYPE :: int where "BC_TYPE \<equiv> 8003"
abbreviation (input) BB_TYPE :: int where "BB_TYPE \<equiv> 8004"
abbreviation (input) BC2_TYPE :: int where "BC2_TYPE \<equiv> 8007"

datatype ChannelType = CH1 | CH2

definition CstCheckDoorLock :: "int \<Rightarrow> ChannelType \<Rightarrow> bool" where
  "CstCheckDoorLock devtype ch \<longleftrightarrow> devtype = BB_TYPE \<or> devtype = BC_TYPE \<and> ch = CH2 \<or>
     devtype = BC2_TYPE \<and> ch = CH2 \<or> devtype = B_TYPE \<and> ch = CH1"

text \<open>\<open>closed\<close> is the state of the lock's contact (\<open>DoorLockIsClosed\<close>).\<close>

definition CstCheckDoorClosed :: "int \<Rightarrow> (ChannelType \<Rightarrow> bool) \<Rightarrow> ChannelType \<Rightarrow> bool" where
  "CstCheckDoorClosed devtype closed ch =
     (if CstCheckDoorLock devtype ch then (if closed ch then True else False) else True)"

text \<open>The arguments are the pin number and the successive values of its register.  The result tells whether the
  contactor is opened, and how many values were read.\<close>

definition gfci_low :: "nat \<Rightarrow> u32 \<Rightarrow> bool" where
  "gfci_low gpio regValue \<longleftrightarrow> regValue AND push_bit (gpio mod 32) 1 = 0"

definition DoGfciFunc :: "nat \<Rightarrow> u32 \<Rightarrow> u32 \<Rightarrow> u32 \<Rightarrow> bool \<times> nat" where
  "DoGfciFunc gpio r1 r2 r3 =
     (if gfci_low gpio r1 then
        (if gfci_low gpio r2 then
           (if gfci_low gpio r3 then (True, 3) else (False, 3))
         else (False, 2))
      else (False, 1))"

definition StartStopCharging :: "bool \<Rightarrow> int \<Rightarrow> int" where
  "StartStopCharging bSet now = (if bSet then now else 0)"

end
