(* ===== verification/Meter.thy ===== *)
theory Meter
  imports Ring Common Crc
begin

text \<open>
  The watt-hour meter on RS-485 (\<open>src/project/tsct2007a/cstwatthourmeter.c\<close>): a read task moves received bytes into
  the byte queue; the monitoring task sends a Modbus request every 2.1 seconds, takes what the queue holds as the
  response and stores energy, current and voltage.

  \<open>None\<close> is an access outside an array or the overflow of an \<open>int\<close>.
\<close>

section \<open>Floating point\<close>

text \<open>A non-negative IEEE number is a pair of a mantissa \<open>m\<close> and a shift \<open>s\<close>, of value \<open>m / 2 ^ s\<close>.  \<open>fl p a b\<close> is
  \<open>a / b\<close> (less than \<open>2 ^ p\<close>) rounded to nearest, ties to even, with a significand of \<open>p\<close> bits.\<close>

type_synonym float_val = "nat \<times> nat"

definition round_half_even :: "nat \<Rightarrow> nat \<Rightarrow> nat" where
  "round_half_even a b = (let q = a div b; r = a mod b in
     if 2 * r < b then q else if b < 2 * r then q + 1 else if even q then q else q + 1)"

function fl_shift :: "nat \<Rightarrow> nat \<Rightarrow> nat \<Rightarrow> nat" where
  "fl_shift p a b = (if a = 0 \<or> b * 2 ^ (p - 1) \<le> a then 0 else Suc (fl_shift p (2 * a) b))"
  by auto
termination
  by (relation "measure (\<lambda>(p, a, b). b * 2 ^ (p - 1) - a)") auto

declare fl_shift.simps [simp del]

definition fl :: "nat \<Rightarrow> nat \<Rightarrow> nat \<Rightarrow> float_val" where
  "fl p a b = (let s = fl_shift p a b in (round_half_even (a * 2 ^ s) b, s))"

text \<open>\<open>((float)n) / 100.\<close>: the division is done in \<open>double\<close>, the result is stored in a \<open>float\<close>.\<close>

definition float_div100 :: "nat \<Rightarrow> float_val" where
  "float_div100 n = (case fl 53 n 100 of (m, s) \<Rightarrow> fl 24 m (2 ^ s))"

text \<open>\<open>(uint16_t)(current * 100.0)\<close>: the product of a \<open>float\<close> and 100 is exact in \<open>double\<close>.\<close>

definition trunc_times100 :: "float_val \<Rightarrow> u16" where
  "trunc_times100 c = (case c of (m, s) \<Rightarrow> w16 (m * 100 div 2 ^ s))"

section \<open>State\<close>

record meter =
  sRS485errors :: int
  AmiErrCnt :: int
  sWhmReadQueue :: ReadQueue
  sWhmListener :: bool
  bAmiErrChk :: bool
  ipositiveActiveEnergy :: u32
  gcurrent :: u16
  gvolt :: u16
  gwattx :: u32
  booting_set :: bool
  m_eqp_watt :: bytes
  m_eqp_status :: bytes

datatype meter_act =
    Meter_write bytes
  | Meter_listener float_val u16 u32

section \<open>Receiving\<close>

text \<open>One pass of the read task with the bytes that \<open>read\<close> returned.\<close>

definition RS485ReadTask :: "bytes \<Rightarrow> meter \<Rightarrow> meter option" where
  "RS485ReadTask buffer m = do {
     q \<leftarrow> enq_all ReadQueueEnqueue buffer (sWhmReadQueue m);
     Some (m\<lparr>sWhmReadQueue := q\<rparr>)
   }"

section \<open>Helpers\<close>

definition Bcd2Decimal :: "u8 \<Rightarrow> int" where
  "Bcd2Decimal hex = uint (drop_bit 4 (hex AND 0xF0)) * 10 + uint (hex AND 0x0F)"

definition Checksum :: "bytes \<Rightarrow> nat \<Rightarrow> u8 option" where
  "Checksum data sz = map_option (foldl (\<lambda>c b. c XOR b) 0) (slice data 0 (sz - 2))"

definition RequestIdNew :: "meter \<Rightarrow> meter option" where
  "RequestIdNew m = do {
     es \<leftarrow> CstSetEpqStatus 29 True (m_eqp_status m);
     Some (m\<lparr>AmiErrCnt := 0, m_eqp_status := es\<rparr>)
   }"

definition crc16 :: "bytes \<Rightarrow> u16" where
  "crc16 buffer =
     (let r = foldl TsctCrc16_step (0xFF, 0xFF) buffer
      in push_bit 8 (ucast (fst r)) OR ucast (snd r))"

section \<open>The request\<close>

abbreviation (input) MBRQ_SZ :: nat where "MBRQ_SZ \<equiv> 21"
abbreviation (input) MBRF_SZ :: nat where "MBRF_SZ \<equiv> 47"

text \<open>\<open>EM2P_REQ\<close>.\<close>

definition meter_request :: bytes where
  "meter_request = (let h = [0, 3, 0, 0, 0, w8 MBRQ_SZ]; crc = crc16 h in h @ [ucast (drop_bit 8 (crc AND 0xff00)), ucast (crc AND 0xff)])"

text \<open>The value of two and of four bytes; the latter is computed in \<open>int\<close>.\<close>

definition be16_at :: "bytes \<Rightarrow> nat \<Rightarrow> nat option" where
  "be16_at r i = do {
     a \<leftarrow> rd r i;
     b \<leftarrow> rd r (i + 1);
     Some (unat a * 0x100 + unat b)
   }"

definition be32_at :: "bytes \<Rightarrow> nat \<Rightarrow> u32 option" where
  "be32_at r i = do {
     a \<leftarrow> be16_at r i;
     b \<leftarrow> be16_at r (i + 2);
     if a * 0x10000 + b < 2 ^ 31 then Some (word_of_nat (a * 0x10000 + b)) else None
   }"

text \<open>What follows when the response is accepted.\<close>

definition meter_store :: "bytes \<Rightarrow> meter \<Rightarrow> (meter \<times> meter_act list) option" where
  "meter_store responsex m = do {
     energy \<leftarrow> be32_at responsex 3;
     n \<leftarrow> be16_at responsex 29;
     let current = float_div100 n;
     let gc = trunc_times100 current;
     volt \<leftarrow> be16_at responsex 27;
     let gv = w16 volt * 10;
     watt \<leftarrow> (if unat gv * unat gc < 2 ^ 31 then Some (word_of_nat (unat gv * unat gc div 1000)) else None);
     let m = m\<lparr>ipositiveActiveEnergy := energy, gcurrent := gc, gvolt := gv, gwattx := watt\<rparr>;
     let acts = (if sWhmListener m then [Meter_listener current (w16 volt) energy] else []);
     if \<not> booting_set m
     then do {
       ew \<leftarrow> ValueOrderFourByte (m_eqp_watt m) energy;
       Some (m\<lparr>m_eqp_watt := ew, booting_set := True\<rparr>, acts)
     }
     else Some (m, acts)
   }"

definition RequestValueNew :: "meter \<Rightarrow> (bool \<times> meter \<times> meter_act list) option" where
  "RequestValueNew m = do {
     (q, responsex, sz) \<leftarrow> drain_queue 200 (sWhmReadQueue m) (replicate 256 0) 0;
     let m = m\<lparr>sWhmReadQueue := q\<rparr>;
     let acts = [Meter_write meter_request];
     if sz \<noteq> MBRF_SZ then Some (False, m, acts)
     else do {
       let m = m\<lparr>sRS485errors := 0\<rparr>;
       body \<leftarrow> slice responsex 0 (MBRF_SZ - 2);
       rxcrc \<leftarrow> be16_at responsex (MBRF_SZ - 2);
       if crc16 body \<noteq> w16 rxcrc
       then Some (False, m\<lparr>sRS485errors := sRS485errors m + 1\<rparr>, acts)
       else do {
         (m, more) \<leftarrow> meter_store responsex (m\<lparr>sRS485errors := 0\<rparr>);
         Some (True, m, acts @ more)
       }
     }
   }"

text \<open>One pass of the monitoring task, and what it does once before.\<close>

definition ValueMonitoringTask :: "bool \<Rightarrow> meter \<Rightarrow> (meter \<times> meter_act list) option" where
  "ValueMonitoringTask bGloAdminStatus m = do {
     (ok, m, acts) \<leftarrow> RequestValueNew m;
     Some (m\<lparr>bAmiErrChk := (if sRS485errors m < 10 \<or> bGloAdminStatus then False else True)\<rparr>, acts)
   }"

definition ValueMonitoringTask_start :: "meter \<Rightarrow> meter" where
  "ValueMonitoringTask_start m = m\<lparr>sRS485errors := 10\<rparr>"

section \<open>Interface\<close>

definition WattHourMeterStartMonitoring :: "meter \<Rightarrow> meter" where
  "WattHourMeterStartMonitoring m = m\<lparr>sWhmListener := True\<rparr>"

definition WattHourMeterStopMonitoring :: "meter \<Rightarrow> meter" where
  "WattHourMeterStopMonitoring m = m\<lparr>sWhmListener := False\<rparr>"

definition WattHourMeterInit :: "meter \<Rightarrow> meter" where
  "WattHourMeterInit m =
     m\<lparr>sRS485errors := 0, sWhmListener := False, AmiErrCnt := 0, sWhmReadQueue := ReadQueueInit (sWhmReadQueue m)\<rparr>"

end
