(* ===== verification/Common_Thms.thy ===== *)
theory Common_Thms
  imports Common
begin

text \<open>
  Properties of the shared helpers: round trips of the byte order and of the date digits, the equipment status bits
  and the delivery of an upload.
\<close>

section \<open>Byte order\<close>

lemma four_bytes_word:
  "push_bit 24 (ucast (ucast (drop_bit 24 n) :: u8)) OR push_bit 16 (ucast (ucast (drop_bit 16 n) :: u8)) OR
   push_bit 8 (ucast (ucast (drop_bit 8 n) :: u8)) OR ucast (ucast n :: u8) = (n :: u32)"
  (is "?l = n")
proof (rule bit_word_eqI)
  fix k assume "k < LENGTH(32)"
  then consider "k < 8" | "8 \<le> k" "k < 16" | "16 \<le> k" "k < 24" | "24 \<le> k" "k < 32" by fastforce
  then show "bit ?l k = bit n k" by cases (auto simp: bit_simps)
qed

lemma word_four_bytes:
  fixes b0 b1 b2 b3 :: u8
  defines "n \<equiv> push_bit 24 (ucast b0) OR push_bit 16 (ucast b1) OR push_bit 8 (ucast b2) OR ucast b3 :: u32"
  shows "ucast (drop_bit 24 n) = b0" "ucast (drop_bit 16 n) = b1" "ucast (drop_bit 8 n) = b2" "ucast n = b3"
  unfolding n_def by (rule bit_word_eqI; auto simp: bit_simps dest: bit_imp_le_length)+

lemma four_elements: "4 \<le> length buf \<Longrightarrow> \<exists>b0 b1 b2 b3 rest. buf = b0 # b1 # b2 # b3 # rest"
  by (cases buf; cases "tl buf"; cases "tl (tl buf)"; cases "tl (tl (tl buf))") auto

lemma four_bytes_stored:
  assumes "4 \<le> length buf"
  shows "\<exists>buf'. ValueOrderFourByte buf n = Some buf' \<and> FourByteOrder buf' = Some n \<and> drop 4 buf' = drop 4 buf \<and>
    length buf' = length buf \<and> (\<exists>v. FourByteOrder buf = Some v \<and> ValueOrderFourByte buf v = Some buf)"
proof -
  obtain b0 b1 b2 b3 rest where buf: "buf = b0 # b1 # b2 # b3 # rest"
    using four_elements [OF assms] by blast
  have v: "ValueOrderFourByte buf m =
      Some (ucast (drop_bit 24 m) # ucast (drop_bit 16 m) # ucast (drop_bit 8 m) # ucast m # rest)" for m
    by (simp add: ValueOrderFourByte_def wr_def buf)
  have f: "FourByteOrder (a # b # c # d # xs) =
      Some (push_bit 24 (ucast a) OR push_bit 16 (ucast b) OR push_bit 8 (ucast c) OR ucast d)" for a b c d xs
    by (simp add: FourByteOrder_def rd_def)
  show ?thesis
  proof (intro exI conjI)
    show "ValueOrderFourByte buf (push_bit 24 (ucast b0) OR push_bit 16 (ucast b1) OR push_bit 8 (ucast b2) OR ucast b3) = Some buf"
      unfolding v word_four_bytes by (simp add: buf)
    show "FourByteOrder buf = Some (push_bit 24 (ucast b0) OR push_bit 16 (ucast b1) OR push_bit 8 (ucast b2) OR ucast b3)"
      unfolding buf f ..
    show "FourByteOrder (ucast (drop_bit 24 n) # ucast (drop_bit 16 n) # ucast (drop_bit 8 n) # ucast n # rest) = Some n"
      unfolding f four_bytes_word ..
  qed (simp_all only: v, simp_all add: buf)
qed

text \<open>The two byte order functions are inverse to each other: a 32-bit value stored by \<open>ValueOrderFourByte\<close> is read
  back by \<open>FourByteOrder\<close>, nothing beyond the four bytes changes, and storing what was read changes nothing.\<close>

theorem four_byte_roundtrip:
  assumes "4 \<le> length buf"
  shows "\<exists>buf'. ValueOrderFourByte buf n = Some buf' \<and> FourByteOrder buf' = Some n \<and> drop 4 buf' = drop 4 buf \<and>
    length buf' = length buf \<and> (\<exists>v. FourByteOrder buf = Some v \<and> ValueOrderFourByte buf v = Some buf)"
  using assms by (rule four_bytes_stored)

theorem four_byte_roundtrip_witness:
  "\<exists>buf'. ValueOrderFourByte [1, 2, 3, 4, 5] 0xDEADBEEF = Some buf' \<and> FourByteOrder buf' = Some 0xDEADBEEF"
  using four_byte_roundtrip [of "[1, 2, 3, 4, 5]" "0xDEADBEEF"] by auto

section \<open>Equipment status\<close>

text \<open>The 64 status bits are independent: after a bit has been set or cleared, reading it tells the value that was
  written (\<open>CstGetEpqStatus\<close> returns true for a cleared bit), every other bit reads as before, and the array keeps
  its size.\<close>

theorem eqp_status_bits:
  assumes "length st = 8" "n < 64"
  shows "\<exists>st'. CstSetEpqStatus n b st = Some st' \<and> length st' = 8 \<and> CstGetEpqStatus n st' = Some (\<not> b) \<and>
    (\<forall>m. m < 64 \<and> m \<noteq> n \<longrightarrow> CstGetEpqStatus m st' = CstGetEpqStatus m st)"
proof -
  define x where "x = (if b then st ! (n div 8) OR push_bit (n mod 8) 1 else st ! (n div 8) AND NOT (push_bit (n mod 8) 1))"
  define st' where "st' = st[n div 8 := x]"
  have d: "m < 64 \<Longrightarrow> m div 8 < 8" for m :: nat by (rule less_mult_imp_div_less) simp
  have s: "CstSetEpqStatus n b st = Some st'"
    using assms d [of n] by (simp add: CstSetEpqStatus_def Let_def rd_def wr_def st'_def x_def)
  have l: "length st' = 8" using assms(1) by (simp add: st'_def)
  have g: "CstGetEpqStatus m u = Some (\<not> bit (u ! (m div 8)) (m mod 8))" if "length u = 8" "m < 64" for m u
    using that d [of m] by (simp add: CstGetEpqStatus_def Let_def rd_def and_exp_eq_0_iff_not_bit)
  have "bit x (m mod 8) = (if m mod 8 = n mod 8 then b else bit (st ! (n div 8)) (m mod 8))" for m
    by (cases "m mod 8 = n mod 8") (auto simp: x_def bit_simps)
  then have "bit (st' ! (m div 8)) (m mod 8) = (if m = n then b else bit (st ! (m div 8)) (m mod 8))" if "m < 64" for m
    using assms d [OF that] d [OF assms(2)] div_mult_mod_eq [of m 8] div_mult_mod_eq [of n 8]
    by (cases "m div 8 = n div 8") (auto simp: st'_def)
  then show ?thesis using s l g assms by auto
qed

theorem eqp_status_bits_witness:
  "\<exists>st'. CstSetEpqStatus 29 False (replicate 8 0xFF) = Some st' \<and> CstGetEpqStatus 29 st' = Some True"
  using eqp_status_bits [of "replicate 8 0xFF" 29 False] by auto

section \<open>Date\<close>

definition bcd_val :: "u8 \<Rightarrow> int" where
  "bcd_val b = 10 * uint (drop_bit 4 b) + uint (b AND 0x0F)"

lemma pack_val:
  assumes "x < 10" "y < 10"
  shows "bcd_val (pack_digits (w8 (0x30 + x)) (w8 (0x30 + y))) = 10 * int x + int y"
proof -
  have "\<forall>x \<in> {..<10}. \<forall>y \<in> {..<10}. bcd_val (pack_digits (w8 (0x30 + x)) (w8 (0x30 + y))) = 10 * int x + int y"
    by code_simp
  then show ?thesis using assms by blast
qed

lemma dec_1: "n < 10 \<Longrightarrow> dec_nat n = [w8 (0x30 + n)]"
  by (subst dec_nat.simps) simp

lemma dec_2: "10 \<le> n \<Longrightarrow> n < 100 \<Longrightarrow> dec_nat n = [w8 (0x30 + n div 10), w8 (0x30 + n mod 10)]"
  by (subst dec_nat.simps) (simp add: dec_1)

lemma dec_3: "100 \<le> n \<Longrightarrow> n < 1000 \<Longrightarrow>
    dec_nat n = [w8 (0x30 + n div 100), w8 (0x30 + n div 10 mod 10), w8 (0x30 + n mod 10)]"
  by (subst dec_nat.simps) (simp add: dec_2 div_mult2_eq [symmetric])

lemma dec_4: "1000 \<le> n \<Longrightarrow> n < 10000 \<Longrightarrow>
    dec_nat n = [w8 (0x30 + n div 1000), w8 (0x30 + n div 100 mod 10), w8 (0x30 + n div 10 mod 10), w8 (0x30 + n mod 10)]"
  by (subst dec_nat.simps) (simp add: dec_3 div_mult2_eq [symmetric])

lemma fmt_02d_2:
  assumes "0 \<le> i" "i < 100"
  shows "fmt_02d i = [w8 (0x30 + nat i div 10), w8 (0x30 + nat i mod 10)]"
proof (cases "i < 10")
  case True
  then have "nat i < 10" by simp
  then show ?thesis using assms True by (simp add: fmt_02d_def fmt_d_def dec_1) (simp add: w8_def)
next
  case False
  then have "10 \<le> nat i" "nat i < 100" using assms by auto
  then show ?thesis using assms False by (simp add: fmt_02d_def fmt_d_def dec_2)
qed

lemma fmt_d_4:
  assumes "1000 \<le> i" "i < 10000"
  shows "fmt_d i = [w8 (0x30 + nat i div 1000), w8 (0x30 + nat i div 100 mod 10), w8 (0x30 + nat i div 10 mod 10),
    w8 (0x30 + nat i mod 10)]"
proof -
  have "1000 \<le> nat i" "nat i < 10000" using assms by auto
  then show ?thesis using assms by (simp add: fmt_d_def dec_4)
qed

lemma date_pack_7:
  assumes "temp = [d0, d1, d2, d3, d4, d5, d6, d7, d8, d9, d10, d11, d12, d13, z]" "7 \<le> length buf"
  shows "date_pack 7 0 temp buf = Some ([pack_digits d0 d1, pack_digits d2 d3, pack_digits d4 d5, pack_digits d6 d7,
    pack_digits d8 d9, pack_digits d10 d11, pack_digits d12 d13] @ drop 7 buf)"
proof -
  obtain b0 b1 b2 b3 b' where 1: "buf = b0 # b1 # b2 # b3 # b'" using four_elements [of buf] assms(2) by auto
  obtain b4 b5 b6 rest where "b' = b4 # b5 # b6 # rest"
    using assms(2) by (cases b'; cases "tl b'"; cases "tl (tl b')") (auto simp: 1)
  then show ?thesis by (simp add: assms(1) 1 eval_nat_numeral rd_def wr_def)
qed

lemma two_digits:
  assumes "0 \<le> i" "i < 100"
  shows "bcd_val (pack_digits (w8 (0x30 + nat i div 10)) (w8 (0x30 + nat i mod 10))) = i"
proof -
  have "nat i div 10 < 10" "nat i mod 10 < 10" using assms by auto
  then have "bcd_val (pack_digits (w8 (0x30 + nat i div 10)) (w8 (0x30 + nat i mod 10))) =
      10 * int (nat i div 10) + int (nat i mod 10)"
    by (rule pack_val)
  also have "\<dots> = int (10 * (nat i div 10) + nat i mod 10)" by (simp only: of_nat_add of_nat_mult of_nat_numeral)
  also have "\<dots> = i" using assms(1) by (simp only: mult_div_mod_eq int_nat_eq if_True)
  finally show ?thesis .
qed

text \<open>For a year of four digits \<open>CurrentDateTime\<close> stores century, year, month, day, hour, minute and second as
  seven BCD bytes: decoding them gives the fields of the local time back.\<close>

theorem date_time_bcd:
  assumes "1000 \<le> tm_year t + 1900" "tm_year t + 1900 < 10000" "0 \<le> tm_mon t" "tm_mon t < 12"
    and "1 \<le> tm_mday t" "tm_mday t \<le> 31" "0 \<le> tm_hour t" "tm_hour t < 24" "0 \<le> tm_min t" "tm_min t < 60"
    and "0 \<le> tm_sec t" "tm_sec t \<le> 60" and "7 \<le> length buf"
  shows "\<exists>buf'. CurrentDateTime t buf = Some buf' \<and> drop 7 buf' = drop 7 buf \<and>
     map bcd_val (take 7 buf') = [(tm_year t + 1900) div 100, (tm_year t + 1900) mod 100, tm_mon t + 1, tm_mday t,
       tm_hour t, tm_min t, tm_sec t]"
proof -
  let ?y = "tm_year t + 1900"
  let ?d = "\<lambda>i. [w8 (0x30 + nat i div 10), w8 (0x30 + nat i mod 10)]"
  have n: "nat ?y div 1000 = nat (?y div 100) div 10" "nat ?y div 100 mod 10 = nat (?y div 100) mod 10"
    "nat ?y div 10 mod 10 = nat (?y mod 100) div 10" "nat ?y mod 10 = nat (?y mod 100) mod 10"
    using assms(1) by (simp_all add: nat_div_distrib nat_mod_distrib div_mult2_eq [symmetric] mod_mult2_eq [of _ 10 10, simplified])
  have "date_digits t = ?d (?y div 100) @ ?d (?y mod 100) @ ?d (tm_mon t + 1) @ ?d (tm_mday t) @ ?d (tm_hour t) @
      ?d (tm_min t) @ ?d (tm_sec t)"
    unfolding date_digits_def fmt_d_4 [OF assms(1,2)] n using assms by (simp add: fmt_02d_2)
  then have "CurrentDateTime t buf = Some (map (\<lambda>i. pack_digits (w8 (0x30 + nat i div 10)) (w8 (0x30 + nat i mod 10)))
      [?y div 100, ?y mod 100, tm_mon t + 1, tm_mday t, tm_hour t, tm_min t, tm_sec t] @ drop 7 buf)"
    by (simp add: CurrentDateTime_def blit_def date_pack_7 [OF refl assms(13)])
  moreover have "?y div 100 < 100" using assms(2) by simp
  ultimately show ?thesis using assms by (simp add: two_digits)
qed

theorem date_time_bcd_witness:
  "\<exists>buf'. CurrentDateTime \<lparr>tm_year = 124, tm_mon = 1, tm_mday = 29, tm_hour = 23, tm_min = 59, tm_sec = 7\<rparr> (replicate 7 0) =
     Some buf' \<and> map bcd_val (take 7 buf') = [20, 24, 2, 29, 23, 59, 7]"
  using date_time_bcd [of "\<lparr>tm_year = 124, tm_mon = 1, tm_mday = 29, tm_hour = 23, tm_min = 59, tm_sec = 7\<rparr>" "replicate 7 0"]
  by auto

section \<open>Upload\<close>

text \<open>The calls of the library: a list of buffer sizes; what was delivered is collected until a call returns 0.\<close>

fun deliver :: "(nat \<times> nat) list \<Rightarrow> WriteThis \<Rightarrow> bytes option" where
  "deliver [] up = Some []"
| "deliver ((sz, nmemb) # calls) up = do {
     (n, bs, up) \<leftarrow> read_callback sz nmemb up;
     if n = 0 then Some [] else Option.bind (deliver calls up) (\<lambda>rest. Some (bs @ rest))
   }"

lemma chunk: "take (min m s) r @ take n (take (s - min m s) (drop (min m s) r)) = take (m + n) (take s r)"
proof (cases "m \<le> s")
  case True
  then have "take (m + n) (take s r) = take m (take s r) @ take n (drop m (take s r))" by (simp only: take_add)
  then show ?thesis using True by (simp add: drop_take min_absorb1)
next
  case False
  then show ?thesis by simp
qed

text \<open>The upload callback delivers the data once, in order and without exceeding the buffers: after any sequence of
  calls with buffers that are not empty, the bytes handed over are the first bytes of the data, as many as the
  buffers hold together, and all of the data as soon as the buffers are large enough.\<close>

theorem upload_delivers:
  assumes "sizeleft up \<le> length (readptr up)" "\<forall>c \<in> set calls. 0 < fst c * snd c \<and> fst c * snd c < 2 ^ 32"
  shows "deliver calls up = Some (take (sum_list (map (\<lambda>c. fst c * snd c) calls)) (take (sizeleft up) (readptr up)))"
  using assms
proof (induction calls arbitrary: up)
  case Nil
  then show ?case by simp
next
  case (Cons c calls)
  obtain sz nm where c: "c = (sz, nm)" by (cases c)
  let ?m = "sz * nm"
  have m: "0 < ?m" "?m mod 2 ^ 32 = ?m" using Cons.prems(2) c by auto
  show ?case
  proof (cases "sizeleft up = 0")
    case True
    then show ?thesis using m by (simp add: c read_callback_def Let_def)
  next
    case False
    let ?k = "min ?m (sizeleft up)"
    let ?up = "up\<lparr>readptr := drop ?k (readptr up), sizeleft := sizeleft up - ?k\<rparr>"
    have k0: "0 < ?k" using m False by simp
    have k: "(if ?m > sizeleft up then sizeleft up else ?m) = ?k" "?k \<noteq> 0" using m False by auto
    have "read_callback sz nm up = Some (?k, take ?k (readptr up), ?up)"
      using m False Cons.prems(1) k by (simp add: read_callback_def Let_def slice_def min_def)
    moreover have "deliver calls ?up = Some (take (sum_list (map (\<lambda>c. fst c * snd c) calls)) (take (sizeleft ?up) (readptr ?up)))"
      by (rule Cons.IH) (use Cons.prems in auto)
    ultimately show ?thesis
      using k0 chunk [of ?m "sizeleft up" "readptr up" "sum_list (map (\<lambda>c. fst c * snd c) calls)"] by (simp add: c del: min_less_iff_conj)
  qed
qed

theorem upload_delivers_witness:
  "deliver [(1, 2), (2, 1), (1, 4)] \<lparr>readptr = [1, 2, 3, 4, 5, 0], sizeleft = 5\<rparr> = Some [1, 2, 3, 4, 5]"
  using upload_delivers [of "\<lparr>readptr = [1, 2, 3, 4, 5, 0], sizeleft = 5\<rparr>" "[(1, 2), (2, 1), (1, 4)]"] by auto

end
