(* ===== verification/Meter_Thms.thy ===== *)
theory Meter_Thms
  imports Complex_Main Meter Common_Thms
begin

text \<open>
  Properties of the watt-hour meter: a correct response is stored, anything else is rejected without an effect on the
  values, the stored current is exact to one hundredth of an ampere, and the error flag never comes back.
\<close>

section \<open>Draining the queue\<close>

lemma drain_256:
  assumes "ring_inv q"
  shows "\<exists>q'. drain_queue 200 q (replicate 256 0) 0 =
      Some (q', ring_list q @ replicate (256 - length (ring_list q)) 0, length (ring_list q)) \<and>
    ring_inv q' \<and> ring_list q' = []"
proof -
  have "length (ring_list q) \<le> 63" by (rule ring.abs_cap [OF assms])
  then show ?thesis
    using drain_queue_all [OF assms, of 200 "[]" 0 "replicate (length (ring_list q)) 0" "replicate (256 - length (ring_list q)) 0"]
    by (simp flip: replicate_add)
qed

section \<open>Responses\<close>

lemma crc16_TsctCrc16: "crc16 bs = TsctCrc16 bs"
  by (simp add: crc16_def TsctCrc16_def)

definition meter_response :: "bytes \<Rightarrow> bool" where
  "meter_response r \<longleftrightarrow> length r = 47 \<and>
     TsctCrc16 (take 45 r) = w16 (unat (r ! 45) * 0x100 + unat (r ! 46))"

definition meter_inv :: "meter \<Rightarrow> bool" where
  "meter_inv m \<longleftrightarrow> ring_inv (sWhmReadQueue m) \<and> length (m_eqp_watt m) = 4"

lemma RequestValueNew_cases:
  assumes "meter_inv m" "ring_list (sWhmReadQueue m) = r"
  shows "\<exists>q'. ring_inv q' \<and> ring_list q' = [] \<and> RequestValueNew m =
    (if length r \<noteq> 47 then Some (False, m\<lparr>sWhmReadQueue := q'\<rparr>, [Meter_write meter_request])
     else if \<not> meter_response r
     then Some (False, m\<lparr>sWhmReadQueue := q', sRS485errors := 1\<rparr>, [Meter_write meter_request])
     else Option.bind (meter_store (r @ replicate (256 - length r) 0) (m\<lparr>sWhmReadQueue := q', sRS485errors := 0\<rparr>))
       (\<lambda>(m, more). Some (True, m, Meter_write meter_request # more)))"
proof -
  obtain q' where d: "drain_queue 200 (sWhmReadQueue m) (replicate 256 0) 0 =
      Some (q', r @ replicate (256 - length r) 0, length r)" "ring_inv q'" "ring_list q' = []"
    using drain_256 [of "sWhmReadQueue m"] assms by (auto simp: meter_inv_def)
  have "RequestValueNew m =
    (if length r \<noteq> 47 then Some (False, m\<lparr>sWhmReadQueue := q'\<rparr>, [Meter_write meter_request])
     else if \<not> meter_response r
     then Some (False, m\<lparr>sWhmReadQueue := q', sRS485errors := 1\<rparr>, [Meter_write meter_request])
     else Option.bind (meter_store (r @ replicate (256 - length r) 0) (m\<lparr>sWhmReadQueue := q', sRS485errors := 0\<rparr>))
       (\<lambda>(m, more). Some (True, m, Meter_write meter_request # more)))"
  proof (cases "length r = 47")
    case True
    have s: "slice (r @ replicate (256 - length r) 0) 0 45 = Some (take 45 r)"
      using True by (simp add: slice_def)
    have b: "be16_at (r @ replicate (256 - length r) 0) 45 = Some (unat (r ! 45) * 0x100 + unat (r ! 46))"
      using True by (simp add: be16_at_def rd_def nth_append)
    show ?thesis
      using True s b by (simp add: RequestValueNew_def d Let_def crc16_TsctCrc16 meter_response_def)
  qed (simp add: RequestValueNew_def d Let_def)
  then show ?thesis using d by blast
qed

lemma be16_at_append: "i + 1 < length r \<Longrightarrow> be16_at (r @ pad) i = Some (unat (r ! i) * 0x100 + unat (r ! (i + 1)))"
  by (simp add: be16_at_def rd_def nth_append)

section \<open>Rounding\<close>

lemma round_half_even_error:
  assumes "0 < b"
  shows "2 * \<bar>real (round_half_even a b) * real b - real a\<bar> \<le> real b"
proof -
  let ?q = "a div b" and ?r = "a mod b"
  have a: "real a = real ?q * real b + real ?r" by (metis of_nat_add of_nat_mult div_mult_mod_eq)
  have r: "real ?r < real b" using assms by simp
  have c: "real (round_half_even a b) = real ?q \<and> 2 * ?r \<le> b \<or> real (round_half_even a b) = real ?q + 1 \<and> b \<le> 2 * ?r"
    by (auto simp: round_half_even_def Let_def)
  then show ?thesis
  proof
    assume k: "real (round_half_even a b) = real ?q \<and> 2 * ?r \<le> b"
    then have "real (round_half_even a b) * real b - real a = - real ?r" unfolding a by simp
    then show ?thesis using k by simp
  next
    assume k: "real (round_half_even a b) = real ?q + 1 \<and> b \<le> 2 * ?r"
    then have "real (round_half_even a b) * real b - real a = real b - real ?r" unfolding a by (simp add: algebra_simps)
    moreover have "real b \<le> 2 * real ?r" using k by linarith
    ultimately show ?thesis using r by simp
  qed
qed

lemma fl_shift_bound: "0 < a \<Longrightarrow> b * 2 ^ (p - 1) \<le> a * 2 ^ fl_shift p a b"
proof (induction p a b rule: fl_shift.induct)
  case (1 p a b)
  show ?case
  proof (cases "b * 2 ^ (p - 1) \<le> a")
    case True
    then show ?thesis by (subst fl_shift.simps) simp
  next
    case False
    then have "b * 2 ^ (p - 1) \<le> 2 * a * 2 ^ fl_shift p (2 * a) b" using 1 by simp
    moreover have "fl_shift p a b = Suc (fl_shift p (2 * a) b)" using False 1(2) by (subst fl_shift.simps) simp
    ultimately show ?thesis by (simp add: mult.assoc mult.left_commute)
  qed
qed

text \<open>The relative error of one rounding is at most \<open>2 ^ -p\<close>.\<close>

lemma fl_error:
  assumes "0 < a" "0 < b" "0 < p" "fl p a b = (m, s)"
  shows "\<bar>real m / 2 ^ s - real a / real b\<bar> \<le> real a / real b / 2 ^ p"
proof -
  have s: "s = fl_shift p a b" and m: "m = round_half_even (a * 2 ^ s) b" using assms(4) by (auto simp: fl_def Let_def)
  let ?E = "\<bar>real m * real b - real a * 2 ^ s\<bar>" and ?P = "2 ^ (p - 1) :: real"
  have "2 * \<bar>real m * real b - real (a * 2 ^ s)\<bar> \<le> real b" unfolding m by (rule round_half_even_error [OF assms(2)])
  then have "2 * ?E * ?P \<le> real b * ?P" by (intro mult_right_mono) simp_all
  also have "real b * ?P \<le> real a * 2 ^ s"
  proof -
    have "real (b * 2 ^ (p - 1)) \<le> real (a * 2 ^ s)"
      unfolding s of_nat_le_iff by (rule fl_shift_bound [OF assms(1)])
    then show ?thesis by simp
  qed
  finally have "2 * ?E * ?P \<le> real a * 2 ^ s" .
  moreover have "(2::real) ^ p = 2 * ?P" using assms(3) by (cases p) auto
  ultimately have e: "?E * 2 ^ p \<le> real a * 2 ^ s" by (simp add: ac_simps)
  have "real m / 2 ^ s - real a / real b = (real m * real b - real a * 2 ^ s) / (2 ^ s * real b)"
    using assms(2) by (subst diff_frac_eq) simp_all
  then have "\<bar>real m / 2 ^ s - real a / real b\<bar> = ?E / (2 ^ s * real b)"
    by (simp add: abs_mult)
  also have "\<dots> \<le> (real a * 2 ^ s / 2 ^ p) / (2 ^ s * real b)"
  proof (rule divide_right_mono)
    show "?E \<le> real a * 2 ^ s / 2 ^ p" using e by (simp add: pos_le_divide_eq)
  qed simp
  also have "\<dots> = real a / real b / 2 ^ p" by simp
  finally show ?thesis .
qed

lemma current_error:
  assumes "0 < n" "float_div100 n = (m, s)"
  shows "\<bar>real m / 2 ^ s - real n / 100\<bar> \<le> real n / 100 / 2 ^ 23"
proof -
  obtain m1 s1 where 1: "fl 53 n 100 = (m1, s1)" by (cases "fl 53 n 100")
  have 2: "fl 24 m1 (2 ^ s1) = (m, s)" using assms(2) by (simp add: float_div100_def 1)
  let ?x = "real n / 100" and ?y = "real m1 / 2 ^ s1"
  have e1: "\<bar>?y - ?x\<bar> \<le> ?x / 2 ^ 53" using fl_error [OF assms(1) _ _ 1] by simp
  have x: "0 < ?x" using assms(1) by simp
  have "0 < ?y"
  proof (rule ccontr)
    assume "\<not> 0 < ?y"
    moreover have "0 \<le> ?y" by simp
    ultimately have "?y = 0" by linarith
    moreover have "?x / 2 ^ 53 < ?x" using x by (simp add: field_simps)
    ultimately show False using e1 x by linarith
  qed
  then have "0 < m1" by (simp add: zero_less_divide_iff)
  then have "\<bar>real m / 2 ^ s - real m1 / real (2 ^ s1)\<bar> \<le> real m1 / real (2 ^ s1) / 2 ^ 24"
    by (rule fl_error [OF _ _ _ 2]) simp_all
  then have e2: "\<bar>real m / 2 ^ s - ?y\<bar> \<le> ?y / 2 ^ 24" by simp
  have y: "?y \<le> ?x + ?x / 2 ^ 53" using e1 by linarith
  have "\<bar>real m / 2 ^ s - ?x\<bar> \<le> ?y / 2 ^ 24 + ?x / 2 ^ 53" using e1 e2 by linarith
  also have "\<dots> \<le> (?x + ?x / 2 ^ 53) / 2 ^ 24 + ?x / 2 ^ 53"
    by (intro add_mono divide_right_mono y) simp_all
  also have "\<dots> \<le> ?x / 2 ^ 23" using x by (simp add: field_simps)
  finally show ?thesis .
qed

lemma fl_shift_eqI:
  "b * 2 ^ (p - 1) \<le> a * 2 ^ s \<Longrightarrow> s = 0 \<or> a * 2 ^ (s - 1) < b * 2 ^ (p - 1) \<Longrightarrow> 0 < a \<Longrightarrow> fl_shift p a b = s"
proof (induction s arbitrary: a)
  case 0
  then show ?case by (subst fl_shift.simps) simp
next
  case (Suc s)
  have lt: "a * 2 ^ s < b * 2 ^ (p - 1)" using Suc.prems(2) by simp
  then have "a < b * 2 ^ (p - 1)" using le_less_trans [of a "a * 2 ^ s"] by simp
  then have "fl_shift p a b = Suc (fl_shift p (2 * a) b)" using Suc.prems(3) by (subst fl_shift.simps) simp
  moreover have "fl_shift p (2 * a) b = s"
  proof (rule Suc.IH)
    show "b * 2 ^ (p - 1) \<le> 2 * a * 2 ^ s" using Suc.prems(1) by (simp add: mult.commute mult.left_commute)
    show "s = 0 \<or> 2 * a * 2 ^ (s - 1) < b * 2 ^ (p - 1)"
      using lt by (cases s) (simp_all add: mult.commute mult.left_commute)
  qed (use Suc.prems(3) in simp)
  ultimately show ?case by simp
qed

text \<open>Two values of \<open>n / 100\<close> in single precision.\<close>

lemma div100_1: "float_div100 1 = (10737418, 30)"
proof -
  have "fl_shift 53 1 100 = 59" by (rule fl_shift_eqI) simp_all
  then have "fl 53 1 100 = (5764607523034235, 59)" by (simp add: fl_def round_half_even_def)
  moreover have "fl_shift 24 5764607523034235 (2 ^ 59) = 30" by (rule fl_shift_eqI) simp_all
  then have "fl 24 5764607523034235 (2 ^ 59) = (10737418, 30)" by (simp add: fl_def round_half_even_def)
  ultimately show ?thesis by (simp add: float_div100_def)
qed

lemma div100_1608: "float_div100 1608 = (8430551, 19)"
proof -
  have "fl_shift 53 1608 100 = 48" by (rule fl_shift_eqI) simp_all
  then have "fl 53 1608 100 = (4526117625507348, 48)" by (simp add: fl_def round_half_even_def)
  moreover have "fl_shift 24 4526117625507348 (2 ^ 48) = 19" by (rule fl_shift_eqI) simp_all
  then have "fl 24 4526117625507348 (2 ^ 48) = (8430551, 19)" by (simp add: fl_def round_half_even_def)
  ultimately show ?thesis by (simp add: float_div100_def)
qed

lemma fl_0: "0 < b \<Longrightarrow> fl p 0 b = (0, 0)"
proof -
  assume "0 < b"
  moreover have "fl_shift p 0 b = 0" by (subst fl_shift.simps) simp
  ultimately show ?thesis by (simp add: fl_def round_half_even_def)
qed

text \<open>C37. The current is stored in hundredths of an ampere with an error of at most one unit, downwards: the detour
  through \<open>float\<close> makes \<open>gcurrent\<close> the transmitted value or one less. The second case occurs (0.01 A is stored as 0,
  16.08 A as 16.07 A).\<close>

theorem meter_current_bounds:
  assumes "n < 65536"
  shows "(unat (trunc_times100 (float_div100 n)) = n \<or> unat (trunc_times100 (float_div100 n)) + 1 = n) \<and>
    trunc_times100 (float_div100 1) = 0 \<and> trunc_times100 (float_div100 1608) = 1607"
proof -
  have ex: "trunc_times100 (float_div100 1) = 0 \<and> trunc_times100 (float_div100 1608) = 1607"
    unfolding div100_1 div100_1608 trunc_times100_def by (simp add: w16_def)
  obtain m s where c: "float_div100 n = (m, s)" by (cases "float_div100 n")
  show ?thesis
  proof (cases "n = 0")
    case True
    have "trunc_times100 (float_div100 0) = 0"
      by (simp add: float_div100_def fl_0 trunc_times100_def w16_def)
    then show ?thesis using ex True by simp
  next
    case False
    let ?v = "real m / 2 ^ s * 100"
    have "\<bar>real m / 2 ^ s - real n / 100\<bar> \<le> real n / 100 / 2 ^ 23" using current_error [OF _ c] False by simp
    then have "\<bar>?v - real n\<bar> \<le> real n / 2 ^ 23" by (simp add: abs_le_iff field_simps)
    moreover have "real n / 2 ^ 23 < 1" using assms by simp
    ultimately have v: "real n - 1 < ?v" "?v < real n + 1" by linarith+
    have "m * 100 div 2 ^ s = nat \<lfloor>?v\<rfloor>"
      using floor_divide_of_nat_eq [of "m * 100" "2 ^ s", where 'a = real] by simp
    then have k: "m * 100 div 2 ^ s = n \<or> m * 100 div 2 ^ s + 1 = n"
      using v by linarith
    then have "m * 100 div 2 ^ s < 65536" using assms by auto
    then show ?thesis using k ex by (simp add: trunc_times100_def c unat_w16)
  qed
qed

theorem meter_current_bounds_witness:
  "unat (trunc_times100 (float_div100 3200)) = 3200 \<or> unat (trunc_times100 (float_div100 3200)) + 1 = 3200"
  using meter_current_bounds [of 3200] by simp

section \<open>Readings\<close>

definition be16_val :: "bytes \<Rightarrow> nat \<Rightarrow> nat" where
  "be16_val r i = unat (r ! i) * 0x100 + unat (r ! (i + 1))"

lemma be16_val_less: "be16_val r i < 65536"
  using unat_u8_less [of "r ! i"] unat_u8_less [of "r ! (i + 1)"] unfolding be16_val_def by linarith

definition energy_val :: "bytes \<Rightarrow> u32" where
  "energy_val r = word_of_nat (be16_val r 3 * 0x10000 + be16_val r 5)"

definition store_defined :: "bytes \<Rightarrow> bool" where
  "store_defined r \<longleftrightarrow> unat (r ! 3) < 128 \<and>
     unat (w16 (be16_val r 27) * 10) * unat (trunc_times100 (float_div100 (be16_val r 29))) < 2 ^ 31"

lemma meter_store_value:
  assumes "length r = 47" "store_defined r" "length (m_eqp_watt m) = 4"
  shows "\<exists>ew. meter_store (r @ pad) m = Some (m\<lparr>
      ipositiveActiveEnergy := energy_val r,
      gcurrent := trunc_times100 (float_div100 (be16_val r 29)),
      gvolt := w16 (be16_val r 27) * 10,
      gwattx := word_of_nat (unat (w16 (be16_val r 27) * 10) * unat (trunc_times100 (float_div100 (be16_val r 29))) div 1000),
      m_eqp_watt := ew, booting_set := True\<rparr>,
      if sWhmListener m then [Meter_listener (float_div100 (be16_val r 29)) (w16 (be16_val r 27))
        (energy_val r)] else []) \<and>
    (if booting_set m then ew = m_eqp_watt m
     else FourByteOrder ew = Some (energy_val r)) \<and> length ew = 4"
proof -
  have b: "be16_at (r @ pad) 3 = Some (be16_val r 3)" "be16_at (r @ pad) 5 = Some (be16_val r 5)"
    "be16_at (r @ pad) 27 = Some (be16_val r 27)" "be16_at (r @ pad) 29 = Some (be16_val r 29)"
    using assms(1) by (simp_all add: be16_at_append be16_val_def)
  have "unat (r ! 3) < 128" using assms(2) by (simp add: store_defined_def)
  then have "be16_val r 3 < 32768" using unat_u8_less [of "r ! (3 + 1)"] unfolding be16_val_def by linarith
  then have "be16_val r 3 * 0x10000 + be16_val r 5 < 2 ^ 31" using be16_val_less [of r 5] by simp
  then have e: "be32_at (r @ pad) 3 = Some (energy_val r)"
    using b(1,2) by (simp add: be32_at_def energy_val_def)
  obtain ew where ew: "ValueOrderFourByte (m_eqp_watt m) (energy_val r) = Some ew"
      "FourByteOrder ew = Some (energy_val r)" "length ew = 4"
    using four_bytes_stored [of "m_eqp_watt m"] assms(3) by fastforce
  show ?thesis
  proof (cases "booting_set m")
    case True
    then have "m = m\<lparr>m_eqp_watt := m_eqp_watt m, booting_set := True\<rparr>" by simp
    then show ?thesis
      using True b e assms(2,3) unfolding store_defined_def
      by (intro exI [of _ "m_eqp_watt m"]) (simp add: meter_store_def Let_def)
  next
    case False
    then show ?thesis
      using b e ew assms(2) unfolding store_defined_def
      by (intro exI [of _ ew]) (simp add: meter_store_def Let_def)
  qed
qed

text \<open>C36. A correct response is stored: when the read task puts a response of 47 bytes with a correct CRC into the empty
  queue, the next poll empties the queue and stores the energy (registers 0 and 1), ten times the voltage (register
  12), the current (register 13) and their product; the listener, if there is one, gets the same reading; the
  first reading after the start is kept as the meter value for the server. The energy and the power must fit an
  \<open>int\<close>.\<close>

theorem meter_reading_stored:
  assumes "meter_inv m" "ring_list (sWhmReadQueue m) = []" "length r = 47"
    and "TsctCrc16 (take 45 r) = w16 (unat (r ! 45) * 0x100 + unat (r ! 46))" "store_defined r"
  shows "\<exists>m1 m2 more. RS485ReadTask r m = Some m1 \<and>
     RequestValueNew m1 = Some (True, m2, Meter_write meter_request # more) \<and> ring_list (sWhmReadQueue m2) = [] \<and>
     ipositiveActiveEnergy m2 = energy_val r \<and>
     gvolt m2 = w16 (be16_val r 27) * 10 \<and> gcurrent m2 = trunc_times100 (float_div100 (be16_val r 29)) \<and>
     gwattx m2 = word_of_nat (unat (gvolt m2) * unat (gcurrent m2) div 1000) \<and> sRS485errors m2 = 0 \<and>
     more = (if sWhmListener m then [Meter_listener (float_div100 (be16_val r 29)) (w16 (be16_val r 27))
       (ipositiveActiveEnergy m2)] else []) \<and> booting_set m2 \<and>
     (if booting_set m then m_eqp_watt m2 = m_eqp_watt m
      else FourByteOrder (m_eqp_watt m2) = Some (ipositiveActiveEnergy m2))"
proof -
  obtain q where q: "enq_all ReadQueueEnqueue r (sWhmReadQueue m) = Some q" "ring_inv q" "ring_list q = r"
    using ring.enq_all_ok [of "sWhmReadQueue m" r] assms(1-3) by (auto simp: meter_inv_def)
  let ?m1 = "m\<lparr>sWhmReadQueue := q\<rparr>"
  have m1: "RS485ReadTask r m = Some ?m1" using q(1) by (simp add: RS485ReadTask_def)
  have i: "meter_inv ?m1" using assms(1) q(2) by (simp add: meter_inv_def)
  have v: "meter_response r" using assms(3,4) by (simp add: meter_response_def)
  obtain q' where r: "ring_list q' = []" "RequestValueNew ?m1 =
     Option.bind (meter_store (r @ replicate (256 - length r) 0) (?m1\<lparr>sWhmReadQueue := q', sRS485errors := 0\<rparr>))
       (\<lambda>(m, more). Some (True, m, Meter_write meter_request # more))"
    using RequestValueNew_cases [OF i] q(3) v assms(3) by auto
  have w: "length (m_eqp_watt (?m1\<lparr>sWhmReadQueue := q', sRS485errors := 0\<rparr>)) = 4"
    using assms(1) by (simp add: meter_inv_def)
  show ?thesis
    using m1 r meter_store_value [OF assms(3,5) w, of "replicate (256 - length r) 0"] by (auto split: if_splits)
qed

definition zero_meter :: meter where
  "zero_meter = \<lparr>sRS485errors = 10, AmiErrCnt = 0, sWhmReadQueue = ReadQueueInit \<lparr>queue = replicate 64 0, rear = 0, front = 0\<rparr>,
     sWhmListener = False, bAmiErrChk = True, ipositiveActiveEnergy = 0, gcurrent = 0, gvolt = 0, gwattx = 0,
     booting_set = False, m_eqp_watt = replicate 4 0, m_eqp_status = replicate 8 0xFF\<rparr>"

lemma zero_meter [simp]: "meter_inv zero_meter" "ring_list (sWhmReadQueue zero_meter) = []"
  by (simp_all add: zero_meter_def meter_inv_def)

lemma w16_hi_lo: "w16 (unat (hi8 c) * 256 + unat (lo8 c)) = c"
  using unat_le16 [of "lo8 c" "hi8 c"] w16_unat [of c] by (simp add: add.commute mult.commute)

definition sample_response :: bytes where
  "sample_response = (let z = [0, 3, 42, 0, 0, 1, 44] @ replicate 38 0; c = TsctCrc16 z in z @ [hi8 c, lo8 c])"

theorem meter_reading_stored_witness:
  "\<exists>m1 m2 acts. RS485ReadTask sample_response zero_meter = Some m1 \<and> RequestValueNew m1 = Some (True, m2, acts) \<and>
     ipositiveActiveEnergy m2 = 300 \<and> FourByteOrder (m_eqp_watt m2) = Some 300"
proof -
  let ?z = "[0, 3, 42, 0, 0, 1, 44] @ replicate 38 0 :: bytes"
  have l: "length sample_response = 47" by (simp add: sample_response_def Let_def)
  have t: "take 45 sample_response = ?z" by (simp add: sample_response_def Let_def)
  have n: "sample_response ! 45 = hi8 (TsctCrc16 ?z)" "sample_response ! 46 = lo8 (TsctCrc16 ?z)"
    by (simp_all add: sample_response_def Let_def nth_append)
  have v: "be16_val sample_response 3 = 0" "be16_val sample_response 5 = 300" "be16_val sample_response 27 = 0"
    "sample_response ! 3 = 0"
    by (simp_all add: be16_val_def sample_response_def Let_def nth_append)
  have d: "store_defined sample_response" by (simp add: store_defined_def v w16_def)
  have c: "TsctCrc16 (take 45 sample_response) = w16 (unat (sample_response ! 45) * 0x100 + unat (sample_response ! 46))"
    unfolding t n using w16_hi_lo by simp
  show ?thesis
    using meter_reading_stored [OF zero_meter l c d] by (auto simp: energy_val_def v zero_meter_def)
qed

text \<open>Anything else is rejected: if the queue does not hold exactly one correct response, the poll returns false,
  empties the queue and calls no listener, and no measured value changes; a wrong CRC sets the error count to 1, a
  wrong number of bytes leaves it alone.\<close>

theorem meter_bad_response_ignored:
  assumes "meter_inv m" "ring_list (sWhmReadQueue m) = r"
    and "length r \<noteq> 47 \<or> TsctCrc16 (take 45 r) \<noteq> w16 (unat (r ! 45) * 0x100 + unat (r ! 46))"
  shows "\<exists>q'. ring_inv q' \<and> ring_list q' = [] \<and> RequestValueNew m = Some (False,
     m\<lparr>sWhmReadQueue := q', sRS485errors := (if length r = 47 then 1 else sRS485errors m)\<rparr>, [Meter_write meter_request])"
proof -
  have "\<not> meter_response r" using assms(3) by (auto simp: meter_response_def)
  then show ?thesis
    using RequestValueNew_cases [OF assms(1,2)] by (cases "length r = 47") auto
qed

theorem meter_bad_response_ignored_witness:
  "\<exists>m'. RequestValueNew zero_meter = Some (False, m', [Meter_write meter_request]) \<and> gvolt m' = 0"
proof -
  have "gvolt zero_meter = 0" by (simp add: zero_meter_def)
  then show ?thesis using meter_bad_response_ignored [of zero_meter "[]"] by auto
qed

section \<open>The error flag\<close>

text \<open>The passes of the two tasks, where a stored reading has to be defined.\<close>

inductive meter_step :: "meter \<Rightarrow> meter \<Rightarrow> bool" where
  receive: "RS485ReadTask bs m = Some m' \<Longrightarrow> meter_step m m'"
| poll: "ValueMonitoringTask adm m = Some (m', acts) \<Longrightarrow> meter_step m m'"

lemma RequestValueNew_errors:
  assumes "meter_inv m" "RequestValueNew m = Some (ok, m', acts)"
  shows "meter_inv m' \<and> sRS485errors m' = (if length (ring_list (sWhmReadQueue m)) = 47 then (if ok then 0 else 1)
      else sRS485errors m)"
proof -
  let ?r = "ring_list (sWhmReadQueue m)"
  obtain q' where q: "ring_inv q'" "RequestValueNew m =
    (if length ?r \<noteq> 47 then Some (False, m\<lparr>sWhmReadQueue := q'\<rparr>, [Meter_write meter_request])
     else if \<not> meter_response ?r
     then Some (False, m\<lparr>sWhmReadQueue := q', sRS485errors := 1\<rparr>, [Meter_write meter_request])
     else Option.bind (meter_store (?r @ replicate (256 - length ?r) 0) (m\<lparr>sWhmReadQueue := q', sRS485errors := 0\<rparr>))
       (\<lambda>(m, more). Some (True, m, Meter_write meter_request # more)))"
    using RequestValueNew_cases [OF assms(1) refl] by blast
  have st: "yields (\<lambda>(m2, more). sRS485errors m2 = sRS485errors m1 \<and> sWhmReadQueue m2 = sWhmReadQueue m1 \<and>
      length (m_eqp_watt m2) = length (m_eqp_watt m1)) (meter_store x m1)" for x m1
    unfolding meter_store_def Let_def
    by (intro yields_rules) (auto simp: ValueOrderFourByte_def Option.bind_eq_Some_conv dest!: length_wr)
  show ?thesis
    using assms q yieldsD [OF st] by (fastforce simp: meter_inv_def Option.bind_eq_Some_conv split: if_splits)
qed

text \<open>The communication error flag of the meter is lost for good: once the error count is at most 1, which the first
  response of 47 bytes achieves even when its CRC is wrong, no sequence of receptions and polls, in particular no
  silence of the meter, sets the flag again, because a missing or incomplete response does not count.\<close>

theorem meter_error_flag_lost:
  assumes "meter_step\<^sup>*\<^sup>* m m'" "meter_inv m" "sRS485errors m \<le> 1" "\<not> bAmiErrChk m"
  shows "\<not> bAmiErrChk m' \<and> sRS485errors m' \<le> 1 \<and> meter_inv m'"
  using assms
proof (induction rule: rtranclp_induct)
  case base
  then show ?case by simp
next
  case (step m1 m2)
  then have i: "meter_inv m1" "sRS485errors m1 \<le> 1" "\<not> bAmiErrChk m1" by auto
  from step.hyps(2) show ?case
  proof cases
    case (receive bs)
    then obtain q where "enq_all ReadQueueEnqueue bs (sWhmReadQueue m1) = Some q" "m2 = m1\<lparr>sWhmReadQueue := q\<rparr>"
      by (auto simp: RS485ReadTask_def Option.bind_eq_Some_conv)
    then show ?thesis using i ring.enq_all_ok [of "sWhmReadQueue m1" bs] by (auto simp: meter_inv_def)
  next
    case (poll adm acts)
    then obtain ok m3 where r: "RequestValueNew m1 = Some (ok, m3, acts)"
        "m2 = m3\<lparr>bAmiErrChk := (if sRS485errors m3 < 10 \<or> adm then False else True)\<rparr>"
      by (auto simp: ValueMonitoringTask_def Option.bind_eq_Some_conv)
    then show ?thesis using RequestValueNew_errors [OF i(1) r(1)] i by (auto simp: meter_inv_def)
  qed
qed

theorem meter_error_flag_lost_witness:
  "\<exists>m'. meter_step (zero_meter\<lparr>sRS485errors := 1, bAmiErrChk := False\<rparr>) m' \<and> \<not> bAmiErrChk m'"
proof -
  let ?m = "zero_meter\<lparr>sRS485errors := 1, bAmiErrChk := False\<rparr>"
  have i: "meter_inv ?m" "ring_list (sWhmReadQueue ?m) = []" by (simp_all add: zero_meter_def meter_inv_def)
  obtain m1 acts where "RequestValueNew ?m = Some (False, m1, acts)"
    using RequestValueNew_cases [OF i] by auto
  then have "\<exists>m'. ValueMonitoringTask False ?m = Some (m', acts)" by (simp add: ValueMonitoringTask_def)
  then obtain m' where s: "meter_step ?m m'" by (blast intro: meter_step.poll)
  have "meter_step\<^sup>*\<^sup>* ?m m'" using s by (rule r_into_rtranclp [where r = meter_step])
  then have "\<not> bAmiErrChk m'" using meter_error_flag_lost [of ?m m'] i(1) by simp
  then show ?thesis using s by blast
qed

end
