(* ===== verification/Card.thy ===== *)
theory Card
  imports Ring
begin

text \<open>
  The RFID card reader on RS-232 (\<open>src/project/tsct2007a/cstcardreader.c\<close>): a read task moves received bytes into
  the byte queue; the monitoring task takes what the queue holds as a response, recognises the three kinds of card,
  hands the number to the listener as text and stops the polling of the reader until the next restart.

  \<open>None\<close> is an access outside an array.  A function that sends a command waits 300 ms for the answer: its argument
  \<open>rx\<close> is what the read task receives meanwhile.
\<close>

section \<open>State\<close>

record card =
  card_queue :: ReadQueue
  sReadRunning :: bool
  sCardListener :: bool
  nCnt :: nat
  sMonitoringTaskExit :: bool
  card_task :: bool
  rfredercheck :: bool

datatype card_act =
    Card_write bytes
  | Card_listener bytes

datatype card_kind = UID_CARD | TMONEY_CARD | OTHER_CARD

section \<open>Receiving\<close>

text \<open>One pass of the read task with the bytes that \<open>RS232Read\<close> would return.\<close>

definition RS232ReadTask :: "bytes \<Rightarrow> card \<Rightarrow> card option" where
  "RS232ReadTask buffer c =
     (if sReadRunning c
      then do {
        q \<leftarrow> enq_all ReadQueueEnqueue buffer (card_queue c);
        Some (c\<lparr>card_queue := q\<rparr>)
      }
      else Some c)"

text \<open>The loop that empties the queue into \<open>char response[256]\<close>, cleared before.\<close>

definition card_response :: "card \<Rightarrow> (card \<times> bytes \<times> nat) option" where
  "card_response c = do {
     (q, response, sz) \<leftarrow> drain_whole (card_queue c) (replicate 256 0);
     Some (c\<lparr>card_queue := q\<rparr>, response, sz)
   }"

section \<open>Commands\<close>

text \<open>A command carries the sum of the bytes 1 to 3.\<close>

definition card_command :: "u8 \<Rightarrow> bytes" where
  "card_command cmd = (let request = [0x02, cmd, 0x00, 0x00, 0x00, 0x03] in request[4 := request ! 1 + request ! 2 + request ! 3])"

definition RequestPollingStart :: "bytes \<Rightarrow> card \<Rightarrow> (card \<times> card_act list) option" where
  "RequestPollingStart rx c = do {
     c \<leftarrow> RS232ReadTask rx c;
     (c, response, sz) \<leftarrow> card_response c;
     Some (c, [Card_write (card_command 0x0E)])
   }"

definition RequestPollingStop :: "bytes \<Rightarrow> card \<Rightarrow> (card \<times> card_act list) option" where
  "RequestPollingStop rx c = do {
     c \<leftarrow> RS232ReadTask rx c;
     (c, response, sz) \<leftarrow> card_response c;
     Some (c, [Card_write [0x02, 0x8F, 0x00, 0x00, 0x8F, 0x03]])
   }"

definition RequestTest :: "bytes \<Rightarrow> card \<Rightarrow> (nat \<times> card \<times> card_act list) option" where
  "RequestTest rx c = do {
     c \<leftarrow> RS232ReadTask rx c;
     (c, response, sz) \<leftarrow> card_response c;
     Some (sz, c, [Card_write (card_command 0x0F)])
   }"

definition RFIDCardReaderCheck :: "bytes \<Rightarrow> card \<Rightarrow> (bool \<times> card \<times> card_act list) option" where
  "RFIDCardReaderCheck rx c = do {
     (sz, c, acts) \<leftarrow> RequestTest rx (c\<lparr>sReadRunning := True\<rparr>);
     let c = c\<lparr>rfredercheck := \<not> 0 < sz, sReadRunning := False\<rparr>;
     Some (rfredercheck c, c, acts)
   }"

section \<open>Card numbers as text\<close>

text \<open>One turn of the loop in \<open>HexToASCII_8\<close>: the bytes \<open>pOut[i]\<close> and \<open>pOut[i+1]\<close>.\<close>

definition hex_digit :: "u8 \<Rightarrow> u8" where
  "hex_digit d = (if 9 < d then d + 0x30 + 0x7 else d + 0x30)"

definition hex_byte :: "u8 \<Rightarrow> bytes" where
  "hex_byte b = [hex_digit (drop_bit 4 b AND 0x0F), hex_digit (b AND 0x0F)]"

text \<open>The loop over \<open>n\<close> bytes of \<open>pBuf\<close> with \<open>i\<close> advancing by two.\<close>

fun HexToASCII_8 :: "nat \<Rightarrow> bytes \<Rightarrow> nat \<Rightarrow> nat \<Rightarrow> bytes \<Rightarrow> bytes option" where
  "HexToASCII_8 0 pBuf p i pOut = Some pOut"
| "HexToASCII_8 (Suc n) pBuf p i pOut = do {
     b \<leftarrow> rd pBuf p;
     pOut \<leftarrow> blit pOut i (hex_byte b);
     HexToASCII_8 n pBuf (p + 1) (i + 2) pOut
   }"

text \<open>The loop of \<open>HexToASCII_16\<close>: \<open>i\<close> runs from 0 to \<open>len * 4 - 1\<close>; turn \<open>i\<close> writes \<open>pOut[i*4]\<close> to \<open>pOut[i*4+3]\<close>.
  The first argument is the number of turns left.\<close>

fun HexToASCII_16 :: "nat \<Rightarrow> bytes \<Rightarrow> nat \<Rightarrow> nat \<Rightarrow> bytes \<Rightarrow> bytes option" where
  "HexToASCII_16 0 pBuf p i pOut = Some pOut"
| "HexToASCII_16 (Suc n) pBuf p i pOut = do {
     b \<leftarrow> rd pBuf p;
     let low = b AND 0x0F;
     let high = drop_bit 4 b AND 0x0F;
     pOut \<leftarrow> blit pOut (i * 4) [high div 10 + 0x30, high mod 10 + 0x30, low div 10 + 0x30, low mod 10 + 0x30];
     HexToASCII_16 n pBuf (p + 1) (i + 1) pOut
   }"

section \<open>The monitoring task\<close>

definition card_received :: "bytes \<Rightarrow> card_kind option" where
  "card_received response =
     (if response ! 0 = 0x02 \<and> response ! 2 = 0x01
      then if response ! 1 = 0x17 then Some UID_CARD
           else if response ! 1 = 0x3d then Some TMONEY_CARD
           else if response ! 1 = 0x3e then Some OTHER_CARD
           else None
      else None)"

text \<open>\<open>char Out[16]\<close> is not initialised: its contents are the argument.\<close>

definition card_report :: "bytes \<Rightarrow> card_kind \<Rightarrow> bytes \<Rightarrow> card \<Rightarrow> card_act list option" where
  "card_report Out bReceived response c =
     (if sCardListener c
      then if bReceived = UID_CARD
           then do {
             out \<leftarrow> HexToASCII_16 (4 * 4) response 6 0 Out;
             Some [Card_listener out]
           }
           else do {
             out \<leftarrow> HexToASCII_8 8 response 5 0 Out;
             Some [Card_listener out]
           }
      else do {
        out \<leftarrow> HexToASCII_16 (4 * 4) response 6 0 Out;
        Some []
      })"

text \<open>One pass of the loop; \<open>rx1\<close> and \<open>rx2\<close> are received while it waits for the answers to its commands.\<close>

definition UidAutoReadTask :: "bytes \<Rightarrow> bytes \<Rightarrow> bytes \<Rightarrow> card \<Rightarrow> (card \<times> card_act list) option" where
  "UidAutoReadTask Out rx1 rx2 c =
     (if sMonitoringTaskExit c then Some (c\<lparr>card_task := False\<rparr>, [])
      else do {
        (c, response, sz) \<leftarrow> card_response c;
        (c, acts) \<leftarrow> (case card_received response of
            None \<Rightarrow> Some (c, [])
          | Some bReceived \<Rightarrow> do {
              acts \<leftarrow> card_report Out bReceived response c;
              (c, more) \<leftarrow> RequestPollingStop rx1 c;
              Some (c, acts @ more)
            });
        if 100 < nCnt c
        then do {
          (c, more) \<leftarrow> RequestPollingStart rx2 (c\<lparr>nCnt := 0\<rparr>);
          Some (c, acts @ more)
        }
        else Some (c\<lparr>nCnt := nCnt c + 1\<rparr>, acts)
      })"

section \<open>Interface\<close>

definition CardReaderStopMonitoring :: "bytes \<Rightarrow> card \<Rightarrow> (card \<times> card_act list) option" where
  "CardReaderStopMonitoring rx c = do {
     (c, acts) \<leftarrow> RequestPollingStop rx c;
     Some (c\<lparr>sMonitoringTaskExit := True, sReadRunning := False\<rparr>, acts)
   }"

text \<open>A new task begins with its counter at 0 and \<open>RequestPollingStart\<close>.\<close>

definition CardReaderStartMonitoring :: "bool \<Rightarrow> bytes \<Rightarrow> card \<Rightarrow> (card \<times> card_act list) option" where
  "CardReaderStartMonitoring listener rx c =
     (let c = c\<lparr>sCardListener := listener, sReadRunning := True\<rparr>
      in if card_task c then Some (c, [])
         else RequestPollingStart rx (c\<lparr>sMonitoringTaskExit := False, card_task := True, nCnt := 0\<rparr>))"

text \<open>The first call, which also starts the read task.\<close>

definition CardReaderInit :: "bytes \<Rightarrow> card \<Rightarrow> (card \<times> card_act list) option" where
  "CardReaderInit rx c = do {
     (fault, c, acts) \<leftarrow> RFIDCardReaderCheck rx (c\<lparr>card_queue := ReadQueueInit (card_queue c)\<rparr>);
     Some (c, acts)
   }"

end
