(* ===== verification/Card_Thms.thy ===== *)
theory Card_Thms
  imports Card
begin

text \<open>
  Properties of the card reader: a T-money or other card reaches the listener as the hexadecimal text of its
  number and stops the polling; a UID card overruns the text buffer; polling is restarted every 102 passes.
\<close>

section \<open>Hexadecimal text\<close>

definition hex_value :: "u8 \<Rightarrow> u8" where
  "hex_value ch = (if 0x41 \<le> ch then ch - 0x37 else ch - 0x30)"

fun hex_decode :: "bytes \<Rightarrow> bytes" where
  "hex_decode (h # l # cs) = (push_bit 4 (hex_value h) OR hex_value l) # hex_decode cs"
| "hex_decode _ = []"

lemma hex_value_digit:
  assumes "d \<le> 15"
  shows "hex_value (hex_digit d) = d"
proof -
  have "\<forall>n \<in> {0..<16::nat}. hex_value (hex_digit (word_of_nat n)) = word_of_nat n"
    by (simp add: atLeastLessThan_nat_numeral hex_value_def hex_digit_def)
  moreover have "unat d < 16" using assms by (simp add: word_le_nat_alt)
  ultimately have "hex_value (hex_digit (word_of_nat (unat d))) = word_of_nat (unat d)" by force
  then show ?thesis by simp
qed

lemma nibbles: "push_bit 4 (drop_bit 4 b AND 0x0F) OR (b AND 0x0F) = (b :: u8)"
proof -
  have m: "(0x0F :: u8) = mask 4" by (simp add: mask_eq_exp_minus_1)
  show ?thesis unfolding m by (rule bit_word_eqI) (auto simp: bit_simps)
qed

lemma hex_decode_byte: "hex_decode (hex_byte b @ cs) = b # hex_decode cs"
proof -
  have "x AND 0x0F \<le> 15" for x :: u8 by (rule word_and_le1)
  then have "hex_decode (hex_byte b @ cs) = (push_bit 4 (drop_bit 4 b AND 0x0F) OR (b AND 0x0F)) # hex_decode cs"
    by (simp only: hex_byte_def append_Cons append_Nil hex_decode.simps hex_value_digit)
  then show ?thesis unfolding nibbles .
qed

lemma hex_decode_text: "hex_decode (concat (map hex_byte bs)) = bs"
  by (induction bs) (simp_all add: hex_decode_byte)

lemma length_hex_text: "length (concat (map hex_byte bs)) = 2 * length bs"
  by (induction bs) (simp_all add: hex_byte_def)

lemma HexToASCII_8_text:
  assumes "p + n \<le> length pBuf" "i + 2 * n \<le> length pOut"
  shows "HexToASCII_8 n pBuf p i pOut =
    Some (take i pOut @ concat (map hex_byte (take n (drop p pBuf))) @ drop (i + 2 * n) pOut)"
  using assms
proof (induction n arbitrary: p i pOut)
  case (Suc n)
  have l: "length (hex_byte b) = 2" for b by (simp add: hex_byte_def)
  have d: "drop p pBuf = pBuf ! p # drop (Suc p) pBuf" using Suc.prems by (simp add: Cons_nth_drop_Suc)
  show ?case using Suc.prems by (simp add: rd_inside blit_inside l Suc.IH d add.commute)
qed simp

lemma HexToASCII_16_out:
  "length pOut \<le> 4 * i + 3 \<Longrightarrow> HexToASCII_16 (Suc n) pBuf p i pOut = None"
  by (cases "rd pBuf p") (simp_all add: blit_def)

lemma HexToASCII_16_stops:
  "length pOut = 16 \<Longrightarrow> i \<le> 4 \<Longrightarrow> 4 < i + n \<Longrightarrow> HexToASCII_16 n pBuf p i pOut = None"
proof (induction n arbitrary: p i pOut)
  case (Suc n)
  show ?case
  proof (cases "i = 4")
    case True
    then show ?thesis using HexToASCII_16_out [of pOut 4 n pBuf p] Suc.prems by simp
  next
    case False
    then have "HexToASCII_16 n pBuf (p + 1) (i + 1) out = None" if "length out = 16" for out
      using Suc.IH [of out "i + 1" "p + 1"] Suc.prems that by simp
    then have "yields (\<lambda>_. False) (HexToASCII_16 (Suc n) pBuf p i pOut)"
      unfolding HexToASCII_16.simps Let_def
      by (intro yields_bind) (simp add: length_blit [of pOut] Suc.prems yields_None)
    then show ?thesis by (cases "HexToASCII_16 (Suc n) pBuf p i pOut") (auto dest: yieldsD)
  qed
qed simp

lemma uid_text_overruns: "length Out = 16 \<Longrightarrow> HexToASCII_16 16 pBuf p 0 Out = None"
  by (rule HexToASCII_16_stops) simp_all

section \<open>Commands\<close>

definition padded :: "bytes \<Rightarrow> bytes" where
  "padded r = r @ replicate (256 - length r) 0"

lemma card_response_all:
  assumes "ring_inv (card_queue c)"
  shows "\<exists>q'. card_response c = Some (c\<lparr>card_queue := q'\<rparr>, padded (ring_list (card_queue c)), length (ring_list (card_queue c))) \<and>
    ring_inv q' \<and> ring_list q' = []"
  using drain_whole_all [OF assms, of "replicate 256 0" 256]
  by (auto simp: card_response_def padded_def)

lemma RS232ReadTask_all:
  assumes "ring_inv (card_queue c)"
  shows "\<exists>q'. RS232ReadTask rx c = Some (c\<lparr>card_queue := q'\<rparr>) \<and> ring_inv q' \<and>
    ring_list q' = (if sReadRunning c then take 63 (ring_list (card_queue c) @ rx) else ring_list (card_queue c))"
proof (cases "sReadRunning c")
  case True
  then show ?thesis using ring.enq_all_ok [OF assms, of rx] by (auto simp: RS232ReadTask_def)
next
  case False
  then show ?thesis using assms by (auto simp: RS232ReadTask_def intro!: exI [of _ "card_queue c"])
qed

lemma card_commands:
  assumes "ring_inv (card_queue c)"
  shows "\<exists>q'. RequestPollingStop rx c = Some (c\<lparr>card_queue := q'\<rparr>, [Card_write (card_command 0x8F)]) \<and>
      RequestPollingStart rx c = Some (c\<lparr>card_queue := q'\<rparr>, [Card_write (card_command 0x0E)]) \<and>
      ring_inv q' \<and> ring_list q' = []"
proof -
  obtain q1 where q1: "RS232ReadTask rx c = Some (c\<lparr>card_queue := q1\<rparr>)" "ring_inv q1"
    using RS232ReadTask_all [OF assms] by blast
  obtain q2 r where "card_response (c\<lparr>card_queue := q1\<rparr>) = Some (c\<lparr>card_queue := q2\<rparr>, r)" "ring_inv q2" "ring_list q2 = []"
    using card_response_all [of "c\<lparr>card_queue := q1\<rparr>"] q1 by auto
  then show ?thesis using q1
    by (intro exI [of _ q2]) (cases r, simp add: RequestPollingStop_def RequestPollingStart_def card_command_def)
qed

section \<open>One pass\<close>

text \<open>The acts of a pass for a recognised card, and of the restart.\<close>

definition card_number :: "bytes \<Rightarrow> bytes" where
  "card_number response = take 8 (drop 5 response)"

definition restart_acts :: "card \<Rightarrow> card_act list" where
  "restart_acts c = (if 100 < nCnt c then [Card_write (card_command 0x0E)] else [])"

definition count_pass :: "card \<Rightarrow> card" where
  "count_pass c = c\<lparr>nCnt := if 100 < nCnt c then 0 else nCnt c + 1\<rparr>"

lemma card_pass:
  assumes "ring_inv (card_queue c)" "\<not> sMonitoringTaskExit c" "length Out = 16" "sCardListener c"
    and r: "response = padded (ring_list (card_queue c))" "card_received response \<noteq> Some UID_CARD"
  shows "\<exists>q'. UidAutoReadTask Out rx1 rx2 c = Some (count_pass (c\<lparr>card_queue := q'\<rparr>),
      (if card_received response = None then []
       else [Card_listener (concat (map hex_byte (card_number response))), Card_write (card_command 0x8F)]) @ restart_acts c) \<and>
    ring_inv q' \<and> ring_list q' = []"
proof -
  obtain q1 where q1: "card_response c = Some (c\<lparr>card_queue := q1\<rparr>, response, length (ring_list (card_queue c)))"
      "ring_inv q1" "ring_list q1 = []"
    using card_response_all [OF assms(1)] r by blast
  obtain q2 where q2: "RequestPollingStop rx1 (c\<lparr>card_queue := q1\<rparr>) = Some (c\<lparr>card_queue := q2\<rparr>, [Card_write (card_command 0x8F)])"
      "ring_inv q2" "ring_list q2 = []"
    using card_commands [of "c\<lparr>card_queue := q1\<rparr>" rx1] q1 by auto
  have "256 \<le> length response" using r by (simp add: padded_def)
  then have hexed: "HexToASCII_8 8 response 5 0 Out = Some (concat (map hex_byte (card_number response)))"
    using HexToASCII_8_text [of 5 8 response 0 Out] assms(3) by (simp add: card_number_def)
  have again: "\<exists>q'. RequestPollingStart rx2 (c\<lparr>card_queue := q, nCnt := 0\<rparr>) =
        Some (c\<lparr>card_queue := q', nCnt := 0\<rparr>, [Card_write (card_command 0x0E)]) \<and> ring_inv q' \<and> ring_list q' = []"
    if "ring_inv q" for q
  proof -
    have e: "c\<lparr>nCnt := 0, card_queue := q'\<rparr> = c\<lparr>card_queue := q', nCnt := 0\<rparr>" for q' by (cases c) simp
    show ?thesis using card_commands [of "c\<lparr>card_queue := q, nCnt := 0\<rparr>" rx2] that by (auto simp: e)
  qed
  show ?thesis
  proof (cases "card_received response")
    case None
    then show ?thesis
      using q1 again [OF q1(2)] assms(2) by (auto simp: UidAutoReadTask_def restart_acts_def count_pass_def)
  next
    case (Some k)
    then have "card_report Out k response (c\<lparr>card_queue := q1\<rparr>) = Some [Card_listener (concat (map hex_byte (card_number response)))]"
      using hexed r(2) assms(4) by (simp add: card_report_def)
    then show ?thesis
      using q1 q2 again [OF q2(2)] assms(2) Some by (auto simp: UidAutoReadTask_def restart_acts_def count_pass_def)
  qed
qed

lemma card_pass_uid:
  assumes "ring_inv (card_queue c)" "\<not> sMonitoringTaskExit c" "length Out = 16"
    and "card_received (padded (ring_list (card_queue c))) = Some UID_CARD"
  shows "UidAutoReadTask Out rx1 rx2 c = None"
proof -
  obtain q1 n where q1: "card_response c = Some (c\<lparr>card_queue := q1\<rparr>, padded (ring_list (card_queue c)), n)"
    using card_response_all [OF assms(1)] by blast
  have "card_report Out UID_CARD response c' = None" for response c'
    using uid_text_overruns [OF assms(3)] by (simp add: card_report_def)
  then show ?thesis using q1 assms(2,4) by (simp add: UidAutoReadTask_def)
qed

lemma card_received_not_uid: "response ! 1 \<noteq> 0x17 \<Longrightarrow> card_received response \<noteq> Some UID_CARD"
  by (simp add: card_received_def)

section \<open>Runs\<close>

text \<open>A sequence of passes; each is given what was received before it and during its two waits, and the
  uninitialised buffer.\<close>

type_synonym card_input = "bytes \<times> bytes \<times> bytes \<times> bytes"

fun card_run :: "card_input list \<Rightarrow> card \<Rightarrow> (card \<times> card_act list list) option" where
  "card_run [] c = Some (c, [])"
| "card_run ((rx, Out, rx1, rx2) # steps) c = do {
     c \<leftarrow> RS232ReadTask rx c;
     (c, acts) \<leftarrow> UidAutoReadTask Out rx1 rx2 c;
     (c, actss) \<leftarrow> card_run steps c;
     Some (c, acts # actss)
   }"

definition card_ready :: "card \<Rightarrow> bool" where
  "card_ready c \<longleftrightarrow> ring_inv (card_queue c) \<and> ring_list (card_queue c) = [] \<and> sReadRunning c \<and> sCardListener c \<and>
     \<not> sMonitoringTaskExit c"

definition no_uid :: "card_input \<Rightarrow> bool" where
  "no_uid i = (case i of (rx, Out, rx1, rx2) \<Rightarrow> length Out = 16 \<and> card_received (padded (take 63 rx)) \<noteq> Some UID_CARD)"

lemma card_step:
  assumes "card_ready c" "no_uid (rx, Out, rx1, rx2)"
  shows "\<exists>c1 c' acts. RS232ReadTask rx c = Some c1 \<and> UidAutoReadTask Out rx1 rx2 c1 = Some (c', acts @ restart_acts c) \<and>
    card_ready c' \<and> nCnt c' = nCnt (count_pass c)"
proof -
  obtain q1 where q1: "RS232ReadTask rx c = Some (c\<lparr>card_queue := q1\<rparr>)" "ring_inv q1" "ring_list q1 = take 63 rx"
    using RS232ReadTask_all [of c rx] assms(1) by (auto simp: card_ready_def)
  obtain q2 acts where "UidAutoReadTask Out rx1 rx2 (c\<lparr>card_queue := q1\<rparr>) =
      Some (count_pass (c\<lparr>card_queue := q2\<rparr>), acts @ restart_acts c)" "ring_inv q2" "ring_list q2 = []"
    using card_pass [of "c\<lparr>card_queue := q1\<rparr>" Out "padded (take 63 rx)" rx1 rx2] q1 assms
    by (auto simp: card_ready_def no_uid_def restart_acts_def)
  then show ?thesis using q1 assms(1)
    by (auto simp: card_ready_def count_pass_def)
qed

lemma card_run_counts:
  assumes "card_ready c" "\<forall>i\<in>set steps. no_uid i" "nCnt c + length steps \<le> 101"
  shows "\<exists>c' actss. card_run steps c = Some (c', actss) \<and> card_ready c' \<and> nCnt c' = nCnt c + length steps"
  using assms
proof (induction steps arbitrary: c)
  case (Cons i steps)
  obtain rx Out rx1 rx2 where i: "i = (rx, Out, rx1, rx2)" by (cases i)
  obtain c1 c2 acts where c2: "RS232ReadTask rx c = Some c1" "UidAutoReadTask Out rx1 rx2 c1 = Some (c2, acts @ restart_acts c)"
      "card_ready c2" "nCnt c2 = nCnt c + 1"
    using card_step [OF Cons.prems(1), of rx Out rx1 rx2] Cons.prems i by (auto simp: count_pass_def)
  then show ?case using Cons.IH [OF c2(3)] Cons.prems i by auto
qed simp

lemma card_run_append:
  "card_run (xs @ ys) c =
   Option.bind (card_run xs c) (\<lambda>(c, a). Option.bind (card_run ys c) (\<lambda>(c, b). Some (c, a @ b)))"
proof (induction xs arbitrary: c)
  case Nil
  then show ?case by (cases "card_run ys c") auto
next
  case (Cons i xs)
  obtain rx Out rx1 rx2 where i: "i = (rx, Out, rx1, rx2)" by (cases i)
  show ?case
    by (cases "RS232ReadTask rx c") (auto simp: i Cons.IH split: bind_splits)
qed

section \<open>Properties\<close>

text \<open>A reader whose queue holds \<open>r\<close>, for the witnesses.\<close>

definition card_holding :: "bytes \<Rightarrow> card" where
  "card_holding r = \<lparr>card_queue = \<lparr>queue = 0 # r @ replicate (63 - length r) 0, rear = int (length r), front = 0\<rparr>,
     sReadRunning = True, sCardListener = True, nCnt = 0, sMonitoringTaskExit = False, card_task = True, rfredercheck = False\<rparr>"

lemma card_holding_queue:
  assumes "length r \<le> 63"
  shows "ring_inv (card_queue (card_holding r))" "ring_list (card_queue (card_holding r)) = r"
proof -
  show "ring_inv (card_queue (card_holding r))" using assms by (simp add: card_holding_def ring_inv_def)
  show "ring_list (card_queue (card_holding r)) = r"
    using assms by (intro nth_equalityI) (simp_all add: card_holding_def ring_list_def nat_add_distrib nth_append)
qed

lemma card_holding_simps [simp]:
  "sReadRunning (card_holding r)" "sCardListener (card_holding r)" "\<not> sMonitoringTaskExit (card_holding r)" "nCnt (card_holding r) = 0"
  by (simp_all add: card_holding_def)

text \<open>C38. When the queue holds the response to a T-money card (\<open>0x3d\<close>) or another card (\<open>0x3e\<close>), the next pass calls the
  listener exactly once, with 16 hexadecimal digits that decode to the eight bytes of the card number, then tells the
  reader to stop polling, and leaves the queue empty.\<close>

theorem card_number_delivered:
  assumes "ring_inv (card_queue c)" "sCardListener c" "\<not> sMonitoringTaskExit c" "length Out = 16"
    and "k = 0x3d \<or> k = 0x3e" "ring_list (card_queue c) = [0x02, k, 0x01, a, b] @ number @ rest" "length number = 8"
  shows "\<exists>c' txt more. UidAutoReadTask Out rx1 rx2 c =
      Some (c', [Card_listener txt, Card_write [0x02, 0x8F, 0x00, 0x00, 0x8F, 0x03]] @ more) \<and>
    length txt = 16 \<and> hex_decode txt = number \<and> (\<forall>t. Card_listener t \<notin> set more) \<and> ring_list (card_queue c') = []"
proof -
  let ?r = "padded (ring_list (card_queue c))"
  have r: "card_received ?r \<noteq> None \<and> card_received ?r \<noteq> Some UID_CARD" "card_number ?r = number"
    using assms(5-7) by (auto simp: card_received_def padded_def card_number_def)
  obtain q' where "UidAutoReadTask Out rx1 rx2 c = Some (count_pass (c\<lparr>card_queue := q'\<rparr>),
      [Card_listener (concat (map hex_byte number)), Card_write (card_command 0x8F)] @ restart_acts c)" "ring_list q' = []"
    using card_pass [OF assms(1,3,4,2) refl, of rx1 rx2] r by auto
  then show ?thesis using length_hex_text [of number] assms(7)
    by (intro exI [of _ "count_pass (c\<lparr>card_queue := q'\<rparr>)"] exI [of _ "concat (map hex_byte number)"] exI [of _ "restart_acts c"])
      (simp add: hex_decode_text restart_acts_def card_command_def count_pass_def)
qed

theorem card_number_delivered_witness:
  "\<exists>c' txt more. UidAutoReadTask (replicate 16 0) [] [] (card_holding [0x02, 0x3d, 0x01, 0, 9, 0x10, 0x2A, 3, 4, 5, 6, 7, 0xFF]) =
     Some (c', [Card_listener txt, Card_write [0x02, 0x8F, 0x00, 0x00, 0x8F, 0x03]] @ more) \<and>
   hex_decode txt = [0x10, 0x2A, 3, 4, 5, 6, 7, 0xFF]"
  using card_number_delivered [of "card_holding [0x02, 0x3d, 0x01, 0, 9, 0x10, 0x2A, 3, 4, 5, 6, 7, 0xFF]" "replicate 16 0" "0x3d" 0 9
      "[0x10, 0x2A, 3, 4, 5, 6, 7, 0xFF]" "[]" "[]" "[]"]
  by (simp add: card_holding_queue) blast

text \<open>The listener is called for nothing else: whatever the queue holds, if a pass calls it with a text, the
  response begins with \<open>02\<close>, \<open>3d\<close> or \<open>3e\<close>, \<open>01\<close> and the text decodes to its bytes 5 to 12.\<close>

theorem card_no_false_delivery:
  assumes "ring_inv (card_queue c)" "sCardListener c" "\<not> sMonitoringTaskExit c" "length Out = 16"
    and "UidAutoReadTask Out rx1 rx2 c = Some (c', acts)" "Card_listener txt \<in> set acts"
  shows "\<exists>response. response = ring_list (card_queue c) @ replicate (256 - length (ring_list (card_queue c))) 0 \<and>
    response ! 0 = 0x02 \<and> response ! 1 \<in> {0x3d, 0x3e} \<and> response ! 2 = 0x01 \<and>
    hex_decode txt = take 8 (drop 5 response)"
proof -
  let ?r = "padded (ring_list (card_queue c))"
  have n: "card_received ?r \<noteq> Some UID_CARD" using card_pass_uid [OF assms(1,3,4), of rx1 rx2] assms(5) by auto
  then have "txt = concat (map hex_byte (card_number ?r))" "card_received ?r \<noteq> None"
    using card_pass [OF assms(1,3,4,2) refl n, of rx1 rx2] assms(5,6) by (auto simp: restart_acts_def split: if_splits)
  moreover have "hex_decode (concat (map hex_byte (card_number ?r))) = take 8 (drop 5 ?r)"
    unfolding hex_decode_text card_number_def ..
  ultimately show ?thesis using n
    by (intro exI [of _ ?r]) (auto simp: card_received_def padded_def [of "ring_list (card_queue c)"] split: if_splits)
qed

theorem card_no_false_delivery_witness:
  "\<exists>c' acts txt. UidAutoReadTask (replicate 16 0) [] [] (card_holding [0x02, 0x3e, 0x01, 0, 9, 1, 2, 3, 4, 5, 6, 7, 8]) = Some (c', acts) \<and>
     Card_listener txt \<in> set acts \<and> hex_decode txt = [1, 2, 3, 4, 5, 6, 7, 8]"
proof -
  let ?c = "card_holding [0x02, 0x3e, 0x01, 0, 9, 1, 2, 3, 4, 5, 6, 7, 8]"
  have q: "ring_inv (card_queue ?c)" "ring_list (card_queue ?c) = [0x02, 0x3e, 0x01, 0, 9, 1, 2, 3, 4, 5, 6, 7, 8]"
    by (simp_all add: card_holding_queue)
  have "card_received (padded (ring_list (card_queue ?c))) = Some OTHER_CARD"
    unfolding q(2) by (simp add: card_received_def padded_def)
  then obtain q' where s: "UidAutoReadTask (replicate 16 0) [] [] ?c = Some (count_pass (?c\<lparr>card_queue := q'\<rparr>),
      [Card_listener (concat (map hex_byte (card_number (padded (ring_list (card_queue ?c)))))), Card_write (card_command 0x8F)] @ restart_acts ?c)"
    using card_pass [OF q(1) _ _ _ refl, of "replicate 16 0" "[]" "[]"] by auto
  show ?thesis
    using card_no_false_delivery [OF q(1) _ _ _ s, of "concat (map hex_byte (card_number (padded (ring_list (card_queue ?c)))))"] s q(2)
    by auto
qed

text \<open>A response to a UID card (\<open>0x17\<close>) makes the pass write outside \<open>char Out[16]\<close>, with or without a listener:
  the loop of \<open>HexToASCII_16\<close> makes \<open>len * 4\<close> turns of four characters each.\<close>

theorem card_uid_overruns:
  assumes "ring_inv (card_queue c)" "\<not> sMonitoringTaskExit c" "length Out = 16"
    and "ring_list (card_queue c) = [0x02, 0x17, 0x01] @ rest"
  shows "UidAutoReadTask Out rx1 rx2 c = None"
  by (rule card_pass_uid [OF assms(1-3)]) (simp add: assms(4) padded_def card_received_def)

theorem card_uid_overruns_witness:
  "UidAutoReadTask (replicate 16 0) [] [] (card_holding [0x02, 0x17, 0x01, 0, 5, 1, 2, 3, 4, 0, 3]) = None"
  using card_uid_overruns [of "card_holding [0x02, 0x17, 0x01, 0, 5, 1, 2, 3, 4, 0, 3]" "replicate 16 0" "[0, 5, 1, 2, 3, 4, 0, 3]" "[]" "[]"]
  by (simp add: card_holding_queue)

text \<open>Polling comes back: a monitoring task that runs undisturbed sends the command to start polling again in the pass
  number 102 at the latest, whatever cards are read in between (UID cards excepted), and begins to count anew.\<close>

theorem card_polling_restarts:
  assumes "ring_inv (card_queue c)" "ring_list (card_queue c) = []" "sReadRunning c" "sCardListener c"
    and "\<not> sMonitoringTaskExit c" "nCnt c \<le> 101" "length steps = 102 - nCnt c"
    and "\<forall>(rx, Out, rx1, rx2) \<in> set steps. length Out = 16 \<and> take 2 rx \<noteq> [0x02, 0x17]"
  shows "\<exists>c' actss. card_run steps c = Some (c', actss) \<and> nCnt c' = 0 \<and>
    Card_write [0x02, 0x0E, 0x00, 0x00, 0x0E, 0x03] \<in> set (last actss)"
proof -
  have nu: "\<forall>i\<in>set steps. no_uid i"
  proof
    fix i assume i: "i \<in> set steps"
    obtain rx Out rx1 rx2 where e: "i = (rx, Out, rx1, rx2)" by (cases i)
    then have p: "length Out = 16" "take 2 rx \<noteq> [0x02, 0x17]" using assms(8) i by auto
    then have "card_received (padded (take 63 rx)) \<noteq> Some UID_CARD"
      by (cases rx; cases "tl rx") (auto simp: card_received_def padded_def split: if_splits)
    then show "no_uid i" using p e by (simp add: no_uid_def)
  qed
  have ready: "card_ready c" using assms by (simp add: card_ready_def)
  obtain front l where s: "steps = front @ [l]" "length front = 101 - nCnt c"
    using assms(6,7) by (cases steps rule: rev_cases) auto
  obtain rx Out rx1 rx2 where l: "l = (rx, Out, rx1, rx2)" by (cases l)
  obtain c1 actss where c1: "card_run front c = Some (c1, actss)" "card_ready c1" "nCnt c1 = 101"
    using card_run_counts [OF ready, of front] nu s assms(6) by auto
  have "no_uid l" using nu s by simp
  then obtain d c' acts where d: "RS232ReadTask rx c1 = Some d" "UidAutoReadTask Out rx1 rx2 d = Some (c', acts @ restart_acts c1)"
      "nCnt c' = 0"
    using card_step [OF c1(2), of rx Out rx1 rx2] c1(3) unfolding l by (auto simp: count_pass_def)
  then show ?thesis using s(1) l c1
    by (auto simp: card_run_append restart_acts_def card_command_def)
qed


theorem card_polling_restarts_witness:
  "\<exists>c' actss. card_run (replicate 102 ([0x02, 0x3d, 0x01], replicate 16 0, [1], [])) (card_holding []) = Some (c', actss) \<and>
     nCnt c' = 0 \<and> Card_write [0x02, 0x0E, 0x00, 0x00, 0x0E, 0x03] \<in> set (last actss)"
  using card_polling_restarts [of "card_holding []" "replicate 102 ([0x02, 0x3d, 0x01], replicate 16 0, [1], [])"]
  by (simp add: card_holding_queue)

end
