(* ===== verification/Pilot.thy ===== *)
theory Pilot
  imports Prelude
begin

text \<open>
  The control pilot (\<open>src/project/tsct2007a/cstcontrolpilot.c\<close>): a task classifies the pilot voltage that the
  modem reports (\<open>SeccRxData.pwmvoltage\<close>, in tenths of a volt) and calls the listener of the current screen when
  the class changes.  The argument of a listener call is the class; the channel is always \<open>CH1\<close> and the converter
  value is the low byte of \<open>lconv\<close>.

  \<open>None\<close> is a call through a null pointer.
\<close>

section \<open>Model\<close>

datatype CPVoltage = CP_VOLTAGE_UNKNOWN | CP_VOLTAGE_12V | CP_VOLTAGE_9V | CP_VOLTAGE_6V | CP_VOLTAGE_0V

record pilot =
  sCh1CPMonRun :: bool
  sCh1CPListener :: bool
  sCh1OldVoltage :: CPVoltage
  voltage :: CPVoltage
  lconv :: u16
  cp_relay :: bool

datatype pilot_act = CP_listener u8 CPVoltage

definition GetVoltage :: "u16 \<Rightarrow> CPVoltage" where
  "GetVoltage pwmvoltage =
     (if 110 \<le> pwmvoltage \<and> pwmvoltage \<le> 130 then CP_VOLTAGE_12V
      else if 80 \<le> pwmvoltage \<and> pwmvoltage \<le> 100 then CP_VOLTAGE_9V
      else if 50 \<le> pwmvoltage \<and> pwmvoltage \<le> 70 then CP_VOLTAGE_6V
      else if pwmvoltage \<le> 20 then CP_VOLTAGE_12V
      else CP_VOLTAGE_UNKNOWN)"

definition IsCh1VoltageChanged :: "CPVoltage \<Rightarrow> pilot \<Rightarrow> bool \<times> pilot" where
  "IsCh1VoltageChanged v p =
     (if v \<noteq> sCh1OldVoltage p then (True, p\<lparr>sCh1OldVoltage := v\<rparr>) else (False, p))"

definition IsCableDiconnected :: "pilot \<Rightarrow> bool" where
  "IsCableDiconnected p \<longleftrightarrow> sCh1OldVoltage p = CP_VOLTAGE_12V"

text \<open>One pass of the loop, with the voltage that the modem reports.\<close>

definition Ch1CPMonitoringTask :: "u16 \<Rightarrow> pilot \<Rightarrow> (pilot \<times> pilot_act list) option" where
  "Ch1CPMonitoringTask pwmvoltage p =
     (if sCh1CPMonRun p
      then (let p = p\<lparr>voltage := GetVoltage pwmvoltage\<rparr>; (changed, p) = IsCh1VoltageChanged (voltage p) p in
        if changed
        then case voltage p of
            CP_VOLTAGE_0V \<Rightarrow> Some (p, [])
          | v \<Rightarrow> if sCh1CPListener p then Some (p, [CP_listener (ucast (lconv p)) v]) else None
        else Some (p, []))
      else Some (p\<lparr>lconv := 224\<rparr>, []))"

section \<open>Interface\<close>

definition ControlPilotSetListener :: "bool \<Rightarrow> pilot \<Rightarrow> pilot" where
  "ControlPilotSetListener listener p = p\<lparr>sCh1CPListener := listener, sCh1OldVoltage := CP_VOLTAGE_UNKNOWN\<rparr>"

definition ControlPilotDisablePower :: "pilot \<Rightarrow> pilot" where
  "ControlPilotDisablePower p = p\<lparr>sCh1CPMonRun := False, cp_relay := False\<rparr>"

definition ControlPilotEnablePower :: "pilot \<Rightarrow> pilot" where
  "ControlPilotEnablePower p = p\<lparr>sCh1CPMonRun := True, cp_relay := True\<rparr>"

text \<open>The first call, which also starts the task.\<close>

definition ControlPilotInit :: "pilot \<Rightarrow> pilot" where
  "ControlPilotInit p = p\<lparr>sCh1CPMonRun := False\<rparr>"

text \<open>Successive passes.\<close>

fun pilot_run :: "u16 list \<Rightarrow> pilot \<Rightarrow> (pilot \<times> pilot_act list) option" where
  "pilot_run [] p = Some (p, [])"
| "pilot_run (v # vs) p = do {
     (p, acts) \<leftarrow> Ch1CPMonitoringTask v p;
     (p, more) \<leftarrow> pilot_run vs p;
     Some (p, acts @ more)
   }"

section \<open>Properties\<close>

lemma GetVoltage_not_0V: "GetVoltage v \<noteq> CP_VOLTAGE_0V"
  by (simp add: GetVoltage_def)

lemma pilot_pass:
  assumes "sCh1CPMonRun p" "sCh1CPListener p"
  shows "Ch1CPMonitoringTask v p = Some (p\<lparr>voltage := GetVoltage v, sCh1OldVoltage := GetVoltage v\<rparr>,
    if GetVoltage v = sCh1OldVoltage p then [] else [CP_listener (ucast (lconv p)) (GetVoltage v)])"
  using assms GetVoltage_not_0V [of v]
  by (auto simp: Ch1CPMonitoringTask_def IsCh1VoltageChanged_def Let_def split: CPVoltage.split)

text \<open>With the monitoring enabled and a listener set, the listener hears of every change of the voltage class and
  of nothing else: over any sequence of reported voltages its calls are the classes in order with repetitions removed,
  beginning with the class known before.\<close>

theorem pilot_listener_changes:
  assumes "sCh1CPMonRun p" "sCh1CPListener p"
  shows "\<exists>p'. pilot_run vs p = Some (p', map (CP_listener (ucast (lconv p)))
      (tl (remdups_adj (sCh1OldVoltage p # map GetVoltage vs)))) \<and>
    sCh1OldVoltage p' = last (sCh1OldVoltage p # map GetVoltage vs)"
  using assms
proof (induction vs arbitrary: p)
  case (Cons v vs)
  let ?p = "p\<lparr>voltage := GetVoltage v, sCh1OldVoltage := GetVoltage v\<rparr>"
  obtain p' where p': "pilot_run vs ?p = Some (p', map (CP_listener (ucast (lconv p)))
        (tl (remdups_adj (GetVoltage v # map GetVoltage vs))))"
      "sCh1OldVoltage p' = last (GetVoltage v # map GetVoltage vs)"
    using Cons.IH [of ?p] Cons.prems by auto
  show ?case
  proof (cases "GetVoltage v = sCh1OldVoltage p")
    case True
    then show ?thesis using p' by (simp add: pilot_pass [OF Cons.prems])
  next
    case False
    obtain ys where ys: "remdups_adj (GetVoltage v # map GetVoltage vs) = GetVoltage v # ys"
      by (metis hd_remdups_adj list.collapse list.sel(1) remdups_adj_Nil_iff list.distinct(1))
    then have "tl (remdups_adj (sCh1OldVoltage p # map GetVoltage (v # vs))) = GetVoltage v # ys"
      using False by simp
    then show ?thesis using p' ys False by (simp add: pilot_pass [OF Cons.prems] del: remdups_adj.simps)
  qed
qed simp

theorem pilot_listener_changes_witness:
  "\<exists>p'. pilot_run [120, 120, 90, 60, 65, 150, 90] \<lparr>sCh1CPMonRun = True, sCh1CPListener = True, sCh1OldVoltage = CP_VOLTAGE_UNKNOWN,
     voltage = CP_VOLTAGE_UNKNOWN, lconv = 224, cp_relay = True\<rparr> = Some (p', map (CP_listener 224)
     [CP_VOLTAGE_12V, CP_VOLTAGE_9V, CP_VOLTAGE_6V, CP_VOLTAGE_UNKNOWN, CP_VOLTAGE_9V])"
  using pilot_listener_changes [of "\<lparr>sCh1CPMonRun = True, sCh1CPListener = True, sCh1OldVoltage = CP_VOLTAGE_UNKNOWN,
     voltage = CP_VOLTAGE_UNKNOWN, lconv = 224, cp_relay = True\<rparr>" "[120, 120, 90, 60, 65, 150, 90]"]
  by (auto simp: GetVoltage_def)

end
