(* ===== verification/Charging.thy ===== *)
theory Charging
  imports App_Info Common Meter Pilot "HOL-Library.Signed_Division"
begin

text \<open>
  The control of a charging session: contactor (\<open>cstmagneticcontactor.c\<close>), lamp (\<open>cstled.c\<close>), emergency button
  (\<open>cstemergencybutton.c\<close>, \<open>cstordersequence.c\<close>), the contactor's button of the qualification test
  (\<open>layer_qualif_test.c\<close>) and the charging screen (\<open>layer_charge.c\<close>) with its pilot,
  meter and card listeners, its monitoring task and its fault task, all in \<open>src/project/tsct2007a\<close>.

  What is drawn on the screen, sounds and the screen saver are left out.  A change of screen is an act: the screen
  library calls the leave and enter functions of the screens later.  Times are seconds since the epoch.
  \<open>None\<close> is an access outside an array.
\<close>

section \<open>State\<close>

text \<open>The order of the enumeration constants, which the code compares as numbers.\<close>

instantiation APP_ORDER :: linorder
begin

definition app_order_no :: "APP_ORDER \<Rightarrow> nat" where
  "app_order_no a = (case a of
     APP_ORDER_NONE \<Rightarrow> 0 | APP_ORDER_WAIT \<Rightarrow> 1 | APP_ORDER_AUTH_METHOD \<Rightarrow> 2 | APP_ORDER_KAKAO_QR \<Rightarrow> 3
   | APP_ORDER_CARD_READER \<Rightarrow> 4 | APP_ORDER_REMOTE_CHECK \<Rightarrow> 5 | APP_ORDER_CUSTOMER_AUTH \<Rightarrow> 6
   | APP_ORDER_CONNECTOR_SELECT \<Rightarrow> 7 | APP_ORDER_CONNECT_IN \<Rightarrow> 8 | APP_ORDER_PAYMENT_METHOD \<Rightarrow> 9
   | APP_ORDER_CHARGE_INPUT \<Rightarrow> 10 | APP_ORDER_CHARGE_READY \<Rightarrow> 11 | APP_ORDER_CHARGING \<Rightarrow> 12
   | APP_ORDER_CHARGING_STOP \<Rightarrow> 13 | APP_ORDER_CHARGE_END \<Rightarrow> 14 | APP_ORDER_CUSTOMER_CONFIRM \<Rightarrow> 15
   | APP_ORDER_PAYMENT \<Rightarrow> 16 | APP_ORDER_CONNECT_OUT \<Rightarrow> 17 | APP_ORDER_FINISH \<Rightarrow> 18
   | APP_ORDER_CAR_NUMAUTH \<Rightarrow> 19 | APP_ORDER_CANCEL_PREPAY \<Rightarrow> 20 | APP_ORDER_ERR_REBOOT \<Rightarrow> 21)"

definition less_eq_APP_ORDER :: "APP_ORDER \<Rightarrow> APP_ORDER \<Rightarrow> bool" where
  "less_eq_APP_ORDER a b \<longleftrightarrow> app_order_no a \<le> app_order_no b"

definition less_APP_ORDER :: "APP_ORDER \<Rightarrow> APP_ORDER \<Rightarrow> bool" where
  "less_APP_ORDER a b \<longleftrightarrow> app_order_no a < app_order_no b"

instance
proof
  fix a b :: APP_ORDER
  assume "a \<le> b" "b \<le> a"
  then have "app_order_no a = app_order_no b" by (simp add: less_eq_APP_ORDER_def)
  then show "a = b" by (cases a; cases b) (simp_all add: app_order_no_def)
qed (auto simp: less_eq_APP_ORDER_def less_APP_ORDER_def)

end

datatype WHM_ERR = ERR_AMI_DISCON | ERR_SERVER_DISCON | ERR_OV_CURT | ERR_OV_VOLT | ERR_UD_VOLT | ERR_CHARGE

datatype ERR_CODE =
    ERR_CODE_NONE | ERR_CODE_EMG | ERR_CODE_OV_VOLT | ERR_CODE_OV_CURT | ERR_CODE_UD_VOLT | ERR_CODE_TEMP
  | ERR_CODE_SECC | ERR_CODE_BATDATA | ERR_CODE_POWERMETER

datatype STOP_REASON =
    STOP_REASON_NONE | STOP_REASON_RM | STOP_REASON_EVDIS | STOP_REASON_SOFTREST | STOP_REASON_HARDRESET
  | STOP_REASON_LOCAL | STOP_REASON_POWER | STOP_REASON_DEAUTH

text \<open>The part of the configuration (\<open>theConfig\<close>, \<open>CfgKeyVal\<close>) that the session reads: \<open>StopOnEVSideDisconnect\<close> is
  \<open>CfgKeyVal[13]\<close>, \<open>StopOnInvalidId\<close> is \<open>CfgKeyVal[14]\<close>.  \<open>bDevChannel\<close> is the selected connector.\<close>

record charge_cfg =
  devtype :: int
  USER_AUTH_NET :: bool
  OP_CHECK_MODE :: bool
  OP_FREE_MODE :: bool
  FreeChargingTime :: int
  StopOnEVSideDisconnect :: bool
  StopOnInvalidId :: bool
  bDevChannel :: nat

record session =
  MCOn :: bool
  magnet_pin :: bool
  sLedOn :: bool
  sBlinkRunning :: bool
  sCharging :: bool
  sChCharging :: bool
  bLayerChargeFlg :: bool
  StartTimeCheck :: bool
  chargecomp_stop :: bool
  charge_stop_btnState :: "int list"
  sCh1CurrentZeroTime :: int
  sChargeTime :: int
  stv :: int
  stime :: int
  app_order :: APP_ORDER
  charge_comp_status :: CHARGE_END_CODE
  bCpStat :: "CP_STATUS_CODE list"
  charger_errcode :: ERR_CODE
  eqp_status :: bytes
  Fault_Count :: "u8 list"
  EmgControl :: bool
  bReqEmgBtnFlg :: bool
  EmgCount :: nat
  oldPressed :: bool
  bReqRmtStopTSFlg :: bool
  bReqAuthNo :: nat
  NetError_ChargingFlg :: bool
  NetErrorTime :: int
  gAmiStartWatt :: u32
  gAmiChargeWatt :: u32
  charge_watt :: u32
  charge_price :: u32
  pricepollCount :: nat
  iUnitprice :: u32
  charge_provide_time :: bytes
  s_eqp_watt :: bytes
  s_charge_watt :: bytes
  s_charge_money :: bytes
  sOri_price :: bytes
  card_no :: bytes
  scnd_card_no :: bytes
  parentId :: bytes
  PId_no2 :: bytes
  StopTs_IdTag :: bytes
  StopTs_MeterStop :: u32
  StopTs_TrId :: u64
  StopTs_Connector :: nat
  StopTs_Reason :: STOP_REASON
  bTrId :: "u64 list"
  secc_status_fault :: u16
  chargingstatus :: u32
  whm_listening :: bool
  sDLsChargeMonitoring :: bool
  sDLsChargeFaultMonitoring :: bool
  sChargeMonitoringTask :: bool
  sChargeFaultMonitoringTask :: bool

datatype session_act =
    Goto_layer string
  | Err_dialog WHM_ERR
  | Emergency_dialog bool
  | Pwm bool
  | Polling_start

text \<open>The bits with which the screen commands the modem link (\<open>SeccTxData.status_fault\<close>).\<close>

abbreviation (input) SECC_STAT_CHARG :: nat where "SECC_STAT_CHARG \<equiv> 1"
abbreviation (input) SECC_STAT_STOP :: nat where "SECC_STAT_STOP \<equiv> 2"

section \<open>Contactor and lamp\<close>

definition MagneticContactorOn :: "session \<Rightarrow> session" where
  "MagneticContactorOn s = s\<lparr>magnet_pin := True, MCOn := True\<rparr>"

definition MagneticContactorOff :: "session \<Rightarrow> session" where
  "MagneticContactorOff s = s\<lparr>magnet_pin := False, MCOn := False\<rparr>"

text \<open>The contactor's button on the two test screens; \<open>bMc1Check1\<close> is the screen's note that it has closed the contactor.
  It looks neither at the emergency flag nor at the pilot.\<close>

definition tMc1teststartOnPress :: "bool \<Rightarrow> session \<Rightarrow> session" where
  "tMc1teststartOnPress bMc1Check1 s = (if \<not> bMc1Check1 then MagneticContactorOn s else MagneticContactorOff s)"

definition LEDOn :: "session \<Rightarrow> session" where
  "LEDOn s = s\<lparr>sLedOn := True\<rparr>"

definition LEDOff :: "session \<Rightarrow> session" where
  "LEDOff s = s\<lparr>sLedOn := False\<rparr>"

definition ChBlinkTask :: "session \<Rightarrow> session" where
  "ChBlinkTask s = (if sBlinkRunning s then if sLedOn s then LEDOff s else LEDOn s else s)"

definition LEDStartBlink :: "session \<Rightarrow> session" where
  "LEDStartBlink s = s\<lparr>sBlinkRunning := True\<rparr>"

definition LEDStopBlink :: "session \<Rightarrow> session" where
  "LEDStopBlink s = LEDOff (s\<lparr>sBlinkRunning := False\<rparr>)"

section \<open>Stopping\<close>

definition SetCpStatus :: "CP_STATUS_CODE \<Rightarrow> nat \<Rightarrow> session \<Rightarrow> session option" where
  "SetCpStatus code_no ch_no s = do {
     st \<leftarrow> wr (bCpStat s) ch_no code_no;
     Some (s\<lparr>bCpStat := st\<rparr>)
   }"

definition GotoNextLayerOnCharge :: "session \<Rightarrow> session \<times> session_act list" where
  "GotoNextLayerOnCharge s =
     (if bLayerChargeFlg s then (s\<lparr>bLayerChargeFlg := False\<rparr>, [Goto_layer ''ch2FinishLayer'']) else (s, []))"

definition StopCharge :: "session \<Rightarrow> session \<times> session_act list" where
  "StopCharge s = ((LEDStopBlink (MagneticContactorOff s))\<lparr>sCharging := False\<rparr>, [Pwm False])"

definition UpdateStopGui :: "session \<Rightarrow> session \<times> session_act list" where
  "UpdateStopGui s = GotoNextLayerOnCharge s"

definition TSCT_ChargingStop :: "session \<Rightarrow> session \<times> session_act list" where
  "TSCT_ChargingStop s =
     (let s = MagneticContactorOff (LEDStopBlink (s\<lparr>sChCharging := False\<rparr>));
          (s, acts) = GotoNextLayerOnCharge (s\<lparr>whm_listening := False, app_order := APP_ORDER_CHARGING_STOP\<rparr>)
      in (s, Pwm False # acts))"

definition StopCharge2ch :: "session \<Rightarrow> session \<times> session_act list" where
  "StopCharge2ch s =
     ((MagneticContactorOff (LEDStopBlink (s\<lparr>app_order := APP_ORDER_CHARGING_STOP\<rparr>)))\<lparr>whm_listening := False, sChCharging := False\<rparr>,
      [Pwm False])"

definition ShowWhmErrorDialogBox :: "WHM_ERR \<Rightarrow> session \<Rightarrow> session \<times> session_act list" where
  "ShowWhmErrorDialogBox Ecode s =
     (let (s, acts) = (if app_order s = APP_ORDER_CHARGING \<or> app_order s = APP_ORDER_CHARGE_READY
                       then TSCT_ChargingStop s else (s, []))
      in (s, acts @ [Err_dialog Ecode]))"

definition TimeOutChargeStartWait :: "session \<Rightarrow> session \<times> session_act list" where
  "TimeOutChargeStartWait s =
     (let (s, acts) = ShowWhmErrorDialogBox ERR_CHARGE s; (s, more) = GotoNextLayerOnCharge s in (s, acts @ more))"

section \<open>The pilot listener\<close>

definition StartCharge :: "session \<Rightarrow> session" where
  "StartCharge s = (MagneticContactorOn s)\<lparr>sCharging := True\<rparr>"

definition cp_suspend :: "int \<Rightarrow> session \<Rightarrow> session" where
  "cp_suspend now s = (MagneticContactorOff s)\<lparr>stime := StartStopCharging True now, chargecomp_stop := True\<rparr>"

text \<open>The first part of the branch for 12 V: the cable was unplugged.\<close>

definition cp_unplug :: "charge_cfg \<Rightarrow> int \<Rightarrow> session \<Rightarrow> (session \<times> session_act list) option" where
  "cp_unplug cfg now s =
     (if StopOnEVSideDisconnect cfg
      then (let s = s\<lparr>chargecomp_stop := False, app_order := APP_ORDER_CHARGING_STOP, charge_comp_status := END_UNPLUG\<rparr>;
                (s, a) = StopCharge s; (s, b) = UpdateStopGui s
            in Some (s, a @ b))
      else if MCOn s then do {
        s \<leftarrow> SetCpStatus CP_STATUS_CODE_SUSPENDEDEV (bDevChannel cfg + 1) (cp_suspend now s);
        Some (s, [])
      }
      else Some (s, []))"

definition CPListenerOnCharge :: "charge_cfg \<Rightarrow> int \<Rightarrow> CPVoltage \<Rightarrow> session \<Rightarrow> (session \<times> session_act list) option" where
  "CPListenerOnCharge cfg now v s =
     (if EmgControl s then Some (s, [])
      else case v of
        CP_VOLTAGE_UNKNOWN \<Rightarrow> Some (s\<lparr>chargecomp_stop := False\<rparr>, [])
      | CP_VOLTAGE_12V \<Rightarrow> do {
          (s, acts) \<leftarrow> cp_unplug cfg now s;
          let (s, more) = (if sCharging s then GotoNextLayerOnCharge s else TimeOutChargeStartWait s);
          Some (s, acts @ more)
        }
      | CP_VOLTAGE_9V \<Rightarrow> Some (if sCharging s \<and> MCOn s then cp_suspend now s else s, [])
      | CP_VOLTAGE_6V \<Rightarrow>
          if \<not> EmgControl s \<and> \<not> bReqRmtStopTSFlg s
          then do {
            b \<leftarrow> rd (charge_stop_btnState s) (bDevChannel cfg);
            if \<not> sCharging s \<and> b = 0
            then do {
              s \<leftarrow> (if StartTimeCheck s
                then SetCpStatus CP_STATUS_CODE_CHARGING (bDevChannel cfg + 1)
                  (s\<lparr>StartTimeCheck := False, app_order := APP_ORDER_CHARGING, stv := now\<rparr>)
                else Some s);
              Some (StartCharge (s\<lparr>app_order := APP_ORDER_CHARGING\<rparr>), [])
            }
            else if \<not> MCOn s \<and> b = 0
            then Some ((MagneticContactorOn (s\<lparr>chargecomp_stop := False\<rparr>))\<lparr>stime := StartStopCharging False now\<rparr>, [])
            else Some (s, [])
          }
          else Some (s, [])
      | CP_VOLTAGE_0V \<Rightarrow> Some (s, []))"

text \<open>The stop button, after the question on the screen was confirmed.\<close>

definition ChargeStopOnDialog :: "charge_cfg \<Rightarrow> session \<Rightarrow> (session \<times> session_act list) option" where
  "ChargeStopOnDialog cfg s = do {
     (s, acts) \<leftarrow> (if sCharging s
       then do {
         b \<leftarrow> wr (charge_stop_btnState s) (bDevChannel cfg) 1;
         let (s, acts) = StopCharge (s\<lparr>charge_stop_btnState := b, app_order := APP_ORDER_CHARGING_STOP\<rparr>);
         Some (s\<lparr>whm_listening := False, charge_comp_status := END_BTN\<rparr>, acts)
       }
       else Some (s, []));
     let (s, more) = UpdateStopGui s;
     Some (s, acts @ more)
   }"

section \<open>The meter listener\<close>

text \<open>A comparison with a constant of type \<open>double\<close>, here \<open>0.01\<close>.\<close>

definition below_001 :: "float_val \<Rightarrow> bool" where
  "below_001 c = (case c of (m, k) \<Rightarrow> case fl 53 1 100 of (m', k') \<Rightarrow> m * 2 ^ k' < m' * 2 ^ k)"

text \<open>The \<open>float\<close> nearest to a 32-bit number: the number of bits beyond 24 is rounded away.\<close>

fun float_excess :: "nat \<Rightarrow> nat" where
  "float_excess n = (if n < 2 ^ 24 then 0 else Suc (float_excess (n div 2)))"

declare float_excess.simps [simp del]

definition float_u32 :: "u32 \<Rightarrow> nat" where
  "float_u32 w = (let k = float_excess (unat w) in round_half_even (unat w) (2 ^ k) * 2 ^ k)"

text \<open>The conversion back is defined when the value fits.\<close>

definition via_float :: "u32 \<Rightarrow> u32 option" where
  "via_float w = (if float_u32 w < 2 ^ 32 then Some (word_of_nat (float_u32 w)) else None)"

definition CheckCurrentIsZero :: "charge_cfg \<Rightarrow> float_val \<Rightarrow> session \<Rightarrow> (session \<times> session_act list) option" where
  "CheckCurrentIsZero cfg current s =
     (let dual = (devtype cfg = BB_TYPE \<or> devtype cfg = BC2_TYPE);
          common_type = (if dual then 0 else bDevChannel cfg);
          tChargedTime = sChargeTime s in
      if below_001 current \<and> app_order s = APP_ORDER_CHARGING \<and> MCOn s
      then if sCh1CurrentZeroTime s = 0 then Some (s\<lparr>sCh1CurrentZeroTime := tChargedTime\<rparr>, [])
           else (let tStartZeroTimeMin = (sCh1CurrentZeroTime s smod 3600) sdiv 60;
                     tCurrentZeroTimeMin = (tChargedTime smod 3600) sdiv 60;
                     past = tCurrentZeroTimeMin - tStartZeroTimeMin;
                     past = (if past < 0 then 0 else past)
                 in if 14 < past
                    then do {
                      b \<leftarrow> wr (charge_stop_btnState s) common_type 2;
                      let (s, acts) = (if dual then StopCharge2ch (s\<lparr>charge_stop_btnState := b\<rparr>)
                                       else StopCharge (s\<lparr>charge_stop_btnState := b\<rparr>));
                      let s = s\<lparr>whm_listening := False\<rparr>;
                      let (s, more) = (if dual then (s, []) else UpdateStopGui s);
                      Some (s\<lparr>app_order := APP_ORDER_CHARGING_STOP, charge_comp_status := END_ERR\<rparr>, acts @ more)
                    }
                    else Some (s, []))
      else Some (s\<lparr>sCh1CurrentZeroTime := 0\<rparr>, []))"

definition WHMListenerOnCharge :: "charge_cfg \<Rightarrow> float_val \<Rightarrow> u32 \<Rightarrow> session \<Rightarrow> (session \<times> session_act list) option" where
  "WHMListenerOnCharge cfg current energy s = do {
     e \<leftarrow> via_float energy;
     let s = (if gAmiStartWatt s = -1 then s\<lparr>gAmiStartWatt := e, gAmiChargeWatt := e\<rparr> else s\<lparr>gAmiChargeWatt := e\<rparr>);
     CheckCurrentIsZero cfg current s
   }"

section \<open>The card listener\<close>

text \<open>\<open>data\<close> is the object that the pointer points to.\<close>

definition CardReaderListenerOnCharging :: "charge_cfg \<Rightarrow> bytes \<Rightarrow> nat \<Rightarrow> session \<Rightarrow> (session \<times> session_act list) option" where
  "CardReaderListenerOnCharging cfg data sz s =
     (if USER_AUTH_NET cfg
      then if 21 < sz then Some (s, [])
           else do {
             n \<leftarrow> slice data 0 sz;
             no \<leftarrow> blit (scnd_card_no s) 0 n;
             no \<leftarrow> wr no sz 0;
             let s = s\<lparr>scnd_card_no := no\<rparr>;
             own \<leftarrow> slice (card_no s) 0 sz;
             if own = n
             then Some (TSCT_ChargingStop (s\<lparr>charge_comp_status := END_CARD\<rparr>))
             else do {
               p \<leftarrow> rd (PId_no2 s) 0;
               if p \<noteq> 0 then Some (s\<lparr>bReqAuthNo := 2\<rparr>, []) else Some (s, [])
             }
           }
      else Some (s, []))"

section \<open>The monitoring task\<close>

text \<open>What a pass reads from other components: the time, the state of charge, whether the server and the network are
  up, whether the card was rejected after the start (\<open>startTsQ.faultChargFlg\<close>) and the
  unit price as \<open>charge_time_price\<close> returns it.\<close>

record charge_env =
  env_now :: int
  env_soc :: u8
  env_server :: bool
  env_network :: bool
  faultChargFlg :: bool
  env_unit_price :: int

text \<open>The hours, minutes and seconds as six digits in three bytes: \<open>sprintf\<close> into \<open>char temp[7]\<close>.\<close>

definition hms_bcd :: "int \<Rightarrow> bytes option" where
  "hms_bcd t = do {
     temp \<leftarrow> blit (replicate 7 0) 0
       (fmt_02d (t sdiv 3600) @ fmt_02d ((t smod 3600) sdiv 60) @ fmt_02d (t smod 60) @ [0]);
     Some [pack_digits (temp ! 0) (temp ! 1), pack_digits (temp ! 2) (temp ! 3), pack_digits (temp ! 4) (temp ! 5)]
   }"

text \<open>The price before discounts is computed from the same unit price.\<close>

definition charge_account :: "charge_env \<Rightarrow> session \<Rightarrow> (session \<times> session_act list) option" where
  "charge_account env s =
     (if app_order s = APP_ORDER_CHARGING \<and> sCharging s
      then do {
        let t = env_now env - stv s;
        let n = pricepollCount s mod 8;
        let price = (if n = 0 then word_of_int (env_unit_price env) else iUnitprice s);
        let watt = gAmiChargeWatt s - gAmiStartWatt s;
        let money = watt * price div 100;
        hms \<leftarrow> hms_bcd t;
        e \<leftarrow> ValueOrderFourByte (s_eqp_watt s) (gAmiChargeWatt s);
        w \<leftarrow> ValueOrderFourByte (s_charge_watt s) watt;
        m \<leftarrow> ValueOrderFourByte (s_charge_money s) money;
        ori \<leftarrow> ValueOrderFourByte (sOri_price s) money;
        let s = s\<lparr>sChargeTime := t, pricepollCount := n + 1, iUnitprice := price, charge_watt := watt, charge_price := money,
          charge_provide_time := hms, s_eqp_watt := e, s_charge_watt := w, s_charge_money := m, sOri_price := ori\<rparr>;
        Some (if 100 \<le> env_soc env then TSCT_ChargingStop s else (s, []))
      }
      else Some (s, []))"

text \<open>A card of the same group as the one that started the session.\<close>

definition charge_parent :: "session \<Rightarrow> session \<times> session_act list" where
  "charge_parent s =
     (if bReqAuthNo s = 0
      then let (s, acts) = (if PId_no2 s = parentId s \<and> hd (PId_no2 s) \<noteq> 0
             then TSCT_ChargingStop (s\<lparr>card_no := scnd_card_no s, StopTs_IdTag := scnd_card_no s\<rparr>) else (s, []))
           in (s, acts @ [Polling_start])
      else (s, []))"

definition charge_network :: "charge_cfg \<Rightarrow> charge_env \<Rightarrow> session \<Rightarrow> session \<times> session_act list" where
  "charge_network cfg env s =
     (let s = (if USER_AUTH_NET cfg
               then if (\<not> env_server env \<or> \<not> env_network env) \<and> \<not> NetError_ChargingFlg s
                    then s\<lparr>NetError_ChargingFlg := True, NetErrorTime := env_now env\<rparr>
                    else if env_server env \<and> env_network env \<and> NetError_ChargingFlg s
                    then s\<lparr>NetError_ChargingFlg := False, NetErrorTime := 0\<rparr>
                    else s
               else s)
      in if NetError_ChargingFlg s \<and> 29 < ((env_now env - NetErrorTime s) smod 3600) sdiv 60
         then TSCT_ChargingStop s else (s, []))"

definition charge_stops :: "charge_cfg \<Rightarrow> charge_env \<Rightarrow> session \<Rightarrow> (session \<times> session_act list) option" where
  "charge_stops cfg env s = do {
     (s, a) \<leftarrow> (if faultChargFlg env
       then if StopOnInvalidId cfg then Some (TSCT_ChargingStop s)
            else do {
              s \<leftarrow> SetCpStatus CP_STATUS_CODE_SUSPENDEDEVSE 1 s;
              Some (s, [])
            }
       else Some (s, []));
     let (s, b) = (if secc_status_fault s AND push_bit SECC_STAT_STOP 1 \<noteq> 0 then TSCT_ChargingStop s else (s, []));
     let (s, c) = (if OP_FREE_MODE cfg \<and> FreeChargingTime cfg \<noteq> 0 \<and> FreeChargingTime cfg < sChargeTime s sdiv 60
                   then TSCT_ChargingStop s else (s, []));
     let (s, d) = (if bReqRmtStopTSFlg s then TSCT_ChargingStop s else (s, []));
     Some (s, a @ b @ c @ d)
   }"

text \<open>A pass of the task: the test of the flag, the second it sleeps and the body are one step.  A task that finds its flag
  cleared forgets its handle (\<open>sChargeMonitoringTask\<close>: not zero) and ends.\<close>

definition sChargeMonitoringTaskFuntion :: "charge_cfg \<Rightarrow> charge_env \<Rightarrow> session \<Rightarrow> (session \<times> session_act list) option" where
  "sChargeMonitoringTaskFuntion cfg env s =
     (if sDLsChargeMonitoring s
      then do {
        (s, a) \<leftarrow> charge_account env s;
        let (s, b) = charge_parent s;
        let (s, c) = charge_network cfg env s;
        (s, d) \<leftarrow> charge_stops cfg env s;
        Some (s, a @ b @ c @ d)
      }
      else Some (s\<lparr>sChargeMonitoringTask := False\<rparr>, []))"

section \<open>The fault task\<close>

abbreviation (input) LIMIT_OV_VOLT :: u16 where "LIMIT_OV_VOLT \<equiv> 26400"
abbreviation (input) LIMIT_UD_VOLT :: u16 where "LIMIT_UD_VOLT \<equiv> 19800"
abbreviation (input) LIMIT_OV_CURR :: u16 where "LIMIT_OV_CURR \<equiv> 3500"

abbreviation (input) CST_OUT_OVER_VOLTAGE :: nat where "CST_OUT_OVER_VOLTAGE \<equiv> 10"
abbreviation (input) CST_OUT_OVER_CURRENT :: nat where "CST_OUT_OVER_CURRENT \<equiv> 11"
abbreviation (input) CST_EMG_SW :: nat where "CST_EMG_SW \<equiv> 14"
abbreviation (input) CST_IN_UNDER_VOLTAGE :: nat where "CST_IN_UNDER_VOLTAGE \<equiv> 26"
abbreviation (input) CST_COM_WHM :: nat where "CST_COM_WHM \<equiv> 29"

definition SetEpq :: "nat \<Rightarrow> bool \<Rightarrow> session \<Rightarrow> session option" where
  "SetEpq nBit ok s = do {
     e \<leftarrow> CstSetEpqStatus nBit ok (eqp_status s);
     Some (s\<lparr>eqp_status := e\<rparr>)
   }"

text \<open>One of the three tests of the counters.\<close>

definition fault_react :: "charge_cfg \<Rightarrow> nat \<Rightarrow> nat \<Rightarrow> WHM_ERR \<Rightarrow> ERR_CODE \<Rightarrow> session \<Rightarrow> (session \<times> session_act list) option" where
  "fault_react cfg i nBit err code s =
     (if 10 < Fault_Count s ! i
      then do {
        s \<leftarrow> SetEpq nBit False (s\<lparr>Fault_Count := [0, 0, 0], charge_comp_status := END_ERR\<rparr>);
        let (s, acts) = ShowWhmErrorDialogBox err s;
        s \<leftarrow> SetCpStatus CP_STATUS_CODE_FAULT (bDevChannel cfg + 1) (s\<lparr>charger_errcode := code\<rparr>);
        Some (s, acts)
      }
      else Some (s, []))"

definition fault_count :: "bool \<Rightarrow> u8 \<Rightarrow> u8" where
  "fault_count bad n = (if bad then n + 1 else 0)"

definition charge_ami :: "bool \<Rightarrow> session \<Rightarrow> (session \<times> session_act list) option" where
  "charge_ami ami_err s = do {
     err \<leftarrow> CstGetEpqStatus CST_COM_WHM (eqp_status s);
     if ami_err \<and> \<not> err
     then do {
       s \<leftarrow> SetEpq CST_COM_WHM False s;
       Some (ShowWhmErrorDialogBox ERR_AMI_DISCON s)
     }
     else do {
       s \<leftarrow> SetEpq CST_COM_WHM True s;
       Some (s, [])
     }
   }"

text \<open>One pass with the meter's error flag, current and voltage.\<close>

definition ChargeFaultMonitoringTaskFuntion ::
  "charge_cfg \<Rightarrow> bool \<Rightarrow> u16 \<Rightarrow> u16 \<Rightarrow> session \<Rightarrow> (session \<times> session_act list) option" where
  "ChargeFaultMonitoringTaskFuntion cfg ami_err chk_Current chk_Volt s =
     (if sDLsChargeFaultMonitoring s
      then do {
        (s, a) \<leftarrow> charge_ami ami_err s;
        let s = s\<lparr>Fault_Count := [fault_count (LIMIT_OV_CURR < chk_Current) (Fault_Count s ! 0),
                                 fault_count (LIMIT_OV_VOLT < chk_Volt) (Fault_Count s ! 1),
                                 fault_count (chk_Volt < LIMIT_UD_VOLT) (Fault_Count s ! 2)]\<rparr>;
        (s, b) \<leftarrow> fault_react cfg 0 CST_OUT_OVER_CURRENT ERR_OV_CURT ERR_CODE_OV_CURT s;
        (s, c) \<leftarrow> fault_react cfg 1 CST_OUT_OVER_VOLTAGE ERR_OV_VOLT ERR_CODE_OV_VOLT s;
        (s, d) \<leftarrow> fault_react cfg 2 CST_IN_UNDER_VOLTAGE ERR_UD_VOLT ERR_CODE_UD_VOLT s;
        Some (s, a @ b @ c @ d)
      }
      else Some (s\<lparr>sChargeFaultMonitoringTask := False\<rparr>, []))"

section \<open>Entering and leaving the charging screen\<close>

text \<open>What is noted for the stop of the transaction, except its time stamp.\<close>

definition stop_record :: "charge_cfg \<Rightarrow> session \<Rightarrow> session option" where
  "stop_record cfg s = do {
     tr \<leftarrow> rd (bTrId s) (bDevChannel cfg + 1);
     mv \<leftarrow> FourByteOrder (s_eqp_watt s);
     id \<leftarrow> blit (StopTs_IdTag s) 0 (card_no s);
     id \<leftarrow> wr id 16 0;
     Some (s\<lparr>StopTs_Connector := bDevChannel cfg, StopTs_TrId := tr, StopTs_MeterStop := mv, StopTs_IdTag := id\<rparr>)
   }"

text \<open>The state a new session begins with; \<open>price\<close> is what \<open>charge_time_price\<close> returns.\<close>

definition charge_reset :: "charge_cfg \<Rightarrow> int \<Rightarrow> session \<Rightarrow> session option" where
  "charge_reset cfg price s = do {
     let s = (if \<not> OP_CHECK_MODE cfg then s\<lparr>secc_status_fault := secc_status_fault s OR push_bit SECC_STAT_CHARG 1\<rparr> else s);
     b \<leftarrow> wr (charge_stop_btnState s) (bDevChannel cfg) 0;
     s \<leftarrow> stop_record cfg s;
     Some (s\<lparr>stime := 0, bLayerChargeFlg := True, sChCharging := True, StartTimeCheck := True, sCharging := False,
       sChargeTime := 0, sCh1CurrentZeroTime := 0, gAmiChargeWatt := -1, gAmiStartWatt := -1, charge_stop_btnState := b,
       chargingstatus := chargingstatus s OR push_bit 2 1,
       NetError_ChargingFlg := False, NetErrorTime := 0, StopTs_Reason := STOP_REASON_POWER,
       charge_provide_time := replicate 3 0, s_charge_watt := replicate 4 0, s_charge_money := replicate 4 0,
       app_order := APP_ORDER_CHARGE_READY, iUnitprice := word_of_int price, charge_price := 0, charge_watt := 0\<rparr>)
   }"

text \<open>A task is started only when the handle of the last one is zero; the fault task counts from zero.\<close>

definition ChargeOnEnter :: "charge_cfg \<Rightarrow> int \<Rightarrow> session \<Rightarrow> (session \<times> session_act list) option" where
  "ChargeOnEnter cfg price s = do {
     s \<leftarrow> charge_reset cfg price s;
     pid \<leftarrow> blit (PId_no2 s) 0 (parentId s);
     let s = LEDStartBlink (s\<lparr>whm_listening := True, PId_no2 := pid, scnd_card_no := replicate 21 0, parentId := replicate 21 0\<rparr>);
     let s = (if sChargeMonitoringTask s then s else s\<lparr>sDLsChargeMonitoring := True, sChargeMonitoringTask := True\<rparr>);
     let s = (if sChargeFaultMonitoringTask s then s
       else s\<lparr>sDLsChargeFaultMonitoring := True, sChargeFaultMonitoringTask := True, Fault_Count := [0, 0, 0]\<rparr>);
     let (s, acts) = (if EmgControl s \<and> app_order s \<le> APP_ORDER_CHARGING then UpdateStopGui s else (s, []));
     Some (s, Pwm True # acts)
   }"

text \<open>\<open>sleepOn1chCheck\<close> is set while the screen of a single-channel charger sleeps.\<close>

definition ChargeOnLeave :: "charge_cfg \<Rightarrow> bool \<Rightarrow> session \<Rightarrow> (session \<times> session_act list) option" where
  "ChargeOnLeave cfg sleepOn1chCheck s = do {
     let f = secc_status_fault s AND NOT (push_bit SECC_STAT_CHARG 1);
     s \<leftarrow> stop_record cfg (s\<lparr>secc_status_fault := f OR push_bit SECC_STAT_STOP 1, sChCharging := False\<rparr>);
     let s = s\<lparr>chargecomp_stop := False\<rparr>;
     let (s, acts) = (if \<not> sleepOn1chCheck
       then (let (s, a) = StopCharge (s\<lparr>sCharging := False\<rparr>)
             in (s\<lparr>whm_listening := False, sDLsChargeMonitoring := False, sDLsChargeFaultMonitoring := False\<rparr>, a))
       else (s, []));
     let s = (if EmgControl s
       then s\<lparr>sCharging := False, whm_listening := False, sDLsChargeMonitoring := False, sDLsChargeFaultMonitoring := False\<rparr>
       else s);
     Some (s\<lparr>bReqAuthNo := 0\<rparr>, acts)
   }"

section \<open>The emergency button and the order sequence\<close>

definition GotoStartLayer :: "session_act" where
  "GotoStartLayer = Goto_layer ''mainLayer''"

definition EMBListenerOnCharge12 :: "bool \<Rightarrow> bool \<Rightarrow> session \<Rightarrow> (session \<times> session_act list) option" where
  "EMBListenerOnCharge12 bGloAdminStatus pressed s =
     (if bGloAdminStatus then Some (s, [])
      else if EmgCount s < 20 then Some (s\<lparr>EmgCount := EmgCount s + 1\<rparr>, [])
      else let s = s\<lparr>EmgCount := EmgCount s + 1\<rparr> in
        if pressed = oldPressed s
        then if pressed
          then do {
            s \<leftarrow> SetEpq CST_EMG_SW False (s\<lparr>bReqEmgBtnFlg := True, EmgControl := True\<rparr>);
            let s = MagneticContactorOff (LEDStopBlink (s\<lparr>charge_comp_status := END_EMG, sChCharging := False\<rparr>));
            let s = s\<lparr>whm_listening := False\<rparr>;
            let (s, acts) =
              (if APP_ORDER_CHARGE_INPUT \<le> app_order s \<and> app_order s \<le> APP_ORDER_CHARGING_STOP
               then (s\<lparr>app_order := APP_ORDER_CHARGE_END\<rparr>, [Goto_layer ''ch2FinishLayer''])
               else if APP_ORDER_WAIT \<le> app_order s \<and> app_order s \<le> APP_ORDER_PAYMENT_METHOD
               then (s\<lparr>app_order := APP_ORDER_WAIT\<rparr>, [GotoStartLayer])
               else if app_order s = APP_ORDER_FINISH
               then (s\<lparr>app_order := APP_ORDER_WAIT\<rparr>, [GotoStartLayer])
               else (s, []));
            Some (s\<lparr>oldPressed := \<not> pressed\<rparr>, Emergency_dialog True # Pwm False # acts)
          }
          else do {
            s \<leftarrow> SetEpq CST_EMG_SW True (s\<lparr>bReqEmgBtnFlg := False, EmgControl := False\<rparr>);
            Some (s\<lparr>oldPressed := \<not> pressed\<rparr>, [Emergency_dialog False])
          }
        else Some (s, []))"

text \<open>One pass of the order sequence task at the time \<open>now\<close>; \<open>screenOff\<close> is the state of the screen saver.\<close>

definition sOrderSequenceMonitoringTaskFuntion :: "bool \<Rightarrow> bool \<Rightarrow> int \<Rightarrow> session \<Rightarrow> session \<times> session_act list" where
  "sOrderSequenceMonitoringTaskFuntion bGloAdminStatus screenOff now s =
     (let s = (if \<not> EmgControl s \<and> \<not> bGloAdminStatus \<and> \<not> screenOff \<and> app_order s < APP_ORDER_AUTH_METHOD
               then LEDOff s else s)
      in if chargecomp_stop s \<and> 59 < now - stime s
         then (let (s, a) = StopCharge (s\<lparr>app_order := APP_ORDER_CHARGING_STOP\<rparr>);
                   (s, b) = UpdateStopGui s
               in (s\<lparr>charge_comp_status := END_CAR, chargecomp_stop := False\<rparr>, a @ b))
         else (s, []))"

text \<open>The first call, which also starts the tasks.\<close>

definition OderSequenceInit :: "session \<Rightarrow> session" where
  "OderSequenceInit s = s\<lparr>EmgControl := False\<rparr>"

end
