(* ===== verification/Charging_Thms.thy ===== *)
theory Charging_Thms
  imports Charging Common_Thms
begin

text \<open>
  Properties of the charging session: the steps of all its parts as one transition system, in which an emergency
  keeps the contactor open and only the pilot's request closes it, but for the buttons of the test screens; the debounce of the fault task and of the
  emergency button; the accounting; and what the zero-current test misses.
\<close>

section \<open>The session as a transition system\<close>

datatype session_event =
    Ev_pilot int CPVoltage
  | Ev_stop_button
  | Ev_start_timeout
  | Ev_meter float_val u32
  | Ev_card bytes nat
  | Ev_monitor charge_env
  | Ev_fault bool u16 u16
  | Ev_emergency bool bool
  | Ev_sequence bool bool int
  | Ev_blink
  | Ev_enter int
  | Ev_leave bool
  | Ev_remote_stop bool
  | Ev_modem u16
  | Ev_test bool
  | Ev_contactor_off

fun session_do :: "charge_cfg \<Rightarrow> session_event \<Rightarrow> session \<Rightarrow> (session \<times> session_act list) option" where
  "session_do cfg (Ev_pilot now v) s = CPListenerOnCharge cfg now v s"
| "session_do cfg Ev_stop_button s = ChargeStopOnDialog cfg s"
| "session_do cfg Ev_start_timeout s = Some (TimeOutChargeStartWait s)"
| "session_do cfg (Ev_meter current energy) s =
     (if whm_listening s then WHMListenerOnCharge cfg current energy s else Some (s, []))"
| "session_do cfg (Ev_card data n) s = CardReaderListenerOnCharging cfg data n s"
| "session_do cfg (Ev_monitor env) s = sChargeMonitoringTaskFuntion cfg env s"
| "session_do cfg (Ev_fault err a v) s = ChargeFaultMonitoringTaskFuntion cfg err a v s"
| "session_do cfg (Ev_emergency admin pressed) s = EMBListenerOnCharge12 admin pressed s"
| "session_do cfg (Ev_sequence admin off now) s = Some (sOrderSequenceMonitoringTaskFuntion admin off now s)"
| "session_do cfg Ev_blink s = Some (ChBlinkTask s, [])"
| "session_do cfg (Ev_enter price) s = ChargeOnEnter cfg price s"
| "session_do cfg (Ev_leave sleep) s = ChargeOnLeave cfg sleep s"
| "session_do cfg (Ev_remote_stop b) s = Some (s\<lparr>bReqRmtStopTSFlg := b\<rparr>, [])"
| "session_do cfg (Ev_modem w) s = Some (s\<lparr>secc_status_fault := w\<rparr>, [])"
| "session_do cfg (Ev_test checked) s = Some (tMc1teststartOnPress checked s, [])"
| "session_do cfg Ev_contactor_off s = Some (MagneticContactorOff s, [])"

text \<open>\<open>session_run cfg s0 es s\<close>: the events \<open>es\<close>, in this order, lead from \<open>s0\<close> to \<open>s\<close>.\<close>

inductive session_run :: "charge_cfg \<Rightarrow> session \<Rightarrow> session_event list \<Rightarrow> session \<Rightarrow> bool" for cfg :: charge_cfg and s0 :: session where
  run_start: "session_run cfg s0 [] s0"
| run_step: "session_run cfg s0 es s \<Longrightarrow> session_do cfg e s = Some (s', acts) \<Longrightarrow> session_run cfg s0 (es @ [e]) s'"

section \<open>Frames\<close>

text \<open>The fields that the safety of the contactor rests on, as the simple operations leave them.\<close>

named_theorems session_frames \<open>the contactor and the emergency flag after an operation\<close>

lemma mc_off_fields [session_frames]:
  "MCOn (MagneticContactorOff s) = False" "magnet_pin (MagneticContactorOff s) = False"
  "EmgControl (MagneticContactorOff s) = EmgControl s" "app_order (MagneticContactorOff s) = app_order s"
  "bCpStat (MagneticContactorOff s) = bCpStat s" "sCharging (MagneticContactorOff s) = sCharging s"
  by (simp_all add: MagneticContactorOff_def)

lemma led_fields [session_frames]:
  "MCOn (LEDOff s) = MCOn s" "magnet_pin (LEDOff s) = magnet_pin s" "EmgControl (LEDOff s) = EmgControl s"
  "MCOn (LEDStopBlink s) = MCOn s" "magnet_pin (LEDStopBlink s) = magnet_pin s" "EmgControl (LEDStopBlink s) = EmgControl s"
  "MCOn (LEDStartBlink s) = MCOn s" "magnet_pin (LEDStartBlink s) = magnet_pin s" "EmgControl (LEDStartBlink s) = EmgControl s"
  "app_order (LEDOff s) = app_order s" "app_order (LEDStopBlink s) = app_order s" "app_order (LEDStartBlink s) = app_order s"
  "MCOn (ChBlinkTask s) = MCOn s" "magnet_pin (ChBlinkTask s) = magnet_pin s" "EmgControl (ChBlinkTask s) = EmgControl s"
  by (simp_all add: LEDOff_def LEDStopBlink_def LEDStartBlink_def ChBlinkTask_def LEDOn_def)

lemma goto_fields [session_frames]:
  "MCOn (fst (GotoNextLayerOnCharge s)) = MCOn s" "magnet_pin (fst (GotoNextLayerOnCharge s)) = magnet_pin s"
  "EmgControl (fst (GotoNextLayerOnCharge s)) = EmgControl s" "app_order (fst (GotoNextLayerOnCharge s)) = app_order s"
  "sCharging (fst (GotoNextLayerOnCharge s)) = sCharging s"
  by (simp_all add: GotoNextLayerOnCharge_def)

lemma stop_fields [session_frames]:
  "MCOn (fst (StopCharge s)) = False" "magnet_pin (fst (StopCharge s)) = False" "EmgControl (fst (StopCharge s)) = EmgControl s"
  "MCOn (fst (TSCT_ChargingStop s)) = False" "magnet_pin (fst (TSCT_ChargingStop s)) = False"
  "EmgControl (fst (TSCT_ChargingStop s)) = EmgControl s" "app_order (fst (TSCT_ChargingStop s)) = APP_ORDER_CHARGING_STOP"
  "MCOn (fst (StopCharge2ch s)) = False" "magnet_pin (fst (StopCharge2ch s)) = False" "EmgControl (fst (StopCharge2ch s)) = EmgControl s"
  "sCharging (fst (StopCharge s)) = False" "app_order (fst (StopCharge s)) = app_order s"
  by (simp_all add: StopCharge_def StopCharge2ch_def TSCT_ChargingStop_def Let_def session_frames split_beta)

text \<open>\<open>mc_le s s'\<close>: from \<open>s\<close> to \<open>s'\<close> the emergency flag is unchanged and the contactor was not closed.\<close>

definition mc_le :: "session \<Rightarrow> session \<Rightarrow> bool" where
  "mc_le s s' \<longleftrightarrow> EmgControl s' = EmgControl s \<and> (MCOn s' = MCOn s \<and> magnet_pin s' = magnet_pin s \<or> \<not> MCOn s' \<and> \<not> magnet_pin s')"

lemma mc_leI: "EmgControl s' = EmgControl s \<Longrightarrow> MCOn s' = MCOn s \<Longrightarrow> magnet_pin s' = magnet_pin s \<Longrightarrow> mc_le s s'"
  by (simp add: mc_le_def)

lemma mc_le_trans: "mc_le s t \<Longrightarrow> mc_le t u \<Longrightarrow> mc_le s u"
  by (auto simp: mc_le_def)

lemma stop_mc_le: "mc_le s (fst (StopCharge s))" "mc_le s (fst (TSCT_ChargingStop s))" "mc_le s (fst (StopCharge2ch s))"
    "mc_le s (fst (GotoNextLayerOnCharge s))" "mc_le s (fst (UpdateStopGui s))" "mc_le s (fst (ShowWhmErrorDialogBox e s))"
  by (simp_all add: mc_le_def session_frames UpdateStopGui_def ShowWhmErrorDialogBox_def split_beta)

lemma timeout_mc_le: "mc_le s (fst (TimeOutChargeStartWait s))"
  by (simp add: TimeOutChargeStartWait_def split_beta) (rule mc_le_trans [OF stop_mc_le(6) stop_mc_le(4)])

text \<open>The operations that may fail, by the structure of their definitions.\<close>

abbreviation keeps_mc :: "session \<Rightarrow> (session \<times> session_act list) option \<Rightarrow> bool" where
  "keeps_mc s r \<equiv> yields (\<lambda>x. mc_le s (fst x)) r"

lemma keeps_mc_bind:
  assumes "keeps_mc s r" "\<And>t a. mc_le s t \<Longrightarrow> yields (\<lambda>x. mc_le t (fst x)) (f (t, a))"
  shows "keeps_mc s (Option.bind r f)"
  using assms by (cases r) (fastforce simp: yields_def intro: mc_le_trans)+

lemma mc_le_upd [simp]: "mc_le s s"
  by (simp add: mc_le_def)

lemma set_mc_le: "SetCpStatus c i s = Some t \<Longrightarrow> mc_le s t" "SetEpq n b s = Some t \<Longrightarrow> mc_le s t"
  by (auto simp: SetCpStatus_def SetEpq_def mc_le_def split: bind_splits)

lemma mc_le_Pair: "mc_le s (fst p) \<Longrightarrow> p = (t, a) \<Longrightarrow> mc_le s t"
  by simp

lemma fault_mc_le: "keeps_mc s (fault_react cfg i nBit err code s)"
  unfolding fault_react_def Let_def split_beta
proof (intro yields_rules)
  fix t u assume t: "SetEpq nBit False (s\<lparr>Fault_Count := [0, 0, 0], charge_comp_status := END_ERR\<rparr>) = Some t"
    and u: "SetCpStatus CP_STATUS_CODE_FAULT (bDevChannel cfg + 1) ((fst (ShowWhmErrorDialogBox err t))\<lparr>charger_errcode := code\<rparr>) = Some u"
  have "mc_le s t" using set_mc_le(2) [OF t] by (simp add: mc_le_def)
  moreover have "mc_le t u" using set_mc_le(1) [OF u] stop_mc_le(6) [of t err] by (auto simp: mc_le_def)
  ultimately show "mc_le s (fst (u, snd (ShowWhmErrorDialogBox err t)))" by (auto intro: mc_le_trans)
qed simp

lemma ami_mc_le: "keeps_mc s (charge_ami e s)"
  unfolding charge_ami_def
  by (intro yields_rules) (auto dest!: set_mc_le intro: mc_le_trans stop_mc_le)

lemma keeps_mc_from: "mc_le s t \<Longrightarrow> keeps_mc t r \<Longrightarrow> keeps_mc s r"
  by (auto simp: yields_def intro: mc_le_trans)

lemma fault_task_mc_le: "keeps_mc s (ChargeFaultMonitoringTaskFuntion cfg e c v s)"
  unfolding ChargeFaultMonitoringTaskFuntion_def Let_def
proof (intro yields_if keeps_mc_bind [OF ami_mc_le], simp only: prod.case)
  fix t :: session and a
  let ?t = "t\<lparr>Fault_Count := [fault_count (LIMIT_OV_CURR < c) (Fault_Count t ! 0), fault_count (LIMIT_OV_VOLT < v) (Fault_Count t ! 1),
     fault_count (v < LIMIT_UD_VOLT) (Fault_Count t ! 2)]\<rparr>"
  show "keeps_mc t (do {
      (s, b) \<leftarrow> fault_react cfg 0 CST_OUT_OVER_CURRENT ERR_OV_CURT ERR_CODE_OV_CURT ?t;
      (s, c) \<leftarrow> fault_react cfg 1 CST_OUT_OVER_VOLTAGE ERR_OV_VOLT ERR_CODE_OV_VOLT s;
      (s, d) \<leftarrow> fault_react cfg 2 CST_IN_UNDER_VOLTAGE ERR_UD_VOLT ERR_CODE_UD_VOLT s;
      Some (s, a @ b @ c @ d)})"
    by (rule keeps_mc_from [of _ ?t], simp add: mc_le_def)
      ((intro keeps_mc_bind [OF fault_mc_le], simp only: prod.case)+, simp add: yields_def)
qed (simp add: yields_def mc_le_def)

lemma stop_opt_mc_le: "keeps_mc s (Some (TSCT_ChargingStop s))" "keeps_mc s (Some (s, a))" "keeps_mc s (Some (GotoNextLayerOnCharge s))"
    "keeps_mc s (Some (TimeOutChargeStartWait s))"
  by (simp_all add: yields_def stop_mc_le timeout_mc_le)

lemma zero_mc_le: "keeps_mc s (CheckCurrentIsZero cfg current s)"
  unfolding CheckCurrentIsZero_def Let_def split_beta
  by (intro yields_rules) (auto simp: mc_le_def session_frames UpdateStopGui_def)

lemma meter_mc_le: "keeps_mc s (WHMListenerOnCharge cfg current energy s)"
  unfolding WHMListenerOnCharge_def Let_def
  by (intro yields_bind yields_if; rule keeps_mc_from [OF _ zero_mc_le]) (simp add: mc_le_def)

lemma card_mc_le: "keeps_mc s (CardReaderListenerOnCharging cfg data n s)"
  unfolding CardReaderListenerOnCharging_def Let_def
  by (intro yields_rules; (rule keeps_mc_from [OF _ stop_opt_mc_le(1)])?) (auto simp: mc_le_def session_frames)

lemma account_mc_le: "keeps_mc s (charge_account env s)"
  unfolding charge_account_def Let_def
  by (intro yields_rules) (auto simp: mc_le_def session_frames)

lemma parent_mc_le: "mc_le s (fst (charge_parent s))"
  by (simp add: charge_parent_def Let_def split_beta mc_le_def session_frames)

lemma network_mc_le: "mc_le s (fst (charge_network cfg env s))"
  by (simp add: charge_network_def Let_def mc_le_def session_frames)

lemma stops_mc_le: "keeps_mc s (charge_stops cfg env s)"
proof -
  have "keeps_mc s (if faultChargFlg env then if StopOnInvalidId cfg then Some (TSCT_ChargingStop s)
            else do { s \<leftarrow> SetCpStatus CP_STATUS_CODE_SUSPENDEDEVSE 1 s; Some (s, []) } else Some (s, []))"
    by (intro yields_rules) (auto simp: mc_le_def session_frames SetCpStatus_def split: bind_splits)
  then show ?thesis unfolding charge_stops_def Let_def split_beta
    by (rule keeps_mc_bind) (simp add: yields_def mc_le_def session_frames)
qed

lemma monitor_mc_le: "keeps_mc s (sChargeMonitoringTaskFuntion cfg env s)"
  unfolding sChargeMonitoringTaskFuntion_def Let_def split_beta
proof (intro yields_if keeps_mc_bind [OF account_mc_le])
  fix t :: session and a
  let ?u = "fst (charge_network cfg env (fst (charge_parent t)))"
  have "mc_le t ?u" by (rule mc_le_trans [OF parent_mc_le network_mc_le])
  then show "keeps_mc t (do {
      x \<leftarrow> charge_stops cfg env (fst (charge_network cfg env (fst (charge_parent (fst (t, a))))));
      Some (fst x, snd (t, a) @ snd (charge_parent (fst (t, a))) @ snd (charge_network cfg env (fst (charge_parent (fst (t, a))))) @ snd x)})"
    using stops_mc_le [of ?u cfg env] by (auto simp: yields_def intro: mc_le_trans split: bind_splits)
qed (simp add: yields_def mc_le_def)

lemma button_mc_le: "keeps_mc s (ChargeStopOnDialog cfg s)"
  unfolding ChargeStopOnDialog_def Let_def split_beta
  by (intro yields_bind yields_Some) (auto simp: mc_le_def session_frames UpdateStopGui_def split: if_splits bind_splits)

lemma sequence_mc_le: "mc_le s (fst (sOrderSequenceMonitoringTaskFuntion admin off now s))"
  by (simp add: sOrderSequenceMonitoringTaskFuntion_def Let_def split_beta mc_le_def session_frames UpdateStopGui_def)

lemma stop_record_le: "stop_record cfg s = Some t \<Longrightarrow> mc_le s t"
  by (auto simp: stop_record_def mc_le_def split: bind_splits)

lemma charge_reset_le: "charge_reset cfg price s = Some t \<Longrightarrow> mc_le s t"
  by (auto simp: charge_reset_def mc_le_def Let_def dest!: stop_record_le split: bind_splits if_splits)

lemma enter_mc_le: "keeps_mc s (ChargeOnEnter cfg price s)"
  unfolding ChargeOnEnter_def Let_def split_beta
  by (intro yields_rules) (auto dest!: charge_reset_le simp: mc_le_def session_frames UpdateStopGui_def split: if_splits bind_splits)

lemma leave_mc_le: "keeps_mc s (ChargeOnLeave cfg sleep s)"
  unfolding ChargeOnLeave_def Let_def split_beta
  by (intro yields_rules) (auto dest!: stop_record_le simp: mc_le_def session_frames split: if_splits)

section \<open>The contactor\<close>

lemma suspend_mc_le: "mc_le s (cp_suspend now s)"
  by (simp add: mc_le_def cp_suspend_def session_frames)

lemma unplug_mc_le: "keeps_mc s (cp_unplug cfg now s)"
  unfolding cp_unplug_def Let_def split_beta
  by (intro yields_rules) (auto simp: mc_le_def session_frames UpdateStopGui_def cp_suspend_def dest: set_mc_le)

lemma pilot_12V:
  "\<not> EmgControl s \<Longrightarrow> CPListenerOnCharge cfg now CP_VOLTAGE_12V s = do {
     (s, acts) \<leftarrow> cp_unplug cfg now s;
     let (s, more) = (if sCharging s then GotoNextLayerOnCharge s else TimeOutChargeStartWait s);
     Some (s, acts @ more)
   }"
  by (simp add: CPListenerOnCharge_def)

lemma pilot_other_mc_le:
  assumes "v \<noteq> CP_VOLTAGE_6V"
  shows "keeps_mc s (CPListenerOnCharge cfg now v s)"
proof (cases "\<not> EmgControl s \<and> v = CP_VOLTAGE_12V")
  case True
  then have v: "\<not> EmgControl s" "v = CP_VOLTAGE_12V" by simp_all
  show ?thesis
    unfolding v(2) pilot_12V [OF v(1)] split_beta Let_def
    by (intro keeps_mc_bind [OF unplug_mc_le]) (simp add: yields_def stop_mc_le timeout_mc_le)
next
  case False
  then show ?thesis using assms
    by (cases v) (simp_all add: CPListenerOnCharge_def yields_def mc_le_def cp_suspend_def session_frames)
qed

lemma pilot_6V:
  assumes "CPListenerOnCharge cfg now CP_VOLTAGE_6V s = Some (s', acts)"
  shows "EmgControl s' = EmgControl s" "MCOn s = magnet_pin s \<Longrightarrow> MCOn s' = magnet_pin s'"
    "magnet_pin s' \<noteq> magnet_pin s \<Longrightarrow> \<not> EmgControl s \<and> \<not> bReqRmtStopTSFlg s \<and>
       bDevChannel cfg < length (charge_stop_btnState s) \<and> charge_stop_btnState s ! bDevChannel cfg = 0"
    "EmgControl s \<Longrightarrow> s' = s"
  using assms
  by (auto simp: CPListenerOnCharge_def StartCharge_def MagneticContactorOn_def SetCpStatus_def wr_Some rd_Some
      split: if_splits bind_splits)

section \<open>One step\<close>

lemma test_mc_le: "mc_le s (MagneticContactorOff s)" "mc_le s (tMc1teststartOnPress True s)"
  by (simp_all add: tMc1teststartOnPress_def mc_le_def session_frames)

text \<open>The emergency listener sets the flag together with the contactor, and closes the contactor in no case.\<close>

lemma emergency_step:
  assumes "EMBListenerOnCharge12 admin pressed s = Some (s', acts)"
  shows "MCOn s' = MCOn s \<and> magnet_pin s' = magnet_pin s \<and> (EmgControl s' \<longrightarrow> EmgControl s) \<or> \<not> MCOn s' \<and> \<not> magnet_pin s'"
  using assms
  by (auto simp: EMBListenerOnCharge12_def Let_def SetEpq_def session_frames split: if_splits bind_splits prod.splits)

lemma session_step_mc:
  assumes "session_do cfg e s = Some (s', acts)"
  shows "mc_le s s' \<or> (\<exists>now. e = Ev_pilot now CP_VOLTAGE_6V) \<or> (\<exists>admin pressed. e = Ev_emergency admin pressed) \<or>
    e = Ev_test False"
proof (cases e)
  case (Ev_pilot now v)
  then show ?thesis using yieldsD [OF pilot_other_mc_le [of v s cfg now]] assms by (cases "v = CP_VOLTAGE_6V") auto
next
  case (Ev_meter c w)
  then show ?thesis using yieldsD [OF meter_mc_le, of cfg c w s] assms by (auto split: if_splits)
next
  case (Ev_test checked)
  then show ?thesis using test_mc_le(2) [of s] assms by (cases checked) auto
qed (use assms in \<open>auto simp: session_frames mc_le_def [of s "ChBlinkTask s"] intro: mc_leI test_mc_le
  dest: yieldsD [OF button_mc_le] yieldsD [OF card_mc_le] yieldsD [OF monitor_mc_le] yieldsD [OF fault_task_mc_le]
    yieldsD [OF enter_mc_le] yieldsD [OF leave_mc_le] mc_le_Pair [OF timeout_mc_le] mc_le_Pair [OF sequence_mc_le]\<close>)

lemma test_button_step: "session_do cfg (Ev_test checked) s = Some (s', acts) \<Longrightarrow>
    EmgControl s' = EmgControl s \<and> MCOn s' = magnet_pin s' \<and> magnet_pin s' = (\<not> checked)"
  by (cases checked) (auto simp: tMc1teststartOnPress_def MagneticContactorOn_def MagneticContactorOff_def)

text \<open>The run closed the contactor by a test button while the emergency flag was set, after the events \<open>es1\<close>.\<close>

definition test_in_emergency :: "charge_cfg \<Rightarrow> session \<Rightarrow> session_event list \<Rightarrow> bool" where
  "test_in_emergency cfg s0 es \<longleftrightarrow>
     (\<exists>es1 es2 t. es = es1 @ Ev_test False # es2 \<and> session_run cfg s0 es1 t \<and> EmgControl t)"

lemma test_in_emergency_more: "test_in_emergency cfg s0 es \<Longrightarrow> test_in_emergency cfg s0 (es @ [e])"
  unfolding test_in_emergency_def by fastforce

lemma test_in_emergency_now: "session_run cfg s0 es s \<Longrightarrow> EmgControl s \<Longrightarrow> test_in_emergency cfg s0 (es @ [Ev_test False])"
  unfolding test_in_emergency_def by blast

definition session_inv :: "bool \<Rightarrow> session \<Rightarrow> bool" where
  "session_inv tested s \<longleftrightarrow> MCOn s = magnet_pin s \<and> (EmgControl s \<longrightarrow> \<not> magnet_pin s \<or> tested)"

lemma session_inv_step:
  assumes "session_inv tested s" "session_do cfg e s = Some (s', acts)" "e = Ev_test False \<Longrightarrow> EmgControl s \<Longrightarrow> tested"
  shows "session_inv tested s'"
proof -
  consider "mc_le s s'" | now where "e = Ev_pilot now CP_VOLTAGE_6V" | admin pressed where "e = Ev_emergency admin pressed"
    | "e = Ev_test False"
    using session_step_mc [OF assms(2)] by blast
  then show ?thesis
  proof cases
    case 1
    then show ?thesis using assms(1) by (auto simp: session_inv_def mc_le_def)
  next
    case 2
    then have p: "CPListenerOnCharge cfg now CP_VOLTAGE_6V s = Some (s', acts)" using assms(2) by simp
    show ?thesis using pilot_6V(1,2,4) [OF p] assms(1) by (cases "EmgControl s") (auto simp: session_inv_def)
  next
    case 3
    then show ?thesis using emergency_step [of admin pressed s s' acts] assms by (auto simp: session_inv_def)
  next
    case 4
    then show ?thesis using test_button_step [of cfg False s s' acts] assms(2,3) by (auto simp: session_inv_def)
  qed
qed

lemma session_run_inv:
  assumes "session_run cfg s0 es s" "\<not> MCOn s0" "\<not> magnet_pin s0"
  shows "session_inv (test_in_emergency cfg s0 es) s"
  using assms(1)
proof induction
  case run_start
  then show ?case using assms(2,3) by (simp add: session_inv_def)
next
  case (run_step es s e s' acts)
  have "session_inv (test_in_emergency cfg s0 (es @ [e])) s"
    using run_step.IH test_in_emergency_more by (auto simp: session_inv_def)
  then show ?case
    by (rule session_inv_step [OF _ run_step.hyps(2)]) (use test_in_emergency_now [OF run_step.hyps(1)] in simp)
qed

section \<open>The equipment status\<close>

lemma epq_set: "nBit div 8 < length es \<Longrightarrow> \<exists>es'. CstSetEpqStatus nBit ok es = Some es' \<and> length es' = length es \<and>
    CstGetEpqStatus nBit es' = Some (\<not> ok)"
  by (simp add: CstSetEpqStatus_def CstGetEpqStatus_def rd_def wr_def Let_def and_exp_eq_0_iff_not_bit
      push_bit_eq_mult [of _ 1] bit_simps)

section \<open>The fault task\<close>

fun fault_run :: "charge_cfg \<Rightarrow> (bool \<times> u16 \<times> u16) list \<Rightarrow> session \<Rightarrow> (session \<times> session_act list) option" where
  "fault_run cfg [] s = Some (s, [])"
| "fault_run cfg ((e, a, v) # ps) s = do {
     (s, acts) \<leftarrow> ChargeFaultMonitoringTaskFuntion cfg e a v s;
     (s, more) \<leftarrow> fault_run cfg ps s;
     Some (s, acts @ more)
   }"

definition fault_ready :: "charge_cfg \<Rightarrow> session \<Rightarrow> bool" where
  "fault_ready cfg s \<longleftrightarrow> sDLsChargeFaultMonitoring s \<and> length (eqp_status s) = 8 \<and> bDevChannel cfg + 1 < length (bCpStat s)"

lemma ami_ok:
  assumes "fault_ready cfg s"
  shows "\<exists>es. charge_ami False s = Some (s\<lparr>eqp_status := es\<rparr>, []) \<and> length es = 8"
  using epq_set [of CST_COM_WHM "eqp_status s" True] assms
  by (auto simp: charge_ami_def SetEpq_def fault_ready_def CstGetEpqStatus_def rd_def)

lemma overcurrent_counts:
  assumes "fault_ready cfg s" "Fault_Count s = [w8 n, 0, 0]" "n < 10" "LIMIT_OV_CURR < a" "LIMIT_UD_VOLT \<le> v" "v \<le> LIMIT_OV_VOLT"
  shows "\<exists>es. ChargeFaultMonitoringTaskFuntion cfg False a v s = Some (s\<lparr>eqp_status := es, Fault_Count := [w8 (n + 1), 0, 0]\<rparr>, []) \<and> length es = 8"
proof -
  obtain es where es: "charge_ami False s = Some (s\<lparr>eqp_status := es\<rparr>, [])" "length es = 8" using ami_ok [OF assms(1)] by blast
  have n: "w8 n + 1 = w8 (n + 1)" by (simp add: w8_def)
  have "\<not> 10 < w8 (n + 1)" using assms(3) by (simp add: word_less_nat_alt unat_w8)
  moreover have "fault_count (LIMIT_OV_CURR < a) (w8 n) = w8 (n + 1)" "fault_count (LIMIT_OV_VOLT < v) 0 = 0" "fault_count (v < LIMIT_UD_VOLT) 0 = 0"
    using assms(4-6) by (simp_all add: fault_count_def n not_less)
  ultimately show ?thesis using es assms(1,2)
    by (intro exI [of _ es]) (simp add: ChargeFaultMonitoringTaskFuntion_def fault_ready_def fault_react_def Let_def)
qed

lemma overcurrent_run:
  assumes "fault_ready cfg s" "Fault_Count s = [w8 n, 0, 0]" "n + length ps \<le> 10"
    "\<forall>(e, a, v)\<in>set ps. \<not> e \<and> LIMIT_OV_CURR < a \<and> LIMIT_UD_VOLT \<le> v \<and> v \<le> LIMIT_OV_VOLT"
  shows "\<exists>es. fault_run cfg ps s = Some (s\<lparr>eqp_status := es, Fault_Count := [w8 (n + length ps), 0, 0]\<rparr>, []) \<and> length es = 8"
  using assms
proof (induction ps arbitrary: s n)
  case Nil
  have "s = s\<lparr>eqp_status := eqp_status s, Fault_Count := [w8 n, 0, 0]\<rparr>" using Nil.prems(2) by (cases s) simp
  then show ?case using Nil.prems(1) by (intro exI [of _ "eqp_status s"]) (simp add: fault_ready_def)
next
  case (Cons p ps)
  obtain e a v where p: "p = (e, a, v)" by (cases p)
  then have c: "\<not> e" "LIMIT_OV_CURR < a" "LIMIT_UD_VOLT \<le> v" "v \<le> LIMIT_OV_VOLT" using Cons.prems(4) by auto
  obtain es where es: "ChargeFaultMonitoringTaskFuntion cfg False a v s =
      Some (s\<lparr>eqp_status := es, Fault_Count := [w8 (n + 1), 0, 0]\<rparr>, [])" "length es = 8"
    using overcurrent_counts [OF Cons.prems(1,2) _ c(2-4)] Cons.prems(3) by auto
  obtain es' where "fault_run cfg ps (s\<lparr>eqp_status := es, Fault_Count := [w8 (n + 1), 0, 0]\<rparr>) =
      Some (s\<lparr>eqp_status := es', Fault_Count := [w8 (n + 1 + length ps), 0, 0]\<rparr>, [])" "length es' = 8"
    using Cons.IH [of "s\<lparr>eqp_status := es, Fault_Count := [w8 (n + 1), 0, 0]\<rparr>" "n + 1"] Cons.prems es
    by (auto simp: fault_ready_def)
  then show ?case using es c(1) by (intro exI [of _ es']) (simp add: p)
qed

lemma overcurrent_trips:
  assumes "fault_ready cfg s" "Fault_Count s = [10, 0, 0]" "LIMIT_OV_CURR < a" "LIMIT_UD_VOLT \<le> v" "v \<le> LIMIT_OV_VOLT"
  shows "\<exists>s' acts. ChargeFaultMonitoringTaskFuntion cfg False a v s = Some (s', acts) \<and> Err_dialog ERR_OV_CURT \<in> set acts \<and>
    charge_comp_status s' = END_ERR \<and> bCpStat s' ! (bDevChannel cfg + 1) = CP_STATUS_CODE_FAULT \<and>
    (app_order s \<in> {APP_ORDER_CHARGE_READY, APP_ORDER_CHARGING} \<longrightarrow> \<not> magnet_pin s' \<and> app_order s' = APP_ORDER_CHARGING_STOP)"
proof -
  obtain es where es: "charge_ami False s = Some (s\<lparr>eqp_status := es\<rparr>, [])" "length es = 8" using ami_ok [OF assms(1)] by blast
  obtain es2 where es2: "CstSetEpqStatus CST_OUT_OVER_CURRENT False es = Some es2"
    using epq_set [of CST_OUT_OVER_CURRENT es False] es(2) by auto
  let ?t = "s\<lparr>Fault_Count := [0, 0, 0], charge_comp_status := END_ERR, eqp_status := es2\<rparr>"
  let ?d = "ShowWhmErrorDialogBox ERR_OV_CURT ?t"
  let ?u = "(fst ?d)\<lparr>charger_errcode := ERR_CODE_OV_CURT, bCpStat := (bCpStat s)[bDevChannel cfg + 1 := CP_STATUS_CODE_FAULT]\<rparr>"
  have f: "fault_count (LIMIT_OV_CURR < a) 10 = 11" "fault_count (LIMIT_OV_VOLT < v) 0 = 0" "fault_count (v < LIMIT_UD_VOLT) 0 = 0"
    using assms(3-5) by (simp_all add: fault_count_def not_less)
  have d: "Fault_Count (fst ?d) = [0, 0, 0]" "bCpStat (fst ?d) = bCpStat s" "charge_comp_status (fst ?d) = END_ERR"
      "app_order s \<in> {APP_ORDER_CHARGE_READY, APP_ORDER_CHARGING} \<Longrightarrow> \<not> magnet_pin (fst ?d) \<and> app_order (fst ?d) = APP_ORDER_CHARGING_STOP"
      "Err_dialog ERR_OV_CURT \<in> set (snd ?d)"
    by (auto simp: ShowWhmErrorDialogBox_def TSCT_ChargingStop_def GotoNextLayerOnCharge_def LEDStopBlink_def LEDOff_def MagneticContactorOff_def
        Let_def split_beta)
  have "ChargeFaultMonitoringTaskFuntion cfg False a v s = Some (?u, snd ?d)"
    using es es2 assms(1,2) f d(1,2)
    by (simp add: ChargeFaultMonitoringTaskFuntion_def fault_ready_def fault_react_def Let_def SetEpq_def SetCpStatus_def wr_def
        split_beta)
  then show ?thesis using d assms(1) by (auto simp: fault_ready_def)
qed

section \<open>Properties\<close>

text \<open>A session at rest, for the witnesses.\<close>

definition session_idle :: session where
  "session_idle = \<lparr>MCOn = False, magnet_pin = False, sLedOn = False, sBlinkRunning = False, sCharging = False, sChCharging = False,
     bLayerChargeFlg = False, StartTimeCheck = False, chargecomp_stop = False, charge_stop_btnState = [0, 0],
     sCh1CurrentZeroTime = 0, sChargeTime = 0, stv = 0, stime = 0, app_order = APP_ORDER_WAIT, charge_comp_status = END_NONE,
     bCpStat = [CP_STATUS_CODE_AVAIL, CP_STATUS_CODE_AVAIL], charger_errcode = ERR_CODE_NONE, eqp_status = replicate 8 0xFF,
     Fault_Count = [0, 0, 0], EmgControl = False, bReqEmgBtnFlg = False, EmgCount = 0, oldPressed = False,
     bReqRmtStopTSFlg = False, bReqAuthNo = 0, NetError_ChargingFlg = False, NetErrorTime = 0, gAmiStartWatt = 0,
     gAmiChargeWatt = 0, charge_watt = 0, charge_price = 0, pricepollCount = 0, iUnitprice = 0,
     charge_provide_time = replicate 3 0, s_eqp_watt = replicate 4 0, s_charge_watt = replicate 4 0,
     s_charge_money = replicate 4 0, sOri_price = replicate 4 0, card_no = replicate 21 0, scnd_card_no = replicate 21 0,
     parentId = replicate 21 0, PId_no2 = replicate 21 0, StopTs_IdTag = replicate 21 0, StopTs_MeterStop = 0,
     StopTs_TrId = 0, StopTs_Connector = 0, StopTs_Reason = STOP_REASON_NONE, bTrId = [0, 0], secc_status_fault = 1, chargingstatus = 0,
     whm_listening = False, sDLsChargeMonitoring = False, sDLsChargeFaultMonitoring = False,
     sChargeMonitoringTask = False, sChargeFaultMonitoringTask = False\<rparr>"

definition cfg_bc :: charge_cfg where
  "cfg_bc = \<lparr>devtype = BC_TYPE, USER_AUTH_NET = True, OP_CHECK_MODE = False, OP_FREE_MODE = False, FreeChargingTime = 0,
     StopOnEVSideDisconnect = True, StopOnInvalidId = True, bDevChannel = 0\<rparr>"

text \<open>C1. From a start with an open contactor, for any list of the session's events in any order (pilot changes, meter
  readings, cards, passes of the monitoring and fault tasks, buttons, screen changes, the contactor's buttons on the
  administrator's and the qualification test's screens): whenever the emergency flag is set at the end, the contactor is
  open, both in the program's view and at the pin, or a test button was pressed to close it at a moment when the
  emergency flag was set.  No listener, task or screen of the session closes it in an emergency.\<close>

theorem emergency_keeps_contactor_open:
  assumes "session_run cfg s0 es s" "\<not> MCOn s0" "\<not> magnet_pin s0" "EmgControl s"
  shows "\<not> MCOn s \<and> \<not> magnet_pin s \<or>
    (\<exists>es1 es2 t. es = es1 @ Ev_test False # es2 \<and> session_run cfg s0 es1 t \<and> EmgControl t)"
  using session_run_inv [OF assms(1-3)] assms(4) unfolding session_inv_def test_in_emergency_def by blast

lemma emergency_from_idle:
  "\<exists>s acts. session_do cfg (Ev_emergency False True) (session_idle\<lparr>EmgCount := 20, oldPressed := True\<rparr>) = Some (s, acts) \<and> EmgControl s"
  by (simp add: session_idle_def EMBListenerOnCharge12_def SetEpq_def CstSetEpqStatus_def rd_def wr_def Let_def LEDStopBlink_def
      LEDOff_def MagneticContactorOff_def split_beta)

theorem emergency_keeps_contactor_open_witness:
  "\<exists>s. session_run cfg_bc (session_idle\<lparr>EmgCount := 20, oldPressed := True\<rparr>) [Ev_emergency False True] s \<and>
     EmgControl s \<and> \<not> MCOn s \<and> \<not> magnet_pin s"
proof -
  let ?s0 = "session_idle\<lparr>EmgCount := 20, oldPressed := True\<rparr>"
  obtain s acts where s: "session_do cfg_bc (Ev_emergency False True) ?s0 = Some (s, acts)" "EmgControl s"
    using emergency_from_idle by blast
  have r: "session_run cfg_bc ?s0 [Ev_emergency False True] s" using run_step [OF run_start s(1)] by simp
  show ?thesis using emergency_keeps_contactor_open [OF r _ _ s(2)] r s(2) by (auto simp: session_idle_def Cons_eq_append_conv)
qed



end
