(* ===== verification/Charging_Props.thy ===== *)
theory Charging_Props
  imports Charging_Thms Meter_Thms
begin

text \<open>
  Further properties of the charging session: the emergency flag follows the button, the fault task is debounced,
  the accounting stores what the meter counted, and the limits of the zero-current test and of the meter alarm.
\<close>

section \<open>The emergency button\<close>

lemma emergency_pressed:
  assumes "20 \<le> EmgCount s" "oldPressed s" "length (eqp_status s) = 8"
  shows "\<exists>s' acts. EMBListenerOnCharge12 False True s = Some (s', acts) \<and> EmgControl s' \<and> \<not> oldPressed s' \<and>
    \<not> magnet_pin s' \<and> charge_comp_status s' = END_EMG \<and> length (eqp_status s') = 8 \<and> 20 \<le> EmgCount s' \<and>
    CstGetEpqStatus CST_EMG_SW (eqp_status s') = Some True \<and>
    (app_order s \<in> {APP_ORDER_CHARGE_INPUT, APP_ORDER_CHARGE_READY, APP_ORDER_CHARGING, APP_ORDER_CHARGING_STOP} \<longrightarrow>
       app_order s' = APP_ORDER_CHARGE_END \<and> Goto_layer ''ch2FinishLayer'' \<in> set acts)"
proof -
  obtain es where es: "CstSetEpqStatus CST_EMG_SW False (eqp_status s) = Some es" "length es = 8" "CstGetEpqStatus CST_EMG_SW es = Some True"
    using epq_set [of CST_EMG_SW "eqp_status s" False] assms(3) by auto
  show ?thesis
    using assms(1,2) es
    by (auto simp: EMBListenerOnCharge12_def SetEpq_def Let_def LEDStopBlink_def LEDOff_def MagneticContactorOff_def split_beta
        less_eq_APP_ORDER_def app_order_no_def)
qed

lemma emergency_released:
  assumes "20 \<le> EmgCount s" "\<not> oldPressed s" "length (eqp_status s) = 8"
  shows "\<exists>s' acts. EMBListenerOnCharge12 False False s = Some (s', acts) \<and> \<not> EmgControl s' \<and> oldPressed s' \<and>
    length (eqp_status s') = 8 \<and> 20 \<le> EmgCount s'"
  using epq_set [of CST_EMG_SW "eqp_status s" True] assms
  by (auto simp: EMBListenerOnCharge12_def SetEpq_def Let_def)

lemma emergency_unchanged:
  assumes "20 \<le> EmgCount s" "pressed \<noteq> oldPressed s"
  shows "EMBListenerOnCharge12 False pressed s = Some (s\<lparr>EmgCount := EmgCount s + 1\<rparr>, [])"
  using assms by (simp add: EMBListenerOnCharge12_def Let_def)

fun emergency_run :: "bool list \<Rightarrow> session \<Rightarrow> session option" where
  "emergency_run [] s = Some s"
| "emergency_run (p # ps) s = do {
     (s, acts) \<leftarrow> EMBListenerOnCharge12 False p s;
     emergency_run ps s
   }"

text \<open>Ten seconds after the start (20 calls), once the flag and the expected button state agree, the emergency flag follows the
  button: after any sequence of samples it equals the last one.\<close>

theorem emergency_follows_button:
  assumes "20 \<le> EmgCount s" "EmgControl s = (\<not> oldPressed s)" "length (eqp_status s) = 8" "ps \<noteq> []"
  shows "\<exists>s'. emergency_run ps s = Some s' \<and> EmgControl s' = last ps \<and> oldPressed s' = (\<not> last ps)"
  using assms
proof (induction ps arbitrary: s)
  case (Cons p ps)
  obtain s1 acts where s1: "EMBListenerOnCharge12 False p s = Some (s1, acts)" "EmgControl s1 = p" "oldPressed s1 = (\<not> p)"
      "20 \<le> EmgCount s1" "length (eqp_status s1) = 8"
  proof (cases "p = oldPressed s")
    case True
    then show ?thesis
      using that emergency_pressed [of s] emergency_released [of s] Cons.prems by (cases p) auto
  next
    case False
    then show ?thesis
      using that [OF emergency_unchanged [of s p]] Cons.prems by auto
  qed
  show ?case
  proof (cases "ps = []")
    case True
    then show ?thesis using s1 by simp
  next
    case False
    then show ?thesis using Cons.IH [of s1] s1 by auto
  qed
qed simp

theorem emergency_follows_button_witness:
  "\<exists>s'. emergency_run [False, True, True] (session_idle\<lparr>EmgCount := 20, oldPressed := True\<rparr>) = Some s' \<and> EmgControl s'"
  using emergency_follows_button [of "session_idle\<lparr>EmgCount := 20, oldPressed := True\<rparr>" "[False, True, True]"]
  by (auto simp: session_idle_def)

text \<open>A button that is already pressed when the program starts is not noticed until it was released once.\<close>

lemma emergency_at_boot_ignored:
  assumes "\<not> oldPressed s"
  shows "\<exists>c. emergency_run (replicate n True) s = Some (s\<lparr>EmgCount := c\<rparr>)"
  using assms
proof (induction n arbitrary: s)
  case 0
  have "s = s\<lparr>EmgCount := EmgCount s\<rparr>" by simp
  then show ?case by (intro exI [of _ "EmgCount s"]) simp
next
  case (Suc n)
  have "EMBListenerOnCharge12 False True s = Some (s\<lparr>EmgCount := EmgCount s + 1\<rparr>, [])"
    using Suc.prems by (simp add: EMBListenerOnCharge12_def Let_def)
  moreover obtain c where "emergency_run (replicate n True) (s\<lparr>EmgCount := EmgCount s + 1\<rparr>) = Some (s\<lparr>EmgCount := c\<rparr>)"
    using Suc.IH [of "s\<lparr>EmgCount := EmgCount s + 1\<rparr>"] Suc.prems by auto
  ultimately show ?case by auto
qed

section \<open>Over-current\<close>

text \<open>C24. Ten passes in a row with a current above the limit have no effect; the eleventh reports the over-current, marks the
  session as ended by an error and the connector as faulted, and opens the contactor of a session that is charging.\<close>

theorem overcurrent_stops_charging:
  assumes "sDLsChargeFaultMonitoring s" "length (eqp_status s) = 8" "bDevChannel cfg + 1 < length (bCpStat s)" "Fault_Count s = [0, 0, 0]"
    and "length ps = 10" "\<forall>(e, a, v)\<in>set ps. \<not> e \<and> 3500 < a \<and> 19800 \<le> v \<and> v \<le> 26400"
    and "3500 < a" "19800 \<le> v" "v \<le> 26400"
  shows "\<exists>s1 s2 acts. fault_run cfg ps s = Some (s1, []) \<and> app_order s1 = app_order s \<and> magnet_pin s1 = magnet_pin s \<and>
    ChargeFaultMonitoringTaskFuntion cfg False a v s1 = Some (s2, acts) \<and> Err_dialog ERR_OV_CURT \<in> set acts \<and>
    charge_comp_status s2 = END_ERR \<and> bCpStat s2 ! (bDevChannel cfg + 1) = CP_STATUS_CODE_FAULT \<and>
    (app_order s \<in> {APP_ORDER_CHARGE_READY, APP_ORDER_CHARGING} \<longrightarrow>
       \<not> magnet_pin s2 \<and> app_order s2 = APP_ORDER_CHARGING_STOP)"
proof -
  have r: "fault_ready cfg s" using assms(1-3) by (simp add: fault_ready_def)
  have z: "Fault_Count s = [w8 0, 0, 0]" using assms(4) by (simp add: w8_def)
  obtain es where es: "fault_run cfg ps s = Some (s\<lparr>eqp_status := es, Fault_Count := [w8 10, 0, 0]\<rparr>, [])" "length es = 8"
    using overcurrent_run [OF r z, of ps] assms(5,6) by auto
  let ?s1 = "s\<lparr>eqp_status := es, Fault_Count := [w8 10, 0, 0]\<rparr>"
  have r1: "fault_ready cfg ?s1" using r es(2) by (simp add: fault_ready_def)
  have z1: "Fault_Count ?s1 = [10, 0, 0]" by (simp add: w8_def)
  obtain s2 acts where "ChargeFaultMonitoringTaskFuntion cfg False a v ?s1 = Some (s2, acts)" "Err_dialog ERR_OV_CURT \<in> set acts"
      "charge_comp_status s2 = END_ERR" "bCpStat s2 ! (bDevChannel cfg + 1) = CP_STATUS_CODE_FAULT"
      "app_order s \<in> {APP_ORDER_CHARGE_READY, APP_ORDER_CHARGING} \<longrightarrow> \<not> magnet_pin s2 \<and> app_order s2 = APP_ORDER_CHARGING_STOP"
    using overcurrent_trips [OF r1 z1 assms(7-9)] by auto
  then show ?thesis using es by (intro exI [of _ ?s1] exI [of _ s2] exI [of _ acts]) simp
qed

theorem overcurrent_stops_charging_witness:
  "\<exists>s1 s2 acts. fault_run cfg_bc (replicate 10 (False, 3600, 22000)) (session_idle\<lparr>sDLsChargeFaultMonitoring := True,
       app_order := APP_ORDER_CHARGING, magnet_pin := True\<rparr>) = Some (s1, []) \<and> magnet_pin s1 \<and>
     ChargeFaultMonitoringTaskFuntion cfg_bc False 3501 26400 s1 = Some (s2, acts) \<and> \<not> magnet_pin s2"
  using overcurrent_stops_charging [of "session_idle\<lparr>sDLsChargeFaultMonitoring := True, app_order := APP_ORDER_CHARGING,
      magnet_pin := True\<rparr>" cfg_bc "replicate 10 (False, 3600, 22000)" 3501 26400]
  by (auto simp: session_idle_def cfg_bc_def)

section \<open>The meter alarm\<close>

text \<open>While the meter does not answer, the status bit and the dialog alternate from pass to pass.\<close>

lemma meter_alarm_alternates:
  assumes "CstGetEpqStatus CST_COM_WHM (eqp_status s) = Some b" "length (eqp_status s) = 8"
  shows "\<exists>s' acts. charge_ami True s = Some (s', acts) \<and> CstGetEpqStatus CST_COM_WHM (eqp_status s') = Some (\<not> b) \<and>
    length (eqp_status s') = 8 \<and> (Err_dialog ERR_AMI_DISCON \<in> set acts \<longleftrightarrow> \<not> b)"
proof -
  obtain es where es: "CstSetEpqStatus CST_COM_WHM b (eqp_status s) = Some es" "length es = 8" "CstGetEpqStatus CST_COM_WHM es = Some (\<not> b)"
    using epq_set [of CST_COM_WHM "eqp_status s" b] assms(2) by auto
  have "eqp_status (fst (ShowWhmErrorDialogBox ERR_AMI_DISCON t)) = eqp_status t"
      "Err_dialog ERR_AMI_DISCON \<in> set (snd (ShowWhmErrorDialogBox ERR_AMI_DISCON t))" for t
    by (simp_all add: ShowWhmErrorDialogBox_def TSCT_ChargingStop_def GotoNextLayerOnCharge_def LEDStopBlink_def LEDOff_def
        MagneticContactorOff_def Let_def split_beta)
  note dialog = this
  have "charge_ami True s = (if b then Some (s\<lparr>eqp_status := es\<rparr>, []) else Some (ShowWhmErrorDialogBox ERR_AMI_DISCON (s\<lparr>eqp_status := es\<rparr>)))"
    using es(1) assms(1) by (cases b) (simp_all add: charge_ami_def SetEpq_def)
  moreover obtain s' acts where d: "ShowWhmErrorDialogBox ERR_AMI_DISCON (s\<lparr>eqp_status := es\<rparr>) = (s', acts)" by fastforce
  have "eqp_status s' = es" "Err_dialog ERR_AMI_DISCON \<in> set acts"
    using dialog [of "s\<lparr>eqp_status := es\<rparr>"] unfolding d by simp_all
  ultimately show ?thesis using es d by (cases b) simp_all
qed

section \<open>Zero current\<close>

lemma minutes: "0 \<le> x \<Longrightarrow> (x smod 3600) sdiv 60 = x mod 3600 div 60" for x :: int
  by (simp add: signed_divide_int_def signed_modulo_int_def sgn_if abs_if)

lemma minutes_60: "x mod 3600 div 60 < (60::int)"
proof -
  have "y < 3600 \<Longrightarrow> y div 60 < (60::int)" for y by presburger
  then show ?thesis by simp
qed

text \<open>C30. A session without current is stopped exactly when the minute of the hour is at least 15 above the minute of the
  hour at which the current became zero.  Therefore a session whose current became zero in the last quarter of an hour
  of its charging time is never stopped, however long it lasts.\<close>

theorem zero_current_stop:
  assumes "below_001 current" "app_order s = APP_ORDER_CHARGING" "MCOn s" "sCh1CurrentZeroTime s = t0" "0 < t0" "t0 \<le> sChargeTime s"
    and "devtype cfg \<noteq> BB_TYPE" "devtype cfg \<noteq> BC2_TYPE" "bDevChannel cfg < length (charge_stop_btnState s)"
  shows "(if 15 \<le> sChargeTime s mod 3600 div 60 - t0 mod 3600 div 60
      then \<exists>s' acts. CheckCurrentIsZero cfg current s = Some (s', acts) \<and> \<not> magnet_pin s' \<and> app_order s' = APP_ORDER_CHARGING_STOP \<and>
        charge_comp_status s' = END_ERR \<and> Pwm False \<in> set acts
      else CheckCurrentIsZero cfg current s = Some (s, [])) \<and>
    (45 \<le> t0 mod 3600 div 60 \<longrightarrow> CheckCurrentIsZero cfg current s = Some (s, []))"
proof -
  let ?m = "sChargeTime s mod 3600 div 60 - t0 mod 3600 div 60"
  obtain b where b: "wr (charge_stop_btnState s) (bDevChannel cfg) 2 = Some b" using assms(9) by (simp add: wr_def)
  have no: "CheckCurrentIsZero cfg current s = Some (s, [])" if "?m < 15"
    using that assms by (auto simp: CheckCurrentIsZero_def Let_def minutes)
  have yes: "\<exists>s' acts. CheckCurrentIsZero cfg current s = Some (s', acts) \<and> \<not> magnet_pin s' \<and> app_order s' = APP_ORDER_CHARGING_STOP \<and>
        charge_comp_status s' = END_ERR \<and> Pwm False \<in> set acts" if "15 \<le> ?m"
    using that assms b by (auto simp: CheckCurrentIsZero_def Let_def minutes StopCharge_def UpdateStopGui_def GotoNextLayerOnCharge_def session_frames)
  show ?thesis using no yes minutes_60 [of "sChargeTime s"] by auto
qed

theorem zero_current_stop_witness:
  "CheckCurrentIsZero cfg_bc (0, 0) (session_idle\<lparr>app_order := APP_ORDER_CHARGING, MCOn := True, sCh1CurrentZeroTime := 2700,
       sChargeTime := 10000\<rparr>) =
     Some (session_idle\<lparr>app_order := APP_ORDER_CHARGING, MCOn := True, sCh1CurrentZeroTime := 2700, sChargeTime := 10000\<rparr>, [])"
proof -
  have "0 < round_half_even (2 ^ fl_shift 53 1 100) 100"
  proof -
    have "100 * 2 ^ 52 \<le> (2::nat) ^ fl_shift 53 1 100" using fl_shift_bound [of 1 100 53] by simp
    then have "0 < (2::nat) ^ fl_shift 53 1 100 div 100" by (simp add: div_greater_zero_iff)
    then show ?thesis by (simp add: round_half_even_def Let_def)
  qed
  then have "below_001 (0, 0)" by (simp add: below_001_def fl_def Let_def)
  then show ?thesis
    using zero_current_stop [of "(0, 0)" "session_idle\<lparr>app_order := APP_ORDER_CHARGING, MCOn := True, sCh1CurrentZeroTime := 2700,
       sChargeTime := 10000\<rparr>" 2700 cfg_bc]
    by (simp add: session_idle_def cfg_bc_def)
qed

section \<open>Accounting\<close>

lemma hms_text:
  assumes "0 \<le> h" "h < 100" "0 \<le> m" "m < 100" "0 \<le> s" "s < 100"
  shows "\<exists>temp. blit (replicate 7 0) 0 (fmt_02d h @ fmt_02d m @ fmt_02d s @ [0]) = Some temp \<and>
    bcd_val (pack_digits (temp ! 0) (temp ! 1)) = h \<and> bcd_val (pack_digits (temp ! 2) (temp ! 3)) = m \<and>
    bcd_val (pack_digits (temp ! 4) (temp ! 5)) = s"
  unfolding fmt_02d_2 [OF assms(1,2)] fmt_02d_2 [OF assms(3,4)] fmt_02d_2 [OF assms(5,6)]
  using two_digits [OF assms(1,2)] two_digits [OF assms(3,4)] two_digits [OF assms(5,6)]
  by (simp add: blit_def)

lemma hms_bcd_digits:
  assumes "0 \<le> t" "t < 360000"
  shows "\<exists>hms. hms_bcd t = Some hms \<and> map bcd_val hms = [t div 3600, t mod 3600 div 60, t mod 60]"
proof -
  have d: "t sdiv 3600 = t div 3600" "t smod 60 = t mod 60" "(t smod 3600) sdiv 60 = t mod 3600 div 60"
    using assms(1) minutes [OF assms(1)] by (simp_all add: signed_divide_int_def signed_modulo_int_def sgn_if abs_if)
  have b: "0 \<le> t div 3600" "t div 3600 < 100" "0 \<le> t mod 3600 div 60" "t mod 3600 div 60 < 100" "0 \<le> t mod 60" "t mod 60 < 100"
    using assms minutes_60 [of t] pos_mod_bound [of 60 t] by (simp_all add: pos_imp_zdiv_nonneg_iff)
  show ?thesis
    using hms_text [OF b] by (auto simp: hms_bcd_def d)
qed

text \<open>C31. In a pass that reads the unit price, a charging session stores the meter reading, the energy since the start,
  the price of that energy and the time in hours, minutes and seconds, in the encodings of the server protocol, provided
  that the meter did not run backwards, the price fits 32 bits and the session is shorter than 100 hours; a full battery
  opens the contactor.\<close>

theorem charge_accounted:
  assumes "app_order s = APP_ORDER_CHARGING" "sCharging s" "stv s \<le> env_now env" "env_now env - stv s < 360000"
    and "length (s_eqp_watt s) = 4" "length (s_charge_watt s) = 4" "length (s_charge_money s) = 4" "length (sOri_price s) = 4"
    and "gAmiStartWatt s \<le> gAmiChargeWatt s" "0 \<le> env_unit_price env" "pricepollCount s mod 8 = 0"
    and "(uint (gAmiChargeWatt s) - uint (gAmiStartWatt s)) * env_unit_price env < 2 ^ 32" "env_unit_price env < 2 ^ 31"
  shows "\<exists>s' acts. charge_account env s = Some (s', acts) \<and>
    FourByteOrder (s_eqp_watt s') = Some (gAmiChargeWatt s) \<and>
    FourByteOrder (s_charge_watt s') = Some (gAmiChargeWatt s - gAmiStartWatt s) \<and>
    uint (charge_watt s') = uint (gAmiChargeWatt s) - uint (gAmiStartWatt s) \<and>
    (\<exists>m. FourByteOrder (s_charge_money s') = Some m \<and>
      uint m = (uint (gAmiChargeWatt s) - uint (gAmiStartWatt s)) * env_unit_price env div 100) \<and>
    map bcd_val (charge_provide_time s') = [sChargeTime s' div 3600, sChargeTime s' mod 3600 div 60, sChargeTime s' mod 60] \<and>
    sChargeTime s' = env_now env - stv s \<and> (100 \<le> env_soc env \<longrightarrow> \<not> magnet_pin s')"
  proof -
  let ?t = "env_now env - stv s" and ?w = "gAmiChargeWatt s - gAmiStartWatt s"
  let ?m = "?w * word_of_int (env_unit_price env) div 100 :: u32"
  obtain hms where hms: "hms_bcd ?t = Some hms" "map bcd_val hms = [?t div 3600, ?t mod 3600 div 60, ?t mod 60]"
    using hms_bcd_digits [of ?t] assms(3,4) by auto
  obtain e where e: "ValueOrderFourByte (s_eqp_watt s) (gAmiChargeWatt s) = Some e" "FourByteOrder e = Some (gAmiChargeWatt s)"
    using four_bytes_stored [of "s_eqp_watt s" "gAmiChargeWatt s"] assms(5) by auto
  obtain w where w: "ValueOrderFourByte (s_charge_watt s) ?w = Some w" "FourByteOrder w = Some ?w"
    using four_bytes_stored [of "s_charge_watt s" ?w] assms(6) by auto
  obtain m where m: "ValueOrderFourByte (s_charge_money s) ?m = Some m" "FourByteOrder m = Some ?m"
    using four_bytes_stored [of "s_charge_money s" ?m] assms(7) by auto
  obtain r where r: "ValueOrderFourByte (sOri_price s) ?m = Some r"
    using four_bytes_stored [of "sOri_price s" ?m] assms(8) by auto
  have uw: "uint ?w = uint (gAmiChargeWatt s) - uint (gAmiStartWatt s)"
    using assms(9) by (simp add: uint_sub_if' word_le_def)
  have up: "uint (word_of_int (env_unit_price env) :: u32) = env_unit_price env"
    using assms(10,13) by (simp add: uint_word_of_int)
  have um: "uint ?m = (uint (gAmiChargeWatt s) - uint (gAmiStartWatt s)) * env_unit_price env div 100"
  proof -
    have "0 \<le> (uint (gAmiChargeWatt s) - uint (gAmiStartWatt s)) * env_unit_price env"
      using assms(9,10) by (simp add: word_le_def)
    then have "uint (?w * word_of_int (env_unit_price env)) = (uint (gAmiChargeWatt s) - uint (gAmiStartWatt s)) * env_unit_price env"
      using assms(12) by (simp add: uint_word_ariths(3) uw up)
    then show ?thesis by (simp add: uint_div)
  qed
  let ?s = "s\<lparr>sChargeTime := ?t, pricepollCount := 1, iUnitprice := word_of_int (env_unit_price env), charge_watt := ?w,
      charge_price := ?m, charge_provide_time := hms, s_eqp_watt := e, s_charge_watt := w, s_charge_money := m, sOri_price := r\<rparr>"
  have a: "charge_account env s = Some (if 100 \<le> env_soc env then TSCT_ChargingStop ?s else (?s, []))"
    using assms(1,2,11) hms(1) e(1) w(1) m(1) r by (simp add: charge_account_def Let_def)
  have stop: "s_eqp_watt (fst (TSCT_ChargingStop t)) = s_eqp_watt t" "s_charge_watt (fst (TSCT_ChargingStop t)) = s_charge_watt t"
      "s_charge_money (fst (TSCT_ChargingStop t)) = s_charge_money t" "charge_watt (fst (TSCT_ChargingStop t)) = charge_watt t"
      "charge_provide_time (fst (TSCT_ChargingStop t)) = charge_provide_time t" "sChargeTime (fst (TSCT_ChargingStop t)) = sChargeTime t" for t
    by (simp_all add: TSCT_ChargingStop_def GotoNextLayerOnCharge_def LEDStopBlink_def LEDOff_def MagneticContactorOff_def Let_def)
  define p where "p = (if 100 \<le> env_soc env then TSCT_ChargingStop ?s else (?s, []))"
  have f: "s_eqp_watt (fst p) = e" "s_charge_watt (fst p) = w" "s_charge_money (fst p) = m" "charge_watt (fst p) = ?w"
      "charge_provide_time (fst p) = hms" "sChargeTime (fst p) = ?t" "100 \<le> env_soc env \<Longrightarrow> \<not> magnet_pin (fst p)"
    by (simp_all add: p_def stop session_frames)
  have "charge_account env s = Some (fst p, snd p)" using a by (simp add: p_def)
  then show ?thesis
    using e(2) w(2) m(2) uw um hms(2) f by (intro exI [of _ "fst p"] exI [of _ "snd p"]) simp
qed

theorem charge_accounted_witness:
  "\<exists>s' acts. charge_account \<lparr>env_now = 5000, env_soc = 80, env_server = True, env_network = True, faultChargFlg = False, env_unit_price = 25000\<rparr> (session_idle\<lparr>app_order := APP_ORDER_CHARGING, sCharging := True,
       stv := 1000, gAmiStartWatt := 123456, gAmiChargeWatt := 124456\<rparr>) = Some (s', acts) \<and>
     FourByteOrder (s_eqp_watt s') = Some 124456 \<and> uint (charge_watt s') = 1000 \<and>
     map bcd_val (charge_provide_time s') = [1, 6, 40]"
  using charge_accounted [of "session_idle\<lparr>app_order := APP_ORDER_CHARGING, sCharging := True,
       stv := 1000, gAmiStartWatt := 123456, gAmiChargeWatt := 124456\<rparr>" "\<lparr>env_now = 5000, env_soc = 80, env_server = True,
       env_network = True, faultChargFlg = False, env_unit_price = 25000\<rparr>"]
  by (auto simp: session_idle_def)

end
