(* ===== verification/Ocpp_Parse.thy ===== *)
theory Ocpp_Parse
  imports Prelude
begin

text \<open>
  The reader of OCPP messages (\<open>src/project/tsct2007a/tsctparsing.c\<close>): \<open>Parse_Header\<close> reads the message type, the
  unique id and the action, \<open>Parse_Payload\<close> fills a fixed tree of properties, \<open>Parse_Data\<close> composes them.

  The tree has one array of 10 properties in the message and one shared array of 30 for each of three levels below.
  \<open>None\<close> is an access outside an array, or the conversion of a power of ten that does not fit 64 bits.  The
  receive buffer has 1024 bytes, so that the 16-bit index never wraps; \<open>rlen\<close> is at most its size.  The dump of the
  message on the console is left out.
\<close>

section \<open>Messages\<close>

datatype TYPE_CODE =
    TYPE_CODE_STR | TYPE_CODE_INT | TYPE_CODE_ARR | TYPE_CODE_OBJ | TYPE_CODE_BOOL | TYPE_CODE_LITE | TYPE_CODE_OBJ_STR

text \<open>\<open>sub_Payload\<close> is the number of the level that the pointer points to.\<close>

record payload =
  property_name :: bytes
  property_contants :: bytes
  subPayload_len :: u8
  sub_Payload :: "nat option"

definition payload_clear :: payload where
  "payload_clear = \<lparr>property_name = replicate 60 0, property_contants = replicate 1024 0, subPayload_len = 0, sub_Payload = None\<rparr>"

record msg =
  Msg_type :: u8
  UniqueID :: u64
  UniqueID_Char :: bytes
  Action_Code :: u8
  Payload_len :: u8
  Payload :: "payload list"

definition cs_req_msg :: "string list" where
  "cs_req_msg =
    [''NONE'', ''CancelReservation'', ''ChangeAvailability'', ''ChangeConfiguration'', ''ClearCache'', ''ClearChargingProfile'',
     ''DataTransfer'', ''GetCompositeSchedule'', ''GetConfiguration'', ''GetDiagnostics'', ''GetLocalListVersion'',
     ''RemoteStartTransaction'', ''RemoteStopTransaction'', ''ReserveNow'', ''Reset'', ''SendLocalList'',
     ''SetChargingProfile'', ''TriggerMessage'', ''UnlockConnector'', ''UpdateFirmware'']"

abbreviation (input) quote :: u8 where "quote \<equiv> 0x22"
abbreviation (input) ch_colon :: u8 where "ch_colon \<equiv> 0x3A"
abbreviation (input) ch_comma :: u8 where "ch_comma \<equiv> 0x2C"
abbreviation (input) ch_backslash :: u8 where "ch_backslash \<equiv> 0x5C"
abbreviation (input) ch_lbracket :: u8 where "ch_lbracket \<equiv> 0x5B"
abbreviation (input) ch_rbracket :: u8 where "ch_rbracket \<equiv> 0x5D"
abbreviation (input) ch_lbrace :: u8 where "ch_lbrace \<equiv> 0x7B"
abbreviation (input) ch_rbrace :: u8 where "ch_rbrace \<equiv> 0x7D"

section \<open>The header\<close>

text \<open>\<open>(uint64_t)pow(10, k)\<close>: exact up to \<open>10 ^ 19\<close>, undefined beyond.\<close>

definition pow10 :: "nat \<Rightarrow> u64 option" where
  "pow10 k = (if k \<le> 19 then Some (word_of_nat (10 ^ k)) else None)"

text \<open>The loop that adds the digits; the second argument is the number of characters left.\<close>

fun unique_id :: "bytes \<Rightarrow> nat \<Rightarrow> u64 \<Rightarrow> u64 option" where
  "unique_id temp_buf 0 acc = Some acc"
| "unique_id [] (Suc n) acc = None"
| "unique_id (c # cs) (Suc n) acc = do {
     p \<leftarrow> pow10 n;
     unique_id cs n (acc + word_of_int (sint c - 0x30) * p)
   }"

text \<open>The search of the action in the table, from the index \<open>i\<close> on.\<close>

fun action_search :: "bytes \<Rightarrow> nat \<Rightarrow> string list \<Rightarrow> nat option" where
  "action_search temp_buf i [] = None"
| "action_search temp_buf i (a # as) = (if cstr temp_buf = str_bytes a then Some i else action_search temp_buf (i + 1) as)"

record header =
  h_step :: nat
  temp_buf :: bytes
  temp_index :: u8
  h_msg :: msg

text \<open>One character.  \<open>Inl r\<close> ends the function with the result \<open>r\<close>; \<open>tx_action\<close> is \<open>Call_Tx_Msg.Action_Code\<close>.\<close>

definition header_char :: "u8 \<Rightarrow> u8 \<Rightarrow> header \<Rightarrow> (bool \<times> msg + header) option" where
  "header_char tx_action c h =
     (if h_step h = 0
      then if c = 0x32 \<or> c = 0x33 \<or> c = 0x34 then Some (Inr (h\<lparr>h_msg := (h_msg h)\<lparr>Msg_type := c\<rparr>, h_step := 1\<rparr>)) else Some (Inr h)
      else if h_step h = 1
      then if c = quote then Some (Inr (h\<lparr>h_step := 2\<rparr>)) else Some (Inr h)
      else if h_step h = 2
      then if c = quote
           then let m = (h_msg h)\<lparr>UniqueID := 0\<rparr> in
             if Msg_type m = 0x32
             then do {
               id \<leftarrow> slice (temp_buf h) 0 (unat (temp_index h));
               uid \<leftarrow> blit (replicate 70 0) 0 id;
               Some (Inr (h\<lparr>h_msg := m\<lparr>UniqueID_Char := uid, Msg_type := 2\<rparr>, h_step := 3\<rparr>))
             }
             else if Msg_type m = 0x33
             then do {
               id \<leftarrow> unique_id (temp_buf h) (unat (temp_index h)) 0;
               Some (Inl (False, m\<lparr>UniqueID := id, Msg_type := 3, Action_Code := tx_action\<rparr>))
             }
             else Some (Inl (False, m\<lparr>Msg_type := 4\<rparr>))
           else do {
             b \<leftarrow> wr (temp_buf h) (unat (temp_index h)) c;
             Some (Inr (h\<lparr>temp_buf := b, temp_index := temp_index h + 1\<rparr>))
           }
      else if h_step h = 3
      then if c = quote then Some (Inr (h\<lparr>temp_buf := replicate 30 0, temp_index := 0, h_step := 4\<rparr>)) else Some (Inr h)
      else if c = quote
      then (case action_search (temp_buf h) 1 (drop 1 cs_req_msg) of
              Some i \<Rightarrow> Some (Inl (False, (h_msg h)\<lparr>Action_Code := w8 i\<rparr>))
            | None \<Rightarrow> Some (Inl (True, h_msg h)))
      else do {
        b \<leftarrow> wr (temp_buf h) (unat (temp_index h)) c;
        Some (Inr (h\<lparr>temp_buf := b, temp_index := temp_index h + 1\<rparr>))
      })"

text \<open>The loop over the rest of the buffer from \<open>index\<close> on: the result, the message and the index.\<close>

fun header_loop :: "u8 \<Rightarrow> bytes \<Rightarrow> nat \<Rightarrow> header \<Rightarrow> (bool \<times> msg \<times> nat) option" where
  "header_loop tx_action [] index h = Some (True, h_msg h, index)"
| "header_loop tx_action (c # cs) index h = do {
     r \<leftarrow> header_char tx_action c h;
     case r of
       Inl (e, m) \<Rightarrow> Some (e, m, index)
     | Inr h \<Rightarrow> header_loop tx_action cs (index + 1) h
   }"

text \<open>\<open>garbage\<close> is the uninitialised \<open>temp_buf[30]\<close>.\<close>

definition Parse_Header :: "u8 \<Rightarrow> bytes \<Rightarrow> bytes \<Rightarrow> msg \<Rightarrow> nat \<Rightarrow> (bool \<times> msg \<times> nat) option" where
  "Parse_Header tx_action garbage buf m rlen = do {
     c \<leftarrow> rd buf 0;
     if c \<noteq> ch_lbracket then Some (True, m, 0)
     else header_loop tx_action (drop 1 (take rlen buf)) 1
       \<lparr>h_step = 0, temp_buf = garbage, temp_index = 0, h_msg = m\<rparr>
   }"

section \<open>The payload\<close>

text \<open>The properties of the levels 0 to 3: \<open>msg->Payload\<close>, \<open>sub_Payload1\<close>, \<open>sub_Payload2\<close>, \<open>sub_Payload3\<close>.  The pair
  \<open>ptmpPayload\<close>, \<open>tempIndx\<close> always points to the array and to the counter of the level \<open>bObjDepth\<close>.\<close>

record pstate =
  parsing_step :: nat
  bObjDepth :: nat
  str_index :: u8
  bArrStartFlg :: bool
  Pars_type :: "TYPE_CODE list"
  plen :: u8
  levels :: "payload list list"

text \<open>The counter of a level is \<open>Payload_len\<close> or the \<open>subPayload_len\<close> of the current property one level above.\<close>

fun level_index :: "pstate \<Rightarrow> nat \<Rightarrow> nat option" where
  "level_index s 0 = Some (unat (plen s))"
| "level_index s (Suc d) = do {
     i \<leftarrow> level_index s d;
     ps \<leftarrow> rd (levels s) d;
     p \<leftarrow> rd ps i;
     Some (unat (subPayload_len p))
   }"

text \<open>Update of the current property of a level.\<close>

definition upd_prop :: "nat \<Rightarrow> (payload \<Rightarrow> payload option) \<Rightarrow> pstate \<Rightarrow> pstate option" where
  "upd_prop d f s = do {
     i \<leftarrow> level_index s d;
     ps \<leftarrow> rd (levels s) d;
     p \<leftarrow> rd ps i;
     p \<leftarrow> f p;
     Some (s\<lparr>levels := (levels s)[d := ps[i := p]]\<rparr>)
   }"

text \<open>\<open>(*tempIndx)++\<close>.\<close>

definition next_prop :: "pstate \<Rightarrow> pstate option" where
  "next_prop s =
     (case bObjDepth s of
        0 \<Rightarrow> Some (s\<lparr>plen := plen s + 1\<rparr>)
      | Suc d \<Rightarrow> upd_prop d (\<lambda>p. Some (p\<lparr>subPayload_len := subPayload_len p + 1\<rparr>)) s)"

definition clear_prop :: "payload \<Rightarrow> payload option" where
  "clear_prop p = Some (p\<lparr>property_name := replicate 60 0, property_contants := replicate 1024 0\<rparr>)"

definition put_name :: "u8 \<Rightarrow> pstate \<Rightarrow> pstate option" where
  "put_name c s = do {
     s \<leftarrow> upd_prop (bObjDepth s) (\<lambda>p. map_option (\<lambda>n. p\<lparr>property_name := n\<rparr>) (wr (property_name p) (unat (str_index s)) c)) s;
     Some (s\<lparr>str_index := str_index s + 1\<rparr>)
   }"

definition put_contents :: "u8 \<Rightarrow> pstate \<Rightarrow> pstate option" where
  "put_contents c s = do {
     s \<leftarrow> upd_prop (bObjDepth s) (\<lambda>p. map_option (\<lambda>n. p\<lparr>property_contants := n\<rparr>) (wr (property_contants p) (unat (str_index s)) c)) s;
     Some (s\<lparr>str_index := str_index s + 1\<rparr>)
   }"

text \<open>A comma: the next property of the level is cleared.\<close>

definition comma_prop :: "pstate \<Rightarrow> pstate option" where
  "comma_prop s = do {
     s \<leftarrow> next_prop s;
     upd_prop (bObjDepth s) (\<lambda>p. map_option (\<lambda>p. p\<lparr>subPayload_len := 0\<rparr>) (clear_prop p)) s
   }"

text \<open>An opening bracket or brace.  At a fourth level \<open>Pars_type\<close> is written outside its four elements.\<close>

definition open_level :: "TYPE_CODE \<Rightarrow> pstate \<Rightarrow> pstate option" where
  "open_level ty s = do {
     let d = bObjDepth s;
     s \<leftarrow> (if d < 3
       then (let s = s\<lparr>levels := (levels s)[Suc d := replicate 30 payload_clear]\<rparr> in upd_prop d (\<lambda>p. Some (p\<lparr>sub_Payload := Some (Suc d)\<rparr>)) s)
       else Some s);
     tys \<leftarrow> wr (Pars_type s) (Suc d) ty;
     Some (s\<lparr>bObjDepth := Suc d, Pars_type := tys\<rparr>)
   }"

text \<open>A closing bracket or brace; \<open>Inl\<close> leaves the loop.\<close>

definition after_close :: "pstate \<Rightarrow> pstate" where
  "after_close s =
     (case Pars_type s ! bObjDepth s of
        TYPE_CODE_OBJ \<Rightarrow> s\<lparr>parsing_step := 1\<rparr>
      | TYPE_CODE_ARR \<Rightarrow> s\<lparr>parsing_step := 4, str_index := 0\<rparr>
      | _ \<Rightarrow> s)"

definition close_level :: "bool \<Rightarrow> pstate \<Rightarrow> pstate + pstate" where
  "close_level steps s =
     (if bObjDepth s = 0 then Inl s
      else let s = s\<lparr>bObjDepth := bObjDepth s - 1\<rparr> in Inr (if steps then after_close s else s))"

definition payload_char :: "u8 \<Rightarrow> u8 \<Rightarrow> pstate \<Rightarrow> (pstate + pstate) option" where
  "payload_char prev c s =
     (if parsing_step s = 0
      then if c = ch_lbrace then Some (Inr (s\<lparr>Pars_type := (Pars_type s)[0 := TYPE_CODE_OBJ], parsing_step := 1\<rparr>)) else Some (Inr s)
      else if parsing_step s = 1
      then let s = s\<lparr>str_index := 0\<rparr> in
        if c = ch_rbrace then Some (close_level True s)
        else if c = quote then map_option Inr (upd_prop (bObjDepth s) clear_prop (s\<lparr>parsing_step := 2\<rparr>))
        else Some (Inr s)
      else if parsing_step s = 2
      then if c = quote then Some (Inr (s\<lparr>parsing_step := 3\<rparr>)) else map_option Inr (put_name c s)
      else if parsing_step s = 3
      then if c = ch_colon then Some (Inr (s\<lparr>parsing_step := 4, str_index := 0\<rparr>)) else Some (Inr s)
      else if parsing_step s = 4
      then if c = quote then Some (Inr (s\<lparr>parsing_step := 5\<rparr>))
        else if c = ch_rbrace \<or> c = ch_rbracket then Some (close_level True s)
        else if c = ch_comma then map_option (\<lambda>s. Inr (s\<lparr>parsing_step := 1\<rparr>)) (comma_prop s)
        else if 0x2F < c \<and> c < 0x3A then map_option Inr (put_contents c s)
        else if c = ch_lbracket then map_option (\<lambda>s. Inr (s\<lparr>bArrStartFlg := True, str_index := 0\<rparr>)) (open_level TYPE_CODE_ARR s)
        else if c = ch_lbrace then map_option (\<lambda>s. Inr (s\<lparr>parsing_step := 1\<rparr>)) (open_level TYPE_CODE_OBJ s)
        else Some (Inr s)
      else if parsing_step s = 5
      then if c = quote \<and> prev \<noteq> ch_backslash then Some (Inr (s\<lparr>parsing_step := 6\<rparr>)) else map_option Inr (put_contents c s)
      else
        if c = ch_comma then do {
          s \<leftarrow> comma_prop s;
          Some (Inr (after_close s))
        }
        else if c = ch_rbrace \<or> c = ch_rbracket then Some (close_level False s)
        else Some (Inr s))"

text \<open>The loop over the characters up to \<open>rlen\<close>, after the character \<open>prev\<close>.\<close>

fun payload_loop :: "u8 \<Rightarrow> bytes \<Rightarrow> pstate \<Rightarrow> pstate option" where
  "payload_loop prev [] s = Some s"
| "payload_loop prev (c # cs) s =
     (if \<not> bArrStartFlg s \<and> c = ch_rbracket then Some s
      else do {
        r \<leftarrow> payload_char prev c s;
        case r of Inl s \<Rightarrow> Some s | Inr s \<Rightarrow> payload_loop c cs s
      })"

definition pstate_start :: pstate where
  "pstate_start = \<lparr>parsing_step = 0, bObjDepth = 0, str_index = 0, bArrStartFlg = False, Pars_type = replicate 4 TYPE_CODE_OBJ,
     plen = 0, levels = [replicate 10 payload_clear, replicate 30 payload_clear, replicate 30 payload_clear, replicate 30 payload_clear]\<rparr>"

text \<open>The result tells whether the format is wrong; it returns the message and the shared levels.  The characters of
  \<open>buf\<close> before \<open>index\<close> are not read, except the one at \<open>index\<close> as the previous character.\<close>

definition Parse_Payload :: "bytes \<Rightarrow> msg \<Rightarrow> nat \<Rightarrow> nat \<Rightarrow> (bool \<times> msg \<times> payload list list) option" where
  "Parse_Payload buf m index rlen = do {
     prev \<leftarrow> rd buf index;
     s \<leftarrow> payload_loop prev (drop (index + 1) (take rlen buf)) pstate_start;
     Some (parsing_step s \<noteq> 1 \<and> parsing_step s \<noteq> 4 \<and> parsing_step s \<noteq> 6,
       m\<lparr>Payload_len := plen s, Payload := levels s ! 0\<rparr>, tl (levels s))
   }"

section \<open>A whole message\<close>

text \<open>The response to the data transfer of battery data is kept as raw text in the first property.\<close>

record rx =
  Rx_Msg :: msg
  rx_levels :: "payload list list"
  DATATRANS_data :: bytes
  DATATRANS_UniqueID :: u64
  curl_ws_recv_buf :: bytes

text \<open>The last statement clears \<open>sizeof (char* )\<close> bytes of the buffer.\<close>

definition Parse_Data :: "u8 \<Rightarrow> bytes \<Rightarrow> nat \<Rightarrow> rx \<Rightarrow> (u8 \<times> rx) option" where
  "Parse_Data tx_action garbage rlen r = do {
     (err, m, index) \<leftarrow> Parse_Header tx_action garbage (curl_ws_recv_buf r) (Rx_Msg r) rlen;
     if err then Some (1, r\<lparr>Rx_Msg := m\<rparr>)
     else if Msg_type m = 3 \<and> UniqueID m = DATATRANS_UniqueID r
     then do {
       raw \<leftarrow> slice (curl_ws_recv_buf r) 0 rlen;
       d \<leftarrow> blit (DATATRANS_data r) 0 raw;
       b \<leftarrow> blit (curl_ws_recv_buf r) 0 [0, 0, 0, 0];
       Some (0, r\<lparr>Rx_Msg := m, DATATRANS_UniqueID := 0, DATATRANS_data := d, curl_ws_recv_buf := b\<rparr>)
     }
     else do {
       (err, m, lv) \<leftarrow> Parse_Payload (curl_ws_recv_buf r) m index rlen;
       let r = r\<lparr>Rx_Msg := m, rx_levels := lv, DATATRANS_data := replicate 1024 0\<rparr>;
       if err then Some (1, r)
       else do {
         b \<leftarrow> blit (curl_ws_recv_buf r) 0 [0, 0, 0, 0];
         Some (0, r\<lparr>curl_ws_recv_buf := b\<rparr>)
       }
     }
   }"

end
