(* ===== verification/Ocpp_Parse_Thms.thy ===== *)
theory Ocpp_Parse_Thms
  imports Ocpp_Parse Common
begin

text \<open>
  Properties of the OCPP reader: the headers of calls and results are read back, an identifier of 31 characters overruns
  the buffer, and a flat object of strings is read back property by property.
\<close>

section \<open>The header\<close>

lemma header_char_other:
  assumes "h_step h = 2 \<or> h_step h = 4" "c \<noteq> quote" "length (temp_buf h) = 30"
  shows "header_char tx c h =
    (if unat (temp_index h) < 30
     then Some (Inr (h\<lparr>temp_buf := (temp_buf h)[unat (temp_index h) := c], temp_index := temp_index h + 1\<rparr>)) else None)"
  using assms by (auto simp: header_char_def wr_def)

lemma w8_Suc: "w8 n + 1 = w8 (Suc n)"
  by (simp add: w8_def)

lemma header_collect:
  assumes "h_step h = 2 \<or> h_step h = 4" "quote \<notin> set w" "length (temp_buf h) = 30" "temp_index h = w8 i" "i \<le> 30"
  shows "header_loop tx (w @ rest) index h =
    (if i + length w \<le> 30
     then header_loop tx rest (index + length w) (h\<lparr>temp_buf := take i (temp_buf h) @ w @ drop (i + length w) (temp_buf h),
       temp_index := w8 (i + length w)\<rparr>)
     else None)"
  using assms
proof (induction w arbitrary: h i index)
  case Nil
  then have e: "h\<lparr>temp_index := w8 i\<rparr> = h" by (cases h) simp
  show ?case using Nil.prems(5) by (simp add: e)
next
  case (Cons c w)
  have i: "unat (w8 i) = i" using Cons.prems(5) by (simp add: unat_w8)
  show ?case
  proof (cases "i < 30")
    case False
    then show ?thesis using Cons.prems i header_char_other [of h c tx] by (simp split: if_splits)
  next
    case True
    let ?h = "h\<lparr>temp_buf := (temp_buf h)[i := c], temp_index := w8 (Suc i)\<rparr>"
    have "header_char tx c h = Some (Inr ?h)"
      using Cons.prems i True header_char_other [of h c tx] by (simp add: w8_Suc)
    moreover have "take (Suc i) ((temp_buf h)[i := c]) = take i (temp_buf h) @ [c]"
      using True Cons.prems(3) by (simp add: take_Suc_conv_app_nth)
    moreover have "drop (Suc (i + length w)) ((temp_buf h)[i := c]) = drop (Suc (i + length w)) (temp_buf h)" by simp
    ultimately show ?thesis
      using Cons.IH [of ?h "Suc i" "index + 1"] Cons.prems True by simp
  qed
qed

text \<open>A call up to the closing quote of the action, and a result up to the closing quote of the id.\<close>

definition call_header :: "bytes \<Rightarrow> bytes \<Rightarrow> bytes" where
  "call_header uid action = [ch_lbracket, 0x32, ch_comma, quote] @ uid @ [quote, ch_comma, quote] @ action @ [quote]"

definition result_header :: "bytes \<Rightarrow> bytes" where
  "result_header uid = [ch_lbracket, 0x33, ch_comma, quote] @ uid @ [quote]"

lemma header_start:
  assumes "ty = 0x32 \<or> ty = 0x33 \<or> ty = 0x34"
  shows "header_loop tx (ty # ch_comma # quote # rest) index \<lparr>h_step = 0, temp_buf = g, temp_index = 0, h_msg = m\<rparr> =
    header_loop tx rest (index + 3) \<lparr>h_step = 2, temp_buf = g, temp_index = 0, h_msg = m\<lparr>Msg_type := ty\<rparr>\<rparr>"
  using assms by (auto simp: header_char_def numeral_3_eq_3)

lemma header_long_id:
  assumes "30 < length uid" "quote \<notin> set uid" "length g = 30" "ty = 0x32 \<or> ty = 0x33 \<or> ty = 0x34"
    and "3 + length uid < rlen"
  shows "Parse_Header tx g ([ch_lbracket, ty, ch_comma, quote] @ uid @ rest) m rlen = None"
proof -
  obtain n where n1: "rlen = 4 + n" using le_Suc_ex [of 4 rlen] assms(5) by auto
  then have n: "rlen = 4 + n" "length uid \<le> n" using assms(5) by linarith+
  let ?rest = "take (n - length uid) rest"
  let ?h = "\<lparr>h_step = 2, temp_buf = g, temp_index = 0, h_msg = m\<lparr>Msg_type := ty\<rparr>\<rparr>"
  have t: "take rlen ([ch_lbracket, ty, ch_comma, quote] @ uid @ rest) = [ch_lbracket, ty, ch_comma, quote] @ uid @ ?rest"
    using n(2) by (simp add: n(1) eval_nat_numeral)
  have "Parse_Header tx g ([ch_lbracket, ty, ch_comma, quote] @ uid @ rest) m rlen = header_loop tx (uid @ ?rest) (1 + 3) ?h"
    unfolding Parse_Header_def t using header_start [OF assms(4), of tx "uid @ ?rest" 1 g m] by (simp add: rd_def)
  also have "\<dots> = None"
    using header_collect [of ?h uid 0 tx ?rest "1 + 3"] assms(1-3) by (simp add: w8_def)
  finally show ?thesis .
qed

lemma header_step2_call:
  assumes "h_step h = 2" "Msg_type (h_msg h) = 0x32" "unat (temp_index h) \<le> 30" "length (temp_buf h) = 30"
  shows "header_loop tx (quote # rest) index h = header_loop tx rest (index + 1)
    (h\<lparr>h_msg := (h_msg h)\<lparr>UniqueID := 0, UniqueID_Char := take (unat (temp_index h)) (temp_buf h) @ replicate (70 - unat (temp_index h)) 0,
       Msg_type := 2\<rparr>, h_step := 3\<rparr>)"
  using assms by (simp add: header_char_def slice_def blit_def Let_def min_def)

lemma action_found:
  assumes "cstr tb = str_bytes (as ! k)" "k < length as" "distinct (map str_bytes as)"
  shows "action_search tb i as = Some (i + k)"
  using assms
proof (induction as arbitrary: k i)
  case (Cons a as)
  show ?case
  proof (cases k)
    case 0
    then show ?thesis using Cons.prems by simp
  next
    case (Suc k')
    then have "str_bytes (as ! k') \<in> str_bytes ` set as" using Cons.prems(2) by simp
    then have "str_bytes a \<noteq> str_bytes (as ! k')" using Cons.prems(3) by auto
    then show ?thesis using Cons.IH [of k' "i + 1"] Cons.prems Suc by simp
  qed
qed simp

lemma length_cs_req_msg [simp]: "length cs_req_msg = 20"
  by (simp add: cs_req_msg_def)

lemma char_byte_eq: "(word_of_nat (of_char c) :: u8) = word_of_nat (of_char d) \<longleftrightarrow> c = d"
proof
  assume "(word_of_nat (of_char c) :: u8) = word_of_nat (of_char d)"
  then have "unat (word_of_nat (of_char c) :: u8) = unat (word_of_nat (of_char d) :: u8)" by simp
  then have "(of_char c :: nat) = of_char d" by (simp add: unat_of_nat)
  then show "c = d" by simp
qed simp

lemma str_bytes_facts:
  "str_bytes s = str_bytes s' \<longleftrightarrow> s = s'" "word_of_nat (of_char c) \<in> set (str_bytes s) \<longleftrightarrow> c \<in> set s" "length (str_bytes s) = length s"
proof -
  have "inj (\<lambda>c. word_of_nat (of_char c) :: u8)" by (rule injI) (simp add: char_byte_eq)
  then show "str_bytes s = str_bytes s' \<longleftrightarrow> s = s'" by (simp add: str_bytes_def inj_map_eq_map)
  show "word_of_nat (of_char c) \<in> set (str_bytes s) \<longleftrightarrow> c \<in> set s" by (auto simp: str_bytes_def char_byte_eq)
qed (simp add: str_bytes_def)

lemma cs_req_msg_distinct: "distinct (map str_bytes (drop 1 cs_req_msg))"
proof -
  have "distinct (drop 1 cs_req_msg)" by (simp add: cs_req_msg_def)
  then show ?thesis by (simp add: distinct_map inj_on_def str_bytes_facts)
qed

lemma cs_req_msg_text:
  assumes "1 \<le> k" "k < 20"
  shows "quote \<notin> set (str_bytes (cs_req_msg ! k)) \<and> 0 \<notin> set (str_bytes (cs_req_msg ! k)) \<and> length (str_bytes (cs_req_msg ! k)) \<le> 29"
proof -
  have "\<forall>s \<in> set cs_req_msg. CHR 0x22 \<notin> set s \<and> CHR 0x00 \<notin> set s \<and> length s \<le> 29" by (simp add: cs_req_msg_def)
  then have "CHR 0x22 \<notin> set (cs_req_msg ! k) \<and> CHR 0x00 \<notin> set (cs_req_msg ! k) \<and> length (cs_req_msg ! k) \<le> 29"
    using assms by simp
  then show ?thesis
    using str_bytes_facts(2) [of "CHR 0x22" "cs_req_msg ! k"] str_bytes_facts(2) [of "CHR 0x00" "cs_req_msg ! k"]
    by (simp add: str_bytes_facts(3))
qed

lemma cstr_padded: "0 \<notin> set w \<Longrightarrow> cstr (w @ replicate (Suc n) 0) = w"
  unfolding cstr_def by (induction w) auto

theorem call_header_read:
  assumes "quote \<notin> set uid" "length uid \<le> 30" "length g = 30" "1 \<le> k" "k < 20"
    and "rlen \<le> length (call_header uid (str_bytes (cs_req_msg ! k)) @ rest)"
    and "length (call_header uid (str_bytes (cs_req_msg ! k))) \<le> rlen"
  shows "Parse_Header tx g (call_header uid (str_bytes (cs_req_msg ! k)) @ rest) m rlen =
    Some (False, m\<lparr>Msg_type := 2, UniqueID := 0, UniqueID_Char := uid @ replicate (70 - length uid) 0, Action_Code := w8 k\<rparr>,
      length (call_header uid (str_bytes (cs_req_msg ! k))) - 1)"
proof -
  let ?a = "str_bytes (cs_req_msg ! k)"
  note a = cs_req_msg_text [OF assms(4,5)]
  define r where "r = take (rlen - length (call_header uid ?a)) rest"
  have t: "take rlen (call_header uid ?a @ rest) = call_header uid ?a @ r" using assms(7) by (simp add: r_def)
  let ?h2 = "\<lparr>h_step = 2, temp_buf = g, temp_index = 0, h_msg = m\<lparr>Msg_type := 0x32\<rparr>\<rparr>"
  let ?h2' = "?h2\<lparr>temp_buf := uid @ drop (length uid) g, temp_index := w8 (length uid)\<rparr>"
  let ?m = "m\<lparr>Msg_type := 0x32, UniqueID := 0, UniqueID_Char := uid @ replicate (70 - length uid) 0, Msg_type := 2\<rparr>"
  let ?h3 = "?h2'\<lparr>h_msg := ?m, h_step := 3\<rparr>"
  let ?h4 = "?h3\<lparr>temp_buf := replicate 30 0, temp_index := 0, h_step := 4\<rparr>"
  let ?h4' = "?h4\<lparr>temp_buf := ?a @ replicate (30 - length ?a) 0, temp_index := w8 (length ?a)\<rparr>"
  let ?i = "4 + length uid + 3"
  have u: "unat (w8 (length uid)) = length uid" using assms(2) by (simp add: unat_w8)
  have 1: "Parse_Header tx g (call_header uid ?a @ rest) m rlen = header_loop tx (uid @ [quote, ch_comma, quote] @ ?a @ quote # r) 4 ?h2"
    unfolding Parse_Header_def t using header_start [of "0x32" tx _ 1 g m] by (simp add: rd_def call_header_def)
  also have "\<dots> = header_loop tx ([quote, ch_comma, quote] @ ?a @ quote # r) (4 + length uid) ?h2'"
    using header_collect [of ?h2 uid 0 tx _ 4] assms(1-3) by (simp add: w8_def del: header_loop.simps)
  also have "\<dots> = header_loop tx ([ch_comma, quote] @ ?a @ quote # r) (4 + length uid + 1) ?h3"
    using header_step2_call [of ?h2' tx _ "4 + length uid"] assms(2,3) u by (simp del: header_loop.simps)
  also have "\<dots> = header_loop tx (?a @ quote # r) ?i ?h4"
    by (simp add: header_char_def numeral_3_eq_3)
  also have "\<dots> = header_loop tx (quote # r) (?i + length ?a) ?h4'"
    using header_collect [of ?h4 ?a 0 tx "quote # r" ?i] a by (simp add: w8_def del: header_loop.simps)
  also have "\<dots> = Some (False, ?m\<lparr>Action_Code := w8 k\<rparr>, ?i + length ?a)"
  proof -
    have "cstr (temp_buf ?h4') = str_bytes (drop 1 cs_req_msg ! (k - 1))"
    proof -
      have "30 - length ?a = Suc (29 - length ?a)" using a by linarith
      then show ?thesis using a cstr_padded [of ?a "29 - length ?a"] assms(4) by simp
    qed
    then have "action_search (temp_buf ?h4') 1 (drop 1 cs_req_msg) = Some (1 + (k - 1))"
      using assms(4,5) by (intro action_found cs_req_msg_distinct) simp_all
    then show ?thesis using assms(4) by (simp add: header_char_def)
  qed
  finally show ?thesis by (simp add: call_header_def)
qed

section \<open>The identifier of a result\<close>

fun dec_val :: "bytes \<Rightarrow> nat" where
  "dec_val [] = 0"
| "dec_val (c # cs) = (unat c - 0x30) * 10 ^ length cs + dec_val cs"

lemma dec_val_append: "dec_val (xs @ ys) = dec_val xs * 10 ^ length ys + dec_val ys"
  by (induction xs) (simp_all add: power_add algebra_simps)

lemma digit_range: "d < 10 \<Longrightarrow> is_digit (w8 (0x30 + d)) \<and> unat (w8 (0x30 + d)) = 0x30 + d"
  by (simp add: is_digit_def word_le_nat_alt unat_w8)

lemma dec_nat_digits: "(\<forall>c\<in>set (dec_nat n). is_digit c) \<and> dec_val (dec_nat n) = n"
proof (induction n rule: dec_nat.induct)
  case (1 n)
  have d: "n mod 10 < 10" by simp
  show ?case
  proof (cases "n < 10")
    case True
    then show ?thesis using digit_range [of n] by (subst (1 2) dec_nat.simps) (simp add: dec_nat.simps)
  next
    case False
    then have e: "dec_nat n = dec_nat (n div 10) @ [w8 (0x30 + n mod 10)]" by (subst dec_nat.simps) simp
    show ?thesis unfolding e using 1 [OF False] digit_range [OF d] by (simp add: dec_val_append)
  qed
qed

lemma dec_nat_length: "n < 10 ^ k \<Longrightarrow> 0 < k \<Longrightarrow> length (dec_nat n) \<le> k"
proof (induction n arbitrary: k rule: dec_nat.induct)
  case (1 n)
  show ?case
  proof (cases "n < 10")
    case True
    then show ?thesis using "1.prems" by (subst dec_nat.simps) simp
  next
    case False
    then obtain k' where k: "k = Suc k'" "0 < k'" using "1.prems" by (cases k; cases "k - 1") auto
    then have "n div 10 < 10 ^ k'" using "1.prems"(1) by (simp add: less_mult_imp_div_less mult.commute)
    then show ?thesis using "1.IH" [OF False _ k(2)] False k(1) by (subst dec_nat.simps) simp
  qed
qed

lemma digit_word:
  assumes "is_digit c"
  shows "(word_of_int (sint c - 0x30) :: u64) = word_of_nat (unat c - 0x30)"
proof -
  have c: "0x30 \<le> unat c" "unat c \<le> 0x39" using assms by (simp_all add: is_digit_def word_le_nat_alt)
  have u: "uint c = int (unat c)" by simp
  then have "uint c < 128" "- 128 \<le> uint c" using c by linarith+
  then have "sint c = uint c" unfolding sint_uint by (simp add: signed_take_bit_int_eq_self)
  then have "sint c = int (unat c)" unfolding u .
  then have "sint c - 0x30 = int (unat c - 0x30)" using c(1) by simp
  then show ?thesis by simp
qed

lemma unique_id_digits:
  assumes "\<forall>c\<in>set ds. is_digit c" "length ds \<le> 20"
  shows "unique_id (ds @ rest) (length ds) acc = Some (acc + word_of_nat (dec_val ds))"
  using assms
proof (induction ds arbitrary: acc)
  case (Cons c ds)
  then show ?case using digit_word [of c] by (simp add: pow10_def)
qed simp

lemma result_header_read:
  assumes "n < 2 ^ 64" "length g = 30" "length (result_header (dec_nat n)) \<le> rlen"
  shows "Parse_Header tx g (result_header (dec_nat n) @ rest) m rlen =
    Some (False, m\<lparr>Msg_type := 3, UniqueID := word_of_nat n, Action_Code := tx\<rparr>, length (result_header (dec_nat n)) - 1)"
proof -
  let ?u = "dec_nat n"
  have l: "length ?u \<le> 20" using dec_nat_length [of n 20] assms(1) by simp
  have q: "quote \<notin> set ?u" using dec_nat_digits [of n] by (auto simp: is_digit_def)
  define r where "r = take (rlen - length (result_header ?u)) rest"
  have t: "take rlen (result_header ?u @ rest) = result_header ?u @ r" using assms(3) by (simp add: r_def)
  let ?h2 = "\<lparr>h_step = 2, temp_buf = g, temp_index = 0, h_msg = m\<lparr>Msg_type := 0x33\<rparr>\<rparr>"
  let ?h2' = "?h2\<lparr>temp_buf := ?u @ drop (length ?u) g, temp_index := w8 (length ?u)\<rparr>"
  have "Parse_Header tx g (result_header ?u @ rest) m rlen = header_loop tx (?u @ quote # r) 4 ?h2"
    unfolding Parse_Header_def t using header_start [of "0x33" tx _ 1 g m] by (simp add: rd_def result_header_def)
  also have "\<dots> = header_loop tx (quote # r) (4 + length ?u) ?h2'"
    using header_collect [of ?h2 ?u 0 tx "quote # r" 4] q l assms(2) by (simp add: w8_def del: header_loop.simps)
  also have "\<dots> = Some (False, m\<lparr>Msg_type := 3, UniqueID := word_of_nat n, Action_Code := tx\<rparr>, 4 + length ?u)"
  proof -
    have "unat (w8 (length ?u)) = length ?u" using l by (simp add: unat_w8)
    then show ?thesis
      using unique_id_digits [of ?u "drop (length ?u) g" 0] dec_nat_digits [of n] l by (simp add: header_char_def Let_def)
  qed
  finally show ?thesis by (simp add: result_header_def)
qed

section \<open>Flat objects\<close>

text \<open>The reader at the top level of an object, before the character of step \<open>st\<close>.\<close>

definition flat :: "nat \<Rightarrow> payload list \<Rightarrow> payload list list \<Rightarrow> nat \<Rightarrow> nat \<Rightarrow> pstate" where
  "flat k P ls st i = \<lparr>parsing_step = st, bObjDepth = 0, str_index = w8 i, bArrStartFlg = False,
     Pars_type = replicate 4 TYPE_CODE_OBJ, plen = w8 k, levels = P # ls\<rparr>"

lemma flat_fields [simp]:
  "parsing_step (flat k P ls st i) = st" "bObjDepth (flat k P ls st i) = 0" "str_index (flat k P ls st i) = w8 i"
  "bArrStartFlg (flat k P ls st i) = False" "plen (flat k P ls st i) = w8 k" "levels (flat k P ls st i) = P # ls"
  "(flat k P ls st i)\<lparr>parsing_step := st'\<rparr> = flat k P ls st' i"
  "Pars_type (flat k P ls st i) = replicate 4 TYPE_CODE_OBJ"
  by (simp_all add: flat_def)

lemma flat_index: "(flat k P ls st i)\<lparr>str_index := w8 j\<rparr> = flat k P ls st j" "(flat k P ls st i)\<lparr>str_index := 0\<rparr> = flat k P ls st 0"
  by (simp_all add: flat_def w8_def)

lemma flat_upd:
  assumes "k < length P" "k < 256"
  shows "upd_prop 0 g (flat k P ls st i) = map_option (\<lambda>p. flat k (P[k := p]) ls st i) (g (P ! k))"
  using assms by (cases "g (P ! k)") (simp_all add: upd_prop_def flat_def rd_def unat_w8)

lemma flat_name:
  assumes "k < length P" "k < 256" "length (property_name (P ! k)) = 60" "i < 60" "c \<noteq> quote"
  shows "payload_char prev c (flat k P ls 2 i) =
    Some (Inr (flat k (P[k := (P ! k)\<lparr>property_name := (property_name (P ! k))[i := c]\<rparr>]) ls 2 (Suc i)))"
proof -
  have "put_name c (flat k P ls 2 i) = Some (flat k (P[k := (P ! k)\<lparr>property_name := (property_name (P ! k))[i := c]\<rparr>]) ls 2 (Suc i))"
    using flat_upd [OF assms(1,2), of _ ls 2 i] assms(3,4)
    by (simp add: put_name_def wr_def unat_w8 w8_Suc flat_index)
  then show ?thesis using assms(5) by (simp add: payload_char_def)
qed

lemma flat_value:
  assumes "k < length P" "k < 256" "length (property_contants (P ! k)) = 1024" "i < 256" "c \<noteq> quote"
  shows "payload_char prev c (flat k P ls 5 i) =
    Some (Inr (flat k (P[k := (P ! k)\<lparr>property_contants := (property_contants (P ! k))[i := c]\<rparr>]) ls 5 (Suc i)))"
proof -
  have "put_contents c (flat k P ls 5 i) = Some (flat k (P[k := (P ! k)\<lparr>property_contants := (property_contants (P ! k))[i := c]\<rparr>]) ls 5 (Suc i))"
    using flat_upd [OF assms(1,2), of _ ls 5 i] assms(3,4)
    by (simp add: put_contents_def wr_def unat_w8 w8_Suc flat_index)
  then show ?thesis using assms(5) by (simp add: payload_char_def)
qed

lemma flat_loop: "c \<noteq> ch_rbracket \<Longrightarrow> payload_loop prev (c # cs) (flat k P ls st i) =
    Option.bind (payload_char prev c (flat k P ls st i)) (\<lambda>r. case r of Inl s \<Rightarrow> Some s | Inr s \<Rightarrow> payload_loop c cs s)"
  by simp

lemma take_upd_append: "i < length xs \<Longrightarrow> take (Suc i) (xs[i := c]) @ w @ drop (Suc (i + length w)) (xs[i := c]) =
    take i xs @ (c # w) @ drop (i + Suc (length w)) xs"
  by (simp add: take_Suc_conv_app_nth)

lemma flat_name_collect:
  assumes "k < length P" "k < 256" "length (property_name (P ! k)) = 60" "i + length w \<le> 60" "quote \<notin> set w" "ch_rbracket \<notin> set w"
  shows "payload_loop prev (w @ rest) (flat k P ls 2 i) = payload_loop (last (prev # w)) rest
    (flat k (P[k := (P ! k)\<lparr>property_name := take i (property_name (P ! k)) @ w @ drop (i + length w) (property_name (P ! k))\<rparr>]) ls 2 (i + length w))"
  using assms
proof (induction w arbitrary: prev P i)
  case (Cons c w)
  let ?n = "property_name (P ! k)"
  let ?P = "P[k := (P ! k)\<lparr>property_name := ?n[i := c]\<rparr>]"
  have i: "i < length ?n" using Cons.prems(3,4) by simp
  have "payload_loop prev ((c # w) @ rest) (flat k P ls 2 i) = payload_loop c (w @ rest) (flat k ?P ls 2 (Suc i))"
    using Cons.prems flat_name [of k P i c prev ls] by (simp add: flat_loop del: payload_loop.simps)
  also have "\<dots> = payload_loop (last (c # w)) rest (flat k (?P[k := (?P ! k)\<lparr>property_name := take (Suc i) (property_name (?P ! k)) @ w @
      drop (Suc i + length w) (property_name (?P ! k))\<rparr>]) ls 2 (Suc i + length w))"
    using Cons.prems by (intro Cons.IH) simp_all
  finally show ?case using Cons.prems(1) take_upd_append [OF i, of c w] by simp
qed simp

lemma flat_value_collect:
  assumes "k < length P" "k < 256" "length (property_contants (P ! k)) = 1024" "i + length w \<le> 256" "quote \<notin> set w" "ch_rbracket \<notin> set w"
  shows "payload_loop prev (w @ rest) (flat k P ls 5 i) = payload_loop (last (prev # w)) rest
    (flat k (P[k := (P ! k)\<lparr>property_contants := take i (property_contants (P ! k)) @ w @ drop (i + length w) (property_contants (P ! k))\<rparr>]) ls 5 (i + length w))"
  using assms
proof (induction w arbitrary: prev P i)
  case (Cons c w)
  let ?n = "property_contants (P ! k)"
  let ?P = "P[k := (P ! k)\<lparr>property_contants := ?n[i := c]\<rparr>]"
  have i: "i < length ?n" using Cons.prems(3,4) by simp
  have "payload_loop prev ((c # w) @ rest) (flat k P ls 5 i) = payload_loop c (w @ rest) (flat k ?P ls 5 (Suc i))"
    using Cons.prems flat_value [of k P i c prev ls] by (simp add: flat_loop del: payload_loop.simps)
  also have "\<dots> = payload_loop (last (c # w)) rest (flat k (?P[k := (?P ! k)\<lparr>property_contants := take (Suc i) (property_contants (?P ! k)) @ w @
      drop (Suc i + length w) (property_contants (?P ! k))\<rparr>]) ls 5 (Suc i + length w))"
    using Cons.prems by (intro Cons.IH) simp_all
  finally show ?case using Cons.prems(1) take_upd_append [OF i, of c w] by simp
qed simp

lemma digit_char: "is_digit c \<Longrightarrow> 0x2F < c \<and> c < 0x3A \<and> c \<noteq> quote \<and> c \<noteq> ch_comma \<and> c \<noteq> ch_rbrace \<and> c \<noteq> ch_rbracket"
  by (auto simp: is_digit_def word_less_nat_alt word_le_nat_alt)

text \<open>The digits of a number are stored as they come, before the text of a string would begin.\<close>

lemma flat_digit:
  assumes "k < length P" "k < 256" "length (property_contants (P ! k)) = 1024" "i < 256" "is_digit c"
  shows "payload_char prev c (flat k P ls 4 i) =
    Some (Inr (flat k (P[k := (P ! k)\<lparr>property_contants := (property_contants (P ! k))[i := c]\<rparr>]) ls 4 (Suc i)))"
proof -
  have "put_contents c (flat k P ls 4 i) = Some (flat k (P[k := (P ! k)\<lparr>property_contants := (property_contants (P ! k))[i := c]\<rparr>]) ls 4 (Suc i))"
    using flat_upd [OF assms(1,2), of _ ls 4 i] assms(3,4)
    by (simp add: put_contents_def wr_def unat_w8 w8_Suc flat_index)
  then show ?thesis using digit_char [OF assms(5)] by (simp add: payload_char_def)
qed

lemma flat_number_collect:
  assumes "k < length P" "k < 256" "length (property_contants (P ! k)) = 1024" "i + length w \<le> 256" "\<forall>c\<in>set w. is_digit c"
  shows "payload_loop prev (w @ rest) (flat k P ls 4 i) = payload_loop (last (prev # w)) rest
    (flat k (P[k := (P ! k)\<lparr>property_contants := take i (property_contants (P ! k)) @ w @ drop (i + length w) (property_contants (P ! k))\<rparr>]) ls 4 (i + length w))"
  using assms
proof (induction w arbitrary: prev P i)
  case (Cons c w)
  let ?n = "property_contants (P ! k)"
  let ?P = "P[k := (P ! k)\<lparr>property_contants := ?n[i := c]\<rparr>]"
  have i: "i < length ?n" using Cons.prems(3,4) by simp
  have "c \<noteq> ch_rbracket" using digit_char Cons.prems(5) by simp
  then have "payload_loop prev ((c # w) @ rest) (flat k P ls 4 i) = payload_loop c (w @ rest) (flat k ?P ls 4 (Suc i))"
    using Cons.prems flat_digit [of k P i c prev ls] by (simp add: flat_loop del: payload_loop.simps)
  also have "\<dots> = payload_loop (last (c # w)) rest (flat k (?P[k := (?P ! k)\<lparr>property_contants := take (Suc i) (property_contants (?P ! k)) @ w @
      drop (Suc i + length w) (property_contants (?P ! k))\<rparr>]) ls 4 (Suc i + length w))"
    using Cons.prems by (intro Cons.IH) simp_all
  finally show ?case using Cons.prems(1) take_upd_append [OF i, of c w] by simp
qed simp

text \<open>A property in the text, a string or a number, and what the reader stores for it.\<close>

datatype jprop = JStr (jname: bytes) (jval: bytes) | JNum (jname: bytes) (jval: bytes)

fun prop_text :: "jprop \<Rightarrow> bytes" where
  "prop_text (JStr n v) = [quote] @ n @ [quote, ch_colon, quote] @ v @ [quote]"
| "prop_text (JNum n v) = [quote] @ n @ [quote, ch_colon] @ v"

definition prop_ok :: "jprop \<Rightarrow> bool" where
  "prop_ok p \<longleftrightarrow> length (jname p) \<le> 60 \<and> length (jval p) \<le> 255 \<and> quote \<notin> set (jname p) \<and> ch_rbracket \<notin> set (jname p) \<and>
     (case p of JStr n v \<Rightarrow> quote \<notin> set v \<and> ch_rbracket \<notin> set v \<and> ch_backslash \<notin> set v | JNum n v \<Rightarrow> list_all is_digit v)"

definition prop_stored :: "jprop \<Rightarrow> payload" where
  "prop_stored p = payload_clear\<lparr>property_name := jname p @ replicate (60 - length (jname p)) 0,
     property_contants := jval p @ replicate (1024 - length (jval p)) 0\<rparr>"

fun props_text :: "jprop list \<Rightarrow> bytes" where
  "props_text [] = []"
| "props_text [p] = prop_text p"
| "props_text (p # ps) = prop_text p @ ch_comma # props_text ps"

text \<open>The step of the reader behind a property.\<close>

definition prop_step :: "jprop \<Rightarrow> nat" where
  "prop_step p = (case p of JStr n v \<Rightarrow> 6 | JNum n v \<Rightarrow> 4)"

lemma flat_property_name:
  assumes "k < length P" "k < 256" "P ! k = payload_clear" "length n \<le> 60" "quote \<notin> set n" "ch_rbracket \<notin> set n"
  shows "payload_loop prev ([quote] @ n @ [quote, ch_colon] @ rest) (flat k P ls 1 i) = payload_loop ch_colon rest
    (flat k (P[k := payload_clear\<lparr>property_name := n @ replicate (60 - length n) 0\<rparr>]) ls 4 0)"
proof -
  let ?p1 = "payload_clear\<lparr>property_name := n @ drop (length n) (replicate 60 0)\<rparr>"
  have u: "upd_prop 0 clear_prop (flat k P ls 2 0) = Some (flat k P ls 2 0)"
    using flat_upd [OF assms(1,2), of clear_prop ls 2 0] assms(1,3) list_update_id [of P k]
    by (simp add: clear_prop_def payload_clear_def)
  have 1: "payload_loop prev (quote # cs) (flat k P ls 1 i) = payload_loop quote cs (flat k P ls 2 0)" for cs
    using u by (simp add: payload_char_def Let_def flat_index)
  have 2: "payload_loop quote (n @ cs) (flat k P ls 2 0) = payload_loop (last (quote # n)) cs (flat k (P[k := ?p1]) ls 2 (length n))" for cs
    using flat_name_collect [of k P 0 n quote cs ls] assms by (simp add: payload_clear_def)
  have 3: "payload_loop q ([quote, ch_colon] @ cs) (flat k Q ls 2 j) = payload_loop ch_colon cs (flat k Q ls 4 0)" for q cs Q j
    by (simp add: payload_char_def flat_index del: flat_fields(7)) (simp add: flat_def w8_def)
  show ?thesis using 1 2 3 by (simp only: append_assoc append_Cons append_Nil drop_replicate)
qed

lemma last_not_backslash: "ch_backslash \<notin> set v \<Longrightarrow> last (quote # v) \<noteq> ch_backslash"
  by (cases "v = []") (use last_in_set in \<open>force+\<close>)

lemma flat_property:
  assumes "k < length P" "k < 256" "P ! k = payload_clear" "prop_ok p"
  shows "\<exists>q. payload_loop prev (prop_text p @ rest) (flat k P ls 1 i) =
    payload_loop q rest (flat k (P[k := prop_stored p]) ls (prop_step p) (length (jval p)))"
proof -
  let ?n = "jname p" and ?v = "jval p"
  let ?p1 = "payload_clear\<lparr>property_name := ?n @ replicate (60 - length ?n) 0\<rparr>"
  have 1: "payload_loop prev ([quote] @ ?n @ [quote, ch_colon] @ cs) (flat k P ls 1 i) = payload_loop ch_colon cs (flat k (P[k := ?p1]) ls 4 0)" for cs
    using assms by (intro flat_property_name) (simp_all add: prop_ok_def)
  show ?thesis
  proof (cases p)
    case (JStr n v)
    have 2: "payload_loop ch_colon (quote # cs) (flat k (P[k := ?p1]) ls 4 0) = payload_loop quote cs (flat k (P[k := ?p1]) ls 5 0)" for cs
      by (simp add: payload_char_def)
    have 3: "payload_loop quote (v @ cs) (flat k (P[k := ?p1]) ls 5 0) =
        payload_loop (last (quote # v)) cs (flat k (P[k := prop_stored p]) ls 5 (length v))" for cs
      using flat_value_collect [of k "P[k := ?p1]" 0 v quote cs ls] assms JStr
      by (simp add: prop_ok_def prop_stored_def payload_clear_def)
    have "last (quote # v) \<noteq> ch_backslash" using assms(4) JStr by (intro last_not_backslash) (simp add: prop_ok_def)
    then have 4: "payload_loop (last (quote # v)) (quote # rest) (flat k Q ls 5 j) = payload_loop quote rest (flat k Q ls 6 j)" for Q j
      by (simp add: payload_char_def)
    show ?thesis using 1 [of "quote # v @ quote # rest"] 2 3 4 JStr by (intro exI [of _ quote]) (simp add: prop_step_def del: payload_loop.simps)
  next
    case (JNum n v)
    have "payload_loop ch_colon (v @ rest) (flat k (P[k := ?p1]) ls 4 0) =
        payload_loop (last (ch_colon # v)) rest (flat k (P[k := prop_stored p]) ls 4 (length v))"
      using flat_number_collect [of k "P[k := ?p1]" 0 v ch_colon rest ls] assms JNum
      by (simp add: prop_ok_def prop_stored_def payload_clear_def list_all_iff)
    then show ?thesis using 1 [of "v @ rest"] JNum by (intro exI [of _ "last (ch_colon # v)"]) (simp add: prop_step_def del: payload_loop.simps)
  qed
qed

lemma flat_comma:
  assumes "Suc k < length P" "Suc k < 256" "P ! Suc k = payload_clear" "st = prop_step p"
  shows "payload_loop prev (ch_comma # rest) (flat k P ls st i) = payload_loop ch_comma rest (flat (Suc k) P ls 1 i)"
proof -
  have n: "next_prop (flat k P ls st i) = Some (flat (Suc k) P ls st i)"
    by (simp add: next_prop_def) (simp add: flat_def w8_Suc)
  have p: "map_option (\<lambda>p. p\<lparr>subPayload_len := 0\<rparr>) (clear_prop (P ! Suc k)) = Some (P ! Suc k)"
    using assms(3) by (simp add: clear_prop_def payload_clear_def)
  have "comma_prop (flat k P ls st i) = Some (flat (Suc k) P ls st i)"
    unfolding comma_prop_def n by (simp del: map_option_eq_Some) (simp only: flat_upd [OF assms(1,2)] p option.map list_update_id)
  moreover have "after_close (flat (Suc k) P ls st i) = flat (Suc k) P ls 1 i" by (simp add: after_close_def)
  ultimately show ?thesis using assms(4) by (cases p) (simp_all add: payload_char_def prop_step_def)
qed

lemma flat_close: "payload_loop prev (ch_rbrace # rest) (flat k P ls (prop_step p) i) = Some (flat k P ls (prop_step p) i)"
  by (cases p) (simp_all add: payload_char_def close_level_def prop_step_def)

lemma flat_object:
  assumes "ps \<noteq> []" "\<forall>p\<in>set ps. prop_ok p" "length done + length ps \<le> 10"
  shows "\<exists>i. payload_loop prev (props_text ps @ ch_rbrace # rest) (flat (length done) (done @ replicate (10 - length done) payload_clear) ls 1 j) =
    Some (flat (length done + length ps - 1) (done @ map prop_stored ps @ replicate (10 - length done - length ps) payload_clear) ls (prop_step (last ps)) i)"
  using assms
proof (induction ps arbitrary: "done" prev j rule: props_text.induct)
  case (2 p)
  let ?D = "done @ replicate (10 - length done) payload_clear"
  have r: "replicate (10 - length done) payload_clear = payload_clear # replicate (10 - length done - 1) payload_clear"
    using "2.prems"(3) by (cases "10 - length done") auto
  obtain q where "payload_loop prev (prop_text p @ ch_rbrace # rest) (flat (length done) ?D ls 1 j) =
      payload_loop q (ch_rbrace # rest) (flat (length done) (?D[length done := prop_stored p]) ls (prop_step p) (length (jval p)))"
    using "2.prems" flat_property [of "length done" ?D p prev "ch_rbrace # rest" ls j] by (auto simp: r)
  then show ?case by (intro exI [of _ "length (jval p)"]) (simp add: flat_close r list_update_append del: payload_loop.simps)
next
  case (3 p p' qs)
  let ?D = "done @ replicate (10 - length done) payload_clear"
  let ?d = "done @ [prop_stored p]"
  have r: "replicate (10 - length done) payload_clear = payload_clear # replicate (10 - length ?d) payload_clear"
    using "3.prems"(3) by (cases "10 - length done") auto
  have D: "?D[length done := prop_stored p] = ?d @ replicate (10 - length ?d) payload_clear" by (simp add: r list_update_append)
  obtain q where "payload_loop prev (prop_text p @ ch_comma # props_text (p' # qs) @ ch_rbrace # rest) (flat (length done) ?D ls 1 j) =
      payload_loop q (ch_comma # props_text (p' # qs) @ ch_rbrace # rest) (flat (length done) (?D[length done := prop_stored p]) ls (prop_step p) (length (jval p)))"
    using "3.prems" flat_property [of "length done" ?D p prev "ch_comma # props_text (p' # qs) @ ch_rbrace # rest" ls j] by (auto simp: r)
  also have "\<dots> = payload_loop ch_comma (props_text (p' # qs) @ ch_rbrace # rest) (flat (length ?d) (?d @ replicate (10 - length ?d) payload_clear) ls 1 (length (jval p)))"
    unfolding D using "3.prems"(3) by (subst flat_comma [of _ _ _ p]) (simp_all add: nth_append)
  finally show ?case using "3.IH" [of ?d ch_comma "length (jval p)"] "3.prems" by simp
qed simp

lemma flat_start: "pstate_start = flat 0 (replicate 10 payload_clear) (replicate 3 (replicate 30 payload_clear)) 0 0"
  by (simp add: pstate_start_def flat_def w8_def numeral_3_eq_3)

lemma flat_open: "payload_char prev ch_comma (flat k P ls 0 i) = Some (Inr (flat k P ls 0 i))"
    "payload_char prev ch_lbrace (flat k P ls 0 i) = Some (Inr (flat k P ls 1 i))"
proof -
  have "(replicate 4 TYPE_CODE_OBJ)[0 := TYPE_CODE_OBJ] = replicate 4 TYPE_CODE_OBJ" by (simp add: eval_nat_numeral)
  then show "payload_char prev ch_lbrace (flat k P ls 0 i) = Some (Inr (flat k P ls 1 i))"
    unfolding payload_char_def by (simp only: flat_fields) (simp add: flat_def)
qed (simp add: payload_char_def)

section \<open>Properties\<close>

text \<open>A message for the witnesses.\<close>

definition msg_empty :: msg where
  "msg_empty = \<lparr>Msg_type = 0, UniqueID = 0, UniqueID_Char = [], Action_Code = 0, Payload_len = 0, Payload = []\<rparr>"

text \<open>A call and a result with a flat object, and the message the reader makes of them.\<close>

definition call_text :: "bytes \<Rightarrow> nat \<Rightarrow> jprop list \<Rightarrow> bytes" where
  "call_text uid k ps = call_header uid (str_bytes (cs_req_msg ! k)) @ [ch_comma, ch_lbrace] @ props_text ps @ [ch_rbrace, ch_rbracket]"

definition result_text :: "bytes \<Rightarrow> jprop list \<Rightarrow> bytes" where
  "result_text uid ps = result_header uid @ [ch_comma, ch_lbrace] @ props_text ps @ [ch_rbrace, ch_rbracket]"

definition flat_payload :: "jprop list \<Rightarrow> msg \<Rightarrow> msg" where
  "flat_payload ps m = m\<lparr>Payload_len := w8 (length ps - 1), Payload := map prop_stored ps @ replicate (10 - length ps) payload_clear\<rparr>"

definition call_msg :: "bytes \<Rightarrow> nat \<Rightarrow> jprop list \<Rightarrow> msg \<Rightarrow> msg" where
  "call_msg uid k ps m = flat_payload ps (m\<lparr>Msg_type := 2, UniqueID := 0, UniqueID_Char := uid @ replicate (70 - length uid) 0, Action_Code := w8 k\<rparr>)"

definition result_msg :: "nat \<Rightarrow> u8 \<Rightarrow> jprop list \<Rightarrow> msg \<Rightarrow> msg" where
  "result_msg n act ps m = flat_payload ps (m\<lparr>Msg_type := 3, UniqueID := word_of_nat n, Action_Code := act\<rparr>)"

definition parsed :: "msg \<Rightarrow> rx \<Rightarrow> rx" where
  "parsed m r = r\<lparr>Rx_Msg := m, rx_levels := replicate 3 (replicate 30 payload_clear), DATATRANS_data := replicate 1024 0,
     curl_ws_recv_buf := replicate 4 0 @ drop 4 (curl_ws_recv_buf r)\<rparr>"

lemma flat_payload_read:
  assumes "h \<noteq> []" "last h = quote" "length ps \<le> 10" "\<forall>p\<in>set ps. prop_ok p"
    and "rlen = length h + length ([ch_comma, ch_lbrace] @ props_text ps @ [ch_rbrace, ch_rbracket])"
  shows "Parse_Payload (h @ [ch_comma, ch_lbrace] @ props_text ps @ [ch_rbrace, ch_rbracket] @ rest) m (length h - 1) rlen =
    Some (False, flat_payload ps m, replicate 3 (replicate 30 payload_clear))"
proof -
  let ?b = "[ch_comma, ch_lbrace] @ props_text ps @ [ch_rbrace, ch_rbracket]"
  have prev: "rd (h @ ?b @ rest) (length h - 1) = Some quote"
    using assms(1,2) by (simp add: rd_def nth_append last_conv_nth)
  have dr: "drop (length h - 1 + 1) (take rlen (h @ ?b @ rest)) = ?b" unfolding assms(5) using assms(1) by (simp add: eval_nat_numeral)
  have open1: "payload_loop quote ?b pstate_start = payload_loop ch_lbrace (props_text ps @ ch_rbrace # [ch_rbracket])
      (flat 0 (replicate 10 payload_clear) (replicate 3 (replicate 30 payload_clear)) 1 0)"
    unfolding flat_start by (simp add: flat_loop flat_open del: payload_loop.simps)
  have "\<exists>i st. payload_loop quote ?b pstate_start = Some (flat (length ps - 1) (map prop_stored ps @ replicate (10 - length ps) payload_clear)
      (replicate 3 (replicate 30 payload_clear)) st i) \<and> st \<in> {1, 4, 6}"
  proof (cases "ps = []")
    case True
    then show ?thesis unfolding open1 by (intro exI [of _ 0] exI [of _ 1]) (simp add: payload_char_def close_level_def flat_index after_close_def)
  next
    case False
    have "prop_step (last ps) \<in> {1, 4, 6}" by (cases "last ps") (simp_all add: prop_step_def)
    then show ?thesis unfolding open1
      using flat_object [of ps "[]" ch_lbrace "[ch_rbracket]" "replicate 3 (replicate 30 payload_clear)" 0] assms(3,4) False by auto
  qed
  then obtain i st where run: "payload_loop quote ?b pstate_start = Some (flat (length ps - 1) (map prop_stored ps @ replicate (10 - length ps) payload_clear)
      (replicate 3 (replicate 30 payload_clear)) st i)" and st: "st \<in> {1, 4, 6}" by blast
  have "Parse_Payload (h @ ?b @ rest) m (length h - 1) rlen = Some (False, flat_payload ps m, replicate 3 (replicate 30 payload_clear))"
    unfolding Parse_Payload_def prev dr Option.bind.simps run using st by (auto simp: flat_payload_def)
  then show ?thesis by simp
qed

lemma parsed_clear: "4 \<le> length b \<Longrightarrow> blit b 0 [0, 0, 0, 0] = Some (replicate 4 0 @ drop 4 b)"
  by (simp add: blit_def eval_nat_numeral)

lemma call_parsed:
  assumes "curl_ws_recv_buf r = call_text uid k ps @ rest" "rlen = length (call_text uid k ps)" "length g = 30"
    and "quote \<notin> set uid" "length uid \<le> 30" "1 \<le> k" "k < 20" "length ps \<le> 10" "\<forall>p\<in>set ps. prop_ok p"
  shows "Parse_Data tx g rlen r = Some (0, parsed (call_msg uid k ps (Rx_Msg r)) r)"
proof -
  let ?h = "call_header uid (str_bytes (cs_req_msg ! k))"
  let ?b = "[ch_comma, ch_lbrace] @ props_text ps @ [ch_rbrace, ch_rbracket]"
  let ?m = "(Rx_Msg r)\<lparr>Msg_type := 2, UniqueID := 0, UniqueID_Char := uid @ replicate (70 - length uid) 0, Action_Code := w8 k\<rparr>"
  have b: "curl_ws_recv_buf r = ?h @ ?b @ rest" using assms(1) by (simp add: call_text_def)
  have rl: "rlen = length ?h + length ?b" using assms(2) by (simp add: call_text_def)
  have hd: "Parse_Header tx g (curl_ws_recv_buf r) (Rx_Msg r) rlen = Some (False, ?m, length ?h - 1)"
    unfolding b using call_header_read [OF assms(4,5,3,6,7), of rlen "?b @ rest" tx "Rx_Msg r"] rl by simp
  have p: "Parse_Payload (curl_ws_recv_buf r) ?m (length ?h - 1) rlen = Some (False, call_msg uid k ps (Rx_Msg r), replicate 3 (replicate 30 payload_clear))"
    using flat_payload_read [of ?h ps rlen rest ?m] assms(8,9) rl by (simp add: b call_msg_def call_header_def)
  have four: "4 \<le> length (curl_ws_recv_buf r)" unfolding b by simp
  show ?thesis unfolding Parse_Data_def hd using p by (simp add: parsed_clear [OF four] Let_def parsed_def)
qed

lemma result_parsed:
  assumes "curl_ws_recv_buf r = result_text (dec_nat n) ps @ rest" "rlen = length (result_text (dec_nat n) ps)" "length g = 30"
    and "n < 2 ^ 64" "word_of_nat n \<noteq> DATATRANS_UniqueID r" "length ps \<le> 10" "\<forall>p\<in>set ps. prop_ok p"
  shows "Parse_Data tx g rlen r = Some (0, parsed (result_msg n tx ps (Rx_Msg r)) r)"
proof -
  let ?h = "result_header (dec_nat n)"
  let ?b = "[ch_comma, ch_lbrace] @ props_text ps @ [ch_rbrace, ch_rbracket]"
  let ?m = "(Rx_Msg r)\<lparr>Msg_type := 3, UniqueID := word_of_nat n, Action_Code := tx\<rparr>"
  have b: "curl_ws_recv_buf r = ?h @ ?b @ rest" using assms(1) by (simp add: result_text_def)
  have rl: "rlen = length ?h + length ?b" using assms(2) by (simp add: result_text_def)
  have hd: "Parse_Header tx g (curl_ws_recv_buf r) (Rx_Msg r) rlen = Some (False, ?m, length ?h - 1)"
    unfolding b using result_header_read [OF assms(4,3), of rlen tx "?b @ rest" "Rx_Msg r"] rl by simp
  have p: "Parse_Payload (curl_ws_recv_buf r) ?m (length ?h - 1) rlen = Some (False, result_msg n tx ps (Rx_Msg r), replicate 3 (replicate 30 payload_clear))"
    using flat_payload_read [of ?h ps rlen rest ?m] assms(6,7) rl by (simp add: b result_msg_def result_header_def)
  have four: "4 \<le> length (curl_ws_recv_buf r)" unfolding b by simp
  show ?thesis unfolding Parse_Data_def hd using p assms(5) by (simp add: parsed_clear [OF four] Let_def parsed_def)
qed

text \<open>C39. A call with an identifier of at most 30 characters, one of the 19 actions of the table and an object of at
  most ten properties that are strings or natural numbers (names of at most 60, values of at most 255 characters without quote,
  backslash and closing bracket) is read back: type, action, identifier, number of properties, and every name and value in
  its order.\<close>

theorem ocpp_call_read:
  assumes "curl_ws_recv_buf r = call_text uid k ps @ rest" "rlen = length (call_text uid k ps)" "length g = 30"
    and "quote \<notin> set uid" "length uid \<le> 30" "1 \<le> k" "k < 20"
    and "length ps \<le> 10" "\<forall>p\<in>set ps. prop_ok p"
  shows "\<exists>r'. Parse_Data tx g rlen r = Some (0, r') \<and> Msg_type (Rx_Msg r') = 2 \<and> Action_Code (Rx_Msg r') = w8 k \<and>
    UniqueID_Char (Rx_Msg r') = uid @ replicate (70 - length uid) 0 \<and> Payload_len (Rx_Msg r') = w8 (length ps - 1) \<and>
    (\<forall>i < length ps. property_name (Payload (Rx_Msg r') ! i) = jname (ps ! i) @ replicate (60 - length (jname (ps ! i))) 0 \<and>
       property_contants (Payload (Rx_Msg r') ! i) = jval (ps ! i) @ replicate (1024 - length (jval (ps ! i))) 0)"
  using call_parsed [OF assms] by (simp add: parsed_def call_msg_def flat_payload_def nth_append prop_stored_def)

theorem ocpp_call_read_witness:
  "\<exists>r'. Parse_Data 0 (replicate 30 0) 74
     \<lparr>Rx_Msg = msg_empty, rx_levels = [], DATATRANS_data = replicate 1024 0, DATATRANS_UniqueID = 0,
       curl_ws_recv_buf = call_text (replicate 8 0x31) 11 [JStr (str_bytes ''idTag'') (replicate 16 0x32), JNum (str_bytes ''x'') [0x31]] @
         replicate 950 0\<rparr> =
     Some (0, r') \<and> Action_Code (Rx_Msg r') = w8 11 \<and> property_contants (Payload (Rx_Msg r') ! 1) = 0x31 # replicate 1023 0"
proof -
  let ?ps = "[JStr (str_bytes ''idTag'') (replicate 16 0x32), JNum (str_bytes ''x'') [0x31]]"
  let ?r = "\<lparr>Rx_Msg = msg_empty, rx_levels = [], DATATRANS_data = replicate 1024 0, DATATRANS_UniqueID = 0,
       curl_ws_recv_buf = call_text (replicate 8 0x31) 11 ?ps @ replicate 950 0\<rparr>"
  have l: "length (call_text (replicate 8 0x31) 11 ?ps) = 74" by (simp add: call_text_def call_header_def str_bytes_facts cs_req_msg_def)
  have ok: "\<forall>p\<in>set ?ps. prop_ok p"
    by (simp add: prop_ok_def str_bytes_def is_digit_def)
  obtain r' where "Parse_Data 0 (replicate 30 0) 74 ?r = Some (0, r')" "Action_Code (Rx_Msg r') = w8 11"
    "\<forall>i < length ?ps. property_contants (Payload (Rx_Msg r') ! i) = jval (?ps ! i) @ replicate (1024 - length (jval (?ps ! i))) 0"
    using ocpp_call_read [of ?r "replicate 8 0x31" 11 ?ps "replicate 950 0" 74 "replicate 30 0" 0] ok l by auto
  then show ?thesis by auto
qed

text \<open>The identifier of a result is read back: printing any 64-bit number in decimal and parsing the header yields it,
  with the action code of the outstanding request.\<close>

theorem ocpp_result_id:
  assumes "n < 2 ^ 64" "length g = 30" "length (result_header (dec_nat n)) \<le> rlen"
  shows "Parse_Header tx g (result_header (dec_nat n) @ rest) m rlen =
    Some (False, m\<lparr>Msg_type := 3, UniqueID := word_of_nat n, Action_Code := tx\<rparr>, length (result_header (dec_nat n)) - 1)"
  using assms by (rule result_header_read)

theorem ocpp_result_id_witness:
  "Parse_Header 5 (replicate 30 0) (result_header (dec_nat 1700000000123) @ [ch_comma]) msg_empty 100 =
    Some (False, msg_empty\<lparr>Msg_type := 3, UniqueID := 1700000000123, Action_Code := 5\<rparr>, 17)"
proof -
  have "dec_nat 1700000000123 = [0x31, 0x37, 0x30, 0x30, 0x30, 0x30, 0x30, 0x30, 0x30, 0x30, 0x31, 0x32, 0x33]"
    by (simp add: dec_nat.simps w8_def)
  then have "length (result_header (dec_nat 1700000000123)) = 18" by (simp add: result_header_def)
  then show ?thesis using ocpp_result_id [of 1700000000123 "replicate 30 0" 100 5 "[ch_comma]" msg_empty] by simp
qed

text \<open>A message whose identifier has 31 characters or more writes outside \<open>char temp_buf[30]\<close>; OCPP allows 36.\<close>

theorem ocpp_long_id_overruns:
  assumes "31 \<le> length uid" "quote \<notin> set uid" "length g = 30" "ty \<in> {0x32, 0x33, 0x34}"
    and "4 + length uid \<le> rlen" "rlen \<le> 1024" "curl_ws_recv_buf r = [ch_lbracket, ty, ch_comma, quote] @ uid @ rest"
  shows "Parse_Data tx g rlen r = None"
  using header_long_id [of uid g ty rlen tx rest "Rx_Msg r"] assms by (simp add: Parse_Data_def)

theorem ocpp_long_id_overruns_witness:
  "Parse_Data 0 (replicate 30 0) 48 \<lparr>Rx_Msg = msg_empty, rx_levels = [], DATATRANS_data = [], DATATRANS_UniqueID = 0,
     curl_ws_recv_buf = [ch_lbracket, 0x32, ch_comma, quote] @ replicate 36 0x61 @ [quote, ch_comma, quote, 0x52, 0x65, 0x73, 0x65, 0x74, quote]\<rparr> = None"
  by (rule ocpp_long_id_overruns [where ty = "0x32" and uid = "replicate 36 0x61" and
      rest = "[quote, ch_comma, quote, 0x52, 0x65, 0x73, 0x65, 0x74, quote]"]) simp_all

end
