(* ===== verification/Ocpp_Client.thy ===== *)
theory Ocpp_Client
  imports Charging Ocpp_Parse
begin

text \<open>
  The state of the OCPP client (\<open>src/project/tsct2007a/tsctwsclient.c\<close>, \<open>tsctwsclient.h\<close>) and the helpers that the
  commands share: times, decimal numbers, the queue of meter values and the periodic tests.

  The part of the state that the charging screens share with the client (\<open>shmDataAppInfo\<close>, the connector status, the
  transaction) is the record \<open>session\<close>; \<open>ses\<close> is that part.  A property of an outgoing message is kept as the C strings
  it holds, together with the properties that its \<open>sub_Payload\<close> points to.  \<open>None\<close> is an access outside an array or
  the use of an uninitialised value.
\<close>

section \<open>Outgoing messages\<close>

datatype tx_prop = Tx_prop (tp_name: bytes) (tp_contents: bytes) (tp_type: TYPE_CODE) (tp_len: u8) (tp_arr_len: u8) (tp_sub: "tx_prop list")

datatype CP_REQ_ACTION_CODE =
    CP_REQ_ACTION_CODE_NONE | CP_REQ_ACTION_CODE_AUTH | CP_REQ_ACTION_CODE_BOOT | CP_REQ_ACTION_CODE_DATATRANS
  | CP_REQ_ACTION_CODE_DIAGSTAT | CP_REQ_ACTION_CODE_FWSTAT | CP_REQ_ACTION_CODE_HB | CP_REQ_ACTION_CODE_METERVAL
  | CP_REQ_ACTION_CODE_STARTTS | CP_REQ_ACTION_CODE_STAT | CP_REQ_ACTION_CODE_STOPTS

definition cp_action_no :: "CP_REQ_ACTION_CODE \<Rightarrow> nat" where
  "cp_action_no a = (case a of
     CP_REQ_ACTION_CODE_NONE \<Rightarrow> 0 | CP_REQ_ACTION_CODE_AUTH \<Rightarrow> 1 | CP_REQ_ACTION_CODE_BOOT \<Rightarrow> 2
   | CP_REQ_ACTION_CODE_DATATRANS \<Rightarrow> 3 | CP_REQ_ACTION_CODE_DIAGSTAT \<Rightarrow> 4 | CP_REQ_ACTION_CODE_FWSTAT \<Rightarrow> 5
   | CP_REQ_ACTION_CODE_HB \<Rightarrow> 6 | CP_REQ_ACTION_CODE_METERVAL \<Rightarrow> 7 | CP_REQ_ACTION_CODE_STARTTS \<Rightarrow> 8
   | CP_REQ_ACTION_CODE_STAT \<Rightarrow> 9 | CP_REQ_ACTION_CODE_STOPTS \<Rightarrow> 10)"

definition cp_req_msg :: "string list" where
  "cp_req_msg =
    [''NONE'', ''Authorize'', ''BootNotification'', ''DataTransfer'', ''DiagnosticsStatusNotification'',
     ''FirmwareStatusNotification'', ''Heartbeat'', ''MeterValues'', ''StartTransaction'', ''StatusNotification'',
     ''StopTransaction'']"

record tx_msg =
  tx_type :: u8
  tx_id :: u64
  tx_id_char :: bytes
  tx_action :: CP_REQ_ACTION_CODE
  tx_len :: u8
  tx_payload :: "tx_prop list"

section \<open>State\<close>

datatype TRIG_MSG_STAT =
    TRIG_MSG_STAT_NONE | TRIG_MSG_STAT_BOOT | TRIG_MSG_STAT_DIAG | TRIG_MSG_STAT_FW | TRIG_MSG_STAT_HB
  | TRIG_MSG_STAT_METER | TRIG_MSG_STAT_STAT

datatype DIAG_STAT = DIAG_STAT_NONE | DIAG_STAT_UPLOAD | DIAG_STAT_UPLOADING | DIAG_STAT_UPLOADED | DIAG_STAT_UPLOADFAIL

datatype UPDATE_STEP =
    UPDATE_STEP_NONE | UPDATE_STEP_CHKDATE | UPDATE_STEP_DOWNLOAD | UPDATE_STEP_DOWNLOADING | UPDATE_STEP_DOWNLOADED
  | UPDATE_STEP_DOWNLOADFAIL | UPDATE_STEP_INSTAL | UPDATE_STEP_INSTALED | UPDATE_STEP_INSTALFAIL

datatype MEM_TYPE = MEM_NON | MEM_MEBER | MEM_ROAM | MEM_GUEST | MEM_VIP

datatype CardAuthStates = CARD_AUTH_WAIT | CARD_AUTH_OK | CARD_AUTH_OK_AFTER | CARD_AUTH_FAILD | CARD_AUTH_MAX

text \<open>The types of a sample: \<open>METER_VAL_SAMP_TYPE\<close> 1, \<open>METER_VAL_CLOCK_TYPE\<close> 2, \<open>METER_VAL_TRIG_TYPE\<close> 3,
  \<open>METER_VAL_TRANS_TYPE\<close> 4; 0 marks a free place.\<close>

record METERVAL_TYPE =
  Meterval_Flg :: u8
  Uid_Mv :: u64
  Connect_Id :: u8
  mv_Time_Stamp :: bytes
  Sampled_Val :: u32
  Current :: u16
  Volt :: u16

record TSCT_CFG_KEY =
  CfgKeyName :: string
  CfgKeyRw :: bool
  CfgKeyType :: TYPE_CODE
  CfgKeyDataCha :: string
  CfgKeyDataInt :: u32

record client =
  ses :: session
  rxs :: rx
  Tx_Msg :: tx_msg
  Call_Tx_Msg :: tx_msg
  MeterValQ :: "METERVAL_TYPE list"
  CfgKeyVal :: "TSCT_CFG_KEY list"
  bPreCpStat :: "CP_STATUS_CODE list"
  bReqStartTsNo :: u8
  bReqStopTsFlg :: bool
  bReqRmtStartTsNo :: u8
  bReqResetNo :: u8
  batInfo_cfgCnt :: u8
  bQREventFlg :: u8
  SecureNo :: bytes
  triggerMsgStat :: TRIG_MSG_STAT
  diagLogUrl :: bytes
  diagLogReqStep :: DIAG_STAT
  bReqMemberFlg :: bool
  bReqChargeAmtFlg :: bool
  reqStartTsFlg :: bool
  StartTs_Time :: bytes
  MeterStart_Val :: u32
  StartTs_IdTag :: bytes
  StartTs_Connector :: u8
  faultChargFlg :: bool
  StopTs_Time :: bytes
  updateStep :: UPDATE_STEP
  fwUpdateUrl :: bytes
  fw_Time_Stamp :: bytes
  bWaitResFlg :: bool
  bConnect :: bool
  bConfigSaveFlg :: bool
  bCpStatChgFlg :: u8
  bRecvConnCnt :: u8
  bChargerCostCheck :: u8
  OCPP_cpSts_flg :: bool
  Check_Meter_flg :: bool
  Check_Sampled_flg :: bool
  ServerCallError :: bool
  nConnectCheck :: int
  nConnectResetCount :: int
  tv_1 :: int
  tv_res :: int
  cpStatChk :: bool
  card_auth :: CardAuthStates
  connect_status :: bool
  tNetTime :: tm
  rtc_time :: "tm option"
  member_type :: MEM_TYPE
  price_text :: bytes
  finalAmt :: u32
  billAmt :: u32
  usedPoint :: u32
  remainPoint :: u32
  chargeAmt_Check :: bool

text \<open>What the client reads from its surroundings in one pass: the selected connector \<open>bDevChannel\<close>, the seconds of
  \<open>gettimeofday\<close>, the milliseconds of \<open>CstGetTime_Msec_test\<close>, the local time, the measured current and voltage, the
  temperature and humidity of the cabinet, and whether the management menu is open.  \<open>rtc_time\<close> of the state is the time
  that the real-time clock was set to last, \<open>price_text\<close> the decimal number that \<open>atof\<close> turns into \<open>OCPP_iUnitprice\<close>.\<close>

record ocpp_env =
  e_channel :: nat
  e_sec :: int
  e_msec :: u64
  e_tm :: tm
  e_current :: u16
  e_volt :: u16
  e_temperature :: int
  e_humidity :: int
  bGloAdminStatus :: bool

section \<open>Connector status\<close>

definition cp_status_no :: "CP_STATUS_CODE \<Rightarrow> nat" where
  "cp_status_no a = (case a of
     CP_STATUS_CODE_NONE \<Rightarrow> 0 | CP_STATUS_CODE_PEND \<Rightarrow> 1 | CP_STATUS_CODE_AVAIL \<Rightarrow> 2 | CP_STATUS_CODE_PREPARE \<Rightarrow> 3
   | CP_STATUS_CODE_CHARGING \<Rightarrow> 4 | CP_STATUS_CODE_SUSPENDEDEV \<Rightarrow> 5 | CP_STATUS_CODE_SUSPENDEDEVSE \<Rightarrow> 6
   | CP_STATUS_CODE_FNISH \<Rightarrow> 7 | CP_STATUS_CODE_RESERVED \<Rightarrow> 8 | CP_STATUS_CODE_UNAVAIL \<Rightarrow> 9 | CP_STATUS_CODE_FAULT \<Rightarrow> 10)"

abbreviation (input) MAX_CONECTOR_ID :: nat where "MAX_CONECTOR_ID \<equiv> 1"

definition GetCpStatus :: "nat \<Rightarrow> client \<Rightarrow> CP_STATUS_CODE option" where
  "GetCpStatus ch_no c = rd (bCpStat (ses c)) ch_no"

definition set_cp :: "CP_STATUS_CODE \<Rightarrow> nat \<Rightarrow> client \<Rightarrow> client option" where
  "set_cp code ch_no c = do {
     s \<leftarrow> SetCpStatus code ch_no (ses c);
     Some (c\<lparr>ses := s\<rparr>)
   }"

section \<open>Numbers and times\<close>

text \<open>Characters that are no digits count as digits without a value.\<close>

fun str2int :: "bytes \<Rightarrow> u64 \<Rightarrow> u64 option" where
  "str2int [] ret = Some ret"
| "str2int (ch # cs) ret =
     (if 0x30 \<le> ch \<and> ch \<le> 0x39
      then do {
        p \<leftarrow> pow10 (length cs);
        str2int cs (ret + word_of_int (sint ch - 0x30) * p)
      }
      else str2int cs ret)"

definition String2Integer :: "bytes \<Rightarrow> u64 option" where
  "String2Integer str = str2int (cstr str) 0"

definition GetDateTime :: "tm \<Rightarrow> bytes option" where
  "GetDateTime t =
     (let b = fmt_d (tm_year t + 1900) @ str_bytes ''-'' @ fmt_02d (tm_mon t + 1) @ str_bytes ''-'' @ fmt_02d (tm_mday t) @
        str_bytes ''T'' @ fmt_02d (tm_hour t) @ str_bytes '':'' @ fmt_02d (tm_min t) @ str_bytes '':'' @ fmt_02d (tm_sec t) @
        str_bytes ''.000Z''
      in if length b < 50 then Some b else None)"

text \<open>The value of one digit of a time stamp, \<open>(c - '0') % 10\<close>, and of two and four of them.\<close>

definition ts_digit :: "u8 \<Rightarrow> int" where
  "ts_digit ch = (sint ch - 0x30) smod 10"

definition ts_2 :: "bytes \<Rightarrow> nat \<Rightarrow> int option" where
  "ts_2 b i = do {
     x \<leftarrow> rd b i; y \<leftarrow> rd b (i + 1);
     Some (ts_digit x * 10 + ts_digit y)
   }"

definition ts_tm :: "int \<Rightarrow> bytes \<Rightarrow> tm option" where
  "ts_tm month_shift b = do {
     hi \<leftarrow> ts_2 b 0; lo \<leftarrow> ts_2 b 2; mon \<leftarrow> ts_2 b 5; mday \<leftarrow> ts_2 b 8;
     hour \<leftarrow> ts_2 b 11; mnt \<leftarrow> ts_2 b 14; sec \<leftarrow> ts_2 b 17;
     Some \<lparr>tm_year = hi * 100 + lo - 1900, tm_mon = mon - month_shift, tm_mday = mday, tm_hour = hour, tm_min = mnt, tm_sec = sec\<rparr>
   }"

text \<open>\<open>CnvrtStr2Utc\<close> leaves the month as it is written, where the two handlers of the server time subtract one.  Its
  buffer holds \<open>unsigned char\<close>; for digits this is the same value.\<close>

definition CnvrtStr2Utc :: "(tm \<Rightarrow> int) \<Rightarrow> bytes \<Rightarrow> int option" where
  "CnvrtStr2Utc mktime b = map_option mktime (ts_tm 0 b)"

definition TsctCheckNetTimeSet :: "ocpp_env \<Rightarrow> client \<Rightarrow> client" where
  "TsctCheckNetTimeSet env c =
     (if bGloAdminStatus env then c
      else if 0 < tm_year (tNetTime c) then c\<lparr>rtc_time := Some (tNetTime c), tNetTime := (tNetTime c)\<lparr>tm_year := 0\<rparr>\<rparr>
      else c)"

definition CheckUpdateFwDate :: "(tm \<Rightarrow> int) \<Rightarrow> int \<Rightarrow> client \<Rightarrow> bool option" where
  "CheckUpdateFwDate mktime curr_time c =
     (if updateStep c \<noteq> UPDATE_STEP_NONE
      then do {
        t \<leftarrow> CnvrtStr2Utc mktime (fw_Time_Stamp c);
        Some (t < curr_time)
      }
      else Some False)"

section \<open>The queue of meter values\<close>

abbreviation (input) MAX_QNO_METERVAL :: nat where "MAX_QNO_METERVAL \<equiv> 5"

abbreviation (input) METER_VAL_CLOCK_TYPE :: u8 where "METER_VAL_CLOCK_TYPE \<equiv> 2"
abbreviation (input) METER_VAL_TRIG_TYPE :: u8 where "METER_VAL_TRIG_TYPE \<equiv> 3"
abbreviation (input) METER_VAL_TRANS_TYPE :: u8 where "METER_VAL_TRANS_TYPE \<equiv> 4"

definition eqp_watt_sum :: "bytes \<Rightarrow> u32 option" where
  "eqp_watt_sum w = do {
     w0 \<leftarrow> rd w 0; w1 \<leftarrow> rd w 1; w2 \<leftarrow> rd w 2; w3 \<leftarrow> rd w 3;
     Some (push_bit 24 (ucast w0) + push_bit 16 (ucast w1) + push_bit 8 (ucast w2) + ucast w3)
   }"

text \<open>The number of samples before the first free place.\<close>

definition meter_q_no :: "METERVAL_TYPE list \<Rightarrow> nat" where
  "meter_q_no q = length (takeWhile (\<lambda>v. Meterval_Flg v \<noteq> 0) q)"

text \<open>The part that both branches share: the sample is written to \<open>MeterValQ[at]\<close>, its value to \<open>MeterValQ[Qno]\<close>.  The
  value is unsigned, so that the test for a negative one always fails.\<close>

definition meter_sample :: "ocpp_env \<Rightarrow> u8 \<Rightarrow> nat \<Rightarrow> nat \<Rightarrow> METERVAL_TYPE list \<Rightarrow> client \<Rightarrow> client option" where
  "meter_sample env ty at Qno q c = do {
     dt \<leftarrow> GetDateTime (e_tm env);
     v \<leftarrow> rd q at;
     let q = q[at := v\<lparr>Meterval_Flg := ty, Uid_Mv := e_msec env, Connect_Id := w8 (e_channel env + 1), mv_Time_Stamp := dt,
       Sampled_Val := 0\<rparr>];
     t \<leftarrow> eqp_watt_sum (s_eqp_watt (ses c));
     v \<leftarrow> rd q Qno;
     let q = q[Qno := v\<lparr>Sampled_Val := t - MeterStart_Val c, Current := e_current env, Volt := e_volt env\<rparr>];
     Some (c\<lparr>MeterValQ := q, MeterStart_Val := t\<rparr>)
   }"

definition Add_MeterVal_Q :: "ocpp_env \<Rightarrow> u8 \<Rightarrow> client \<Rightarrow> client option" where
  "Add_MeterVal_Q env meterValType c =
     (let q = MeterValQ c; Qno = meter_q_no q in
      if Qno = MAX_QNO_METERVAL
      then meter_sample env meterValType (MAX_QNO_METERVAL - 1) Qno (drop 1 q @ [last q]) c
      else meter_sample env meterValType Qno Qno q c)"

definition meter_reset :: "METERVAL_TYPE \<Rightarrow> METERVAL_TYPE" where
  "meter_reset v = v\<lparr>Meterval_Flg := 0, Uid_Mv := 0, Connect_Id := 0, Sampled_Val := 0, Current := 0, Volt := 0\<rparr>"

definition Reset_MeterVal_Q :: "client \<Rightarrow> client" where
  "Reset_MeterVal_Q c =
     (let q = MeterValQ c; Qno = meter_q_no q in c\<lparr>MeterValQ := map meter_reset (take Qno q) @ drop Qno q\<rparr>)"

section \<open>Periodic tests\<close>

text \<open>The common part of the two tests of the wall clock; \<open>period\<close> is 60 or 180 seconds.  The first component tells
  that a period begins, the second is the new flag.\<close>

definition period_start :: "int \<Rightarrow> tm \<Rightarrow> bool \<Rightarrow> bool \<times> bool" where
  "period_start period t flg =
     (let past = tm_min t * 60 + tm_sec t; until_next = period - past smod period in
      if period \<le> until_next \<and> \<not> flg then (True, True)
      else (False, if until_next = 1 then False else flg))"

definition Check_Sampled_Time :: "ocpp_env \<Rightarrow> client \<Rightarrow> (u8 \<times> client) option" where
  "Check_Sampled_Time env c = do {
     st \<leftarrow> GetCpStatus (e_channel env + 1) c;
     if st \<noteq> CP_STATUS_CODE_CHARGING \<or> \<not> sChCharging (ses c) then Some (0, c\<lparr>Check_Sampled_flg := False\<rparr>)
     else (let (due, flg) = period_start 60 (e_tm env) (Check_Sampled_flg c)
           in Some (if due then METER_VAL_CLOCK_TYPE else 0, c\<lparr>Check_Sampled_flg := flg\<rparr>))
   }"

definition Check_Meter_Time :: "ocpp_env \<Rightarrow> client \<Rightarrow> (bool \<times> client) option" where
  "Check_Meter_Time env c = do {
     st \<leftarrow> GetCpStatus (e_channel env + 1) c;
     if st \<noteq> CP_STATUS_CODE_CHARGING \<or> \<not> sChCharging (ses c) then Some (False, c\<lparr>Check_Meter_flg := False\<rparr>)
     else (let (due, flg) = period_start 180 (e_tm env) (Check_Meter_flg c) in Some (due, c\<lparr>Check_Meter_flg := flg\<rparr>))
   }"

text \<open>The timers take the seconds in which they were reset; a clock that was set back restarts them.\<close>

definition Check_HB_Time :: "ocpp_env \<Rightarrow> int \<Rightarrow> client \<Rightarrow> (bool \<times> int) option" where
  "Check_HB_Time env tval c = do {
     k \<leftarrow> rd (CfgKeyVal c) 5;
     Some (if e_sec env < tval then (False, e_sec env) else (uint (CfgKeyDataInt k) \<le> e_sec env - tval, tval))
   }"

definition Check_Resp_Time :: "ocpp_env \<Rightarrow> int \<Rightarrow> client \<Rightarrow> (bool \<times> int) option" where
  "Check_Resp_Time env tval c = do {
     k \<leftarrow> rd (CfgKeyVal c) 18;
     Some (if e_sec env < tval then (False, e_sec env) else (uint (CfgKeyDataInt k) \<le> e_sec env - tval, tval))
   }"

end
