(* ===== verification/Ocpp_Req.thy ===== *)
theory Ocpp_Req
  imports Ocpp_Client
begin

text \<open>
  The requests of the charge point (\<open>MakeDataCmd_*\<close> of \<open>src/project/tsct2007a/ocpp_cmd.c\<close>): each fills \<open>Tx_Msg\<close>.  A
  property that a command does not write keeps what an earlier message left there.
\<close>

section \<open>Filling a message\<close>

fun tx_put :: "bytes \<times> bytes \<times> TYPE_CODE \<Rightarrow> tx_prop \<Rightarrow> tx_prop" where
  "tx_put (n, v, ty) p = Tx_prop n v ty (tp_len p) (tp_arr_len p) (tp_sub p)"

text \<open>A property that is an array with one element in \<open>tx_sub_Payload\<close>.\<close>

definition tx_put_array :: "bytes \<Rightarrow> bytes \<Rightarrow> tx_prop \<Rightarrow> tx_prop" where
  "tx_put_array n v p = Tx_prop n (tp_contents p) TYPE_CODE_ARR 1 (tp_arr_len p) [Tx_prop [] v TYPE_CODE_STR 0 0 []]"

definition tx_upd :: "nat \<Rightarrow> (tx_prop \<Rightarrow> tx_prop) \<Rightarrow> client \<Rightarrow> client option" where
  "tx_upd i f c = do {
     p \<leftarrow> rd (tx_payload (Tx_Msg c)) i;
     Some (c\<lparr>Tx_Msg := (Tx_Msg c)\<lparr>tx_payload := (tx_payload (Tx_Msg c))[i := f p]\<rparr>\<rparr>)
   }"

fun tx_fill :: "nat \<Rightarrow> (bytes \<times> bytes \<times> TYPE_CODE) list \<Rightarrow> client \<Rightarrow> client option" where
  "tx_fill i [] c = Some c"
| "tx_fill i (x # xs) c = do {
     c \<leftarrow> tx_upd i (tx_put x) c;
     tx_fill (Suc i) xs c
   }"

definition tx_call :: "u64 \<Rightarrow> CP_REQ_ACTION_CODE \<Rightarrow> nat \<Rightarrow> client \<Rightarrow> client" where
  "tx_call uid action len c = c\<lparr>Tx_Msg := (Tx_Msg c)\<lparr>tx_type := 2, tx_id := uid, tx_action := action, tx_len := w8 len\<rparr>\<rparr>"

definition tx_request :: "u64 \<Rightarrow> CP_REQ_ACTION_CODE \<Rightarrow> (bytes \<times> bytes \<times> TYPE_CODE) list \<Rightarrow> client \<Rightarrow> client option" where
  "tx_request uid action props c = tx_fill 0 props (tx_call uid action (length props) c)"

definition p_str :: "string \<Rightarrow> bytes \<Rightarrow> bytes \<times> bytes \<times> TYPE_CODE" where
  "p_str n v = (str_bytes n, v, TYPE_CODE_STR)"

definition p_int :: "string \<Rightarrow> bytes \<Rightarrow> bytes \<times> bytes \<times> TYPE_CODE" where
  "p_int n v = (str_bytes n, v, TYPE_CODE_INT)"

text \<open>In the texts of nested objects the sign \<open>|\<close> stands for an escaped quotation mark.\<close>

definition nested :: "string \<Rightarrow> bytes" where
  "nested s = concat (map (\<lambda>ch. if ch = CHR ''|'' then [ch_backslash, quote] else str_bytes [ch]) s)"

section \<open>Authorisation and start-up\<close>

definition MakeDataCmd_Auth :: "ocpp_env \<Rightarrow> client \<Rightarrow> client option" where
  "MakeDataCmd_Auth env c =
     tx_request (e_msec env) CP_REQ_ACTION_CODE_AUTH
       [p_str ''idTag'' (if bReqAuthNo (ses c) = 2 then cstr (scnd_card_no (ses c)) else cstr (take 16 (card_no (ses c))))] c"

definition MakeDataCmd_Boot :: "ocpp_env \<Rightarrow> client \<Rightarrow> client option" where
  "MakeDataCmd_Boot env c =
     tx_request (e_msec env) CP_REQ_ACTION_CODE_BOOT
       [p_str ''chargePointVendor'' (str_bytes ''tscontech''), p_str ''chargePointModel'' (str_bytes ''TSCT-2007CP''),
        p_str ''firmwareVersion'' (str_bytes ''V2.2.3T'')] c"

section \<open>States of uploads and updates\<close>

text \<open>The text keeps empty where no case applies.\<close>

definition MakeDataCmd_DiagStat :: "ocpp_env \<Rightarrow> DIAG_STAT \<Rightarrow> client \<Rightarrow> client option" where
  "MakeDataCmd_DiagStat env diagStat c =
     tx_request (e_msec env) CP_REQ_ACTION_CODE_DIAGSTAT
       [p_str ''status'' (str_bytes
          (case diagStat of
             DIAG_STAT_NONE \<Rightarrow> ''Idle'' | DIAG_STAT_UPLOADING \<Rightarrow> ''Uploading'' | DIAG_STAT_UPLOADED \<Rightarrow> ''Uploaded''
           | DIAG_STAT_UPLOADFAIL \<Rightarrow> ''UploadFailed'' | _ \<Rightarrow> []))] c"

definition MakeDataCmd_FwStat :: "ocpp_env \<Rightarrow> UPDATE_STEP \<Rightarrow> client \<Rightarrow> client option" where
  "MakeDataCmd_FwStat env step c =
     tx_request (e_msec env) CP_REQ_ACTION_CODE_FWSTAT
       [p_str ''status'' (str_bytes
          (case step of
             UPDATE_STEP_NONE \<Rightarrow> ''Idle'' | UPDATE_STEP_DOWNLOAD \<Rightarrow> ''Downloading'' | UPDATE_STEP_DOWNLOADED \<Rightarrow> ''Downloaded''
           | UPDATE_STEP_DOWNLOADFAIL \<Rightarrow> ''DownloadFailed'' | UPDATE_STEP_INSTAL \<Rightarrow> ''Installing''
           | UPDATE_STEP_INSTALED \<Rightarrow> ''Installed'' | UPDATE_STEP_INSTALFAIL \<Rightarrow> ''InstallationFailed'' | _ \<Rightarrow> []))] c"

definition MakeDataCmd_HB :: "ocpp_env \<Rightarrow> client \<Rightarrow> client option" where
  "MakeDataCmd_HB env c =
     tx_upd 0 (\<lambda>p. Tx_prop (tp_name p) (tp_contents p) TYPE_CODE_STR (tp_len p) (tp_arr_len p) (tp_sub p))
       (tx_call (e_msec env) CP_REQ_ACTION_CODE_HB 0 c)"

section \<open>Meter values\<close>

text \<open>\<open>sampledValue_format\<close> and \<open>TransactionEnd_format\<close> differ in the context only.\<close>

definition sample_text :: "string \<Rightarrow> METERVAL_TYPE \<Rightarrow> bytes" where
  "sample_text ctx v =
     str_bytes ''{\"timestamp\":\"'' @ mv_Time_Stamp v @ str_bytes ''\",\"sampledValue\":[{\"value\":\"'' @
     dec_nat (unat (Sampled_Val v * 10)) @
     str_bytes (''\",\"measurand\":\"Energy.Active.Import.Register\",\"context\":\"'' @ ctx @ ''\",\"unit\":\"Wh\"},{\"value\":\"'') @
     dec_nat (unat (Current v) div 100) @
     str_bytes (''\",\"measurand\":\"Current.Export\",\"context\":\"'' @ ctx @ ''\",\"unit\":\"A\"},{\"value\":\"'') @
     dec_nat (unat (Volt v) div 10) @
     str_bytes (''\",\"measurand\":\"Voltage\",\"context\":\"'' @ ctx @ ''\",\"unit\":\"V\"}]}'')"

text \<open>The loop over the first \<open>MeterVal_count\<close> samples.  The string of a sample is allocated without room for the
  comma that follows all but the last one, and there are only four pointers.\<close>

fun samples_text :: "nat \<Rightarrow> nat \<Rightarrow> METERVAL_TYPE list \<Rightarrow> bytes option" where
  "samples_text count i [] = Some []"
| "samples_text count i (v # vs) =
     (if count \<le> i then Some []
      else if Meterval_Flg v = METER_VAL_CLOCK_TYPE \<or> Meterval_Flg v = METER_VAL_TRANS_TYPE
      then (if 4 \<le> i \<or> i + 1 < count then None
            else do {
              rest \<leftarrow> samples_text count (Suc i) vs;
              Some (sample_text (if Meterval_Flg v = METER_VAL_CLOCK_TYPE then ''Sample.Clock'' else ''Transaction.End'') v @ rest)
            })
      else Some [])"

definition sampledValue_Data :: "METERVAL_TYPE list \<Rightarrow> bytes option" where
  "sampledValue_Data q = do {
     b \<leftarrow> samples_text (length (filter (\<lambda>v. Meterval_Flg v \<noteq> 0) q)) 0 q;
     if length b < 1024 then Some b else None
   }"

definition MakeDataCmd_MeterVal :: "ocpp_env \<Rightarrow> client \<Rightarrow> client option" where
  "MakeDataCmd_MeterVal env c = do {
     v \<leftarrow> rd (MeterValQ c) 0;
     tr \<leftarrow> rd (bTrId (ses c)) 1;
     b \<leftarrow> sampledValue_Data (MeterValQ c);
     c \<leftarrow> tx_fill 0 [p_int ''connectorId'' (dec_nat (unat (Connect_Id v))), p_int ''transactionId'' (dec_nat (unat tr))]
       (tx_call (Uid_Mv v) CP_REQ_ACTION_CODE_METERVAL 3 c);
     tx_upd 2 (tx_put_array (str_bytes ''meterValue'') b) c
   }"

section \<open>Transactions\<close>

definition MakeDataCmd_StartTs :: "ocpp_env \<Rightarrow> client \<Rightarrow> client option" where
  "MakeDataCmd_StartTs env c =
     tx_request (e_msec env) CP_REQ_ACTION_CODE_STARTTS
       [p_int ''connectorId'' (dec_nat (unat (StartTs_Connector c))), p_str ''idTag'' (cstr (take 16 (StartTs_IdTag c))),
        p_int ''meterStart'' (dec_nat (unat (MeterStart_Val c * 10))), p_str ''timestamp'' (cstr (StartTs_Time c))] c"

text \<open>\<open>Stop_Reason\<close> is compared with \<open>END_ERR\<close> of another enumeration, which is the number of \<open>STOP_REASON_LOCAL\<close>.\<close>

definition stop_reason_text :: "client \<Rightarrow> string option" where
  "stop_reason_text c =
     (if bReqRmtStopTSFlg (ses c) then Some ''Remote''
      else if charge_comp_status (ses c) = END_UNPLUG then Some ''EVDisconnected''
      else if charge_comp_status (ses c) = END_BTN \<or> charge_comp_status (ses c) = END_CARD then Some ''Local''
      else if StopTs_Reason (ses c) = STOP_REASON_LOCAL then Some ''Other''
      else if StopTs_Reason (ses c) = STOP_REASON_POWER then Some ''PowerLoss''
      else None)"

definition MakeDataCmd_StopTs :: "ocpp_env \<Rightarrow> client \<Rightarrow> client option" where
  "MakeDataCmd_StopTs env c = do {
     tr \<leftarrow> rd (bTrId (ses c)) (e_channel env + 1);
     b \<leftarrow> sampledValue_Data (MeterValQ c);
     let props = [p_int ''transactionId'' (dec_nat (unat tr)), p_str ''timestamp'' (cstr (StopTs_Time c)),
         p_int ''meterStop'' (dec_nat (unat (StopTs_MeterStop (ses c) * 10)))] @
       (case stop_reason_text c of None \<Rightarrow> [] | Some r \<Rightarrow> [p_str ''reason'' (str_bytes r)]) @
       [p_str ''idTag'' (cstr (StopTs_IdTag (ses c)))];
     c \<leftarrow> tx_fill 0 props (tx_call (e_msec env) CP_REQ_ACTION_CODE_STOPTS (length props + 1) c);
     c \<leftarrow> tx_upd (length props) (tx_put_array (str_bytes ''transactionData'') b) c;
     Some (c\<lparr>ses := (ses c)\<lparr>bReqRmtStopTSFlg := False\<rparr>\<rparr>)
   }"

section \<open>Status\<close>

definition ChargerErrorCode :: "ERR_CODE \<Rightarrow> string" where
  "ChargerErrorCode e = (case e of
     ERR_CODE_OV_VOLT \<Rightarrow> ''OverVoltage'' | ERR_CODE_OV_CURT \<Rightarrow> ''OverCurrentFailure'' | ERR_CODE_UD_VOLT \<Rightarrow> ''UnderVoltage''
   | _ \<Rightarrow> ''OtherError'')"

definition ChargerVendorErrorCode :: "ERR_CODE \<Rightarrow> string" where
  "ChargerVendorErrorCode e = (case e of
     ERR_CODE_EMG \<Rightarrow> ''901'' | ERR_CODE_OV_VOLT \<Rightarrow> ''102'' | ERR_CODE_OV_CURT \<Rightarrow> ''104'' | ERR_CODE_UD_VOLT \<Rightarrow> ''103''
   | ERR_CODE_TEMP \<Rightarrow> ''303'' | ERR_CODE_SECC \<Rightarrow> ''403'' | ERR_CODE_POWERMETER \<Rightarrow> ''904'' | _ \<Rightarrow> ''910'')"

definition status_text :: "CP_STATUS_CODE \<Rightarrow> string option" where
  "status_text st = (case st of
     CP_STATUS_CODE_AVAIL \<Rightarrow> Some ''Available'' | CP_STATUS_CODE_PREPARE \<Rightarrow> Some ''Preparing''
   | CP_STATUS_CODE_CHARGING \<Rightarrow> Some ''Charging'' | CP_STATUS_CODE_SUSPENDEDEV \<Rightarrow> Some ''SuspendedEV''
   | CP_STATUS_CODE_SUSPENDEDEVSE \<Rightarrow> Some ''SuspendedEVSE'' | CP_STATUS_CODE_FNISH \<Rightarrow> Some ''Finishing''
   | CP_STATUS_CODE_RESERVED \<Rightarrow> Some ''Reserved'' | CP_STATUS_CODE_UNAVAIL \<Rightarrow> Some ''Unavailable''
   | CP_STATUS_CODE_FAULT \<Rightarrow> Some ''Faulted'' | _ \<Rightarrow> None)"

text \<open>A status without a text leaves the value of the property as it was.\<close>

definition MakeDataCmd_Stat :: "ocpp_env \<Rightarrow> nat \<Rightarrow> client \<Rightarrow> client option" where
  "MakeDataCmd_Stat env cntrNo c = do {
     st \<leftarrow> GetCpStatus cntrNo c;
     old \<leftarrow> rd (tx_payload (Tx_Msg c)) 2;
     dt \<leftarrow> GetDateTime (e_tm env);
     let fault = (st = CP_STATUS_CODE_FAULT);
     let e = charger_errcode (ses c);
     tx_request (e_msec env) CP_REQ_ACTION_CODE_STAT
       ([p_int ''connectorId'' (dec_nat (cntrNo mod 256)), p_str ''timestamp'' dt,
         (case status_text st of Some t \<Rightarrow> p_str ''status'' (str_bytes t) | None \<Rightarrow> (str_bytes ''status'', tp_contents old, tp_type old)),
         p_str ''errorCode'' (str_bytes (if fault then ChargerErrorCode e else ''NoError'')),
         p_str ''vendorErrorCode'' (if fault then str_bytes (ChargerVendorErrorCode e) else [])] @
        (if st = CP_STATUS_CODE_SUSPENDEDEV then [p_str ''info'' (str_bytes ''EV side disconnected'')] else [])) c
   }"

section \<open>Data transfers\<close>

definition data_transfer :: "ocpp_env \<Rightarrow> string \<Rightarrow> bytes \<Rightarrow> client \<Rightarrow> client option" where
  "data_transfer env mid d c =
     tx_request (e_msec env) CP_REQ_ACTION_CODE_DATATRANS
       [p_str ''vendorId'' (str_bytes ''tscontech''), p_str ''messageId'' (str_bytes mid), p_str ''data'' d] c"

text \<open>The text is built in \<open>temp_buf2[150]\<close>.\<close>

definition in_150 :: "bytes \<Rightarrow> bytes option" where
  "in_150 b = (if length b < 150 then Some b else None)"

definition MakeDataCmd_DataTrans_j1 :: "ocpp_env \<Rightarrow> client \<Rightarrow> client option" where
  "MakeDataCmd_DataTrans_j1 env c = data_transfer env ''j1'' [] c"

definition MakeDataCmd_DataTrans_cpSts :: "ocpp_env \<Rightarrow> client \<Rightarrow> client option" where
  "MakeDataCmd_DataTrans_cpSts env c = do {
     dt \<leftarrow> GetDateTime (e_tm env);
     _ \<leftarrow> blit (replicate 30 0) 0 (dt @ [0]);
     d \<leftarrow> in_150 (nested ''[{|timestamp|:|'' @ dt @ nested ''|,|sampledValue|:[{|position|:|'' @ nested ''|,|temperature|:|'' @
       fmt_d (e_temperature env) @ nested ''|,|humidity|:|'' @ fmt_d (e_humidity env) @ nested ''|}]}]'');
     data_transfer env ''cpSts'' d c
   }"

text \<open>\<open>SecureNo\<close> has two elements and is printed as a string.\<close>

definition MakeDataCmd_DataTrans_q1 :: "ocpp_env \<Rightarrow> client \<Rightarrow> client option" where
  "MakeDataCmd_DataTrans_q1 env c =
     (if 0 \<notin> set (SecureNo c) then None
      else do {
        d \<leftarrow> in_150 (nested ''{|connectorId|:'' @ dec_nat (e_channel env + 1) @ nested '',|waitTime|:|90|,|secureNo|:|'' @
          cstr (SecureNo c) @ nested ''|}'');
        data_transfer env ''q1'' d c
      })"

definition MakeDataCmd_DataTrans_q2 :: "ocpp_env \<Rightarrow> client \<Rightarrow> client option" where
  "MakeDataCmd_DataTrans_q2 env c = do {
     d \<leftarrow> in_150 (nested ''{|connectorId|:'' @ dec_nat (e_channel env + 1) @ nested '',|cancelReason|:|01|}'');
     data_transfer env ''q2'' d c
   }"

text \<open>The NUL is written behind the 16 characters of the local array.\<close>

definition MakeDataCmd_DataTrans_mbrUntpc :: "ocpp_env \<Rightarrow> client \<Rightarrow> client option" where
  "MakeDataCmd_DataTrans_mbrUntpc env c = do {
     no \<leftarrow> slice (card_no (ses c)) 0 16;
     no \<leftarrow> wr no 16 0;
     d \<leftarrow> in_150 (nested ''{|idTag|:|'' @ cstr no @ nested ''|}'');
     data_transfer env ''mbrUntpc'' d c
   }"

definition MakeDataCmd_DataTrans_chargeAmt :: "ocpp_env \<Rightarrow> client \<Rightarrow> client option" where
  "MakeDataCmd_DataTrans_chargeAmt env c = do {
     tr \<leftarrow> rd (bTrId (ses c)) (e_channel env + 1);
     d \<leftarrow> in_150 (nested ''{|transactionId|:'' @ dec_nat (unat tr) @ nested ''}'');
     data_transfer env ''chargeAmt'' d c
   }"

definition MakeDataCmd_DataTrans_BatteryInfo :: "ocpp_env \<Rightarrow> client \<Rightarrow> client option" where
  "MakeDataCmd_DataTrans_BatteryInfo env c = do {
     d \<leftarrow> in_150 (nested ''{|infoCnt|:|1|, |batteryData|:[]}'');
     data_transfer env ''BatteryInfo'' d c
   }"

end
