(* ===== verification/Ocpp_Rsp.thy ===== *)
theory Ocpp_Rsp
  imports Ocpp_Client
begin

text \<open>
  The handlers of the server's responses (\<open>DataProcCmd_*\<close> of \<open>src/project/tsct2007a/ocpp_cmd.c\<close> that
  \<open>Rx_CallRes_DataProc\<close> calls).
\<close>

section \<open>Reading a message\<close>

definition pname :: "payload \<Rightarrow> bytes" where
  "pname p = cstr (property_name p)"

definition pval :: "payload \<Rightarrow> bytes" where
  "pval p = cstr (property_contants p)"

text \<open>The loops run from 0 to \<open>Payload_len\<close> and to \<open>subPayload_len\<close> inclusive.\<close>

definition rx_props :: "client \<Rightarrow> payload list option" where
  "rx_props c = slice (Payload (Rx_Msg (rxs c))) 0 (unat (Payload_len (Rx_Msg (rxs c))) + 1)"

definition rx_first :: "nat \<Rightarrow> client \<Rightarrow> payload option" where
  "rx_first i c = rd (Payload (Rx_Msg (rxs c))) i"

definition rx_subs :: "client \<Rightarrow> payload \<Rightarrow> payload list option" where
  "rx_subs c p = do {
     d \<leftarrow> sub_Payload p;
     ps \<leftarrow> rd (rx_levels (rxs c)) (d - 1);
     slice ps 0 (unat (subPayload_len p) + 1)
   }"

fun each :: "('a \<Rightarrow> 'b \<Rightarrow> 'b option) \<Rightarrow> 'a list \<Rightarrow> 'b \<Rightarrow> 'b option" where
  "each f [] s = Some s"
| "each f (x # xs) s = do {
     s \<leftarrow> f x s;
     each f xs s
   }"

section \<open>Authorisation\<close>

definition auth_info :: "payload \<Rightarrow> client \<Rightarrow> client option" where
  "auth_info p c =
     (if pname p = str_bytes ''status''
      then Some (if pval p = str_bytes ''Accepted'' then c\<lparr>bReqMemberFlg := True\<rparr>
                 else c\<lparr>ses := (ses c)\<lparr>app_order := APP_ORDER_AUTH_METHOD\<rparr>, card_auth := CARD_AUTH_FAILD\<rparr>)
      else if pname p = str_bytes ''parentIdTag''
      then do {
        pid \<leftarrow> blit (parentId (ses c)) 0 (pval p @ [0]);
        Some (c\<lparr>ses := (ses c)\<lparr>parentId := pid\<rparr>\<rparr>)
      }
      else Some c)"

definition DataProcCmd_Auth :: "client \<Rightarrow> client option" where
  "DataProcCmd_Auth c = do {
     p \<leftarrow> rx_first 0 c;
     c \<leftarrow> (if pname p = str_bytes ''idTagInfo''
           then do {
             ps \<leftarrow> rx_subs c p;
             each auth_info ps c
           }
           else Some c);
     Some (c\<lparr>ses := (ses c)\<lparr>bReqAuthNo := 0\<rparr>\<rparr>)
   }"

section \<open>Start-up and heartbeat\<close>

text \<open>The loop over the connectors of an accepted boot notification.\<close>

fun boot_connectors :: "nat list \<Rightarrow> client \<Rightarrow> client option" where
  "boot_connectors [] c = Some c"
| "boot_connectors (i # is) c = do {
     c \<leftarrow> (if bit (chargingstatus (ses c)) i
           then do {
             c \<leftarrow> set_cp CP_STATUS_CODE_AVAIL i c;
             if 0 < i \<and> cpStatChk c then set_cp CP_STATUS_CODE_PREPARE i c else Some c
           }
           else set_cp CP_STATUS_CODE_UNAVAIL i c);
     boot_connectors is (if i = MAX_CONECTOR_ID then c\<lparr>bChargerCostCheck := 1\<rparr> else c)
   }"

fun set_both :: "CP_STATUS_CODE \<Rightarrow> nat list \<Rightarrow> client \<Rightarrow> client option" where
  "set_both code [] c = Some c"
| "set_both code (i # is) c = do {
     c \<leftarrow> set_cp code i c;
     pre \<leftarrow> wr (bPreCpStat c) i code;
     set_both code is (c\<lparr>bPreCpStat := pre\<rparr>)
   }"

definition boot_status :: "bytes \<Rightarrow> client \<Rightarrow> client option" where
  "boot_status v c =
     (if v = str_bytes ''Accepted''
      then do {
        st \<leftarrow> GetCpStatus 0 c;
        if cp_status_no st \<le> cp_status_no CP_STATUS_CODE_PEND then boot_connectors [0, 1] (c\<lparr>connect_status := True\<rparr>) else Some c
      }
      else if v = str_bytes ''Rejected'' then set_both CP_STATUS_CODE_NONE [0, 1] c
      else set_both CP_STATUS_CODE_PEND [0, 1] c)"

definition boot_prop :: "ocpp_env \<Rightarrow> payload \<Rightarrow> client \<Rightarrow> client option" where
  "boot_prop env p c =
     (if pname p = str_bytes ''interval''
      then do {
        k \<leftarrow> rd (CfgKeyVal c) 5;
        n \<leftarrow> String2Integer (property_contants p);
        let v = (ucast n :: u32);
        Some (c\<lparr>CfgKeyVal := (CfgKeyVal c)[5 := k\<lparr>CfgKeyDataInt := if v = 0 then 50 else v\<rparr>]\<rparr>)
      }
      else if pname p = str_bytes ''status'' then boot_status (pval p) c
      else if pname p = str_bytes ''currentTime''
      then do {
        t \<leftarrow> ts_tm 1 (property_contants p);
        Some (TsctCheckNetTimeSet env (c\<lparr>tNetTime := t\<rparr>))
      }
      else Some c)"

definition DataProcCmd_Boot :: "ocpp_env \<Rightarrow> client \<Rightarrow> client option" where
  "DataProcCmd_Boot env c = do {
     ps \<leftarrow> rx_props c;
     each (boot_prop env) ps c
   }"

definition DataProcCmd_HB :: "ocpp_env \<Rightarrow> client \<Rightarrow> client option" where
  "DataProcCmd_HB env c = do {
     p \<leftarrow> rx_first 0 c;
     c \<leftarrow> (if pname p = str_bytes ''currentTime''
           then do {
             t \<leftarrow> ts_tm 1 (property_contants p);
             Some (if tm_min t \<noteq> tm_min (e_tm env) then TsctCheckNetTimeSet env (c\<lparr>tNetTime := t\<rparr>) else c)
           }
           else Some c);
     Some (c\<lparr>OCPP_cpSts_flg := True\<rparr>)
   }"

section \<open>Transactions, status and meter values\<close>

definition DataProcCmd_MeterVal :: "client \<Rightarrow> client" where
  "DataProcCmd_MeterVal c = Reset_MeterVal_Q c"

text \<open>\<open>strtoull\<close> of the C library for a base from 2 to 36, and for the empty string with base 0; other bases are not
  defined by the standard.\<close>

definition digit_val :: "u8 \<Rightarrow> nat" where
  "digit_val ch =
     (if 0x30 \<le> ch \<and> ch \<le> 0x39 then unat ch - 0x30
      else if 0x41 \<le> ch \<and> ch \<le> 0x5A then unat ch - 0x41 + 10
      else if 0x61 \<le> ch \<and> ch \<le> 0x7A then unat ch - 0x61 + 10 else 36)"

fun str_digits :: "nat \<Rightarrow> bytes \<Rightarrow> nat \<Rightarrow> nat" where
  "str_digits base [] acc = acc"
| "str_digits base (ch # cs) acc = (if digit_val ch < base then str_digits base cs (acc * base + digit_val ch) else acc)"

definition is_space :: "u8 \<Rightarrow> bool" where
  "is_space ch \<longleftrightarrow> ch = 0x20 \<or> 0x09 \<le> ch \<and> ch \<le> 0x0D"

definition hex_prefix :: "bytes \<Rightarrow> bool" where
  "hex_prefix s = (case s of z # x # d # _ \<Rightarrow> z = 0x30 \<and> (x = 0x78 \<or> x = 0x58) \<and> digit_val d < 16 | _ \<Rightarrow> False)"

definition strtoull :: "bytes \<Rightarrow> nat \<Rightarrow> u64 option" where
  "strtoull str base =
     (if base = 0 \<and> str = [] then Some 0
      else if base < 2 \<or> 36 < base then None
      else let s = dropWhile is_space str;
               neg = (s \<noteq> [] \<and> hd s = 0x2D);
               s = (if s \<noteq> [] \<and> (hd s = 0x2D \<or> hd s = 0x2B) then tl s else s);
               s = (if base = 16 \<and> hex_prefix s then drop 2 s else s);
               v = str_digits base s 0
           in Some (if 2 ^ 64 \<le> v then -1 else if neg then - word_of_nat v else word_of_nat v))"

definition startts_info :: "payload \<Rightarrow> client \<Rightarrow> client option" where
  "startts_info p c =
     (if pname p = str_bytes ''status'' then Some (c\<lparr>faultChargFlg := pval p \<noteq> str_bytes ''Accepted''\<rparr>) else Some c)"

text \<open>The base of the conversion is the length of the string.\<close>

definition startts_prop :: "ocpp_env \<Rightarrow> payload \<Rightarrow> client \<Rightarrow> client option" where
  "startts_prop env p c =
     (if pname p = str_bytes ''idTagInfo''
      then do {
        ps \<leftarrow> rx_subs c p;
        each startts_info ps c
      }
      else if pname p = str_bytes ''transactionId''
      then do {
        n \<leftarrow> strtoull (pval p) (length (pval p));
        tr \<leftarrow> wr (bTrId (ses c)) (e_channel env + 1) n;
        Some (c\<lparr>ses := (ses c)\<lparr>bTrId := tr\<rparr>\<rparr>)
      }
      else Some c)"

definition DataProcCmd_StartTs :: "ocpp_env \<Rightarrow> client \<Rightarrow> client option" where
  "DataProcCmd_StartTs env c = do {
     ps \<leftarrow> rx_props c;
     each (startts_prop env) ps (c\<lparr>reqStartTsFlg := False\<rparr>)
   }"

definition DataProcCmd_Stat :: "client \<Rightarrow> client option" where
  "DataProcCmd_Stat c = do {
     p \<leftarrow> rd (tx_payload (Call_Tx_Msg c)) 0;
     n \<leftarrow> String2Integer (tp_contents p);
     let i = unat (ucast n :: u8);
     st \<leftarrow> GetCpStatus i c;
     pre \<leftarrow> wr (bPreCpStat c) i st;
     Some (c\<lparr>bPreCpStat := pre, bChargerCostCheck := if bChargerCostCheck c = 1 then 2 else bChargerCostCheck c\<rparr>)
   }"

definition DataProcCmd_StopTs :: "ocpp_env \<Rightarrow> client \<Rightarrow> client option" where
  "DataProcCmd_StopTs env c = do {
     let ch = e_channel env + 1;
     let c = Reset_MeterVal_Q c;
     st \<leftarrow> GetCpStatus ch c;
     c \<leftarrow> (if bit (chargingstatus (ses c)) (MAX_CONECTOR_ID + 1) \<and> StopTs_Reason (ses c) = STOP_REASON_POWER
           then set_cp CP_STATUS_CODE_AVAIL ch c
           else if st = CP_STATUS_CODE_AVAIL then Some c
           else set_cp CP_STATUS_CODE_FNISH ch c);
     Some (c\<lparr>bReqStopTsFlg := False,
       ses := (ses c)\<lparr>chargingstatus := unset_bit (MAX_CONECTOR_ID + 1) (chargingstatus (ses c)), charge_comp_status := END_NONE\<rparr>,
       bConfigSaveFlg := True, bReqChargeAmtFlg := True\<rparr>)
   }"

section \<open>Data transfers\<close>

text \<open>\<open>strstr\<close>: the position of the first occurrence in a C string.\<close>

fun find_at :: "bytes \<Rightarrow> bytes \<Rightarrow> nat \<Rightarrow> nat option" where
  "find_at key [] i = (if key = [] then Some i else None)"
| "find_at key (ch # cs) i = (if take (length key) (ch # cs) = key then Some i else find_at key cs (i + 1))"

definition strstr :: "bytes \<Rightarrow> bytes \<Rightarrow> nat option" where
  "strstr str key = find_at key (cstr str) 0"

text \<open>\<open>atoi\<close> of the C library; the result has to fit an \<open>int\<close>.\<close>

definition atoi :: "bytes \<Rightarrow> int option" where
  "atoi str =
     (let s = dropWhile is_space str;
          neg = (s \<noteq> [] \<and> hd s = 0x2D);
          s = (if s \<noteq> [] \<and> (hd s = 0x2D \<or> hd s = 0x2B) then tl s else s);
          v = int (str_digits 10 s 0); v = (if neg then - v else v)
      in if - (2 ^ 31) \<le> v \<and> v < 2 ^ 31 then Some v else None)"

text \<open>\<open>strncpy\<close> of \<open>n\<close> characters from the position \<open>i\<close>: the characters before the NUL.\<close>

definition strncpy_from :: "bytes \<Rightarrow> nat \<Rightarrow> nat \<Rightarrow> bytes option" where
  "strncpy_from str i n =
     (let b = take n (drop i str) in if length b = n \<or> 0 \<in> set b then Some (cstr b) else None)"

text \<open>The value of a key in the escaped text of a data transfer: \<open>n\<close> characters from the offset \<open>off\<close> behind the start
  of the key are copied, up to the character before the next quotation mark.  A missing key, a missing quotation mark or
  one right at the start are pointer arithmetic on NULL or a copy of \<open>SIZE_MAX\<close> characters.\<close>

definition value_until_quote :: "bytes \<Rightarrow> bytes option" where
  "value_until_quote tmp =
     (case find_at [quote] tmp 0 of None \<Rightarrow> None | Some 0 \<Rightarrow> None | Some (Suc n) \<Rightarrow> Some (cstr (take n tmp)))"

definition transfer_value :: "bytes \<Rightarrow> string \<Rightarrow> nat \<Rightarrow> nat \<Rightarrow> bytes option" where
  "transfer_value d key off n = do {
     i \<leftarrow> strstr d (str_bytes key);
     tmp \<leftarrow> strncpy_from d (i + off) n;
     value_until_quote tmp
   }"

text \<open>The member type and price.  The second \<open>strncpy\<close> of the status takes its size from the position in the message and
  pads an array of 10 characters with zeros up to there.\<close>

definition transfer_member :: "bytes \<Rightarrow> client \<Rightarrow> client option" where
  "transfer_member d c = do {
     n \<leftarrow> strstr d (str_bytes ''status'');
     tmp \<leftarrow> strncpy_from d (n + 9) 8;
     st \<leftarrow> (if n = 0 \<or> 10 < n - 1 then None else Some (take (n - 1) tmp));
     if st = str_bytes ''Accepted''
     then do {
       m \<leftarrow> transfer_value d ''mbrType'' 12 10;
       p \<leftarrow> transfer_value d ''untpc'' 10 8;
       Some (c\<lparr>member_type :=
           (if m = str_bytes ''member'' then MEM_MEBER else if m = str_bytes ''roam'' then MEM_ROAM
            else if m = str_bytes ''guest'' then MEM_GUEST else if m = str_bytes ''vip'' then MEM_VIP else MEM_NON),
         price_text := p, card_auth := CARD_AUTH_OK\<rparr>)
     }
     else Some c
   }"

definition transfer_amounts :: "bytes \<Rightarrow> client \<Rightarrow> client option" where
  "transfer_amounts d c = do {
     t \<leftarrow> transfer_value d ''finalAmt'' 13 8;
     f \<leftarrow> atoi t;
     t \<leftarrow> transfer_value d ''billAmt'' 12 8;
     b \<leftarrow> atoi t;
     t \<leftarrow> transfer_value d ''usedPoint'' 14 15;
     u \<leftarrow> atoi t;
     t \<leftarrow> transfer_value d ''remainPoint'' 16 15;
     r \<leftarrow> atoi t;
     Some (c\<lparr>finalAmt := word_of_int f, billAmt := word_of_int b, usedPoint := word_of_int u, remainPoint := word_of_int r,
       chargeAmt_Check := True\<rparr>)
   }"

definition transfer_dispatch :: "bytes \<Rightarrow> client \<Rightarrow> client option" where
  "transfer_dispatch d c =
     (case strstr d (str_bytes ''messageId'') of
        None \<Rightarrow> Some c
      | Some n \<Rightarrow> do {
          tmp \<leftarrow> slice d (n + 14) 12;
          mid \<leftarrow> value_until_quote (cstr tmp);
          if mid = str_bytes ''j1''
          then do {
            p \<leftarrow> transfer_value d ''unitPrice'' 14 8;
            Some (c\<lparr>price_text := p\<rparr>)
          }
          else if mid = str_bytes ''mbrUntpc'' then transfer_member d c
          else if mid = str_bytes ''chargeAmt'' then transfer_amounts d c
          else Some c
        })"

definition DataProcCmd_DataTransCp :: "client \<Rightarrow> client option" where
  "DataProcCmd_DataTransCp c = do {
     c \<leftarrow> transfer_dispatch (DATATRANS_data (rxs c)) c;
     Some (c\<lparr>rxs := (rxs c)\<lparr>DATATRANS_data := replicate 1024 0\<rparr>\<rparr>)
   }"

end
