(* ===== verification/Ocpp_Cs.thy ===== *)
theory Ocpp_Cs
  imports Ocpp_Req Ocpp_Rsp
begin

text \<open>
  The handlers of the server's requests (\<open>DataProcCmd_*\<close> of \<open>src/project/tsct2007a/ocpp_cmd.c\<close> that
  \<open>Rx_Call_DataProc\<close> calls); each fills \<open>Tx_Msg\<close> with the response.
\<close>

section \<open>Responses\<close>

datatype RES_TYPE = RES_ACCEPT | RES_PENDING | RES_REJECTED | RES_REBOOT | RES_NOTSUPPT | RES_SCHEDULED

definition res_text :: "RES_TYPE \<Rightarrow> string" where
  "res_text ret = (case ret of
     RES_NOTSUPPT \<Rightarrow> ''NotSupported'' | RES_REJECTED \<Rightarrow> ''Rejected'' | RES_SCHEDULED \<Rightarrow> ''Scheduled'' | _ \<Rightarrow> ''Accepted'')"

definition tx_result :: "nat \<Rightarrow> client \<Rightarrow> client" where
  "tx_result len c = c\<lparr>Tx_Msg := (Tx_Msg c)\<lparr>tx_type := 3, tx_id_char := UniqueID_Char (Rx_Msg (rxs c)), tx_len := w8 len\<rparr>\<rparr>"

definition MakeCallRes :: "RES_TYPE \<Rightarrow> client \<Rightarrow> client option" where
  "MakeCallRes ret c = tx_fill 0 [p_str ''status'' (str_bytes (res_text ret))] (tx_result 1 c)"

section \<open>Availability\<close>

text \<open>The local variables \<open>ret1\<close>, \<open>ret2\<close>, \<open>tmp_cntrId\<close> and \<open>bSetVal\<close>; \<open>None\<close> while they have no value.  \<open>ret1\<close> and
  \<open>ret2\<close> are true for a rejection.\<close>

record avail =
  ret1 :: "bool option"
  ret2 :: "bool option"
  tmp_cntrId :: nat
  bSetVal :: bool

definition avail_prop :: "payload \<Rightarrow> avail \<Rightarrow> avail option" where
  "avail_prop p a =
     (if pname p = str_bytes ''connectorId''
      then do {
        n \<leftarrow> String2Integer (property_contants p);
        let i = unat (ucast n :: u8);
        Some (a\<lparr>tmp_cntrId := i, ret1 := Some (MAX_CONECTOR_ID < i)\<rparr>)
      }
      else if pname p = str_bytes ''type''
      then Some (if pval p = str_bytes ''Inoperative'' then a\<lparr>ret2 := Some False, bSetVal := False\<rparr>
                 else if pval p = str_bytes ''Operative'' then a\<lparr>ret2 := Some False, bSetVal := True\<rparr>
                 else a\<lparr>ret2 := Some True\<rparr>)
      else Some (a\<lparr>ret2 := Some True\<rparr>))"

definition avail_mark :: "CP_STATUS_CODE \<Rightarrow> nat \<Rightarrow> client \<Rightarrow> client option" where
  "avail_mark code i c = do {
     st \<leftarrow> GetCpStatus i c;
     let c = (if st = code then c\<lparr>bCpStatChgFlg := set_bit i (bCpStatChgFlg c)\<rparr> else c);
     set_cp code i c
   }"

definition avail_on :: "nat \<Rightarrow> client \<Rightarrow> client option" where
  "avail_on i c = do {
     c \<leftarrow> avail_mark CP_STATUS_CODE_AVAIL i c;
     Some (c\<lparr>ses := (ses c)\<lparr>chargingstatus := set_bit i (chargingstatus (ses c))\<rparr>\<rparr>)
   }"

definition avail_off :: "nat \<Rightarrow> client \<Rightarrow> client option" where
  "avail_off i c = do {
     c \<leftarrow> avail_mark CP_STATUS_CODE_UNAVAIL i c;
     Some (c\<lparr>ses := (ses c)\<lparr>chargingstatus := unset_bit i (chargingstatus (ses c))\<rparr>\<rparr>)
   }"

definition avail_set :: "nat \<Rightarrow> bool \<Rightarrow> client \<Rightarrow> client option" where
  "avail_set i b c =
     (if i = 0
      then if b then do { c \<leftarrow> avail_on 0 c; avail_on 1 c }
           else do {
             c \<leftarrow> avail_mark CP_STATUS_CODE_UNAVAIL 0 c;
             c \<leftarrow> avail_mark CP_STATUS_CODE_UNAVAIL 1 c;
             Some (c\<lparr>ses := (ses c)\<lparr>chargingstatus := 0\<rparr>\<rparr>)
           }
      else if b then avail_on i c else avail_off i c)"

text \<open>The second value is read only if the first is no rejection.\<close>

definition DataProcCmd_ChangeAvail :: "client \<Rightarrow> client option" where
  "DataProcCmd_ChangeAvail c = do {
     ps \<leftarrow> rx_props c;
     a \<leftarrow> each avail_prop ps \<lparr>ret1 = None, ret2 = None, tmp_cntrId = 0, bSetVal = False\<rparr>;
     rej1 \<leftarrow> ret1 a;
     rej \<leftarrow> (if rej1 then Some True else ret2 a);
     let rej = (rej \<or> app_order (ses c) \<noteq> APP_ORDER_WAIT);
     c \<leftarrow> (if rej then Some c else avail_set (tmp_cntrId a) (bSetVal a) c);
     MakeCallRes (if rej then RES_REJECTED else RES_ACCEPT) (c\<lparr>bConfigSaveFlg := True\<rparr>)
   }"

section \<open>Configuration\<close>

definition cfg_put :: "nat \<Rightarrow> u32 \<Rightarrow> client \<Rightarrow> client option" where
  "cfg_put i v c = do {
     k \<leftarrow> rd (CfgKeyVal c) i;
     Some (c\<lparr>CfgKeyVal := (CfgKeyVal c)[i := k\<lparr>CfgKeyDataInt := v\<rparr>]\<rparr>)
   }"

text \<open>The three ways a value is evaluated: a number without a sign, \<open>true\<close> or \<open>false\<close>, and \<open>true\<close> or anything else.\<close>

definition cfg_number :: "nat \<Rightarrow> bytes \<Rightarrow> client \<Rightarrow> (RES_TYPE \<times> client) option" where
  "cfg_number i v c = do {
     ch \<leftarrow> rd v 0;
     if ch = 0x2D then Some (RES_REJECTED, c)
     else do {
       n \<leftarrow> String2Integer v;
       c \<leftarrow> cfg_put i (ucast n) c;
       Some (RES_ACCEPT, c)
     }
   }"

definition cfg_bool :: "nat \<Rightarrow> bytes \<Rightarrow> client \<Rightarrow> (RES_TYPE \<times> client) option" where
  "cfg_bool i v c =
     (if v = str_bytes ''true'' then map_option (Pair RES_ACCEPT) (cfg_put i 1 c)
      else if v = str_bytes ''false'' then map_option (Pair RES_ACCEPT) (cfg_put i 0 c)
      else Some (RES_REJECTED, c))"

definition cfg_flag :: "nat \<Rightarrow> bytes \<Rightarrow> client \<Rightarrow> (RES_TYPE \<times> client) option" where
  "cfg_flag i v c = map_option (Pair RES_ACCEPT) (cfg_put i (if v = str_bytes ''true'' then 1 else 0) c)"

definition change_key :: "bytes \<Rightarrow> payload \<Rightarrow> client \<Rightarrow> (RES_TYPE \<times> client) option" where
  "change_key key p c =
     (if key = str_bytes ''MeterValueSampleInterval'' then cfg_number 10 (property_contants p) c
      else if key = str_bytes ''ClockAlignedDataInterval'' then cfg_number 1 (property_contants p) c
      else if key = str_bytes ''LocalPreAuthorize'' then cfg_bool 7 (pval p) c
      else if key = str_bytes ''AuthorizationCacheEnabled''
      then Some (if pval p = str_bytes ''true'' then RES_NOTSUPPT else RES_REJECTED, c)
      else if key = str_bytes ''ConnectionTimeOut'' then cfg_number 2 (property_contants p) c
      else if key = str_bytes ''AuthorizeRemoteTxRequests'' then cfg_flag 0 (pval p) c
      else if key = str_bytes ''UnlockConnectorOnEVSideDisconnect'' then cfg_flag 20 (pval p) c
      else if key = str_bytes ''StopTransactionOnEVSideDisconnect'' then cfg_flag 13 (pval p) c
      else if key = str_bytes ''MinimumStatusDuration'' then Some (RES_NOTSUPPT, c)
      else if key = str_bytes ''LocalAuthorizeOffline'' then cfg_bool 6 (pval p) c
      else if key = str_bytes ''LocalAuthListEnabled''
      then Some (if pval p = str_bytes ''true'' \<or> pval p = str_bytes ''false'' then RES_ACCEPT else RES_REJECTED, c)
      else if key = str_bytes ''AllowOfflineTxForUnknownId'' then cfg_bool 23 (pval p) c
      else if key = str_bytes ''StopTransactionOnInvalidId'' then cfg_bool 14 (pval p) c
      else Some (RES_NOTSUPPT, c))"

definition DataProcCmd_ChangeConfig :: "client \<Rightarrow> client option" where
  "DataProcCmd_ChangeConfig c = do {
     p0 \<leftarrow> rx_first 0 c;
     p1 \<leftarrow> rx_first 1 c;
     (ret, c) \<leftarrow> (if pname p0 = str_bytes ''key'' \<and> pname p1 = str_bytes ''value'' then change_key (pval p0) p1 c
       else Some (RES_REJECTED, c));
     MakeCallRes ret c
   }"

definition CheckCfgKey :: "TSCT_CFG_KEY \<Rightarrow> string" where
  "CheckCfgKey k = (if CfgKeyRw k then ''true'' else ''false'')"

definition WriteCfgKey :: "TSCT_CFG_KEY \<Rightarrow> bytes option" where
  "WriteCfgKey k = do {
     v \<leftarrow> (case CfgKeyType k of
         TYPE_CODE_BOOL \<Rightarrow> Some (str_bytes (if CfgKeyDataInt k \<noteq> 0 then ''true'' else ''false''))
       | TYPE_CODE_INT \<Rightarrow> Some (dec_nat (unat (CfgKeyDataInt k)))
       | TYPE_CODE_STR \<Rightarrow> (if length (CfgKeyDataCha k) + 2 < 60 then Some (str_bytes (CfgKeyDataCha k)) else None)
       | _ \<Rightarrow> None);
     Some (str_bytes (''{\"key\":\"'' @ CfgKeyName k @ ''\",\"readonly\":'' @ CheckCfgKey k @ '',\"value\":\"'') @ v @ str_bytes ''\"}'')
   }"

definition cfg_element :: "bytes \<Rightarrow> tx_prop" where
  "cfg_element b = Tx_prop [] b TYPE_CODE_STR 0 0 []"

fun write_keys :: "TSCT_CFG_KEY list \<Rightarrow> tx_prop list option" where
  "write_keys [] = Some []"
| "write_keys (k # ks) = do {
     b \<leftarrow> WriteCfgKey k;
     ps \<leftarrow> write_keys ks;
     Some (cfg_element b # ps)
   }"

definition find_key :: "bytes \<Rightarrow> TSCT_CFG_KEY list \<Rightarrow> TSCT_CFG_KEY option" where
  "find_key key ks = find (\<lambda>k. key = str_bytes (CfgKeyName k)) ks"

text \<open>The loop over the requested keys; \<open>Inl\<close> is the exit at an unknown key, after which the array counts as empty.\<close>

fun requested_keys :: "TSCT_CFG_KEY list \<Rightarrow> payload list \<Rightarrow> (unit + tx_prop list) option" where
  "requested_keys ks [] = Some (Inr [])"
| "requested_keys ks (p # ps) =
     (case find_key (pval p) ks of
        None \<Rightarrow> Some (Inl ())
      | Some k \<Rightarrow> do {
          b \<leftarrow> WriteCfgKey k;
          r \<leftarrow> requested_keys ks ps;
          Some (map_sum id (Cons (cfg_element b)) r)
        })"

definition put_keys :: "string \<Rightarrow> tx_prop list \<Rightarrow> tx_prop \<Rightarrow> tx_prop" where
  "put_keys n subs p = Tx_prop (str_bytes n) (tp_contents p) TYPE_CODE_ARR (w8 (length subs)) (tp_arr_len p) subs"

definition put_unknown :: "tx_prop \<Rightarrow> tx_prop" where
  "put_unknown p = Tx_prop (str_bytes ''unknownKey'') (str_bytes ''\"Unknow Key\"'') TYPE_CODE_ARR (tp_len p) (tp_arr_len p) (tp_sub p)"

definition DataProcCmd_GetConfig :: "client \<Rightarrow> client option" where
  "DataProcCmd_GetConfig c = do {
     p0 \<leftarrow> rx_first 0 c;
     let c = tx_result 1 c;
     if pname p0 = []
     then do {
       subs \<leftarrow> write_keys (CfgKeyVal c);
       tx_upd 0 (put_keys ''configurationKey'' subs) c
     }
     else if pname p0 = str_bytes ''key''
     then do {
       ps \<leftarrow> rx_subs c p0;
       r \<leftarrow> requested_keys (CfgKeyVal c) ps;
       case r of
         Inr subs \<Rightarrow> tx_upd 0 (put_keys ''configurationKey'' subs) c
       | Inl _ \<Rightarrow> tx_upd 0 (\<lambda>p. put_unknown (put_keys ''unknownKey'' [] p)) c
     }
     else tx_upd 0 put_unknown c
   }"

section \<open>Local lists, diagnostics and updates\<close>

definition DataProcCmd_ClearCache :: "client \<Rightarrow> client option" where
  "DataProcCmd_ClearCache c = MakeCallRes RES_REJECTED c"

definition DataProcCmd_ClearChargeProf :: "client \<Rightarrow> client option" where
  "DataProcCmd_ClearChargeProf c = MakeCallRes RES_ACCEPT c"

definition DataProcCmd_SenLocalList :: "client \<Rightarrow> client option" where
  "DataProcCmd_SenLocalList c = MakeCallRes RES_NOTSUPPT c"

definition DataProcCmd_GetLocalListVer :: "client \<Rightarrow> client option" where
  "DataProcCmd_GetLocalListVer c = tx_fill 0 [p_int ''listVersion'' (str_bytes ''-1'')] (tx_result 1 c)"

text \<open>The whole array of the value is copied over the shorter destination.\<close>

definition diag_prop :: "payload \<Rightarrow> client \<Rightarrow> client option" where
  "diag_prop p c =
     (if pname p = str_bytes ''location''
      then do {
        u \<leftarrow> blit (diagLogUrl c) 0 (property_contants p);
        Some (c\<lparr>diagLogUrl := u, diagLogReqStep := DIAG_STAT_UPLOAD\<rparr>)
      }
      else Some c)"

definition DataProcCmd_GetDiag :: "client \<Rightarrow> client option" where
  "DataProcCmd_GetDiag c = do {
     ps \<leftarrow> rx_props c;
     c \<leftarrow> each diag_prop ps c;
     tx_fill 0 [p_str ''fileName'' (str_bytes ''Cs0000000002_1.txt'')] (tx_result 1 c)
   }"

definition unlock_prop :: "payload \<Rightarrow> client \<Rightarrow> client option" where
  "unlock_prop p c =
     (if pname p = str_bytes ''connectorId''
      then do {
        u \<leftarrow> blit (diagLogUrl c) 0 (property_contants p);
        _ \<leftarrow> String2Integer (property_contants p);
        Some (c\<lparr>diagLogUrl := u\<rparr>)
      }
      else Some c)"

definition DataProcCmd_UnlockConnect :: "client \<Rightarrow> client option" where
  "DataProcCmd_UnlockConnect c = do {
     ps \<leftarrow> rx_props c;
     c \<leftarrow> each unlock_prop ps c;
     MakeCallRes RES_NOTSUPPT c
   }"

definition update_prop :: "payload \<Rightarrow> client \<Rightarrow> client option" where
  "update_prop p c = do {
     u \<leftarrow> (if pname p = str_bytes ''location'' then blit (fwUpdateUrl c) 0 (property_contants p) else Some (fwUpdateUrl c));
     t \<leftarrow> (if pname p = str_bytes ''retrieveDate'' then blit (fw_Time_Stamp c) 0 (property_contants p) else Some (fw_Time_Stamp c));
     Some (c\<lparr>fwUpdateUrl := u, fw_Time_Stamp := t, updateStep := UPDATE_STEP_CHKDATE\<rparr>)
   }"

definition DataProcCmd_UpdateFw :: "client \<Rightarrow> client option" where
  "DataProcCmd_UpdateFw c = do {
     ps \<leftarrow> rx_props c;
     c \<leftarrow> each update_prop ps c;
     Some (tx_result 0 c)
   }"

section \<open>Remote control\<close>

text \<open>\<open>tmp\<close> is \<open>bIdTagFlg\<close> and \<open>bCntrNo\<close>, an \<open>int\<close>.\<close>

definition rmstart_prop :: "payload \<Rightarrow> bool \<times> int \<times> client \<Rightarrow> (bool \<times> int \<times> client) option" where
  "rmstart_prop p x = (case x of (tag, no, c) \<Rightarrow>
     if pname p = str_bytes ''idTag''
     then do {
       v \<leftarrow> slice (property_contants p) 0 21;
       Some (True, no, c\<lparr>ses := (ses c)\<lparr>card_no := v\<rparr>\<rparr>)
     }
     else if pname p = str_bytes ''connectorId''
     then do {
       n \<leftarrow> String2Integer (property_contants p);
       Some (tag, sint (ucast n :: u32), c)
     }
     else Some x)"

definition DataProcCmd_RmStart :: "client \<Rightarrow> client option" where
  "DataProcCmd_RmStart c = do {
     ps \<leftarrow> rx_props c;
     (tag, no, c) \<leftarrow> each rmstart_prop ps (False, 1, c);
     ok \<leftarrow> (if tag then map_option (\<lambda>st. st \<noteq> CP_STATUS_CODE_CHARGING \<and> 0 < no \<and> app_order (ses c) \<le> APP_ORDER_KAKAO_QR)
              (GetCpStatus (unat (word_of_int no :: u8)) c)
            else Some False);
     if ok then MakeCallRes RES_ACCEPT (c\<lparr>bReqRmtStartTsNo := word_of_int no\<rparr>) else MakeCallRes RES_REJECTED c
   }"

definition DataProcCmd_RmStopTr :: "ocpp_env \<Rightarrow> client \<Rightarrow> client option" where
  "DataProcCmd_RmStopTr env c = do {
     p \<leftarrow> rx_first 0 c;
     if pname p = str_bytes ''transactionId''
     then do {
       n \<leftarrow> String2Integer (property_contants p);
       tr \<leftarrow> rd (bTrId (ses c)) (e_channel env + 1);
       if n = tr
       then do {
         st \<leftarrow> GetCpStatus (e_channel env + 1) c;
         if st = CP_STATUS_CODE_CHARGING \<or> st = CP_STATUS_CODE_SUSPENDEDEV
         then MakeCallRes RES_ACCEPT (c\<lparr>ses := (ses c)\<lparr>bReqRmtStopTSFlg := True\<rparr>\<rparr>)
         else MakeCallRes RES_REJECTED c
       }
       else MakeCallRes RES_REJECTED c
     }
     else MakeCallRes RES_REJECTED c
   }"

definition DataProcCmd_Reset :: "client \<Rightarrow> client option" where
  "DataProcCmd_Reset c = do {
     p \<leftarrow> rx_first 0 c;
     if pname p = str_bytes ''type''
     then if pval p = str_bytes ''Hard'' then MakeCallRes RES_ACCEPT (c\<lparr>bReqResetNo := 2\<rparr>)
          else if pval p = str_bytes ''Soft'' then MakeCallRes RES_ACCEPT (c\<lparr>bReqResetNo := 1\<rparr>)
          else MakeCallRes RES_REJECTED c
     else MakeCallRes RES_REJECTED c
   }"

text \<open>The local variables \<open>tmp_trigStat\<close> and \<open>tmp_trigMsgCntrId\<close>.\<close>

definition trigger_prop :: "payload \<Rightarrow> TRIG_MSG_STAT \<times> u8 \<Rightarrow> (TRIG_MSG_STAT \<times> u8) option" where
  "trigger_prop p x = (case x of (st, no) \<Rightarrow>
     if pname p = str_bytes ''requestedMessage''
     then Some (if pval p = str_bytes ''BootNotification'' then TRIG_MSG_STAT_BOOT
                else if pval p = str_bytes ''DiagnosticsStatusNotification'' then TRIG_MSG_STAT_DIAG
                else if pval p = str_bytes ''FirmwareStatusNotification'' then TRIG_MSG_STAT_FW
                else if pval p = str_bytes ''Heartbeat'' then TRIG_MSG_STAT_HB
                else if pval p = str_bytes ''MeterValues'' then TRIG_MSG_STAT_METER
                else if pval p = str_bytes ''StatusNotification'' then TRIG_MSG_STAT_STAT
                else st, no)
     else if pname p = str_bytes ''connectorId''
     then map_option (\<lambda>n. (st, ucast n)) (String2Integer (property_contants p))
     else Some x)"

definition DataProcCmd_TriggerMsg :: "client \<Rightarrow> client option" where
  "DataProcCmd_TriggerMsg c = do {
     ps \<leftarrow> rx_props c;
     (st, no) \<leftarrow> each trigger_prop ps (TRIG_MSG_STAT_NONE, 0);
     if st = TRIG_MSG_STAT_NONE \<or> (st = TRIG_MSG_STAT_STAT \<or> st = TRIG_MSG_STAT_METER) \<and> MAX_CONECTOR_ID < unat no
     then MakeCallRes RES_REJECTED c
     else MakeCallRes RES_ACCEPT (c\<lparr>triggerMsgStat := st\<rparr>)
   }"

section \<open>Data transfer from the server\<close>

text \<open>The search in the text of the configuration: the step that is reached and the one or two digits.\<close>

fun cfg_count :: "nat \<Rightarrow> bytes \<Rightarrow> nat \<times> u8 \<times> u8" where
  "cfg_count st [] = (st, 0, 0)"
| "cfg_count st (ch # cs) =
     (if st = 0 then cfg_count (if take 9 (ch # cs) = str_bytes ''configCnt'' then 1 else 0) cs
      else if st = 1 then cfg_count (if ch = ch_colon then 2 else 1) cs
      else if 0x30 < ch \<and> ch \<le> 0x39
      then (case cs of
              d # _ \<Rightarrow> if 0x30 \<le> d \<and> d \<le> 0x39 then (4, ch, d) else (3, ch, 0)
            | [] \<Rightarrow> (3, ch, 0))
      else cfg_count st cs)"

text \<open>The local variables \<open>cmdType\<close> and \<open>tmp_str256\<close>, which is not initialised: the value is copied without its NUL.\<close>

definition transcs_prop :: "payload \<Rightarrow> bool \<times> bytes \<Rightarrow> (bool \<times> bytes) option" where
  "transcs_prop p x = (case x of (cmd, tmp_str256) \<Rightarrow>
     if pname p = str_bytes ''vendorId'' then Some x
     else if pname p = str_bytes ''messageId''
     then Some (cmd \<or> pval p = str_bytes ''BatteryInfoConfiguration'', tmp_str256)
     else if pname p = str_bytes ''data'' then map_option (Pair cmd) (blit tmp_str256 0 (pval p))
     else Some x)"

definition DataProcCmd_DataTransCs :: "bytes \<Rightarrow> client \<Rightarrow> client option" where
  "DataProcCmd_DataTransCs garbage c = do {
     ps \<leftarrow> rx_props c;
     (cmd, s) \<leftarrow> each transcs_prop ps (False, garbage);
     if cmd
     then if 0 \<notin> set s then None
       else (let (st, d1, d2) = cfg_count 0 (cstr s);
                 n = (if st = 3 then Some (d1 - 0x30) else if st = 4 then Some ((d1 - 0x30) * 10 + (d2 - 0x30)) else None);
                 cnt = (case n of Some v \<Rightarrow> v | None \<Rightarrow> batInfo_cfgCnt c);
                 ret = (if n = None then RES_REJECTED else RES_ACCEPT)
             in if 20 < cnt then MakeCallRes RES_REJECTED (c\<lparr>batInfo_cfgCnt := 1\<rparr>)
                else MakeCallRes ret (c\<lparr>batInfo_cfgCnt := cnt\<rparr>))
     else MakeCallRes RES_REJECTED c
   }"

end
