(* ===== verification/Ocpp_Write.thy ===== *)
theory Ocpp_Write
  imports Ocpp_Req
begin

text \<open>
  The writer of OCPP messages: \<open>Make_Ocpp_Msg\<close> and its helpers (\<open>src/project/tsct2007a/tsctwsclient.c\<close>).  The text is
  built in \<open>curl_ws_send_buf\<close> of 64 KiB; \<open>None\<close> is a text that does not fit, a property outside an array or an unknown
  action.  \<open>bat\<close> is the array \<open>subPayloadBat\<close> of names and values.
\<close>

section \<open>Values\<close>

definition convStr2Sstr :: "bytes \<Rightarrow> bytes" where
  "convStr2Sstr s = [ch_backslash, quote] @ s @ [ch_backslash, quote]"

definition convStr2Str :: "bytes \<Rightarrow> bytes" where
  "convStr2Str s = [quote] @ s @ [quote]"

definition convInt2Int :: "int \<Rightarrow> bytes" where
  "convInt2Int v = fmt_d v"

definition convLLong2Str :: "u64 \<Rightarrow> bytes" where
  "convLLong2Str v = [quote] @ dec_nat (unat v) @ [quote]"

text \<open>A name or a value is escaped inside an object that is sent as a string.\<close>

definition conv_str :: "bool \<Rightarrow> bytes \<Rightarrow> bytes" where
  "conv_str esc s = (if esc then convStr2Sstr s else convStr2Str s)"

section \<open>Loops\<close>

text \<open>A loop over \<open>n\<close> indices from \<open>i\<close> on that writes a comma before every element but the one with index 0; \<open>b\<close> is
  \<open>batIdx\<close>.\<close>

fun comma_loop :: "(nat \<Rightarrow> u16 \<Rightarrow> (bytes \<times> u16) option) \<Rightarrow> nat \<Rightarrow> nat \<Rightarrow> u16 \<Rightarrow> (bytes \<times> u16) option" where
  "comma_loop f i 0 b = Some ([], b)"
| "comma_loop f i (Suc n) b = do {
     (x, b) \<leftarrow> f i b;
     (y, b) \<leftarrow> comma_loop f (Suc i) n b;
     Some ((if i = 0 then [] else [ch_comma]) @ x @ y, b)
   }"

definition bat_pair :: "(bytes \<times> bytes) list \<Rightarrow> bool \<Rightarrow> nat \<Rightarrow> u16 \<Rightarrow> (bytes \<times> u16) option" where
  "bat_pair bat esc i b = do {
     (n, v) \<leftarrow> rd bat (unat b);
     Some (conv_str esc n @ [ch_colon] @ conv_str esc v, b + 1)
   }"

definition bat_object :: "(bytes \<times> bytes) list \<Rightarrow> bool \<Rightarrow> nat \<Rightarrow> nat \<Rightarrow> u16 \<Rightarrow> (bytes \<times> u16) option" where
  "bat_object bat esc len i b = do {
     (x, b) \<leftarrow> comma_loop (bat_pair bat esc) 0 len b;
     Some ([ch_lbrace] @ x @ [ch_rbrace], b)
   }"

definition sub3 :: "(bytes \<times> bytes) list \<Rightarrow> bool \<Rightarrow> tx_prop \<Rightarrow> nat \<Rightarrow> nat \<Rightarrow> u16 \<Rightarrow> (bytes \<times> u16) option" where
  "sub3 bat esc subObj base i b = do {
     p \<leftarrow> rd (tp_sub subObj) (i + base);
     (v, b) \<leftarrow> (if tp_type p = TYPE_CODE_LITE
       then do {
         (x, b) \<leftarrow> comma_loop (bat_object bat esc (unat (tp_len p))) 0 (unat (tp_arr_len p)) b;
         Some ([ch_lbracket] @ x @ [ch_rbracket], b)
       }
       else Some (conv_str esc (tp_contents p), b));
     Some (conv_str esc (tp_name p) @ [ch_colon] @ v, b)
   }"

definition sub2 :: "(bytes \<times> bytes) list \<Rightarrow> bool \<Rightarrow> tx_prop \<Rightarrow> nat \<Rightarrow> u16 \<Rightarrow> (bytes \<times> u16) option" where
  "sub2 bat esc subObj i b = do {
     (x, b) \<leftarrow> comma_loop (sub3 bat esc subObj (unat (tp_len subObj) * i)) 0 (unat (tp_len subObj)) b;
     Some ([ch_lbrace] @ x @ [ch_rbrace], b)
   }"

definition sub1 :: "(bytes \<times> bytes) list \<Rightarrow> bool \<Rightarrow> tx_prop \<Rightarrow> nat \<Rightarrow> u16 \<Rightarrow> (bytes \<times> u16) option" where
  "sub1 bat esc mainObj i b = do {
     p \<leftarrow> rd (tp_sub mainObj) i;
     (v, b) \<leftarrow> (if tp_type p = TYPE_CODE_ARR
       then do {
         (x, b) \<leftarrow> comma_loop (sub2 bat esc p) 0 (unat (tp_arr_len p)) b;
         Some ([ch_lbracket] @ x @ [ch_rbracket], b)
       }
       else Some (conv_str esc (tp_contents p), b));
     Some (conv_str esc (tp_name p) @ [ch_colon] @ v, b)
   }"

definition array_element :: "tx_prop \<Rightarrow> nat \<Rightarrow> u16 \<Rightarrow> (bytes \<times> u16) option" where
  "array_element mainObj i b = do {
     p \<leftarrow> rd (tp_sub mainObj) i;
     Some (tp_contents p, b)
   }"

section \<open>A message\<close>

definition main_prop :: "(bytes \<times> bytes) list \<Rightarrow> tx_prop list \<Rightarrow> nat \<Rightarrow> u16 \<Rightarrow> (bytes \<times> u16) option" where
  "main_prop bat props i b = do {
     p \<leftarrow> rd props i;
     (v, b) \<leftarrow> (if tp_type p = TYPE_CODE_INT then Some (tp_contents p, b)
       else if tp_type p = TYPE_CODE_ARR
       then do {
         (x, b) \<leftarrow> comma_loop (array_element p) 0 (unat (tp_len p)) b;
         Some ([ch_lbracket] @ x @ [ch_rbracket], b)
       }
       else if 0 < tp_len p
       then (let esc = (tp_type p = TYPE_CODE_OBJ_STR) in do {
         (x, b) \<leftarrow> comma_loop (sub1 bat esc p) 0 (unat (tp_len p)) b;
         Some ((if esc then [quote, ch_lbrace] else [ch_lbrace]) @ x @ (if esc then [ch_rbrace, quote] else [ch_rbrace]), b)
       })
       else Some (convStr2Str (tp_contents p), b));
     Some (convStr2Str (tp_name p) @ [ch_colon] @ v, b)
   }"

definition msg_head :: "bytes \<Rightarrow> tx_msg \<Rightarrow> bytes" where
  "msg_head rx_id m = [ch_lbracket] @ convInt2Int (uint (tx_type m)) @ [ch_comma] @
     (if tx_type m = 2
      then convLLong2Str (tx_id m) @ [ch_comma] @ convStr2Str (str_bytes (cp_req_msg ! cp_action_no (tx_action m)))
      else if tx_type m = 3 then convStr2Str (cstr rx_id)
      else [])"

text \<open>The arrays that were written count as empty afterwards.\<close>

definition written :: "nat \<Rightarrow> tx_prop list \<Rightarrow> tx_prop list" where
  "written n props =
     map (\<lambda>p. if tp_type p = TYPE_CODE_ARR then Tx_prop (tp_name p) (tp_contents p) (tp_type p) 0 (tp_arr_len p) (tp_sub p) else p)
       (take n props) @ drop n props"

definition Make_Ocpp_Msg :: "(bytes \<times> bytes) list \<Rightarrow> bytes \<Rightarrow> tx_msg \<Rightarrow> (bytes \<times> tx_msg) option" where
  "Make_Ocpp_Msg bat rx_id m = do {
     let n = unat (tx_len m);
     (x, _) \<leftarrow> comma_loop (main_prop bat (tx_payload m)) 0 n 0;
     let b = msg_head rx_id m @ [ch_comma, ch_lbrace] @ x @ [ch_rbrace, ch_rbracket];
     if length b < 65536 then Some (b, m\<lparr>tx_payload := written n (tx_payload m)\<rparr>) else None
   }"

end
