(* ===== verification/Ocpp_Run.thy ===== *)
theory Ocpp_Run
  imports Ocpp_Cs Ocpp_Write
begin

text \<open>
  The two tasks of the OCPP client (\<open>src/project/tsct2007a/tsctwsclient.c\<close>): reception and dispatch of messages
  (\<open>Tsct_Curl_Ws_Recv\<close>), the choice of the next request (\<open>OCPP_CALL_Senario\<close>), transmission, the supervision of the
  connection, and initialisation.  Sockets, the web-socket handshake and the reboot belong to libcurl and to the system:
  their results are arguments (\<open>ok\<close>, \<open>ret\<close>), their calls are acts.
\<close>

datatype ocpp_act =
    Ws_send bytes
  | Ws_connect
  | Config_save
  | Custom_reboot
  | Router_power_check
  | Network_reset

section \<open>Sending\<close>

definition Clear_Rx_Msg_Buff :: "client \<Rightarrow> client" where
  "Clear_Rx_Msg_Buff c = c\<lparr>rxs := (rxs c)\<lparr>Rx_Msg := \<lparr>Msg_type = 0, UniqueID = 0, UniqueID_Char = replicate 70 0, Action_Code = 0,
       Payload_len = 0, Payload = replicate 10 payload_clear\<rparr>, rx_levels := replicate 3 (replicate 30 payload_clear),
     DATATRANS_data := replicate 1024 0\<rparr>\<rparr>"

text \<open>The identifier of the last data transfer is noted for every message that is written while \<open>Tx_Msg\<close> has that action.\<close>

definition Tsct_Curl_Ws_Trans :: "(bytes \<times> bytes) list \<Rightarrow> ocpp_env \<Rightarrow> bool \<Rightarrow> client \<Rightarrow> (client \<times> ocpp_act list) option" where
  "Tsct_Curl_Ws_Trans bat env ok c = do {
     (b, m) \<leftarrow> Make_Ocpp_Msg bat (UniqueID_Char (Rx_Msg (rxs c))) (Tx_Msg c);
     let r = (if tx_action m = CP_REQ_ACTION_CODE_DATATRANS then (rxs c)\<lparr>DATATRANS_UniqueID := tx_id m\<rparr> else rxs c);
     let c = c\<lparr>Tx_Msg := m, rxs := r\<rparr>;
     if \<not> ok then Some ((Clear_Rx_Msg_Buff c)\<lparr>bConnect := False\<rparr>, [])
     else if tx_type m = 2 then Some (c\<lparr>bWaitResFlg := True, tv_res := e_sec env, Call_Tx_Msg := m\<rparr>, [Ws_send b])
     else Some (c, [Ws_send b])
   }"

section \<open>Receiving\<close>

definition Rx_CallRes_DataProc :: "ocpp_env \<Rightarrow> client \<Rightarrow> client option" where
  "Rx_CallRes_DataProc env c =
     (let a = unat (Action_Code (Rx_Msg (rxs c))) in
      if a = 1 then DataProcCmd_Auth c
      else if a = 2 then DataProcCmd_Boot env c
      else if a = 3 then DataProcCmd_DataTransCp c
      else if a = 6 then DataProcCmd_HB env c
      else if a = 7 then Some (DataProcCmd_MeterVal c)
      else if a = 8 then DataProcCmd_StartTs env c
      else if a = 9 then DataProcCmd_Stat c
      else if a = 10 then DataProcCmd_StopTs env c
      else Some c)"

text \<open>The first component is true for an unknown action.  Four known actions have no handler.\<close>

definition Rx_Call_DataProc :: "bytes \<Rightarrow> ocpp_env \<Rightarrow> nat \<Rightarrow> client \<Rightarrow> (bool \<times> client) option" where
  "Rx_Call_DataProc garbage env cmd c =
     (let c = c\<lparr>Tx_Msg := (Tx_Msg c)\<lparr>tx_type := 3\<rparr>\<rparr> in
      if cmd \<le> 1 \<or> cmd = 7 \<or> cmd = 13 \<or> cmd = 16 then Some (False, c)
      else if 19 < cmd then Some (True, c)
      else map_option (Pair False)
       (if cmd = 2 then DataProcCmd_ChangeAvail c
        else if cmd = 3 then DataProcCmd_ChangeConfig c
        else if cmd = 4 then DataProcCmd_ClearCache c
        else if cmd = 5 then DataProcCmd_ClearChargeProf c
        else if cmd = 6 then DataProcCmd_DataTransCs garbage c
        else if cmd = 8 then DataProcCmd_GetConfig c
        else if cmd = 9 then DataProcCmd_GetDiag c
        else if cmd = 10 then DataProcCmd_GetLocalListVer c
        else if cmd = 11 then DataProcCmd_RmStart c
        else if cmd = 12 then DataProcCmd_RmStopTr env c
        else if cmd = 14 then DataProcCmd_Reset c
        else if cmd = 15 then DataProcCmd_SenLocalList c
        else if cmd = 17 then DataProcCmd_TriggerMsg c
        else if cmd = 18 then DataProcCmd_UnlockConnect c
        else DataProcCmd_UpdateFw c))"

text \<open>A result is evaluated if a request waits for it and the identifiers agree.\<close>

definition recv_result :: "ocpp_env \<Rightarrow> client \<Rightarrow> client option" where
  "recv_result env c =
     (if bWaitResFlg c \<and> tx_id (Call_Tx_Msg c) = UniqueID (Rx_Msg (rxs c))
      then Rx_CallRes_DataProc env (c\<lparr>bWaitResFlg := False\<rparr>) else Some c)"

definition recv_dispatch :: "(bytes \<times> bytes) list \<Rightarrow> bytes \<Rightarrow> ocpp_env \<Rightarrow> bool \<Rightarrow> client \<Rightarrow> (client \<times> ocpp_act list) option" where
  "recv_dispatch bat garbage env ok c =
     (let m = Rx_Msg (rxs c); a = unat (Action_Code m) in
      if Msg_type m = 4 then Some (c\<lparr>bConnect := False, ServerCallError := True\<rparr>, [])
      else do {
        let c = c\<lparr>ServerCallError := False\<rparr>;
        st \<leftarrow> GetCpStatus 0 c;
        if st = CP_STATUS_CODE_NONE
        then if Msg_type m = 3 \<and> a = 2 then map_option (\<lambda>c. (c, [])) (recv_result env c)
             else if Msg_type m = 2 \<and> a = 6 then map_option (\<lambda>x. (snd x, [])) (Rx_Call_DataProc garbage env 6 c)
             else Some (c, [])
        else if Msg_type m = 3 then map_option (\<lambda>c. (c, [])) (recv_result env c)
        else if Msg_type m = 2
        then do {
          (err, c) \<leftarrow> Rx_Call_DataProc garbage env a c;
          if err then Some (c, []) else Tsct_Curl_Ws_Trans bat env ok c
        }
        else Some (c, [])
      })"

text \<open>What \<open>curl_ws_recv\<close> returns: nothing yet, an error, or bytes that it has written to the start of the buffer.\<close>

datatype ws_recv = Recv_again | Recv_error | Recv_data bytes

text \<open>\<open>curl_ws_recv\<close> writes no more than the size of the buffer; the byte behind the received ones is set to zero, and a
  message that fills the buffer has none.\<close>

definition Tsct_Curl_Ws_Recv ::
  "(bytes \<times> bytes) list \<Rightarrow> bytes \<Rightarrow> bytes \<Rightarrow> ocpp_env \<Rightarrow> bool \<Rightarrow> ws_recv \<Rightarrow> client \<Rightarrow> (client \<times> ocpp_act list) option" where
  "Tsct_Curl_Ws_Recv bat garbage30 garbage256 env ok ret c =
     (case ret of
        Recv_again \<Rightarrow> Some (c, [])
      | Recv_error \<Rightarrow> Some ((Clear_Rx_Msg_Buff c)\<lparr>bConnect := False\<rparr>, [])
      | Recv_data data \<Rightarrow> do {
          let rlen = length data;
          let c = Clear_Rx_Msg_Buff (c\<lparr>bRecvConnCnt := 0\<rparr>);
          buf \<leftarrow> blit (curl_ws_recv_buf (rxs c)) 0 data;
          buf \<leftarrow> wr buf rlen 0;
          (err, r) \<leftarrow> Parse_Data (w8 (cp_action_no (tx_action (Call_Tx_Msg c)))) garbage30 rlen ((rxs c)\<lparr>curl_ws_recv_buf := buf\<rparr>);
          let c = c\<lparr>rxs := r\<rparr>;
          if err \<noteq> 0 then Some (c, []) else recv_dispatch bat garbage256 env ok c
        })"

definition WSRxThread ::
  "(bytes \<times> bytes) list \<Rightarrow> bytes \<Rightarrow> bytes \<Rightarrow> ocpp_env \<Rightarrow> bool \<Rightarrow> ws_recv \<Rightarrow> client \<Rightarrow> (client \<times> ocpp_act list) option" where
  "WSRxThread bat garbage30 garbage256 env ok ret c =
     (if bConnect c then Tsct_Curl_Ws_Recv bat garbage30 garbage256 env ok ret c else Some (c, []))"

section \<open>The next request\<close>

definition sent :: "client option \<Rightarrow> (client \<times> bool) option" where
  "sent x = map_option (\<lambda>c. (c, True)) x"

text \<open>The first connector whose status is not yet reported.\<close>

fun unreported :: "nat list \<Rightarrow> client \<Rightarrow> nat option option" where
  "unreported [] c = Some None"
| "unreported (i # is) c = do {
     st \<leftarrow> GetCpStatus i c;
     pre \<leftarrow> rd (bPreCpStat c) i;
     if st \<noteq> pre \<or> bit (bCpStatChgFlg c) i then Some (Some i) else unreported is c
   }"

definition send_status :: "ocpp_env \<Rightarrow> nat \<Rightarrow> client \<Rightarrow> client option" where
  "send_status env i c = do {
     c \<leftarrow> MakeDataCmd_Stat env i c;
     Some (c\<lparr>bCpStatChgFlg := unset_bit i (bCpStatChgFlg c)\<rparr>)
   }"

definition send_stop :: "ocpp_env \<Rightarrow> client \<Rightarrow> client option" where
  "send_stop env c = do {
     c \<leftarrow> Add_MeterVal_Q env METER_VAL_TRANS_TYPE (c\<lparr>bReqStopTsFlg := False\<rparr>);
     dt \<leftarrow> GetDateTime (e_tm env);
     w \<leftarrow> eqp_watt_sum (s_eqp_watt (ses c));
     tag \<leftarrow> wr (card_no (ses c)) 16 0;
     MakeDataCmd_StopTs env (c\<lparr>StopTs_Time := dt, ses := (ses c)\<lparr>StopTs_MeterStop := w, StopTs_IdTag := tag\<rparr>\<rparr>)
   }"

text \<open>A message that the server asked for.  A boot notification is not sent.\<close>

definition send_triggered :: "ocpp_env \<Rightarrow> client \<Rightarrow> (client \<times> bool) option" where
  "send_triggered env c =
     (let t = triggerMsgStat c; c = c\<lparr>triggerMsgStat := TRIG_MSG_STAT_NONE\<rparr> in
      case t of
        TRIG_MSG_STAT_DIAG \<Rightarrow> sent (MakeDataCmd_DiagStat env DIAG_STAT_NONE c)
      | TRIG_MSG_STAT_FW \<Rightarrow> sent (MakeDataCmd_FwStat env UPDATE_STEP_NONE c)
      | TRIG_MSG_STAT_HB \<Rightarrow> sent (MakeDataCmd_HB env c)
      | TRIG_MSG_STAT_METER \<Rightarrow> sent (do { c \<leftarrow> Add_MeterVal_Q env METER_VAL_TRIG_TYPE c; MakeDataCmd_MeterVal env c })
      | TRIG_MSG_STAT_STAT \<Rightarrow> sent (MakeDataCmd_Stat env 1 c)
      | _ \<Rightarrow> Some (c, False))"

definition all_available :: "client \<Rightarrow> client" where
  "all_available c = c\<lparr>ses := (ses c)\<lparr>chargingstatus := 3\<rparr>\<rparr>"

text \<open>The step after the report, \<open>None\<close> where nothing is reported.\<close>

definition fw_next :: "UPDATE_STEP \<Rightarrow> UPDATE_STEP option" where
  "fw_next step = (case step of
     UPDATE_STEP_DOWNLOAD \<Rightarrow> Some UPDATE_STEP_DOWNLOADING | UPDATE_STEP_DOWNLOADED \<Rightarrow> Some UPDATE_STEP_INSTAL
   | UPDATE_STEP_DOWNLOADFAIL \<Rightarrow> Some UPDATE_STEP_NONE | UPDATE_STEP_INSTAL \<Rightarrow> Some UPDATE_STEP_NONE
   | UPDATE_STEP_INSTALED \<Rightarrow> Some UPDATE_STEP_NONE | UPDATE_STEP_INSTALFAIL \<Rightarrow> Some UPDATE_STEP_NONE | _ \<Rightarrow> None)"

definition send_fw :: "ocpp_env \<Rightarrow> UPDATE_STEP \<Rightarrow> client \<Rightarrow> client option" where
  "send_fw env nxt c = do {
     let st = updateStep c;
     let c = (if st = UPDATE_STEP_INSTALED \<or> st = UPDATE_STEP_INSTALFAIL \<or> st = UPDATE_STEP_DOWNLOADFAIL then all_available c else c);
     c \<leftarrow> MakeDataCmd_FwStat env st c;
     Some (c\<lparr>updateStep := nxt\<rparr>)
   }"

text \<open>The last part: reports of uploads and updates, the heartbeat and the state of the cabinet.\<close>

definition scenario_reports :: "ocpp_env \<Rightarrow> client \<Rightarrow> (client \<times> bool) option" where
  "scenario_reports env c =
     (if diagLogReqStep c \<noteq> DIAG_STAT_NONE \<and> diagLogReqStep c \<noteq> DIAG_STAT_UPLOAD
      then sent (map_option (\<lambda>c. c\<lparr>diagLogReqStep := DIAG_STAT_NONE\<rparr>) (MakeDataCmd_DiagStat env (diagLogReqStep c) c))
      else case fw_next (updateStep c) of
        Some nxt \<Rightarrow> sent (send_fw env nxt c)
      | None \<Rightarrow> do {
          (due, tv) \<leftarrow> Check_HB_Time env (tv_1 c) c;
          if due then sent (MakeDataCmd_HB env (c\<lparr>tv_1 := e_sec env\<rparr>))
          else let c = c\<lparr>tv_1 := tv\<rparr> in
            if OCPP_cpSts_flg c then sent (MakeDataCmd_DataTrans_cpSts env (c\<lparr>OCPP_cpSts_flg := False\<rparr>))
            else Some (c, False)
        })"

text \<open>The part of a transaction, in the order of the code.\<close>

definition scenario_session :: "ocpp_env \<Rightarrow> client \<Rightarrow> (client \<times> bool) option" where
  "scenario_session env c =
     (if bChargerCostCheck c = 2 then sent (MakeDataCmd_DataTrans_j1 env (c\<lparr>bChargerCostCheck := 0\<rparr>))
      else if bReqAuthNo (ses c) \<noteq> 0 then sent (MakeDataCmd_Auth env c)
      else if bReqMemberFlg c then sent (MakeDataCmd_DataTrans_mbrUntpc env (c\<lparr>bReqMemberFlg := False\<rparr>))
      else if reqStartTsFlg c then sent (MakeDataCmd_StartTs env c)
      else if bReqStopTsFlg c then sent (send_stop env c)
      else if bReqChargeAmtFlg c then sent (MakeDataCmd_DataTrans_chargeAmt env (c\<lparr>bReqChargeAmtFlg := False\<rparr>))
      else if bQREventFlg c = 1 then sent (MakeDataCmd_DataTrans_q1 env (c\<lparr>bQREventFlg := 0\<rparr>))
      else if bQREventFlg c = 2 then sent (MakeDataCmd_DataTrans_q2 env (c\<lparr>bQREventFlg := 0\<rparr>))
      else do {
        (c, ret) \<leftarrow> send_triggered env c;
        if ret then Some (c, True) else scenario_reports env c
      })"

definition OCPP_CALL_Senario :: "ocpp_env \<Rightarrow> client \<Rightarrow> (client \<times> bool) option" where
  "OCPP_CALL_Senario env c =
     (if bWaitResFlg c
      then do {
        (late, tv) \<leftarrow> Check_Resp_Time env (tv_res c) c;
        Some (if late then c\<lparr>tv_res := tv, bConnect := False, bWaitResFlg := False\<rparr> else c\<lparr>tv_res := tv\<rparr>, False)
      }
      else do {
        st \<leftarrow> GetCpStatus 0 c;
        if cp_status_no st \<le> cp_status_no CP_STATUS_CODE_PEND
        then do {
          (due, tv) \<leftarrow> Check_HB_Time env (tv_1 c) c;
          if due then sent (MakeDataCmd_Boot env (c\<lparr>tv_1 := e_sec env\<rparr>)) else Some (c\<lparr>tv_1 := tv\<rparr>, False)
        }
        else do {
          (due, c) \<leftarrow> Check_Meter_Time env c;
          if due then sent (MakeDataCmd_MeterVal env c)
          else do {
            u \<leftarrow> unreported [0, 1] c;
            case u of Some i \<Rightarrow> sent (send_status env i c) | None \<Rightarrow> scenario_session env c
          }
        }
      })"

section \<open>The client task\<close>

text \<open>\<open>connected\<close> is the result of the handshake that \<open>WS_Server_connect\<close> makes.\<close>

definition WS_Server_connect :: "bool \<Rightarrow> client \<Rightarrow> client" where
  "WS_Server_connect connected c =
     (if connected then c\<lparr>bConnect := True, bWaitResFlg := False, nConnectCheck := 0, nConnectResetCount := 0\<rparr>
      else c\<lparr>bConnect := False\<rparr>)"

definition NetRun :: "(bytes \<times> bytes) list \<Rightarrow> ocpp_env \<Rightarrow> bool \<Rightarrow> bool \<Rightarrow> client \<Rightarrow> (client \<times> ocpp_act list) option" where
  "NetRun bat env connected ok c = do {
     let save = (if bConfigSaveFlg c then [Config_save] else []);
     let c = c\<lparr>bConfigSaveFlg := False\<rparr>;
     if \<not> bConnect c then Some (WS_Server_connect connected (c\<lparr>nConnectCheck := nConnectCheck c + 1\<rparr>), save @ [Ws_connect])
     else do {
       (c, ret) \<leftarrow> OCPP_CALL_Senario env c;
       if ret
       then do {
         (c, acts) \<leftarrow> Tsct_Curl_Ws_Trans bat env ok c;
         Some (c, save @ acts)
       }
       else Some (c, save)
     }
   }"

text \<open>One pass of \<open>WSClientThread\<close> with its two local variables.  The three questions to the network driver are
  arguments, as are the authentication mode and the handshake.\<close>

record ws_thread =
  iteEthGetLink_WS :: bool
  FirstConnectFlg :: bool

record ws_net =
  auth_by_net :: bool
  net_ready :: bool
  eth_link :: bool
  handshake :: bool
  send_ok :: bool

definition ws_start_request :: "ocpp_env \<Rightarrow> client \<Rightarrow> client option" where
  "ws_start_request env c =
     (if bReqStartTsNo c \<noteq> 0
      then do {
        dt \<leftarrow> GetDateTime (e_tm env);
        w \<leftarrow> eqp_watt_sum (s_eqp_watt (ses c));
        tag \<leftarrow> wr (card_no (ses c)) 16 0;
        Some (c\<lparr>bReqStartTsNo := 0, reqStartTsFlg := True, StartTs_Connector := 1, faultChargFlg := False, StartTs_Time := dt,
          MeterStart_Val := w, StartTs_IdTag := tag\<rparr>)
      }
      else Some c)"

definition ws_sample :: "ocpp_env \<Rightarrow> client \<Rightarrow> client option" where
  "ws_sample env c = do {
     (ty, c) \<leftarrow> Check_Sampled_Time env c;
     if ty \<noteq> 0
     then map_option (\<lambda>c. c\<lparr>ses := (ses c)\<lparr>StopTs_Connector := 1\<rparr>\<rparr>) (Add_MeterVal_Q env ty c)
     else Some c
   }"

definition WSClientThread ::
  "(bytes \<times> bytes) list \<Rightarrow> ocpp_env \<Rightarrow> ws_net \<Rightarrow> ws_thread \<times> client \<Rightarrow> ((ws_thread \<times> client) \<times> ocpp_act list) option" where
  "WSClientThread bat env net x = (case x of (t, c) \<Rightarrow>
     if \<not> auth_by_net net \<or> bGloAdminStatus env then Some ((t, c), [])
     else if 9 < nConnectCheck c
     then (let n = nConnectResetCount c; c = c\<lparr>nConnectResetCount := n + 1\<rparr> in
           if 2 < n \<and> app_order (ses c) \<noteq> APP_ORDER_CHARGING then Some ((t, c), [Config_save, Custom_reboot])
           else Some ((t, c), [Router_power_check]))
     else if \<not> FirstConnectFlg t \<and> \<not> (net_ready net \<and> eth_link net) then Some ((t, c), [])
     else do {
       let t = t\<lparr>FirstConnectFlg := True\<rparr>;
       c \<leftarrow> ws_start_request env c;
       c \<leftarrow> ws_sample env c;
       if \<not> eth_link net then Some ((t\<lparr>iteEthGetLink_WS := False\<rparr>, (Clear_Rx_Msg_Buff c)\<lparr>bConnect := False\<rparr>), [])
       else if \<not> iteEthGetLink_WS t then Some ((t\<lparr>iteEthGetLink_WS := True\<rparr>, c), [Network_reset])
       else if net_ready net
       then map_option (\<lambda>y. ((t, fst y), snd y)) (NetRun bat env (handshake net) (send_ok net) c)
       else Some ((t, c\<lparr>bConnect := False\<rparr>), [])
     })"

section \<open>Initialisation\<close>

definition ocppConfigKeyName :: "string list" where
  "ocppConfigKeyName =
    [''AuthorizeRemoteTxRequests'', ''ClockAlignedDataInterval'', ''ConnectionTimeOut'', ''ConnectorPhaseRotation'',
     ''GetConfigurationMaxKeys'', ''HeartbeatInterval'', ''LocalAuthorizeOffline'', ''LocalPreAuthorize'',
     ''MeterValuesAlignedData'', ''MeterValuesSampledData'', ''MeterValueSampleInterval'', ''NumberOfConnectors'',
     ''ResetRetries'', ''StopTransactionOnEVSideDisconnect'', ''StopTransactionOnInvalidId'', ''StopTxnAlignedData'',
     ''StopTxnSampledData'', ''SupportedFeatureProfiles'', ''TransactionMessageAttempts'',
     ''TransactionMessageRetryInterval'', ''UnlockConnectorOnEVSideDisconnect'', ''LocalAuthListMaxLength'',
     ''SendLocalListMaxLength'', ''AllowOfflineTxForUnknownId'']"

definition ck_bool :: "nat \<Rightarrow> bool \<Rightarrow> u32 \<Rightarrow> TSCT_CFG_KEY" where
  "ck_bool i rw v = \<lparr>CfgKeyName = ocppConfigKeyName ! i, CfgKeyRw = rw, CfgKeyType = TYPE_CODE_BOOL, CfgKeyDataCha = [], CfgKeyDataInt = v\<rparr>"

definition ck_int :: "nat \<Rightarrow> bool \<Rightarrow> u32 \<Rightarrow> TSCT_CFG_KEY" where
  "ck_int i rw v = \<lparr>CfgKeyName = ocppConfigKeyName ! i, CfgKeyRw = rw, CfgKeyType = TYPE_CODE_INT, CfgKeyDataCha = [], CfgKeyDataInt = v\<rparr>"

definition ck_str :: "nat \<Rightarrow> bool \<Rightarrow> string \<Rightarrow> TSCT_CFG_KEY" where
  "ck_str i rw v = \<lparr>CfgKeyName = ocppConfigKeyName ! i, CfgKeyRw = rw, CfgKeyType = TYPE_CODE_STR, CfgKeyDataCha = v, CfgKeyDataInt = 0\<rparr>"

text \<open>The table starts with zeros.\<close>

definition Init_CfgKey :: "TSCT_CFG_KEY list" where
  "Init_CfgKey =
    [ck_bool 0 False 1, ck_int 1 False 180, ck_int 2 False 90, ck_str 3 False ''NotApplicable'', ck_int 4 True 24,
     ck_int 5 False 10, ck_bool 6 False 1, ck_bool 7 False 1, ck_str 8 False ''Energy.Active.Import.Register'',
     ck_str 9 False ''Energy.Active.Import.Register'', ck_int 10 False 180, ck_int 11 True 1, ck_int 12 False 0,
     ck_bool 13 False 1, ck_bool 14 False 0, ck_str 15 False ''Energy.Active.Import.Register'',
     ck_str 16 False ''Energy.Active.Import.Register'', ck_str 17 True ''Core, FirmwareManagement, RemoteTrigger'',
     ck_int 18 False 5, ck_int 19 False 10, ck_bool 20 False 1, ck_int 21 True 5, ck_int 22 True 5, ck_bool 23 False 1]"

definition Init_Config_Val :: "ocpp_env \<Rightarrow> client \<Rightarrow> client option" where
  "Init_Config_Val env c = do {
     c \<leftarrow> set_both CP_STATUS_CODE_NONE [0, 1] c;
     Some (c\<lparr>ses := (ses c)\<lparr>bReqAuthNo := 0\<rparr>, bReqResetNo := 0, batInfo_cfgCnt := 20, cpStatChk := False, tv_1 := e_sec env\<rparr>)
   }"

definition WsClientInit :: "ocpp_env \<Rightarrow> client \<Rightarrow> client option" where
  "WsClientInit env c = do {
     c \<leftarrow> Init_Config_Val env (c\<lparr>member_type := MEM_NON, nConnectCheck := 0, nConnectResetCount := 0\<rparr>);
     Some (c\<lparr>CfgKeyVal := Init_CfgKey, ServerCallError := True\<rparr>)
   }"

end
