(* ===== verification/Ocpp_Rx.thy ===== *)
theory Ocpp_Rx
  imports Ocpp_Parse
begin

text \<open>
  The receive buffers of the OCPP client keep their sizes: the message buffer of 1024 bytes, the identifier, the arrays of
  10 and three times 30 properties with their names of 60 and contents of 1024 bytes, and the text of a data transfer.
\<close>

definition prop_sizes :: "payload \<Rightarrow> bool" where
  "prop_sizes p \<longleftrightarrow> length (property_name p) = 60 \<and> length (property_contants p) = 1024"

definition levels_ok :: "payload list list \<Rightarrow> bool" where
  "levels_ok lv \<longleftrightarrow> map length lv = [10, 30, 30, 30] \<and> (\<forall>ps\<in>set lv. \<forall>p\<in>set ps. prop_sizes p)"

definition rx_sizes :: "rx \<Rightarrow> bool" where
  "rx_sizes r \<longleftrightarrow> length (curl_ws_recv_buf r) = 1024 \<and> length (DATATRANS_data r) = 1024 \<and>
     length (UniqueID_Char (Rx_Msg r)) = 70 \<and> levels_ok (Payload (Rx_Msg r) # rx_levels r)"

section \<open>The properties\<close>

lemma clear_sizes [simp]: "prop_sizes payload_clear"
  by (simp add: prop_sizes_def payload_clear_def)

lemma levels_clear [simp]: "levels_ok [replicate 10 payload_clear, replicate 30 payload_clear, replicate 30 payload_clear, replicate 30 payload_clear]"
  by (simp add: levels_ok_def)

lemma levels_put:
  assumes "levels_ok lv" "d < length lv \<Longrightarrow> length ps = length (lv ! d)" "\<forall>p\<in>set ps. prop_sizes p"
  shows "levels_ok (lv[d := ps])"
proof -
  have "map length (lv[d := ps]) = map length lv" using assms(2) by (cases "d < length lv") (simp_all add: map_update list_update_same_conv list_update_beyond)
  moreover have "\<forall>qs\<in>set (lv[d := ps]). \<forall>p\<in>set qs. prop_sizes p"
    using assms(1,3) set_update_subset_insert [of lv d ps] by (auto simp: levels_ok_def)
  ultimately show ?thesis using assms(1) by (simp add: levels_ok_def)
qed

lemma levels_upd:
  assumes "upd_prop d f s = Some s'" "levels_ok (levels s)" "\<And>p q. prop_sizes p \<Longrightarrow> f p = Some q \<Longrightarrow> prop_sizes q"
  shows "levels_ok (levels s')"
proof -
  obtain i p q where u: "d < length (levels s)" "i < length (levels s ! d)" "p = levels s ! d ! i" "f p = Some q"
    "levels s' = (levels s)[d := (levels s ! d)[i := q]]"
    using assms(1) by (auto simp: upd_prop_def rd_Some split: bind_splits)
  have "levels s ! d \<in> set (levels s)" using u(1) by simp
  then have a: "\<forall>p\<in>set (levels s ! d). prop_sizes p" using assms(2) unfolding levels_ok_def by blast
  then have "prop_sizes q" using assms(3) [OF _ u(4)] u(2,3) by simp
  then have "\<forall>p\<in>set ((levels s ! d)[i := q]). prop_sizes p" using a set_update_subset_insert [of "levels s ! d" i q] by blast
  then show ?thesis unfolding u(5) using assms(2) by (intro levels_put) simp_all
qed

abbreviation keeps_levels :: "pstate option \<Rightarrow> bool" where
  "keeps_levels r \<equiv> yields (\<lambda>s. levels_ok (levels s)) r"

lemma keeps_upd:
  assumes "levels_ok (levels s)" "\<And>p q. prop_sizes p \<Longrightarrow> f p = Some q \<Longrightarrow> prop_sizes q"
  shows "keeps_levels (upd_prop d f s)"
  using levels_upd [OF _ assms] by (auto simp: yields_def)

lemma keeps_bind: "keeps_levels r \<Longrightarrow> (\<And>s. levels_ok (levels s) \<Longrightarrow> yields P (f s)) \<Longrightarrow> yields P (Option.bind r f)"
  by (cases r) (simp_all add: yields_def)

lemma keeps_clear: "levels_ok (levels s) \<Longrightarrow> keeps_levels (upd_prop d clear_prop s)"
  by (rule keeps_upd) (auto simp: clear_prop_def prop_sizes_def)

lemma keeps_next: "levels_ok (levels s) \<Longrightarrow> keeps_levels (next_prop s)"
  unfolding next_prop_def by (cases "bObjDepth s") (auto simp: prop_sizes_def yields_Some intro!: keeps_upd)

lemma keeps_comma: "levels_ok (levels s) \<Longrightarrow> keeps_levels (comma_prop s)"
  unfolding comma_prop_def by (intro keeps_bind [OF keeps_next] keeps_upd) (auto simp: clear_prop_def prop_sizes_def)

lemma keeps_put: "levels_ok (levels s) \<Longrightarrow> keeps_levels (put_name c s)" "levels_ok (levels s) \<Longrightarrow> keeps_levels (put_contents c s)"
  unfolding put_name_def put_contents_def
  by (rule keeps_bind [OF keeps_upd]; auto simp: prop_sizes_def wr_Some yields_Some)+

lemma keeps_open:
  assumes "levels_ok (levels s)"
  shows "keeps_levels (open_level ty s)"
proof -
  have "length (levels s ! Suc d) = 30" if "d < 3" "Suc d < length (levels s)" for d
  proof -
    have "map length (levels s) ! Suc d = [10, 30, 30, 30] ! Suc d" using assms by (simp add: levels_ok_def)
    moreover have "d = 0 \<or> d = 1 \<or> d = 2" using that(1) by auto
    ultimately show ?thesis using that(2) by auto
  qed
  then have "levels_ok ((levels s)[Suc (bObjDepth s) := replicate 30 payload_clear])" if "bObjDepth s < 3"
    using assms that by (intro levels_put) auto
  then have "keeps_levels (if bObjDepth s < 3
      then upd_prop (bObjDepth s) (\<lambda>p. Some (p\<lparr>sub_Payload := Some (Suc (bObjDepth s))\<rparr>))
        (s\<lparr>levels := (levels s)[Suc (bObjDepth s) := replicate 30 payload_clear]\<rparr>)
      else Some s)"
    using assms by (auto simp: prop_sizes_def yields_Some intro!: keeps_upd)
  then show ?thesis unfolding open_level_def Let_def by (rule keeps_bind) (intro yields_bind, simp add: yields_Some)
qed

abbreviation (input) either :: "pstate + pstate \<Rightarrow> pstate" where
  "either r \<equiv> (case r of Inl s \<Rightarrow> s | Inr s \<Rightarrow> s)"

lemma close_levels: "levels (either (close_level b s)) = levels s" "levels (after_close s) = levels s"
  by (auto simp: close_level_def after_close_def Let_def split: TYPE_CODE.splits)

lemma keeps_map: "keeps_levels r \<Longrightarrow> (\<And>s. levels (either (f s)) = levels s) \<Longrightarrow> yields (\<lambda>r. levels_ok (levels (either r))) (map_option f r)"
  by (cases r) (simp_all add: yields_def)

lemma yields_both: "yields P x \<Longrightarrow> yields P y \<Longrightarrow> yields P (if b then x else y)"
  by simp

lemma keeps_some:
  assumes "levels_ok (levels s)"
  shows "yields (\<lambda>r. levels_ok (levels (either r))) (Some (Inr s))" "yields (\<lambda>r. levels_ok (levels (either r))) (Some (close_level b s))"
  using assms by (simp_all add: yields_Some close_levels)

lemma payload_char_levels:
  assumes "levels_ok (levels s)"
  shows "yields (\<lambda>r. levels_ok (levels (either r))) (payload_char prev c s)"
proof -
  have k: "keeps_levels (upd_prop d clear_prop (s\<lparr>str_index := x, parsing_step := y\<rparr>))" for d x y
    using assms by (intro keeps_clear) simp
  show ?thesis unfolding payload_char_def Let_def
    by (rule yields_both keeps_some keeps_map keeps_bind [OF keeps_comma [OF assms]] keeps_comma [OF assms] keeps_put [OF assms]
      keeps_open [OF assms] k | simp add: close_levels assms)+
qed

lemma payload_loop_levels: "levels_ok (levels s) \<Longrightarrow> yields (\<lambda>s'. levels_ok (levels s')) (payload_loop prev cs s)"
proof (induction cs arbitrary: prev s)
  case (Cons c cs)
  have s: "yields (\<lambda>s'. levels_ok (levels s')) (case r of Inl s \<Rightarrow> Some s | Inr s \<Rightarrow> payload_loop c cs s)"
    if "payload_char prev c s = Some r" for r
    using Cons.IH yieldsD [OF payload_char_levels [OF Cons.prems] that] by (cases r) (simp_all add: yields_Some)
  show ?case unfolding payload_loop.simps
    by (rule yields_both, rule yields_Some, rule Cons.prems, rule yields_bind, erule s)
qed (simp add: yields_Some)

section \<open>The message\<close>

text \<open>The identifier and the properties of a message that is made from \<open>m\<close>.\<close>

definition from_msg :: "msg \<Rightarrow> msg \<Rightarrow> bool" where
  "from_msg m m' \<longleftrightarrow> length (UniqueID_Char m') = 70 \<and> Payload m' = Payload m"

lemma from_msg_simps [simp]:
  "from_msg m (m'\<lparr>Msg_type := x\<rparr>) = from_msg m m'" "from_msg m (m'\<lparr>UniqueID := y\<rparr>) = from_msg m m'"
  "from_msg m (m'\<lparr>Action_Code := z\<rparr>) = from_msg m m'"
  by (simp_all add: from_msg_def)

lemma header_char_sizes:
  assumes "from_msg m (h_msg h)"
  shows "yields (\<lambda>r. from_msg m (case r of Inl (e, m') \<Rightarrow> m' | Inr h \<Rightarrow> h_msg h)) (header_char a c h)"
  unfolding header_char_def Let_def
  by (rule yields_both yields_Some yields_bind yields_option | use assms in \<open>simp; fail\<close> | use assms in \<open>simp add: from_msg_def blit_Some; fail\<close>)+

lemma header_loop_sizes:
  "from_msg m (h_msg h) \<Longrightarrow> yields (\<lambda>(e, m', j). from_msg m m') (header_loop a cs i h)"
proof (induction cs arbitrary: i h)
  case (Cons c cs)
  have "yields (\<lambda>(e, m', j). from_msg m m') (case r of Inl (e, m) \<Rightarrow> Some (e, m, i) | Inr h \<Rightarrow> header_loop a cs (i + 1) h)"
    if "header_char a c h = Some r" for r
    using Cons.IH yieldsD [OF header_char_sizes [OF Cons.prems] that] by (cases r) (auto simp: yields_Some)
  then show ?case unfolding header_loop.simps by (rule yields_bind)
qed (simp add: yields_Some)

lemma Parse_Header_sizes:
  assumes "Parse_Header a g buf m n = Some (e, m', i)" "length (UniqueID_Char m) = 70"
  shows "length (UniqueID_Char m') = 70 \<and> Payload m' = Payload m"
proof -
  have m: "from_msg m m" using assms(2) by (simp add: from_msg_def)
  have "yields (\<lambda>(e, m', i). from_msg m m') (Parse_Header a g buf m n)"
    unfolding Parse_Header_def
    by (intro yields_bind yields_if header_loop_sizes) (simp_all add: m yields_Some)
  from yieldsD [OF this assms(1)] show ?thesis by (simp add: from_msg_def)
qed

lemma Parse_Payload_sizes:
  assumes "Parse_Payload buf m i n = Some (e, m', lv)"
  shows "UniqueID_Char m' = UniqueID_Char m \<and> levels_ok (Payload m' # lv)"
proof -
  obtain prev s where s: "payload_loop prev (drop (i + 1) (take n buf)) pstate_start = Some s"
    "m' = m\<lparr>Payload_len := plen s, Payload := levels s ! 0\<rparr>" "lv = tl (levels s)"
    using assms by (auto simp: Parse_Payload_def split: bind_splits)
  have l: "levels_ok (levels s)" by (rule yieldsD [OF payload_loop_levels s(1)]) (simp add: pstate_start_def)
  then have "levels s \<noteq> []" by (auto simp: levels_ok_def)
  then have "levels s ! 0 # tl (levels s) = levels s" by (cases "levels s") simp_all
  then show ?thesis using l s(2,3) by simp
qed

lemma Parse_Data_sizes:
  assumes "Parse_Data a g n r = Some (e, r')" "rx_sizes r"
  shows "rx_sizes r'"
  using assms unfolding Parse_Data_def
  by (auto simp: rx_sizes_def blit_Some Let_def dest!: Parse_Header_sizes Parse_Payload_sizes split: bind_splits if_splits)

end
