(* ===== verification/Ocpp_Inv.thy ===== *)
theory Ocpp_Inv
  imports Ocpp_Run Ocpp_Rx
begin

text \<open>
  The invariant of the OCPP client: every array keeps its size and the table of configuration keys keeps its names, types
  and texts, and the values of its read-only keys.  One lemma per operation shows that it is preserved; the structural
  rules are those of \<open>yields\<close>.
\<close>

section \<open>The invariant\<close>

definition key_like :: "TSCT_CFG_KEY \<Rightarrow> TSCT_CFG_KEY \<Rightarrow> bool" where
  "key_like k k' \<longleftrightarrow> CfgKeyName k' = CfgKeyName k \<and> CfgKeyRw k' = CfgKeyRw k \<and> CfgKeyType k' = CfgKeyType k \<and>
     CfgKeyDataCha k' = CfgKeyDataCha k \<and> (CfgKeyRw k \<longrightarrow> CfgKeyDataInt k' = CfgKeyDataInt k)"

definition client_sizes :: "client \<Rightarrow> bool" where
  "client_sizes c \<longleftrightarrow> length (bCpStat (ses c)) = 2 \<and> length (bTrId (ses c)) = 2 \<and> length (card_no (ses c)) = 21 \<and>
     length (scnd_card_no (ses c)) = 21 \<and> length (parentId (ses c)) = 21 \<and> length (s_eqp_watt (ses c)) = 4 \<and>
     length (bPreCpStat c) = 2 \<and> length (MeterValQ c) = 5 \<and> length (tx_payload (Tx_Msg c)) = 10 \<and>
     length (diagLogUrl c) = 100 \<and> length (fwUpdateUrl c) = 70 \<and> length (fw_Time_Stamp c) = 50 \<and>
     length (StartTs_IdTag c) = 21 \<and> rx_sizes (rxs c)"

text \<open>The keys that the server and the boot notification can write are the writable ones.\<close>

definition client_ok :: "TSCT_CFG_KEY list \<Rightarrow> client \<Rightarrow> bool" where
  "client_ok ks c \<longleftrightarrow> client_sizes c \<and> list_all2 key_like ks (CfgKeyVal c) \<and> length ks = 24 \<and>
     (\<forall>i \<in> {0, 1, 2, 5, 6, 7, 10, 13, 14, 20, 23}. \<not> CfgKeyRw (ks ! i))"

named_theorems ok_rules \<open>operations that preserve the invariant\<close>

lemma ok_bind: "yields (client_ok ks) r \<Longrightarrow> (\<And>x. client_ok ks x \<Longrightarrow> yields P (f x)) \<Longrightarrow> yields P (Option.bind r f)"
  by (cases r) (simp_all add: yields_def)

lemma ok_bind_fst:
  "yields (\<lambda>x. client_ok ks (fst x)) r \<Longrightarrow> (\<And>c b. client_ok ks c \<Longrightarrow> yields P (f (c, b))) \<Longrightarrow> yields P (Option.bind r f)"
  by (cases r) (auto simp: yields_def)

lemma ok_bind_snd:
  "yields (\<lambda>x. client_ok ks (snd x)) r \<Longrightarrow> (\<And>c b. client_ok ks c \<Longrightarrow> yields P (f (b, c))) \<Longrightarrow> yields P (Option.bind r f)"
  by (cases r) (auto simp: yields_def)

lemma yields_map: "yields (\<lambda>x. P (f x)) r \<Longrightarrow> yields P (map_option f r)"
  by (cases r) (simp_all add: yields_def)

text \<open>The order matters: a computation of a state is bound with the invariant, any other with its result.\<close>

lemmas ok_intro = yields_if yields_prod yields_option yields_Some yields_None yields_map yields_bind

lemma ok_fields [simp]:
  "client_ok ks (c\<lparr>Call_Tx_Msg := x2\<rparr>) = client_ok ks c"
  "client_ok ks (c\<lparr>bReqStartTsNo := x3\<rparr>) = client_ok ks c" "client_ok ks (c\<lparr>bReqStopTsFlg := x4\<rparr>) = client_ok ks c"
  "client_ok ks (c\<lparr>bReqRmtStartTsNo := x5\<rparr>) = client_ok ks c" "client_ok ks (c\<lparr>bReqResetNo := x6\<rparr>) = client_ok ks c"
  "client_ok ks (c\<lparr>batInfo_cfgCnt := x7\<rparr>) = client_ok ks c" "client_ok ks (c\<lparr>bQREventFlg := x8\<rparr>) = client_ok ks c"
  "client_ok ks (c\<lparr>triggerMsgStat := x9\<rparr>) = client_ok ks c" "client_ok ks (c\<lparr>diagLogReqStep := x10\<rparr>) = client_ok ks c"
  "client_ok ks (c\<lparr>bReqMemberFlg := x11\<rparr>) = client_ok ks c" "client_ok ks (c\<lparr>bReqChargeAmtFlg := x12\<rparr>) = client_ok ks c"
  "client_ok ks (c\<lparr>reqStartTsFlg := x13\<rparr>) = client_ok ks c" "client_ok ks (c\<lparr>StartTs_Time := x14\<rparr>) = client_ok ks c"
  "client_ok ks (c\<lparr>MeterStart_Val := x15\<rparr>) = client_ok ks c"
  "client_ok ks (c\<lparr>StartTs_Connector := x17\<rparr>) = client_ok ks c" "client_ok ks (c\<lparr>faultChargFlg := x18\<rparr>) = client_ok ks c"
  "client_ok ks (c\<lparr>StopTs_Time := x19\<rparr>) = client_ok ks c" "client_ok ks (c\<lparr>updateStep := x20\<rparr>) = client_ok ks c"
  "client_ok ks (c\<lparr>bWaitResFlg := x21\<rparr>) = client_ok ks c" "client_ok ks (c\<lparr>bConnect := x22\<rparr>) = client_ok ks c"
  "client_ok ks (c\<lparr>bConfigSaveFlg := x23\<rparr>) = client_ok ks c" "client_ok ks (c\<lparr>bCpStatChgFlg := x24\<rparr>) = client_ok ks c"
  "client_ok ks (c\<lparr>bRecvConnCnt := x25\<rparr>) = client_ok ks c" "client_ok ks (c\<lparr>bChargerCostCheck := x26\<rparr>) = client_ok ks c"
  "client_ok ks (c\<lparr>OCPP_cpSts_flg := x27\<rparr>) = client_ok ks c" "client_ok ks (c\<lparr>Check_Meter_flg := x28\<rparr>) = client_ok ks c"
  "client_ok ks (c\<lparr>Check_Sampled_flg := x29\<rparr>) = client_ok ks c" "client_ok ks (c\<lparr>ServerCallError := x30\<rparr>) = client_ok ks c"
  "client_ok ks (c\<lparr>nConnectCheck := x31\<rparr>) = client_ok ks c" "client_ok ks (c\<lparr>nConnectResetCount := x32\<rparr>) = client_ok ks c"
  "client_ok ks (c\<lparr>tv_1 := x33\<rparr>) = client_ok ks c" "client_ok ks (c\<lparr>tv_res := x34\<rparr>) = client_ok ks c"
  "client_ok ks (c\<lparr>card_auth := x35\<rparr>) = client_ok ks c" "client_ok ks (c\<lparr>connect_status := x36\<rparr>) = client_ok ks c"
  "client_ok ks (c\<lparr>tNetTime := x37\<rparr>) = client_ok ks c" "client_ok ks (c\<lparr>rtc_time := x38\<rparr>) = client_ok ks c"
  "client_ok ks (c\<lparr>member_type := x39\<rparr>) = client_ok ks c" "client_ok ks (c\<lparr>price_text := x40\<rparr>) = client_ok ks c"
  "client_ok ks (c\<lparr>finalAmt := x41\<rparr>) = client_ok ks c" "client_ok ks (c\<lparr>billAmt := x42\<rparr>) = client_ok ks c"
  "client_ok ks (c\<lparr>usedPoint := x43\<rparr>) = client_ok ks c" "client_ok ks (c\<lparr>remainPoint := x44\<rparr>) = client_ok ks c"
  "client_ok ks (c\<lparr>chargeAmt_Check := x45\<rparr>) = client_ok ks c"
  by (simp_all add: client_ok_def client_sizes_def)

lemma ok_ses [simp]:
  "client_ok ks (c\<lparr>ses := (ses c)\<lparr>app_order := y1\<rparr>\<rparr>) = client_ok ks c"
  "client_ok ks (c\<lparr>ses := (ses c)\<lparr>bReqAuthNo := y2\<rparr>\<rparr>) = client_ok ks c"
  "client_ok ks (c\<lparr>ses := (ses c)\<lparr>chargingstatus := y3\<rparr>\<rparr>) = client_ok ks c"
  "client_ok ks (c\<lparr>ses := (ses c)\<lparr>chargingstatus := y3, charge_comp_status := y4\<rparr>\<rparr>) = client_ok ks c"
  "client_ok ks (c\<lparr>ses := (ses c)\<lparr>bReqRmtStopTSFlg := y5\<rparr>\<rparr>) = client_ok ks c"
  "client_ok ks (c\<lparr>ses := (ses c)\<lparr>StopTs_Connector := y6\<rparr>\<rparr>) = client_ok ks c"
  "client_ok ks (c\<lparr>ses := (ses c)\<lparr>StopTs_IdTag := y8, StopTs_MeterStop := y7\<rparr>\<rparr>) = client_ok ks c"
  by (simp_all add: client_ok_def client_sizes_def)

lemma ok_tx [simp]:
  "client_ok ks (c\<lparr>Tx_Msg := (Tx_Msg c)\<lparr>tx_type := z1\<rparr>\<rparr>) = client_ok ks c"
  "client_ok ks (c\<lparr>Tx_Msg := (Tx_Msg c)\<lparr>tx_type := z1, tx_id := z2, tx_action := z3, tx_len := z4\<rparr>\<rparr>) = client_ok ks c"
  "client_ok ks (c\<lparr>Tx_Msg := (Tx_Msg c)\<lparr>tx_type := z1, tx_id_char := z5, tx_len := z4\<rparr>\<rparr>) = client_ok ks c"
  by (simp_all add: client_ok_def client_sizes_def)

lemma ok_rxs: "client_ok ks c \<Longrightarrow> rx_sizes r \<Longrightarrow> client_ok ks (c\<lparr>rxs := r\<rparr>)"
  by (simp add: client_ok_def client_sizes_def)

lemma ok_rx_sizes: "client_ok ks c \<Longrightarrow> rx_sizes (rxs c)"
  by (simp add: client_ok_def client_sizes_def)

lemma rx_sizes_upd [simp]:
  "rx_sizes (r\<lparr>DATATRANS_UniqueID := x\<rparr>) = rx_sizes r" "rx_sizes r \<Longrightarrow> rx_sizes (r\<lparr>DATATRANS_data := replicate 1024 0\<rparr>)"
  by (simp_all add: rx_sizes_def)

lemma rx_sizes_clear [simp]:
  "rx_sizes r \<Longrightarrow> rx_sizes (r\<lparr>Rx_Msg := \<lparr>Msg_type = 0, UniqueID = 0, UniqueID_Char = replicate 70 0, Action_Code = 0,
       Payload_len = 0, Payload = replicate 10 payload_clear\<rparr>, rx_levels := replicate 3 (replicate 30 payload_clear),
     DATATRANS_data := replicate 1024 0\<rparr>)"
  by (simp add: rx_sizes_def levels_ok_def numeral_eq_Suc)

lemma rx_sizes_buf: "rx_sizes r \<Longrightarrow> length b = 1024 \<Longrightarrow> rx_sizes (r\<lparr>curl_ws_recv_buf := b\<rparr>)"
  by (simp add: rx_sizes_def)

lemma rx_sizes_length: "rx_sizes r \<Longrightarrow> length (curl_ws_recv_buf r) = 1024"
  by (simp add: rx_sizes_def)

section \<open>Status, keys and the queue\<close>

lemma ok_set_cp [ok_rules]: "client_ok ks c \<Longrightarrow> yields (client_ok ks) (set_cp code i c)"
  by (auto simp: set_cp_def SetCpStatus_def client_ok_def client_sizes_def wr_def yields_def)

lemma ok_set_pre: "client_ok ks c \<Longrightarrow> wr (bPreCpStat c) i code = Some pre \<Longrightarrow> client_ok ks (c\<lparr>bPreCpStat := pre\<rparr>)"
  by (auto simp: client_ok_def client_sizes_def wr_def split: if_splits)

lemma ok_key_put:
  assumes "client_ok ks c" "i \<in> {0, 1, 2, 5, 6, 7, 10, 13, 14, 20, 23}" "rd (CfgKeyVal c) i = Some k"
  shows "client_ok ks (c\<lparr>CfgKeyVal := (CfgKeyVal c)[i := k\<lparr>CfgKeyDataInt := v\<rparr>]\<rparr>)"
proof -
  have k: "i < length (CfgKeyVal c)" "k = CfgKeyVal c ! i" using assms(3) by (simp_all add: rd_Some)
  have l: "length ks = length (CfgKeyVal c)" using assms(1) by (auto simp: client_ok_def dest: list_all2_lengthD)
  have "key_like (ks ! i) k" using assms(1) k l by (simp add: client_ok_def list_all2_conv_all_nth)
  moreover have "\<not> CfgKeyRw (ks ! i)" using assms(1,2) by (auto simp: client_ok_def)
  ultimately have "key_like (ks ! i) (k\<lparr>CfgKeyDataInt := v\<rparr>)" by (simp add: key_like_def)
  then have "list_all2 key_like ks ((CfgKeyVal c)[i := k\<lparr>CfgKeyDataInt := v\<rparr>])"
    using assms(1) l k by (auto simp: client_ok_def list_all2_conv_all_nth nth_list_update split: if_splits)
  then show ?thesis using assms(1) by (simp add: client_ok_def client_sizes_def)
qed

lemma ok_queue: "client_ok ks c \<Longrightarrow> length q = 5 \<Longrightarrow> client_ok ks (c\<lparr>MeterValQ := q\<rparr>)"
  by (simp add: client_ok_def client_sizes_def)

lemma ok_meter_sample: "client_ok ks c \<Longrightarrow> length q = 5 \<Longrightarrow> yields (client_ok ks) (meter_sample env ty at no q c)"
  unfolding meter_sample_def Let_def by (intro yields_rules) (simp add: ok_queue)

lemma ok_Add_MeterVal_Q [ok_rules]: "client_ok ks c \<Longrightarrow> yields (client_ok ks) (Add_MeterVal_Q env ty c)"
  unfolding Add_MeterVal_Q_def Let_def
  by (intro yields_rules ok_meter_sample) (simp_all add: client_ok_def client_sizes_def)

lemma ok_Reset_MeterVal_Q [ok_rules]: "client_ok ks c \<Longrightarrow> client_ok ks (Reset_MeterVal_Q c)"
  by (simp add: Reset_MeterVal_Q_def Let_def meter_q_no_def ok_queue client_ok_def client_sizes_def min_def)

section \<open>Outgoing messages\<close>

lemma ok_tx_upd [ok_rules]: "client_ok ks c \<Longrightarrow> yields (client_ok ks) (tx_upd i f c)"
  by (auto simp: tx_upd_def rd_def yields_def client_ok_def client_sizes_def)

lemma ok_tx_fill [ok_rules]: "client_ok ks c \<Longrightarrow> yields (client_ok ks) (tx_fill i xs c)"
  by (induction xs arbitrary: i c) (auto intro: yields_rules ok_bind ok_rules)

lemma ok_tx_call [ok_rules]: "client_ok ks c \<Longrightarrow> client_ok ks (tx_call uid a n c)"
  by (simp add: tx_call_def)

lemma ok_tx_result [ok_rules]: "client_ok ks c \<Longrightarrow> client_ok ks (tx_result n c)"
  by (simp add: tx_result_def)

lemma ok_tx_request [ok_rules]: "client_ok ks c \<Longrightarrow> yields (client_ok ks) (tx_request uid a ps c)"
  by (simp add: tx_request_def ok_rules)

lemma ok_data_transfer [ok_rules]: "client_ok ks c \<Longrightarrow> yields (client_ok ks) (data_transfer env m d c)"
  by (simp add: data_transfer_def ok_rules)

lemmas make_defs = MakeDataCmd_Auth_def MakeDataCmd_Boot_def MakeDataCmd_DiagStat_def MakeDataCmd_FwStat_def MakeDataCmd_HB_def
  MakeDataCmd_MeterVal_def MakeDataCmd_StartTs_def MakeDataCmd_Stat_def MakeDataCmd_DataTrans_j1_def
  MakeDataCmd_DataTrans_cpSts_def MakeDataCmd_DataTrans_q1_def MakeDataCmd_DataTrans_q2_def MakeDataCmd_DataTrans_mbrUntpc_def
  MakeDataCmd_DataTrans_chargeAmt_def

lemma ok_make [ok_rules]:
  assumes "client_ok ks c"
  shows "yields (client_ok ks) (MakeDataCmd_Auth env c)" "yields (client_ok ks) (MakeDataCmd_Boot env c)"
    "yields (client_ok ks) (MakeDataCmd_DiagStat env d c)" "yields (client_ok ks) (MakeDataCmd_FwStat env u c)"
    "yields (client_ok ks) (MakeDataCmd_HB env c)" "yields (client_ok ks) (MakeDataCmd_MeterVal env c)"
    "yields (client_ok ks) (MakeDataCmd_StartTs env c)" "yields (client_ok ks) (MakeDataCmd_Stat env i c)"
    "yields (client_ok ks) (MakeDataCmd_DataTrans_j1 env c)" "yields (client_ok ks) (MakeDataCmd_DataTrans_cpSts env c)"
    "yields (client_ok ks) (MakeDataCmd_DataTrans_q1 env c)" "yields (client_ok ks) (MakeDataCmd_DataTrans_q2 env c)"
    "yields (client_ok ks) (MakeDataCmd_DataTrans_mbrUntpc env c)" "yields (client_ok ks) (MakeDataCmd_DataTrans_chargeAmt env c)"
  using assms unfolding make_defs Let_def
  by - (rule ok_bind [of ks] ok_bind_fst [of ks] ok_bind_snd [of ks] ok_intro ok_rules | assumption | simp del: tx_fill.simps)+

lemma ok_MakeDataCmd_StopTs [ok_rules]: "client_ok ks c \<Longrightarrow> yields (client_ok ks) (MakeDataCmd_StopTs env c)"
  unfolding MakeDataCmd_StopTs_def Let_def by (rule ok_bind [of ks] ok_bind_fst [of ks] ok_bind_snd [of ks] ok_intro ok_rules | assumption | simp del: tx_fill.simps)+


section \<open>Responses\<close>

lemma ok_each:
  assumes "\<And>p c. client_ok ks c \<Longrightarrow> yields (client_ok ks) (f p c)"
  shows "client_ok ks c \<Longrightarrow> yields (client_ok ks) (each f ps c)"
  using assms by (induction ps arbitrary: c) (auto intro: yields_Some ok_bind [of ks])

lemma ok_clock [simp]: "client_ok ks c \<Longrightarrow> client_ok ks (TsctCheckNetTimeSet env c)"
  by (simp add: TsctCheckNetTimeSet_def)

lemma ok_auth_info: "client_ok ks c \<Longrightarrow> yields (client_ok ks) (auth_info p c)"
  unfolding auth_info_def
  by (intro yields_rules) (auto simp: client_ok_def client_sizes_def blit_Some)

lemma ok_DataProcCmd_Auth [ok_rules]: "client_ok ks c \<Longrightarrow> yields (client_ok ks) (DataProcCmd_Auth c)"
  unfolding DataProcCmd_Auth_def by (rule ok_bind [of ks] ok_bind_fst [of ks] ok_bind_snd [of ks] ok_intro ok_rules ok_each ok_auth_info | assumption | simp)+

lemma ok_boot_connectors: "client_ok ks c \<Longrightarrow> yields (client_ok ks) (boot_connectors is c)"
  by (induction "is" arbitrary: c) (auto intro!: yields_if yields_Some ok_set_cp ok_bind [of ks])

lemma ok_set_both [ok_rules]: "client_ok ks c \<Longrightarrow> yields (client_ok ks) (set_both code is c)"
  by (induction "is" arbitrary: c) (rule ok_bind [of ks] ok_bind_fst [of ks] ok_bind_snd [of ks] ok_intro ok_set_cp | simp | (erule meta_allE, erule meta_mp, erule (1) ok_set_pre))+

lemma ok_boot_status: "client_ok ks c \<Longrightarrow> yields (client_ok ks) (boot_status v c)"
  unfolding boot_status_def by (auto intro!: yields_if yields_Some yields_bind ok_boot_connectors ok_set_both simp del: set_both.simps boot_connectors.simps)

lemma ok_boot_prop: "client_ok ks c \<Longrightarrow> yields (client_ok ks) (boot_prop env p c)"
  unfolding boot_prop_def Let_def
  by (auto intro!: yields_if yields_Some yields_bind ok_boot_status ok_clock ok_key_put)

lemma ok_DataProcCmd_Boot [ok_rules]: "client_ok ks c \<Longrightarrow> yields (client_ok ks) (DataProcCmd_Boot env c)"
  unfolding DataProcCmd_Boot_def by (auto intro!: yields_bind ok_each ok_boot_prop)

lemma ok_DataProcCmd_HB [ok_rules]: "client_ok ks c \<Longrightarrow> yields (client_ok ks) (DataProcCmd_HB env c)"
  unfolding DataProcCmd_HB_def by (rule ok_bind [of ks] ok_bind_fst [of ks] ok_bind_snd [of ks] ok_intro ok_rules | assumption | simp)+

lemma ok_startts_info: "client_ok ks c \<Longrightarrow> yields (client_ok ks) (startts_info p c)"
  by (simp add: startts_info_def yields_def)

lemma ok_startts_prop: "client_ok ks c \<Longrightarrow> yields (client_ok ks) (startts_prop env p c)"
  unfolding startts_prop_def
  by (intro yields_rules ok_each ok_startts_info) (auto simp: client_ok_def client_sizes_def wr_Some)

lemma ok_DataProcCmd_StartTs [ok_rules]: "client_ok ks c \<Longrightarrow> yields (client_ok ks) (DataProcCmd_StartTs env c)"
  unfolding DataProcCmd_StartTs_def by (auto intro!: yields_bind ok_each ok_startts_prop)

lemma ok_DataProcCmd_Stat [ok_rules]: "client_ok ks c \<Longrightarrow> yields (client_ok ks) (DataProcCmd_Stat c)"
  unfolding DataProcCmd_Stat_def Let_def by (auto intro!: yields_bind yields_Some dest: ok_set_pre)

lemma ok_DataProcCmd_StopTs [ok_rules]: "client_ok ks c \<Longrightarrow> yields (client_ok ks) (DataProcCmd_StopTs env c)"
  unfolding DataProcCmd_StopTs_def Let_def
  by (rule ok_bind [of ks] yields_bind yields_if yields_Some ok_rules | assumption | simp | simp add: client_ok_def client_sizes_def)+

lemma ok_DataProcCmd_DataTransCp [ok_rules]: "client_ok ks c \<Longrightarrow> yields (client_ok ks) (DataProcCmd_DataTransCp c)"
  unfolding DataProcCmd_DataTransCp_def transfer_dispatch_def transfer_member_def transfer_amounts_def
  by (rule ok_bind [of ks] ok_bind_fst [of ks] ok_bind_snd [of ks] ok_intro ok_rules | assumption | simp
    | (rule ok_rxs, assumption, simp add: ok_rx_sizes))+

section \<open>Requests of the server\<close>

lemma ok_MakeCallRes [ok_rules]: "client_ok ks c \<Longrightarrow> yields (client_ok ks) (MakeCallRes ret c)"
  unfolding MakeCallRes_def by (intro ok_tx_fill ok_tx_result)

lemma ok_avail_mark: "client_ok ks c \<Longrightarrow> yields (client_ok ks) (avail_mark code i c)"
  unfolding avail_mark_def Let_def by (auto intro!: yields_bind ok_set_cp)

lemma ok_avail_set: "client_ok ks c \<Longrightarrow> yields (client_ok ks) (avail_set i b c)"
  unfolding avail_set_def avail_on_def avail_off_def
  by (auto intro!: yields_if yields_Some ok_bind [of ks] ok_avail_mark)

lemma ok_DataProcCmd_ChangeAvail [ok_rules]: "client_ok ks c \<Longrightarrow> yields (client_ok ks) (DataProcCmd_ChangeAvail c)"
  unfolding DataProcCmd_ChangeAvail_def Let_def by (rule ok_bind [of ks] ok_bind_fst [of ks] ok_bind_snd [of ks] ok_intro ok_rules ok_avail_set | assumption | simp)+

lemma ok_cfg:
  assumes "client_ok ks c" "i \<in> {0, 1, 2, 5, 6, 7, 10, 13, 14, 20, 23}"
  shows "yields (\<lambda>x. client_ok ks (snd x)) (cfg_number i v c)" "yields (\<lambda>x. client_ok ks (snd x)) (cfg_bool i v c)"
    "yields (\<lambda>x. client_ok ks (snd x)) (cfg_flag i v c)"
proof -
  have p: "yields (client_ok ks) (cfg_put i w c)" for w
    unfolding cfg_put_def by (intro yields_rules ok_key_put assms)
  show "yields (\<lambda>x. client_ok ks (snd x)) (cfg_number i v c)"
    unfolding cfg_number_def by (rule ok_bind [of ks] ok_bind_fst [of ks] ok_bind_snd [of ks] ok_intro p | simp add: assms(1))+
  show "yields (\<lambda>x. client_ok ks (snd x)) (cfg_bool i v c)"
    unfolding cfg_bool_def using assms(1) p by (auto intro!: yields_map yields_if yields_Some)
  show "yields (\<lambda>x. client_ok ks (snd x)) (cfg_flag i v c)"
    unfolding cfg_flag_def using p by (auto intro!: yields_map)
qed

lemma ok_change_key: "client_ok ks c \<Longrightarrow> yields (\<lambda>x. client_ok ks (snd x)) (change_key key p c)"
  unfolding change_key_def by (intro yields_if ok_cfg yields_Some) simp_all

lemma ok_DataProcCmd_ChangeConfig [ok_rules]: "client_ok ks c \<Longrightarrow> yields (client_ok ks) (DataProcCmd_ChangeConfig c)"
  unfolding DataProcCmd_ChangeConfig_def by (rule ok_bind [of ks] ok_bind_fst [of ks] ok_bind_snd [of ks] ok_intro ok_rules ok_change_key | assumption | simp)+

lemma ok_DataProcCmd_GetConfig [ok_rules]: "client_ok ks c \<Longrightarrow> yields (client_ok ks) (DataProcCmd_GetConfig c)"
  unfolding DataProcCmd_GetConfig_def Let_def
  by (auto intro!: yields_bind yields_if ok_tx_upd ok_tx_result split: sum.split)

lemma ok_url:
  assumes "client_ok ks c"
  shows "blit (diagLogUrl c) 0 v = Some u \<Longrightarrow> client_ok ks (c\<lparr>diagLogUrl := u\<rparr>)"
    "blit (fwUpdateUrl c) 0 v = Some u' \<Longrightarrow> client_ok ks (c\<lparr>fwUpdateUrl := u'\<rparr>)"
    "blit (fw_Time_Stamp c) 0 v = Some u'' \<Longrightarrow> client_ok ks (c\<lparr>fw_Time_Stamp := u''\<rparr>)"
  using assms by (auto simp: client_ok_def client_sizes_def blit_Some)

lemma ok_url_props:
  assumes "client_ok ks c"
  shows "yields (client_ok ks) (diag_prop p c)" "yields (client_ok ks) (unlock_prop p c)"
  unfolding diag_prop_def unlock_prop_def using assms by (auto intro!: yields_bind yields_if yields_Some dest: ok_url)

lemma ok_DataProcCmd_GetDiag [ok_rules]: "client_ok ks c \<Longrightarrow> yields (client_ok ks) (DataProcCmd_GetDiag c)"
  unfolding DataProcCmd_GetDiag_def by (rule ok_bind [of ks] ok_bind_fst [of ks] ok_bind_snd [of ks] ok_intro ok_rules ok_each ok_url_props | assumption | simp del: tx_fill.simps)+

lemma ok_DataProcCmd_UnlockConnect [ok_rules]: "client_ok ks c \<Longrightarrow> yields (client_ok ks) (DataProcCmd_UnlockConnect c)"
  unfolding DataProcCmd_UnlockConnect_def by (rule ok_bind [of ks] ok_bind_fst [of ks] ok_bind_snd [of ks] ok_intro ok_rules ok_each ok_url_props | assumption | simp)+

lemma ok_update_prop: "client_ok ks c \<Longrightarrow> yields (client_ok ks) (update_prop p c)"
  unfolding update_prop_def
  by (auto intro!: yields_bind yields_Some simp: client_ok_def client_sizes_def blit_Some split: if_splits)

lemma ok_DataProcCmd_UpdateFw [ok_rules]: "client_ok ks c \<Longrightarrow> yields (client_ok ks) (DataProcCmd_UpdateFw c)"
  unfolding DataProcCmd_UpdateFw_def by (rule ok_bind [of ks] ok_bind_fst [of ks] ok_bind_snd [of ks] ok_intro ok_rules ok_each ok_update_prop | assumption | simp)+

lemma ok_rmstart_props:
  "client_ok ks (snd (snd x)) \<Longrightarrow> yields (\<lambda>x. client_ok ks (snd (snd x))) (each rmstart_prop ps x)"
proof (induction ps arbitrary: x)
  case (Cons p ps)
  have "yields (\<lambda>x. client_ok ks (snd (snd x))) (rmstart_prop p x)"
    unfolding rmstart_prop_def using Cons.prems
    by (intro yields_rules) (auto simp: client_ok_def client_sizes_def slice_Some)
  then show ?case using Cons.IH by (cases "rmstart_prop p x") (auto simp: yields_def)
qed (simp add: yields_Some)

lemma ok_DataProcCmd_RmStart [ok_rules]:
  assumes "client_ok ks c"
  shows "yields (client_ok ks) (DataProcCmd_RmStart c)"
proof -
  have "client_ok ks c'" if "each rmstart_prop ps (False, 1, c) = Some (tag, no, c')" for ps tag no c'
    using yieldsD [OF ok_rmstart_props [of ks "(False, 1, c)" ps] that] assms by simp
  then show ?thesis unfolding DataProcCmd_RmStart_def
    by (auto intro!: yields_bind yields_if ok_MakeCallRes)
qed

lemma ok_simple_calls [ok_rules]:
  assumes "client_ok ks c"
  shows "yields (client_ok ks) (DataProcCmd_ClearCache c)" "yields (client_ok ks) (DataProcCmd_ClearChargeProf c)"
    "yields (client_ok ks) (DataProcCmd_SenLocalList c)" "yields (client_ok ks) (DataProcCmd_GetLocalListVer c)"
    "yields (client_ok ks) (DataProcCmd_RmStopTr env c)" "yields (client_ok ks) (DataProcCmd_Reset c)"
    "yields (client_ok ks) (DataProcCmd_TriggerMsg c)" "yields (client_ok ks) (DataProcCmd_DataTransCs g c)"
  using assms unfolding DataProcCmd_ClearCache_def DataProcCmd_ClearChargeProf_def DataProcCmd_SenLocalList_def
    DataProcCmd_GetLocalListVer_def DataProcCmd_RmStopTr_def DataProcCmd_Reset_def DataProcCmd_TriggerMsg_def DataProcCmd_DataTransCs_def Let_def
  by (auto intro!: yields_bind yields_if yields_prod yields_None ok_MakeCallRes ok_tx_fill ok_tx_result simp del: tx_fill.simps)

section \<open>The two tasks\<close>

lemma length_written [simp]: "length (written n ps) = length ps"
  by (simp add: written_def)

lemma Make_Ocpp_Msg_fields:
  "Make_Ocpp_Msg bat rid m = Some (b, m') \<Longrightarrow>
   tx_type m' = tx_type m \<and> tx_id m' = tx_id m \<and> tx_action m' = tx_action m \<and> length (tx_payload m') = length (tx_payload m)"
  by (auto simp: Make_Ocpp_Msg_def Let_def split: bind_splits if_splits)

lemma ok_Clear_Rx [simp]: "client_ok ks c \<Longrightarrow> client_ok ks (Clear_Rx_Msg_Buff c)"
  unfolding Clear_Rx_Msg_Buff_def by (intro ok_rxs rx_sizes_clear ok_rx_sizes)

lemma ok_Trans [ok_rules]: "client_ok ks c \<Longrightarrow> yields (\<lambda>x. client_ok ks (fst x)) (Tsct_Curl_Ws_Trans bat env ok c)"
  unfolding Tsct_Curl_Ws_Trans_def Let_def
  by (intro yields_rules) (auto dest!: Make_Ocpp_Msg_fields simp: client_ok_def client_sizes_def Clear_Rx_Msg_Buff_def)

lemma ok_Rx_CallRes [ok_rules]: "client_ok ks c \<Longrightarrow> yields (client_ok ks) (Rx_CallRes_DataProc env c)"
  unfolding Rx_CallRes_DataProc_def Let_def DataProcCmd_MeterVal_def by (rule yields_if yields_Some ok_rules | assumption | simp)+

lemma ok_Rx_Call [ok_rules]: "client_ok ks c \<Longrightarrow> yields (\<lambda>x. client_ok ks (snd x)) (Rx_Call_DataProc g env cmd c)"
  unfolding Rx_Call_DataProc_def Let_def by (rule yields_if yields_Some yields_map ok_rules | simp only: snd_conv ok_tx id_apply | assumption)+

lemma ok_recv_result [ok_rules]: "client_ok ks c \<Longrightarrow> yields (client_ok ks) (recv_result env c)"
  unfolding recv_result_def by (intro yields_if yields_Some ok_Rx_CallRes) simp_all

lemma ok_recv_dispatch [ok_rules]: "client_ok ks c \<Longrightarrow> yields (\<lambda>x. client_ok ks (fst x)) (recv_dispatch bat g env ok c)"
  unfolding recv_dispatch_def Let_def
  by (rule ok_bind_snd [of ks] ok_intro ok_rules | assumption | simp)+

lemma ok_Tsct_Curl_Ws_Recv [ok_rules]:
  "client_ok ks c \<Longrightarrow> yields (\<lambda>x. client_ok ks (fst x)) (Tsct_Curl_Ws_Recv bat g g' env ok ret c)"
  unfolding Tsct_Curl_Ws_Recv_def Let_def
proof (cases ret)
  case (Recv_data data)
  let ?c = "Clear_Rx_Msg_Buff (c\<lparr>bRecvConnCnt := 0\<rparr>)"
  assume "client_ok ks c"
  then have o: "client_ok ks ?c" by simp
  have "client_ok ks (?c\<lparr>rxs := r\<rparr>)"
    if b: "blit (curl_ws_recv_buf (rxs ?c)) 0 data = Some b1" "wr b1 (length data) 0 = Some b2"
      "Parse_Data a g (length data) ((rxs ?c)\<lparr>curl_ws_recv_buf := b2\<rparr>) = Some (e, r)" for b1 b2 a e r
    by (rule ok_rxs [OF o Parse_Data_sizes [OF b(3) rx_sizes_buf [OF ok_rx_sizes [OF o]]]])
      (use b(1,2) rx_sizes_length [OF ok_rx_sizes [OF o]] in \<open>simp add: blit_Some wr_Some\<close>)
  then show "yields (\<lambda>x. client_ok ks (fst x)) (case ret of Recv_again \<Rightarrow> Some (c, []) | Recv_error \<Rightarrow> Some ((Clear_Rx_Msg_Buff c)\<lparr>bConnect := False\<rparr>, [])
      | Recv_data data \<Rightarrow> blit (curl_ws_recv_buf (rxs ?c)) 0 data \<bind> (\<lambda>buf. wr buf (length data) 0 \<bind>
          (\<lambda>buf. Parse_Data (w8 (cp_action_no (tx_action (Call_Tx_Msg ?c)))) g (length data) ((rxs ?c)\<lparr>curl_ws_recv_buf := buf\<rparr>) \<bind>
          (\<lambda>(err, r). if err \<noteq> 0 then Some (?c\<lparr>rxs := r\<rparr>, []) else recv_dispatch bat g' env ok (?c\<lparr>rxs := r\<rparr>)))))"
    unfolding Recv_data by (auto intro!: yields_bind yields_prod yields_if yields_Some ok_recv_dispatch)
qed (auto intro!: yields_Some)

lemma ok_WSRxThread: "client_ok ks c \<Longrightarrow> yields (\<lambda>x. client_ok ks (fst x)) (WSRxThread bat g g' env ok ret c)"
  unfolding WSRxThread_def by (intro yields_if ok_Tsct_Curl_Ws_Recv yields_Some) simp_all

lemma ok_sent: "yields (client_ok ks) r \<Longrightarrow> yields (\<lambda>x. client_ok ks (fst x)) (sent r)"
  by (simp add: sent_def yields_map)

lemma ok_send_status [ok_rules]: "client_ok ks c \<Longrightarrow> yields (client_ok ks) (send_status env i c)"
  unfolding send_status_def by (rule ok_bind [of ks] ok_intro ok_rules | assumption | simp)+

lemma ok_send_stop [ok_rules]:
  assumes "client_ok ks c"
  shows "yields (client_ok ks) (send_stop env c)"
proof -
  have tag: "client_ok ks (x\<lparr>StopTs_Time := dt, ses := (ses x)\<lparr>StopTs_MeterStop := w, StopTs_IdTag := tg\<rparr>\<rparr>)" if "client_ok ks x" for x dt w tg
    using that by (simp add: client_ok_def client_sizes_def)
  show ?thesis unfolding send_stop_def using assms
    by - (rule ok_bind [of ks] yields_bind ok_MakeDataCmd_StopTs ok_Add_MeterVal_Q tag | assumption | simp)+
qed

lemma ok_send_triggered [ok_rules]: "client_ok ks c \<Longrightarrow> yields (\<lambda>x. client_ok ks (fst x)) (send_triggered env c)"
  unfolding send_triggered_def Let_def
  by (cases "triggerMsgStat c") (rule ok_sent yields_Some ok_bind [of ks] ok_make ok_Add_MeterVal_Q | assumption | simp)+

lemma ok_send_fw [ok_rules]: "client_ok ks c \<Longrightarrow> yields (client_ok ks) (send_fw env n c)"
  unfolding send_fw_def Let_def all_available_def by (rule ok_bind [of ks] yields_Some ok_make | assumption | simp)+

lemma ok_scenario_reports [ok_rules]: "client_ok ks c \<Longrightarrow> yields (\<lambda>x. client_ok ks (fst x)) (scenario_reports env c)"
  unfolding scenario_reports_def Let_def
  by (rule ok_sent ok_intro ok_make ok_send_fw | assumption | simp)+

lemma ok_scenario_session [ok_rules]: "client_ok ks c \<Longrightarrow> yields (\<lambda>x. client_ok ks (fst x)) (scenario_session env c)"
  unfolding scenario_session_def
  by (rule ok_sent ok_bind_fst [of ks] ok_intro ok_rules | assumption | simp)+

lemma ok_period [ok_rules]:
  assumes "client_ok ks c"
  shows "yields (\<lambda>x. client_ok ks (snd x)) (Check_Meter_Time env c)" "yields (\<lambda>x. client_ok ks (snd x)) (Check_Sampled_Time env c)"
  using assms unfolding Check_Meter_Time_def Check_Sampled_Time_def Let_def
  by - (rule yields_bind yields_if yields_Some yields_prod | assumption | simp)+

lemma ok_OCPP_CALL_Senario [ok_rules]: "client_ok ks c \<Longrightarrow> yields (\<lambda>x. client_ok ks (fst x)) (OCPP_CALL_Senario env c)"
  unfolding OCPP_CALL_Senario_def Let_def
  by (rule ok_sent ok_bind_snd [of ks] ok_intro ok_rules | assumption | simp)+

lemma ok_NetRun [ok_rules]: "client_ok ks c \<Longrightarrow> yields (\<lambda>x. client_ok ks (fst x)) (NetRun bat env h ok c)"
  unfolding NetRun_def Let_def WS_Server_connect_def
  by (rule ok_bind_fst [of ks] ok_intro ok_rules | assumption | simp)+

lemma ok_ws_start [ok_rules]: "client_ok ks c \<Longrightarrow> yields (client_ok ks) (ws_start_request env c)"
  unfolding ws_start_request_def
  by (intro yields_if yields_bind yields_Some) (auto simp: client_ok_def client_sizes_def wr_Some)

lemma ok_ws_sample [ok_rules]: "client_ok ks c \<Longrightarrow> yields (client_ok ks) (ws_sample env c)"
  unfolding ws_sample_def
  by (rule ok_bind_snd [of ks] yields_prod yields_if yields_map yields_Some ok_rules | assumption | simp)+

lemma ok_WSClientThread:
  "client_ok ks c \<Longrightarrow> yields (\<lambda>x. client_ok ks (snd (fst x))) (WSClientThread bat env net (t, c))"
  unfolding WSClientThread_def Let_def
  by (rule ok_bind [of ks] yields_prod yields_if yields_map yields_Some ok_rules | assumption | simp)+

end
