(* ===== verification/Ocpp_Frames.thy ===== *)
theory Ocpp_Frames
  imports Ocpp_Inv
begin

text \<open>
  What the operations of the OCPP client do to the waiting flag and to the outgoing message: handlers of responses leave
  the message alone, handlers of requests turn it into a response, \<open>MakeDataCmd_*\<close> into a call, and a message that is
  handed to the writer counts only elements that exist.
\<close>

section \<open>Frames of the handlers\<close>

text \<open>\<open>wt w Q c\<close>: the waiting flag is \<open>w\<close> and the outgoing message satisfies \<open>Q\<close>.\<close>

definition wt :: "bool \<Rightarrow> (tx_msg \<Rightarrow> bool) \<Rightarrow> client \<Rightarrow> bool" where
  "wt w Q c \<longleftrightarrow> bWaitResFlg c = w \<and> Q (Tx_Msg c)"

text \<open>A message without counted elements, and one that can be written: counted elements belong to an array that the message
  contains, and exist.\<close>

definition quiet :: "tx_msg \<Rightarrow> bool" where
  "quiet m \<longleftrightarrow> (\<forall>p \<in> set (tx_payload m). tp_len p = 0)"

definition idle :: "u8 \<Rightarrow> tx_msg \<Rightarrow> bool" where
  "idle k m \<longleftrightarrow> tx_type m = k \<and> quiet m"

definition ready :: "u8 \<Rightarrow> tx_msg \<Rightarrow> bool" where
  "ready k m \<longleftrightarrow> tx_type m = k \<and> (\<forall>i < length (tx_payload m). tp_len (tx_payload m ! i) = 0 \<or>
     i < unat (tx_len m) \<and> tp_type (tx_payload m ! i) = TYPE_CODE_ARR \<and>
     unat (tp_len (tx_payload m ! i)) \<le> length (tp_sub (tx_payload m ! i)))"

lemma idle_ready: "idle k m \<Longrightarrow> ready k m"
  by (simp add: idle_def quiet_def ready_def)

lemma wt_idle_quiet: "wt w (idle k) c \<Longrightarrow> wt w quiet c"
  by (simp add: wt_def idle_def)

lemma wt_idle_ready: "wt w (idle k) c \<Longrightarrow> wt w (ready k) c"
  by (simp add: wt_def idle_ready)

definition put_closed :: "(tx_msg \<Rightarrow> bool) \<Rightarrow> bool" where
  "put_closed Q \<longleftrightarrow> (\<forall>m i x. Q m \<longrightarrow> i < length (tx_payload m) \<longrightarrow>
     Q (m\<lparr>tx_payload := (tx_payload m)[i := tx_put x (tx_payload m ! i)]\<rparr>))"

lemma put_closed_idle [simp]: "put_closed quiet" "put_closed (idle k)" "put_closed (\<lambda>m. idle k m \<and> tx_len m = l)"
  by (auto simp: put_closed_def idle_def quiet_def dest!: set_update_subset_insert [THEN subsetD])

lemma yields_weaken: "yields P r \<Longrightarrow> (\<And>x. P x \<Longrightarrow> Q x) \<Longrightarrow> yields Q r"
  by (simp add: yields_def)

lemma yields_sum: "(\<And>a. x = Inl a \<Longrightarrow> yields P (f a)) \<Longrightarrow> (\<And>b. x = Inr b \<Longrightarrow> yields P (g b)) \<Longrightarrow> yields P (case x of Inl a \<Rightarrow> f a | Inr b \<Rightarrow> g b)"
  by (cases x) simp_all

lemma bind_via: "yields P r \<Longrightarrow> (\<And>x. P x \<Longrightarrow> yields Q (f x)) \<Longrightarrow> yields Q (Option.bind r f)"
  by (cases r) (simp_all add: yields_def)

named_theorems wt_rules \<open>operations that keep waiting flag and message type\<close>

lemma wt_ses [simp]: "wt w Q (c\<lparr>ses := s\<rparr>) = wt w Q c"
  by (simp add: wt_def)

lemma wt_set_cp [wt_rules]: "wt w Q c \<Longrightarrow> yields (wt w Q) (set_cp code i c)"
  by (auto simp: set_cp_def yields_def split: bind_splits)

lemma wt_tx_upd:
  assumes "wt w Q c" "\<And>p. i < length (tx_payload (Tx_Msg c)) \<Longrightarrow> Q' ((Tx_Msg c)\<lparr>tx_payload := (tx_payload (Tx_Msg c))[i := f (tx_payload (Tx_Msg c) ! i)]\<rparr>)"
  shows "yields (wt w Q') (tx_upd i f c)"
  using assms by (auto simp: tx_upd_def yields_def wt_def rd_Some split: bind_splits)

lemma wt_tx_fill:
  assumes "put_closed Q"
  shows "wt w Q c \<Longrightarrow> yields (wt w Q) (tx_fill i ps c)"
proof (induction ps arbitrary: i c)
  case (Cons x ps)
  have "yields (wt w Q) (tx_upd i (tx_put x) c)"
    using Cons.prems assms [unfolded put_closed_def, rule_format] by (intro wt_tx_upd) (simp_all add: wt_def)
  then show ?case using Cons.IH by (auto intro: bind_via)
qed (simp add: yields_Some)

lemma wt_tx_call: "wt w quiet c \<Longrightarrow> wt w (\<lambda>m. idle 2 m \<and> tx_len m = w8 n) (tx_call u a n c)"
  by (simp add: tx_call_def wt_def idle_def quiet_def)

lemma wt_tx_result: "wt w (idle 3) c \<Longrightarrow> wt w (idle 3) (tx_result n c)"
  by (simp add: tx_result_def wt_def idle_def quiet_def)

lemma wt_MakeCallRes [wt_rules]: "wt w (idle 3) c \<Longrightarrow> yields (wt w (idle 3)) (MakeCallRes r c)"
  unfolding MakeCallRes_def by (intro wt_tx_fill wt_tx_result put_closed_idle)

lemma wt_Reset_MeterVal_Q [wt_rules]: "wt w Q c \<Longrightarrow> wt w Q (Reset_MeterVal_Q c)"
  by (simp add: Reset_MeterVal_Q_def Let_def wt_def)

lemma wt_clock [wt_rules]: "wt w Q c \<Longrightarrow> wt w Q (TsctCheckNetTimeSet env c)"
  by (simp add: TsctCheckNetTimeSet_def wt_def)

lemma wt_each:
  assumes "\<And>p c. wt w Q c \<Longrightarrow> yields (wt w Q) (f p c)"
  shows "wt w Q c \<Longrightarrow> yields (wt w Q) (each f ps c)"
  using assms by (induction ps arbitrary: c) (auto intro: yields_Some bind_via [of "wt w Q"])

lemma wt_boot_connectors: "wt w Q c \<Longrightarrow> yields (wt w Q) (boot_connectors is c)"
  by (induction "is" arbitrary: c) (auto intro!: yields_if yields_Some wt_set_cp bind_via [of "wt w Q"], simp_all add: wt_def)

lemma wt_set_both: "wt w Q c \<Longrightarrow> yields (wt w Q) (set_both code is c)"
proof (induction "is" arbitrary: c)
  case (Cons i "is")
  have h: "yields (wt w Q) (set_both code is (x\<lparr>bPreCpStat := pre\<rparr>))" if "wt w Q x" for x pre
    using that by (intro Cons.IH) (simp add: wt_def)
  show ?case unfolding set_both.simps using Cons.prems
    by - (rule bind_via [of "wt w Q"] yields_bind wt_set_cp h | assumption)+
qed (simp add: yields_Some)

lemma wt_boot_prop: "wt w Q c \<Longrightarrow> yields (wt w Q) (boot_prop env p c)"
  unfolding boot_prop_def boot_status_def Let_def
  by (rule yields_if yields_bind yields_Some wt_boot_connectors wt_set_both wt_clock | assumption | simp add: wt_def del: set_both.simps boot_connectors.simps)+

lemma wt_auth_info: "wt w Q c \<Longrightarrow> yields (wt w Q) (auth_info p c)"
  unfolding auth_info_def by (intro yields_rules) (auto simp: wt_def)

lemma wt_startts_prop: "wt w Q c \<Longrightarrow> yields (wt w Q) (startts_prop env p c)"
  unfolding startts_prop_def startts_info_def
  by (intro yields_rules wt_each) (auto simp: wt_def)

lemma wt_Rx_CallRes [wt_rules]:
  assumes "wt w Q c"
  shows "yields (wt w Q) (Rx_CallRes_DataProc env c)"
proof -
  have a: "yields (wt w Q) (DataProcCmd_Auth c)"
    unfolding DataProcCmd_Auth_def using assms
    by - (rule bind_via [of "wt w Q"] yields_bind yields_if yields_Some wt_each wt_auth_info | assumption | simp)+
  have b: "yields (wt w Q) (DataProcCmd_Boot env c)"
    unfolding DataProcCmd_Boot_def using assms by - (rule yields_bind wt_each wt_boot_prop | assumption)+
  have d: "yields (wt w Q) (DataProcCmd_DataTransCp c)"
    unfolding DataProcCmd_DataTransCp_def transfer_dispatch_def transfer_member_def transfer_amounts_def using assms
    by - (rule bind_via [of "wt w Q"] yields_option yields_if yields_bind yields_Some yields_None | assumption | simp add: wt_def)+
  have h: "yields (wt w Q) (DataProcCmd_HB env c)"
    unfolding DataProcCmd_HB_def TsctCheckNetTimeSet_def using assms
    by - (rule bind_via [of "wt w Q"] yields_if yields_bind yields_Some | assumption | simp add: wt_def)+
  have s: "yields (wt w Q) (DataProcCmd_StartTs env c)"
    unfolding DataProcCmd_StartTs_def using assms
    by - (rule yields_bind wt_each wt_startts_prop | assumption | simp add: wt_def)+
  have t: "yields (wt w Q) (DataProcCmd_Stat c)"
    unfolding DataProcCmd_Stat_def Let_def using assms by - (rule yields_bind yields_Some | simp add: wt_def)+
  have u: "yields (wt w Q) (DataProcCmd_StopTs env c)"
    unfolding DataProcCmd_StopTs_def Let_def using assms
    by - (rule bind_via [of "wt w Q"] yields_bind yields_if yields_Some wt_set_cp wt_Reset_MeterVal_Q | assumption | simp add: wt_def)+
  show ?thesis unfolding Rx_CallRes_DataProc_def Let_def DataProcCmd_MeterVal_def using assms
    by - (rule yields_if yields_Some a b d h s t u wt_Reset_MeterVal_Q | assumption)+
qed

lemma wt_avail_set: "wt w Q c \<Longrightarrow> yields (wt w Q) (avail_set i b c)"
  unfolding avail_set_def avail_on_def avail_off_def avail_mark_def Let_def
  by (rule bind_via [of "wt w Q"] yields_bind yields_if yields_Some wt_set_cp | assumption | simp add: wt_def)+

lemma wt_change_key: "wt w Q c \<Longrightarrow> yields (\<lambda>x. wt w Q (snd x)) (change_key key p c)"
  unfolding change_key_def cfg_number_def cfg_bool_def cfg_flag_def cfg_put_def
  by (rule bind_via [of "wt w Q"] yields_if yields_map yields_bind yields_Some | simp add: wt_def)+

lemma wt_rmstart_props: "wt w Q (snd (snd x)) \<Longrightarrow> yields (\<lambda>x. wt w Q (snd (snd x))) (each rmstart_prop ps x)"
proof (induction ps arbitrary: x)
  case (Cons p ps)
  have "yields (\<lambda>x. wt w Q (snd (snd x))) (rmstart_prop p x)"
    unfolding rmstart_prop_def using Cons.prems by (intro yields_rules) (auto simp: wt_def)
  then show ?case using Cons.IH by (cases "rmstart_prop p x") (auto simp: yields_def)
qed (simp add: yields_Some)

lemma wt_DataProcCmd_RmStart: "wt w (idle 3) c \<Longrightarrow> yields (wt w (idle 3)) (DataProcCmd_RmStart c)"
proof -
  assume c: "wt w (idle 3) c"
  have "wt w (idle 3) c'" if "each rmstart_prop ps (False, 1, c) = Some (tag, no, c')" for ps tag no c'
    using yieldsD [OF wt_rmstart_props [of w "idle 3" "(False, 1, c)" ps] that] c by simp
  then show ?thesis unfolding DataProcCmd_RmStart_def
    by (auto intro!: yields_bind yields_if wt_MakeCallRes simp: wt_def)
qed

lemma wt_props:
  assumes "wt w Q c"
  shows "yields (wt w Q) (diag_prop p c)" "yields (wt w Q) (unlock_prop p c)" "yields (wt w Q) (update_prop p c)"
  using assms unfolding diag_prop_def unlock_prop_def update_prop_def
  by - (rule yields_bind yields_if yields_Some | simp add: wt_def)+

lemma idle_update:
  assumes "idle k m" "i < unat (tx_len m)" "i < length (tx_payload m)"
    and "tp_len p = 0 \<or> tp_type p = TYPE_CODE_ARR \<and> unat (tp_len p) \<le> length (tp_sub p)"
  shows "ready k (m\<lparr>tx_payload := (tx_payload m)[i := p]\<rparr>)"
  using assms by (auto simp: idle_def quiet_def ready_def nth_list_update)

lemma unat_w8_le: "unat (w8 n) \<le> n"
  by (simp add: w8_def unat_of_nat)

lemma wt_GetConfig:
  assumes "wt w (idle 3) d"
  shows "yields (wt w (ready 3)) (DataProcCmd_GetConfig d)"
proof -
  have k: "yields (wt w (ready 3)) (tx_upd 0 f (tx_result 1 d))"
    if "\<And>p. tp_len p = 0 \<Longrightarrow> tp_len (f p) = 0 \<or> tp_type (f p) = TYPE_CODE_ARR \<and> unat (tp_len (f p)) \<le> length (tp_sub (f p))" for f
  proof (rule wt_tx_upd [OF wt_tx_result [OF assms]])
    fix p :: tx_prop
    assume l: "0 < length (tx_payload (Tx_Msg (tx_result 1 d)))"
    have i: "idle 3 (Tx_Msg (tx_result 1 d))" using wt_tx_result [OF assms] by (simp add: wt_def)
    then have "tp_len (tx_payload (Tx_Msg (tx_result 1 d)) ! 0) = 0" using l by (simp add: idle_def quiet_def)
    then show "ready 3 ((Tx_Msg (tx_result 1 d))\<lparr>tx_payload := (tx_payload (Tx_Msg (tx_result 1 d)))[0 := f (tx_payload (Tx_Msg (tx_result 1 d)) ! 0)]\<rparr>)"
      using i l that by (intro idle_update) (simp_all add: tx_result_def unat_w8)
  qed
  have keys: "yields (wt w (ready 3)) (tx_upd 0 (put_keys n subs) (tx_result 1 d))" for n subs
    by (rule k) (simp add: put_keys_def unat_w8_le)
  have none: "yields (wt w (ready 3)) (tx_upd 0 put_unknown (tx_result 1 d))"
    by (rule k) (simp add: put_unknown_def)
  have unk: "yields (wt w (ready 3)) (tx_upd 0 (\<lambda>p. put_unknown (put_keys ''unknownKey'' [] p)) (tx_result 1 d))"
    by (rule k) (simp add: put_unknown_def put_keys_def w8_def)
  show ?thesis unfolding DataProcCmd_GetConfig_def Let_def
    by (rule yields_if yields_bind yields_sum keys none unk)+
qed

lemma wt_Rx_Call:
  assumes "wt w quiet c"
  shows "yields (\<lambda>x. wt w (if fst x then idle 3 else ready 3) (snd x)) (Rx_Call_DataProc g env cmd c)"
    "yields (\<lambda>x. wt w (idle 3) (snd x)) (Rx_Call_DataProc g env 6 c)"
proof -
  define d where "d = c\<lparr>Tx_Msg := (Tx_Msg c)\<lparr>tx_type := 3\<rparr>\<rparr>"
  have d: "wt w (idle 3) d" using assms by (simp add: d_def wt_def idle_def quiet_def)
  have a: "yields (wt w (idle 3)) (DataProcCmd_ChangeAvail d)"
    unfolding DataProcCmd_ChangeAvail_def Let_def using d
    by - (rule bind_via [of "wt w (idle 3)"] yields_bind yields_if yields_Some wt_avail_set wt_MakeCallRes | assumption | simp add: wt_def)+
  have b: "yields (wt w (idle 3)) (DataProcCmd_ChangeConfig d)"
    unfolding DataProcCmd_ChangeConfig_def using d
    by - (rule yields_bind, rule yields_bind, rule bind_via [of "\<lambda>x. wt w (idle 3) (snd x)"],
        (rule yields_if wt_change_key yields_Some | assumption | simp)+, auto intro!: wt_MakeCallRes)
  have e: "yields (wt w (ready 3)) (DataProcCmd_GetConfig d)" using d by (rule wt_GetConfig)
  have f: "yields (wt w (idle 3)) (DataProcCmd_GetDiag d)" "yields (wt w (idle 3)) (DataProcCmd_UnlockConnect d)" "yields (wt w (idle 3)) (DataProcCmd_UpdateFw d)"
    unfolding DataProcCmd_GetDiag_def DataProcCmd_UnlockConnect_def DataProcCmd_UpdateFw_def using d
    by - (rule bind_via [of "wt w (idle 3)"] yields_bind yields_Some wt_each wt_props wt_tx_fill wt_tx_result wt_MakeCallRes put_closed_idle | assumption)+
  have h: "yields (wt w (idle 3)) (DataProcCmd_ClearCache d)" "yields (wt w (idle 3)) (DataProcCmd_ClearChargeProf d)"
    "yields (wt w (idle 3)) (DataProcCmd_SenLocalList d)" "yields (wt w (idle 3)) (DataProcCmd_GetLocalListVer d)"
    "yields (wt w (idle 3)) (DataProcCmd_RmStopTr env d)" "yields (wt w (idle 3)) (DataProcCmd_Reset d)"
    "yields (wt w (idle 3)) (DataProcCmd_TriggerMsg d)" "yields (wt w (idle 3)) (DataProcCmd_DataTransCs g d)"
    unfolding DataProcCmd_ClearCache_def DataProcCmd_ClearChargeProf_def DataProcCmd_SenLocalList_def
      DataProcCmd_GetLocalListVer_def DataProcCmd_RmStopTr_def DataProcCmd_Reset_def DataProcCmd_TriggerMsg_def DataProcCmd_DataTransCs_def Let_def
    using d by - (rule yields_bind yields_if yields_prod yields_None wt_MakeCallRes wt_tx_fill wt_tx_result put_closed_idle | assumption | simp add: wt_def)+
  have i: "yields (\<lambda>x. wt w (if fst (False, x) then idle 3 else ready 3) (snd (False, x))) r" if "yields (wt w (idle 3)) r" for r
    using that by (rule yields_weaken) (simp add: wt_idle_ready)
  have j: "yields (\<lambda>x. wt w (if fst (False, x) then idle 3 else ready 3) (snd (False, x))) r" if "yields (wt w (ready 3)) r" for r
    using that by simp
  have n: "wt w (if fst (False, d) then idle 3 else ready 3) (snd (False, d))" "wt w (if fst (True, d) then idle 3 else ready 3) (snd (True, d))"
    using d by (simp_all add: wt_idle_ready)
  show "yields (\<lambda>x. wt w (if fst x then idle 3 else ready 3) (snd x)) (Rx_Call_DataProc g env cmd c)"
    unfolding Rx_Call_DataProc_def Let_def d_def [symmetric]
    by (rule yields_if yields_Some n yields_map i [OF a] i [OF b] j [OF e] i [OF f(1)] i [OF f(2)] i [OF f(3)] i [OF h(1)] i [OF h(2)]
        i [OF h(3)] i [OF h(4)] i [OF h(5)] i [OF h(6)] i [OF h(7)] i [OF h(8)] i [OF wt_DataProcCmd_RmStart [OF d]])+
  show "yields (\<lambda>x. wt w (idle 3) (snd x)) (Rx_Call_DataProc g env 6 c)"
    using h(8) by (auto simp: Rx_Call_DataProc_def Let_def d_def [symmetric] yields_def)
qed

end
