(* ===== verification/Ocpp_Write_Thms.thy ===== *)
theory Ocpp_Write_Thms
  imports Ocpp_Frames
begin

text \<open>
  The writer of OCPP messages refines the text of an abstract message: \<open>frame\<close> is a call or a result with named
  values, \<open>frame_text\<close> its text, \<open>abs_msg\<close> the message that the properties in \<open>Tx_Msg\<close> stand for.
\<close>

section \<open>Abstract messages\<close>

datatype jvalue = JString bytes | JNumber bytes | JArray "bytes list"

datatype frame = Call u64 CP_REQ_ACTION_CODE "(bytes \<times> jvalue) list" | Result bytes "(bytes \<times> jvalue) list"

fun commas :: "bytes list \<Rightarrow> bytes" where
  "commas [] = []"
| "commas [x] = x"
| "commas (x # xs) = x @ ch_comma # commas xs"

fun jvalue_text :: "jvalue \<Rightarrow> bytes" where
  "jvalue_text (JString s) = [quote] @ s @ [quote]"
| "jvalue_text (JNumber s) = s"
| "jvalue_text (JArray xs) = [ch_lbracket] @ commas xs @ [ch_rbracket]"

definition member_text :: "bytes \<times> jvalue \<Rightarrow> bytes" where
  "member_text p = [quote] @ fst p @ [quote, ch_colon] @ jvalue_text (snd p)"

definition object_text :: "(bytes \<times> jvalue) list \<Rightarrow> bytes" where
  "object_text ps = [ch_lbrace] @ commas (map member_text ps) @ [ch_rbrace]"

fun frame_text :: "frame \<Rightarrow> bytes" where
  "frame_text (Call i a ps) = str_bytes ''[2,'' @ [quote] @ dec_nat (unat i) @ [quote, ch_comma, quote] @
     str_bytes (cp_req_msg ! cp_action_no a) @ [quote, ch_comma] @ object_text ps @ [ch_rbracket]"
| "frame_text (Result i ps) = str_bytes ''[3,'' @ [quote] @ i @ [quote, ch_comma] @ object_text ps @ [ch_rbracket]"

definition abs_value :: "tx_prop \<Rightarrow> jvalue" where
  "abs_value p =
     (if tp_type p = TYPE_CODE_INT then JNumber (tp_contents p)
      else if tp_type p = TYPE_CODE_ARR then JArray (map tp_contents (take (unat (tp_len p)) (tp_sub p)))
      else JString (tp_contents p))"

definition abs_props :: "tx_msg \<Rightarrow> (bytes \<times> jvalue) list" where
  "abs_props m = map (\<lambda>p. (tp_name p, abs_value p)) (take (unat (tx_len m)) (tx_payload m))"

definition abs_msg :: "bytes \<Rightarrow> tx_msg \<Rightarrow> frame" where
  "abs_msg rx_id m = (if tx_type m = 2 then Call (tx_id m) (tx_action m) (abs_props m) else Result (cstr rx_id) (abs_props m))"

section \<open>Loops\<close>

lemma commas_append: "xs \<noteq> [] \<Longrightarrow> commas (xs @ [x]) = commas xs @ ch_comma # x"
  by (induction xs rule: commas.induct) auto

lemma commas_upt: "concat (map (\<lambda>j. (if j = 0 then [] else [ch_comma]) @ g j) [0..<n]) = commas (map g [0..<n])"
proof (induction n)
  case (Suc n)
  show ?case
  proof (cases "n = 0")
    case False
    then have "commas (map g [0..<n] @ [g n]) = commas (map g [0..<n]) @ ch_comma # g n" by (intro commas_append) simp
    then show ?thesis using Suc False by simp
  qed simp
qed simp

lemma comma_loop_pure:
  assumes "\<And>j b. i \<le> j \<Longrightarrow> j < i + n \<Longrightarrow> f j b = Some (g j, b)"
  shows "comma_loop f i n b = Some (concat (map (\<lambda>j. (if j = 0 then [] else [ch_comma]) @ g j) [i..<i + n]), b)"
  using assms
proof (induction n arbitrary: i)
  case (Suc n)
  have "comma_loop f (Suc i) n b = Some (concat (map (\<lambda>j. (if j = 0 then [] else [ch_comma]) @ g j) [Suc i..<Suc i + n]), b)"
    using Suc.prems by (intro Suc.IH) simp_all
  moreover have "[i..<i + Suc n] = i # [Suc i..<Suc i + n]" by (simp add: upt_conv_Cons del: upt_Suc)
  ultimately show ?case using Suc.prems by (simp del: upt_Suc)
qed simp

lemma comma_loop_text:
  assumes "\<And>j b. j < n \<Longrightarrow> f j b = Some (g j, b)"
  shows "comma_loop f 0 n b = Some (commas (map g [0..<n]), b)"
  using comma_loop_pure [of 0 n f g b] assms by (simp add: commas_upt)

lemma map_nth_take: "n \<le> length xs \<Longrightarrow> map (\<lambda>j. f (xs ! j)) [0..<n] = map f (take n xs)"
  by (intro nth_equalityI) simp_all

section \<open>Refinement\<close>

lemma main_prop_text:
  assumes "i < length ps" "tp_len (ps ! i) = 0 \<or> tp_type (ps ! i) = TYPE_CODE_ARR \<and> unat (tp_len (ps ! i)) \<le> length (tp_sub (ps ! i))"
  shows "main_prop bat ps i b = Some (member_text (tp_name (ps ! i), abs_value (ps ! i)), b)"
proof -
  have "comma_loop (array_element (ps ! i)) 0 (unat (tp_len (ps ! i))) b =
      Some (commas (map tp_contents (take (unat (tp_len (ps ! i))) (tp_sub (ps ! i)))), b)"
    if "tp_type (ps ! i) = TYPE_CODE_ARR"
  proof -
    have l: "unat (tp_len (ps ! i)) \<le> length (tp_sub (ps ! i))" using assms(2) by auto
    show ?thesis
      using comma_loop_text [of "unat (tp_len (ps ! i))" "array_element (ps ! i)" "\<lambda>j. tp_contents (tp_sub (ps ! i) ! j)" b] l
      by (simp add: array_element_def rd_def map_nth_take [of _ _ tp_contents])
  qed
  then show ?thesis using assms
    by (auto simp: main_prop_def rd_def abs_value_def member_text_def convStr2Str_def)
qed

lemma msg_head_text:
  assumes "tx_type m = 2 \<or> tx_type m = 3"
  shows "msg_head rid m @ [ch_comma, ch_lbrace] @ commas (map member_text (abs_props m)) @ [ch_rbrace, ch_rbracket] = frame_text (abs_msg rid m)"
  using assms
  by (auto simp: msg_head_def abs_msg_def object_text_def convInt2Int_def convLLong2Str_def convStr2Str_def fmt_d_def dec_nat.simps w8_def str_bytes_def)

lemma Make_Ocpp_Msg_text:
  assumes "ready k m" "k = 2 \<or> k = 3" "unat (tx_len m) \<le> length (tx_payload m)"
  shows "Make_Ocpp_Msg bat rid m =
    (if length (frame_text (abs_msg rid m)) < 65536
     then Some (frame_text (abs_msg rid m), m\<lparr>tx_payload := written (unat (tx_len m)) (tx_payload m)\<rparr>) else None)"
proof -
  let ?n = "unat (tx_len m)" and ?ps = "tx_payload m"
  have "tp_len (?ps ! i) = 0 \<or> tp_type (?ps ! i) = TYPE_CODE_ARR \<and> unat (tp_len (?ps ! i)) \<le> length (tp_sub (?ps ! i))"
    if "i < length ?ps" for i
    using assms(1) that by (auto simp: ready_def)
  then have "main_prop bat ?ps i b = Some (member_text (tp_name (?ps ! i), abs_value (?ps ! i)), b)" if "i < ?n" for i b
    using that assms(3) by (intro main_prop_text) simp_all
  then have "comma_loop (main_prop bat ?ps) 0 ?n 0 = Some (commas (map (\<lambda>i. member_text (tp_name (?ps ! i), abs_value (?ps ! i))) [0..<?n]), 0)"
    by (rule comma_loop_text)
  then have x: "comma_loop (main_prop bat ?ps) 0 ?n 0 = Some (commas (map member_text (abs_props m)), 0)"
    using map_nth_take [OF assms(3), of "\<lambda>p. member_text (tp_name p, abs_value p)"] by (simp add: abs_props_def comp_def)
  have t: "tx_type m = 2 \<or> tx_type m = 3" using assms by (auto simp: ready_def)
  show ?thesis unfolding Make_Ocpp_Msg_def Let_def x Option.bind.simps prod.case msg_head_text [OF t] ..
qed

lemma quiet_written:
  assumes "ready k m"
  shows "quiet (m\<lparr>tx_payload := written (unat (tx_len m)) (tx_payload m)\<rparr>)"
proof -
  let ?n = "unat (tx_len m)" and ?ps = "tx_payload m"
  have "tp_len (written ?n ?ps ! i) = 0" if "i < length ?ps" for i
    using assms that unfolding ready_def written_def
    by (cases "i < ?n") (auto simp: nth_append min_def)
  then show ?thesis by (auto simp: quiet_def in_set_conv_nth)
qed

end
