(* ===== verification/Ocpp_Calls.thy ===== *)
theory Ocpp_Calls
  imports Ocpp_Write_Thms Charging_Thms
begin

text \<open>
  Requests and answers of the OCPP client: the locale \<open>call_client\<close> states what it means for a system to have at most one
  outstanding call, and its lemma counts calls and their ends over a run.  It is interpreted on the two tasks of the
  client in any interleaving, with any messages from the server and any changes by the rest of the program.
\<close>

section \<open>Runs of a system with outputs\<close>

text \<open>The result is the last state and, for every step, the states around it and its acts.\<close>

fun exec :: "('e \<Rightarrow> 's \<Rightarrow> ('s \<times> 'a list) option) \<Rightarrow> 'e list \<Rightarrow> 's \<Rightarrow> ('s \<times> ('s \<times> 'a list \<times> 's) list) option" where
  "exec step [] s = Some (s, [])"
| "exec step (e # es) s = do {
     (s1, acts) \<leftarrow> step e s;
     (s2, tr) \<leftarrow> exec step es s1;
     Some (s2, (s, acts, s1) # tr)
   }"

lemma exec_Cons:
  assumes "exec step (e # es) s = Some (s2, tr)"
  obtains s1 acts tr' where "step e s = Some (s1, acts)" "exec step es s1 = Some (s2, tr')" "tr = (s, acts, s1) # tr'"
  using assms by (auto split: bind_splits)

text \<open>The number of steps with a call, and of steps that end the waiting.\<close>

definition calls_made :: "('a \<Rightarrow> bool) \<Rightarrow> ('s \<times> 'a list \<times> 's) list \<Rightarrow> nat" where
  "calls_made call tr = length (filter (\<lambda>(s, acts, s'). list_ex call acts) tr)"

definition calls_ended :: "('s \<Rightarrow> bool) \<Rightarrow> ('s \<times> 'a list \<times> 's) list \<Rightarrow> nat" where
  "calls_ended waiting tr = length (filter (\<lambda>(s, acts, s'). waiting s \<and> \<not> waiting s') tr)"

lemma counts_Cons:
  "calls_made call ((s, acts, s') # tr) = (if list_ex call acts then 1 else 0) + calls_made call tr"
  "calls_ended waiting ((s, acts, s') # tr) = (if waiting s \<and> \<not> waiting s' then 1 else 0) + calls_ended waiting tr"
  by (simp_all add: calls_made_def calls_ended_def)

locale call_client =
  fixes step :: "'e \<Rightarrow> 's \<Rightarrow> ('s \<times> 'a list) option"
    and inv :: "'s \<Rightarrow> bool"
    and waiting :: "'s \<Rightarrow> bool"
    and call :: "'a \<Rightarrow> bool"
    and good :: "'a \<Rightarrow> bool"
  assumes inv_step: "inv s \<Longrightarrow> step e s = Some (s', acts) \<Longrightarrow> inv s'"
    and acts_good: "inv s \<Longrightarrow> step e s = Some (s', acts) \<Longrightarrow> list_all good acts"
    and call_alone: "inv s \<Longrightarrow> step e s = Some (s', acts) \<Longrightarrow> length (filter call acts) \<le> 1"
    and call_iff: "inv s \<Longrightarrow> step e s = Some (s', acts) \<Longrightarrow> list_ex call acts \<longleftrightarrow> \<not> waiting s \<and> waiting s'"
begin

lemma run_inv: "exec step es s = Some (s', tr) \<Longrightarrow> inv s \<Longrightarrow> inv s'"
proof (induction es arbitrary: s tr)
  case (Cons e es)
  from exec_Cons [OF Cons.prems(1)] obtain s1 acts tr' where
    st: "step e s = Some (s1, acts)" and ex: "exec step es s1 = Some (s', tr')" .
  show ?case using Cons.IH [OF ex] inv_step [OF Cons.prems(2) st] by simp
qed simp

lemma calls_alternate:
  "exec step es s = Some (s', tr) \<Longrightarrow> inv s \<Longrightarrow>
   calls_made call tr + (if waiting s then 1 else 0) = calls_ended waiting tr + (if waiting s' then 1 else 0)"
proof (induction es arbitrary: s tr)
  case (Cons e es)
  from exec_Cons [OF Cons.prems(1)] obtain s1 acts tr' where
    st: "step e s = Some (s1, acts)" and ex: "exec step es s1 = Some (s', tr')" and tr: "tr = (s, acts, s1) # tr'" .
  show ?case using Cons.IH [OF ex] inv_step [OF Cons.prems(2) st] call_iff [OF Cons.prems(2) st]
    by (simp add: tr counts_Cons split: if_splits)
qed (simp add: calls_made_def calls_ended_def)

lemma run_steps:
  "exec step es s = Some (s', tr) \<Longrightarrow> inv s \<Longrightarrow> (s1, acts, s2) \<in> set tr \<Longrightarrow>
   inv s1 \<and> inv s2 \<and> list_all good acts \<and> length (filter call acts) \<le> 1"
proof (induction es arbitrary: s tr)
  case (Cons e es)
  from exec_Cons [OF Cons.prems(1)] obtain t acts' tr' where
    st: "step e s = Some (t, acts')" and ex: "exec step es t = Some (s', tr')" and tr: "tr = (s, acts', t) # tr'" .
  note i = inv_step [OF Cons.prems(2) st]
  show ?case using Cons.prems(2,3) Cons.IH [OF ex i] i acts_good [OF Cons.prems(2) st] call_alone [OF Cons.prems(2) st]
    by (auto simp: tr)
qed simp

end

section \<open>Transmission\<close>

lemma comma_loop_defined: "comma_loop f i n b = Some y \<Longrightarrow> j < n \<Longrightarrow> \<exists>b. f (i + j) b \<noteq> None"
proof (induction n arbitrary: i b j y)
  case (Suc n)
  then show ?case by (cases j) (force split: bind_splits)+
qed simp

lemma Make_Ocpp_Msg_ready:
  assumes "Make_Ocpp_Msg bat rid m = Some (b, m')" "ready k m" "k = 2 \<or> k = 3"
  shows "b = frame_text (abs_msg rid m)" "length b < 65536" "quiet m'"
    "tx_type m' = tx_type m" "tx_id m' = tx_id m" "tx_action m' = tx_action m"
proof -
  have n: "unat (tx_len m) \<le> length (tx_payload m)"
  proof (rule ccontr)
    assume "\<not> unat (tx_len m) \<le> length (tx_payload m)"
    then have l: "length (tx_payload m) < unat (tx_len m)" by simp
    obtain y where "comma_loop (main_prop bat (tx_payload m)) 0 (unat (tx_len m)) 0 = Some y"
      using assms(1) by (auto simp: Make_Ocpp_Msg_def Let_def split: bind_splits)
    from comma_loop_defined [OF this l] show False by (simp add: main_prop_def rd_def)
  qed
  show "b = frame_text (abs_msg rid m)" "length b < 65536" "quiet m'" "tx_type m' = tx_type m" "tx_id m' = tx_id m" "tx_action m' = tx_action m"
    using assms(1) quiet_written [OF assms(2)] by (auto simp: Make_Ocpp_Msg_text [OF assms(2,3) n] split: if_splits)
qed

text \<open>A call is a message of type 2.\<close>

definition is_call :: "ocpp_act \<Rightarrow> bool" where
  "is_call a = (case a of Ws_send b \<Rightarrow> take 3 b = str_bytes ''[2,'' | _ \<Rightarrow> False)"

lemma head_type:
  assumes "Make_Ocpp_Msg bat rid m = Some (b, m')"
  shows "tx_type m = 2 \<Longrightarrow> is_call (Ws_send b)" "tx_type m = 3 \<Longrightarrow> \<not> is_call (Ws_send b)"
proof -
  obtain r where b: "b = msg_head rid m @ r" using assms by (auto simp: Make_Ocpp_Msg_def Let_def split: bind_splits if_splits)
  have d: "fmt_d 2 = [0x32]" "fmt_d 3 = [0x33]" by (simp_all add: fmt_d_def dec_nat.simps w8_def)
  have t: "take 3 (x # y # z # zs) = [x, y, z]" for x y z :: u8 and zs by (simp add: eval_nat_numeral)
  show "is_call (Ws_send b)" if "tx_type m = 2"
    using that by (simp add: is_call_def b msg_head_def convInt2Int_def d t str_bytes_def)
  show "\<not> is_call (Ws_send b)" if "tx_type m = 3"
    using that by (simp add: is_call_def b msg_head_def convInt2Int_def d t str_bytes_def)
qed

definition act_ok :: "ocpp_act \<Rightarrow> bool" where
  "act_ok a \<longleftrightarrow> (case a of Ws_send b \<Rightarrow> length b < 65536 \<and> (\<exists>f. b = frame_text f) | _ \<Rightarrow> True)"

lemma act_ok_other [simp]: "act_ok Ws_connect" "act_ok Config_save" "act_ok Custom_reboot" "act_ok Router_power_check" "act_ok Network_reset"
  by (simp_all add: act_ok_def)

lemma Clear_Rx_other [simp]: "Tx_Msg (Clear_Rx_Msg_Buff c) = Tx_Msg c" "bWaitResFlg (Clear_Rx_Msg_Buff c) = bWaitResFlg c"
  by (simp_all add: Clear_Rx_Msg_Buff_def)

lemma Trans_ready:
  assumes "Tsct_Curl_Ws_Trans bat env ok c = Some (c', acts)" "ready k (Tx_Msg c)" "k = 2 \<or> k = 3"
  shows "quiet (Tx_Msg c')" "acts = (if ok then [Ws_send (frame_text (abs_msg (UniqueID_Char (Rx_Msg (rxs c))) (Tx_Msg c)))] else [])"
    "bWaitResFlg c' = (ok \<and> k = 2 \<or> bWaitResFlg c)" "list_all act_ok acts" "list_all (\<lambda>a. is_call a \<longleftrightarrow> k = 2) acts"
proof -
  obtain b m' where m: "Make_Ocpp_Msg bat (UniqueID_Char (Rx_Msg (rxs c))) (Tx_Msg c) = Some (b, m')"
    using assms by (auto simp: Tsct_Curl_Ws_Trans_def split: bind_splits)
  note f = Make_Ocpp_Msg_ready [OF m assms(2,3)]
  have t: "tx_type (Tx_Msg c) = k" using assms(2) by (simp add: ready_def)
  have h: "is_call (Ws_send b) \<longleftrightarrow> k = 2" using head_type [OF m] t assms(3) by auto
  show "quiet (Tx_Msg c')"
    "acts = (if ok then [Ws_send (frame_text (abs_msg (UniqueID_Char (Rx_Msg (rxs c))) (Tx_Msg c)))] else [])"
    "bWaitResFlg c' = (ok \<and> k = 2 \<or> bWaitResFlg c)" "list_all act_ok acts" "list_all (\<lambda>a. is_call a \<longleftrightarrow> k = 2) acts"
    using assms(1) m f h t by (auto simp: Tsct_Curl_Ws_Trans_def Let_def act_ok_def split: if_splits)
qed

section \<open>The choice of the next request\<close>

text \<open>\<open>chosen w x\<close>: a request is chosen only while nothing waits, and then it is a call; otherwise waiting does not begin.\<close>

definition chosen :: "bool \<Rightarrow> client \<times> bool \<Rightarrow> bool" where
  "chosen w x \<longleftrightarrow> (if snd x then \<not> w \<and> wt False (ready 2) (fst x) else quiet (Tx_Msg (fst x)) \<and> (bWaitResFlg (fst x) \<longrightarrow> w))"

lemma wt_array:
  assumes "wt w (\<lambda>m. idle 2 m \<and> tx_len m = w8 (Suc i)) c" "i < 255"
  shows "yields (wt w (ready 2)) (tx_upd i (tx_put_array n v) c)"
  using assms by (intro wt_tx_upd [OF assms(1)] idle_update) (auto simp: wt_def tx_put_array_def unat_w8)

lemma wt_flat:
  assumes "wt w quiet c"
  shows "yields (wt w (ready 2)) (tx_fill 0 ps (tx_call u a n c))"
  by (rule yields_weaken [OF wt_tx_fill [OF put_closed_idle(3) wt_tx_call [OF assms]]]) (auto simp: wt_def idle_ready)

lemma wt_make:
  assumes "wt w quiet c"
  shows "yields (wt w (ready 2)) (MakeDataCmd_Auth env c)" "yields (wt w (ready 2)) (MakeDataCmd_Boot env c)"
    "yields (wt w (ready 2)) (MakeDataCmd_DiagStat env d c)" "yields (wt w (ready 2)) (MakeDataCmd_FwStat env u c)"
    "yields (wt w (ready 2)) (MakeDataCmd_HB env c)" "yields (wt w (ready 2)) (MakeDataCmd_MeterVal env c)"
    "yields (wt w (ready 2)) (MakeDataCmd_StartTs env c)" "yields (wt w (ready 2)) (MakeDataCmd_Stat env i c)"
    "yields (wt w (ready 2)) (MakeDataCmd_DataTrans_j1 env c)" "yields (wt w (ready 2)) (MakeDataCmd_DataTrans_cpSts env c)"
    "yields (wt w (ready 2)) (MakeDataCmd_DataTrans_q1 env c)" "yields (wt w (ready 2)) (MakeDataCmd_DataTrans_q2 env c)"
    "yields (wt w (ready 2)) (MakeDataCmd_DataTrans_mbrUntpc env c)" "yields (wt w (ready 2)) (MakeDataCmd_DataTrans_chargeAmt env c)"
    "yields (wt w (ready 2)) (MakeDataCmd_StopTs env c)"
proof -
  have hb: "yields (wt w (ready 2)) (MakeDataCmd_HB env c)"
    unfolding MakeDataCmd_HB_def
    by (rule wt_tx_upd [OF wt_tx_call [OF assms]]) (use wt_tx_call [OF assms, of 0 "e_msec env" CP_REQ_ACTION_CODE_HB] in
      \<open>auto simp: wt_def idle_def quiet_def ready_def nth_list_update\<close>)
  note fill = wt_tx_fill [OF put_closed_idle(3) wt_tx_call [OF assms]]
  have arr: "yields (wt w (ready 2)) (tx_fill 0 ps (tx_call u a (Suc n) c) \<bind> tx_upd n (tx_put_array x v))" if "n < 255" for ps u a n x v
    by (rule bind_via [OF fill]) (rule wt_array [OF _ that])
  have arr': "yields (wt w (ready 2)) (tx_fill 0 ps (tx_call u a (Suc n) c) \<bind> (\<lambda>c. tx_upd n (tx_put_array x v) c \<bind> (\<lambda>c. Some (c\<lparr>ses := f c\<rparr>))))"
    if "n < 255" for ps u a n x v f
    by (rule bind_via [OF fill], rule bind_via [OF wt_array [OF _ that]], assumption) (simp add: yields_Some)
  show "yields (wt w (ready 2)) (MakeDataCmd_HB env c)" by (rule hb)
  show "yields (wt w (ready 2)) (MakeDataCmd_MeterVal env c)"
    unfolding MakeDataCmd_MeterVal_def by (rule yields_bind, rule yields_bind, rule yields_bind, rule arr [of 2, simplified]) 
  show "yields (wt w (ready 2)) (MakeDataCmd_StopTs env c)"
    unfolding MakeDataCmd_StopTs_def Let_def by (rule yields_bind, rule yields_bind) (simp add: arr' del: tx_fill.simps split: option.split)
  show "yields (wt w (ready 2)) (MakeDataCmd_Auth env c)" "yields (wt w (ready 2)) (MakeDataCmd_Boot env c)"
    "yields (wt w (ready 2)) (MakeDataCmd_DiagStat env d c)" "yields (wt w (ready 2)) (MakeDataCmd_FwStat env u c)"
    "yields (wt w (ready 2)) (MakeDataCmd_StartTs env c)" "yields (wt w (ready 2)) (MakeDataCmd_Stat env i c)"
    "yields (wt w (ready 2)) (MakeDataCmd_DataTrans_j1 env c)" "yields (wt w (ready 2)) (MakeDataCmd_DataTrans_cpSts env c)"
    "yields (wt w (ready 2)) (MakeDataCmd_DataTrans_q1 env c)" "yields (wt w (ready 2)) (MakeDataCmd_DataTrans_q2 env c)"
    "yields (wt w (ready 2)) (MakeDataCmd_DataTrans_mbrUntpc env c)" "yields (wt w (ready 2)) (MakeDataCmd_DataTrans_chargeAmt env c)"
    unfolding make_defs data_transfer_def tx_request_def Let_def
    by (rule yields_bind yields_if yields_None wt_flat [OF assms])+
qed

lemma chosen_sent: "yields (wt False (ready 2)) r \<Longrightarrow> yields (chosen False) (sent r)"
  by (auto simp: sent_def yields_def chosen_def)

lemma wt_meter: "wt w Q c \<Longrightarrow> yields (wt w Q) (Add_MeterVal_Q env ty c)"
  unfolding Add_MeterVal_Q_def meter_sample_def Let_def by (rule yields_if yields_bind yields_Some | simp add: wt_def)+

lemma chosen_triggered:
  assumes "wt False quiet c"
  shows "yields (chosen False) (send_triggered env c)"
  using assms unfolding send_triggered_def Let_def
  by (cases "triggerMsgStat c")
    (rule chosen_sent bind_via [OF wt_meter] wt_make yields_Some | assumption | simp add: chosen_def wt_def | simp add: wt_def)+

lemma chosen_reports:
  assumes "wt False quiet c"
  shows "yields (chosen False) (scenario_reports env c)"
proof -
  have fw: "yields (wt False (ready 2)) (send_fw env n c)" for n
    unfolding send_fw_def all_available_def Let_def using assms
    by - (rule bind_via [of "wt False (ready 2)"] wt_make yields_Some | simp add: wt_def)+
  have dg: "yields (wt False (ready 2)) (map_option (\<lambda>c. c\<lparr>diagLogReqStep := x\<rparr>) (MakeDataCmd_DiagStat env d c))" for x d
    using wt_make(3) [OF assms, of env d] by (auto simp: yields_def wt_def)
  show ?thesis unfolding scenario_reports_def Let_def using assms
    by - (rule chosen_sent fw dg wt_make yields_if yields_option yields_bind yields_prod yields_Some | simp add: chosen_def wt_def | simp add: wt_def)+
qed

lemma chosen_session:
  assumes "wt False quiet c"
  shows "yields (chosen False) (scenario_session env c)"
proof -
  have m: "wt False quiet (c\<lparr>bReqStopTsFlg := False\<rparr>)" using assms by (simp add: wt_def)
  have stop: "yields (wt False (ready 2)) (send_stop env c)"
    unfolding send_stop_def
    by (rule bind_via [OF wt_meter [OF m]] yields_bind wt_make | simp add: wt_def)+
  have rest: "yields (chosen False) (if r then Some (c', True) else scenario_reports env c')" if "chosen False (c', r)" for c' r
    using that chosen_reports [of c' env] by (auto simp: chosen_def yields_def wt_def)
  have t: "yields (chosen False) (send_triggered env c \<bind> (\<lambda>(c, ret). if ret then Some (c, True) else scenario_reports env c))"
    by (rule bind_via [OF chosen_triggered [OF assms]]) (use rest in auto)
  show ?thesis unfolding scenario_session_def using assms
    by - (rule chosen_sent stop t wt_make yields_if | assumption | simp add: wt_def)+
qed

lemma chosen_OCPP_CALL_Senario:
  assumes "quiet (Tx_Msg c)"
  shows "yields (chosen (bWaitResFlg c)) (OCPP_CALL_Senario env c)"
proof (cases "bWaitResFlg c")
  case True
  then show ?thesis unfolding OCPP_CALL_Senario_def using assms
    by (simp add: chosen_def yields_def Check_Resp_Time_def split: bind_splits)
next
  case False
  have status: "yields (wt False (ready 2)) (send_status env i d)" if "wt False quiet d" for i d
    unfolding send_status_def using that by - (rule bind_via [of "wt False (ready 2)"] wt_make yields_Some | simp add: wt_def)+
  have q: "wt False quiet c" using False assms by (simp add: wt_def)
  have meter: "yields (\<lambda>x. wt False quiet (snd x)) (Check_Meter_Time env c)"
    unfolding Check_Meter_Time_def Let_def using q by - (rule yields_bind yields_if yields_Some yields_prod | simp add: wt_def)+
  show ?thesis unfolding OCPP_CALL_Senario_def using False q
    by - (rule bind_via [OF meter] yields_bind yields_option yields_if yields_prod yields_Some chosen_sent status chosen_session wt_make
        | simp add: chosen_def wt_def del: unreported.simps)+
qed

section \<open>The passes of the two tasks\<close>

text \<open>What every pass does: afterwards the outgoing message is quiet, what was sent is the text of a message, at most one of
  them a call, and one was sent exactly if waiting began.\<close>

definition pass_ok :: "bool \<Rightarrow> client \<times> ocpp_act list \<Rightarrow> bool" where
  "pass_ok w x \<longleftrightarrow> quiet (Tx_Msg (fst x)) \<and> list_all act_ok (snd x) \<and> length (filter is_call (snd x)) \<le> 1 \<and>
     (list_ex is_call (snd x) \<longleftrightarrow> \<not> w \<and> bWaitResFlg (fst x))"

lemma is_call_other [simp]: "\<not> is_call Ws_connect" "\<not> is_call Config_save" "\<not> is_call Custom_reboot"
  "\<not> is_call Router_power_check" "\<not> is_call Network_reset"
  by (simp_all add: is_call_def)

lemma no_call: "filter P xs = [] \<longleftrightarrow> \<not> list_ex P xs"
  by (auto simp: filter_empty_conv list_ex_iff)

lemma Trans_pass:
  assumes "wt w (ready k) c" "k = 2 \<and> \<not> w \<or> k = 3"
  shows "yields (pass_ok w) (Tsct_Curl_Ws_Trans bat env ok c)"
proof (rule yields_def [THEN iffD2], intro allI impI)
  fix x assume x: "Tsct_Curl_Ws_Trans bat env ok c = Some x"
  obtain c' acts where xc: "x = (c', acts)" by (cases x)
  have r: "ready k (Tx_Msg c)" "k = 2 \<or> k = 3" using assms by (auto simp: wt_def)
  note t = Trans_ready [OF x [unfolded xc] r]
  show "pass_ok w x" using t assms by (cases ok) (auto simp: pass_ok_def xc wt_def)
qed

lemma NetRun_pass:
  assumes "quiet (Tx_Msg c)"
  shows "yields (pass_ok (bWaitResFlg c)) (NetRun bat env h ok c)"
proof -
  have send: "yields (pass_ok (bWaitResFlg c)) (Tsct_Curl_Ws_Trans bat env ok d \<bind> (\<lambda>(d, acts). Some (d, save @ acts)))"
    if "\<not> bWaitResFlg c" "wt False (ready 2) d" "filter is_call save = []" "list_all act_ok save" for d save
    by (rule bind_via [OF Trans_pass [of False 2]]) (use that in \<open>auto simp: pass_ok_def no_call [symmetric] intro!: yields_Some\<close>)
  have ch: "yields (chosen (bWaitResFlg c)) (OCPP_CALL_Senario env (c\<lparr>bConfigSaveFlg := False\<rparr>))"
    using chosen_OCPP_CALL_Senario [of "c\<lparr>bConfigSaveFlg := False\<rparr>" env] assms by simp
  show ?thesis unfolding NetRun_def Let_def WS_Server_connect_def
    by (rule yields_if bind_via [OF ch] yields_prod send yields_Some | simp add: chosen_def | simp add: pass_ok_def assms | blast)+
qed

definition same_wait :: "client \<Rightarrow> client \<Rightarrow> bool" where
  "same_wait c x \<longleftrightarrow> bWaitResFlg x = bWaitResFlg c \<and> Tx_Msg x = Tx_Msg c"

lemma same_wait_refl: "same_wait c c"
  by (simp add: same_wait_def)

lemma flag_start_sample:
  "yields (same_wait c) (ws_start_request env c)" "yields (same_wait c) (ws_sample env c)"
proof -
  show "yields (same_wait c) (ws_start_request env c)"
    unfolding ws_start_request_def by (rule yields_if yields_bind yields_Some | simp add: same_wait_def)+
  have s: "yields (\<lambda>x. same_wait c (snd x)) (Check_Sampled_Time env c)"
    unfolding Check_Sampled_Time_def Let_def by (rule yields_bind yields_if yields_Some yields_prod | simp add: same_wait_def)+
  have m: "yields (same_wait c) (map_option (\<lambda>c. c\<lparr>ses := f c\<rparr>) (Add_MeterVal_Q env ty d))" if "same_wait c d" for ty d f
    unfolding Add_MeterVal_Q_def meter_sample_def Let_def
    by (rule yields_map yields_if yields_bind yields_Some | simp add: same_wait_def that [unfolded same_wait_def])+
  show "yields (same_wait c) (ws_sample env c)"
    unfolding ws_sample_def by (rule bind_via [OF s] yields_prod yields_if m yields_Some | simp)+
qed

lemma WSClientThread_pass:
  assumes "quiet (Tx_Msg c)"
  shows "yields (\<lambda>x. pass_ok (bWaitResFlg c) (snd (fst x), snd x)) (WSClientThread bat env net (t, c))"
proof -
  have net: "yields (\<lambda>x. pass_ok (bWaitResFlg c) (snd (fst x), snd x)) (map_option (\<lambda>y. ((t', fst y), snd y)) (NetRun bat env h ok d))"
    if "same_wait c d" for d t' h ok
    using NetRun_pass [of d bat env h ok] that assms by (auto simp: yields_def same_wait_def)
  have st: "yields (same_wait c) (ws_sample env d)" if "same_wait c d" for d
    using flag_start_sample(2) [of d env] that by (simp add: same_wait_def yields_def)
  have o: "pass_ok (bWaitResFlg c) (d, acts)" if "same_wait c d" "list_all act_ok acts" "filter is_call acts = []" for d acts
    using that assms no_call [of is_call acts] by (auto simp: pass_ok_def same_wait_def)
  have o': "yields (\<lambda>x. pass_ok (bWaitResFlg c) (snd (fst x), snd x)) (Some ((t', d), acts))"
    if "same_wait c d" "list_all act_ok acts" "filter is_call acts = []" for d acts t'
    using o [OF that] by (simp add: yields_Some)
  show ?thesis unfolding WSClientThread_def Let_def prod.case
    by (rule yields_if bind_via [OF flag_start_sample(1)] bind_via [OF st] net | assumption | rule o'
        | simp add: same_wait_def)+
qed

lemma recv_dispatch_pass:
  assumes "quiet (Tx_Msg c)"
  shows "yields (pass_ok (bWaitResFlg c)) (recv_dispatch bat g env ok c)"
proof -
  let ?c = "c\<lparr>ServerCallError := False\<rparr>"
  have q: "wt (bWaitResFlg c) quiet ?c" using assms by (simp add: wt_def)
  have res: "yields (pass_ok (bWaitResFlg c)) (map_option (\<lambda>c. (c, [])) (recv_result env ?c))"
    unfolding recv_result_def
    using wt_Rx_CallRes [of False quiet "c\<lparr>ServerCallError := False, bWaitResFlg := False\<rparr>" env] assms
    by (auto simp: yields_def wt_def pass_ok_def)
  have call: "yields (pass_ok (bWaitResFlg c)) (map_option (\<lambda>x. (snd x, [])) (Rx_Call_DataProc g env 6 ?c))"
    using wt_Rx_Call(2) [OF q, of g env] by (auto simp: yields_def wt_def pass_ok_def idle_def)
  have tr: "yields (pass_ok (bWaitResFlg c)) (Tsct_Curl_Ws_Trans bat env ok d)" if "wt (bWaitResFlg c) (ready 3) d" for d
    by (rule Trans_pass [OF that]) simp
  have answer: "yields (pass_ok (bWaitResFlg c))
      (Rx_Call_DataProc g env a ?c \<bind> (\<lambda>(err, c). if err then Some (c, []) else Tsct_Curl_Ws_Trans bat env ok c))" for a
    by (rule bind_via [OF wt_Rx_Call(1) [OF q]]) (use tr in \<open>auto simp: wt_def pass_ok_def idle_def intro!: yields_Some\<close>)
  show ?thesis unfolding recv_dispatch_def Let_def
    by (rule yields_if yields_bind res call answer yields_Some | simp add: pass_ok_def assms)+
qed

lemma WSRxThread_pass:
  assumes "quiet (Tx_Msg c)"
  shows "yields (pass_ok (bWaitResFlg c)) (WSRxThread bat g g' env ok ret c)"
proof -
  have d: "yields (pass_ok (bWaitResFlg c)) (recv_dispatch bat g' env ok d)" if "same_wait c d" for d
    using recv_dispatch_pass [of d bat g' env ok] that assms by (simp add: same_wait_def)
  have o: "pass_ok (bWaitResFlg c) (d, [])" if "same_wait c d" for d
    using that assms by (auto simp: pass_ok_def same_wait_def)
  show ?thesis unfolding WSRxThread_def Tsct_Curl_Ws_Recv_def Let_def
    by (cases ret; simp only: ws_recv.case) (rule yields_if yields_bind yields_prod d yields_Some o | simp add: same_wait_def)+
qed

section \<open>Runs of the client\<close>

text \<open>The steps: a pass of the client task, a pass of the receiving task, a change of the shared session by the rest of the
  program, and a request from the screens (start, stop, QR code, pilot).\<close>

datatype client_event =
    Ev_client ocpp_env ws_net
  | Ev_rx ocpp_env bool bytes bytes ws_recv
  | Ev_session session
  | Ev_request u8 bool u8 bytes bool

definition same_sizes :: "session \<Rightarrow> session \<Rightarrow> bool" where
  "same_sizes s s' \<longleftrightarrow> length (bCpStat s') = length (bCpStat s) \<and> length (bTrId s') = length (bTrId s) \<and>
     length (card_no s') = length (card_no s) \<and> length (scnd_card_no s') = length (scnd_card_no s) \<and>
     length (parentId s') = length (parentId s) \<and> length (s_eqp_watt s') = length (s_eqp_watt s)"

fun ocpp_do :: "(bytes \<times> bytes) list \<Rightarrow> client_event \<Rightarrow> ws_thread \<times> client \<Rightarrow> ((ws_thread \<times> client) \<times> ocpp_act list) option" where
  "ocpp_do bat (Ev_client env net) x = WSClientThread bat env net x"
| "ocpp_do bat (Ev_rx env ok g g' ret) x = map_option (\<lambda>y. ((fst x, fst y), snd y)) (WSRxThread bat g g' env ok ret (snd x))"
| "ocpp_do bat (Ev_session s) x = (if same_sizes (ses (snd x)) s then Some ((fst x, (snd x)\<lparr>ses := s\<rparr>), []) else None)"
| "ocpp_do bat (Ev_request start stop qr no cp) x =
     Some ((fst x, (snd x)\<lparr>bReqStartTsNo := start, bReqStopTsFlg := stop, bQREventFlg := qr, SecureNo := no, cpStatChk := cp\<rparr>), [])"

definition client_waiting :: "ws_thread \<times> client \<Rightarrow> bool" where
  "client_waiting x = bWaitResFlg (snd x)"

text \<open>The invariant: the sizes and the key table, whose read-only entries are those of \<open>ks\<close>, and a quiet outgoing message.\<close>

definition client_inv :: "TSCT_CFG_KEY list \<Rightarrow> ws_thread \<times> client \<Rightarrow> bool" where
  "client_inv ks x \<longleftrightarrow> client_ok ks (snd x) \<and> quiet (Tx_Msg (snd x))"

lemma ok_session: "same_sizes (ses c) s \<Longrightarrow> client_ok ks c \<Longrightarrow> client_ok ks (c\<lparr>ses := s\<rparr>)"
  by (simp add: client_ok_def client_sizes_def same_sizes_def)

lemma ocpp_do_ok:
  assumes "ocpp_do bat e x = Some (x', acts)" "client_ok ks (snd x)"
  shows "client_ok ks (snd x')"
proof (cases e)
  case (Ev_client env net)
  then show ?thesis using assms yieldsD [OF ok_WSClientThread, of ks "snd x" bat env net "fst x" "(x', acts)"] by simp
next
  case (Ev_rx env ok g g' ret)
  then show ?thesis using assms yieldsD [OF ok_WSRxThread, of ks "snd x" bat g g' env ok ret] by auto
qed (use assms ok_session [of "snd x" _ ks] in \<open>auto simp: client_ok_def client_sizes_def split: if_splits\<close>)

lemma ocpp_do_pass:
  assumes "ocpp_do bat e x = Some (x', acts)" "quiet (Tx_Msg (snd x))"
  shows "pass_ok (client_waiting x) (snd x', acts)"
proof (cases e)
  case (Ev_client env net)
  then show ?thesis using assms yieldsD [OF WSClientThread_pass, of "snd x" bat env net "fst x" "(x', acts)"]
    by (simp add: client_waiting_def)
next
  case (Ev_rx env ok g g' ret)
  then show ?thesis using assms yieldsD [OF WSRxThread_pass, of "snd x" bat g g' env ok ret]
    by (auto simp: client_waiting_def)
qed (use assms in \<open>auto simp: client_waiting_def pass_ok_def split: if_splits\<close>)

interpretation ocpp: call_client "ocpp_do bat" "client_inv ks" client_waiting is_call act_ok for bat ks
proof
  fix e x x' acts
  assume i: "client_inv ks x" and s: "ocpp_do bat e x = Some (x', acts)"
  then have p: "pass_ok (client_waiting x) (snd x', acts)" and o: "client_ok ks (snd x')"
    using ocpp_do_pass ocpp_do_ok by (auto simp: client_inv_def)
  show "client_inv ks x'" using p o by (simp add: client_inv_def pass_ok_def)
  show "list_all act_ok acts" using p by (simp add: pass_ok_def)
  show "length (filter is_call acts) \<le> 1" using p by (simp add: pass_ok_def)
  show "list_ex is_call acts \<longleftrightarrow> \<not> client_waiting x \<and> client_waiting x'"
    using p by (simp add: pass_ok_def client_waiting_def [of x'])
qed

section \<open>A start state for the witnesses\<close>

definition tx_empty :: tx_msg where
  "tx_empty = \<lparr>tx_type = 0, tx_id = 0, tx_id_char = [], tx_action = CP_REQ_ACTION_CODE_NONE, tx_len = 0,
     tx_payload = replicate 10 (Tx_prop [] [] TYPE_CODE_STR 0 0 [])\<rparr>"

definition sample_free :: METERVAL_TYPE where
  "sample_free = \<lparr>Meterval_Flg = 0, Uid_Mv = 0, Connect_Id = 0, mv_Time_Stamp = [], Sampled_Val = 0, Current = 0, Volt = 0\<rparr>"

definition rx_empty :: rx where
  "rx_empty = \<lparr>Rx_Msg = \<lparr>Msg_type = 0, UniqueID = 0, UniqueID_Char = replicate 70 0, Action_Code = 0, Payload_len = 0,
       Payload = replicate 10 payload_clear\<rparr>, rx_levels = replicate 3 (replicate 30 payload_clear), DATATRANS_data = replicate 1024 0,
     DATATRANS_UniqueID = 0, curl_ws_recv_buf = replicate 1024 0\<rparr>"

definition tm_start :: tm where
  "tm_start = \<lparr>tm_year = 125, tm_mon = 0, tm_mday = 2, tm_hour = 3, tm_min = 4, tm_sec = 5\<rparr>"

definition client_start :: client where
  "client_start = \<lparr>ses = session_idle\<lparr>chargingstatus := 3, bCpStat := [CP_STATUS_CODE_NONE, CP_STATUS_CODE_NONE]\<rparr>, rxs = rx_empty,
     Tx_Msg = tx_empty, Call_Tx_Msg = tx_empty, MeterValQ = replicate 5 sample_free, CfgKeyVal = Init_CfgKey,
     bPreCpStat = [CP_STATUS_CODE_NONE, CP_STATUS_CODE_NONE], bReqStartTsNo = 0, bReqStopTsFlg = False, bReqRmtStartTsNo = 0,
     bReqResetNo = 0, batInfo_cfgCnt = 20, bQREventFlg = 0, SecureNo = [0, 0], triggerMsgStat = TRIG_MSG_STAT_NONE,
     diagLogUrl = replicate 100 0, diagLogReqStep = DIAG_STAT_NONE, bReqMemberFlg = False, bReqChargeAmtFlg = False,
     reqStartTsFlg = False, StartTs_Time = [], MeterStart_Val = 0, StartTs_IdTag = replicate 21 0, StartTs_Connector = 0,
     faultChargFlg = False, StopTs_Time = [], updateStep = UPDATE_STEP_NONE, fwUpdateUrl = replicate 70 0,
     fw_Time_Stamp = replicate 50 0, bWaitResFlg = False, bConnect = True, bConfigSaveFlg = False, bCpStatChgFlg = 0,
     bRecvConnCnt = 0, bChargerCostCheck = 0, OCPP_cpSts_flg = False, Check_Meter_flg = False, Check_Sampled_flg = False,
     ServerCallError = True, nConnectCheck = 0, nConnectResetCount = 0, tv_1 = 0, tv_res = 0, cpStatChk = False,
     card_auth = CARD_AUTH_WAIT, connect_status = False, tNetTime = tm_start, rtc_time = None, member_type = MEM_NON,
     price_text = [], finalAmt = 0, billAmt = 0, usedPoint = 0, remainPoint = 0, chargeAmt_Check = False\<rparr>"

definition env_start :: ocpp_env where
  "env_start = \<lparr>e_channel = 0, e_sec = 100, e_msec = 1700000000000, e_tm = tm_start, e_current = 0, e_volt = 2200,
     e_temperature = 20, e_humidity = 40, bGloAdminStatus = False\<rparr>"

definition net_up :: ws_net where
  "net_up = \<lparr>auth_by_net = True, net_ready = True, eth_link = True, handshake = True, send_ok = True\<rparr>"

definition thread_up :: ws_thread where
  "thread_up = \<lparr>iteEthGetLink_WS = True, FirstConnectFlg = True\<rparr>"

end
