(* ===== verification/Ocpp_Safe.thy ===== *)
theory Ocpp_Safe
  imports Ocpp_Calls Ocpp_Parse_Thms
begin

text \<open>
  Runs of the OCPP client: the calls it makes and what it keeps, what is sent before the server has accepted the charge
  point, and how waiting for a result ends.
\<close>

section \<open>The text of a request\<close>

text \<open>The value a property of a request stands for.\<close>

fun put_value :: "bytes \<times> bytes \<times> TYPE_CODE \<Rightarrow> bytes \<times> jvalue" where
  "put_value (n, v, ty) = (n, if ty = TYPE_CODE_INT then JNumber v else JString v)"

fun put_plain :: "bytes \<times> bytes \<times> TYPE_CODE \<Rightarrow> bool" where
  "put_plain (n, v, ty) \<longleftrightarrow> ty \<noteq> TYPE_CODE_ARR"

lemma put_plain_p [simp]: "put_plain (p_str n v)" "put_plain (p_int n v)"
  by (simp_all add: p_str_def p_int_def)

lemma put_value_p [simp]: "put_value (p_str n v) = (str_bytes n, JString v)" "put_value (p_int n v) = (str_bytes n, JNumber v)"
  by (simp_all add: p_str_def p_int_def)

text \<open>Filling changes nothing but the properties that it counts.\<close>

definition filled :: "nat \<Rightarrow> (bytes \<times> bytes \<times> TYPE_CODE) list \<Rightarrow> tx_prop list \<Rightarrow> tx_prop list" where
  "filled i ps P = take i P @ map2 tx_put ps (take (length ps) (drop i P)) @ drop (i + length ps) P"

lemma filled_Cons:
  assumes "i + Suc (length ps) \<le> length P"
  shows "filled (Suc i) ps (P[i := tx_put x (P ! i)]) = filled i (x # ps) P"
proof -
  have "drop i P = P ! i # drop (Suc i) P" using assms by (simp add: Cons_nth_drop_Suc)
  moreover have "take (Suc i) (P[i := tx_put x (P ! i)]) = take i P @ [tx_put x (P ! i)]"
    using assms by (simp add: take_Suc_conv_app_nth)
  ultimately show ?thesis by (simp add: filled_def del: tx_put.simps)
qed

lemma length_filled: "i + length ps \<le> length P \<Longrightarrow> length (filled i ps P) = length P"
  by (simp add: filled_def)

lemma tx_fill_Some:
  "i + length ps \<le> length (tx_payload (Tx_Msg c)) \<Longrightarrow>
   tx_fill i ps c = Some (c\<lparr>Tx_Msg := (Tx_Msg c)\<lparr>tx_payload := filled i ps (tx_payload (Tx_Msg c))\<rparr>\<rparr>)"
proof (induction ps arbitrary: i c)
  case (Cons x ps)
  then show ?case by (simp add: tx_upd_def rd_def filled_Cons del: tx_put.simps)
qed (simp add: filled_def)

lemma abs_put: "put_plain x \<Longrightarrow> (tp_name (tx_put x p), abs_value (tx_put x p)) = put_value x"
  by (cases x) (simp add: abs_value_def)

lemma abs_filled:
  assumes "length ps \<le> length P" "\<forall>x\<in>set ps. put_plain x"
  shows "map (\<lambda>p. (tp_name p, abs_value p)) (take (length ps) (filled 0 ps P)) = map put_value ps"
proof -
  have "take (length ps) (filled 0 ps P) = map2 tx_put ps (take (length ps) P)" using assms(1) by (simp add: filled_def)
  then show ?thesis using assms by (intro nth_equalityI) (auto simp: abs_put simp del: tx_put.simps)
qed

lemma tx_request_Some:
  assumes "length (tx_payload (Tx_Msg c)) = 10" "length ps \<le> 10" "\<forall>x\<in>set ps. put_plain x"
  shows "\<exists>m. tx_request uid a ps c = Some (c\<lparr>Tx_Msg := m\<rparr>) \<and> (\<forall>rid. abs_msg rid m = Call uid a (map put_value ps)) \<and>
    tx_action m = a \<and> tx_id m = uid \<and> unat (tx_len m) = length ps \<and> length (tx_payload m) = 10"
proof -
  let ?m = "(Tx_Msg c)\<lparr>tx_type := 2, tx_id := uid, tx_action := a, tx_len := w8 (length ps),
    tx_payload := filled 0 ps (tx_payload (Tx_Msg c))\<rparr>"
  have "tx_request uid a ps c = Some (c\<lparr>Tx_Msg := ?m\<rparr>)"
    unfolding tx_request_def using assms by (subst tx_fill_Some) (simp_all add: tx_call_def)
  moreover have "abs_msg rid ?m = Call uid a (map put_value ps)" for rid
    using abs_filled [of ps "tx_payload (Tx_Msg c)"] assms by (simp add: abs_msg_def abs_props_def unat_w8)
  ultimately show ?thesis using assms by (intro exI [of _ ?m]) (simp add: unat_w8 length_filled)
qed

section \<open>Before the server has accepted the charge point\<close>

definition boot_frame :: "u64 \<Rightarrow> frame" where
  "boot_frame uid = Call uid CP_REQ_ACTION_CODE_BOOT
     [(str_bytes ''chargePointVendor'', JString (str_bytes ''tscontech'')), (str_bytes ''chargePointModel'', JString (str_bytes ''TSCT-2007CP'')),
      (str_bytes ''firmwareVersion'', JString (str_bytes ''V2.2.3T''))]"

lemma MakeDataCmd_Boot_frame:
  assumes "length (tx_payload (Tx_Msg c)) = 10"
  shows "\<exists>m. MakeDataCmd_Boot env c = Some (c\<lparr>Tx_Msg := m\<rparr>) \<and> (\<forall>rid. abs_msg rid m = boot_frame (e_msec env)) \<and>
    unat (tx_len m) \<le> length (tx_payload m)"
proof -
  let ?ps = "[p_str ''chargePointVendor'' (str_bytes ''tscontech''), p_str ''chargePointModel'' (str_bytes ''TSCT-2007CP''),
        p_str ''firmwareVersion'' (str_bytes ''V2.2.3T'')]"
  have "length ?ps \<le> 10" "\<forall>x\<in>set ?ps. put_plain x" by simp_all
  from tx_request_Some [OF assms this, of "e_msec env" CP_REQ_ACTION_CODE_BOOT] show ?thesis
    by (auto simp: MakeDataCmd_Boot_def boot_frame_def)
qed

text \<open>What may be sent in status \<open>CP_STATUS_CODE_NONE\<close> or \<open>CP_STATUS_CODE_PEND\<close>.\<close>

definition unbooted :: "client \<Rightarrow> bool" where
  "unbooted c \<longleftrightarrow> bCpStat (ses c) ! 0 \<in> {CP_STATUS_CODE_NONE, CP_STATUS_CODE_PEND}"

definition boot_act :: "ocpp_act \<Rightarrow> bool" where
  "boot_act a \<longleftrightarrow> (case a of Ws_send b \<Rightarrow> (\<exists>i. b = frame_text (boot_frame i)) | _ \<Rightarrow> True)"

lemma boot_act_other [simp]: "boot_act Ws_connect" "boot_act Config_save" "boot_act Custom_reboot" "boot_act Router_power_check" "boot_act Network_reset"
  by (simp_all add: boot_act_def)

lemma unbooted_no: "cp_status_no st \<le> cp_status_no CP_STATUS_CODE_PEND \<longleftrightarrow> st \<in> {CP_STATUS_CODE_NONE, CP_STATUS_CODE_PEND}"
  by (cases st) (simp_all add: cp_status_no_def)

lemma ok_lengths:
  assumes "client_ok ks c"
  shows "length (tx_payload (Tx_Msg c)) = 10" "length (bCpStat (ses c)) = 2" "length (CfgKeyVal c) = 24"
  using assms by (auto simp: client_ok_def client_sizes_def list_all2_lengthD)

lemma Trans_boot:
  assumes "wt False (ready 2) c" "\<forall>rid. abs_msg rid (Tx_Msg c) = boot_frame i"
  shows "yields (\<lambda>x. list_all boot_act (snd x)) (Tsct_Curl_Ws_Trans bat env ok c)"
proof (rule yields_def [THEN iffD2], intro allI impI)
  fix x assume x: "Tsct_Curl_Ws_Trans bat env ok c = Some x"
  then have "Tsct_Curl_Ws_Trans bat env ok c = Some (fst x, snd x)" by simp
  from Trans_ready(2) [OF this, of 2] show "list_all boot_act (snd x)"
    using assms by (auto simp: wt_def boot_act_def)
qed

lemma scenario_unbooted:
  assumes "client_ok ks c" "quiet (Tx_Msg c)" "unbooted c"
  shows "yields (\<lambda>x. snd x \<longrightarrow> wt False (ready 2) (fst x) \<and> (\<exists>i. \<forall>rid. abs_msg rid (Tx_Msg (fst x)) = boot_frame i)) (OCPP_CALL_Senario env c)"
proof (cases "bWaitResFlg c")
  case True
  then show ?thesis by (simp add: OCPP_CALL_Senario_def yields_def split: bind_splits)
next
  case False
  note l = ok_lengths [OF assms(1)]
  have st: "GetCpStatus 0 c = Some (bCpStat (ses c) ! 0)" using l by (simp add: GetCpStatus_def rd_def)
  have w: "wt False quiet c" using False assms(2) by (simp add: wt_def)
  have b: "yields (\<lambda>x. wt False (ready 2) x \<and> (\<exists>i. \<forall>rid. abs_msg rid (Tx_Msg x) = boot_frame i)) (MakeDataCmd_Boot env (c\<lparr>tv_1 := t\<rparr>))" for t
  proof -
    have "wt False quiet (c\<lparr>tv_1 := t\<rparr>)" using w by (simp add: wt_def)
    from wt_make(2) [OF this, of env] show ?thesis
      using MakeDataCmd_Boot_frame [of "c\<lparr>tv_1 := t\<rparr>" env] l(1) by (auto simp: yields_def)
  qed
  have le: "cp_status_no (bCpStat (ses c) ! 0) \<le> cp_status_no CP_STATUS_CODE_PEND" using assms(3) by (simp add: unbooted_no unbooted_def)
  show ?thesis unfolding OCPP_CALL_Senario_def st Option.bind.simps
    using False le b by (auto simp: sent_def yields_def Check_HB_Time_def split: bind_splits if_splits)
qed

lemma NetRun_unbooted:
  assumes "client_ok ks c" "quiet (Tx_Msg c)" "unbooted c"
  shows "yields (\<lambda>x. list_all boot_act (snd x)) (NetRun bat env h ok c)"
proof -
  let ?c = "c\<lparr>bConfigSaveFlg := False\<rparr>"
  have sc: "yields (\<lambda>x. snd x \<longrightarrow> wt False (ready 2) (fst x) \<and> (\<exists>i. \<forall>rid. abs_msg rid (Tx_Msg (fst x)) = boot_frame i)) (OCPP_CALL_Senario env ?c)"
    using assms by (intro scenario_unbooted [of ks]) (simp_all add: unbooted_def)
  have send: "yields (\<lambda>x. list_all boot_act (snd x)) (Tsct_Curl_Ws_Trans bat env ok d \<bind> (\<lambda>(d, acts). Some (d, save @ acts)))"
    if "wt False (ready 2) d" "\<forall>rid. abs_msg rid (Tx_Msg d) = boot_frame i" "list_all boot_act save" for d save i
    by (rule bind_via [OF Trans_boot [OF that(1,2)]]) (use that(3) in \<open>auto intro!: yields_Some\<close>)
  have go: "yields (\<lambda>x. list_all boot_act (snd x)) (case x of (d, ret) \<Rightarrow>
      if ret then Tsct_Curl_Ws_Trans bat env ok d \<bind> (\<lambda>(d, acts). Some (d, save @ acts)) else Some (d, save))"
    if "snd x \<longrightarrow> wt False (ready 2) (fst x) \<and> (\<exists>i. \<forall>rid. abs_msg rid (Tx_Msg (fst x)) = boot_frame i)" "list_all boot_act save" for x save
    using that send [of "fst x" _ save] by (cases x) (auto intro!: yields_Some)
  show ?thesis unfolding NetRun_def Let_def
    by (rule yields_if bind_via [OF sc] go yields_Some | assumption | simp)+
qed

lemma stat_start_sample:
  "yields (\<lambda>x. bCpStat (ses x) = bCpStat (ses c)) (ws_start_request env c)" "yields (\<lambda>x. bCpStat (ses x) = bCpStat (ses c)) (ws_sample env c)"
proof -
  show "yields (\<lambda>x. bCpStat (ses x) = bCpStat (ses c)) (ws_start_request env c)"
    unfolding ws_start_request_def by (rule yields_if yields_bind yields_Some | simp)+
  have s: "yields (\<lambda>x. bCpStat (ses (snd x)) = bCpStat (ses c)) (Check_Sampled_Time env c)"
    unfolding Check_Sampled_Time_def Let_def by (rule yields_bind yields_if yields_Some yields_prod | simp)+
  have m: "yields (\<lambda>x. bCpStat (ses x) = bCpStat (ses c)) (map_option (\<lambda>c. c\<lparr>ses := (ses c)\<lparr>StopTs_Connector := n\<rparr>\<rparr>) (Add_MeterVal_Q env ty d))"
    if "bCpStat (ses d) = bCpStat (ses c)" for ty d n
    unfolding Add_MeterVal_Q_def meter_sample_def Let_def using that
    by - (rule yields_map yields_if yields_bind yields_Some | simp)+
  show "yields (\<lambda>x. bCpStat (ses x) = bCpStat (ses c)) (ws_sample env c)"
    unfolding ws_sample_def by (rule bind_via [OF s] yields_prod yields_if m yields_Some | simp)+
qed

lemma start_sample_inv:
  assumes "client_ok ks c" "quiet (Tx_Msg c)" "unbooted c"
  shows "yields (\<lambda>x. client_ok ks x \<and> quiet (Tx_Msg x) \<and> unbooted x) (ws_start_request env c)"
    "yields (\<lambda>x. client_ok ks x \<and> quiet (Tx_Msg x) \<and> unbooted x) (ws_sample env c)"
  using ok_ws_start [OF assms(1), of env] ok_ws_sample [OF assms(1), of env] flag_start_sample [of c env] stat_start_sample [of c env] assms(2,3)
  by (auto simp: yields_def same_wait_def unbooted_def)

lemma WSClientThread_unbooted:
  assumes "client_ok ks c" "quiet (Tx_Msg c)" "unbooted c"
  shows "yields (\<lambda>x. list_all boot_act (snd x)) (WSClientThread bat env net (t, c))"
proof -
  have net: "yields (\<lambda>x. list_all boot_act (snd x)) (map_option (\<lambda>y. ((t', fst y), snd y)) (NetRun bat env h ok d))"
    if "client_ok ks d \<and> quiet (Tx_Msg d) \<and> unbooted d" for t' h ok d
    using NetRun_unbooted [of ks d bat env h ok] that by (auto simp: yields_def)
  have smp: "yields (\<lambda>x. client_ok ks x \<and> quiet (Tx_Msg x) \<and> unbooted x) (ws_sample env d)" if "client_ok ks d \<and> quiet (Tx_Msg d) \<and> unbooted d" for d
    using start_sample_inv(2) [of ks d env] that by simp
  show ?thesis unfolding WSClientThread_def Let_def prod.case
    by (rule yields_if bind_via [OF start_sample_inv(1) [OF assms]] bind_via [OF smp] net yields_Some | assumption | simp)+
qed

lemma Rx_silent:
  assumes "client_ok ks c" "bCpStat (ses c) ! 0 = CP_STATUS_CODE_NONE"
  shows "yields (\<lambda>x. snd x = []) (WSRxThread bat g g' env ok ret c)"
proof -
  have d: "yields (\<lambda>x. snd x = []) (recv_dispatch bat g' env ok d)" if "ses d = ses c" for d
  proof -
    have "GetCpStatus 0 (d\<lparr>ServerCallError := False\<rparr>) = Some CP_STATUS_CODE_NONE"
      using that ok_lengths(2) [OF assms(1)] assms(2) by (simp add: GetCpStatus_def rd_def)
    then show ?thesis unfolding recv_dispatch_def Let_def by (auto intro!: yields_if yields_Some yields_map simp: yields_def)
  qed
  show ?thesis unfolding WSRxThread_def Tsct_Curl_Ws_Recv_def Let_def
    by (cases ret; simp only: ws_recv.case) (rule yields_if yields_bind yields_prod d yields_Some | simp add: Clear_Rx_Msg_Buff_def)+
qed

lemma Rx_no_call:
  assumes "quiet (Tx_Msg c)"
  shows "yields (\<lambda>x. list_all (\<lambda>a. \<not> is_call a) (snd x)) (WSRxThread bat g g' env ok ret c)"
proof -
  have tr: "yields (\<lambda>x. list_all (\<lambda>a. \<not> is_call a) (snd x)) (Tsct_Curl_Ws_Trans bat env ok d)" if "wt w (ready 3) d" for d w
  proof (rule yields_def [THEN iffD2], intro allI impI)
    fix x assume x: "Tsct_Curl_Ws_Trans bat env ok d = Some x"
    then have "Tsct_Curl_Ws_Trans bat env ok d = Some (fst x, snd x)" by simp
    from Trans_ready(5) [OF this, of 3] show "list_all (\<lambda>a. \<not> is_call a) (snd x)" using that by (simp add: wt_def)
  qed
  have a: "yields (\<lambda>x. list_all (\<lambda>a. \<not> is_call a) (snd x))
      (Rx_Call_DataProc g' env a d \<bind> (\<lambda>(err, c). if err then Some (c, []) else Tsct_Curl_Ws_Trans bat env ok c))"
    if "quiet (Tx_Msg d)" for a d
  proof (rule bind_via [OF wt_Rx_Call(1)])
    show "wt (bWaitResFlg d) quiet d" using that by (simp add: wt_def)
  qed (use tr in \<open>auto simp: yields_Some\<close>)
  have d: "yields (\<lambda>x. list_all (\<lambda>a. \<not> is_call a) (snd x)) (recv_dispatch bat g' env ok d)" if "quiet (Tx_Msg d)" for d
    unfolding recv_dispatch_def Let_def
    by (rule yields_if yields_bind a yields_Some | simp add: that yields_def)+
  show ?thesis unfolding WSRxThread_def Tsct_Curl_Ws_Recv_def Let_def
    by (cases ret; simp only: ws_recv.case) (rule yields_if yields_bind yields_prod d yields_Some | simp add: Clear_Rx_Msg_Buff_def assms)+
qed

lemma unbooted_step:
  assumes "ocpp_do bat e x = Some (x', acts)" "client_inv ks x" "unbooted (snd x)"
  shows "list_all (\<lambda>a. is_call a \<longrightarrow> boot_act a) acts \<and> (bCpStat (ses (snd x)) ! 0 = CP_STATUS_CODE_NONE \<longrightarrow> list_all boot_act acts)"
proof (cases e)
  case (Ev_client env net)
  have "list_all boot_act acts"
    using assms yieldsD [OF WSClientThread_unbooted, of ks "snd x" bat env net "fst x" "(x', acts)"] Ev_client
    by (simp add: client_inv_def)
  then show ?thesis by (auto simp: list_all_iff)
next
  case (Ev_rx env ok g g' ret)
  obtain y where y: "WSRxThread bat g g' env ok ret (snd x) = Some y" "acts = snd y" using assms(1) Ev_rx by auto
  show ?thesis
    using yieldsD [OF Rx_no_call y(1)] yieldsD [OF Rx_silent y(1)] assms(2) y(2) by (auto simp: client_inv_def list_all_iff)
qed (use assms(1) in \<open>auto split: if_splits\<close>)

section \<open>Properties\<close>

text \<open>The first pass of the client task after a connection was made.\<close>

lemma rx_empty_sizes [simp]: "rx_sizes rx_empty"
  by (simp add: rx_empty_def rx_sizes_def levels_ok_def numeral_eq_Suc)

lemma client_start_inv: "client_inv Init_CfgKey (t, client_start)"
  by (simp add: client_inv_def client_ok_def client_sizes_def client_start_def session_idle_def quiet_def tx_empty_def Init_CfgKey_def
      list_all2_refl key_like_def ck_bool_def ck_int_def ck_str_def)

lemma boot_frame_length: "length (frame_text (boot_frame 1700000000000)) < 65536"
  by (simp add: boot_frame_def object_text_def member_text_def str_bytes_facts cp_req_msg_def cp_action_no_def dec_nat.simps)

lemma run_boot:
  "\<exists>x' tr. exec (ocpp_do bat) [Ev_client env_start net_up] (thread_up, client_start) = Some (x', tr) \<and> client_waiting x' \<and>
     tr = [((thread_up, client_start), [Ws_send (frame_text (boot_frame 1700000000000))], x')]"
proof -
  let ?c = "client_start\<lparr>Check_Sampled_flg := False, bConfigSaveFlg := False, tv_1 := 100\<rparr>"
  have s: "ws_start_request env_start client_start = Some client_start" by (simp add: ws_start_request_def client_start_def)
  have m: "ws_sample env_start client_start = Some (client_start\<lparr>Check_Sampled_flg := False\<rparr>)"
    by (simp add: ws_sample_def Check_Sampled_Time_def GetCpStatus_def rd_def client_start_def env_start_def)
  have q: "wt False quiet ?c" by (simp add: wt_def client_start_def quiet_def tx_empty_def)
  obtain msg where b: "MakeDataCmd_Boot env_start ?c = Some (?c\<lparr>Tx_Msg := msg\<rparr>)" "\<forall>rid. abs_msg rid msg = boot_frame 1700000000000"
      "unat (tx_len msg) \<le> length (tx_payload msg)"
    using MakeDataCmd_Boot_frame [of ?c env_start] by (auto simp: client_start_def tx_empty_def env_start_def)
  have r: "ready 2 msg" using yieldsD [OF wt_make(2) [OF q] b(1)] by (simp add: wt_def)
  have sc: "OCPP_CALL_Senario env_start (client_start\<lparr>Check_Sampled_flg := False, bConfigSaveFlg := False\<rparr>) = Some (?c\<lparr>Tx_Msg := msg\<rparr>, True)"
    using b(1) by (simp add: OCPP_CALL_Senario_def Check_HB_Time_def GetCpStatus_def rd_def cp_status_no_def sent_def client_start_def env_start_def
        Init_CfgKey_def ck_int_def)
  have mk: "Make_Ocpp_Msg bat rid msg = Some (frame_text (boot_frame 1700000000000), msg\<lparr>tx_payload := written (unat (tx_len msg)) (tx_payload msg)\<rparr>)" for rid
    using Make_Ocpp_Msg_text [OF r, of bat rid] b boot_frame_length by simp
  have ty: "tx_type msg = 2" using r by (simp add: ready_def)
  show ?thesis
    using mk ty by (simp add: WSClientThread_def s m NetRun_def sc Tsct_Curl_Ws_Trans_def Let_def net_up_def thread_up_def client_waiting_def)
       (simp add: client_start_def env_start_def)
qed

text \<open>C3. The OCPP client has at most one outstanding call.  Started without one, in every run of its two tasks, in any
  interleaving, with any messages and connection losses, the number of calls sent equals the number of calls that were
  ended (answered, timed out or given up with the connection), plus one exactly while the client waits; and no pass sends
  two calls.\<close>

theorem one_outstanding_call:
  assumes "exec (ocpp_do bat) es x = Some (x', tr)" "client_inv ks x" "\<not> client_waiting x"
  shows "calls_made is_call tr = calls_ended client_waiting tr + (if client_waiting x' then 1 else 0) \<and>
    (\<forall>(s, acts, s') \<in> set tr. length (filter is_call acts) \<le> 1)"
  using ocpp.calls_alternate [OF assms(1,2)] ocpp.run_steps [OF assms(1,2)] assms(3) by auto

theorem one_outstanding_call_witness:
  "\<exists>x' tr. exec (ocpp_do []) [Ev_client env_start net_up] (thread_up, client_start) = Some (x', tr) \<and> client_waiting x' \<and>
     calls_made is_call tr = calls_ended client_waiting tr + 1"
proof -
  obtain x' tr where r: "exec (ocpp_do []) [Ev_client env_start net_up] (thread_up, client_start) = Some (x', tr)" "client_waiting x'"
    using run_boot [of "[]"] by blast
  have "\<not> client_waiting (thread_up, client_start)" by (simp add: client_waiting_def client_start_def)
  from one_outstanding_call [OF r(1) client_start_inv this] r show ?thesis by auto
qed



text \<open>C4. While the status of connector 0 is NONE or PEND the charge point makes no call but \<open>BootNotification\<close>: in every
  run, every pass that begins in one of the two sends no other call, and in status NONE it sends no response either.
  That the status leaves them only with the acceptance of the server is not claimed: the start screen and
  \<open>ChangeAvailability\<close> write it as well.\<close>

theorem silent_before_boot:
  assumes "exec (ocpp_do bat) es x = Some (x', tr)" "client_inv ks x"
  shows "\<forall>(s, acts, s') \<in> set tr. unbooted (snd s) \<longrightarrow> list_all (\<lambda>a. is_call a \<longrightarrow> boot_act a) acts \<and>
    (bCpStat (ses (snd s)) ! 0 = CP_STATUS_CODE_NONE \<longrightarrow> list_all boot_act acts)"
  using assms
proof (induction es arbitrary: x tr)
  case (Cons e es)
  from exec_Cons [OF Cons.prems(1)] obtain y acts tr' where
    st: "ocpp_do bat e x = Some (y, acts)" and ex: "exec (ocpp_do bat) es y = Some (x', tr')" and tr: "tr = (x, acts, y) # tr'" .
  show ?case using Cons.IH [OF ex ocpp.inv_step [OF Cons.prems(2) st]] unbooted_step [OF st Cons.prems(2)] by (auto simp: tr)
qed simp

theorem silent_before_boot_witness:
  "\<exists>x' tr. exec (ocpp_do []) [Ev_client env_start net_up] (thread_up, client_start) = Some (x', tr) \<and> tr \<noteq> [] \<and>
     (\<forall>(s, acts, s') \<in> set tr. list_all boot_act acts)"
proof -
  obtain x' tr where r: "exec (ocpp_do []) [Ev_client env_start net_up] (thread_up, client_start) = Some (x', tr)"
      "tr = [((thread_up, client_start), [Ws_send (frame_text (boot_frame 1700000000000))], x')]"
    using run_boot [of "[]"] by blast
  have "unbooted client_start" "bCpStat (ses client_start) ! 0 = CP_STATUS_CODE_NONE" by (simp_all add: unbooted_def client_start_def)
  then show ?thesis using silent_before_boot [OF r(1) client_start_inv] r by auto
qed

end
