(* ===== verification/Ocpp_Serve.thy ===== *)
theory Ocpp_Serve
  imports Ocpp_Safe
begin

text \<open>
  From the bytes of a message to the effect and the answer: what the receiving task does with a call of the server whose
  parameters form a flat object, and with a result.
\<close>

section \<open>Reception of a flat message\<close>

text \<open>The receive buffers after a message with the text \<open>b\<close> has been read as \<open>m\<close>; behind it the buffer holds what it held before.\<close>

definition buffer_with :: "bytes \<Rightarrow> client \<Rightarrow> bytes" where
  "buffer_with b c = b @ 0 # drop (Suc (length b)) (curl_ws_recv_buf (rxs c))"

definition rx_after :: "(msg \<Rightarrow> msg) \<Rightarrow> bytes \<Rightarrow> client \<Rightarrow> client" where
  "rx_after m b c = (let r = (rxs (Clear_Rx_Msg_Buff c))\<lparr>curl_ws_recv_buf := buffer_with b c\<rparr> in
     c\<lparr>bRecvConnCnt := 0, rxs := parsed (m (Rx_Msg r)) r, ServerCallError := False\<rparr>)"

definition booted :: "client \<Rightarrow> bool" where
  "booted c \<longleftrightarrow> bConnect c \<and> bCpStat (ses c) \<noteq> [] \<and> bCpStat (ses c) ! 0 \<noteq> CP_STATUS_CODE_NONE"

text \<open>A text and its parameters that the reader accepts.\<close>

definition props_ok :: "jprop list \<Rightarrow> bool" where
  "props_ok ps \<longleftrightarrow> length ps \<le> 10 \<and> (\<forall>p\<in>set ps. prop_ok p)"

lemma rx_after_fields [simp]:
  "Tx_Msg (rx_after m b c) = Tx_Msg c" "ses (rx_after m b c) = ses c" "bWaitResFlg (rx_after m b c) = bWaitResFlg c"
  "CfgKeyVal (rx_after m b c) = CfgKeyVal c" "Call_Tx_Msg (rx_after m b c) = Call_Tx_Msg c"
  "bPreCpStat (rx_after m b c) = bPreCpStat c" "MeterValQ (rx_after m b c) = MeterValQ c"
  "diagLogUrl (rx_after m b c) = diagLogUrl c" "fwUpdateUrl (rx_after m b c) = fwUpdateUrl c"
  "fw_Time_Stamp (rx_after m b c) = fw_Time_Stamp c" "StartTs_IdTag (rx_after m b c) = StartTs_IdTag c"
  by (simp_all add: rx_after_def Let_def)

text \<open>The receive buffer has its 1024 bytes, and a byte is left behind the text.\<close>

definition fits_buffer :: "bytes \<Rightarrow> client \<Rightarrow> bool" where
  "fits_buffer b c \<longleftrightarrow> length (curl_ws_recv_buf (rxs c)) = 1024 \<and> length b < 1024"

lemma buffer_end:
  assumes "fits_buffer b c"
  shows "\<exists>buf. blit (curl_ws_recv_buf (rxs c)) 0 b = Some buf \<and> wr buf (length b) 0 = Some (buffer_with b c)"
proof -
  have "drop (length b) (curl_ws_recv_buf (rxs c)) = curl_ws_recv_buf (rxs c) ! length b # drop (Suc (length b)) (curl_ws_recv_buf (rxs c))"
    using assms by (simp add: fits_buffer_def Cons_nth_drop_Suc)
  then show ?thesis using assms by (simp add: fits_buffer_def blit_def wr_def buffer_with_def)
qed

lemma recv_buffer [simp]: "curl_ws_recv_buf (rxs (Clear_Rx_Msg_Buff (c\<lparr>bRecvConnCnt := n\<rparr>))) = curl_ws_recv_buf (rxs c)"
  by (simp add: Clear_Rx_Msg_Buff_def)

lemma receive_call:
  assumes "booted c" "b = call_text uid k ps" "fits_buffer b c" "length g = 30"
    and "quote \<notin> set uid" "length uid \<le> 30" "1 \<le> k" "k < 20" "props_ok ps"
  shows "WSRxThread bat g g' env ok (Recv_data b) c =
    Option.bind (Rx_Call_DataProc g' env k (rx_after (call_msg uid k ps) b c))
      (\<lambda>(err, c). if err then Some (c, []) else Tsct_Curl_Ws_Trans bat env ok c)"
proof -
  let ?c1 = "Clear_Rx_Msg_Buff (c\<lparr>bRecvConnCnt := 0\<rparr>)"
  let ?r = "(rxs ?c1)\<lparr>curl_ws_recv_buf := buffer_with b c\<rparr>"
  let ?r' = "parsed (call_msg uid k ps (Rx_Msg ?r)) ?r"
  have p: "Parse_Data tx g (length b) ?r = Some (0, ?r')" for tx
    using assms(2-9) by (intro call_parsed [where rest = "0 # drop (Suc (length b)) (curl_ws_recv_buf (rxs c))"]) (simp_all add: props_ok_def buffer_with_def)
  have m: "Msg_type (Rx_Msg ?r') = 2" "Action_Code (Rx_Msg ?r') = w8 k" by (simp_all add: parsed_def call_msg_def flat_payload_def)
  have st: "GetCpStatus 0 (rx_after x b c) = Some (bCpStat (ses c) ! 0)" "bCpStat (ses c) ! 0 \<noteq> CP_STATUS_CODE_NONE" for x
    using assms(1) by (simp_all add: GetCpStatus_def rd_def booted_def)
  have rx: "?c1\<lparr>rxs := ?r', ServerCallError := False\<rparr> = rx_after (call_msg uid k ps) b c"
    by (simp add: rx_after_def Let_def Clear_Rx_Msg_Buff_def)
  have "WSRxThread bat g g' env ok (Recv_data b) c = recv_dispatch bat g' env ok (?c1\<lparr>rxs := ?r'\<rparr>)"
    using assms(1) buffer_end [OF assms(3)] by (auto simp: WSRxThread_def Tsct_Curl_Ws_Recv_def booted_def p Let_def)
  also have "\<dots> = Option.bind (Rx_Call_DataProc g' env k (rx_after (call_msg uid k ps) b c))
      (\<lambda>(err, c). if err then Some (c, []) else Tsct_Curl_Ws_Trans bat env ok c)"
    using assms(8) m st rx by (simp add: recv_dispatch_def Let_def unat_w8)
  finally show ?thesis .
qed

text \<open>The client evaluates results: it is registered, or waits for the result of the boot notification.\<close>

definition result_due :: "client \<Rightarrow> bool" where
  "result_due c \<longleftrightarrow> bConnect c \<and> bCpStat (ses c) \<noteq> [] \<and> (bCpStat (ses c) ! 0 \<noteq> CP_STATUS_CODE_NONE \<or> tx_action (Call_Tx_Msg c) = CP_REQ_ACTION_CODE_BOOT)"

lemma receive_result:
  assumes "result_due c" "b = result_text (dec_nat n) ps" "fits_buffer b c" "length g = 30" "n < 2 ^ 64" "props_ok ps"
    and "word_of_nat n \<noteq> DATATRANS_UniqueID (rxs c)"
  shows "WSRxThread bat g g' env ok (Recv_data b) c =
    map_option (\<lambda>c. (c, [])) (recv_result env (rx_after (result_msg n (w8 (cp_action_no (tx_action (Call_Tx_Msg c)))) ps) b c))"
proof -
  let ?a = "w8 (cp_action_no (tx_action (Call_Tx_Msg c)))"
  let ?c1 = "Clear_Rx_Msg_Buff (c\<lparr>bRecvConnCnt := 0\<rparr>)"
  let ?r = "(rxs ?c1)\<lparr>curl_ws_recv_buf := buffer_with b c\<rparr>"
  let ?r' = "parsed (result_msg n ?a ps (Rx_Msg ?r)) ?r"
  have p: "Parse_Data ?a g (length b) ?r = Some (0, ?r')"
    using assms(2-7)
    by (intro result_parsed [where rest = "0 # drop (Suc (length b)) (curl_ws_recv_buf (rxs c))"])
      (simp_all add: props_ok_def Clear_Rx_Msg_Buff_def buffer_with_def)
  have m: "Msg_type (Rx_Msg ?r') = 3" "Action_Code (Rx_Msg ?r') = ?a" by (simp_all add: parsed_def result_msg_def flat_payload_def)
  have st: "GetCpStatus 0 (rx_after x b c) = Some (bCpStat (ses c) ! 0)" for x
    using assms(1) by (simp add: GetCpStatus_def rd_def result_due_def)
  have due: "bCpStat (ses c) ! 0 \<noteq> CP_STATUS_CODE_NONE \<or> unat ?a = 2"
    using assms(1) by (auto simp: result_due_def cp_action_no_def unat_w8)
  have rx: "?c1\<lparr>rxs := ?r', ServerCallError := False\<rparr> = rx_after (result_msg n ?a ps) b c"
    by (simp add: rx_after_def Let_def Clear_Rx_Msg_Buff_def)
  have a: "Call_Tx_Msg ?c1 = Call_Tx_Msg c" by (simp add: Clear_Rx_Msg_Buff_def)
  have "WSRxThread bat g g' env ok (Recv_data b) c = recv_dispatch bat g' env ok (?c1\<lparr>rxs := ?r'\<rparr>)"
    using assms(1) buffer_end [OF assms(3)] p a by (auto simp: WSRxThread_def Tsct_Curl_Ws_Recv_def result_due_def Let_def)
  also have "\<dots> = map_option (\<lambda>c. (c, [])) (recv_result env (rx_after (result_msg n ?a ps) b c))"
    using m st due rx by (auto simp add: recv_dispatch_def Let_def)
  finally show ?thesis .
qed

section \<open>Reading the parameters\<close>

lemma cstr_zeros: "0 \<notin> set w \<Longrightarrow> 0 < n \<Longrightarrow> cstr (w @ replicate n 0) = w"
  using cstr_padded [of w "n - 1"] by (cases n) simp_all

text \<open>A parameter whose name and value contain no NUL.\<close>

definition prop_clean :: "jprop \<Rightarrow> bool" where
  "prop_clean p \<longleftrightarrow> 0 \<notin> set (jname p) \<and> 0 \<notin> set (jval p) \<and> length (jname p) < 60"

lemma prop_read:
  assumes "prop_ok p" "prop_clean p"
  shows "pname (prop_stored p) = jname p" "pval (prop_stored p) = jval p"
    "property_contants (prop_stored p) = jval p @ replicate (1024 - length (jval p)) 0"
  using assms by (simp_all add: prop_ok_def prop_clean_def prop_stored_def pname_def pval_def cstr_zeros)

lemma rx_after_msg: "Rx_Msg (rxs (rx_after m b c)) = m (Rx_Msg (rxs (Clear_Rx_Msg_Buff c)))"
  by (simp add: rx_after_def Let_def parsed_def)

lemma rx_props_call: "length ps \<le> 10 \<Longrightarrow> ps \<noteq> [] \<Longrightarrow> rx_props (rx_after (call_msg uid k ps) b c) = Some (map prop_stored ps)"
  by (simp add: rx_props_def rx_after_msg call_msg_def flat_payload_def slice_def unat_w8)

lemma rx_props_result: "length ps \<le> 10 \<Longrightarrow> ps \<noteq> [] \<Longrightarrow> rx_props (rx_after (result_msg n a ps) b c) = Some (map prop_stored ps)"
  by (simp add: rx_props_def rx_after_msg result_msg_def flat_payload_def slice_def unat_w8)

lemma rx_first_call: "length ps \<le> 10 \<Longrightarrow> i < length ps \<Longrightarrow> rx_first i (rx_after (call_msg uid k ps) b c) = Some (prop_stored (ps ! i))"
  by (simp add: rx_first_def rx_after_msg call_msg_def flat_payload_def rd_def nth_append)

lemma rx_id: "UniqueID_Char (Rx_Msg (rxs (rx_after (call_msg uid k ps) b c))) = uid @ replicate (70 - length uid) 0"
  by (simp add: rx_after_msg call_msg_def flat_payload_def)

section \<open>Answers\<close>

definition status_frame :: "bytes \<Rightarrow> RES_TYPE \<Rightarrow> frame" where
  "status_frame uid ret = Result uid [(str_bytes ''status'', JString (str_bytes (res_text ret)))]"

lemma MakeCallRes_Some:
  assumes "length (tx_payload (Tx_Msg c)) = 10" "quiet (Tx_Msg c)"
  shows "\<exists>m. MakeCallRes ret c = Some (c\<lparr>Tx_Msg := m\<rparr>) \<and> idle 3 m \<and> length (tx_payload m) = 10 \<and> unat (tx_len m) = 1 \<and>
    (\<forall>rid. abs_msg rid m = Result (cstr rid) [(str_bytes ''status'', JString (str_bytes (res_text ret)))])"
proof -
  let ?ps = "[p_str ''status'' (str_bytes (res_text ret))]"
  let ?m = "(Tx_Msg c)\<lparr>tx_type := 3, tx_id_char := UniqueID_Char (Rx_Msg (rxs c)), tx_len := w8 1,
    tx_payload := filled 0 ?ps (tx_payload (Tx_Msg c))\<rparr>"
  have e: "MakeCallRes ret c = Some (c\<lparr>Tx_Msg := ?m\<rparr>)"
    unfolding MakeCallRes_def using assms by (subst tx_fill_Some) (simp_all add: tx_result_def)
  have "wt (bWaitResFlg c) (idle 3) (tx_result 1 c)" using assms(2) by (simp add: wt_def idle_def quiet_def tx_result_def)
  then have "yields (wt (bWaitResFlg c) (idle 3)) (MakeCallRes ret c)" unfolding MakeCallRes_def by (intro wt_tx_fill) simp_all
  then have "idle 3 ?m" using e by (simp add: yields_def wt_def)
  moreover have "abs_msg rid ?m = Result (cstr rid) [(str_bytes ''status'', JString (str_bytes (res_text ret)))]" for rid
    using abs_filled [of ?ps "tx_payload (Tx_Msg c)"] assms by (simp add: abs_msg_def abs_props_def unat_w8)
  ultimately show ?thesis using e assms by (intro exI [of _ ?m]) (simp add: unat_w8 length_filled)
qed

lemma frame_result_length: "length (frame_text (Result uid ps)) = 9 + length uid + length (commas (map member_text ps))"
  by (simp add: object_text_def str_bytes_facts)

lemma res_text_short: "length (res_text ret) \<le> 12" "0 \<notin> set (str_bytes (res_text ret))"
  by (cases ret; simp add: res_text_def str_bytes_def)+

lemma cstr_id: "0 \<notin> set uid \<Longrightarrow> length uid \<le> 30 \<Longrightarrow> cstr (uid @ replicate (70 - length uid) 0) = uid"
  by (rule cstr_zeros) simp_all

lemma Trans_result:
  assumes "ready 3 m" "unat (tx_len m) \<le> length (tx_payload m)" "abs_msg (UniqueID_Char (Rx_Msg (rxs d))) m = f" "length (frame_text f) < 65536"
  shows "\<exists>m' r. Tsct_Curl_Ws_Trans bat env True (d\<lparr>Tx_Msg := m\<rparr>) = Some (d\<lparr>Tx_Msg := m', rxs := r\<rparr>, [Ws_send (frame_text f)])"
proof -
  let ?m = "m\<lparr>tx_payload := written (unat (tx_len m)) (tx_payload m)\<rparr>"
  have mk: "Make_Ocpp_Msg bat (UniqueID_Char (Rx_Msg (rxs d))) m = Some (frame_text f, ?m)"
    using Make_Ocpp_Msg_text [OF assms(1) _ assms(2), of bat "UniqueID_Char (Rx_Msg (rxs d))"] assms(3,4) by simp
  have t: "tx_type m \<noteq> 2" using assms(1) by (simp add: ready_def)
  have id: "x\<lparr>rxs := rxs x\<rparr> = x" for x :: client by simp
  show ?thesis using mk t id [of "d\<lparr>Tx_Msg := ?m\<rparr>"]
    by (intro exI [of _ ?m] exI [of _ "if tx_action m = CP_REQ_ACTION_CODE_DATATRANS then (rxs d)\<lparr>DATATRANS_UniqueID := tx_id m\<rparr> else rxs d"])
      (simp add: Tsct_Curl_Ws_Trans_def Let_def)
qed

text \<open>A handler that leaves a status in \<open>Tx_Msg\<close>: the answer is sent under the identifier of the call.\<close>

lemma answer_status:
  assumes "length (tx_payload (Tx_Msg d)) = 10" "quiet (Tx_Msg d)" "rxs d = rxs (rx_after (call_msg uid k ps) b c)"
    and "0 \<notin> set uid" "length uid \<le> 30"
  shows "\<exists>m r. Option.bind (map_option (Pair False) (MakeCallRes ret d)) (\<lambda>(err, c). if err then Some (c, []) else Tsct_Curl_Ws_Trans bat env True c) =
    Some (d\<lparr>Tx_Msg := m, rxs := r\<rparr>, [Ws_send (frame_text (status_frame uid ret))])"
proof -
  obtain m where m: "MakeCallRes ret d = Some (d\<lparr>Tx_Msg := m\<rparr>)" "idle 3 m" "length (tx_payload m) = 10" "unat (tx_len m) = 1"
    "\<And>rid. abs_msg rid m = Result (cstr rid) [(str_bytes ''status'', JString (str_bytes (res_text ret)))]"
    using MakeCallRes_Some [OF assms(1,2), of ret] by blast
  have f: "abs_msg (UniqueID_Char (Rx_Msg (rxs d))) m = status_frame uid ret"
    by (simp add: m(5) status_frame_def assms(3) rx_id cstr_id assms(4,5))
  have l: "length (frame_text (status_frame uid ret)) < 65536"
    using res_text_short(1) [of ret] assms(5)
    by (simp add: status_frame_def frame_result_length member_text_def str_bytes_facts del: frame_text.simps)
  show ?thesis using Trans_result [OF idle_ready [OF m(2)] _ f l] m(1,3,4) by simp
qed

text \<open>The conditions under which a call of the server is read: the client is connected and registered, the identifier and the
  parameters fit the reader, the buffer has room behind the text.\<close>

definition call_ok :: "client \<Rightarrow> bytes \<Rightarrow> nat \<Rightarrow> jprop list \<Rightarrow> bytes \<Rightarrow> bool" where
  "call_ok c uid k ps g \<longleftrightarrow> booted c \<and> fits_buffer (call_text uid k ps) c \<and> length g = 30 \<and> quote \<notin> set uid \<and> 0 \<notin> set uid \<and> length uid \<le> 30 \<and>
     props_ok ps \<and> (\<forall>p\<in>set ps. prop_clean p)"

lemma rx_after_sizes:
  assumes "call_ok c uid k ps g" "client_ok ks c" "1 \<le> k" "k < 20"
  shows "rx_sizes (rxs (rx_after (call_msg uid k ps) (call_text uid k ps) c))"
proof -
  let ?r = "(rxs (Clear_Rx_Msg_Buff c))\<lparr>curl_ws_recv_buf := buffer_with (call_text uid k ps) c\<rparr>"
  have "Parse_Data 0 g (length (call_text uid k ps)) ?r = Some (0, parsed (call_msg uid k ps (Rx_Msg ?r)) ?r)"
    using assms(1,3,4) by (intro call_parsed [where rest = "0 # drop (Suc (length (call_text uid k ps))) (curl_ws_recv_buf (rxs c))"])
      (simp_all add: call_ok_def props_ok_def buffer_with_def)
  moreover have "rx_sizes ?r"
    using assms(1) by (intro rx_sizes_buf ok_rx_sizes [of ks] ok_Clear_Rx assms(2)) (simp add: buffer_with_def call_ok_def fits_buffer_def)
  ultimately have "rx_sizes (parsed (call_msg uid k ps (Rx_Msg ?r)) ?r)" by (rule Parse_Data_sizes)
  then show ?thesis by (simp add: rx_after_def Let_def)
qed

lemma answered_call:
  assumes "call_ok c uid k ps g" "client_ok ks c" "quiet (Tx_Msg c)" "1 \<le> k" "k < 20"
    and "Rx_Call_DataProc g' env k (rx_after (call_msg uid k ps) (call_text uid k ps) c) = map_option (Pair False) (MakeCallRes ret d)"
    and "tx_payload (Tx_Msg d) = tx_payload (Tx_Msg c)" "rxs d = rxs (rx_after (call_msg uid k ps) (call_text uid k ps) c)"
  shows "\<exists>m r. WSRxThread bat g g' env True (Recv_data (call_text uid k ps)) c =
    Some (d\<lparr>Tx_Msg := m, rxs := r\<rparr>, [Ws_send (frame_text (status_frame uid ret))])"
proof -
  have "length (tx_payload (Tx_Msg d)) = 10" "quiet (Tx_Msg d)"
    using ok_lengths(1) [OF assms(2)] assms(3,7) by (simp_all add: quiet_def)
  note a = answer_status [OF this assms(8)]
  have "WSRxThread bat g g' env True (Recv_data (call_text uid k ps)) c =
    Option.bind (map_option (Pair False) (MakeCallRes ret d)) (\<lambda>(err, c). if err then Some (c, []) else Tsct_Curl_Ws_Trans bat env True c)"
    using receive_call [OF _ refl, of c uid k ps g bat g' env True] assms by (simp add: call_ok_def)
  then show ?thesis using a [of ret bat env] assms(1) by (simp add: call_ok_def)
qed

section \<open>Numbers in parameters\<close>

lemma str2int_digits:
  assumes "list_all is_digit w" "length w \<le> 20"
  shows "str2int w a = Some (a + word_of_nat (dec_val w))"
  using assms
proof (induction w arbitrary: a)
  case (Cons ch w)
  then show ?case using digit_word [of ch] by (simp add: pow10_def is_digit_def)
qed simp

lemma String2Integer_dec:
  assumes "n < 2 ^ 64" "0 < k"
  shows "String2Integer (dec_nat n @ replicate k 0) = Some (word_of_nat n)"
proof -
  have d: "list_all is_digit (dec_nat n)" "dec_val (dec_nat n) = n" using dec_nat_digits [of n] by (auto simp: list_all_iff)
  have "n < 10 ^ 20" using assms(1) by (rule order_less_trans) simp
  then have "length (dec_nat n) \<le> 20" by (intro dec_nat_length) simp_all
  moreover have "0 \<notin> set (dec_nat n)" using d(1) by (auto simp: list_all_iff is_digit_def)
  ultimately show ?thesis using str2int_digits [of "dec_nat n" 0] d assms(2) by (simp add: String2Integer_def cstr_zeros)
qed

section \<open>A running client for the witnesses\<close>

definition client_run :: client where
  "client_run = client_start\<lparr>ses := (ses client_start)\<lparr>bCpStat := [CP_STATUS_CODE_AVAIL, CP_STATUS_CODE_CHARGING],
     bTrId := [0, 1234567890], sDLsChargeMonitoring := True\<rparr>\<rparr>"

lemma client_run_ok: "client_ok Init_CfgKey client_run" "quiet (Tx_Msg client_run)" "booted client_run"
proof -
  have "client_ok Init_CfgKey client_start" "quiet (Tx_Msg client_start)" using client_start_inv [of thread_up] by (simp_all add: client_inv_def)
  then show "client_ok Init_CfgKey client_run" "quiet (Tx_Msg client_run)"
    by (simp_all add: client_run_def client_ok_def client_sizes_def)
  show "booted client_run" by (simp add: client_run_def booted_def client_start_def)
qed

lemma fits_ok: "client_ok ks c \<Longrightarrow> length b < 1024 \<Longrightarrow> fits_buffer b c"
  by (simp add: fits_buffer_def rx_sizes_length [OF ok_rx_sizes])

lemma call_length: "length (call_text uid k ps) = length uid + length (cs_req_msg ! k) + length (props_text ps) + 12"
  by (simp add: call_text_def call_header_def str_bytes_facts(3))

lemma result_length: "length (result_text uid ps) = length uid + length (props_text ps) + 9"
  by (simp add: result_text_def result_header_def)

lemma client_run_call:
  "props_ok ps \<Longrightarrow> \<forall>p\<in>set ps. prop_clean p \<Longrightarrow> length (call_text [0x37] k ps) < 1024 \<Longrightarrow> call_ok client_run [0x37] k ps (replicate 30 0)"
  by (simp add: call_ok_def client_run_ok fits_ok [OF client_run_ok(1)])

end
