(* ===== verification/Ocpp_Props.thy ===== *)
theory Ocpp_Props
  imports Ocpp_Serve
begin

text \<open>
  Properties of the OCPP client from the bytes of a message of the server to the effect on the charging session, the
  configuration and the answer.
\<close>

section \<open>Remote stop\<close>

definition stop_accepted :: "client \<Rightarrow> nat \<Rightarrow> bool" where
  "stop_accepted c n \<longleftrightarrow> word_of_nat n = bTrId (ses c) ! 1 \<and> bCpStat (ses c) ! 1 \<in> {CP_STATUS_CODE_CHARGING, CP_STATUS_CODE_SUSPENDEDEV}"

definition ask_stop :: "nat \<Rightarrow> jprop list" where
  "ask_stop n = [JNum (str_bytes ''transactionId'') (dec_nat n)]"

lemma dec_nat_clean: "n < 2 ^ 64 \<Longrightarrow> list_all is_digit (dec_nat n) \<and> 0 \<notin> set (dec_nat n) \<and> length (dec_nat n) \<le> 20"
  using dec_nat_digits [of n] dec_nat_length [of n 20] by (auto simp: list_all_iff is_digit_def)

lemma ask_stop_ok: "n < 2 ^ 64 \<Longrightarrow> props_ok (ask_stop n) \<and> (\<forall>p\<in>set (ask_stop n). prop_clean p)"
  using dec_nat_clean [of n] by (simp add: ask_stop_def props_ok_def prop_ok_def prop_clean_def str_bytes_def)

lemma RmStopTr_call:
  assumes "client_ok ks c" "n < 2 ^ 64" "e_channel env = 0"
  shows "Rx_Call_DataProc g env 12 (rx_after (call_msg uid 12 (ask_stop n)) b c) =
    map_option (Pair False) (MakeCallRes (if stop_accepted c n then RES_ACCEPT else RES_REJECTED)
      (let d = rx_after (call_msg uid 12 (ask_stop n)) b c; d = d\<lparr>Tx_Msg := (Tx_Msg d)\<lparr>tx_type := 3\<rparr>\<rparr>
       in if stop_accepted c n then d\<lparr>ses := (ses d)\<lparr>bReqRmtStopTSFlg := True\<rparr>\<rparr> else d))"
proof -
  let ?p = "JNum (str_bytes ''transactionId'') (dec_nat n)"
  let ?d = "rx_after (call_msg uid 12 [?p]) b c"
  have p: "pname (prop_stored ?p) = str_bytes ''transactionId''" "property_contants (prop_stored ?p) = dec_nat n @ replicate (1024 - length (dec_nat n)) 0"
    using ask_stop_ok [OF assms(2)] by (simp_all add: ask_stop_def props_ok_def prop_read)
  have f: "rx_first 0 (?d\<lparr>Tx_Msg := m\<rparr>) = Some (prop_stored ?p)" for m
    using rx_first_call [of "[?p]" 0] by (simp add: rx_first_def)
  have l: "length (dec_nat n) \<le> 20" using dec_nat_clean [OF assms(2)] by simp
  have s: "String2Integer (dec_nat n @ replicate (1024 - length (dec_nat n)) 0) = Some (word_of_nat n)"
    using assms(2) l by (intro String2Integer_dec) simp_all
  have sz: "length (bCpStat (ses c)) = 2" "length (bTrId (ses c)) = 2" using assms(1) by (simp_all add: client_ok_def client_sizes_def)
  show ?thesis
    unfolding ask_stop_def
    using sz assms(3) by (simp add: Rx_Call_DataProc_def Let_def DataProcCmd_RmStopTr_def f p s rd_def GetCpStatus_def stop_accepted_def)
qed

text \<open>The flag survives the parts of the charging pass before it is looked at.\<close>

lemma stop_flag_kept:
  "bReqRmtStopTSFlg (fst (TSCT_ChargingStop s)) = bReqRmtStopTSFlg s"
  "bReqRmtStopTSFlg (fst (charge_parent s)) = bReqRmtStopTSFlg s"
  "bReqRmtStopTSFlg (fst (charge_network cfg cenv s)) = bReqRmtStopTSFlg s"
proof -
  show k: "bReqRmtStopTSFlg (fst (TSCT_ChargingStop s)) = bReqRmtStopTSFlg s" for s
    by (simp add: TSCT_ChargingStop_def GotoNextLayerOnCharge_def MagneticContactorOff_def LEDStopBlink_def LEDOff_def Let_def)
  show "bReqRmtStopTSFlg (fst (charge_parent s)) = bReqRmtStopTSFlg s"
    using k [of "s\<lparr>card_no := scnd_card_no s, StopTs_IdTag := scnd_card_no s\<rparr>"] by (simp add: charge_parent_def split_beta)
  show "bReqRmtStopTSFlg (fst (charge_network cfg cenv s)) = bReqRmtStopTSFlg s"
    using k by (simp add: charge_network_def Let_def)
qed

lemma stop_flag_account: "yields (\<lambda>x. bReqRmtStopTSFlg (fst x) = bReqRmtStopTSFlg s) (charge_account cenv s)"
  unfolding charge_account_def Let_def
  by (rule yields_if yields_bind yields_Some | simp add: stop_flag_kept)+

lemma ChargingStop_stops: "\<not> MCOn (fst (TSCT_ChargingStop s)) \<and> \<not> magnet_pin (fst (TSCT_ChargingStop s)) \<and>
   app_order (fst (TSCT_ChargingStop s)) = APP_ORDER_CHARGING_STOP \<and> Pwm False \<in> set (snd (TSCT_ChargingStop s))"
  by (simp add: TSCT_ChargingStop_def GotoNextLayerOnCharge_def MagneticContactorOff_def LEDStopBlink_def LEDOff_def Let_def)

lemma stops_remote:
  assumes "bReqRmtStopTSFlg s"
  shows "yields (\<lambda>x. \<not> MCOn (fst x) \<and> \<not> magnet_pin (fst x) \<and> app_order (fst x) = APP_ORDER_CHARGING_STOP \<and> Pwm False \<in> set (snd x)) (charge_stops cfg cenv s)"
proof -
  have f: "yields (\<lambda>x. bReqRmtStopTSFlg (fst x)) (if charge_env.faultChargFlg cenv
       then if StopOnInvalidId cfg then Some (TSCT_ChargingStop s)
            else SetCpStatus CP_STATUS_CODE_SUSPENDEDEVSE 1 s \<bind> (\<lambda>s. Some (s, []))
       else Some (s, []))"
    by (rule yields_if yields_bind yields_Some | simp add: stop_flag_kept assms | (use assms in \<open>auto simp: SetCpStatus_def split: bind_splits\<close>; fail))+
  show ?thesis unfolding charge_stops_def Let_def
    by (rule bind_via [OF f]) (auto simp: split_beta stop_flag_kept ChargingStop_stops intro!: yields_Some)
qed

lemma remote_stop_pass:
  assumes "bReqRmtStopTSFlg s" "sDLsChargeMonitoring s" "sChargeMonitoringTaskFuntion cfg cenv s = Some (s', acts)"
  shows "\<not> MCOn s' \<and> \<not> magnet_pin s' \<and> app_order s' = APP_ORDER_CHARGING_STOP \<and> Pwm False \<in> set acts"
proof -
  obtain s1 a where a: "charge_account cenv s = Some (s1, a)"
    using assms(2,3) by (auto simp: sChargeMonitoringTaskFuntion_def split: bind_splits)
  obtain s2 b where b: "charge_parent s1 = (s2, b)" by (cases "charge_parent s1")
  obtain s3 c where c: "charge_network cfg cenv s2 = (s3, c)" by (cases "charge_network cfg cenv s2")
  have "bReqRmtStopTSFlg s3"
    using yieldsD [OF stop_flag_account a] stop_flag_kept(2) [of s1] stop_flag_kept(3) [of cfg cenv s2] a b c assms(1) by simp
  moreover obtain d where d: "charge_stops cfg cenv s3 = Some (s', d)" "acts = a @ b @ c @ d"
    using assms(2,3) by (auto simp: sChargeMonitoringTaskFuntion_def a b c split: bind_splits)
  ultimately show ?thesis using yieldsD [OF stops_remote d(1)] by simp
qed

text \<open>C5. \<open>RemoteStopTransaction\<close> with a number as transaction id is answered under the id of the call: accepted exactly
  when the number is the id of the running transaction and the connector is charging or suspended by the vehicle.  Then the
  remote stop flag is set, and the next pass of the charging task opens the contactor, switches the pilot signal off and
  ends the session; otherwise nothing of the session changes.\<close>

theorem remote_stop_answered:
  assumes "call_ok c uid 12 (ask_stop n) g" "client_ok ks c" "quiet (Tx_Msg c)" "n < 2 ^ 64" "e_channel env = 0"
  shows "\<exists>m r s. WSRxThread bat g g' env True (Recv_data (call_text uid 12 (ask_stop n))) c =
      Some (c\<lparr>bRecvConnCnt := 0, ServerCallError := False, ses := s, Tx_Msg := m, rxs := r\<rparr>,
        [Ws_send (frame_text (status_frame uid (if stop_accepted c n then RES_ACCEPT else RES_REJECTED)))]) \<and>
    s = (if stop_accepted c n then (ses c)\<lparr>bReqRmtStopTSFlg := True\<rparr> else ses c) \<and>
    (stop_accepted c n \<longrightarrow> (\<forall>cfg cenv s' acts. sDLsChargeMonitoring s \<longrightarrow> sChargeMonitoringTaskFuntion cfg cenv s = Some (s', acts) \<longrightarrow>
       \<not> MCOn s' \<and> \<not> magnet_pin s' \<and> app_order s' = APP_ORDER_CHARGING_STOP \<and> Pwm False \<in> set acts))"
proof -
  let ?ps = "ask_stop n"
  let ?b = "call_text uid 12 ?ps"
  let ?x = "rx_after (call_msg uid 12 ?ps) ?b c"
  let ?d = "let d = ?x\<lparr>Tx_Msg := (Tx_Msg ?x)\<lparr>tx_type := 3\<rparr>\<rparr> in if stop_accepted c n then d\<lparr>ses := (ses d)\<lparr>bReqRmtStopTSFlg := True\<rparr>\<rparr> else d"
  have "\<exists>m r. WSRxThread bat g g' env True (Recv_data ?b) c =
    Some (?d\<lparr>Tx_Msg := m, rxs := r\<rparr>, [Ws_send (frame_text (status_frame uid (if stop_accepted c n then RES_ACCEPT else RES_REJECTED)))])"
    using RmStopTr_call [OF assms(2,4,5), of g' uid ?b]
    by (intro answered_call [OF assms(1-3)]) (simp_all add: Let_def)
  then obtain m r where w: "WSRxThread bat g g' env True (Recv_data ?b) c =
    Some (?d\<lparr>Tx_Msg := m, rxs := r\<rparr>, [Ws_send (frame_text (status_frame uid (if stop_accepted c n then RES_ACCEPT else RES_REJECTED)))])"
    by blast
  have d: "?d\<lparr>Tx_Msg := m, rxs := r\<rparr> = c\<lparr>bRecvConnCnt := 0, ServerCallError := False,
      ses := if stop_accepted c n then (ses c)\<lparr>bReqRmtStopTSFlg := True\<rparr> else ses c, Tx_Msg := m, rxs := r\<rparr>"
    by (simp add: rx_after_def Let_def)
  show ?thesis unfolding w d using remote_stop_pass [of "(ses c)\<lparr>bReqRmtStopTSFlg := True\<rparr>"] by auto
qed

theorem remote_stop_answered_witness:
  "\<exists>m r. WSRxThread [] (replicate 30 0) [] env_start True
      (Recv_data (call_text [0x37] 12 (ask_stop 1234567890))) client_run =
    Some (client_run\<lparr>bRecvConnCnt := 0, ServerCallError := False, ses := (ses client_run)\<lparr>bReqRmtStopTSFlg := True\<rparr>, Tx_Msg := m, rxs := r\<rparr>,
      [Ws_send (frame_text (status_frame [0x37] RES_ACCEPT))])"
proof -
  have a: "stop_accepted client_run 1234567890" by (simp add: stop_accepted_def client_run_def)
  have ps: "props_ok (ask_stop 1234567890)" "\<forall>p\<in>set (ask_stop 1234567890). prop_clean p" using ask_stop_ok [of 1234567890] by simp_all
  have e: "e_channel env_start = 0" by (simp add: env_start_def)
  have l: "length (call_text [0x37] 12 (ask_stop 1234567890)) < 1024"
    using dec_nat_clean [of 1234567890] by (simp add: call_length ask_stop_def str_bytes_facts(3) cs_req_msg_def)
  show ?thesis
    using remote_stop_answered [OF client_run_call [OF ps l] client_run_ok(1,2) _ e, of "[]" "[]"] a by auto
qed

section \<open>Overruns\<close>

lemma each_None:
  assumes "\<And>p c. P c \<Longrightarrow> yields P (f p c)" "\<And>c. P c \<Longrightarrow> f x c = None"
  shows "P c \<Longrightarrow> x \<in> set xs \<Longrightarrow> each f xs c = None"
proof (induction xs arbitrary: c)
  case (Cons y ys)
  show ?case
  proof (cases "f y c")
    case (Some d)
    then have "P d" using assms(1) [OF Cons.prems(1), of y] by (simp add: yields_def)
    moreover have "x \<in> set ys" using Cons.prems assms(2) Some by auto
    ultimately show ?thesis using Cons.IH Some by simp
  qed simp
qed simp

text \<open>Actions with a parameter whose whole array of 1024 bytes is copied into a shorter one.\<close>

definition overruns :: "nat \<Rightarrow> bytes \<Rightarrow> bool" where
  "overruns k name \<longleftrightarrow> k = 9 \<and> name = str_bytes ''location'' \<or> k = 18 \<and> name = str_bytes ''connectorId'' \<or>
     k = 19 \<and> (name = str_bytes ''location'' \<or> name = str_bytes ''retrieveDate'')"

lemma handler_msg:
  assumes "length ps \<le> 10" "ps \<noteq> []"
  shows "rx_props ((rx_after (call_msg uid k ps) b c)\<lparr>Tx_Msg := m\<rparr>) = Some (map prop_stored ps)"
  using rx_props_call [OF assms, of uid k b c] by (simp add: rx_props_def)

text \<open>The handlers look at the sizes outside the receive buffers.\<close>

lemma ok_called:
  "client_ok ks c \<Longrightarrow> rx_sizes (rxs (rx_after m b c)) \<Longrightarrow> client_ok ks ((rx_after m b c)\<lparr>Tx_Msg := (Tx_Msg c)\<lparr>tx_type := 3\<rparr>\<rparr>)"
  by (simp add: client_ok_def client_sizes_def)

lemma big_value: "length (property_contants (prop_stored p)) \<ge> 1024"
  by (simp add: prop_stored_def)

lemma copies_overrun:
  assumes "client_ok ks c" "prop_ok p" "prop_clean p"
  shows "jname p = str_bytes ''location'' \<Longrightarrow> diag_prop (prop_stored p) c = None"
    "jname p = str_bytes ''connectorId'' \<Longrightarrow> unlock_prop (prop_stored p) c = None"
    "jname p = str_bytes ''location'' \<or> jname p = str_bytes ''retrieveDate'' \<Longrightarrow> update_prop (prop_stored p) c = None"
proof -
  have l: "length (diagLogUrl c) = 100" "length (fwUpdateUrl c) = 70" "length (fw_Time_Stamp c) = 50"
    using assms(1) by (simp_all add: client_ok_def client_sizes_def)
  have b: "length dst \<le> 100 \<Longrightarrow> blit dst 0 (property_contants (prop_stored p)) = None" for dst
    using big_value [of p] by (simp add: blit_def)
  show "jname p = str_bytes ''location'' \<Longrightarrow> diag_prop (prop_stored p) c = None"
    "jname p = str_bytes ''connectorId'' \<Longrightarrow> unlock_prop (prop_stored p) c = None"
    "jname p = str_bytes ''location'' \<or> jname p = str_bytes ''retrieveDate'' \<Longrightarrow> update_prop (prop_stored p) c = None"
    using l b prop_read(1) [OF assms(2,3)]
    by (auto simp: diag_prop_def unlock_prop_def update_prop_def)
qed

text \<open>A \<open>GetDiagnostics\<close> or \<open>UpdateFirmware\<close> with a \<open>location\<close>, an \<open>UpdateFirmware\<close> with a \<open>retrieveDate\<close> and an
  \<open>UnlockConnector\<close> with a \<open>connectorId\<close> make the client write outside its arrays: the handler copies the whole buffer of
  1024 bytes of the value into \<open>diagLogUrl\<close>, \<open>fwUpdateUrl\<close> or \<open>fw_Time_Stamp\<close>, which have 100, 70 and 50.\<close>

theorem copied_values_overrun:
  assumes "call_ok c uid k ps g" "client_ok ks c" "1 \<le> k" "k < 20" "p \<in> set ps" "overruns k (jname p)"
  shows "WSRxThread bat g g' env ok (Recv_data (call_text uid k ps)) c = None"
proof -
  let ?x = "rx_after (call_msg uid k ps) (call_text uid k ps) c"
  let ?d = "?x\<lparr>Tx_Msg := (Tx_Msg ?x)\<lparr>tx_type := 3\<rparr>\<rparr>"
  have ok: "client_ok ks ?d" using ok_called [OF assms(2) rx_after_sizes [OF assms(1-4)]] by simp
  have p: "prop_ok p" "prop_clean p" "length ps \<le> 10" "ps \<noteq> []" using assms(1,5) by (auto simp: call_ok_def props_ok_def)
  note c = copies_overrun [OF _ p(1,2)]
  have m: "prop_stored p \<in> set (map prop_stored ps)" using assms(5) by simp
  have e1: "each diag_prop (map prop_stored ps) ?d = None" if "jname p = str_bytes ''location''"
    by (rule each_None [of "client_ok ks" diag_prop "prop_stored p", OF ok_url_props(1) _ ok m]) (use c(1) that in blast)+
  have e2: "each unlock_prop (map prop_stored ps) ?d = None" if "jname p = str_bytes ''connectorId''"
    by (rule each_None [of "client_ok ks" unlock_prop "prop_stored p", OF ok_url_props(2) _ ok m]) (use c(2) that in blast)+
  have e3: "each update_prop (map prop_stored ps) ?d = None" if "jname p = str_bytes ''location'' \<or> jname p = str_bytes ''retrieveDate''"
    by (rule each_None [of "client_ok ks" update_prop "prop_stored p", OF ok_update_prop _ ok m]) (use c(3) that in blast)+
  have "Rx_Call_DataProc g' env k ?x = None"
    using assms(6) e1 e2 e3 handler_msg [OF p(3,4)]
    by (auto simp: overruns_def Rx_Call_DataProc_def Let_def DataProcCmd_GetDiag_def DataProcCmd_UnlockConnect_def DataProcCmd_UpdateFw_def)
  then show ?thesis using receive_call [OF _ refl, of c uid k ps g bat g' env ok] assms(1,3,4) by (simp add: call_ok_def)
qed

theorem copied_values_overrun_witness:
  "WSRxThread [] (replicate 30 0) [] env_start True
     (Recv_data (call_text [0x37] 9 [JStr (str_bytes ''location'') (str_bytes ''ftp://x'')])) client_run = None"
proof -
  let ?ps = "[JStr (str_bytes ''location'') (str_bytes ''ftp://x'')]"
  have ps: "props_ok ?ps" "\<forall>p\<in>set ?ps. prop_clean p" by (simp_all add: props_ok_def prop_ok_def prop_clean_def str_bytes_def)
  have l: "length (call_text [0x37] 9 ?ps) < 1024" by (simp add: call_length str_bytes_facts(3) cs_req_msg_def)
  show ?thesis
    using copied_values_overrun [OF client_run_call [OF ps l] client_run_ok(1), of "?ps ! 0" "[]" "[]" env_start True]
    by (simp add: overruns_def)
qed

section \<open>Configuration\<close>

definition number_key :: "nat \<Rightarrow> string \<Rightarrow> bool" where
  "number_key i name \<longleftrightarrow> i = 1 \<and> name = ''ClockAlignedDataInterval'' \<or> i = 2 \<and> name = ''ConnectionTimeOut'' \<or>
     i = 10 \<and> name = ''MeterValueSampleInterval''"

definition bool_key :: "nat \<Rightarrow> string \<Rightarrow> bool" where
  "bool_key i name \<longleftrightarrow> i = 0 \<and> name = ''AuthorizeRemoteTxRequests'' \<or> i = 6 \<and> name = ''LocalAuthorizeOffline'' \<or>
     i = 7 \<and> name = ''LocalPreAuthorize'' \<or> i = 13 \<and> name = ''StopTransactionOnEVSideDisconnect'' \<or>
     i = 14 \<and> name = ''StopTransactionOnInvalidId'' \<or> i = 20 \<and> name = ''UnlockConnectorOnEVSideDisconnect'' \<or>
     i = 23 \<and> name = ''AllowOfflineTxForUnknownId''"

text \<open>The entry, the name, the text of the value and the number that stands for it in the table.\<close>

definition config_sets :: "nat \<Rightarrow> string \<Rightarrow> bytes \<Rightarrow> u32 \<Rightarrow> bool" where
  "config_sets i name v w \<longleftrightarrow> number_key i name \<and> (\<exists>n < 2 ^ 32. v = dec_nat n \<and> w = word_of_nat n) \<or>
     bool_key i name \<and> (v = str_bytes ''true'' \<and> w = 1 \<or> v = str_bytes ''false'' \<and> w = 0)"

definition ask_config :: "string \<Rightarrow> bytes \<Rightarrow> jprop list" where
  "ask_config name v = [JStr (str_bytes ''key'') (str_bytes name), JStr (str_bytes ''value'') v]"

lemma config_value_clean:
  assumes "config_sets i name v w"
  shows "length v \<le> 20" "quote \<notin> set v" "ch_rbracket \<notin> set v" "ch_backslash \<notin> set v" "0 \<notin> set v"
proof -
  have "length v \<le> 20 \<and> quote \<notin> set v \<and> ch_rbracket \<notin> set v \<and> ch_backslash \<notin> set v \<and> 0 \<notin> set v"
  proof (cases "v = str_bytes ''true'' \<or> v = str_bytes ''false''")
    case False
    then obtain n where n: "n < 2 ^ 32" "v = dec_nat n" using assms by (auto simp: config_sets_def)
    then have "list_all is_digit v \<and> length v \<le> 20" using dec_nat_clean [of n] by simp
    then show ?thesis by (auto simp: list_all_iff is_digit_def)
  qed (auto simp: str_bytes_def)
  then show "length v \<le> 20" "quote \<notin> set v" "ch_rbracket \<notin> set v" "ch_backslash \<notin> set v" "0 \<notin> set v" by simp_all
qed

lemma config_name_clean:
  "config_sets i name v w \<Longrightarrow> length (str_bytes name) \<le> 60 \<and> quote \<notin> set (str_bytes name) \<and> ch_rbracket \<notin> set (str_bytes name) \<and>
     ch_backslash \<notin> set (str_bytes name) \<and> 0 \<notin> set (str_bytes name) \<and> i < 24"
  unfolding config_sets_def number_key_def bool_key_def by (elim disjE conjE) (simp_all add: str_bytes_def)

lemma ask_config_ok: "config_sets i name v w \<Longrightarrow> props_ok (ask_config name v) \<and> (\<forall>p\<in>set (ask_config name v). prop_clean p)"
  using config_value_clean [of i name v w] config_name_clean [of i name v w]
  by (simp add: ask_config_def props_ok_def prop_ok_def prop_clean_def) (simp add: str_bytes_def)

lemma change_number:
  assumes "n < 2 ^ 32" "length (CfgKeyVal c) = 24" "j < 24"
  shows "cfg_number j (dec_nat n @ replicate (1024 - length (dec_nat n)) 0) c =
    Some (RES_ACCEPT, c\<lparr>CfgKeyVal := (CfgKeyVal c)[j := (CfgKeyVal c ! j)\<lparr>CfgKeyDataInt := word_of_nat n\<rparr>]\<rparr>)"
proof -
  have n: "n < 2 ^ 64" using assms(1) by simp
  note d = dec_nat_clean [OF n]
  have "dec_nat n \<noteq> []" by (subst dec_nat.simps) simp
  then obtain ch r where w: "dec_nat n = ch # r" by (cases "dec_nat n") auto
  have "is_digit ch" using d w by simp
  then have ch: "ch \<noteq> 0x2D" by (auto simp: is_digit_def)
  have s: "String2Integer (dec_nat n @ replicate (1024 - length (dec_nat n)) 0) = Some (word_of_nat n)"
    using n d by (intro String2Integer_dec) simp_all
  have u: "(ucast (word_of_nat n :: u64) :: u32) = word_of_nat n" using n by (simp add: unsigned_of_nat take_bit_nat_eq_self)
  show ?thesis using s u ch assms(2,3) by (simp add: cfg_number_def cfg_put_def rd_def) (simp add: w)
qed

lemma change_key_sets:
  assumes "config_sets i name v w" "length (CfgKeyVal c) = 24"
    and "property_contants p = v @ replicate (1024 - length v) 0" "pval p = v"
  shows "change_key (str_bytes name) p c =
    Some (RES_ACCEPT, c\<lparr>CfgKeyVal := (CfgKeyVal c)[i := (CfgKeyVal c ! i)\<lparr>CfgKeyDataInt := w\<rparr>]\<rparr>)"
proof -
  have b: "cfg_bool j v c = Some (RES_ACCEPT, c\<lparr>CfgKeyVal := (CfgKeyVal c)[j := (CfgKeyVal c ! j)\<lparr>CfgKeyDataInt := w\<rparr>]\<rparr>)"
    "cfg_flag j v c = Some (RES_ACCEPT, c\<lparr>CfgKeyVal := (CfgKeyVal c)[j := (CfgKeyVal c ! j)\<lparr>CfgKeyDataInt := w\<rparr>]\<rparr>)"
    if "v = str_bytes ''true'' \<and> w = 1 \<or> v = str_bytes ''false'' \<and> w = 0" "j < 24" for j
    using that assms(2) by (auto simp: cfg_bool_def cfg_flag_def cfg_put_def rd_def str_bytes_facts(1))
  show ?thesis using assms(1) unfolding config_sets_def
  proof (elim disjE conjE exE)
    fix n assume n: "number_key i name" "n < 2 ^ 32" "v = dec_nat n" "w = word_of_nat n"
    show ?thesis using n(1) change_number [OF n(2) assms(2)] assms(3) n(3,4) unfolding number_key_def
      by (elim disjE conjE) (simp_all add: change_key_def str_bytes_facts(1))
  next
    assume k: "bool_key i name" and v: "v = str_bytes ''true''" "w = 1"
    show ?thesis using k b v assms(4) unfolding bool_key_def by (elim disjE conjE) (simp_all add: change_key_def str_bytes_facts(1))
  next
    assume k: "bool_key i name" and v: "v = str_bytes ''false''" "w = 0"
    show ?thesis using k b v assms(4) unfolding bool_key_def by (elim disjE conjE) (simp_all add: change_key_def str_bytes_facts(1))
  qed
qed

lemma ChangeConfig_call:
  assumes "client_ok ks c" "config_sets i name v w"
  shows "Rx_Call_DataProc g env 3 (rx_after (call_msg uid 3 (ask_config name v)) b c) =
    map_option (Pair False) (MakeCallRes RES_ACCEPT
      ((rx_after (call_msg uid 3 (ask_config name v)) b c)\<lparr>Tx_Msg := (Tx_Msg c)\<lparr>tx_type := 3\<rparr>,
        CfgKeyVal := (CfgKeyVal c)[i := (CfgKeyVal c ! i)\<lparr>CfgKeyDataInt := w\<rparr>]\<rparr>))"
proof -
  let ?ps = "ask_config name v"
  let ?x = "rx_after (call_msg uid 3 ?ps) b c"
  have ok: "\<forall>p\<in>set ?ps. prop_ok p \<and> prop_clean p" using ask_config_ok [OF assms(2)] by (simp add: props_ok_def)
  have p: "pname (prop_stored (?ps ! 0)) = str_bytes ''key''" "pval (prop_stored (?ps ! 0)) = str_bytes name"
    "pname (prop_stored (?ps ! 1)) = str_bytes ''value''" "pval (prop_stored (?ps ! 1)) = v"
    "property_contants (prop_stored (?ps ! 1)) = v @ replicate (1024 - length v) 0"
    using ok by (simp_all add: ask_config_def prop_read)
  have f: "rx_first j (?x\<lparr>Tx_Msg := m\<rparr>) = Some (prop_stored (?ps ! j))" if "j < 2" for j m
    using rx_first_call [of ?ps j] that by (simp add: rx_first_def ask_config_def)
  have l: "length (CfgKeyVal (?x\<lparr>Tx_Msg := (Tx_Msg c)\<lparr>tx_type := 3\<rparr>\<rparr>)) = 24" using ok_lengths(3) [OF assms(1)] by simp
  show ?thesis
    using f [of 0] f [of 1] p change_key_sets [OF assms(2) l p(5,4)]
    by (simp add: Rx_Call_DataProc_def Let_def DataProcCmd_ChangeConfig_def)
qed

text \<open>The text of a key in the answer to \<open>GetConfiguration\<close>.\<close>

definition key_value :: "TSCT_CFG_KEY \<Rightarrow> bytes" where
  "key_value k = (case CfgKeyType k of
     TYPE_CODE_BOOL \<Rightarrow> str_bytes (if CfgKeyDataInt k \<noteq> 0 then ''true'' else ''false'')
   | TYPE_CODE_INT \<Rightarrow> dec_nat (unat (CfgKeyDataInt k)) | _ \<Rightarrow> str_bytes (CfgKeyDataCha k))"

definition key_bytes :: "TSCT_CFG_KEY \<Rightarrow> bytes" where
  "key_bytes k = str_bytes (''{\"key\":\"'' @ CfgKeyName k @ ''\",\"readonly\":'' @ CheckCfgKey k @ '',\"value\":\"'') @ key_value k @ str_bytes ''\"}''"

definition key_short :: "TSCT_CFG_KEY \<Rightarrow> bool" where
  "key_short k \<longleftrightarrow> CfgKeyType k \<in> {TYPE_CODE_BOOL, TYPE_CODE_INT, TYPE_CODE_STR} \<and> length (CfgKeyDataCha k) < 58 \<and> length (CfgKeyName k) \<le> 40"

lemma WriteCfgKey_bytes: "key_short k \<Longrightarrow> WriteCfgKey k = Some (key_bytes k)"
  by (auto simp: WriteCfgKey_def key_short_def key_bytes_def key_value_def)

lemma write_keys_bytes: "list_all key_short ks \<Longrightarrow> write_keys ks = Some (map (\<lambda>k. cfg_element (key_bytes k)) ks)"
  by (induction ks) (simp_all add: WriteCfgKey_bytes)

lemma unat_u32_digits: "length (dec_nat (unat (w :: u32))) \<le> 10"
proof -
  have "unat w < 2 ^ 32" using unsigned_less [of w, where ?'a = nat] by simp
  then have "unat w < 10 ^ 10" by simp
  then show ?thesis by (rule dec_nat_length) simp
qed

lemma key_bytes_length: "key_short k \<Longrightarrow> length (key_bytes k) \<le> 200"
  using unat_u32_digits [of "CfgKeyDataInt k"]
  by (auto simp: key_short_def key_bytes_def key_value_def CheckCfgKey_def str_bytes_facts(3))

lemma commas_length: "\<forall>x\<in>set xs. length x \<le> m \<Longrightarrow> length (commas xs) \<le> length xs * (m + 1)"
  by (induction xs rule: commas.induct) auto

lemma Init_short: "list_all key_short Init_CfgKey"
  by (simp add: Init_CfgKey_def key_short_def ck_bool_def ck_int_def ck_str_def ocppConfigKeyName_def)

lemma like_short: "list_all2 key_like ks ks' \<Longrightarrow> list_all key_short ks \<Longrightarrow> list_all key_short ks'"
  by (auto simp: list_all_length list_all2_conv_all_nth key_like_def key_short_def)

lemma GetConfig_call:
  assumes "client_ok Init_CfgKey c"
  shows "\<exists>m. Rx_Call_DataProc g env 8 (rx_after (call_msg uid 8 []) b c) = Some (False, (rx_after (call_msg uid 8 []) b c)\<lparr>Tx_Msg := m\<rparr>) \<and>
    abs_msg rid m = Result (cstr rid) [(str_bytes ''configurationKey'', JArray (map key_bytes (CfgKeyVal c)))] \<and> unat (tx_len m) \<le> length (tx_payload m)"
proof -
  let ?x = "rx_after (call_msg uid 8 []) b c"
  let ?d = "tx_result 1 (?x\<lparr>Tx_Msg := (Tx_Msg c)\<lparr>tx_type := 3\<rparr>\<rparr>)"
  let ?subs = "map (\<lambda>k. cfg_element (key_bytes k)) (CfgKeyVal c)"
  let ?m = "(Tx_Msg ?d)\<lparr>tx_payload := (tx_payload (Tx_Msg c))[0 := put_keys ''configurationKey'' ?subs (tx_payload (Tx_Msg c) ! 0)]\<rparr>"
  have k: "list_all key_short (CfgKeyVal c)" "length (CfgKeyVal c) = 24" "length (tx_payload (Tx_Msg c)) = 10"
    using assms like_short [OF _ Init_short] ok_lengths [OF assms] by (auto simp: client_ok_def)
  have p: "rx_first 0 (?x\<lparr>Tx_Msg := m\<rparr>) = Some payload_clear" for m
    by (simp add: rx_first_def rx_after_msg call_msg_def flat_payload_def rd_def)
  have e: "pname payload_clear = []" by (simp add: pname_def payload_clear_def cstr_def numeral_eq_Suc)
  have "Rx_Call_DataProc g env 8 ?x = Some (False, ?x\<lparr>Tx_Msg := ?m\<rparr>)"
    using k by (simp add: Rx_Call_DataProc_def Let_def DataProcCmd_GetConfig_def p e write_keys_bytes tx_result_def tx_upd_def rd_def)
  moreover have "take 1 (tx_payload ?m) = [put_keys ''configurationKey'' ?subs (tx_payload (Tx_Msg c) ! 0)]"
    using k(3) by (cases "tx_payload (Tx_Msg c)") simp_all
  then have "abs_msg rid ?m = Result (cstr rid) [(str_bytes ''configurationKey'', JArray (map key_bytes (CfgKeyVal c)))]"
    using k by (simp add: abs_msg_def abs_props_def tx_result_def unat_w8 put_keys_def abs_value_def cfg_element_def comp_def)
  moreover have "unat (tx_len ?m) \<le> length (tx_payload ?m)" using k(3) by (simp add: tx_result_def unat_w8)
  ultimately show ?thesis by blast
qed

lemma GetConfig_answer:
  assumes "call_ok c uid 8 [] g" "client_ok Init_CfgKey c" "quiet (Tx_Msg c)"
  shows "\<exists>c2. WSRxThread bat g g' env True (Recv_data (call_text uid 8 [])) c =
    Some (c2, [Ws_send (frame_text (Result uid [(str_bytes ''configurationKey'', JArray (map key_bytes (CfgKeyVal c)))]))])"
proof -
  let ?x = "rx_after (call_msg uid 8 []) (call_text uid 8 []) c"
  let ?f = "Result uid [(str_bytes ''configurationKey'', JArray (map key_bytes (CfgKeyVal c)))]"
  obtain m where m: "Rx_Call_DataProc g' env 8 ?x = Some (False, ?x\<lparr>Tx_Msg := m\<rparr>)" "unat (tx_len m) \<le> length (tx_payload m)"
    "abs_msg (UniqueID_Char (Rx_Msg (rxs ?x))) m = ?f"
    using GetConfig_call [OF assms(2), of g' env uid "call_text uid 8 []" "uid @ replicate (70 - length uid) 0"] assms(1)
    by (auto simp: call_ok_def rx_id cstr_id)
  have "wt (bWaitResFlg c) quiet ?x" using assms(3) by (simp add: wt_def)
  from yieldsD [OF wt_Rx_Call(1) [OF this] m(1)] have rdy: "ready 3 m" by (simp add: wt_def)
  have sh: "list_all key_short (CfgKeyVal c)" "length (CfgKeyVal c) = 24"
    using like_short [OF _ Init_short] ok_lengths [OF assms(2)] assms(2) by (auto simp: client_ok_def)
  then have "length (commas (map key_bytes (CfgKeyVal c))) \<le> 24 * 201"
    using commas_length [of "map key_bytes (CfgKeyVal c)" 200] key_bytes_length by (simp add: list_all_iff)
  then have l: "length (frame_text ?f) < 65536"
    using assms(1) by (simp add: call_ok_def frame_result_length member_text_def str_bytes_facts(3) del: frame_text.simps)
  have "WSRxThread bat g g' env True (Recv_data (call_text uid 8 [])) c = Tsct_Curl_Ws_Trans bat env True (?x\<lparr>Tx_Msg := m\<rparr>)"
    using receive_call [OF _ refl, of c uid 8 "[]" g bat g' env True] assms(1) m(1) by (simp add: call_ok_def)
  then show ?thesis using Trans_result [OF rdy m(2,3) l, of bat env] by auto
qed

lemma config_key_text:
  assumes "client_ok Init_CfgKey c" "config_sets i name v w"
  shows "i < 24 \<and> key_bytes ((CfgKeyVal c ! i)\<lparr>CfgKeyDataInt := w\<rparr>) =
    str_bytes (''{\"key\":\"'' @ name @ ''\",\"readonly\":false,\"value\":\"'') @ v @ str_bytes ''\"}''"
proof -
  have i: "i < 24" using config_name_clean [OF assms(2)] by simp
  have l: "key_like (Init_CfgKey ! i) (CfgKeyVal c ! i)" using assms(1) i by (auto simp: client_ok_def list_all2_conv_all_nth)
  have "CfgKeyName (Init_CfgKey ! i) = name \<and> \<not> CfgKeyRw (Init_CfgKey ! i) \<and>
      CfgKeyType (Init_CfgKey ! i) = (if number_key i name then TYPE_CODE_INT else TYPE_CODE_BOOL)"
    using assms(2) unfolding config_sets_def number_key_def bool_key_def
    by (elim disjE conjE) (simp_all add: Init_CfgKey_def ck_int_def ck_bool_def ocppConfigKeyName_def)
  then have k: "CfgKeyName (CfgKeyVal c ! i) = name" "\<not> CfgKeyRw (CfgKeyVal c ! i)"
      "CfgKeyType (CfgKeyVal c ! i) = (if number_key i name then TYPE_CODE_INT else TYPE_CODE_BOOL)"
    using l by (auto simp: key_like_def)
  have "key_value ((CfgKeyVal c ! i)\<lparr>CfgKeyDataInt := w\<rparr>) = v"
  proof (cases "number_key i name")
    case True
    then have "\<not> bool_key i name" by (auto simp: number_key_def bool_key_def)
    then obtain n where n: "n < 2 ^ 32" "v = dec_nat n" "w = word_of_nat n" using assms(2) by (auto simp: config_sets_def)
    then have "unat w = n" by (simp add: unat_of_nat)
    then show ?thesis using True k(3) n(2) by (simp add: key_value_def)
  next
    case False
    then show ?thesis using assms(2) k(3) by (auto simp: config_sets_def key_value_def)
  qed
  then show ?thesis using i k by (simp add: key_bytes_def CheckCfgKey_def)
qed

text \<open>C16. What \<open>ChangeConfiguration\<close> sets, \<open>GetConfiguration\<close> shows.  For each of the ten keys that the handler can change
  - a number below \<open>2 ^ 32\<close> for one of the three intervals, \<open>true\<close> or \<open>false\<close> for one of the seven switches - the call is
  accepted, changes the entry of this key in the table and no other, and the answer to a following request for all keys has
  24 elements, with the same text under that key.\<close>

theorem configuration_roundtrip:
  assumes "call_ok c uid 3 (ask_config name v) g" "call_ok c uid2 8 [] g2" "client_ok Init_CfgKey c" "quiet (Tx_Msg c)"
    and "config_sets i name v w"
  shows "\<exists>c1 c2 ks. WSRxThread bat g g' env True (Recv_data (call_text uid 3 (ask_config name v))) c =
      Some (c1, [Ws_send (frame_text (status_frame uid RES_ACCEPT))]) \<and>
    CfgKeyVal c1 = (CfgKeyVal c)[i := (CfgKeyVal c ! i)\<lparr>CfgKeyDataInt := w\<rparr>] \<and>
    WSRxThread bat g2 g' env True (Recv_data (call_text uid2 8 [])) c1 =
      Some (c2, [Ws_send (frame_text (Result uid2 [(str_bytes ''configurationKey'', JArray ks)]))]) \<and>
    length ks = 24 \<and> ks ! i = str_bytes (''{\"key\":\"'' @ name @ ''\",\"readonly\":false,\"value\":\"'') @ v @ str_bytes ''\"}''"
proof -
  let ?b = "call_text uid 3 (ask_config name v)" and ?b2 = "call_text uid2 8 []"
  let ?K = "(CfgKeyVal c)[i := (CfgKeyVal c ! i)\<lparr>CfgKeyDataInt := w\<rparr>]"
  let ?d = "(rx_after (call_msg uid 3 (ask_config name v)) ?b c)\<lparr>Tx_Msg := (Tx_Msg c)\<lparr>tx_type := 3\<rparr>, CfgKeyVal := ?K\<rparr>"
  have "\<exists>m r. WSRxThread bat g g' env True (Recv_data ?b) c =
      Some (?d\<lparr>Tx_Msg := m, rxs := r\<rparr>, [Ws_send (frame_text (status_frame uid RES_ACCEPT))])"
    using ChangeConfig_call [OF assms(3,5)] by (intro answered_call [OF assms(1,3,4)]) simp_all
  then obtain m r where u: "WSRxThread bat g g' env True (Recv_data ?b) c =
      Some (?d\<lparr>Tx_Msg := m, rxs := r\<rparr>, [Ws_send (frame_text (status_frame uid RES_ACCEPT))])" by blast
  define c1 where "c1 = ?d\<lparr>Tx_Msg := m, rxs := r\<rparr>"
  have K: "CfgKeyVal c1 = ?K" "ses c1 = ses c" "bConnect c1 = bConnect c" by (simp_all add: c1_def rx_after_def Let_def)
  have ok: "client_ok Init_CfgKey c1" using yieldsD [OF ok_WSRxThread [OF assms(3)] u] by (simp add: c1_def)
  have q: "quiet (Tx_Msg c1)" using yieldsD [OF WSRxThread_pass [OF assms(4)] u] by (simp add: pass_ok_def c1_def)
  have call: "call_ok c1 uid2 8 [] g2" using assms(2) K rx_sizes_length [OF ok_rx_sizes [OF ok]] by (simp add: call_ok_def booted_def fits_buffer_def)
  obtain c2 where c2: "WSRxThread bat g2 g' env True (Recv_data ?b2) c1 =
      Some (c2, [Ws_send (frame_text (Result uid2 [(str_bytes ''configurationKey'', JArray (map key_bytes (CfgKeyVal c1)))]))])"
    using GetConfig_answer [OF call ok q] by blast
  show ?thesis
    using u c2 K ok_lengths(3) [OF assms(3)] config_key_text [OF assms(3,5)] unfolding c1_def [symmetric]
    by (intro exI [of _ c1] exI [of _ c2] exI [of _ "map key_bytes (CfgKeyVal c1)"]) simp
qed

theorem configuration_roundtrip_witness:
  "\<exists>c1 c2 ks. WSRxThread [] (replicate 30 0) [] env_start True
      (Recv_data (call_text [0x37] 3 (ask_config ''LocalAuthorizeOffline'' (str_bytes ''false''))))
      client_run = Some (c1, [Ws_send (frame_text (status_frame [0x37] RES_ACCEPT))]) \<and>
    WSRxThread [] (replicate 30 0) [] env_start True (Recv_data (call_text [0x37] 8 [])) c1 =
      Some (c2, [Ws_send (frame_text (Result [0x37] [(str_bytes ''configurationKey'', JArray ks)]))]) \<and>
    ks ! 6 = str_bytes ''{\"key\":\"LocalAuthorizeOffline\",\"readonly\":false,\"value\":\"'' @ str_bytes ''false'' @ str_bytes ''\"}''"
proof -
  have k: "config_sets 6 ''LocalAuthorizeOffline'' (str_bytes ''false'') 0" by (simp add: config_sets_def bool_key_def)
  have ps: "props_ok (ask_config ''LocalAuthorizeOffline'' (str_bytes ''false''))"
      "\<forall>p\<in>set (ask_config ''LocalAuthorizeOffline'' (str_bytes ''false'')). prop_clean p"
    using ask_config_ok [OF k] by simp_all
  have e: "props_ok []" "\<forall>p\<in>set []. prop_clean p" by (simp_all add: props_ok_def)
  have l: "length (call_text [0x37] 3 (ask_config ''LocalAuthorizeOffline'' (str_bytes ''false''))) < 1024" "length (call_text [0x37] 8 []) < 1024"
    by (simp_all add: call_length ask_config_def str_bytes_facts(3) cs_req_msg_def)
  show ?thesis
    using configuration_roundtrip [OF client_run_call [OF ps l(1)] client_run_call [OF e l(2)] client_run_ok(1,2) k, of "[]" "[]" env_start] by auto
qed

end
