(* ===== verification/Ocpp_Wait.thy ===== *)
theory Ocpp_Wait
  imports Ocpp_Serve
begin

text \<open>
  How waiting for a result ends: a request without an answer, results that nobody waits for, and the result of the boot
  notification.
\<close>

section \<open>Requests without an answer\<close>

text \<open>A pass of \<open>NetRun\<close> with its surroundings and the result of the handshake as event.\<close>

definition net_step :: "(bytes \<times> bytes) list \<Rightarrow> bool \<Rightarrow> ocpp_env \<times> bool \<Rightarrow> client \<Rightarrow> (client \<times> ocpp_act list) option" where
  "net_step bat ok e c = NetRun bat (fst e) (snd e) ok c"

text \<open>The timeout that \<open>Check_Resp_Time\<close> takes from the key table, in seconds.\<close>

definition patience :: "client \<Rightarrow> int" where
  "patience c = uint (CfgKeyDataInt (CfgKeyVal c ! 18))"

lemma patience_nonneg: "0 \<le> patience c"
  by (simp add: patience_def)

definition save_acts :: "client \<Rightarrow> ocpp_act list" where
  "save_acts c = (if bConfigSaveFlg c then [Config_save] else [])"

lemma NetRun_waiting:
  assumes "bWaitResFlg c" "bConnect c" "length (CfgKeyVal c) = 24" "tv_res c \<le> e_sec env"
  shows "NetRun bat env h ok c =
    Some (if patience c \<le> e_sec env - tv_res c then c\<lparr>bConfigSaveFlg := False, bConnect := False, bWaitResFlg := False\<rparr>
          else c\<lparr>bConfigSaveFlg := False\<rparr>, save_acts c)"
proof -
  have id: "c\<lparr>bConfigSaveFlg := x, tv_res := tv_res c\<rparr> = c\<lparr>bConfigSaveFlg := x\<rparr>" for x by (cases c) simp
  have id': "c\<lparr>bConfigSaveFlg := x, tv_res := tv_res c, bConnect := y, bWaitResFlg := z\<rparr> =
      c\<lparr>bConfigSaveFlg := x, bConnect := y, bWaitResFlg := z\<rparr>" for x y z by (cases c) simp
  show ?thesis using assms
    by (simp add: NetRun_def Let_def OCPP_CALL_Senario_def Check_Resp_Time_def rd_def patience_def save_acts_def id id')
qed

lemma waiting_run:
  assumes "bWaitResFlg c" "bConnect c" "length (CfgKeyVal c) = 24"
    and "\<forall>e\<in>set es. tv_res c \<le> e_sec (fst e) \<and> e_sec (fst e) - tv_res c < patience c"
  shows "\<exists>tr. exec (net_step bat ok) es c = Some (if es = [] then c else c\<lparr>bConfigSaveFlg := False\<rparr>, tr) \<and>
    list_all (\<lambda>(s, acts, s'). list_all (\<lambda>a. a = Config_save) acts \<and> bWaitResFlg s') tr"
  using assms
proof (induction es arbitrary: c)
  case (Cons e es)
  let ?c = "c\<lparr>bConfigSaveFlg := False\<rparr>"
  have p: "patience ?c = patience c" by (simp add: patience_def)
  have "\<exists>tr. exec (net_step bat ok) es ?c = Some (if es = [] then ?c else ?c\<lparr>bConfigSaveFlg := False\<rparr>, tr) \<and>
    list_all (\<lambda>(s, acts, s'). list_all (\<lambda>a. a = Config_save) acts \<and> bWaitResFlg s') tr"
    using Cons.prems by (intro Cons.IH) (simp_all add: p)
  moreover have "net_step bat ok e c = Some (?c, save_acts c)"
    using Cons.prems NetRun_waiting [of c "fst e" bat "snd e" ok] by (simp add: net_step_def)
  ultimately show ?case using Cons.prems(1) by (auto simp: save_acts_def)
qed simp

text \<open>C12. A request that is never answered does not block the client: while the clock stays below the timeout (entry 18 of
  the key table) nothing is sent and the client waits; the first pass at or after it gives the request and the connection
  up, and the next pass connects again.\<close>

theorem unanswered_call_given_up:
  assumes "bWaitResFlg c" "bConnect c" "length (CfgKeyVal c) = 24"
    and "\<forall>e\<in>set es. tv_res c \<le> e_sec (fst e) \<and> e_sec (fst e) - tv_res c < patience c"
    and "patience c \<le> e_sec late - tv_res c"
  shows "\<exists>tr c1 c2 tr2. exec (net_step bat ok) es c = Some (c1, tr) \<and> bWaitResFlg c1 \<and>
      list_all (\<lambda>(s, acts, s'). list_all (\<lambda>a. a = Config_save) acts \<and> bWaitResFlg s') tr \<and>
    exec (net_step bat ok) [(late, h), (env, True)] c1 = Some (c2, [tr2, (c1\<lparr>bConfigSaveFlg := False, bConnect := False, bWaitResFlg := False\<rparr>, [Ws_connect], c2)]) \<and>
    bConnect c2 \<and> \<not> bWaitResFlg c2 \<and> nConnectCheck c2 = 0"
proof -
  obtain tr where r: "exec (net_step bat ok) es c = Some (if es = [] then c else c\<lparr>bConfigSaveFlg := False\<rparr>, tr)"
    "list_all (\<lambda>(s, acts, s'). list_all (\<lambda>a. a = Config_save) acts \<and> bWaitResFlg s') tr"
    using waiting_run [OF assms(1-4)] by blast
  define c1 where "c1 = (if es = [] then c else c\<lparr>bConfigSaveFlg := False\<rparr>)"
  let ?g = "c1\<lparr>bConfigSaveFlg := False, bConnect := False, bWaitResFlg := False\<rparr>"
  have c1: "bWaitResFlg c1" "bConnect c1" "length (CfgKeyVal c1) = 24" "tv_res c1 = tv_res c" "patience c1 = patience c"
    using assms(1-3) by (simp_all add: c1_def patience_def)
  have "net_step bat ok (late, h) c1 = Some (?g, save_acts c1)"
    using NetRun_waiting [OF c1(1-3), of late bat h ok] c1 assms(5) patience_nonneg [of c] by (simp add: net_step_def)
  moreover obtain c2 where "net_step bat ok (env, True) ?g = Some (c2, [Ws_connect])" "bConnect c2" "\<not> bWaitResFlg c2" "nConnectCheck c2 = 0"
    by (simp add: net_step_def NetRun_def Let_def WS_Server_connect_def)
  ultimately show ?thesis using r c1(1) unfolding c1_def [symmetric]
    by (intro exI [of _ tr] exI [of _ c1] exI [of _ c2] exI [of _ "(c1, save_acts c1, ?g)"]) simp
qed

section \<open>Results\<close>

text \<open>C13. A result whose identifier is not that of the outstanding request, or that comes while nothing is outstanding, and
  that is not the awaited answer to a data transfer either (\<open>DATATRANS_UniqueID\<close>), runs no handler and sends nothing, and a
  request that waits goes on waiting: of the client only the receive buffers change, the counter of silent seconds
  (\<open>bRecvConnCnt\<close>) is set to zero and the flag for an error answer of the server (\<open>ServerCallError\<close>) is cleared.\<close>

theorem stale_result_ignored:
  assumes "result_due c" "b = result_text (dec_nat n) ps" "fits_buffer b c" "length g = 30" "n < 2 ^ 64" "props_ok ps"
    and "word_of_nat n \<noteq> DATATRANS_UniqueID (rxs c)" "\<not> bWaitResFlg c \<or> word_of_nat n \<noteq> tx_id (Call_Tx_Msg c)"
  shows "\<exists>r. WSRxThread bat g g' env ok (Recv_data b) c = Some (c\<lparr>bRecvConnCnt := 0, rxs := r, ServerCallError := False\<rparr>, [])"
proof -
  let ?x = "rx_after (result_msg n (w8 (cp_action_no (tx_action (Call_Tx_Msg c)))) ps) b c"
  have "UniqueID (Rx_Msg (rxs ?x)) = word_of_nat n" by (simp add: rx_after_msg result_msg_def flat_payload_def)
  then have "recv_result env ?x = Some ?x" using assms(8) by (auto simp: recv_result_def)
  then show ?thesis using receive_result [OF assms(1-7), of bat g' env ok] by (auto simp: rx_after_def Let_def)
qed

definition boot_answer :: "bytes \<Rightarrow> nat \<Rightarrow> jprop list" where
  "boot_answer t i = [JStr (str_bytes ''currentTime'') t, JNum (str_bytes ''interval'') (dec_nat i), JStr (str_bytes ''status'') (str_bytes ''Accepted'')]"

definition connector_status :: "client \<Rightarrow> nat \<Rightarrow> CP_STATUS_CODE" where
  "connector_status c i = (if \<not> bit (chargingstatus (ses c)) i then CP_STATUS_CODE_UNAVAIL
     else if 0 < i \<and> cpStatChk c then CP_STATUS_CODE_PREPARE else CP_STATUS_CODE_AVAIL)"

text \<open>The time that the server sends is read without a check.\<close>

lemma ts_2_append: "i + 1 < length b \<Longrightarrow> ts_2 (b @ z) i = ts_2 b i"
  by (simp add: ts_2_def rd_def nth_append)

lemma ts_2_Some: "i + 1 < length b \<Longrightarrow> ts_2 b i = Some (ts_digit (b ! i) * 10 + ts_digit (b ! (i + 1)))"
  by (simp add: ts_2_def rd_def)

lemma ts_tm_append: "20 \<le> length b \<Longrightarrow> ts_tm k (b @ z) = ts_tm k b"
  by (simp add: ts_tm_def ts_2_append)

lemma boot_connectors_two:
  assumes "length (bCpStat (ses c)) = 2"
  shows "\<exists>s. boot_connectors [0, 1] c = Some (c\<lparr>ses := s, bChargerCostCheck := 1\<rparr>) \<and>
    bCpStat s = [connector_status c 0, connector_status c 1] \<and> chargingstatus s = chargingstatus (ses c)"
proof -
  obtain x y where "bCpStat (ses c) = [x, y]" using assms by (cases "bCpStat (ses c)"; cases "tl (bCpStat (ses c))") auto
  then show ?thesis by (auto simp: set_cp_def SetCpStatus_def wr_def connector_status_def)
qed

definition boot_result :: "client \<Rightarrow> tm \<Rightarrow> nat \<Rightarrow> session \<Rightarrow> client" where
  "boot_result c u i s = c\<lparr>ses := s, tNetTime := u\<lparr>tm_year := 0\<rparr>, rtc_time := Some u,
     CfgKeyVal := (CfgKeyVal c)[5 := (CfgKeyVal c ! 5)\<lparr>CfgKeyDataInt := if i = 0 then 50 else word_of_nat i\<rparr>],
     connect_status := True, bChargerCostCheck := 1\<rparr>"

lemma boot_props_accepted:
  assumes "boot_answer t i = ps" "\<forall>p\<in>set ps. prop_ok p" "\<forall>p\<in>set ps. prop_clean p" "20 \<le> length t" "i < 2 ^ 32"
    and "ts_tm 1 t = Some u" "0 < tm_year u" "\<not> bGloAdminStatus env" "length (CfgKeyVal c) = 24" "length (bCpStat (ses c)) = 2" "unbooted c"
  shows "\<exists>s. each (boot_prop env) (map prop_stored ps) c = Some (boot_result c u i s) \<and>
    bCpStat s = [connector_status c 0, connector_status c 1] \<and> chargingstatus s = chargingstatus (ses c)"
proof -
  let ?d = "c\<lparr>tNetTime := u\<lparr>tm_year := 0\<rparr>, rtc_time := Some u,
     CfgKeyVal := (CfgKeyVal c)[5 := (CfgKeyVal c ! 5)\<lparr>CfgKeyDataInt := if i = 0 then 50 else word_of_nat i\<rparr>], connect_status := True\<rparr>"
  obtain s where s: "boot_connectors [0, 1] ?d = Some (?d\<lparr>ses := s, bChargerCostCheck := 1\<rparr>)"
    "bCpStat s = [connector_status ?d 0, connector_status ?d 1]" "chargingstatus s = chargingstatus (ses ?d)"
    using boot_connectors_two [of ?d] assms(10) by auto
  let ?t = "JStr (str_bytes ''currentTime'') t" and ?i = "JNum (str_bytes ''interval'') (dec_nat i)"
    and ?s = "JStr (str_bytes ''status'') (str_bytes ''Accepted'')"
  have ps: "ps = [?t, ?i, ?s]" using assms(1) by (simp add: boot_answer_def)
  note r = prop_read [of ?t] prop_read [of ?i] prop_read [of ?s]
  have w: "i < 2 ^ 64" using assms(5) by simp
  have u: "(ucast (word_of_nat i :: u64) :: u32) = word_of_nat i" using w by (simp add: unsigned_of_nat take_bit_nat_eq_self)
  have z: "(word_of_nat i :: u32) = 0 \<longleftrightarrow> i = 0" using assms(5) by (auto simp add: word_of_nat_eq_0_iff dest: dvd_imp_le)
  have "boot_prop env (prop_stored ?t) c = Some (c\<lparr>tNetTime := u\<lparr>tm_year := 0\<rparr>, rtc_time := Some u\<rparr>)"
    using r(1-3) assms(2-4,6-8) ps by (simp add: boot_prop_def ts_tm_append TsctCheckNetTimeSet_def str_bytes_facts)
  moreover have "boot_prop env (prop_stored ?i) x = Some (x\<lparr>CfgKeyVal := (CfgKeyVal x)[5 := (CfgKeyVal x ! 5)\<lparr>CfgKeyDataInt := if i = 0 then 50 else word_of_nat i\<rparr>]\<rparr>)"
    if "length (CfgKeyVal x) = 24" for x
  proof -
    have "length (dec_nat i) < 1024" using dec_nat_length [of i 20] w by simp
    then have "String2Integer (property_contants (prop_stored ?i)) = Some (word_of_nat i)"
      using r(6) assms(2,3) ps w by (simp add: String2Integer_dec)
    then show ?thesis using r(4) assms(2,3) ps that by (simp add: boot_prop_def rd_def u z)
  qed
  moreover have "boot_prop env (prop_stored ?s) x = boot_connectors [0, 1] (x\<lparr>connect_status := True\<rparr>)"
    if "ses x = ses c" for x
    using r(7,8) assms(2,3,10,11) ps that
    by (simp add: boot_prop_def boot_status_def GetCpStatus_def rd_def unbooted_no unbooted_def str_bytes_facts del: boot_connectors.simps)
  ultimately have "each (boot_prop env) (map prop_stored ps) c = Some (boot_result c u i s)"
    using s(1) assms(9) by (simp add: ps boot_result_def del: boot_connectors.simps)
  then show ?thesis using s(2,3) by (auto simp: connector_status_def)
qed

text \<open>What \<open>boot_accepted\<close> needs of the client, of the result and of the buffer.\<close>

definition awaits_boot :: "client \<Rightarrow> nat \<Rightarrow> bool" where
  "awaits_boot c n \<longleftrightarrow> bConnect c \<and> unbooted c \<and> bWaitResFlg c \<and> n < 2 ^ 64 \<and> tx_id (Call_Tx_Msg c) = word_of_nat n \<and>
     tx_action (Call_Tx_Msg c) = CP_REQ_ACTION_CODE_BOOT \<and> word_of_nat n \<noteq> DATATRANS_UniqueID (rxs c)"

text \<open>C11. When the result of the boot notification says Accepted, the client stops waiting, takes the time of the server into
  the clock and the interval into the key table (50 s in place of zero), marks the connectors as available, unavailable
  or, with a vehicle plugged in, preparing, and asks for the price table.\<close>

theorem boot_accepted:
  assumes "client_ok ks c" "awaits_boot c n" "props_ok (boot_answer t i)" "\<forall>p\<in>set (boot_answer t i). prop_clean p" "20 \<le> length t"
    and "i < 2 ^ 32" "ts_tm 1 t = Some u" "0 < tm_year u" "\<not> bGloAdminStatus env"
    and "b = result_text (dec_nat n) (boot_answer t i)" "fits_buffer b c" "length g = 30"
  shows "\<exists>c'. WSRxThread bat g g' env ok (Recv_data b) c = Some (c', []) \<and>
    \<not> bWaitResFlg c' \<and> connect_status c' \<and> bChargerCostCheck c' = 1 \<and> rtc_time c' = Some u \<and>
    CfgKeyDataInt (CfgKeyVal c' ! 5) = (if i = 0 then 50 else word_of_nat i) \<and>
    bCpStat (ses c') = [connector_status c 0, connector_status c 1] \<and> \<not> unbooted c'"
proof -
  let ?a = "w8 (cp_action_no (tx_action (Call_Tx_Msg c)))"
  let ?x = "rx_after (result_msg n ?a (boot_answer t i)) b c"
  note l = ok_lengths [OF assms(1)]
  have due: "result_due c" using assms(2) l(2) by (auto simp: awaits_boot_def result_due_def)
  have m: "UniqueID (Rx_Msg (rxs ?x)) = word_of_nat n" "unat (Action_Code (Rx_Msg (rxs ?x))) = 2"
    using assms(2) by (simp_all add: rx_after_msg result_msg_def flat_payload_def awaits_boot_def cp_action_no_def unat_w8)
  have ps: "rx_props (?x\<lparr>bWaitResFlg := False\<rparr>) = Some (map prop_stored (boot_answer t i))"
    using rx_props_result [of "boot_answer t i" n ?a b c] assms(3) by (simp add: props_ok_def boot_answer_def rx_props_def)
  have un: "unbooted (?x\<lparr>bWaitResFlg := False\<rparr>)" using assms(2) by (simp add: unbooted_def awaits_boot_def)
  have st: "connector_status (?x\<lparr>bWaitResFlg := False\<rparr>) k = connector_status c k" for k
    by (simp add: connector_status_def rx_after_def Let_def)
  obtain s where s: "each (boot_prop env) (map prop_stored (boot_answer t i)) (?x\<lparr>bWaitResFlg := False\<rparr>) =
      Some (boot_result (?x\<lparr>bWaitResFlg := False\<rparr>) u i s)" "bCpStat s = [connector_status c 0, connector_status c 1]"
    using boot_props_accepted [OF refl, of t i u env "?x\<lparr>bWaitResFlg := False\<rparr>"] assms(3-9) l un by (auto simp: props_ok_def st)
  define x where "x = ?x"
  have "bWaitResFlg x" "tx_id (Call_Tx_Msg x) = word_of_nat n" using assms(2) by (simp_all add: x_def awaits_boot_def)
  then have "recv_result env x = Some (boot_result (x\<lparr>bWaitResFlg := False\<rparr>) u i s)"
    using m ps s(1) unfolding x_def [symmetric] by (simp add: recv_result_def Rx_CallRes_DataProc_def DataProcCmd_Boot_def)
  then have "WSRxThread bat g g' env ok (Recv_data b) c = Some (boot_result (x\<lparr>bWaitResFlg := False\<rparr>) u i s, [])"
    using receive_result [OF due assms(10-12), of bat g' env ok] assms(2,3) unfolding x_def by (simp add: awaits_boot_def)
  moreover have "connector_status c 0 \<notin> {CP_STATUS_CODE_NONE, CP_STATUS_CODE_PEND}" by (simp add: connector_status_def)
  ultimately show ?thesis using s(2) l(3) by (simp add: boot_result_def unbooted_def x_def)
qed

definition client_boot :: client where
  "client_boot = client_start\<lparr>bWaitResFlg := True, tv_res := 100, Call_Tx_Msg := tx_empty\<lparr>tx_action := CP_REQ_ACTION_CODE_BOOT, tx_id := 17\<rparr>\<rparr>"

lemma client_boot_ok: "client_ok Init_CfgKey client_boot" "awaits_boot client_boot 17"
proof -
  have "client_ok Init_CfgKey client_start" using client_start_inv [of thread_up] by (simp add: client_inv_def)
  then show "client_ok Init_CfgKey client_boot" by (simp add: client_boot_def client_ok_def client_sizes_def tx_empty_def)
  show "awaits_boot client_boot 17"
    by (simp add: awaits_boot_def client_boot_def client_start_def unbooted_def rx_empty_def)
qed

definition boot_reply :: bytes where
  "boot_reply = result_text (dec_nat 17) (boot_answer (str_bytes ''2025-01-02T03:04:05Z'') 300)"

theorem boot_accepted_witness:
  "\<exists>c'. WSRxThread [] (replicate 30 0) [] env_start True (Recv_data boot_reply) client_boot = Some (c', []) \<and>
    rtc_time c' = Some tm_start \<and> CfgKeyDataInt (CfgKeyVal c' ! 5) = 300 \<and> bCpStat (ses c') = [CP_STATUS_CODE_AVAIL, CP_STATUS_CODE_AVAIL]"
proof -
  define t where "t = str_bytes ''2025-01-02T03:04:05Z''"
  have t: "t = map (\<lambda>c. word_of_nat (of_char c)) ''2025-01-02T03:04:05Z''" "length t = 20" by (simp_all add: t_def str_bytes_def)
  have m: "(1::int) smod 10 = 1" by (simp add: signed_modulo_int_def)
  have d: "list_all is_digit (dec_nat 300)" "length (dec_nat 300) \<le> 20"
    using dec_nat_digits [of 300] dec_nat_length [of 300 20] by (auto simp: list_all_iff)
  have z: "0 \<notin> set (dec_nat 300)" using d(1) by (auto simp: list_all_iff is_digit_def)
  have ok: "props_ok (boot_answer t 300)" "\<forall>p\<in>set (boot_answer t 300). prop_clean p"
    using d z by (simp_all add: props_ok_def prop_ok_def prop_clean_def boot_answer_def t str_bytes_def)
  have tm: "ts_tm 1 t = Some tm_start" by (simp add: t ts_tm_def ts_2_def rd_def ts_digit_def tm_start_def m)
  have st: "connector_status client_boot i = CP_STATUS_CODE_AVAIL" if "i < 2" for i
    using that by (cases i) (simp_all add: connector_status_def client_boot_def client_start_def bit_numeral_rec)
  have f: "fits_buffer (result_text (dec_nat 17) (boot_answer t 300)) client_boot"
    using d dec_nat_length [of 17 20] by (intro fits_ok [OF client_boot_ok(1)])
      (simp add: result_length boot_answer_def t(2) str_bytes_facts(3))
  show ?thesis
    using boot_accepted [OF client_boot_ok ok _ _ tm _ _ refl f, of env_start "replicate 30 0" "[]" "[]" True]
    by (auto simp: t(2) tm_start_def env_start_def st boot_reply_def t_def [symmetric])
qed

theorem stale_result_ignored_witness:
  "\<exists>r. WSRxThread [] (replicate 30 0) [] env_start True (Recv_data (result_text (dec_nat 18) [])) client_boot =
      Some (client_boot\<lparr>bRecvConnCnt := 0, rxs := r, ServerCallError := False\<rparr>, []) \<and> bWaitResFlg client_boot"
proof -
  have "result_due client_boot" by (simp add: result_due_def client_boot_def client_start_def)
  moreover have "fits_buffer (result_text (dec_nat 18) []) client_boot"
    using dec_nat_length [of 18 20] by (intro fits_ok [OF client_boot_ok(1)]) (simp add: result_length)
  moreover have "DATATRANS_UniqueID (rxs client_boot) = 0" "tx_id (Call_Tx_Msg client_boot) = 17" "bWaitResFlg client_boot"
    by (simp_all add: client_boot_def client_start_def rx_empty_def)
  ultimately show ?thesis
    using stale_result_ignored [of client_boot "result_text (dec_nat 18) []" 18 "[]" "replicate 30 0" "[]" "[]" env_start True]
    by (simp add: props_ok_def)
qed

theorem unanswered_call_given_up_witness:
  "\<exists>c1 tr c2 tr2. bWaitResFlg client_boot \<and>
    exec (net_step [] True) [(env_start, True), (env_start\<lparr>e_sec := 104\<rparr>, True)] client_boot = Some (c1, tr) \<and> bWaitResFlg c1 \<and>
    exec (net_step [] True) [(env_start\<lparr>e_sec := 105\<rparr>, True), (env_start\<lparr>e_sec := 106\<rparr>, True)] c1 = Some (c2, tr2) \<and> bConnect c2 \<and> \<not> bWaitResFlg c2"
proof -
  have p: "patience client_boot = 5" "bWaitResFlg client_boot" "bConnect client_boot" "length (CfgKeyVal client_boot) = 24" "tv_res client_boot = 100"
    using ok_lengths(3) [OF client_boot_ok(1)]
    by (simp_all add: patience_def client_boot_def client_start_def Init_CfgKey_def ck_int_def)
  have e: "\<forall>e\<in>set [(env_start, True), (env_start\<lparr>e_sec := 104\<rparr>, True)]. tv_res client_boot \<le> e_sec (fst e) \<and> e_sec (fst e) - tv_res client_boot < patience client_boot"
    by (simp add: p env_start_def)
  have l: "patience client_boot \<le> e_sec (env_start\<lparr>e_sec := 105\<rparr>) - tv_res client_boot" by (simp add: p)
  show ?thesis using unanswered_call_given_up [OF p(2-4) e l, of "[]" True True "env_start\<lparr>e_sec := 106\<rparr>"] p(2) by blast
qed

end
