(* ===== verification/Panel.thy ===== *)
theory Panel
  imports Ocpp_Run
begin

text \<open>
  The screens of the station (\<open>layer_*.c\<close> in \<open>src/project/tsct2007a\<close>): the visible screen and the queue of actions of the
  screen library (\<open>ituLayerGoto\<close>, \<open>ituExecActions\<close>, \<open>ituFlushActionQueue\<close> in \<open>src/sdk/itu/share/itu\<close>), the countdown and
  the status task of the top line (\<open>layer_top.c\<close>), and for every screen of a session what it does on enter and leave, its
  buttons, its listeners and its task.

  Which function a screen calls on enter and leave is written in the scene file, which is not source code: it is the
  argument \<open>sc\<close>.  Drawing, sounds and the display saver are left out; calls of drivers and of other components are acts.
  A pass of a task ends where the code sleeps.  \<open>None\<close> is an access outside an array.
\<close>

section \<open>State\<close>

datatype UserAuthType = USER_AUTH_NONE | USER_AUTH_NET_MODE | USER_AUTH_CARD | USER_AUTH_PASSWORD

datatype CpAuthType =
    TOUCH_CARD | INPUT_CARDNUM | INPUT_CARNUM | PW_INPUT_CARNUM | CHECK_CARNUM | SERVER_AUTH | CONNECT_AUTH

text \<open>The functions that are installed as listeners of the pilot, of the card reader and of the countdown.\<close>

datatype CPListener = CPListenerOnAhead | CPListenerOnConnect | CPListenerOnCharging | CPListenerOnFinish | CPListenerOnDisconnect

datatype CardListener = CardReaderListenerOnAuthUser | CardReaderListenerOnChargingScreen

datatype TopTimerTimeoutListener =
    T_GotoStartLayer | T_CardWaitTimeout111 | T_CardAuth1Timer1 | T_TimeOutPageOut | T_TimeOutPageOut1
  | T_TimeOutChargeStartWait | T_LayerThanksGotoStartLayer | T_adminTimeout | T_adminTimeout1

text \<open>Where a task sleeps: the task of the authorisation screen in its loop or before one of the two changes of screen, the
  status task (\<open>sTopStatusTaskFuntion\<close>) at the top of its loop, before a reboot because of the network, before the change of
  screen for a remote start, before the upload of the diagnostics, before and after it sets the step of a firmware update
  to download, before it saves the configuration, before the reboot, or for ever.\<close>

datatype WaitPhase = WAIT_NONE | WAIT_POLL | WAIT_CONNECT | WAIT_START

datatype StatusPhase =
    STATUS_LOOP | STATUS_NET_REBOOT | STATUS_REMOTE | STATUS_DIAG | STATUS_UPDATE | STATUS_DOWNLOAD | STATUS_SAVE
  | STATUS_REBOOT | STATUS_DEAD

datatype itu_event = ITU_EVENT_ENTER | ITU_EVENT_LEAVE

text \<open>An action in the queue: the event of a screen, or the press of the button with this function and parameter.\<close>

datatype itu_action = Layer_action string itu_event | Button_action string nat

datatype panel_act =
    Session_act session_act
  | Called string
  | Shown string
  | Pilot_power bool
  | Devices_init
  | Vas_init
  | Secc_restart
  | Card_polling bool
  | Station_save
  | Station_reboot
  | Diag_upload
  | Fw_download
  | Update_clear

text \<open>\<open>theConfig\<close>: besides the part that the charging screen reads, the kind of authorisation.\<close>

record panel_cfg =
  charge_part :: charge_cfg
  ConfirmSelect :: UserAuthType

text \<open>What a step reads: the seconds of the clock, the error flag of the meter, the state of the network, a random number,
  whether the date of a firmware update has come, the results of an upload and of a download, and the unit price as
  \<open>charge_time_price\<close> returns it.\<close>

record panel_env =
  p_sec :: int
  bAmiErrChk :: bool
  p_net_ready :: bool
  p_random :: nat
  p_update_date :: bool
  p_transfer_failed :: bool
  p_unit_price :: int

record panel =
  cli :: client
  visible_layer :: string
  actionQueue :: "itu_action list"
  queuePos :: nat
  sTimerCount :: int
  sTimerCounting :: bool
  sTimeoutListener :: "TopTimerTimeoutListener option"
  sDLsTopMonitoring :: bool
  sTopMonitoringTask :: bool
  topThreads :: nat
  sttv :: int
  oldtotalvalue :: int
  cpListener :: "CPListener option"
  cardListener :: "CardListener option"
  devChannel :: nat
  auth_type :: CpAuthType
  bHomeLayerChk :: bool
  bCnctLed :: bool
  shome_btn :: bool
  b_nextLayer :: bool
  b_nextLayer2 :: bool
  rfid_found :: bool
  connect_found :: bool
  sWaitPhase :: WaitPhase
  sDLsWaitMonitoring :: bool
  GotoWaittoStartLayer :: bool
  GotoWaittoConnectLayer :: bool
  sStepClose :: bool
  sFinishMonitoring :: bool
  GotoCardNumStart :: bool
  sCardNum :: bytes
  sNumCount :: nat
  gotoStartLayer :: bool
  sleepOnCheck :: bool
  sleepOn1ch :: bool
  statusPhase :: StatusPhase
  lastSeccConSetVal :: bool
  NetError_Flg :: bool
  NetErrorTime_top :: int

type_synonym panel_step = "panel \<Rightarrow> (panel \<times> panel_act list) option"

section \<open>The screen library\<close>

abbreviation (input) ITU_ACTION_QUEUE_SIZE :: nat where "ITU_ACTION_QUEUE_SIZE \<equiv> 64"

text \<open>An action that is in the queue already, executed or not, is not queued again; a full queue drops it.\<close>

definition ituExecActions :: "itu_action \<Rightarrow> panel \<Rightarrow> panel" where
  "ituExecActions a p =
     (if a \<in> set (actionQueue p) \<or> ITU_ACTION_QUEUE_SIZE \<le> length (actionQueue p) then p
      else p\<lparr>actionQueue := actionQueue p @ [a]\<rparr>)"

text \<open>The screen changes at once; the functions for its events run when the queue is flushed.\<close>

definition ituLayerGoto :: "string \<Rightarrow> panel \<Rightarrow> panel" where
  "ituLayerGoto layer p =
     (let p = ituExecActions (Layer_action (visible_layer p) ITU_EVENT_LEAVE) p
      in ituExecActions (Layer_action layer ITU_EVENT_ENTER) (p\<lparr>visible_layer := layer\<rparr>))"

section \<open>The countdown\<close>

text \<open>A new task is started unless one is known to run.\<close>

definition TopSetTimer :: "panel_env \<Rightarrow> int \<Rightarrow> TopTimerTimeoutListener \<Rightarrow> panel \<Rightarrow> panel" where
  "TopSetTimer env count listener p =
     (let p = p\<lparr>sTimerCount := count, sTimeoutListener := Some listener, sTimerCounting := True, sttv := p_sec env, sDLsTopMonitoring := True\<rparr>
      in if sTopMonitoringTask p then p else p\<lparr>sTopMonitoringTask := True, topThreads := topThreads p + 1\<rparr>)"

definition TopCloseTimer :: "panel \<Rightarrow> panel" where
  "TopCloseTimer p = p\<lparr>sDLsTopMonitoring := False, sTimeoutListener := None\<rparr>"

definition TopInitLayer :: "panel \<Rightarrow> panel" where
  "TopInitLayer p = p\<lparr>sTopMonitoringTask := False, sDLsTopMonitoring := False\<rparr>"

section \<open>Shared functions\<close>

definition GotoStart :: "panel \<Rightarrow> panel" where
  "GotoStart p = ituLayerGoto ''mainLayer'' p"

definition GotoChargeLayer :: "panel_cfg \<Rightarrow> panel \<Rightarrow> panel" where
  "GotoChargeLayer cfg p =
     ituLayerGoto (if devtype (charge_part cfg) = BB_TYPE \<or> devtype (charge_part cfg) = BC2_TYPE then ''mainLayer'' else ''chargeLayer'') p"

definition CstGotoAuthOrNextLayer :: "panel_cfg \<Rightarrow> panel \<Rightarrow> panel" where
  "CstGotoAuthOrNextLayer cfg p =
     ituLayerGoto (if ConfirmSelect cfg = USER_AUTH_NONE then ''connectLayer'' else ''authUserLayer'') p"

definition GetServerCon :: "panel_cfg \<Rightarrow> panel \<Rightarrow> bool" where
  "GetServerCon cfg p \<longleftrightarrow> ConfirmSelect cfg \<noteq> USER_AUTH_NET_MODE \<or> connect_status (cli p) \<and> bConnect (cli p) \<and> \<not> ServerCallError (cli p)"

definition GetMeterCon :: "panel_env \<Rightarrow> bool" where
  "GetMeterCon env \<longleftrightarrow> \<not> bAmiErrChk env"

text \<open>The configuration as the charging screen reads it.\<close>

definition charge_view :: "panel_cfg \<Rightarrow> panel \<Rightarrow> charge_cfg" where
  "charge_view cfg p = (charge_part cfg)\<lparr>USER_AUTH_NET := ConfirmSelect cfg = USER_AUTH_NET_MODE, bDevChannel := devChannel p\<rparr>"

abbreviation sess :: "panel \<Rightarrow> session" where "sess p \<equiv> ses (cli p)"

definition set_sess :: "session \<Rightarrow> panel \<Rightarrow> panel" where
  "set_sess s p = p\<lparr>cli := (cli p)\<lparr>ses := s\<rparr>\<rparr>"

definition set_order :: "APP_ORDER \<Rightarrow> panel \<Rightarrow> panel" where
  "set_order a p = set_sess ((sess p)\<lparr>app_order := a\<rparr>) p"

text \<open>The acts of the session: a change of screen is carried out, and closing the emergency dialogue on the screen for
  unplugging starts its countdown.\<close>

fun session_acts :: "panel_env \<Rightarrow> session_act list \<Rightarrow> panel \<Rightarrow> panel \<times> panel_act list" where
  "session_acts env [] p = (p, [])"
| "session_acts env (a # as) p =
     (case a of
        Goto_layer l \<Rightarrow> session_acts env as (ituLayerGoto l p)
      | Emergency_dialog b \<Rightarrow>
          (let p = (if \<not> b \<and> app_order (sess p) = APP_ORDER_CONNECT_OUT then TopSetTimer env 90 T_TimeOutPageOut1 p else p);
               (p, acts) = session_acts env as p
           in (p, Session_act a # acts))
      | _ \<Rightarrow> (let (p, acts) = session_acts env as p in (p, Session_act a # acts)))"

definition on_session :: "panel_env \<Rightarrow> (session \<Rightarrow> (session \<times> session_act list) option) \<Rightarrow> panel_step" where
  "on_session env f p = map_option (\<lambda>(s, acts). session_acts env acts (set_sess s p)) (f (sess p))"

definition show_error :: "panel_env \<Rightarrow> WHM_ERR \<Rightarrow> panel_step" where
  "show_error env e p = on_session env (\<lambda>s. Some (ShowWhmErrorDialogBox e s)) p"

end
