(* ===== verification/Screens.thy ===== *)
theory Screens
  imports Panel
begin

text \<open>
  The screens of a session, in the order a user sees them: the start screen (\<open>layer_main.c\<close>), the choice of the
  authorisation (\<open>layer_auth_user.c\<close>, \<open>layer_ch2.c\<close>), card, card number and QR code (\<open>layer_rfidcard_auth.c\<close>,
  \<open>layer_cardnum.c\<close>, \<open>layer_remoteAuth.c\<close>), waiting for the server (\<open>layer_cardwait.c\<close>), plugging in
  (\<open>layer_connect.c\<close>), charging (\<open>layer_charge.c\<close>), the result (\<open>layer_ch2_finish.c\<close>), unplugging
  (\<open>layer_disconnect.c\<close>) and the last screen (\<open>layer_thanks.c\<close>).
\<close>

section \<open>The start screen\<close>

definition MainOnLeave :: panel_step where
  "MainOnLeave p = Some (p\<lparr>bHomeLayerChk := False\<rparr>, [])"

text \<open>The connectors of a registered station become available, or preparing with a vehicle plugged in.\<close>

definition main_status :: "client \<Rightarrow> client option" where
  "main_status c = do {
     st \<leftarrow> GetCpStatus 0 c;
     if st \<noteq> CP_STATUS_CODE_NONE \<and> st \<noteq> CP_STATUS_CODE_UNAVAIL
     then do {
       c \<leftarrow> set_cp CP_STATUS_CODE_AVAIL 0 c;
       set_cp (if cpStatChk c then CP_STATUS_CODE_PREPARE else CP_STATUS_CODE_AVAIL) 1 c
     }
     else Some c
   }"

definition main_reset :: "session \<Rightarrow> session" where
  "main_reset s = (LEDOff s)\<lparr>whm_listening := False, gAmiStartWatt := 0, gAmiChargeWatt := 0, app_order := APP_ORDER_WAIT,
     parentId := replicate 21 0\<rparr>"

definition MainOnEnter :: "panel_env \<Rightarrow> panel_step" where
  "MainOnEnter env p = do {
     let p = (TopInitLayer p)\<lparr>bCnctLed := False, cpListener := Some CPListenerOnAhead\<rparr>;
     let p = set_sess ((sess p)\<lparr>secc_status_fault := 1\<rparr>) p;
     let init = (if EmgControl (sess p) then [Devices_init] else []);
     let (s, a) = StopCharge2ch (sess p);
     let (p, acts) = session_acts env a (set_sess (main_reset s) p);
     c \<leftarrow> main_status ((cli p)\<lparr>member_type := MEM_NON, finalAmt := 0, chargeAmt_Check := False, card_auth := CARD_AUTH_WAIT\<rparr>);
     Some (p\<lparr>cli := c\<lparr>bReqStartTsNo := 0\<rparr>, bHomeLayerChk := True, shome_btn := False\<rparr>,
       Called ''MainOnEnter'' # Pilot_power True # init @ acts @ [Vas_init])
   }"

definition ahead_status :: "CP_STATUS_CODE \<Rightarrow> bool \<Rightarrow> panel \<Rightarrow> panel option" where
  "ahead_status st plugged p =
     map_option (\<lambda>c. p\<lparr>cli := c\<rparr>) (set_cp st (devChannel p + 1) ((cli p)\<lparr>cpStatChk := plugged\<rparr>))"

definition OnAhead :: "CPVoltage \<Rightarrow> panel \<Rightarrow> panel option" where
  "OnAhead v p =
     (case v of
        CP_VOLTAGE_12V \<Rightarrow> ahead_status CP_STATUS_CODE_AVAIL False
          (if bCnctLed p then (set_sess (LEDOff (sess p)) p)\<lparr>bCnctLed := False\<rparr> else p)
      | CP_VOLTAGE_9V \<Rightarrow> ahead_status CP_STATUS_CODE_PREPARE True
          (if bCnctLed p then p else (set_sess (LEDOn (sess p)) p)\<lparr>bCnctLed := True\<rparr>)
      | CP_VOLTAGE_6V \<Rightarrow> ahead_status CP_STATUS_CODE_PREPARE True
          (if bCnctLed p then p else (set_sess (LEDOn (sess p)) p)\<lparr>bCnctLed := True\<rparr>)
      | _ \<Rightarrow> Some p)"

definition clear_energy :: "panel \<Rightarrow> panel" where
  "clear_energy p = set_sess ((sess p)\<lparr>gAmiChargeWatt := 0, gAmiStartWatt := 0\<rparr>) p"

text \<open>Both changes of screen are requested in every mode.\<close>

definition MainStartOnPress :: "panel_cfg \<Rightarrow> panel_env \<Rightarrow> panel_step" where
  "MainStartOnPress cfg env p =
     (if \<not> GetMeterCon env then show_error env ERR_AMI_DISCON p
      else if \<not> GetServerCon cfg p then show_error env ERR_SERVER_DISCON p
      else Some (ituLayerGoto ''authUserLayer'' (CstGotoAuthOrNextLayer cfg (clear_energy p)), []))"

section \<open>The choice of the authorisation\<close>

definition AuthUserOnEnter :: "panel_env \<Rightarrow> panel_step" where
  "AuthUserOnEnter env p =
     (let p = set_order APP_ORDER_AUTH_METHOD (p\<lparr>cli := (cli p)\<lparr>card_auth := CARD_AUTH_WAIT\<rparr>\<rparr>)
      in Some (TopSetTimer env 30 T_GotoStartLayer (p\<lparr>shome_btn := True\<rparr>), [Called ''AuthUserOnEnter'']))"

definition AuthUserOnLeave :: panel_step where
  "AuthUserOnLeave p = Some (TopCloseTimer p, [])"

definition AuthTypeSelectOnPress :: "panel_env \<Rightarrow> nat \<Rightarrow> panel_step" where
  "AuthTypeSelectOnPress env nSel p =
     (if \<not> GetMeterCon env then show_error env ERR_AMI_DISCON p
      else if nSel = 1 then Some (ituLayerGoto ''cardNumLayer'' (p\<lparr>auth_type := INPUT_CARDNUM\<rparr>), [])
      else Some (p, []))"

definition MemCardOnPress :: "panel_env \<Rightarrow> panel_step" where
  "MemCardOnPress env p =
     (let p = p\<lparr>auth_type := TOUCH_CARD\<rparr>
      in if \<not> GetMeterCon env then show_error env ERR_AMI_DISCON p
         else Some (ituLayerGoto ''rfidCardAuthLayer'' p, []))"

definition RemoteAuthOnPress :: "panel_cfg \<Rightarrow> panel_env \<Rightarrow> panel_step" where
  "RemoteAuthOnPress cfg env p =
     (let p = p\<lparr>auth_type := CONNECT_AUTH\<rparr>
      in if \<not> GetMeterCon env then show_error env ERR_AMI_DISCON p
         else if \<not> GetServerCon cfg p then show_error env ERR_SERVER_DISCON p
         else Some (ituLayerGoto ''remoteAuthLayer'' p, []))"

definition Ch2OnEnter :: "panel_env \<Rightarrow> panel_step" where
  "Ch2OnEnter env p = Some (TopSetTimer env 30 T_GotoStartLayer ((set_order APP_ORDER_WAIT p)\<lparr>shome_btn := True\<rparr>), [Called ''Ch2OnEnter''])"

definition Ch2LeftStartOnPress :: "panel_cfg \<Rightarrow> panel_env \<Rightarrow> panel_step" where
  "Ch2LeftStartOnPress cfg env p =
     (let p = p\<lparr>devChannel := 0\<rparr> in
      if EmgControl (sess p) then Some (p, [])
      else if \<not> GetMeterCon env then show_error env ERR_AMI_DISCON p
      else do {
        st \<leftarrow> GetCpStatus 1 (cli p);
        if \<not> GetServerCon cfg p \<and> st \<noteq> CP_STATUS_CODE_AVAIL then show_error env ERR_SERVER_DISCON p
        else if \<not> sleepOnCheck p
        then Some (CstGotoAuthOrNextLayer cfg ((clear_energy p)\<lparr>cpListener := Some CPListenerOnAhead, sleepOnCheck := False\<rparr>), [Pilot_power True])
        else Some (p\<lparr>sleepOnCheck := False\<rparr>, [])
      })"

section \<open>Card, card number and QR code\<close>

definition RfidCardOnEnter :: "panel_cfg \<Rightarrow> panel_env \<Rightarrow> panel_step" where
  "RfidCardOnEnter cfg env p =
     (let p = set_order APP_ORDER_CARD_READER p;
          p = (if rfid_found p then p else p\<lparr>rfid_found := True, b_nextLayer := False\<rparr>);
          p = (if ConfirmSelect cfg = USER_AUTH_NONE then p\<lparr>b_nextLayer := True\<rparr> else p);
          p = p\<lparr>cardListener := Some CardReaderListenerOnAuthUser\<rparr>
      in Some (TopSetTimer env 30 T_GotoStartLayer p, [Called ''RfidCardOnEnter'', Card_polling True]))"

definition RfidCardOnLeave :: panel_step where
  "RfidCardOnLeave p = Some (TopCloseTimer p, [Card_polling False])"

definition OnAuthUser :: "panel_cfg \<Rightarrow> bytes \<Rightarrow> nat \<Rightarrow> panel \<Rightarrow> panel option" where
  "OnAuthUser cfg data sz p = do {
     p \<leftarrow> (if ConfirmSelect cfg = USER_AUTH_NET_MODE \<and> app_order (sess p) = APP_ORDER_CARD_READER
       then do {
         n \<leftarrow> slice data 0 sz;
         no \<leftarrow> blit (replicate 21 0x30) 0 n;
         Some (ituLayerGoto ''CardWaitLayer'' (set_sess ((sess p)\<lparr>card_no := no\<rparr>) p))
       }
       else Some p);
     Some (if ConfirmSelect cfg = USER_AUTH_CARD then ituLayerGoto ''connectLayer'' p else p)
   }"

definition B_nextLayer :: panel_step where
  "B_nextLayer p = Some (ituLayerGoto ''connectLayer'' p, [])"

text \<open>The first sixteen places hold the digits typed so far.\<close>

definition ResetNumber :: "panel \<Rightarrow> panel" where
  "ResetNumber p = p\<lparr>sCardNum := replicate 16 0x20, sNumCount := 0\<rparr>"

definition NumInputListener :: "panel_env \<Rightarrow> u8 \<Rightarrow> panel \<Rightarrow> panel option" where
  "NumInputListener env c p =
     (let p = TopSetTimer env 60 T_CardWaitTimeout111 p; n = sNumCount p in
      if c \<noteq> 0x64 \<and> c \<noteq> 0x72
      then if n < 16 then map_option (\<lambda>b. p\<lparr>sCardNum := b, sNumCount := n + 1\<rparr>) (wr (sCardNum p) n c) else Some p
      else if c = 0x64
      then if 0 < n then map_option (\<lambda>b. p\<lparr>sCardNum := b, sNumCount := n - 1\<rparr>) (wr (sCardNum p) (n - 1) 0x20) else Some p
      else map_option (\<lambda>b. p\<lparr>sCardNum := b, sNumCount := 0\<rparr>) (blit (sCardNum p) 0 (replicate n 0x20)))"

definition CardNumOkOnPress :: "panel_cfg \<Rightarrow> panel_step" where
  "CardNumOkOnPress cfg p =
     (if ConfirmSelect cfg = USER_AUTH_NET_MODE
      then if app_order (sess p) = APP_ORDER_CARD_READER \<and> (sNumCount p = 10 \<or> sNumCount p = 14 \<or> sNumCount p = 16)
        then do {
          b \<leftarrow> blit (sCardNum p) (sNumCount p) (replicate (16 - sNumCount p) 0x2F);
          no \<leftarrow> blit (card_no (sess p)) 0 (take 16 b);
          Some (ituLayerGoto ''CardWaitLayer'' ((set_sess ((sess p)\<lparr>card_no := no\<rparr>) p)\<lparr>sCardNum := b\<rparr>), [])
        }
        else Some (p, [])
      else if ConfirmSelect cfg = USER_AUTH_PASSWORD then Some (ituLayerGoto ''connectLayer'' p, [])
      else Some (p, []))"

definition CardNumCancelOnPress :: panel_step where
  "CardNumCancelOnPress p = Some (ituLayerGoto ''authUserLayer'' p, [])"

definition CardNumStartLayer :: "panel \<Rightarrow> panel" where
  "CardNumStartLayer p = (if GotoCardNumStart p then GotoStart (p\<lparr>GotoCardNumStart := False\<rparr>) else p)"

definition CardNumOnEnter :: "panel_env \<Rightarrow> panel_step" where
  "CardNumOnEnter env p =
     Some (TopSetTimer env 60 T_CardWaitTimeout111 (ResetNumber ((set_order APP_ORDER_CARD_READER p)\<lparr>GotoCardNumStart := True\<rparr>)),
       [Called ''CardNumOnEnter''])"

definition CardNumOnLeave :: panel_step where
  "CardNumOnLeave p = Some (TopCloseTimer (p\<lparr>GotoCardNumStart := False\<rparr>), [])"

text \<open>The text of two digits with its terminator is written into an array of two.\<close>

definition remoteOnEnter :: "panel_env \<Rightarrow> panel_step" where
  "remoteOnEnter env p = do {
     let p = set_order APP_ORDER_KAKAO_QR p;
     no \<leftarrow> blit (SecureNo (cli p)) 0 (fmt_02d (int (p_random env mod 100)) @ [0]);
     let p = p\<lparr>cli := (cli p)\<lparr>SecureNo := no, bQREventFlg := 1\<rparr>, shome_btn := False\<rparr>;
     Some (TopSetTimer env 90 T_GotoStartLayer p, [Called ''remoteOnEnter''])
   }"

definition QRCancelOnPress :: panel_step where
  "QRCancelOnPress p = Some (GotoStart p, [])"

definition remoteOnLeave :: panel_step where
  "remoteOnLeave p =
     Some (TopCloseTimer (if bReqRmtStartTsNo (cli p) = 0 then p\<lparr>cli := (cli p)\<lparr>bQREventFlg := 2\<rparr>\<rparr> else p), [])"

section \<open>Waiting for the server\<close>

definition WaitToStartLayer :: "panel \<Rightarrow> panel" where
  "WaitToStartLayer p = (if GotoWaittoStartLayer p then GotoStart (p\<lparr>GotoWaittoStartLayer := False\<rparr>) else p)"

definition WaitToConnectLayer :: "panel \<Rightarrow> panel" where
  "WaitToConnectLayer p =
     (if GotoWaittoConnectLayer p then ituLayerGoto ''connectLayer'' (p\<lparr>GotoWaittoConnectLayer := False\<rparr>) else p)"

definition StopWaitMonitoringTask :: "panel \<Rightarrow> panel" where
  "StopWaitMonitoringTask p = TopCloseTimer (p\<lparr>sDLsWaitMonitoring := False\<rparr>)"

text \<open>The step from one sleep of the task to the next.\<close>

definition wait_again :: "panel \<Rightarrow> panel" where
  "wait_again p = p\<lparr>sWaitPhase := if sDLsWaitMonitoring p then WAIT_POLL else WAIT_NONE\<rparr>"

definition sWaitMonitoringTaskFuntion :: panel_step where
  "sWaitMonitoringTaskFuntion p =
     (case sWaitPhase p of
        WAIT_NONE \<Rightarrow> Some (p, [])
      | WAIT_CONNECT \<Rightarrow> Some (wait_again (WaitToConnectLayer p), [])
      | WAIT_START \<Rightarrow> Some (wait_again (WaitToStartLayer p), [])
      | WAIT_POLL \<Rightarrow>
          if bConnect (cli p)
          then if card_auth (cli p) = CARD_AUTH_OK
            then do {
              st \<leftarrow> GetCpStatus 1 (cli p);
              c \<leftarrow> (if st = CP_STATUS_CODE_AVAIL then set_cp CP_STATUS_CODE_PREPARE 1 (cli p) else Some (cli p));
              Some ((StopWaitMonitoringTask (p\<lparr>cli := c\<rparr>))\<lparr>sWaitPhase := WAIT_CONNECT\<rparr>, [Shown ''cardWaitTxtIcon_succ''])
            }
            else if card_auth (cli p) = CARD_AUTH_FAILD
            then Some ((StopWaitMonitoringTask p)\<lparr>sWaitPhase := WAIT_START\<rparr>, [Shown ''cardWaitTxtIcon_fail''])
            else Some (wait_again p, [])
          else Some ((StopWaitMonitoringTask p)\<lparr>sWaitPhase := WAIT_START\<rparr>, [Shown ''cardWaitTxtIcon_fail'']))"

definition CardAuth1Timer1 :: "panel \<Rightarrow> panel" where
  "CardAuth1Timer1 p = WaitToStartLayer (p\<lparr>sDLsWaitMonitoring := False\<rparr>)"

text \<open>A remote start asks for an authorisation only if \<open>AuthorizeRemoteTxRequests\<close>, key 0, is set.\<close>

definition request_auth :: "panel \<Rightarrow> panel option" where
  "request_auth p = do {
     let o' = app_order (sess p);
     if \<not> (o' = APP_ORDER_CUSTOMER_CONFIRM \<and> auth_type p = PW_INPUT_CARNUM) \<and>
        \<not> (o' = APP_ORDER_CANCEL_PREPAY \<and> auth_type p = PW_INPUT_CARNUM) \<and> o' \<noteq> APP_ORDER_CAR_NUMAUTH
     then do {
       k \<leftarrow> rd (CfgKeyVal (cli p)) 0;
       let no = (if CfgKeyDataInt k = 0 \<and> bReqRmtStartTsNo (cli p) \<noteq> 0 then 0 else 1);
       let p = set_sess ((sess p)\<lparr>app_order := APP_ORDER_CUSTOMER_AUTH, bReqAuthNo := no\<rparr>) p;
       Some (p\<lparr>cli := (cli p)\<lparr>bReqRmtStartTsNo := 0\<rparr>\<rparr>)
     }
     else Some p
   }"

definition CardWaitEnter :: "panel_env \<Rightarrow> panel_step" where
  "CardWaitEnter env p = do {
     let p = p\<lparr>shome_btn := False, GotoWaittoStartLayer := True, GotoWaittoConnectLayer := True\<rparr>;
     p \<leftarrow> request_auth (set_sess ((sess p)\<lparr>secc_status_fault := 1\<rparr>) p);
     let p = p\<lparr>sDLsWaitMonitoring := True\<rparr>;
     let p = (if sWaitPhase p = WAIT_NONE then p\<lparr>sWaitPhase := WAIT_POLL\<rparr> else p);
     Some (TopSetTimer env 30 T_CardAuth1Timer1 p, [Called ''CardWaitEnter'', Secc_restart])
   }"

definition CardWaitLeave :: panel_step where
  "CardWaitLeave p =
     (let p = set_sess ((sess p)\<lparr>bReqAuthNo := 0\<rparr>) p; p = p\<lparr>cli := (cli p)\<lparr>bReqStartTsNo := 0\<rparr>\<rparr>
      in Some ((StopWaitMonitoringTask p)\<lparr>GotoWaittoStartLayer := False, GotoWaittoConnectLayer := False\<rparr>, []))"

section \<open>Plugging in\<close>

text \<open>The countdown takes \<open>ConnectionTimeOut\<close>, key 2.\<close>

definition ConnectOnEnter :: "panel_env \<Rightarrow> panel_step" where
  "ConnectOnEnter env p = do {
     let p = set_order APP_ORDER_CONNECTOR_SELECT (p\<lparr>sleepOn1ch := False\<rparr>);
     let p = (if connect_found p then p else p\<lparr>connect_found := True, b_nextLayer2 := False\<rparr>);
     let p = set_sess (LEDOn (sess p)) (p\<lparr>sStepClose := False\<rparr>);
     k \<leftarrow> rd (CfgKeyVal (cli p)) 2;
     let p = TopSetTimer env (sint (CfgKeyDataInt k)) T_TimeOutPageOut p;
     Some (p\<lparr>cpListener := Some CPListenerOnConnect\<rparr>, [Called ''ConnectOnEnter'', Pilot_power True])
   }"

definition ConnectOnLeave :: panel_step where
  "ConnectOnLeave p = Some (TopCloseTimer p, [])"

definition OnConnect :: "panel_cfg \<Rightarrow> CPVoltage \<Rightarrow> panel \<Rightarrow> panel" where
  "OnConnect cfg v p =
     (case v of
        CP_VOLTAGE_12V \<Rightarrow> p\<lparr>sStepClose := False\<rparr>
      | CP_VOLTAGE_9V \<Rightarrow> GotoChargeLayer cfg (p\<lparr>cli := (cli p)\<lparr>bReqStartTsNo := word_of_nat (devChannel p + 1)\<rparr>, sStepClose := True\<rparr>)
      | _ \<Rightarrow> p)"

definition B_nextLayer2 :: "panel_cfg \<Rightarrow> panel_step" where
  "B_nextLayer2 cfg p = Some (GotoChargeLayer cfg p, [])"

section \<open>Charging\<close>

abbreviation (input) C_TYPE :: int where "C_TYPE \<equiv> 8002"
abbreviation (input) HBC_TYPE :: int where "HBC_TYPE \<equiv> 8005"
abbreviation (input) HC_TYPE :: int where "HC_TYPE \<equiv> 8006"

definition cable_type :: "panel_cfg \<Rightarrow> bool" where
  "cable_type cfg \<longleftrightarrow> devtype (charge_part cfg) \<in> {BC_TYPE, HBC_TYPE, C_TYPE, HC_TYPE}"

text \<open>The monitoring task starts a countdown for the beginning of the charge when it starts itself.\<close>

definition ChargeLayerEnter :: "panel_cfg \<Rightarrow> panel_env \<Rightarrow> panel_step" where
  "ChargeLayerEnter cfg env p = do {
     let start = (\<not> sChargeMonitoringTask (sess p));
     (p, acts) \<leftarrow> on_session env (ChargeOnEnter (charge_view cfg p) (p_unit_price env)) p;
     let p = p\<lparr>cpListener := Some CPListenerOnCharging, cardListener := Some CardReaderListenerOnChargingScreen, shome_btn := False\<rparr>;
     let p = (if start \<and> cable_type cfg then TopSetTimer env 100 T_TimeOutChargeStartWait p else p);
     Some (p, Called ''ChargeOnEnter'' # acts @ [Card_polling True, Station_save])
   }"

definition ChargeLayerLeave :: "panel_cfg \<Rightarrow> panel_env \<Rightarrow> panel_step" where
  "ChargeLayerLeave cfg env p = do {
     (p, acts) \<leftarrow> on_session env (ChargeOnLeave (charge_view cfg p) (sleepOn1ch p)) p;
     Some (p, acts @ [Card_polling False])
   }"

text \<open>\<open>StartCharge\<close> ends the countdown.\<close>

definition OnCharging :: "panel_cfg \<Rightarrow> panel_env \<Rightarrow> CPVoltage \<Rightarrow> panel_step" where
  "OnCharging cfg env v p = do {
     (q, acts) \<leftarrow> on_session env (CPListenerOnCharge (charge_view cfg p) (p_sec env) v) p;
     Some (if cable_type cfg \<and> \<not> sCharging (sess p) \<and> sCharging (sess q) then TopCloseTimer q else q, acts)
   }"

definition ChargeStopDialog :: "panel_cfg \<Rightarrow> panel_env \<Rightarrow> panel_step" where
  "ChargeStopDialog cfg env p = on_session env (ChargeStopOnDialog (charge_view cfg p)) (TopCloseTimer p)"

section \<open>The result, unplugging and the last screen\<close>

definition Ch2FinishOnEnter :: "panel_step" where
  "Ch2FinishOnEnter p = do {
     k \<leftarrow> rd (CfgKeyVal (cli p)) 14;
     let reason = (if client.faultChargFlg (cli p) \<and> CfgKeyDataInt k \<noteq> 0 then STOP_REASON_DEAUTH else STOP_REASON_NONE);
     let p = set_sess ((sess p)\<lparr>app_order := APP_ORDER_CHARGING_STOP, StopTs_Reason := reason\<rparr>) p;
     Some (p\<lparr>cpListener := Some CPListenerOnFinish, cli := (cli p)\<lparr>bReqStopTsFlg := True\<rparr>, sFinishMonitoring := True\<rparr>,
       [Called ''Ch2FinishOnEnter''])
   }"

definition Ch2FinishOnLeave :: panel_step where
  "Ch2FinishOnLeave p = Some (set_sess ((sess p)\<lparr>bReqRmtStopTSFlg := False\<rparr>) p, [])"

definition sFinishMonitoringTaskFuntion :: panel_step where
  "sFinishMonitoringTaskFuntion p =
     Some (if sFinishMonitoring p \<and> chargeAmt_Check (cli p) then p\<lparr>cli := (cli p)\<lparr>chargeAmt_Check := False\<rparr>\<rparr> else p, [])"

definition Ch2FinishConfirmOnPress :: panel_step where
  "Ch2FinishConfirmOnPress p = Some (ituLayerGoto ''disconnectLayer'' p, [])"

definition GotoMainLayer :: "panel \<Rightarrow> panel" where
  "GotoMainLayer p = GotoStart (set_order APP_ORDER_FINISH (TopCloseTimer p))"

definition DisconnectOnEnter :: "panel_env \<Rightarrow> panel_step" where
  "DisconnectOnEnter env p =
     (let p = (set_order APP_ORDER_CONNECT_OUT (p\<lparr>sleepOn1ch := False\<rparr>))\<lparr>cpListener := Some CPListenerOnDisconnect\<rparr>
      in Some (if \<not> EmgControl (sess p) then (TopSetTimer env 90 T_TimeOutPageOut1 p)\<lparr>shome_btn := False\<rparr> else p,
           [Called ''DisconnectOnEnter'']))"

definition DisconnectOnLeave :: panel_step where
  "DisconnectOnLeave p = Some (p, [])"

definition ThanksOnEnter :: "panel_env \<Rightarrow> panel_step" where
  "ThanksOnEnter env p =
     Some ((TopSetTimer env 20 T_LayerThanksGotoStartLayer ((set_order APP_ORDER_FINISH p)\<lparr>gotoStartLayer := True\<rparr>))\<lparr>shome_btn := True\<rparr>,
       [Called ''ThanksOnEnter'', Pilot_power False])"

definition ThanksOnLeave :: panel_step where
  "ThanksOnLeave p = Some (TopCloseTimer (p\<lparr>gotoStartLayer := False\<rparr>), [])"

definition LayerThanksGotoStartLayer :: "panel \<Rightarrow> panel" where
  "LayerThanksGotoStartLayer p =
     (if gotoStartLayer p
      then (if app_order (sess p) = APP_ORDER_FINISH then GotoStart (p\<lparr>gotoStartLayer := False\<rparr>) else p\<lparr>gotoStartLayer := False\<rparr>)
      else p)"

section \<open>The top line\<close>

definition homeBtn_press :: panel_step where
  "homeBtn_press p = Some (GotoStart p, [])"

definition backBtn_press :: panel_step where
  "backBtn_press p =
     Some (case app_order (sess p) of
             APP_ORDER_WAIT \<Rightarrow> GotoStart p
           | APP_ORDER_AUTH_METHOD \<Rightarrow> ituLayerGoto ''ch2Layer'' p
           | APP_ORDER_CARD_READER \<Rightarrow> ituLayerGoto ''authUserLayer'' p
           | _ \<Rightarrow> p, [])"

text \<open>The countdown of the screens for administration, which saves the settings and restarts the station.\<close>

definition adminTimeout :: panel_step where
  "adminTimeout p = Some (set_sess (LEDOn (sess p)) p, [Called ''ResetEthernet'', Station_save, Station_reboot])"

definition timeout_call :: "panel_env \<Rightarrow> TopTimerTimeoutListener \<Rightarrow> panel_step" where
  "timeout_call env l p =
     (case l of
        T_GotoStartLayer \<Rightarrow> Some (GotoStart p, [])
      | T_CardWaitTimeout111 \<Rightarrow> Some (CardNumStartLayer p, [])
      | T_CardAuth1Timer1 \<Rightarrow> Some (CardAuth1Timer1 p, [])
      | T_TimeOutPageOut \<Rightarrow> Some (GotoStart p, [])
      | T_TimeOutPageOut1 \<Rightarrow> Some (GotoMainLayer p, [])
      | T_TimeOutChargeStartWait \<Rightarrow> on_session env (\<lambda>s. Some (TimeOutChargeStartWait s)) p
      | T_LayerThanksGotoStartLayer \<Rightarrow> Some (LayerThanksGotoStartLayer p, [])
      | T_adminTimeout \<Rightarrow> adminTimeout p
      | T_adminTimeout1 \<Rightarrow> adminTimeout p)"

text \<open>The end of a pass: the task ends when its flag is down.\<close>

definition top_again :: "panel \<Rightarrow> panel" where
  "top_again p = (if sDLsTopMonitoring p then p else p\<lparr>sTopMonitoringTask := False, topThreads := topThreads p - 1\<rparr>)"

text \<open>The count goes down whenever the number of elapsed seconds differs from the one seen last.\<close>

definition count_down :: "panel_env \<Rightarrow> panel \<Rightarrow> panel" where
  "count_down env p =
     (let total = p_sec env - sttv p
      in p\<lparr>sTimerCount := (if oldtotalvalue p \<noteq> total then sTimerCount p - 1 else sTimerCount p), oldtotalvalue := total\<rparr>)"

definition sTopMonitoringTaskFuntion :: "panel_env \<Rightarrow> panel_step" where
  "sTopMonitoringTaskFuntion env p =
     (if topThreads p = 0 then Some (p, [])
      else if \<not> sDLsTopMonitoring p then Some (top_again p, [])
      else if \<not> sTimerCounting p then Some (top_again (p\<lparr>sDLsTopMonitoring := False\<rparr>), [])
      else let p = count_down env p in
        if sTimerCount p < 1
        then do {
          let p = p\<lparr>sDLsTopMonitoring := False\<rparr>;
          (p, acts) \<leftarrow> (case sTimeoutListener p of None \<Rightarrow> Some (p, []) | Some l \<Rightarrow> timeout_call env l p);
          Some (top_again p, acts)
        }
        else Some (p, []))"

end
