(* ===== verification/Station.thy ===== *)
theory Station
  imports Screens
begin

text \<open>
  The screens put together: the table of functions (\<open>function_table.c\<close>), the flush of the action queue, the status task of
  the top line (\<open>layer_top.c\<close>; a pass ends where it sleeps), and the steps of the station.
\<close>

section \<open>The functions that actions call\<close>

definition actionFunctions :: "panel_cfg \<Rightarrow> panel_env \<Rightarrow> nat \<Rightarrow> (string \<times> panel_step) list" where
  "actionFunctions cfg env param =
     [(''MainOnEnter'', MainOnEnter env), (''MainOnLeave'', MainOnLeave), (''MainStartOnPress'', MainStartOnPress cfg env),
      (''Ch2OnEnter'', Ch2OnEnter env), (''Ch2LeftStartOnPress'', Ch2LeftStartOnPress cfg env),
      (''AuthUserOnEnter'', AuthUserOnEnter env), (''AuthUserOnLeave'', AuthUserOnLeave),
      (''AuthTypeSelectOnPress'', AuthTypeSelectOnPress env param), (''MemCardOnPress'', MemCardOnPress env),
      (''RemoteAuthOnPress'', RemoteAuthOnPress cfg env),
      (''RfidCardOnEnter'', RfidCardOnEnter cfg env), (''RfidCardOnLeave'', RfidCardOnLeave), (''B_nextLayer'', B_nextLayer),
      (''CardNumOnEnter'', CardNumOnEnter env), (''CardNumOnLeave'', CardNumOnLeave), (''CardNumOkOnPress'', CardNumOkOnPress cfg),
      (''CardNumCancelOnPress'', CardNumCancelOnPress),
      (''remoteOnEnter'', remoteOnEnter env), (''remoteOnLeave'', remoteOnLeave), (''QRCancelOnPress'', QRCancelOnPress),
      (''CardWaitEnter'', CardWaitEnter env), (''CardWaitLeave'', CardWaitLeave),
      (''ConnectOnEnter'', ConnectOnEnter env), (''ConnectOnLeave'', ConnectOnLeave), (''B_nextLayer2'', B_nextLayer2 cfg),
      (''ChargeOnEnter'', ChargeLayerEnter cfg env), (''ChargeOnLeave'', ChargeLayerLeave cfg env),
      (''Ch2FinishOnEnter'', Ch2FinishOnEnter), (''Ch2FinishOnLeave'', Ch2FinishOnLeave),
      (''Ch2FinishConfirmOnPress'', Ch2FinishConfirmOnPress),
      (''DisconnectOnEnter'', DisconnectOnEnter env), (''DisconnectOnLeave'', DisconnectOnLeave),
      (''ThanksOnEnter'', ThanksOnEnter env), (''ThanksOnLeave'', ThanksOnLeave),
      (''homeBtn_press'', homeBtn_press), (''backBtn_press'', backBtn_press)]"

text \<open>The scene file: the function that a screen calls for an event.\<close>

type_synonym scene = "string \<Rightarrow> itu_event \<Rightarrow> string option"

definition action_name :: "scene \<Rightarrow> itu_action \<Rightarrow> string option" where
  "action_name sc a = (case a of Layer_action l e \<Rightarrow> sc l e | Button_action f _ \<Rightarrow> Some f)"

definition action_param :: "itu_action \<Rightarrow> nat" where
  "action_param a = (case a of Layer_action _ _ \<Rightarrow> 0 | Button_action _ n \<Rightarrow> n)"

definition run_action :: "scene \<Rightarrow> panel_cfg \<Rightarrow> panel_env \<Rightarrow> itu_action \<Rightarrow> panel_step" where
  "run_action sc cfg env a p =
     (case action_name sc a of None \<Rightarrow> Some (p, [])
      | Some f \<Rightarrow> (case map_of (actionFunctions cfg env (action_param a)) f of None \<Rightarrow> Some (p, []) | Some h \<Rightarrow> h p))"

text \<open>One turn of the loop over the queue, or the end of the loop, which empties the queue.\<close>

definition ituFlushActionQueue :: "scene \<Rightarrow> panel_cfg \<Rightarrow> panel_env \<Rightarrow> panel_step" where
  "ituFlushActionQueue sc cfg env p =
     (if queuePos p < length (actionQueue p)
      then run_action sc cfg env (actionQueue p ! queuePos p) (p\<lparr>queuePos := queuePos p + 1\<rparr>)
      else Some (p\<lparr>actionQueue := [], queuePos := 0\<rparr>, []))"

section \<open>The status task\<close>

text \<open>The time of the loss of the server, and the reboot after more than five minutes.\<close>

definition net_error_mark :: "panel_env \<Rightarrow> panel \<Rightarrow> panel" where
  "net_error_mark env p =
     (let p = (if lastSeccConSetVal p \<noteq> p_net_ready env
               then p\<lparr>lastSeccConSetVal := p_net_ready env, NetError_Flg := NetError_Flg p \<or> p_net_ready env\<rparr> else p);
          p = (if bConnect (cli p) then p\<lparr>NetError_Flg := True\<rparr> else p)
      in if (\<not> bConnect (cli p) \<or> \<not> p_net_ready env) \<and> NetError_Flg p
         then p\<lparr>NetError_Flg := False, NetErrorTime_top := p_sec env\<rparr> else p)"

text \<open>The loop is cut at the sleeps: each operation below is the rest of the loop's body from one test on, up to the next
  sleep, whose place it notes in \<open>statusPhase\<close>.  A connector that is preparing counts as charging.\<close>

definition status_reset :: "panel_env \<Rightarrow> panel_step" where
  "status_reset env p =
     (if bReqResetNo (cli p) \<noteq> 0
      then do {
        st \<leftarrow> GetCpStatus (devChannel p + 1) (cli p);
        if st = CP_STATUS_CODE_CHARGING \<or> st = CP_STATUS_CODE_PREPARE
        then on_session env (\<lambda>s. Some (TSCT_ChargingStop (s\<lparr>charge_comp_status := END_SERVER\<rparr>))) (p\<lparr>statusPhase := STATUS_LOOP\<rparr>)
        else Some (p\<lparr>statusPhase := STATUS_REBOOT\<rparr>, [Station_save])
      }
      else Some (p\<lparr>statusPhase := STATUS_LOOP\<rparr>, []))"

definition status_update :: "panel_env \<Rightarrow> panel_step" where
  "status_update env p =
     (if updateStep (cli p) = UPDATE_STEP_CHKDATE \<and> p_update_date env
      then do {
        let c = (cli p)\<lparr>ses := (sess p)\<lparr>chargingstatus := 0\<rparr>\<rparr>;
        c \<leftarrow> set_cp CP_STATUS_CODE_UNAVAIL 0 c;
        c \<leftarrow> set_cp CP_STATUS_CODE_UNAVAIL 1 c;
        Some (p\<lparr>cli := c, statusPhase := STATUS_UPDATE\<rparr>, [])
      }
      else status_reset env p)"

definition status_diag :: "panel_env \<Rightarrow> panel_step" where
  "status_diag env p =
     (if diagLogReqStep (cli p) = DIAG_STAT_UPLOAD
      then Some (p\<lparr>cli := (cli p)\<lparr>diagLogReqStep := DIAG_STAT_UPLOADING\<rparr>, statusPhase := STATUS_DIAG\<rparr>, [])
      else status_update env p)"

definition status_remote :: "panel_env \<Rightarrow> panel_step" where
  "status_remote env p =
     (if bReqRmtStartTsNo (cli p) \<noteq> 0
      then Some ((set_order APP_ORDER_REMOTE_CHECK p)
        \<lparr>devChannel := unat (bReqRmtStartTsNo (cli p)) - 1, auth_type := SERVER_AUTH, statusPhase := STATUS_REMOTE\<rparr>, [])
      else status_diag env p)"

definition net_error_reboot :: "panel_cfg \<Rightarrow> panel_env \<Rightarrow> panel_step" where
  "net_error_reboot cfg env p =
     (if \<not> NetError_Flg p \<and> ConfirmSelect cfg = USER_AUTH_NET_MODE \<and> 5 < ((p_sec env - NetErrorTime_top p) smod 3600) sdiv 60 \<and>
        app_order (sess p) \<noteq> APP_ORDER_CHARGING
      then Some (p\<lparr>statusPhase := STATUS_NET_REBOOT\<rparr>, [Station_save])
      else status_remote env p)"

text \<open>A pass: what follows the sleep at which the last pass ended.\<close>

definition sTopStatusTaskFuntion :: "panel_cfg \<Rightarrow> panel_env \<Rightarrow> panel_step" where
  "sTopStatusTaskFuntion cfg env p =
     (case statusPhase p of
        STATUS_LOOP \<Rightarrow> net_error_reboot cfg env (net_error_mark env p)
      | STATUS_NET_REBOOT \<Rightarrow> do {
          (p, acts) \<leftarrow> status_remote env p;
          Some (p, Station_reboot # acts)
        }
      | STATUS_REMOTE \<Rightarrow> status_diag env (ituLayerGoto ''CardWaitLayer'' p)
      | STATUS_DIAG \<Rightarrow> do {
          let step = (if p_transfer_failed env then DIAG_STAT_UPLOADFAIL else DIAG_STAT_UPLOADED);
          (p, acts) \<leftarrow> status_update env (p\<lparr>cli := (cli p)\<lparr>diagLogReqStep := step\<rparr>\<rparr>);
          Some (p, Diag_upload # acts)
        }
      | STATUS_UPDATE \<Rightarrow> Some (p\<lparr>cli := (cli p)\<lparr>updateStep := UPDATE_STEP_DOWNLOAD\<rparr>, statusPhase := STATUS_DOWNLOAD\<rparr>, [])
      | STATUS_DOWNLOAD \<Rightarrow>
          if p_transfer_failed env then Some (p\<lparr>statusPhase := STATUS_SAVE\<rparr>, [Fw_download, Update_clear])
          else Some (p\<lparr>cli := (cli p)\<lparr>updateStep := UPDATE_STEP_INSTALED\<rparr>, statusPhase := STATUS_SAVE\<rparr>, [Fw_download])
      | STATUS_SAVE \<Rightarrow> Some (p\<lparr>statusPhase := STATUS_REBOOT\<rparr>, [Station_save])
      | STATUS_REBOOT \<Rightarrow> Some (p\<lparr>statusPhase := STATUS_DEAD\<rparr>, [Station_reboot])
      | STATUS_DEAD \<Rightarrow> Some (p, []))"

section \<open>The steps of the station\<close>

text \<open>A turn of the action queue, passes of the tasks, calls of the listeners, buttons, the tasks of the charging screen, the
  meter and the emergency button, and a change of the client by its own tasks, which never touch the contactor.\<close>

datatype panel_event =
    Ev_flush
  | Ev_top
  | Ev_status
  | Ev_wait
  | Ev_finish
  | Ev_cp CPVoltage
  | Ev_rfid bytes nat
  | Ev_key u8
  | Ev_press string nat
  | Ev_stop
  | Ev_meter_value float_val u32
  | Ev_charge_task charge_env
  | Ev_fault_task u16 u16
  | Ev_emb bool bool
  | Ev_sequence_task bool bool
  | Ev_lamp
  | Ev_others client

definition cp_call :: "panel_cfg \<Rightarrow> panel_env \<Rightarrow> CPVoltage \<Rightarrow> panel_step" where
  "cp_call cfg env v p =
     (case cpListener p of
        None \<Rightarrow> None
      | Some CPListenerOnAhead \<Rightarrow> map_option (\<lambda>p. (p, [])) (OnAhead v p)
      | Some CPListenerOnConnect \<Rightarrow> Some (OnConnect cfg v p, [])
      | Some CPListenerOnCharging \<Rightarrow> OnCharging cfg env v p
      | Some CPListenerOnFinish \<Rightarrow> Some (if v = CP_VOLTAGE_12V then GotoStart p else p, [])
      | Some CPListenerOnDisconnect \<Rightarrow> Some (if v = CP_VOLTAGE_12V then GotoMainLayer p else p, []))"

definition card_call :: "panel_cfg \<Rightarrow> panel_env \<Rightarrow> bytes \<Rightarrow> nat \<Rightarrow> panel_step" where
  "card_call cfg env data sz p =
     (case cardListener p of
        None \<Rightarrow> None
      | Some CardReaderListenerOnAuthUser \<Rightarrow> map_option (\<lambda>p. (p, [])) (OnAuthUser cfg data sz p)
      | Some CardReaderListenerOnChargingScreen \<Rightarrow> on_session env (CardReaderListenerOnCharging (charge_view cfg p) data sz) p)"

text \<open>A button that the program has hidden cannot be pressed.\<close>

definition pressable :: "string \<Rightarrow> panel \<Rightarrow> bool" where
  "pressable f p \<longleftrightarrow> (f = ''B_nextLayer'' \<longrightarrow> b_nextLayer p) \<and> (f = ''B_nextLayer2'' \<longrightarrow> b_nextLayer2 p) \<and>
     (f = ''homeBtn_press'' \<longrightarrow> shome_btn p) \<and> f \<in> {''MainStartOnPress'', ''Ch2LeftStartOnPress'', ''AuthTypeSelectOnPress'', ''MemCardOnPress'',
     ''RemoteAuthOnPress'', ''B_nextLayer'', ''CardNumOkOnPress'', ''CardNumCancelOnPress'', ''QRCancelOnPress'', ''B_nextLayer2'',
     ''Ch2FinishConfirmOnPress'', ''homeBtn_press'', ''backBtn_press''}"

fun panel_do :: "scene \<Rightarrow> panel_cfg \<Rightarrow> panel_env \<times> panel_event \<Rightarrow> panel_step" where
  "panel_do sc cfg (env, Ev_flush) p = ituFlushActionQueue sc cfg env p"
| "panel_do sc cfg (env, Ev_top) p = sTopMonitoringTaskFuntion env p"
| "panel_do sc cfg (env, Ev_status) p = sTopStatusTaskFuntion cfg env p"
| "panel_do sc cfg (env, Ev_wait) p = sWaitMonitoringTaskFuntion p"
| "panel_do sc cfg (env, Ev_finish) p = sFinishMonitoringTaskFuntion p"
| "panel_do sc cfg (env, Ev_cp v) p = cp_call cfg env v p"
| "panel_do sc cfg (env, Ev_rfid data n) p = card_call cfg env data n p"
| "panel_do sc cfg (env, Ev_key k) p = map_option (\<lambda>p. (p, [])) (NumInputListener env k p)"
| "panel_do sc cfg (env, Ev_press f n) p = Some (if pressable f p then ituExecActions (Button_action f n) p else p, [])"
| "panel_do sc cfg (env, Ev_stop) p = ChargeStopDialog cfg env p"
| "panel_do sc cfg (env, Ev_meter_value current energy) p =
     on_session env (\<lambda>s. if whm_listening s then WHMListenerOnCharge (charge_view cfg p) current energy s else Some (s, [])) p"
| "panel_do sc cfg (env, Ev_charge_task e) p = on_session env (sChargeMonitoringTaskFuntion (charge_view cfg p) e) p"
| "panel_do sc cfg (env, Ev_fault_task a v) p = on_session env (ChargeFaultMonitoringTaskFuntion (charge_view cfg p) (bAmiErrChk env) a v) p"
| "panel_do sc cfg (env, Ev_emb admin pressed) p = on_session env (EMBListenerOnCharge12 admin pressed) p"
| "panel_do sc cfg (env, Ev_sequence_task admin off) p = on_session env (\<lambda>s. Some (sOrderSequenceMonitoringTaskFuntion admin off (p_sec env) s)) p"
| "panel_do sc cfg (env, Ev_lamp) p = on_session env (\<lambda>s. Some (ChBlinkTask s, [])) p"
| "panel_do sc cfg (env, Ev_others c) p =
     (if MCOn (ses c) = MCOn (sess p) \<and> magnet_pin (ses c) = magnet_pin (sess p) then Some (p\<lparr>cli := c\<rparr>, []) else None)"

end
