(* ===== verification/Station_Thms.thy ===== *)
theory Station_Thms
  imports Station Charging_Thms Ocpp_Calls
begin

text \<open>
  Authorisation over all runs of the station: the locale \<open>budget\<close> relates acts that need a permission to acts that grant
  one, and is interpreted for the screens of a session.
\<close>

section \<open>Uses and grants\<close>

definition acts_of :: "('a \<Rightarrow> bool) \<Rightarrow> 'a list \<Rightarrow> nat" where
  "acts_of f acts = length (filter f acts)"

definition total :: "('a \<Rightarrow> bool) \<Rightarrow> ('s \<times> 'a list \<times> 's) list \<Rightarrow> nat" where
  "total f tr = sum_list (map (\<lambda>(s, acts, s'). acts_of f acts) tr)"

text \<open>\<open>debt\<close> is what may still be used without a further grant.\<close>

locale budget =
  fixes step :: "'e \<Rightarrow> 's \<Rightarrow> ('s \<times> 'a list) option"
    and good :: "'s \<Rightarrow> bool"
    and debt :: "'s \<Rightarrow> nat"
    and use :: "'a \<Rightarrow> bool"
    and grant :: "'a \<Rightarrow> bool"
  assumes good_step: "good s \<Longrightarrow> step e s = Some (s', acts) \<Longrightarrow> good s'"
    and debt_step: "good s \<Longrightarrow> step e s = Some (s', acts) \<Longrightarrow> acts_of use acts + debt s' \<le> acts_of grant acts + debt s"
begin

lemma run_budget:
  "exec step es s = Some (s', tr) \<Longrightarrow> good s \<Longrightarrow> good s' \<and> total use tr + debt s' \<le> total grant tr + debt s"
proof (induction es arbitrary: s tr)
  case (Cons e es)
  from exec_Cons [OF Cons.prems(1)] obtain t acts tr' where
    st: "step e s = Some (t, acts)" and ex: "exec step es t = Some (s', tr')" and tr: "tr = (s, acts, t) # tr'" .
  show ?case
    using Cons.IH [OF ex good_step [OF Cons.prems(2) st]] debt_step [OF Cons.prems(2) st] by (simp add: tr total_def)
qed (simp add: total_def)

end

section \<open>What a step does to the queue of actions\<close>

abbreviation (input) connect_enter :: itu_action where "connect_enter \<equiv> Layer_action ''connectLayer'' ITU_EVENT_ENTER"
abbreviation (input) charge_enter :: itu_action where "charge_enter \<equiv> Layer_action ''chargeLayer'' ITU_EVENT_ENTER"

text \<open>The screens behind the login of the administrator.\<close>

definition admin_layers :: "string set" where
  "admin_layers = {''AdminSetIpLayer'', ''IpAllLayer'', ''AdminSetChargerLayer'', ''ChargerLayer'', ''AdminSetCharger2Layer'', ''Charger2Layer'',
     ''AdminChargerTestLayer'', ''ChargerTestLayer'', ''AdminChargerListLayer'', ''FtpFwUpdate''}"

text \<open>The buttons of the station's screens, without those that the program hides.\<close>

definition open_buttons :: "string set" where
  "open_buttons = {''MainStartOnPress'', ''Ch2LeftStartOnPress'', ''AuthTypeSelectOnPress'', ''MemCardOnPress'', ''RemoteAuthOnPress'',
     ''CardNumOkOnPress'', ''CardNumCancelOnPress'', ''QRCancelOnPress'', ''Ch2FinishConfirmOnPress'', ''homeBtn_press'', ''backBtn_press'',
     ''setting2Layer'', ''AdminLoginOkOnPress'', ''AdminLoginCancelOnPress''}"

text \<open>Presses that a station without an administrator never queues: of the two buttons it hides, of functions that belong to no
  button, and of the buttons behind the login.\<close>

definition hidden_button :: "itu_action \<Rightarrow> bool" where
  "hidden_button a \<longleftrightarrow> (\<exists>f n. a = Button_action f n \<and> f \<notin> open_buttons)"

text \<open>The queue grows by other actions than entering the two screens, those in \<open>L\<close> excepted, and pressing the two buttons.\<close>

definition moved :: "string set \<Rightarrow> itu_action list \<Rightarrow> itu_action list \<Rightarrow> bool" where
  "moved L q q' \<longleftrightarrow> (\<exists>z. q' = q @ z \<and> distinct z \<and> set z \<inter> set q = {} \<and>
     (\<forall>a\<in>set z. \<not> hidden_button a \<and> (a = connect_enter \<longrightarrow> ''connectLayer'' \<in> L) \<and> (a = charge_enter \<longrightarrow> ''chargeLayer'' \<in> L)))"

lemma moved_refl [simp]: "moved L q q"
  by (simp add: moved_def)

lemma moved_add:
  assumes "moved L q (actionQueue p)" "\<not> hidden_button a" "a = connect_enter \<longrightarrow> ''connectLayer'' \<in> L" "a = charge_enter \<longrightarrow> ''chargeLayer'' \<in> L"
  shows "moved L q (actionQueue (ituExecActions a p))"
proof -
  obtain z where z: "actionQueue p = q @ z" "distinct z" "set z \<inter> set q = {}"
    "\<forall>a\<in>set z. \<not> hidden_button a \<and> (a = connect_enter \<longrightarrow> ''connectLayer'' \<in> L) \<and> (a = charge_enter \<longrightarrow> ''chargeLayer'' \<in> L)"
    using assms(1) by (auto simp: moved_def)
  show ?thesis
  proof (cases "a \<in> set (actionQueue p) \<or> 64 \<le> length (actionQueue p)")
    case True
    then show ?thesis using assms(1) by (simp add: ituExecActions_def)
  next
    case False
    then show ?thesis using z assms(2-4) unfolding moved_def
      by (intro exI [of _ "z @ [a]"]) (auto simp: ituExecActions_def)
  qed
qed

lemma exec_frame [simp]:
  "cpListener (ituExecActions a p) = cpListener p" "sWaitPhase (ituExecActions a p) = sWaitPhase p" "cli (ituExecActions a p) = cli p"
  "b_nextLayer (ituExecActions a p) = b_nextLayer p" "b_nextLayer2 (ituExecActions a p) = b_nextLayer2 p"
  "queuePos (ituExecActions a p) = queuePos p" "visible_layer (ituExecActions a p) = visible_layer p"
  by (simp_all add: ituExecActions_def)

lemma goto_frame [simp]:
  "cpListener (ituLayerGoto l p) = cpListener p" "sWaitPhase (ituLayerGoto l p) = sWaitPhase p" "cli (ituLayerGoto l p) = cli p"
  "b_nextLayer (ituLayerGoto l p) = b_nextLayer p" "b_nextLayer2 (ituLayerGoto l p) = b_nextLayer2 p"
  "queuePos (ituLayerGoto l p) = queuePos p" "visible_layer (ituLayerGoto l p) = l"
  by (simp_all add: ituLayerGoto_def Let_def)

definition open_layer :: "string set \<Rightarrow> string \<Rightarrow> bool" where
  "open_layer L l \<longleftrightarrow> (l \<in> L \<or> l \<noteq> ''connectLayer'' \<and> l \<noteq> ''chargeLayer'') \<and> l \<notin> admin_layers"

lemma layer_no_admin [simp]:
  "''mainLayer'' \<notin> admin_layers" "''authUserLayer'' \<notin> admin_layers" "''ch2Layer'' \<notin> admin_layers" "''connectLayer'' \<notin> admin_layers"
  "''chargeLayer'' \<notin> admin_layers" "''CardWaitLayer'' \<notin> admin_layers" "''AdminLoginLayer'' \<notin> admin_layers"
  "''cardNumLayer'' \<notin> admin_layers" "''remoteAuthLayer'' \<notin> admin_layers" "''rfidCardAuthLayer'' \<notin> admin_layers"
  "''disconnectLayer'' \<notin> admin_layers" "''ch2FinishLayer'' \<notin> admin_layers"
  by (simp_all add: admin_layers_def)

lemma moved_goto [intro, simp]:
  assumes "moved L q (actionQueue p)" "open_layer L l"
  shows "moved L q (actionQueue (ituLayerGoto l p))"
proof -
  let ?p = "ituExecActions (Layer_action (visible_layer p) ITU_EVENT_LEAVE) p"
  have "moved L q (actionQueue ?p)" using assms(1) by (intro moved_add) (simp_all add: hidden_button_def)
  then have "moved L q (actionQueue (?p\<lparr>visible_layer := l\<rparr>))" by simp
  then show ?thesis unfolding ituLayerGoto_def Let_def
    by (intro moved_add) (use assms(2) in \<open>auto simp: hidden_button_def open_layer_def\<close>)
qed

lemma timer_frame [simp]:
  "cpListener (TopSetTimer env n l p) = cpListener p" "sWaitPhase (TopSetTimer env n l p) = sWaitPhase p" "cli (TopSetTimer env n l p) = cli p"
  "b_nextLayer (TopSetTimer env n l p) = b_nextLayer p" "b_nextLayer2 (TopSetTimer env n l p) = b_nextLayer2 p"
  "visible_layer (TopSetTimer env n l p) = visible_layer p" "visible_layer (TopCloseTimer p) = visible_layer p"
  "queuePos (TopSetTimer env n l p) = queuePos p" "actionQueue (TopSetTimer env n l p) = actionQueue p"
  "cpListener (TopCloseTimer p) = cpListener p" "sWaitPhase (TopCloseTimer p) = sWaitPhase p" "cli (TopCloseTimer p) = cli p"
  "b_nextLayer (TopCloseTimer p) = b_nextLayer p" "b_nextLayer2 (TopCloseTimer p) = b_nextLayer2 p"
  "queuePos (TopCloseTimer p) = queuePos p" "actionQueue (TopCloseTimer p) = actionQueue p"
  by (simp_all add: TopSetTimer_def TopCloseTimer_def Let_def)

lemma sess_frame [simp]:
  "cpListener (set_sess s p) = cpListener p" "sWaitPhase (set_sess s p) = sWaitPhase p" "sess (set_sess s p) = s"
  "b_nextLayer (set_sess s p) = b_nextLayer p" "b_nextLayer2 (set_sess s p) = b_nextLayer2 p"
  "queuePos (set_sess s p) = queuePos p" "actionQueue (set_sess s p) = actionQueue p" "visible_layer (set_sess s p) = visible_layer p"
  by (simp_all add: set_sess_def)

section \<open>The session changes to other screens only\<close>

definition leads :: "session_act list \<Rightarrow> bool" where
  "leads acts \<longleftrightarrow> list_all (\<lambda>a. \<forall>l. a = Goto_layer l \<longrightarrow> open_layer {} l) acts"

lemma leads_simps [simp]:
  "leads []" "leads (a # as) \<longleftrightarrow> (\<forall>l. a = Goto_layer l \<longrightarrow> open_layer {} l) \<and> leads as" "leads (as @ bs) \<longleftrightarrow> leads as \<and> leads bs"
  by (simp_all add: leads_def)

lemma leads_pure [simp]:
  "leads (snd (GotoNextLayerOnCharge s))" "leads (snd (UpdateStopGui s))" "leads (snd (StopCharge s))" "leads (snd (TSCT_ChargingStop s))"
  "leads (snd (StopCharge2ch s))" "leads (snd (ShowWhmErrorDialogBox e s))" "leads (snd (TimeOutChargeStartWait s))"
  "leads (snd (charge_parent s))" "leads (snd (charge_network cfg env s))" "leads (snd (sOrderSequenceMonitoringTaskFuntion admin off now s))"
proof -
  show g: "leads (snd (GotoNextLayerOnCharge s))" for s by (simp add: GotoNextLayerOnCharge_def open_layer_def)
  show u: "leads (snd (UpdateStopGui s))" for s by (simp add: UpdateStopGui_def g)
  show c: "leads (snd (StopCharge s))" for s by (simp add: StopCharge_def)
  show t: "leads (snd (TSCT_ChargingStop s))" for s using g by (simp add: TSCT_ChargingStop_def split_beta Let_def)
  show "leads (snd (StopCharge2ch s))" by (simp add: StopCharge2ch_def)
  show w: "leads (snd (ShowWhmErrorDialogBox e s))" for e s using t by (simp add: ShowWhmErrorDialogBox_def split_beta Let_def)
  show "leads (snd (TimeOutChargeStartWait s))" using w g by (simp add: TimeOutChargeStartWait_def split_beta Let_def)
  show "leads (snd (charge_parent s))" using t by (simp add: charge_parent_def split_beta Let_def)
  show "leads (snd (charge_network cfg env s))" using t by (simp add: charge_network_def split_beta Let_def)
  show "leads (snd (sOrderSequenceMonitoringTaskFuntion admin off now s))" using c u
    by (simp add: sOrderSequenceMonitoringTaskFuntion_def split_beta Let_def)
qed

definition leading :: "(session \<times> session_act list) option \<Rightarrow> bool" where
  "leading r \<longleftrightarrow> yields (\<lambda>x. leads (snd x)) r"

lemma leading_pair: "f s = (s', acts) \<Longrightarrow> leads (snd (f s)) \<Longrightarrow> leads acts"
  by simp

lemma leading_some [simp]: "leading (Some x) \<longleftrightarrow> leads (snd x)" "leading None"
  by (simp_all add: leading_def yields_def)

lemma leadingD: "leading r \<Longrightarrow> r = Some (s, acts) \<Longrightarrow> leads acts"
  by simp

lemma leading_if: "(b \<Longrightarrow> leading x) \<Longrightarrow> (\<not> b \<Longrightarrow> leading y) \<Longrightarrow> leading (if b then x else y)"
  by simp

lemma leading_bind: "(\<And>x. r = Some x \<Longrightarrow> leading (f x)) \<Longrightarrow> leading (Option.bind r f)"
  by (cases r) simp_all

lemma leading_then: "leading r \<Longrightarrow> (\<And>s acts. leads acts \<Longrightarrow> leading (f s acts)) \<Longrightarrow> leading (Option.bind r (\<lambda>(s, acts). f s acts))"
  by (cases r) auto

lemma leading_account: "leading (charge_account env s)"
  by (auto simp: charge_account_def Let_def intro!: leading_bind)

lemma leading_stops: "leading (charge_stops cfg cenv s)"
  unfolding charge_stops_def by (rule leading_then) (auto simp: split_beta Let_def intro!: leading_bind)

lemma leading_react: "leading (fault_react cfg i b e c s)"
  by (auto simp: fault_react_def split_beta Let_def intro!: leading_bind)

lemma leading_ami: "leading (charge_ami err s)"
  by (auto simp: charge_ami_def intro!: leading_bind)

lemma leading_zero: "leading (CheckCurrentIsZero cfg cur s)"
  by (auto simp: CheckCurrentIsZero_def split_beta Let_def intro!: leading_bind)

lemma leading_unplug: "leading (cp_unplug cfg now s)"
  by (auto simp: cp_unplug_def split_beta Let_def intro!: leading_bind)

lemma leading_card: "leading (CardReaderListenerOnCharging cfg data n s)"
  by (auto simp: CardReaderListenerOnCharging_def Let_def intro!: leading_bind)

lemma leading_emergency: "leading (EMBListenerOnCharge12 admin pressed s)"
  by (auto simp: EMBListenerOnCharge12_def Let_def GotoStartLayer_def open_layer_def intro!: leading_bind)

lemma leading_screen: "leading (ChargeOnEnter cfg price s)" "leading (ChargeOnLeave cfg sleep s)" "leading (ChargeStopOnDialog cfg s)"
  by (auto simp: ChargeOnEnter_def ChargeOnLeave_def ChargeStopOnDialog_def split_beta Let_def intro!: leading_bind leading_then)

lemma leading_pilot: "leading (CPListenerOnCharge cfg now v s)"
  by (cases v) (auto simp: CPListenerOnCharge_def split_beta Let_def intro!: leading_bind leading_then dest: leadingD [OF leading_unplug])

lemma leading_tasks: "leading (sChargeMonitoringTaskFuntion cfg env s)" "leading (ChargeFaultMonitoringTaskFuntion cfg err a v s)"
  by (auto simp: sChargeMonitoringTaskFuntion_def ChargeFaultMonitoringTaskFuntion_def split_beta Let_def
    intro!: leading_then leading_account leading_stops leading_react leading_ami)

lemma leading_session: "leading (session_do cfg e s)"
  by (cases e) (auto simp: WHMListenerOnCharge_def intro: leading_pilot leading_tasks leading_screen leading_card leading_emergency
    leading_bind leading_zero)

section \<open>Steps that need no permission\<close>

definition plain_act :: "panel_act \<Rightarrow> bool" where
  "plain_act a \<longleftrightarrow> a \<notin> {Called ''ConnectOnEnter'', Called ''ChargeOnEnter'', Shown ''cardWaitTxtIcon_succ''}"

text \<open>From \<open>p\<close> a step gives \<open>p'\<close> and \<open>acts\<close>: the listener of the pilot is kept or replaced by one that neither starts a session nor
  closes the contactor, the queue grows as in \<open>moved\<close>, the contactor is not closed.\<close>

definition soft_listener :: "CPListener option \<Rightarrow> bool" where
  "soft_listener l \<longleftrightarrow> l \<noteq> Some CPListenerOnConnect \<and> l \<noteq> Some CPListenerOnCharging"

lemma soft_simps [simp]: "soft_listener (Some CPListenerOnAhead)" "soft_listener (Some CPListenerOnFinish)" "soft_listener (Some CPListenerOnDisconnect)"
  by (simp_all add: soft_listener_def)

definition same_screen :: "panel \<Rightarrow> panel \<Rightarrow> bool" where
  "same_screen p p' \<longleftrightarrow> visible_layer p' = visible_layer p \<or> visible_layer p' \<notin> admin_layers"

definition calm :: "string set \<Rightarrow> panel \<Rightarrow> panel \<times> panel_act list \<Rightarrow> bool" where
  "calm L p x \<longleftrightarrow> (case x of (p', acts) \<Rightarrow> moved L (actionQueue p) (actionQueue p') \<and> queuePos p' = queuePos p \<and>
     (cpListener p' = cpListener p \<or> soft_listener (cpListener p')) \<and>
     (sWaitPhase p' = WAIT_CONNECT \<longrightarrow> sWaitPhase p = WAIT_CONNECT) \<and> (b_nextLayer p' \<longrightarrow> b_nextLayer p) \<and>
     (b_nextLayer2 p' \<longrightarrow> b_nextLayer2 p) \<and> (MCOn (sess p') \<longrightarrow> MCOn (sess p)) \<and> list_all plain_act acts \<and>
     same_screen p p')"

lemma calmI:
  assumes "moved L (actionQueue p) (actionQueue p')" "queuePos p' = queuePos p"
    and "cpListener p' = cpListener p \<or> soft_listener (cpListener p')"
    and "sWaitPhase p' = WAIT_CONNECT \<longrightarrow> sWaitPhase p = WAIT_CONNECT" "b_nextLayer p' \<longrightarrow> b_nextLayer p"
    and "b_nextLayer2 p' \<longrightarrow> b_nextLayer2 p" "MCOn (sess p') \<longrightarrow> MCOn (sess p)" "list_all plain_act acts" "same_screen p p'"
  shows "calm L p (p', acts)"
  using assms by (auto simp: calm_def same_screen_def)

lemma acts_frame:
  assumes "session_acts env as p = (p', acts)" "leads as"
  shows "(moved {} q (actionQueue p) \<longrightarrow> moved {} q (actionQueue p')) \<and> queuePos p' = queuePos p \<and> cpListener p' = cpListener p \<and>
    sWaitPhase p' = sWaitPhase p \<and> b_nextLayer p' = b_nextLayer p \<and> b_nextLayer2 p' = b_nextLayer2 p \<and> cli p' = cli p \<and> list_all plain_act acts \<and>
    same_screen p p'"
  using assms
proof (induction as arbitrary: p acts)
  case (Cons a as)
  show ?case
  proof (cases a)
    case (Goto_layer l)
    then show ?thesis using Cons.IH [of "ituLayerGoto l p" acts] Cons.prems by (auto simp: same_screen_def open_layer_def)
  next
    case (Emergency_dialog b)
    let ?p = "if \<not> b \<and> app_order (sess p) = APP_ORDER_CONNECT_OUT then TopSetTimer env 90 T_TimeOutPageOut1 p else p"
    obtain more where m: "session_acts env as ?p = (p', more)" "acts = Session_act a # more"
      using Cons.prems(1) Emergency_dialog by (auto simp: Let_def split: prod.splits)
    show ?thesis using Cons.IH [OF m(1)] Cons.prems(2) m(2) by (auto simp: plain_act_def same_screen_def)
  next
    case (Err_dialog e)
    obtain more where m: "session_acts env as p = (p', more)" "acts = Session_act a # more"
      using Cons.prems(1) Err_dialog by (auto simp: Let_def split: prod.splits)
    show ?thesis using Cons.IH [OF m(1)] Cons.prems(2) m(2) by (auto simp: plain_act_def same_screen_def)
  next
    case (Pwm b)
    obtain more where m: "session_acts env as p = (p', more)" "acts = Session_act a # more"
      using Cons.prems(1) Pwm by (auto simp: Let_def split: prod.splits)
    show ?thesis using Cons.IH [OF m(1)] Cons.prems(2) m(2) by (auto simp: plain_act_def same_screen_def)
  next
    case Polling_start
    obtain more where m: "session_acts env as p = (p', more)" "acts = Session_act a # more"
      using Cons.prems(1) Polling_start by (auto simp: Let_def split: prod.splits)
    show ?thesis using Cons.IH [OF m(1)] Cons.prems(2) m(2) by (auto simp: plain_act_def same_screen_def)
  qed
qed (simp add: same_screen_def)

lemma session_calm:
  assumes "leading (f (sess p))" "\<And>s' acts. f (sess p) = Some (s', acts) \<Longrightarrow> MCOn s' \<longrightarrow> MCOn (sess p)"
  shows "yields (calm {} p) (on_session env f p)"
proof (cases "f (sess p)")
  case (Some x)
  obtain s' acts where x: "x = (s', acts)" by (cases x)
  obtain p' as where a: "session_acts env acts (set_sess s' p) = (p', as)" by (cases "session_acts env acts (set_sess s' p)")
  have "leads acts" using assms(1) Some x by simp
  note fr = acts_frame [OF a this, of "actionQueue p"]
  have "calm {} p (p', as)" using fr assms(2) Some x by (intro calmI) (auto simp: same_screen_def)
  then show ?thesis using Some x a by (simp add: on_session_def yields_def)
qed (simp add: on_session_def yields_def)

lemma session_do_calm:
  assumes "f (sess p) = session_do cfg e (sess p)" "\<forall>now. e \<noteq> Ev_pilot now CP_VOLTAGE_6V" "e \<noteq> Ev_test False"
  shows "yields (calm {} p) (on_session env f p)"
proof (rule session_calm)
  show "leading (f (sess p))" using leading_session assms(1) by simp
  fix s' acts assume r: "f (sess p) = Some (s', acts)"
  then have r': "session_do cfg e (sess p) = Some (s', acts)" using assms(1) by simp
  then consider "mc_le (sess p) s'" | admin pressed where "e = Ev_emergency admin pressed" using session_step_mc [OF r'] assms(2,3) by blast
  then show "MCOn s' \<longrightarrow> MCOn (sess p)"
  proof cases
    case 2
    then show ?thesis using emergency_step [of admin pressed "sess p" s' acts] r' by auto
  qed (auto simp: mc_le_def)
qed

lemma error_calm: "yields (calm {} p) (show_error env e p)"
proof (unfold show_error_def, rule session_calm)
  show "leading (Some (ShowWhmErrorDialogBox e (sess p)))" by simp
  fix s' acts assume "Some (ShowWhmErrorDialogBox e (sess p)) = Some (s', acts)"
  then show "MCOn s' \<longrightarrow> MCOn (sess p)" using mc_le_Pair [OF stop_mc_le(6)] by (auto simp: mc_le_def)
qed

lemma yields_calm [simp]: "yields (calm L p) (Some (p', acts)) \<longleftrightarrow> calm L p (p', acts)"
  by (simp add: yields_def)

lemma calm_simple:
  "yields (calm {} p) (MainOnLeave p)" "yields (calm {} p) (AuthUserOnEnter env p)" "yields (calm {} p) (AuthUserOnLeave p)"
  "yields (calm {} p) (Ch2OnEnter env p)" "yields (calm {} p) (RfidCardOnLeave p)" "yields (calm {} p) (CardNumOnEnter env p)"
  "yields (calm {} p) (CardNumOnLeave p)" "yields (calm {} p) (CardNumCancelOnPress p)" "yields (calm {} p) (QRCancelOnPress p)"
  "yields (calm {} p) (remoteOnLeave p)" "yields (calm {} p) (CardWaitLeave p)" "yields (calm {} p) (ConnectOnLeave p)"
  "yields (calm {} p) (Ch2FinishOnLeave p)" "yields (calm {} p) (Ch2FinishConfirmOnPress p)" "yields (calm {} p) (DisconnectOnEnter env p)"
  "yields (calm {} p) (DisconnectOnLeave p)" "yields (calm {} p) (ThanksOnEnter env p)" "yields (calm {} p) (ThanksOnLeave p)"
  "yields (calm {} p) (homeBtn_press p)" "yields (calm {} p) (sFinishMonitoringTaskFuntion p)"
  by (simp_all add: calm_def same_screen_def plain_act_def open_layer_def GotoStart_def set_order_def ResetNumber_def StopWaitMonitoringTask_def Let_def
    MainOnLeave_def AuthUserOnEnter_def AuthUserOnLeave_def Ch2OnEnter_def RfidCardOnLeave_def CardNumOnEnter_def CardNumOnLeave_def
    CardNumCancelOnPress_def QRCancelOnPress_def remoteOnLeave_def CardWaitLeave_def ConnectOnLeave_def Ch2FinishOnLeave_def
    Ch2FinishConfirmOnPress_def DisconnectOnEnter_def DisconnectOnLeave_def ThanksOnEnter_def ThanksOnLeave_def homeBtn_press_def
    sFinishMonitoringTaskFuntion_def)

lemma calm_back: "yields (calm {} p) (backBtn_press p)"
  by (simp add: backBtn_press_def calm_def same_screen_def GotoStart_def open_layer_def split: APP_ORDER.split)

lemma calm_rfid: "ConfirmSelect cfg = USER_AUTH_NET_MODE \<Longrightarrow> yields (calm {} p) (RfidCardOnEnter cfg env p)"
  by (simp add: RfidCardOnEnter_def calm_def same_screen_def plain_act_def set_order_def Let_def)

text \<open>A handler that first shows an error.\<close>

lemma calm_from: "yields (calm L p') r \<Longrightarrow> (\<And>x. calm L p' x \<Longrightarrow> calm L p x) \<Longrightarrow> yields (calm L p) r"
  by (simp add: yields_def)

lemma error_calm_at:
  assumes "cpListener p' = cpListener p" "actionQueue p' = actionQueue p" "queuePos p' = queuePos p" "sWaitPhase p' = sWaitPhase p"
    "b_nextLayer p' = b_nextLayer p" "b_nextLayer2 p' = b_nextLayer2 p" "MCOn (sess p') = MCOn (sess p)" "visible_layer p' = visible_layer p"
  shows "yields (calm {} p) (show_error env e p')"
  using error_calm [of p' env e] assms by (simp add: calm_def same_screen_def yields_def split_beta)

lemma calm_press:
  assumes "ConfirmSelect cfg = USER_AUTH_NET_MODE"
  shows "yields (calm {} p) (MainStartOnPress cfg env p)" "yields (calm {} p) (AuthTypeSelectOnPress env n p)"
    "yields (calm {} p) (MemCardOnPress env p)" "yields (calm {} p) (RemoteAuthOnPress cfg env p)"
    "yields (calm {} p) (Ch2LeftStartOnPress cfg env p)" "yields (calm {} p) (CardNumOkOnPress cfg p)"
proof -
  note d = calm_def same_screen_def plain_act_def open_layer_def CstGotoAuthOrNextLayer_def clear_energy_def assms Let_def
  show "yields (calm {} p) (MainStartOnPress cfg env p)" by (simp add: MainStartOnPress_def d error_calm)
  show "yields (calm {} p) (AuthTypeSelectOnPress env n p)" by (simp add: AuthTypeSelectOnPress_def d error_calm)
  show "yields (calm {} p) (MemCardOnPress env p)" by (auto simp: MemCardOnPress_def d intro: error_calm_at)
  show "yields (calm {} p) (RemoteAuthOnPress cfg env p)" by (auto simp: RemoteAuthOnPress_def d intro: error_calm_at)
  show "yields (calm {} p) (Ch2LeftStartOnPress cfg env p)"
    by (auto simp: Ch2LeftStartOnPress_def d error_calm_at intro!: yields_bind)
  show "yields (calm {} p) (CardNumOkOnPress cfg p)"
    by (auto simp: CardNumOkOnPress_def d intro!: yields_bind)
qed

lemma led_mc [simp]: "MCOn (LEDOff s) = MCOn s" "MCOn (LEDOn s) = MCOn s"
  by (simp_all add: LEDOff_def LEDOn_def)

lemma set_cp_mc: "set_cp st i c = Some c' \<Longrightarrow> MCOn (ses c') = MCOn (ses c)"
  by (auto simp: set_cp_def SetCpStatus_def split: bind_splits)

lemma main_status_mc: "main_status c = Some c' \<Longrightarrow> MCOn (ses c') = MCOn (ses c)"
  by (auto simp: main_status_def set_cp_mc split: bind_splits if_splits)

lemma calm_main: "yields (calm {} p) (MainOnEnter env p)"
proof (unfold yields_def, intro allI impI)
  fix x assume r: "MainOnEnter env p = Some x"
  define q where "q = (TopInitLayer p)\<lparr>bCnctLed := False, cpListener := Some CPListenerOnAhead\<rparr>"
  define p0 where "p0 = set_sess ((sess q)\<lparr>secc_status_fault := 1\<rparr>) q"
  obtain s a where st: "StopCharge2ch (sess p0) = (s, a)" by (cases "StopCharge2ch (sess p0)")
  obtain p1 acts where ac: "session_acts env a (set_sess (main_reset s) p0) = (p1, acts)" by (cases "session_acts env a (set_sess (main_reset s) p0)")
  have mc: "\<not> MCOn s" using st by (auto simp: StopCharge2ch_def MagneticContactorOff_def)
  have "leads a" using st leads_pure(5) [of "sess p0"] by simp
  note fr = acts_frame [OF ac this, of "actionQueue p"]
  have p0: "actionQueue p0 = actionQueue p" "queuePos p0 = queuePos p" "sWaitPhase p0 = sWaitPhase p" "b_nextLayer p0 = b_nextLayer p"
    "b_nextLayer2 p0 = b_nextLayer2 p" "cpListener p0 = Some CPListenerOnAhead" "visible_layer p0 = visible_layer p"
    by (simp_all add: p0_def q_def TopInitLayer_def)
  obtain c where c: "main_status ((cli p1)\<lparr>member_type := MEM_NON, finalAmt := 0, chargeAmt_Check := False, card_auth := CARD_AUTH_WAIT\<rparr>) = Some c"
    "x = (p1\<lparr>cli := c\<lparr>bReqStartTsNo := 0\<rparr>, bHomeLayerChk := True, shome_btn := False\<rparr>,
       Called ''MainOnEnter'' # Pilot_power True # (if EmgControl (sess p0) then [Devices_init] else []) @ acts @ [Vas_init])"
    using r unfolding MainOnEnter_def Let_def q_def [symmetric] p0_def [symmetric] by (auto simp: st ac split: bind_splits)
  have "sess p1 = main_reset s" using fr by simp
  then have "\<not> MCOn (ses c)" using main_status_mc [OF c(1)] mc by (simp add: main_reset_def)
  then show "calm {} p x" using fr p0 by (auto simp: c(2) calm_def same_screen_def plain_act_def)
qed

lemma calm_ahead: "yields (\<lambda>q. calm {} p (q, [])) (OnAhead v p)"
  by (cases v) (auto simp: OnAhead_def ahead_status_def calm_def same_screen_def yields_def dest!: set_cp_mc)

lemma calm_card:
  assumes "ConfirmSelect cfg = USER_AUTH_NET_MODE"
  shows "yields (\<lambda>q. calm {} p (q, [])) (OnAuthUser cfg data n p)"
  using assms by (auto simp: OnAuthUser_def yields_def calm_def same_screen_def open_layer_def split: bind_splits if_splits)

lemma calm_key: "yields (\<lambda>q. calm {} p (q, [])) (NumInputListener env k p)"
  by (auto simp: NumInputListener_def yields_def calm_def same_screen_def Let_def split: if_splits)

lemma calm_remote: "yields (calm {} p) (remoteOnEnter env p)"
  by (auto simp: remoteOnEnter_def yields_def calm_def same_screen_def plain_act_def set_order_def Let_def split: bind_splits)

lemma calm_cardwait: "yields (calm {} p) (CardWaitEnter env p)"
  by (auto simp: CardWaitEnter_def request_auth_def yields_def calm_def same_screen_def plain_act_def Let_def split: bind_splits if_splits)

lemma calm_finish: "yields (calm {} p) (Ch2FinishOnEnter p)"
  by (auto simp: Ch2FinishOnEnter_def yields_def calm_def same_screen_def plain_act_def Let_def split: bind_splits)

lemma moved_trans:
  assumes "moved L q q'" "moved L q' q''"
  shows "moved L q q''"
proof -
  let ?ok = "\<lambda>a. \<not> hidden_button a \<and> (a = connect_enter \<longrightarrow> ''connectLayer'' \<in> L) \<and> (a = charge_enter \<longrightarrow> ''chargeLayer'' \<in> L)"
  obtain z where z: "q' = q @ z" "distinct z" "set z \<inter> set q = {}" "\<forall>a\<in>set z. ?ok a" using assms(1) unfolding moved_def by blast
  obtain y where y: "q'' = q' @ y" "distinct y" "set y \<inter> set q' = {}" "\<forall>a\<in>set y. ?ok a" using assms(2) unfolding moved_def by blast
  show ?thesis unfolding moved_def by (rule exI [of _ "z @ y"]) (use z y in auto)
qed

lemma calm_trans:
  assumes "calm L p (p', a)" "calm L p' (p'', b)"
  shows "calm L p (p'', a @ b)"
proof -
  note c = assms [unfolded calm_def same_screen_def prod.case]
  show ?thesis
  proof (rule calmI)
    show "moved L (actionQueue p) (actionQueue p'')" by (rule moved_trans [of _ _ "actionQueue p'"]) (use c in simp_all)
    show "cpListener p'' = cpListener p \<or> soft_listener (cpListener p'')"
    proof (cases "cpListener p'' = cpListener p'")
      case True
      then show ?thesis using c(1) by simp
    qed (use c(2) in simp)
    show "same_screen p p''" using c unfolding same_screen_def by metis
  qed (use c in simp_all)
qed

lemma calm_timeout: "yields (calm {} p) (timeout_call env l p)"
proof (cases l)
  case T_TimeOutChargeStartWait
  have "yields (calm {} p) (on_session env (\<lambda>s. Some (TimeOutChargeStartWait s)) p)"
    by (rule session_do_calm [of _ _ undefined Ev_start_timeout]) simp_all
  then show ?thesis using T_TimeOutChargeStartWait by (simp add: timeout_call_def)
qed (simp_all add: timeout_call_def calm_def same_screen_def open_layer_def GotoStart_def CardNumStartLayer_def CardAuth1Timer1_def WaitToStartLayer_def
  GotoMainLayer_def LayerThanksGotoStartLayer_def set_order_def adminTimeout_def plain_act_def)

lemma calm_again: "calm L p (top_again p', a) \<longleftrightarrow> calm L p (p', a)"
  by (simp add: calm_def same_screen_def top_again_def)

lemma calm_same:
  assumes "cpListener p' = cpListener p" "actionQueue p' = actionQueue p" "queuePos p' = queuePos p" "sWaitPhase p' = sWaitPhase p"
    "b_nextLayer p' = b_nextLayer p" "b_nextLayer2 p' = b_nextLayer2 p" "MCOn (sess p') = MCOn (sess p)" "visible_layer p' = visible_layer p"
  shows "calm L p (p', [])"
  using assms by (simp add: calm_def same_screen_def)

lemma calm_top: "yields (calm {} p) (sTopMonitoringTaskFuntion env p)"
proof -
  let ?q = "count_down env p"
  let ?p = "?q\<lparr>sDLsTopMonitoring := False\<rparr>"
  have q: "calm {} p (?q, [])" "calm {} p (?p, [])" "calm {} p (p\<lparr>sDLsTopMonitoring := False\<rparr>, [])" "calm {} p (p, [])"
    by (auto intro!: calm_same simp: count_down_def Let_def)
  have t: "yields (calm {} p) (case sTimeoutListener ?p of None \<Rightarrow> Some (?p, []) | Some l \<Rightarrow> timeout_call env l ?p)"
  proof (cases "sTimeoutListener ?p")
    case (Some l)
    have "calm {} p x" if "timeout_call env l ?p = Some x" for x
      using calm_trans [OF q(2), of "fst x" "snd x"] yieldsD [OF calm_timeout that] by simp
    then show ?thesis using Some by (simp add: yields_def)
  qed (use q in simp)
  have e: "yields (calm {} p) (r \<bind> (\<lambda>(p, acts). Some (top_again p, acts)))" if "yields (calm {} p) r" for r
    using that by (cases r) (auto simp: yields_def calm_again)
  show ?thesis unfolding sTopMonitoringTaskFuntion_def Let_def using q e [OF t] by (simp add: calm_again)
qed

lemma calm_yields:
  assumes "calm L p (q, a)" "yields (calm L q) r"
  shows "yields (\<lambda>(p', b). calm L p (p', a @ b)) r"
  using assms calm_trans by (auto simp: yields_def)

lemma plain_station: "plain_act Diag_upload" "plain_act Station_save" "plain_act Station_reboot" "plain_act Fw_download"
  "plain_act Update_clear"
  by (simp_all add: plain_act_def)

lemma calm_reset: "yields (calm {} p) (status_reset env p)"
proof -
  let ?f = "\<lambda>s. Some (TSCT_ChargingStop (s\<lparr>charge_comp_status := END_SERVER\<rparr>))"
  let ?p = "p\<lparr>statusPhase := STATUS_LOOP\<rparr>"
  have "yields (calm {} ?p) (on_session env ?f ?p)"
  proof (rule session_calm)
    fix s' acts assume "?f (sess ?p) = Some (s', acts)"
    then show "MCOn s' \<longrightarrow> MCOn (sess ?p)"
      using stop_mc_le(2) [of "(sess p)\<lparr>charge_comp_status := END_SERVER\<rparr>"] by (auto simp: mc_le_def)
  qed simp
  moreover have "calm {} ?p = calm {} p" by (intro ext) (simp add: calm_def same_screen_def split: prod.split)
  ultimately have "yields (calm {} p) (on_session env ?f ?p)" by simp
  then show ?thesis by (auto simp: status_reset_def calm_def same_screen_def plain_station intro!: yields_bind)
qed

lemma calm_then:
  assumes "calm {} p (q, a)" "yields (calm {} q) r"
  shows "yields (calm {} p) (r \<bind> (\<lambda>(p, b). Some (p, a @ b)))" "a = [] \<Longrightarrow> yields (calm {} p) r"
  using assms calm_trans [OF assms(1)] by (cases r; fastforce simp: yields_def)+

lemma calm_status_update: "yields (calm {} p) (status_update env p)"
  using calm_reset [of p env]
  by (auto simp: status_update_def yields_def calm_def same_screen_def Let_def dest!: set_cp_mc split: bind_splits if_splits)

lemma calm_diag: "yields (calm {} p) (status_diag env p)"
  using calm_status_update [of p env] by (auto simp: status_diag_def calm_def same_screen_def)

lemma calm_status_remote: "yields (calm {} p) (status_remote env p)"
  using calm_diag [of p env] by (auto simp: status_remote_def calm_def same_screen_def set_order_def)

lemma calm_net: "yields (calm {} p) (net_error_reboot cfg env p)"
  using calm_status_remote [of p env] by (auto simp: net_error_reboot_def calm_def same_screen_def plain_station)

lemma calm_marks: "calm {} p (net_error_mark env p, [])" "calm {} p (ituLayerGoto ''CardWaitLayer'' p, [])"
  by (auto simp: net_error_mark_def calm_def same_screen_def open_layer_def Let_def)

lemma calm_status: "yields (calm {} p) (sTopStatusTaskFuntion cfg env p)"
proof -
  let ?d = "p\<lparr>cli := (cli p)\<lparr>diagLogReqStep := if p_transfer_failed env then DIAG_STAT_UPLOADFAIL else DIAG_STAT_UPLOADED\<rparr>\<rparr>"
  have c: "calm {} p (p, [Station_reboot])" "calm {} p (?d, [Diag_upload])"
    by (simp_all add: calm_def same_screen_def plain_station)
  show ?thesis
    using calm_then(2) [OF calm_marks(1) [of p env] calm_net [of _ cfg env]] calm_then(2) [OF calm_marks(2) [of p] calm_diag [of _ env]]
      calm_then(1) [OF c(1) calm_status_remote [of _ env]] calm_then(1) [OF c(2) calm_status_update [of _ env]]
    by (cases "statusPhase p") (simp_all add: sTopStatusTaskFuntion_def Let_def calm_def same_screen_def plain_station)
qed

section \<open>Invariant and permissions\<close>

text \<open>Every action is in the queue once, and the two buttons that skip the authorisation are hidden and not queued.\<close>

definition station_ok :: "panel \<Rightarrow> bool" where
  "station_ok p \<longleftrightarrow> distinct (actionQueue p) \<and> \<not> b_nextLayer p \<and> \<not> b_nextLayer2 p \<and> (\<forall>a\<in>set (actionQueue p). \<not> hidden_button a)"

definition pending :: "itu_action \<Rightarrow> panel \<Rightarrow> bool" where
  "pending a p \<longleftrightarrow> a \<in> set (drop (queuePos p) (actionQueue p))"

text \<open>What may still happen without a further permission: entering the screen for plugging in, entering the charging screen, closing
  the contactor.\<close>

definition may_connect :: "panel \<Rightarrow> nat" where
  "may_connect p = (if sWaitPhase p = WAIT_CONNECT then 1 else 0) + (if pending connect_enter p then 1 else 0)"

definition may_charge :: "panel \<Rightarrow> nat" where
  "may_charge p = (if cpListener p = Some CPListenerOnConnect \<or> pending charge_enter p then 1 else 0)"

definition may_close :: "panel \<Rightarrow> nat" where
  "may_close p = (if cpListener p = Some CPListenerOnCharging \<or> MCOn (sess p) then 1 else 0)"

text \<open>The scene file calls the three functions that need a permission for their own screens only.\<close>

definition scene_ok :: "scene \<Rightarrow> bool" where
  "scene_ok sc \<longleftrightarrow> (\<forall>l e. (sc l e = Some ''ConnectOnEnter'' \<longrightarrow> l = ''connectLayer'' \<and> e = ITU_EVENT_ENTER) \<and>
     (sc l e = Some ''ChargeOnEnter'' \<longrightarrow> l = ''chargeLayer'' \<and> e = ITU_EVENT_ENTER) \<and>
     sc l e \<noteq> Some ''B_nextLayer'' \<and> sc l e \<noteq> Some ''B_nextLayer2'')"

abbreviation (input) is_granted :: "panel_act \<Rightarrow> bool" where "is_granted a \<equiv> a = Shown ''cardWaitTxtIcon_succ''"
abbreviation (input) is_connect :: "panel_act \<Rightarrow> bool" where "is_connect a \<equiv> a = Called ''ConnectOnEnter''"
abbreviation (input) is_charge :: "panel_act \<Rightarrow> bool" where "is_charge a \<equiv> a = Called ''ChargeOnEnter''"

text \<open>A step keeps the invariant and pays for what it does.\<close>

definition paid :: "panel \<Rightarrow> panel \<times> panel_act list \<Rightarrow> bool" where
  "paid p x \<longleftrightarrow> (case x of (p', acts) \<Rightarrow> station_ok p' \<and>
     acts_of is_connect acts + may_connect p' \<le> acts_of is_granted acts + may_connect p \<and>
     acts_of is_charge acts + may_charge p' \<le> acts_of is_connect acts + may_charge p \<and>
     may_close p' \<le> acts_of is_charge acts + may_close p \<and> same_screen p p')"

lemma plain_acts:
  assumes "list_all plain_act acts"
  shows "acts_of is_connect acts = 0" "acts_of is_granted acts = 0" "acts_of is_charge acts = 0"
  using assms by (induction acts) (auto simp: acts_of_def plain_act_def)

lemma moved_pending:
  assumes "moved L (actionQueue p) (actionQueue p')" "queuePos p' = queuePos p" "pending a p'"
    "a = connect_enter \<and> ''connectLayer'' \<notin> L \<or> a = charge_enter \<and> ''chargeLayer'' \<notin> L"
  shows "pending a p"
proof -
  obtain z where z: "actionQueue p' = actionQueue p @ z" "a \<notin> set z" using assms(1,4) by (auto simp: moved_def)
  have "a \<in> set (drop (queuePos p) (actionQueue p)) \<union> set (drop (queuePos p - length (actionQueue p)) z)"
    using assms(2,3) z(1) by (simp add: pending_def)
  then show ?thesis using z(2) by (auto simp: pending_def dest: in_set_dropD)
qed

lemma moved_ok: "moved L q q' \<Longrightarrow> distinct q \<and> (\<forall>a\<in>set q. \<not> hidden_button a) \<Longrightarrow> distinct q' \<and> (\<forall>a\<in>set q'. \<not> hidden_button a)"
  unfolding moved_def by (elim exE) auto

lemma calm_paid:
  assumes "calm {} p x" "station_ok p"
  shows "paid p x"
proof -
  obtain p' acts where x: "x = (p', acts)" by (cases x)
  note c = assms(1) [unfolded x calm_def same_screen_def prod.case]
  have m: "moved {} (actionQueue p) (actionQueue p')" "queuePos p' = queuePos p" using c by simp_all
  have ok: "station_ok p'" using moved_ok [OF m(1)] assms(2) c by (simp add: station_ok_def)
  have q: "pending connect_enter p' \<Longrightarrow> pending connect_enter p" "pending charge_enter p' \<Longrightarrow> pending charge_enter p"
    using moved_pending [OF m] by auto
  have l: "cpListener p' = Some CPListenerOnConnect \<Longrightarrow> cpListener p = Some CPListenerOnConnect"
    "cpListener p' = Some CPListenerOnCharging \<Longrightarrow> cpListener p = Some CPListenerOnCharging"
    using c by (auto simp: soft_listener_def)
  have "may_connect p' \<le> may_connect p" using q(1) c by (simp add: may_connect_def)
  moreover have "may_charge p' \<le> may_charge p" using q(2) l(1) by (auto simp: may_charge_def)
  moreover have "may_close p' \<le> may_close p" using l(2) c by (auto simp: may_close_def)
  ultimately show ?thesis using ok plain_acts [of acts] c by (simp add: paid_def same_screen_def x)
qed

section \<open>The steps that need a permission\<close>

lemma paid_wait: "station_ok p \<Longrightarrow> yields (paid p) (sWaitMonitoringTaskFuntion p)"
proof (cases "sWaitPhase p")
  case WAIT_NONE
  assume "station_ok p"
  then show ?thesis using calm_paid [OF calm_same [of p p "{}"]] WAIT_NONE by (simp add: sWaitMonitoringTaskFuntion_def yields_def)
next
  case WAIT_START
  assume "station_ok p"
  moreover have "calm {} p (wait_again (WaitToStartLayer p), [])"
    by (simp add: calm_def same_screen_def wait_again_def WaitToStartLayer_def GotoStart_def open_layer_def)
  ultimately show ?thesis using calm_paid WAIT_START by (simp add: sWaitMonitoringTaskFuntion_def yields_def)
next
  case WAIT_CONNECT
  assume ok: "station_ok p"
  let ?p = "wait_again (WaitToConnectLayer p)"
  have m: "moved {''connectLayer''} (actionQueue p) (actionQueue ?p)" "queuePos ?p = queuePos p"
    by (simp_all add: wait_again_def WaitToConnectLayer_def open_layer_def)
  have f: "sWaitPhase ?p \<noteq> WAIT_CONNECT" "cpListener ?p = cpListener p" "b_nextLayer ?p = b_nextLayer p" "b_nextLayer2 ?p = b_nextLayer2 p"
    "MCOn (sess ?p) = MCOn (sess p)" "visible_layer ?p = visible_layer p \<or> visible_layer ?p \<notin> admin_layers"
    by (simp_all add: wait_again_def WaitToConnectLayer_def)
  have "station_ok ?p" using moved_ok [OF m(1)] ok f by (simp add: station_ok_def)
  moreover have "pending charge_enter ?p \<Longrightarrow> pending charge_enter p" using moved_pending [OF m] by simp
  ultimately have "paid p (?p, [])" using f WAIT_CONNECT by (auto simp: paid_def same_screen_def may_connect_def may_charge_def may_close_def acts_of_def)
  then show ?thesis using WAIT_CONNECT by (simp add: sWaitMonitoringTaskFuntion_def yields_def)
next
  case WAIT_POLL
  assume ok: "station_ok p"
  have f: "calm {} p ((StopWaitMonitoringTask (p\<lparr>cli := c\<rparr>))\<lparr>sWaitPhase := WAIT_START\<rparr>, [Shown ''cardWaitTxtIcon_fail''])"
    if "MCOn (ses c) = MCOn (sess p)" for c
    using that by (simp add: calm_def same_screen_def StopWaitMonitoringTask_def plain_act_def)
  have g: "paid p ((StopWaitMonitoringTask (p\<lparr>cli := c\<rparr>))\<lparr>sWaitPhase := WAIT_CONNECT\<rparr>, [Shown ''cardWaitTxtIcon_succ''])"
    if "MCOn (ses c) = MCOn (sess p)" for c
    using that ok WAIT_POLL
    by (simp add: paid_def same_screen_def StopWaitMonitoringTask_def station_ok_def may_connect_def may_charge_def may_close_def pending_def acts_of_def)
  have a: "calm {} p (wait_again p, [])" using WAIT_POLL by (simp add: calm_def same_screen_def wait_again_def)
  have id: "p\<lparr>cli := cli p\<rparr> = p" by simp
  show ?thesis using calm_paid [OF f ok, of "cli p"] calm_paid [OF a ok] g g [of "cli p"] WAIT_POLL
    by (auto simp: sWaitMonitoringTaskFuntion_def yields_def id split: bind_splits if_splits dest!: set_cp_mc)
qed

lemma paid_connect:
  assumes "station_ok p" "cpListener p = Some CPListenerOnConnect"
  shows "paid p (OnConnect cfg v p, [])"
proof -
  let ?p = "OnConnect cfg v p"
  have m: "moved {''chargeLayer''} (actionQueue p) (actionQueue ?p)" "queuePos ?p = queuePos p"
    by (cases v; simp add: OnConnect_def GotoChargeLayer_def open_layer_def)+
  have f: "cpListener ?p = cpListener p" "sWaitPhase ?p = sWaitPhase p" "b_nextLayer ?p = b_nextLayer p" "b_nextLayer2 ?p = b_nextLayer2 p"
    "MCOn (sess ?p) = MCOn (sess p)" "visible_layer ?p = visible_layer p \<or> visible_layer ?p \<notin> admin_layers"
    by (cases v; simp add: OnConnect_def GotoChargeLayer_def)+
  have "station_ok ?p" using moved_ok [OF m(1)] assms(1) f by (simp add: station_ok_def)
  moreover have "pending connect_enter ?p \<Longrightarrow> pending connect_enter p" using moved_pending [OF m] by simp
  ultimately show ?thesis using f assms(2) by (auto simp: paid_def same_screen_def may_connect_def may_charge_def may_close_def acts_of_def)
qed

lemma paid_session:
  assumes "station_ok p" "leading (f (sess p))" "\<not> soft_listener (cpListener p)" "cpListener p = Some CPListenerOnCharging"
  shows "yields (paid p) (on_session env f p)"
proof (cases "f (sess p)")
  case (Some x)
  obtain s' acts where x: "x = (s', acts)" by (cases x)
  obtain p' as where a: "session_acts env acts (set_sess s' p) = (p', as)" by (cases "session_acts env acts (set_sess s' p)")
  have "leads acts" using assms(2) Some x by simp
  note fr = acts_frame [OF a this, of "actionQueue p"]
  have m: "moved {} (actionQueue p) (actionQueue p')" "queuePos p' = queuePos p" using fr by simp_all
  have "station_ok p'" using moved_ok [OF m(1)] assms(1) fr by (simp add: station_ok_def)
  moreover have "pending connect_enter p' \<Longrightarrow> pending connect_enter p" "pending charge_enter p' \<Longrightarrow> pending charge_enter p"
    using moved_pending [OF m] by auto
  ultimately have "paid p (p', as)" using fr assms(4) plain_acts [of as]
    by (auto simp: paid_def same_screen_def may_connect_def may_charge_def may_close_def)
  then show ?thesis using Some x a by (simp add: on_session_def yields_def)
qed (simp add: on_session_def yields_def)

lemma paid_charging:
  assumes "station_ok p" "cpListener p = Some CPListenerOnCharging"
  shows "yields (paid p) (OnCharging cfg env v p)"
proof -
  have s: "yields (paid p) (on_session env (CPListenerOnCharge (charge_view cfg p) (p_sec env) v) p)"
    using assms leading_pilot by (intro paid_session) (simp_all add: soft_listener_def)
  have c: "paid p (TopCloseTimer q, a) \<longleftrightarrow> paid p (q, a)" for q a
    by (simp add: paid_def same_screen_def station_ok_def may_connect_def may_charge_def may_close_def pending_def)
  show ?thesis using s by (auto simp: OnCharging_def yields_def c split: bind_splits)
qed

section \<open>The actions of the queue\<close>

lemma calm_leave: "yields (calm {} p) (ChargeLayerLeave cfg env p)"
proof -
  have "yields (calm {} p) (on_session env (ChargeOnLeave (charge_view cfg p) (sleepOn1ch p)) p)"
    by (rule session_do_calm [of _ _ "charge_view cfg p" "Ev_leave (sleepOn1ch p)"]) simp_all
  then have "yields (\<lambda>(q, a). calm {} p (q, a @ [Card_polling False])) (on_session env (ChargeOnLeave (charge_view cfg p) (sleepOn1ch p)) p)"
    by (rule yields_weaken) (simp add: calm_def same_screen_def plain_act_def split_beta)
  then show ?thesis unfolding ChargeLayerLeave_def by (auto simp: yields_def split: bind_splits)
qed

lemma calm_action:
  assumes "map_of (actionFunctions cfg env n) f = Some h" "ConfirmSelect cfg = USER_AUTH_NET_MODE"
    and "f \<notin> {''ConnectOnEnter'', ''ChargeOnEnter'', ''B_nextLayer'', ''B_nextLayer2''}"
  shows "yields (calm {} p) (h p)"
proof -
  have "(f, h) \<in> set (actionFunctions cfg env n)" using assms(1) by (rule map_of_SomeD)
  then show ?thesis using assms(3) unfolding actionFunctions_def
    by (simp only: set_simps insert_iff empty_iff prod.inject) (elim disjE conjE FalseE; simp add: calm_simple calm_back calm_rfid [OF assms(2)] calm_press [OF assms(2)] calm_main
      calm_remote calm_cardwait calm_finish calm_leave)
qed

lemma next_action:
  assumes "station_ok p" "queuePos p < length (actionQueue p)"
  shows "station_ok (p\<lparr>queuePos := queuePos p + 1\<rparr>)"
    "pending a p \<longleftrightarrow> a = actionQueue p ! queuePos p \<or> pending a (p\<lparr>queuePos := queuePos p + 1\<rparr>)"
    "\<not> pending (actionQueue p ! queuePos p) (p\<lparr>queuePos := queuePos p + 1\<rparr>)"
proof -
  have d: "drop (queuePos p) (actionQueue p) = actionQueue p ! queuePos p # drop (queuePos p + 1) (actionQueue p)"
    using assms(2) by (simp add: Cons_nth_drop_Suc)
  have "distinct (drop (queuePos p) (actionQueue p))" using assms(1) by (simp add: station_ok_def)
  then show "\<not> pending (actionQueue p ! queuePos p) (p\<lparr>queuePos := queuePos p + 1\<rparr>)" unfolding d by (simp add: pending_def)
  show "pending a p \<longleftrightarrow> a = actionQueue p ! queuePos p \<or> pending a (p\<lparr>queuePos := queuePos p + 1\<rparr>)" unfolding pending_def d by simp
  show "station_ok (p\<lparr>queuePos := queuePos p + 1\<rparr>)" using assms(1) by (simp add: station_ok_def)
qed

lemma paid_enter_connect:
  assumes "station_ok p" "station_ok p1" "\<not> pending connect_enter p1" "pending connect_enter p"
    and "p1 = p\<lparr>queuePos := queuePos p + 1\<rparr>" "\<And>a. pending a p1 \<Longrightarrow> pending a p"
  shows "yields (paid p) (ConnectOnEnter env p1)"
proof -
  have "paid p (p', acts)" if r: "ConnectOnEnter env p1 = Some (p', acts)" for p' acts
  proof -
    have f: "actionQueue p' = actionQueue p1" "queuePos p' = queuePos p1" "cpListener p' = Some CPListenerOnConnect" "sWaitPhase p' = sWaitPhase p"
      "b_nextLayer p' = b_nextLayer p" "\<not> b_nextLayer2 p'" "MCOn (sess p') = MCOn (sess p)" "acts = [Called ''ConnectOnEnter'', Pilot_power True]"
      "visible_layer p' = visible_layer p"
      using r assms(1,5) by (auto simp: ConnectOnEnter_def set_order_def station_ok_def Let_def split: bind_splits if_splits)
    have "pending a p' = pending a p1" for a using f(1,2) by (simp add: pending_def)
    then show ?thesis using f assms(1-4,6) by (auto simp: paid_def same_screen_def station_ok_def may_connect_def may_charge_def may_close_def acts_of_def)
  qed
  then show ?thesis by (auto simp: yields_def)
qed

lemma paid_enter_charge:
  assumes "station_ok p" "station_ok p1" "\<not> pending charge_enter p1" "pending charge_enter p"
    and "p1 = p\<lparr>queuePos := queuePos p + 1\<rparr>" "\<And>a. pending a p1 \<Longrightarrow> pending a p"
  shows "yields (paid p) (ChargeLayerEnter cfg env p1)"
proof -
  have c: "yields (calm {} p1) (on_session env (ChargeOnEnter (charge_view cfg p1) (p_unit_price env)) p1)"
    by (rule session_do_calm [of _ _ "charge_view cfg p1" "Ev_enter (p_unit_price env)"]) simp_all
  have "paid p (p', acts)" if r: "ChargeLayerEnter cfg env p1 = Some (p', acts)" for p' acts
  proof -
    obtain q a where q: "on_session env (ChargeOnEnter (charge_view cfg p1) (p_unit_price env)) p1 = Some (q, a)"
      "acts = Called ''ChargeOnEnter'' # a @ [Card_polling True, Station_save]"
      "actionQueue p' = actionQueue q" "queuePos p' = queuePos q" "cpListener p' = Some CPListenerOnCharging" "sWaitPhase p' = sWaitPhase q"
      "b_nextLayer p' = b_nextLayer q" "b_nextLayer2 p' = b_nextLayer2 q" "visible_layer p' = visible_layer q"
      using r by (auto simp: ChargeLayerEnter_def Let_def split: bind_splits)
    note k = yieldsD [OF c q(1), unfolded calm_def same_screen_def prod.case]
    have m: "moved {} (actionQueue p1) (actionQueue p')" "queuePos p' = queuePos p1" using k q(3,4) by simp_all
    have ok: "station_ok p'" using moved_ok [OF m(1)] assms(2) k q(7,8) by (simp add: station_ok_def)
    have n: "pending connect_enter p' \<Longrightarrow> pending connect_enter p" "\<not> pending charge_enter p'"
      using moved_pending [OF m] assms(3,6) by auto
    have "sWaitPhase p' = WAIT_CONNECT \<Longrightarrow> sWaitPhase p = WAIT_CONNECT" using k q(6) assms(5) by simp
    then show ?thesis using ok n q(2,5,9) plain_acts [of a] k assms(4,5)
      by (auto simp: paid_def same_screen_def may_connect_def may_charge_def may_close_def acts_of_def)
  qed
  then show ?thesis by (auto simp: yields_def)
qed

lemma paid_later:
  assumes "yields (calm {} (p\<lparr>queuePos := queuePos p + 1\<rparr>)) r" "station_ok p" "queuePos p < length (actionQueue p)"
  shows "yields (paid p) r"
proof -
  let ?p = "p\<lparr>queuePos := queuePos p + 1\<rparr>"
  have le: "may_connect ?p \<le> may_connect p" "may_charge ?p \<le> may_charge p" "may_close ?p = may_close p"
    using next_action(2) [OF assms(2,3)] by (auto simp: may_connect_def may_charge_def may_close_def)
  have "paid p x" if "r = Some x" for x
    using calm_paid [OF yieldsD [OF assms(1) that] next_action(1) [OF assms(2,3)]] le by (auto simp: paid_def same_screen_def)
  then show ?thesis by (auto simp: yields_def)
qed

lemma paid_flush:
  assumes "station_ok p" "scene_ok sc" "ConfirmSelect cfg = USER_AUTH_NET_MODE"
  shows "yields (paid p) (ituFlushActionQueue sc cfg env p)"
proof (cases "queuePos p < length (actionQueue p)")
  case True
  let ?a = "actionQueue p ! queuePos p" and ?p = "p\<lparr>queuePos := queuePos p + 1\<rparr>"
  note n = next_action [OF assms(1) True]
  have same: "yields (paid p) (Some (?p, []))" using assms(1) True by (intro paid_later) (simp_all add: calm_same)
  have h: "\<not> hidden_button ?a" using assms(1) True by (simp add: station_ok_def)
  have "yields (paid p) (run_action sc cfg env ?a ?p)"
  proof (cases "action_name sc ?a")
    case (Some f)
    have b: "f \<noteq> ''B_nextLayer''" "f \<noteq> ''B_nextLayer2''"
      using Some h assms(2) by (auto simp: action_name_def hidden_button_def open_buttons_def scene_ok_def split: itu_action.splits)
    show ?thesis
    proof (cases "map_of (actionFunctions cfg env (action_param ?a)) f")
      case (Some hd)
      consider "f = ''ConnectOnEnter''" | "f = ''ChargeOnEnter''" | "f \<notin> {''ConnectOnEnter'', ''ChargeOnEnter'', ''B_nextLayer'', ''B_nextLayer2''}"
        using b by blast
      then show ?thesis
      proof cases
        case 1
        have a: "?a = connect_enter"
          using \<open>action_name sc ?a = Some f\<close> 1 assms(2) h by (auto simp: action_name_def scene_ok_def hidden_button_def open_buttons_def split: itu_action.splits)
        have r: "run_action sc cfg env ?a ?p = ConnectOnEnter env ?p"
          using \<open>action_name sc ?a = Some f\<close> 1 by (simp add: run_action_def actionFunctions_def)
        show ?thesis unfolding r using n(2) n(3) a by (intro paid_enter_connect [OF assms(1) n(1)]) auto
      next
        case 2
        have a: "?a = charge_enter"
          using \<open>action_name sc ?a = Some f\<close> 2 assms(2) h by (auto simp: action_name_def scene_ok_def hidden_button_def open_buttons_def split: itu_action.splits)
        have r: "run_action sc cfg env ?a ?p = ChargeLayerEnter cfg env ?p"
          using \<open>action_name sc ?a = Some f\<close> 2 by (simp add: run_action_def actionFunctions_def)
        show ?thesis unfolding r using n(2) n(3) a by (intro paid_enter_charge [OF assms(1) n(1)]) auto
      next
        case 3
        then show ?thesis using paid_later [OF calm_action [OF Some assms(3) 3] assms(1) True] Some \<open>action_name sc ?a = Some f\<close>
          by (simp add: run_action_def)
      qed
    qed (use same Some in \<open>simp add: run_action_def\<close>)
  qed (use same in \<open>simp add: run_action_def\<close>)
  then show ?thesis using True by (simp add: ituFlushActionQueue_def)
next
  case False
  have "paid p (p\<lparr>actionQueue := [], queuePos := 0\<rparr>, [])"
    using assms(1) by (simp add: paid_def same_screen_def station_ok_def may_connect_def may_charge_def may_close_def pending_def acts_of_def)
  then show ?thesis using False by (simp add: ituFlushActionQueue_def yields_def)
qed

section \<open>The runs of the station\<close>

lemma paid_calm: "yields (calm {} p) r \<Longrightarrow> station_ok p \<Longrightarrow> yields (paid p) r"
  using calm_paid by (auto simp: yields_def)

lemma paid_listener: "yields (\<lambda>q. calm {} p (q, [])) r \<Longrightarrow> station_ok p \<Longrightarrow> yields (paid p) (map_option (\<lambda>q. (q, [])) r)"
  by (cases r) (auto simp: yields_def calm_paid)

lemma calm_stop: "yields (calm {} p) (ChargeStopDialog cfg env p)"
proof -
  have "yields (calm {} (TopCloseTimer p)) (on_session env (ChargeStopOnDialog (charge_view cfg p)) (TopCloseTimer p))"
    by (rule session_do_calm [of _ _ "charge_view cfg p" Ev_stop_button]) simp_all
  then show ?thesis unfolding ChargeStopDialog_def by (rule yields_weaken) (simp add: calm_def same_screen_def)
qed

lemma paid_pilot:
  assumes "station_ok p"
  shows "yields (paid p) (cp_call cfg env v p)"
proof (cases "cpListener p")
  case (Some l)
  then show ?thesis
  proof (cases l)
    case CPListenerOnAhead
    then show ?thesis using Some paid_listener [OF calm_ahead assms] by (simp add: cp_call_def)
  next
    case CPListenerOnConnect
    then show ?thesis using Some paid_connect [OF assms] by (simp add: cp_call_def yields_def)
  next
    case CPListenerOnCharging
    then show ?thesis using Some paid_charging [OF assms] by (simp add: cp_call_def)
  qed (use Some assms in \<open>auto simp: cp_call_def calm_def same_screen_def GotoStart_def GotoMainLayer_def set_order_def open_layer_def intro!: paid_calm\<close>)
qed (simp add: cp_call_def yields_def)

lemma paid_card:
  assumes "station_ok p" "ConfirmSelect cfg = USER_AUTH_NET_MODE"
  shows "yields (paid p) (card_call cfg env data n p)"
proof -
  have "yields (calm {} p) (on_session env (CardReaderListenerOnCharging (charge_view cfg p) data n) p)"
    by (rule session_do_calm [of _ _ "charge_view cfg p" "Ev_card data n"]) simp_all
  then show ?thesis using paid_listener [OF calm_card assms(1)] assms
    by (simp add: card_call_def yields_None paid_calm split: option.split CardListener.split)
qed

lemma calm_press_button:
  assumes "station_ok p" "pressable f p"
  shows "calm {} p (ituExecActions (Button_action f n) p, [])"
proof -
  have "\<not> hidden_button (Button_action f n)" using assms by (auto simp: hidden_button_def open_buttons_def pressable_def station_ok_def)
  then have "moved {} (actionQueue p) (actionQueue (ituExecActions (Button_action f n) p))" by (intro moved_add) simp_all
  then show ?thesis by (simp add: calm_def same_screen_def)
qed

lemma paid_others:
  assumes "station_ok p" "MCOn (ses c) = MCOn (sess p)"
  shows "paid p (p\<lparr>cli := c\<rparr>, [])"
  using assms by (intro calm_paid calm_same) simp_all

lemma panel_do_paid:
  assumes "station_ok p" "scene_ok sc" "ConfirmSelect cfg = USER_AUTH_NET_MODE"
  shows "yields (paid p) (panel_do sc cfg e p)"
proof -
  obtain env ev where e: "e = (env, ev)" by (cases e)
  note c = paid_calm [OF _ assms(1)]
  show ?thesis unfolding e
  proof (cases ev)
    case (Ev_meter_value cur en)
    have "yields (calm {} p) (panel_do sc cfg (env, ev) p)" unfolding Ev_meter_value panel_do.simps
      by (rule session_do_calm [of _ _ "charge_view cfg p" "Ev_meter cur en"]) simp_all
    then show "yields (paid p) (panel_do sc cfg (env, ev) p)" by (rule c)
  next
    case (Ev_charge_task ce)
    have "yields (calm {} p) (panel_do sc cfg (env, ev) p)" unfolding Ev_charge_task panel_do.simps
      by (rule session_do_calm [of _ _ "charge_view cfg p" "Ev_monitor ce"]) simp_all
    then show "yields (paid p) (panel_do sc cfg (env, ev) p)" by (rule c)
  next
    case (Ev_fault_task a v)
    have "yields (calm {} p) (panel_do sc cfg (env, ev) p)" unfolding Ev_fault_task panel_do.simps
      by (rule session_do_calm [of _ _ "charge_view cfg p" "Ev_fault (bAmiErrChk env) a v"]) simp_all
    then show "yields (paid p) (panel_do sc cfg (env, ev) p)" by (rule c)
  next
    case (Ev_emb admin pressed)
    have "yields (calm {} p) (panel_do sc cfg (env, ev) p)" unfolding Ev_emb panel_do.simps
      by (rule session_do_calm [of _ _ undefined "Ev_emergency admin pressed"]) simp_all
    then show "yields (paid p) (panel_do sc cfg (env, ev) p)" by (rule c)
  next
    case (Ev_sequence_task admin off)
    have "yields (calm {} p) (panel_do sc cfg (env, ev) p)" unfolding Ev_sequence_task panel_do.simps
      by (rule session_do_calm [of _ _ undefined "Ev_sequence admin off (p_sec env)"]) simp_all
    then show "yields (paid p) (panel_do sc cfg (env, ev) p)" by (rule c)
  next
    case Ev_lamp
    have "yields (calm {} p) (panel_do sc cfg (env, ev) p)" unfolding Ev_lamp panel_do.simps
      by (rule session_do_calm [of _ _ undefined Ev_blink]) simp_all
    then show "yields (paid p) (panel_do sc cfg (env, ev) p)" by (rule c)
  next
    case (Ev_press f n)
    show "yields (paid p) (panel_do sc cfg (env, ev) p)"
      using calm_paid [OF calm_press_button [OF assms(1), of f n] assms(1)] calm_paid [OF calm_same [of p p "{}"] assms(1)]
      by (simp add: Ev_press yields_def)
  next
    case (Ev_others cl)
    then show "yields (paid p) (panel_do sc cfg (env, ev) p)" using paid_others [OF assms(1), of cl] by (simp add: yields_def)
  qed (simp_all add: paid_flush assms c calm_top calm_status paid_wait calm_simple paid_pilot paid_card paid_listener calm_key calm_stop)
qed

text \<open>A station that authorises through the server.\<close>

definition station_net :: "scene \<Rightarrow> panel_cfg \<Rightarrow> panel \<Rightarrow> bool" where
  "station_net sc cfg p \<longleftrightarrow> scene_ok sc \<and> ConfirmSelect cfg = USER_AUTH_NET_MODE \<and> station_ok p"

lemma station_paid: "station_net sc cfg p \<Longrightarrow> panel_do sc cfg e p = Some (p', acts) \<Longrightarrow> paid p (p', acts)"
  using yieldsD [OF panel_do_paid, of p sc cfg e "(p', acts)"] by (simp add: station_net_def)

lemma station_keeps: "station_net sc cfg p \<Longrightarrow> panel_do sc cfg e p = Some (p', acts) \<Longrightarrow> station_net sc cfg p'"
  using station_paid by (auto simp: station_net_def paid_def same_screen_def)

interpretation to_connect: budget "panel_do sc cfg" "station_net sc cfg" may_connect is_connect is_granted for sc cfg
  by unfold_locales (use station_keeps station_paid in \<open>auto simp: paid_def same_screen_def\<close>)

interpretation to_charge: budget "panel_do sc cfg" "station_net sc cfg" may_charge is_charge is_connect for sc cfg
  by unfold_locales (use station_keeps station_paid in \<open>auto simp: paid_def same_screen_def\<close>)

interpretation to_close: budget "panel_do sc cfg" "station_net sc cfg" may_close "\<lambda>_. False" is_charge for sc cfg
  by unfold_locales (use station_keeps station_paid in \<open>auto simp: paid_def same_screen_def acts_of_def\<close>)


section \<open>A station for the witnesses\<close>

definition scene_std :: scene where
  "scene_std l e = map_of
     [((''mainLayer'', ITU_EVENT_ENTER), ''MainOnEnter''), ((''mainLayer'', ITU_EVENT_LEAVE), ''MainOnLeave''),
      ((''authUserLayer'', ITU_EVENT_ENTER), ''AuthUserOnEnter''), ((''authUserLayer'', ITU_EVENT_LEAVE), ''AuthUserOnLeave''),
      ((''rfidCardAuthLayer'', ITU_EVENT_ENTER), ''RfidCardOnEnter''), ((''rfidCardAuthLayer'', ITU_EVENT_LEAVE), ''RfidCardOnLeave''),
      ((''CardWaitLayer'', ITU_EVENT_ENTER), ''CardWaitEnter''), ((''CardWaitLayer'', ITU_EVENT_LEAVE), ''CardWaitLeave''),
      ((''connectLayer'', ITU_EVENT_ENTER), ''ConnectOnEnter''), ((''connectLayer'', ITU_EVENT_LEAVE), ''ConnectOnLeave''),
      ((''chargeLayer'', ITU_EVENT_ENTER), ''ChargeOnEnter''), ((''chargeLayer'', ITU_EVENT_LEAVE), ''ChargeOnLeave''),
      ((''ch2FinishLayer'', ITU_EVENT_ENTER), ''Ch2FinishOnEnter''), ((''ch2FinishLayer'', ITU_EVENT_LEAVE), ''Ch2FinishOnLeave''),
      ((''disconnectLayer'', ITU_EVENT_ENTER), ''DisconnectOnEnter''), ((''disconnectLayer'', ITU_EVENT_LEAVE), ''DisconnectOnLeave'')] (l, e)"

definition panel_cfg_std :: panel_cfg where
  "panel_cfg_std = \<lparr>charge_part = cfg_bc, ConfirmSelect = USER_AUTH_NET_MODE\<rparr>"

definition panel_start :: panel where
  "panel_start = \<lparr>cli = client_start, visible_layer = ''mainLayer'', actionQueue = [], queuePos = 0, sTimerCount = 0, sTimerCounting = False,
     sTimeoutListener = None, sDLsTopMonitoring = False, sTopMonitoringTask = False, topThreads = 0, sttv = 0, oldtotalvalue = 0,
     cpListener = Some CPListenerOnAhead, cardListener = Some CardReaderListenerOnAuthUser, devChannel = 0, auth_type = TOUCH_CARD,
     bHomeLayerChk = True, bCnctLed = False, shome_btn = False, b_nextLayer = False, b_nextLayer2 = False, rfid_found = False,
     connect_found = False, sWaitPhase = WAIT_NONE, sDLsWaitMonitoring = False, GotoWaittoStartLayer = False, GotoWaittoConnectLayer = False,
     sStepClose = False, sFinishMonitoring = False, GotoCardNumStart = False, sCardNum = replicate 16 0x20, sNumCount = 0,
     gotoStartLayer = False, sleepOnCheck = False, sleepOn1ch = False, statusPhase = STATUS_LOOP, lastSeccConSetVal = True,
     NetError_Flg = True, NetErrorTime_top = 0\<rparr>"

definition panel_env_std :: panel_env where
  "panel_env_std = \<lparr>p_sec = 100, bAmiErrChk = False, p_net_ready = True, p_random = 7, p_update_date = False, p_transfer_failed = False,
     p_unit_price = 30000\<rparr>"

definition client_up :: "client \<Rightarrow> client" where
  "client_up c = c\<lparr>bConnect := True, connect_status := True, ServerCallError := False\<rparr>"

text \<open>From the card to the closed contactor: a card is read, the server accepts it, a vehicle is plugged in and draws power.\<close>

definition panel_card :: panel where
  "panel_card = set_order APP_ORDER_CARD_READER
     (panel_start\<lparr>cli := client_up client_start, visible_layer := ''rfidCardAuthLayer''\<rparr>)"

definition session_events :: "panel_event list" where
  "session_events = [Ev_rfid (replicate 16 0x31) 16, Ev_flush, Ev_flush, Ev_flush,
     Ev_others ((client_up client_start)\<lparr>card_auth := CARD_AUTH_OK\<rparr>), Ev_wait, Ev_wait, Ev_flush, Ev_flush, Ev_flush,
     Ev_cp CP_VOLTAGE_9V, Ev_flush, Ev_flush, Ev_flush, Ev_cp CP_VOLTAGE_6V]"

text \<open>The state at the end of a run, without its steps.\<close>

fun result :: "('e \<Rightarrow> 's \<Rightarrow> ('s \<times> 'a list) option) \<Rightarrow> 'e list \<Rightarrow> 's \<Rightarrow> 's option" where
  "result step [] s = Some s"
| "result step (e # es) s = (case step e s of None \<Rightarrow> None | Some (t, _) \<Rightarrow> result step es t)"

lemma exec_result: "result step es s = Some s' \<Longrightarrow> \<exists>tr. exec step es s = Some (s', tr)"
proof (induction es arbitrary: s)
  case (Cons e es)
  then show ?case by (cases "step e s") (fastforce split: prod.splits)+
qed simp

lemmas station_start =
  panel_card_def session_events_def scene_std_def panel_cfg_std_def panel_env_std_def panel_start_def client_up_def
  client_start_def session_idle_def cfg_bc_def Init_CfgKey_def ck_bool_def ck_int_def

lemmas station_eval =
  set_order_def set_sess_def card_call_def OnAuthUser_def ituLayerGoto_def ituExecActions_def ituFlushActionQueue_def
  run_action_def action_name_def actionFunctions_def action_param_def slice_def blit_def rd_def wr_def Let_def
  RfidCardOnLeave_def TopCloseTimer_def TopSetTimer_def CardWaitEnter_def CardWaitLeave_def request_auth_def
  sWaitMonitoringTaskFuntion_def StopWaitMonitoringTask_def wait_again_def WaitToConnectLayer_def ConnectOnEnter_def
  ConnectOnLeave_def GetCpStatus_def set_cp_def SetCpStatus_def LEDOn_def cp_call_def OnConnect_def GotoChargeLayer_def
  ChargeLayerEnter_def ChargeOnEnter_def charge_reset_def stop_record_def FourByteOrder_def on_session_def charge_view_def
  LEDStartBlink_def cable_type_def OnCharging_def CPListenerOnCharge_def StartCharge_def MagneticContactorOn_def

lemma session_runs:
  "\<exists>p. result (panel_do scene_std panel_cfg_std) (map (Pair panel_env_std) session_events) panel_card = Some p \<and> MCOn (sess p)"
  by (simp add: station_start station_eval)

lemma scene_std_ok: "scene_ok scene_std"
  by (auto simp: scene_ok_def scene_std_def split: if_splits dest: map_of_SomeD)


end
