(* ===== verification/Station_Props.thy ===== *)
theory Station_Props
  imports Station_Thms
begin

text \<open>
  What the screens do: the countdown of a screen, the start button, the end of a session, a reset, the QR code.
\<close>

section \<open>The countdown\<close>

text \<open>Passes of the countdown's task at the given times.\<close>

definition top_passes :: "scene \<Rightarrow> panel_cfg \<Rightarrow> panel_env \<Rightarrow> int list \<Rightarrow> panel \<Rightarrow> (panel \<times> (panel \<times> panel_act list \<times> panel) list) option" where
  "top_passes sc cfg env ts p = exec (panel_do sc cfg) (map (\<lambda>t. (env\<lparr>p_sec := t\<rparr>, Ev_top)) ts) p"

text \<open>How often neighbours differ.\<close>

fun changes :: "int \<Rightarrow> int list \<Rightarrow> nat" where
  "changes x [] = 0"
| "changes x (y # ys) = (if x \<noteq> y then 1 else 0) + changes y ys"

lemma changes_le: "sorted (x # xs) \<Longrightarrow> int (changes x xs) \<le> last (x # xs) - x"
proof (induction xs arbitrary: x)
  case (Cons y ys)
  have "int (changes y ys) \<le> last (y # ys) - y" using Cons.IH [of y] Cons.prems by simp
  then show ?case using Cons.prems by (cases "x = y") auto
qed simp

text \<open>Times that miss no second.\<close>

fun every_second :: "int \<Rightarrow> int list \<Rightarrow> bool" where
  "every_second t [] \<longleftrightarrow> True"
| "every_second t (u # us) \<longleftrightarrow> t \<le> u \<and> u \<le> t + 1 \<and> every_second u us"

lemma every_second_changes: "every_second x xs \<Longrightarrow> int (changes x xs) = last (x # xs) - x"
proof (induction xs arbitrary: x)
  case (Cons y ys)
  then show ?case using Cons.IH [of y] by (cases "x = y") auto
qed simp

definition counting :: "int \<Rightarrow> TopTimerTimeoutListener \<Rightarrow> int \<Rightarrow> panel \<Rightarrow> bool" where
  "counting n l t p \<longleftrightarrow> sTimerCount p = n \<and> sTimeoutListener p = Some l \<and> sttv p = t \<and> sTimerCounting p \<and> sDLsTopMonitoring p \<and> topThreads p = 1"

lemma no_thread: "topThreads p = 0 \<Longrightarrow> \<exists>tr. top_passes sc cfg env ts p = Some (p, tr)"
  by (induction ts) (auto simp: top_passes_def sTopMonitoringTaskFuntion_def)

lemma page_out_pass:
  assumes "counting n T_TimeOutPageOut t0 p" "sTimerCount (count_down (env\<lparr>p_sec := t\<rparr>) p) < 1"
  shows "\<exists>p'. sTopMonitoringTaskFuntion (env\<lparr>p_sec := t\<rparr>) p = Some (p', []) \<and> visible_layer p' = ''mainLayer'' \<and> topThreads p' = 0"
  using assms
  by (simp add: counting_def sTopMonitoringTaskFuntion_def Let_def timeout_call_def count_down_def GotoStart_def ituLayerGoto_def ituExecActions_def top_again_def)

lemma top_run:
  assumes "counting n T_TimeOutPageOut t0 p" "1 \<le> n"
  shows "\<exists>p' tr. top_passes sc cfg env ts p = Some (p', tr) \<and>
    (if int (changes (oldtotalvalue p) (map (\<lambda>t. t - t0) ts)) < n
     then visible_layer p' = visible_layer p \<and> counting (n - int (changes (oldtotalvalue p) (map (\<lambda>t. t - t0) ts))) T_TimeOutPageOut t0 p'
     else visible_layer p' = ''mainLayer'' \<and> topThreads p' = 0)"
  using assms
proof (induction ts arbitrary: n p)
  case Nil
  then show ?case by (simp add: top_passes_def)
next
  case (Cons t ts)
  let ?d = "if oldtotalvalue p \<noteq> t - t0 then 1 else 0"
  let ?q = "count_down (env\<lparr>p_sec := t\<rparr>) p"
  have q: "counting (n - ?d) T_TimeOutPageOut t0 ?q" "oldtotalvalue ?q = t - t0" "visible_layer ?q = visible_layer p"
    using Cons.prems(1) by (simp_all add: counting_def count_down_def Let_def)
  show ?case
  proof (cases "n - ?d < 1")
    case True
    then have "sTimerCount ?q < 1" using q(1) by (simp add: counting_def)
    from page_out_pass [OF Cons.prems(1) this] obtain p' where p': "sTopMonitoringTaskFuntion (env\<lparr>p_sec := t\<rparr>) p = Some (p', [])"
      "visible_layer p' = ''mainLayer''" "topThreads p' = 0" by blast
    have "\<not> int (changes (oldtotalvalue p) (map (\<lambda>t. t - t0) (t # ts))) < n" using True by (auto split: if_splits)
    then show ?thesis using no_thread [OF p'(3), of sc cfg env ts] p' by (auto simp: top_passes_def)
  next
    case False
    have s: "sTopMonitoringTaskFuntion (env\<lparr>p_sec := t\<rparr>) p = Some (?q, [])"
      using Cons.prems(1) q(1) False by (simp add: sTopMonitoringTaskFuntion_def counting_def Let_def)
    have c: "int (changes (oldtotalvalue p) (map (\<lambda>t. t - t0) (t # ts))) = ?d + int (changes (oldtotalvalue ?q) (map (\<lambda>t. t - t0) ts))"
      using q(2) by simp
    obtain p' tr where r: "top_passes sc cfg env ts ?q = Some (p', tr)"
      "if int (changes (oldtotalvalue ?q) (map (\<lambda>t. t - t0) ts)) < n - ?d
       then visible_layer p' = visible_layer ?q \<and> counting (n - ?d - int (changes (oldtotalvalue ?q) (map (\<lambda>t. t - t0) ts))) T_TimeOutPageOut t0 p'
       else visible_layer p' = ''mainLayer'' \<and> topThreads p' = 0"
      using Cons.IH [OF q(1)] False by auto
    have t: "top_passes sc cfg env (t # ts) p = Some (p', (p, [], ?q) # tr)" using r(1) s by (simp add: top_passes_def)
    show ?thesis unfolding t c
      by (intro exI [of _ p'] exI [of _ "(p, [], ?q) # tr"]) (use r(2) q(3) in \<open>auto simp: algebra_simps split: if_splits\<close>)
  qed
qed

text \<open>C8. The screen for plugging in is left for the start screen after \<open>ConnectionTimeOut\<close> seconds, give or take one: with \<open>n\<close>
  as value of the key and passes of the countdown that miss no second from the entry on, the screen and its countdown stay
  while the last pass is before second \<open>n - 1\<close>, and the start screen is there when a pass has reached second \<open>n + 1\<close>.\<close>

theorem connection_timeout:
  assumes "ConnectOnEnter env p = Some (p1, acts)" "visible_layer p = ''connectLayer''" "2 < length (CfgKeyVal (cli p))"
    and "n = sint (CfgKeyDataInt (CfgKeyVal (cli p) ! 2))" "1 \<le> n" "topThreads p = 0" "\<not> sTopMonitoringTask p"
    and "ts \<noteq> []" "every_second (p_sec env) ts"
  shows "\<exists>p2 tr. top_passes sc cfg env ts p1 = Some (p2, tr) \<and>
    (last ts < p_sec env + n - 1 \<longrightarrow> visible_layer p2 = ''connectLayer'' \<and> sDLsTopMonitoring p2) \<and>
    (p_sec env + n + 1 \<le> last ts \<longrightarrow> visible_layer p2 = ''mainLayer'' \<and> topThreads p2 = 0)"
proof -
  let ?t0 = "p_sec env"
  have c: "counting n T_TimeOutPageOut ?t0 p1" "visible_layer p1 = ''connectLayer''"
    using assms(1-7) by (auto simp: ConnectOnEnter_def set_order_def set_sess_def TopSetTimer_def counting_def rd_def Let_def split: if_splits)
  obtain t us where ts: "ts = t # us" using assms(8) by (cases ts) auto
  let ?xs = "map (\<lambda>t. t - ?t0) us" and ?k = "int (changes (oldtotalvalue p1) (map (\<lambda>t. t - ?t0) ts))"
  have ev: "every_second (t - a) (map (\<lambda>t. t - a) us)" if "every_second t us" for t us and a :: int
    using that by (induction us arbitrary: t) auto
  have e: "?t0 \<le> t" "t \<le> ?t0 + 1" "every_second t us" using assms(9) by (simp_all add: ts)
  have "int (changes (t - ?t0) ?xs) = last ts - t"
    using every_second_changes [OF ev [OF e(3), of ?t0]] by (cases us rule: rev_cases) (auto simp: ts)
  then have k: "last ts - t \<le> ?k" "?k \<le> last ts - t + 1" by (auto simp: ts)
  obtain p2 tr where r: "top_passes sc cfg env ts p1 = Some (p2, tr)"
    "if ?k < n then visible_layer p2 = visible_layer p1 \<and> counting (n - ?k) T_TimeOutPageOut ?t0 p2
     else visible_layer p2 = ''mainLayer'' \<and> topThreads p2 = 0"
    using top_run [OF c(1) assms(5), of sc cfg env ts] by blast
  show ?thesis
  proof (intro exI conjI impI)
    show "top_passes sc cfg env ts p1 = Some (p2, tr)" by (rule r(1))
    assume "last ts < ?t0 + n - 1"
    then have "?k < n" using k(2) e(1) by linarith
    then show "visible_layer p2 = ''connectLayer''" "sDLsTopMonitoring p2" using r(2) c(2) by (simp_all add: counting_def)
  next
    assume "?t0 + n + 1 \<le> last ts"
    then have "\<not> ?k < n" using k(1) e(2) by linarith
    then show "visible_layer p2 = ''mainLayer''" "topThreads p2 = 0" using r(2) by simp_all
  qed
qed

theorem connection_timeout_witness:
  "\<exists>p1 acts p2 tr. ConnectOnEnter panel_env_std (panel_card\<lparr>visible_layer := ''connectLayer''\<rparr>) = Some (p1, acts) \<and>
     visible_layer p1 = ''connectLayer'' \<and> top_passes scene_std panel_cfg_std panel_env_std [100..191] p1 = Some (p2, tr) \<and>
     visible_layer p2 = ''mainLayer''"
proof -
  let ?p = "panel_card\<lparr>visible_layer := ''connectLayer''\<rparr>"
  have "\<exists>p1 acts. ConnectOnEnter panel_env_std ?p = Some (p1, acts) \<and> visible_layer p1 = ''connectLayer''"
    by (simp add: station_start station_eval)
  then obtain p1 acts where e: "ConnectOnEnter panel_env_std ?p = Some (p1, acts)" "visible_layer p1 = ''connectLayer''" by blast
  have k: "2 < length (CfgKeyVal (cli ?p))" "90 = sint (CfgKeyDataInt (CfgKeyVal (cli ?p) ! 2))" "topThreads ?p = 0" "\<not> sTopMonitoringTask ?p"
    by (simp_all add: station_start set_order_def set_sess_def)
  have t: "[100..191] \<noteq> ([]::int list)" "every_second (p_sec panel_env_std) [100..191]" "last [100..191] = (191::int)" "p_sec panel_env_std = 100"
    by (simp_all add: panel_env_std_def)
  show ?thesis using connection_timeout [OF e(1) _ k(1,2) _ k(3,4) t(1,2), of scene_std panel_cfg_std] e t(3,4) by auto
qed

section \<open>The start button\<close>

lemma top_idle: "\<not> sDLsTopMonitoring p \<Longrightarrow> \<exists>q tr. top_passes sc cfg env ts p = Some (q, tr) \<and> visible_layer q = visible_layer p"
proof (induction ts arbitrary: p)
  case Nil
  then show ?case by (simp add: top_passes_def)
next
  case (Cons t ts)
  have "\<exists>q. sTopMonitoringTaskFuntion (env\<lparr>p_sec := t\<rparr>) p = Some (q, []) \<and> \<not> sDLsTopMonitoring q \<and> visible_layer q = visible_layer p"
    using Cons.prems by (simp add: sTopMonitoringTaskFuntion_def top_again_def)
  then obtain q where q: "sTopMonitoringTaskFuntion (env\<lparr>p_sec := t\<rparr>) p = Some (q, [])" "\<not> sDLsTopMonitoring q" "visible_layer q = visible_layer p"
    by blast
  obtain r tr where r: "top_passes sc cfg env ts q = Some (r, tr)" "visible_layer r = visible_layer q" using Cons.IH [OF q(2)] by blast
  then show ?case using q by (intro exI [of _ r] exI [of _ "(p, [], q) # tr"]) (simp add: top_passes_def)
qed

definition start_press :: "panel_env \<Rightarrow> (panel_env \<times> panel_event) list" where
  "start_press env = map (Pair env) [Ev_press ''MainStartOnPress'' 0, Ev_flush, Ev_flush, Ev_flush, Ev_flush, Ev_flush]"

text \<open>C9. The start button asks for the same change of screen twice.  The screen library drops the second enter, which is in
  the queue already, but not the leave: the screen for the choice of the authorisation is entered, which starts its
  countdown of thirty seconds, and left again at once, which stops it.  The screen stays and never times out.\<close>

theorem start_button_loses_countdown:
  assumes "sc ''mainLayer'' ITU_EVENT_LEAVE = Some ''MainOnLeave''" "sc ''authUserLayer'' ITU_EVENT_ENTER = Some ''AuthUserOnEnter''"
    and "sc ''authUserLayer'' ITU_EVENT_LEAVE = Some ''AuthUserOnLeave''" "visible_layer p = ''mainLayer''" "actionQueue p = []"
    and "queuePos p = 0" "GetMeterCon env" "GetServerCon cfg p" "ConfirmSelect cfg \<noteq> USER_AUTH_NONE"
  shows "\<exists>q tr. exec (panel_do sc cfg) (start_press env) p = Some (q, tr) \<and> visible_layer q = ''authUserLayer'' \<and>
    app_order (sess q) = APP_ORDER_AUTH_METHOD \<and> actionQueue q = [] \<and>
    (\<forall>ts. \<exists>r tr. top_passes sc cfg env ts q = Some (r, tr) \<and> visible_layer r = ''authUserLayer'')"
proof -
  have "\<exists>q. result (panel_do sc cfg) (start_press env) p = Some q \<and> visible_layer q = ''authUserLayer'' \<and>
    app_order (sess q) = APP_ORDER_AUTH_METHOD \<and> actionQueue q = [] \<and> \<not> sDLsTopMonitoring q"
    using assms
    by (simp add: start_press_def pressable_def station_eval MainStartOnPress_def CstGotoAuthOrNextLayer_def clear_energy_def
      MainOnLeave_def AuthUserOnEnter_def AuthUserOnLeave_def GetServerCon_def)
  then obtain q where q: "result (panel_do sc cfg) (start_press env) p = Some q" "visible_layer q = ''authUserLayer''"
    "app_order (sess q) = APP_ORDER_AUTH_METHOD" "actionQueue q = []" "\<not> sDLsTopMonitoring q" by blast
  from exec_result [OF q(1)] obtain tr where t: "exec (panel_do sc cfg) (start_press env) p = Some (q, tr)" ..
  show ?thesis using t q(2-4) top_idle [OF q(5), of sc cfg env] by auto
qed

theorem start_button_loses_countdown_witness:
  "\<exists>q tr. exec (panel_do scene_std panel_cfg_std) (start_press panel_env_std) (panel_start\<lparr>cli := client_up client_start\<rparr>) = Some (q, tr) \<and>
     visible_layer q = ''authUserLayer''"
  using start_button_loses_countdown [of scene_std "panel_start\<lparr>cli := client_up client_start\<rparr>" panel_env_std panel_cfg_std]
  by (auto simp: station_start GetMeterCon_def GetServerCon_def)

section \<open>A remote start\<close>

text \<open>C10. A remote start with \<open>AuthorizeRemoteTxRequests\<close>, key 0, switched off never leads to a charge: the waiting screen asks for
  no authorisation and forgets the remote start, and while no other message accepts a card, its task changes nothing
  however often it runs, until the countdown of thirty seconds leads back to the start screen.\<close>

theorem remote_start_not_served:
  assumes "CardWaitEnter env p = Some (p1, acts)" "CfgKeyDataInt (CfgKeyVal (cli p) ! 0) = 0" "bReqRmtStartTsNo (cli p) \<noteq> 0"
    and "app_order (sess p) = APP_ORDER_REMOTE_CHECK" "sWaitPhase p = WAIT_NONE" "card_auth (cli p) = CARD_AUTH_WAIT" "bConnect (cli p)"
  shows "bReqAuthNo (sess p1) = 0 \<and> bReqRmtStartTsNo (cli p1) = 0 \<and> (\<exists>tr. exec (panel_do sc cfg) (replicate n (env, Ev_wait)) p1 = Some (p1, tr)) \<and>
    sTimerCount p1 = 30 \<and> sTimeoutListener p1 = Some T_CardAuth1Timer1 \<and>
    (\<exists>p2. timeout_call env T_CardAuth1Timer1 p1 = Some (p2, []) \<and> visible_layer p2 = ''mainLayer'')"
proof -
  have f: "bReqAuthNo (sess p1) = 0" "bReqRmtStartTsNo (cli p1) = 0" "sTimerCount p1 = 30" "sTimeoutListener p1 = Some T_CardAuth1Timer1"
    "sWaitPhase p1 = WAIT_POLL" "card_auth (cli p1) = CARD_AUTH_WAIT" "bConnect (cli p1)" "sDLsWaitMonitoring p1" "GotoWaittoStartLayer p1"
    using assms by (auto simp: CardWaitEnter_def request_auth_def set_sess_def rd_def TopSetTimer_def Let_def split: if_splits)
  have w: "sWaitMonitoringTaskFuntion p1 = Some (p1, [])"
    using f by (simp add: sWaitMonitoringTaskFuntion_def wait_again_def)
  have "\<exists>tr. exec (panel_do sc cfg) (replicate n (env, Ev_wait)) p1 = Some (p1, tr)"
    by (induction n) (auto simp: w)
  then show ?thesis using f(1-4,9)
    by (simp add: timeout_call_def CardAuth1Timer1_def WaitToStartLayer_def GotoStart_def ituLayerGoto_def ituExecActions_def Let_def)
qed

theorem remote_start_not_served_witness:
  "\<exists>p1 acts. CardWaitEnter panel_env_std (set_order APP_ORDER_REMOTE_CHECK (panel_start\<lparr>cli := (client_up client_start)
       \<lparr>bReqRmtStartTsNo := 1, CfgKeyVal := (Init_CfgKey)[0 := ck_bool 0 False 0]\<rparr>\<rparr>)) = Some (p1, acts) \<and>
     bReqAuthNo (sess p1) = 0 \<and> (\<exists>tr. exec (panel_do scene_std panel_cfg_std) (replicate 100 (panel_env_std, Ev_wait)) p1 = Some (p1, tr))"
proof -
  let ?p = "set_order APP_ORDER_REMOTE_CHECK (panel_start\<lparr>cli := (client_up client_start)
       \<lparr>bReqRmtStartTsNo := 1, CfgKeyVal := (Init_CfgKey)[0 := ck_bool 0 False 0]\<rparr>\<rparr>)"
  have "\<exists>p1 acts. CardWaitEnter panel_env_std ?p = Some (p1, acts)" by (simp add: station_start station_eval)
  then obtain p1 acts where e: "CardWaitEnter panel_env_std ?p = Some (p1, acts)" by blast
  have "CfgKeyDataInt (CfgKeyVal (cli ?p) ! 0) = 0" "bReqRmtStartTsNo (cli ?p) \<noteq> 0" "app_order (sess ?p) = APP_ORDER_REMOTE_CHECK"
    "sWaitPhase ?p = WAIT_NONE" "card_auth (cli ?p) = CARD_AUTH_WAIT" "bConnect (cli ?p)"
    by (simp_all add: station_start set_order_def set_sess_def)
  from remote_start_not_served [OF e this, of scene_std panel_cfg_std 100] e show ?thesis by blast
qed

section \<open>The end of a charge\<close>

definition stop_press :: "panel_env \<Rightarrow> (panel_env \<times> panel_event) list" where
  "stop_press env = map (Pair env) [Ev_stop, Ev_flush, Ev_flush, Ev_flush]"

text \<open>The arrays have their sizes.\<close>

definition stop_sizes :: "panel_cfg \<Rightarrow> panel \<Rightarrow> bool" where
  "stop_sizes cfg p \<longleftrightarrow> length (charge_stop_btnState (sess p)) = 2 \<and> length (bTrId (sess p)) = 2 \<and> length (s_eqp_watt (sess p)) = 4 \<and>
     length (card_no (sess p)) = 21 \<and> length (StopTs_IdTag (sess p)) = 21 \<and> length (CfgKeyVal (cli p)) = 24 \<and> devChannel p = 0"

text \<open>C7. The stop button during a charge: when the queue of actions has run, the result screen is there, the contactor is open, the
  meter and the card reader are no longer listened to, and a stop of the transaction is requested with the transaction's
  id and the meter reading of the last account.\<close>

theorem stop_button_ends_charge:
  assumes "sc ''chargeLayer'' ITU_EVENT_LEAVE = Some ''ChargeOnLeave''" "sc ''ch2FinishLayer'' ITU_EVENT_ENTER = Some ''Ch2FinishOnEnter''"
    and "visible_layer p = ''chargeLayer''" "actionQueue p = []" "queuePos p = 0" "sCharging (sess p)" "bLayerChargeFlg (sess p)" "stop_sizes cfg p"
  shows "\<exists>q tr. exec (panel_do sc cfg) (stop_press env) p = Some (q, tr) \<and> visible_layer q = ''ch2FinishLayer'' \<and>
    \<not> MCOn (sess q) \<and> \<not> magnet_pin (sess q) \<and> \<not> sCharging (sess q) \<and> \<not> whm_listening (sess q) \<and>
    app_order (sess q) = APP_ORDER_CHARGING_STOP \<and> bReqStopTsFlg (cli q) \<and> StopTs_TrId (sess q) = bTrId (sess p) ! 1 \<and>
    FourByteOrder (s_eqp_watt (sess p)) = Some (StopTs_MeterStop (sess q))"
proof -
  have "\<exists>mv. FourByteOrder (s_eqp_watt (sess p)) = Some mv"
    using assms(8) by (cases "s_eqp_watt (sess p)") (auto simp: stop_sizes_def FourByteOrder_def rd_def)
  then obtain mv where mv: "FourByteOrder (s_eqp_watt (sess p)) = Some mv" ..
  show ?thesis
    using assms mv
    by (simp add: stop_press_def stop_sizes_def set_order_def set_sess_def ituLayerGoto_def ituExecActions_def ituFlushActionQueue_def
      run_action_def action_name_def actionFunctions_def action_param_def on_session_def charge_view_def ChargeStopDialog_def TopCloseTimer_def
      ChargeStopOnDialog_def ChargeLayerLeave_def ChargeOnLeave_def stop_record_def StopCharge_def UpdateStopGui_def GotoNextLayerOnCharge_def
      MagneticContactorOff_def LEDStopBlink_def LEDOff_def Ch2FinishOnEnter_def rd_def wr_def blit_def Let_def)
qed

theorem stop_button_ends_charge_witness:
  "\<exists>q tr. exec (panel_do scene_std panel_cfg_std) (stop_press panel_env_std) (set_sess (session_idle\<lparr>sCharging := True,
       bLayerChargeFlg := True, MCOn := True, magnet_pin := True, bTrId := [0, 77], s_eqp_watt := [0, 0, 1, 0]\<rparr>)
         (panel_start\<lparr>visible_layer := ''chargeLayer''\<rparr>)) = Some (q, tr) \<and>
     visible_layer q = ''ch2FinishLayer'' \<and> \<not> magnet_pin (sess q) \<and> bReqStopTsFlg (cli q) \<and> StopTs_TrId (sess q) = 77"
proof -
  let ?p = "set_sess (session_idle\<lparr>sCharging := True, bLayerChargeFlg := True, MCOn := True, magnet_pin := True, bTrId := [0, 77],
       s_eqp_watt := [0, 0, 1, 0]\<rparr>) (panel_start\<lparr>visible_layer := ''chargeLayer''\<rparr>)"
  have a: "scene_std ''chargeLayer'' ITU_EVENT_LEAVE = Some ''ChargeOnLeave''" "scene_std ''ch2FinishLayer'' ITU_EVENT_ENTER = Some ''Ch2FinishOnEnter''"
    "visible_layer ?p = ''chargeLayer''" "actionQueue ?p = []" "queuePos ?p = 0" "sCharging (sess ?p)" "bLayerChargeFlg (sess ?p)"
    "stop_sizes panel_cfg_std ?p" "bTrId (sess ?p) ! 1 = 77"
    by (simp_all add: station_start set_sess_def stop_sizes_def ck_str_def)
  show ?thesis using stop_button_ends_charge [OF a(1-8), of panel_env_std] a(9) by metis
qed

end
