(* ===== verification/Ini.thy ===== *)
theory Ini
  imports Common
begin

text \<open>
  The initialisation files that keep the configuration (\<open>src/sdk/share/iniparser\<close>): the dictionary, its look-up
  and update, the text written for it, and the reader of such a text.

  A dictionary is the list of its entries in the order of their insertion; nothing is ever removed from one.  A section is an
  entry without a colon and without a value.  The hash values only speed up the comparison of keys.  A string is the list of
  its bytes without the terminator.  Memory never runs out and writing to the file does not fail.
\<close>

section \<open>The dictionary\<close>

type_synonym dict = "(bytes \<times> bytes option) list"

abbreviation (input) ASCIILINESZ :: nat where "ASCIILINESZ \<equiv> 1024"
abbreviation (input) colon :: u8 where "colon \<equiv> 0x3A"
abbreviation (input) newline :: u8 where "newline \<equiv> 0x0A"
abbreviation (input) equals :: u8 where "equals \<equiv> 0x3D"
abbreviation (input) backslash :: u8 where "backslash \<equiv> 0x5C"
abbreviation (input) quote2 :: u8 where "quote2 \<equiv> 0x22"
abbreviation (input) quote1 :: u8 where "quote1 \<equiv> 0x27"

definition dictionary_get :: "dict \<Rightarrow> bytes \<Rightarrow> bytes option \<Rightarrow> bytes option" where
  "dictionary_get d key def = (case map_of d key of None \<Rightarrow> def | Some v \<Rightarrow> v)"

fun dictionary_set :: "dict \<Rightarrow> bytes \<Rightarrow> bytes option \<Rightarrow> dict" where
  "dictionary_set [] key val = [(key, val)]"
| "dictionary_set ((k, v) # d) key val = (if k = key then (k, val) # d else (k, v) # dictionary_set d key val)"

definition to_lower :: "u8 \<Rightarrow> u8" where
  "to_lower c = (if 0x41 \<le> c \<and> c \<le> 0x5A then c + 0x20 else c)"

text \<open>At most \<open>len - 1\<close> characters.\<close>

definition strlwc :: "bytes \<Rightarrow> nat \<Rightarrow> bytes" where
  "strlwc s len = map to_lower (take (len - 1) s)"

definition iniparser_set :: "dict \<Rightarrow> bytes \<Rightarrow> bytes option \<Rightarrow> dict" where
  "iniparser_set d entry val = dictionary_set d (strlwc entry (ASCIILINESZ + 1)) val"

text \<open>The result may be a null pointer, \<open>None\<close>.\<close>

definition iniparser_getstring :: "dict \<Rightarrow> bytes \<Rightarrow> bytes \<Rightarrow> bytes option" where
  "iniparser_getstring d key def = dictionary_get d (strlwc key (ASCIILINESZ + 1)) (Some def)"

definition iniparser_find_entry :: "dict \<Rightarrow> bytes \<Rightarrow> bool" where
  "iniparser_find_entry d entry \<longleftrightarrow> map_of d (strlwc entry (ASCIILINESZ + 1)) \<noteq> None"

section \<open>Numbers\<close>

definition digit_value :: "u8 \<Rightarrow> int" where
  "digit_value c =
     (if 0x30 \<le> c \<and> c \<le> 0x39 then uint c - 0x30
      else if 0x61 \<le> c \<and> c \<le> 0x7A then uint c - 0x61 + 10
      else if 0x41 \<le> c \<and> c \<le> 0x5A then uint c - 0x41 + 10
      else 36)"

fun strtol_digits :: "int \<Rightarrow> int \<Rightarrow> bytes \<Rightarrow> int" where
  "strtol_digits base acc [] = acc"
| "strtol_digits base acc (c # cs) =
     (if digit_value c < base then strtol_digits base (base * acc + digit_value c) cs else acc)"

text \<open>Base 0: a leading \<open>0x\<close> before a digit means sixteen, another leading \<open>0\<close> eight.\<close>

definition strtol_unsigned :: "bytes \<Rightarrow> int" where
  "strtol_unsigned s =
     (case s of
        c # x # h # cs \<Rightarrow>
          if c = 0x30 \<and> (x = 0x78 \<or> x = 0x58) \<and> digit_value h < 16 then strtol_digits 16 0 (h # cs)
          else if c = 0x30 then strtol_digits 8 0 (x # h # cs) else strtol_digits 10 0 s
      | c # cs \<Rightarrow> if c = 0x30 then strtol_digits 8 0 cs else strtol_digits 10 0 s
      | [] \<Rightarrow> 0)"

text \<open>A \<open>long\<close> has 32 bits; the value is limited to its range.\<close>

definition long_clamp :: "int \<Rightarrow> int" where
  "long_clamp v = max (- (2 ^ 31)) (min (2 ^ 31 - 1) v)"

definition strtol :: "bytes \<Rightarrow> int" where
  "strtol s =
     (case dropWhile is_space s of
        [] \<Rightarrow> 0
      | c # cs \<Rightarrow> long_clamp (if c = 0x2D then - strtol_unsigned cs
                              else if c = 0x2B then strtol_unsigned cs else strtol_unsigned (c # cs)))"

text \<open>An entry without a value hands a null pointer to \<open>strtol\<close>.\<close>

definition iniparser_getint :: "dict \<Rightarrow> bytes \<Rightarrow> int \<Rightarrow> int option" where
  "iniparser_getint d key notfound =
     (case map_of d (strlwc key (ASCIILINESZ + 1)) of
        None \<Rightarrow> Some notfound
      | Some None \<Rightarrow> None
      | Some (Some s) \<Rightarrow> Some (strtol s))"

section \<open>Writing a dictionary\<close>

definition iniparser_getnsec :: "dict \<Rightarrow> nat" where
  "iniparser_getnsec d = length (filter (\<lambda>e. colon \<notin> set (fst e)) d)"

definition iniparser_getsecname :: "dict \<Rightarrow> nat \<Rightarrow> bytes" where
  "iniparser_getsecname d n = fst (filter (\<lambda>e. colon \<notin> set (fst e)) d ! n)"

text \<open>\<open>%-30s\<close>.\<close>

definition pad30 :: "bytes \<Rightarrow> bytes" where
  "pad30 s = s @ replicate (30 - length s) 0x20"

definition dump_entry :: "bytes \<Rightarrow> bytes option \<Rightarrow> bytes" where
  "dump_entry k v = pad30 k @ [0x20, equals, 0x20] @ (case v of None \<Rightarrow> [] | Some s \<Rightarrow> s) @ [newline]"

definition iniparser_dumpsection_ini :: "dict \<Rightarrow> bytes \<Rightarrow> bytes" where
  "iniparser_dumpsection_ini d s =
     (if iniparser_find_entry d s
      then (let keym = s @ [colon] in
        [newline, 0x5B] @ s @ [0x5D, newline] @
        concat (map (\<lambda>(k, v). if take (length keym) k = keym then dump_entry (drop (length keym) k) v else []) d) @ [newline])
      else [])"

text \<open>Without a section, an entry without a value hands a null pointer to \<open>fprintf\<close>.\<close>

definition iniparser_dump_ini :: "dict \<Rightarrow> bytes option" where
  "iniparser_dump_ini d =
     (if iniparser_getnsec d < 1
      then (if list_all (\<lambda>e. snd e \<noteq> None) d
            then Some (concat (map (\<lambda>(k, v). k @ [0x20, equals, 0x20] @ the v @ [newline]) d)) else None)
      else Some (concat (map (\<lambda>i. iniparser_dumpsection_ini d (iniparser_getsecname d i)) [0..<iniparser_getnsec d]) @ [newline]))"

section \<open>Reading a line\<close>

definition rstrip :: "bytes \<Rightarrow> bytes" where
  "rstrip s = rev (dropWhile is_space (rev s))"

definition strstrip :: "bytes \<Rightarrow> bytes" where
  "strstrip s = rstrip (dropWhile is_space s)"

datatype line_status = LINE_UNPROCESSED | LINE_ERROR | LINE_EMPTY | LINE_COMMENT | LINE_SECTION | LINE_VALUE

text \<open>\<open>%[\<dots>]\<close> of \<open>sscanf\<close>: the longest prefix of characters of the set, which must not be empty.\<close>

definition scan_set :: "(u8 \<Rightarrow> bool) \<Rightarrow> bytes \<Rightarrow> (bytes \<times> bytes) option" where
  "scan_set P s = (if takeWhile P s = [] then None else Some (takeWhile P s, dropWhile P s))"

definition scan_char :: "u8 \<Rightarrow> bytes \<Rightarrow> bytes option" where
  "scan_char c s = (case s of x # xs \<Rightarrow> if x = c then Some xs else None | [] \<Rightarrow> None)"

text \<open>The formats \<open>%[^=] = "%[^"]"\<close>, and the same with the other quote.\<close>

definition scan_quoted :: "u8 \<Rightarrow> bytes \<Rightarrow> (bytes \<times> bytes) option" where
  "scan_quoted q s = do {
     (key, s) \<leftarrow> scan_set (\<lambda>c. c \<noteq> equals) s;
     s \<leftarrow> scan_char equals s;
     s \<leftarrow> scan_char q (dropWhile is_space s);
     (value, s) \<leftarrow> scan_set (\<lambda>c. c \<noteq> q) s;
     Some (key, value)
   }"

text \<open>\<open>%[^=] = %[\<dots>]\<close>.\<close>

definition scan_value :: "(u8 \<Rightarrow> bool) \<Rightarrow> bytes \<Rightarrow> (bytes \<times> bytes) option" where
  "scan_value P s = do {
     (key, s) \<leftarrow> scan_set (\<lambda>c. c \<noteq> equals) s;
     s \<leftarrow> scan_char equals s;
     (value, s) \<leftarrow> scan_set P (dropWhile is_space s);
     Some (key, value)
   }"

text \<open>\<open>%[^=] %[=]\<close>.\<close>

definition scan_empty :: "bytes \<Rightarrow> bytes option" where
  "scan_empty s = do {
     (key, s) \<leftarrow> scan_set (\<lambda>c. c \<noteq> equals) s;
     (_, s) \<leftarrow> scan_set (\<lambda>c. c = equals) (dropWhile is_space s);
     Some key
   }"

abbreviation (input) starts_comment :: "u8 \<Rightarrow> bool" where "starts_comment c \<equiv> c = 0x3B \<or> c = 0x23"

text \<open>The key as it is stored, from a line of the given length.\<close>

definition line_key :: "nat \<Rightarrow> bytes \<Rightarrow> bytes" where
  "line_key len key = strlwc (strstrip key) len"

definition line_value :: "bytes \<Rightarrow> bytes" where
  "line_value value = (let v = strstrip value in if v = [quote2, quote2] \<or> v = [quote1, quote1] then [] else v)"

definition line_section :: "nat \<Rightarrow> bytes \<Rightarrow> bytes \<Rightarrow> bytes" where
  "line_section len line section =
     strlwc (strstrip (case scan_set (\<lambda>c. c \<noteq> 0x5D) (tl line) of None \<Rightarrow> section | Some (s, _) \<Rightarrow> s)) len"

text \<open>The status, the section, and key and value of the line.\<close>

definition iniparser_line :: "bytes \<Rightarrow> bytes \<Rightarrow> line_status \<times> bytes \<times> bytes \<times> bytes" where
  "iniparser_line input section =
     (let line = strstrip input; len = length line in
      if len < 1 then (LINE_EMPTY, section, [], [])
      else if starts_comment (hd line) then (LINE_COMMENT, section, [], [])
      else if hd line = 0x5B \<and> last line = 0x5D then (LINE_SECTION, line_section len line section, [], [])
      else case scan_quoted quote2 line of Some (k, v) \<Rightarrow> (LINE_VALUE, section, line_key len k, v)
      | None \<Rightarrow> case scan_quoted quote1 line of Some (k, v) \<Rightarrow> (LINE_VALUE, section, line_key len k, v)
      | None \<Rightarrow> case scan_value (\<lambda>c. \<not> starts_comment c) line of Some (k, v) \<Rightarrow> (LINE_VALUE, section, line_key len k, line_value v)
      | None \<Rightarrow> case scan_value (\<lambda>c. starts_comment c) line of Some (k, _) \<Rightarrow> (LINE_VALUE, section, line_key len k, [])
      | None \<Rightarrow> case scan_empty line of Some k \<Rightarrow> (LINE_VALUE, section, line_key len k, [])
      | None \<Rightarrow> (LINE_ERROR, section, [], []))"

section \<open>Reading a file\<close>

text \<open>\<open>fgets\<close> with a buffer of \<open>n\<close> characters: what it stores, the rest of the file, and whether the end was met.\<close>

definition fgets_chunk :: "nat \<Rightarrow> bytes \<Rightarrow> bytes" where
  "fgets_chunk n inp =
     (let l = takeWhile (\<lambda>c. c \<noteq> newline) inp
      in take (n - 1) (if length l < length inp then l @ [newline] else l))"

definition fgets_eof :: "nat \<Rightarrow> bytes \<Rightarrow> bool" where
  "fgets_eof n inp \<longleftrightarrow> newline \<notin> set (take (n - 1) inp) \<and> length inp < n - 1"

lemma fgets_chunk_length:
  assumes "inp \<noteq> []" "2 \<le> n"
  shows "1 \<le> length (fgets_chunk n inp)" "length (fgets_chunk n inp) \<le> length inp"
proof -
  let ?l = "takeWhile (\<lambda>c. c \<noteq> newline) inp"
  have "length ?l \<le> length inp" by (rule length_takeWhile_le)
  then show "1 \<le> length (fgets_chunk n inp)" "length (fgets_chunk n inp) \<le> length inp"
    using assms by (cases inp; auto simp: fgets_chunk_def Let_def)+
qed

lemma fgets_progress: "inp \<noteq> [] \<Longrightarrow> 2 \<le> n \<Longrightarrow> length inp - length (fgets_chunk n inp) < length inp"
  using fgets_chunk_length [of inp n] by linarith

text \<open>The effect of a complete line on dictionary, section and number of errors.\<close>

definition load_line :: "bytes \<Rightarrow> dict \<times> bytes \<times> nat \<Rightarrow> dict \<times> bytes \<times> nat" where
  "load_line line st =
     (case st of (d, section, errs) \<Rightarrow>
      case iniparser_line line section of (sta, section, key, val) \<Rightarrow>
        (case sta of
           LINE_SECTION \<Rightarrow> (dictionary_set d section None, section, errs)
         | LINE_VALUE \<Rightarrow> (dictionary_set d (section @ [colon] @ key) (Some val), section, errs)
         | LINE_ERROR \<Rightarrow> (d, section, errs + 1)
         | _ \<Rightarrow> (d, section, errs)))"

text \<open>The loop over the lines: \<open>pend\<close> is what the buffer holds before the place where the next line is read, after a line that
  ends with a backslash.  The inner \<open>None\<close> is the null pointer for a line that is too long, the outer one a buffer without
  room, where the loop would not end.\<close>

function load_lines :: "bytes \<Rightarrow> dict \<times> bytes \<times> nat \<Rightarrow> bytes \<Rightarrow> (dict \<times> bytes \<times> nat) option option" where
  "load_lines pend st inp =
     (if inp = [] then Some (Some st)
      else if ASCIILINESZ < length pend + 2 then None
      else let n = ASCIILINESZ - length pend; chunk = fgets_chunk n inp; rest = drop (length chunk) inp; line = cstr (pend @ chunk) in
        if length line \<le> 1 then load_lines pend st rest
        else if last line \<noteq> newline \<and> \<not> fgets_eof n inp then Some None
        else let line = rstrip line in
          if line \<noteq> [] \<and> last line = backslash then load_lines (butlast line) st rest
          else load_lines [] (load_line line st) rest)"
  by pat_completeness auto
termination
  by (relation "measure (\<lambda>(pend, st, inp). length inp)") (auto intro!: fgets_progress)

declare load_lines.simps [simp del]

text \<open>The file, if there is one; a line with an error makes the whole file unreadable.\<close>

definition iniparser_load :: "bytes option \<Rightarrow> dict option option" where
  "iniparser_load f =
     (case f of
        None \<Rightarrow> Some None
      | Some t \<Rightarrow> map_option (\<lambda>r. case r of None \<Rightarrow> None | Some (d, section, errs) \<Rightarrow> if errs = 0 then Some d else None)
          (load_lines [] ([], [], 0) t))"

end
