(* ===== verification/Settings.thy ===== *)
theory Settings
  imports Ini
begin

text \<open>
  The settings of the charger (\<open>src/project/tsct2007a/config.c\<close>): how they are read at start-up, written to
  \<open>ctrlboard.ini\<close> and to the binary backup, compared with the file, and set to their first values; and the queue of file events.

  An \<open>int\<close> is a word of 32 bits and a \<open>char\<close> one of 8, read with \<open>sint\<close>.  The strings have the lengths of their arrays.  Members of the structure that no
  function of this file touches are left out.  The environment gives what the source does not determine: the bytes at an
  address that is used as a string, and whether the initialisation file can be opened for writing.
\<close>

section \<open>State\<close>

record Config =
  configcheck :: bytes
  authkey :: bytes
  applver :: bytes
  timeinit :: bytes
  devchanel :: u32
  devid1 :: bytes
  devid2 :: bytes
  siteid :: bytes
  adminpassword :: bytes
  gpslat :: bytes
  gpslon :: bytes
  devtype :: u32
  ConfirmSelect :: u32
  chargingstatus :: u32
  OperationMode :: u32
  FreeChargingTime :: u32
  chkModeMac :: bytes
  targetSoc :: u32
  chargermac :: bytes
  ipaddr :: bytes
  netmask :: bytes
  gw :: bytes
  dns :: bytes
  serverip :: bytes
  serverport :: u32
  ftpIp :: bytes
  ftpId :: bytes
  ftpPw :: bytes
  ftpDns :: bytes
  brightness :: u32
  screensaver_time :: u32
  screensaver_type :: u32
  lang :: u32
  keysound :: bytes
  keylevel :: u32
  audiolevel :: u32
  dhcp :: u8
  setrevh1_flag :: u32

record STOPTSVAL_TYPE =
  TrId :: u64
  Time_Stamp :: bytes
  MeterStop_Val :: u32
  IdTag :: bytes
  Stop_Reason :: u32
  Connector_No :: u8

record LOCAL_LIS_VAL =
  Status :: u8
  Id :: bytes

record ConfigBackup =
  bk_authkey :: bytes
  bk_devid1 :: bytes
  bk_siteid :: bytes
  bk_devtype :: u32
  bk_ConfirmSelect :: u32
  bk_chargermac :: bytes
  bk_ipaddr :: bytes
  bk_netmask :: bytes
  bk_gw :: bytes
  bk_serverip :: bytes
  bk_serverport :: u32
  bk_ftpIp :: bytes
  bk_ftpDns :: bytes
  bk_ftpId :: bytes
  bk_ftpPw :: bytes
  bk_setrevh1_flag :: u32

text \<open>The pointer of an event is the address.\<close>

record CST_FileEvent =
  ev_type :: u16
  Buff :: u32
  Length :: u8

record file_queue =
  q_head :: nat
  q_tail :: nat
  q_event :: "CST_FileEvent list"

text \<open>Next to the variables of the program, the two files and, for the attempts to open the backup that are still to come,
  whether they succeed (those after the end of the list do).\<close>

record settings =
  theConfig :: Config
  StopTsConfig :: STOPTSVAL_TYPE
  LocalListVer :: u32
  LocalListVal :: "LOCAL_LIS_VAL list"
  cfgIni :: dict
  SaveConfig :: ConfigBackup
  StrModelName :: bytes
  CstFileEvtQ :: file_queue
  client_init :: bool
  bTestModeOn :: bool
  ini_file :: "bytes option"
  backup_file :: "ConfigBackup option"
  backup_opens :: "bool list"

record settings_env =
  string_at :: "u32 \<Rightarrow> bytes option"
  ini_opens :: bool

abbreviation (input) C_TYPE :: u32 where "C_TYPE \<equiv> 8002"
abbreviation (input) BC_TYPE :: u32 where "BC_TYPE \<equiv> 8003"
abbreviation (input) B_TYPE :: u32 where "B_TYPE \<equiv> 8001"
abbreviation (input) HC_TYPE :: u32 where "HC_TYPE \<equiv> 8006"
abbreviation (input) CST_FILE_INI_SAVE :: u16 where "CST_FILE_INI_SAVE \<equiv> 0x100"
abbreviation (input) CST_FILE_INI_BAKCUP :: u16 where "CST_FILE_INI_BAKCUP \<equiv> 0x101"
abbreviation (input) CST_FILE_INIT :: u16 where "CST_FILE_INIT \<equiv> 0"
abbreviation (input) CST_FILE_EVT_NONE :: u16 where "CST_FILE_EVT_NONE \<equiv> 0xFFFF"
abbreviation (input) CST_FileEvtMax :: nat where "CST_FileEvtMax \<equiv> 32"

section \<open>Strings and numbers of the file\<close>

text \<open>\<open>strncpy\<close> of a string of the dictionary into an array, an \<open>int\<close> of the dictionary, and the string in an array, which
  must end inside it.\<close>

definition strncpy_to :: "bytes \<Rightarrow> bytes \<Rightarrow> nat \<Rightarrow> bytes option" where
  "strncpy_to dst s n = blit dst 0 (take n (s @ replicate n 0))"

definition ini_str :: "dict \<Rightarrow> string \<Rightarrow> string \<Rightarrow> bytes \<Rightarrow> nat \<Rightarrow> bytes option" where
  "ini_str d key def dst n =
     Option.bind (iniparser_getstring d (str_bytes key) (str_bytes def)) (\<lambda>s. strncpy_to dst s n)"

definition ini_int :: "dict \<Rightarrow> string \<Rightarrow> int \<Rightarrow> u32 option" where
  "ini_int d key def = map_option word_of_int (iniparser_getint d (str_bytes key) def)"

definition c_string :: "bytes \<Rightarrow> bytes option" where
  "c_string b = (if 0 \<in> set b then Some (cstr b) else None)"

definition sprintf_str :: "bytes \<Rightarrow> string \<Rightarrow> bytes option" where
  "sprintf_str dst s = blit dst 0 (str_bytes s @ [0])"

text \<open>\<open>strcmp\<close> on two arrays, which stops at the first difference.\<close>

fun strcmp_diff :: "bytes \<Rightarrow> bytes \<Rightarrow> bool option" where
  "strcmp_diff (x # xs) (y # ys) = (if x \<noteq> y then Some True else if x = 0 then Some False else strcmp_diff xs ys)"
| "strcmp_diff _ _ = None"

section \<open>File events\<close>

definition CST_AddFileEvent :: "CST_FileEvent \<Rightarrow> file_queue \<Rightarrow> file_queue" where
  "CST_AddFileEvent event q =
     (let tail = (q_tail q + 1) mod CST_FileEvtMax
      in if tail = q_head q then q else q\<lparr>q_event := (q_event q)[q_tail q := event], q_tail := tail\<rparr>)"

definition is_event :: "u16 \<Rightarrow> bool" where
  "is_event t \<longleftrightarrow> CST_FILE_INIT < t \<and> t < CST_FILE_EVT_NONE"

definition CST_GetFileEvent :: "file_queue \<Rightarrow> CST_FileEvent option" where
  "CST_GetFileEvent q =
     (if q_head q = q_tail q then None
      else let e = q_event q ! q_head q in if is_event (ev_type e) then Some e else None)"

definition CST_RemoveFileEvent :: "file_queue \<Rightarrow> file_queue" where
  "CST_RemoveFileEvent q =
     (if is_event (ev_type (q_event q ! q_head q))
      then q\<lparr>q_event := (q_event q)[q_head q := \<lparr>ev_type = CST_FILE_EVT_NONE, Buff = 0, Length = 0\<rparr>],
             q_head := (q_head q + 1) mod CST_FileEvtMax\<rparr>
      else q)"

section \<open>The backup\<close>

definition backup_of :: "Config \<Rightarrow> ConfigBackup" where
  "backup_of c =
     \<lparr>bk_authkey = authkey c, bk_devid1 = devid1 c, bk_siteid = siteid c, bk_devtype = devtype c, bk_ConfirmSelect = ConfirmSelect c,
      bk_chargermac = chargermac c, bk_ipaddr = ipaddr c, bk_netmask = netmask c, bk_gw = gw c,
      bk_serverip = take 40 (serverip c), bk_serverport = serverport c, bk_ftpIp = ftpIp c, bk_ftpDns = take 40 (ftpDns c),
      bk_ftpId = ftpId c, bk_ftpPw = ftpPw c, bk_setrevh1_flag = setrevh1_flag c\<rparr>"

text \<open>\<open>ConfigSaveBackup\<close> and \<open>ConfigSaveBackupDump\<close>, which only prints, start over when the file does not open: they send an event,
  and without a client the event runs both of them at once.  The calls that are still to be made are a stack.\<close>

datatype backup_call = ConfigSaveBackup | ConfigSaveBackupDump

definition backup_event :: CST_FileEvent where
  "backup_event = \<lparr>ev_type = CST_FILE_INI_BAKCUP, Buff = 0, Length = 0\<rparr>"

definition backup_try :: "backup_call \<Rightarrow> settings \<Rightarrow> settings \<times> bool" where
  "backup_try call s =
     (let s = (if call = ConfigSaveBackup then s\<lparr>SaveConfig := backup_of (theConfig s)\<rparr> else s);
          opened = (backup_opens s = [] \<or> hd (backup_opens s));
          s = s\<lparr>backup_opens := tl (backup_opens s)\<rparr>
      in (if call = ConfigSaveBackupDump then s
          else if opened then s\<lparr>backup_file := Some (SaveConfig s)\<rparr> else s\<lparr>backup_file := None\<rparr>, opened))"

lemma backup_try_opens: "backup_opens (fst (backup_try call s)) = tl (backup_opens s)"
  by (simp add: backup_try_def Let_def)

lemma backup_try_failed: "\<not> snd (backup_try call s) \<Longrightarrow> backup_opens s \<noteq> []"
  by (auto simp: backup_try_def Let_def split: if_splits)

function backup_run :: "backup_call list \<Rightarrow> settings \<Rightarrow> settings" where
  "backup_run [] s = s"
| "backup_run (call # calls) s =
     (let r = backup_try call s in
      if snd r then backup_run calls (fst r)
      else if client_init (fst r) then backup_run calls ((fst r)\<lparr>CstFileEvtQ := CST_AddFileEvent backup_event (CstFileEvtQ (fst r))\<rparr>)
      else backup_run (ConfigSaveBackup # ConfigSaveBackupDump # calls) (fst r))"
  by pat_completeness auto
termination
  by (relation "measures [\<lambda>(calls, s). length (backup_opens s), \<lambda>(calls, s). length calls]")
    (auto simp: backup_try_opens dest: backup_try_failed)

declare backup_run.simps [simp del]

section \<open>Writing the settings\<close>

text \<open>The strings that are put into the dictionary, in the order of the calls of \<open>iniparser_set\<close>; \<open>None\<close> for a string that does
  not end inside its array, \<open>Some None\<close> for a null pointer.\<close>

type_synonym entries = "(string \<times> bytes option option) list"

abbreviation (input) put_str :: "bytes \<Rightarrow> bytes option option" where
  "put_str b \<equiv> map_option Some (c_string b)"

text \<open>\<open>sprintf\<close> of a number into \<open>char buf[20]\<close>.\<close>

definition put_int :: "int \<Rightarrow> bytes option option" where
  "put_int v = (if length (fmt_d v) < 20 then Some (Some (fmt_d v)) else None)"

fun iniparser_sets :: "dict \<Rightarrow> entries \<Rightarrow> dict option" where
  "iniparser_sets d [] = Some d"
| "iniparser_sets d ((key, v) # es) = Option.bind v (\<lambda>v. iniparser_sets (iniparser_set d (str_bytes key) v) es)"

definition stop_entries :: "Config \<Rightarrow> STOPTSVAL_TYPE \<Rightarrow> entries" where
  "stop_entries c t =
     [(''application:configcheck'', put_str (configcheck c)),
      (''application:authkey'', put_str (authkey c)),
      (''application:con_no'', put_int (uint (Connector_No t))),
      (''application:trid'', put_int (sint (TrId t))),
      (''application:time_stamp'', put_str (Time_Stamp t)),
      (''application:meter_stop'', put_int (sint (MeterStop_Val t))),
      (''application:idtag'', put_str (IdTag t)),
      (''application:stop_reason'', put_int (sint (Stop_Reason t)))]"

definition local_list_key :: "nat \<Rightarrow> string \<Rightarrow> string" where
  "local_list_key i what = ''ocpp:local_list_'' @ [char_of (0x31 + i)] @ what"

definition local_list_entries :: "u32 \<Rightarrow> LOCAL_LIS_VAL list \<Rightarrow> entries" where
  "local_list_entries ver ls =
     (''ocpp:local_list_ver'', put_int (sint ver)) #
     (if 0 <s ver
      then map (\<lambda>i. (local_list_key i ''_status'', put_int (sint (Status (ls ! i))))) [0..<5] @
           concat (map (\<lambda>i. if Status (ls ! i) \<noteq> 0 then [(local_list_key i ''_id'', put_str (Id (ls ! i)))] else []) [0..<5])
      else [])"

definition config_entries :: "(u32 \<Rightarrow> bytes option) \<Rightarrow> Config \<Rightarrow> entries" where
  "config_entries mem c =
     [(''basicconfig:devid1'', put_str (devid1 c)),
      (''basicconfig:devid2'', put_str (devid2 c)),
      (''basicconfig:siteid'', put_str (siteid c)),
      (''basicconfig:adminpassword'', put_str (adminpassword c)),
      (''basicconfig:gpslat'', put_str (gpslat c)),
      (''basicconfig:gpslon'', put_str (gpslon c)),
      (''basicconfig:devtype'', put_int (sint (devtype c))),
      (''basicconfig:devchanel'', put_int (sint (devchanel c))),
      (''basicconfig:chargingstatus'', put_int (sint (chargingstatus c))),
      (''basicconfig:ConfirmSelect'', put_int (sint (ConfirmSelect c))),
      (''basicconfig:OperationMode'', put_int (sint (OperationMode c))),
      (''basicconfig:FreeChargingTime'', put_int (sint (FreeChargingTime c))),
      (''basicconfig:chkModeMac'', put_str (chkModeMac c)),
      (''basicconfig:targetSoc'', Some (mem (targetSoc c))),
      (''tcpip:dhcp'', put_int (sint (dhcp c))),
      (''tcpip:chargermac'', put_str (chargermac c)),
      (''tcpip:ipaddr'', put_str (ipaddr c)),
      (''tcpip:netmask'', put_str (netmask c)),
      (''tcpip:gw'', put_str (gw c)),
      (''tcpip:dns'', put_str (dns c)),
      (''tcpip:serverip'', put_str (serverip c)),
      (''tcpip:serverport'', put_int (sint (serverport c))),
      (''tcpip:ftpIp'', put_str (ftpIp c)),
      (''tcpip:ftpDns'', put_str (ftpDns c)),
      (''tcpip:ftpId'', put_str (ftpId c)),
      (''tcpip:ftpPw'', put_str (ftpPw c)),
      (''ctrlboard:lang'', put_int (sint (lang c))),
      (''ctrlboard:brightness'', put_int (sint (brightness c))),
      (''ctrlboard:screensaver_time'', put_int (sint (screensaver_time c))),
      (''ctrlboard:screensaver_type'', put_int (sint (screensaver_type c))),
      (''ctrlboard:keysound'', put_str (keysound c)),
      (''ctrlboard:keylevel'', put_int (sint (keylevel c))),
      (''ctrlboard:audiolevel'', put_int (sint (audiolevel c)))]"

text \<open>The file is left as it was when it cannot be opened.\<close>

definition ConfigSavePublic :: "settings_env \<Rightarrow> settings \<Rightarrow> settings option" where
  "ConfigSavePublic env s = do {
     d \<leftarrow> iniparser_sets (cfgIni s)
       (stop_entries (theConfig s) (StopTsConfig s) @ local_list_entries (LocalListVer s) (LocalListVal s) @
        config_entries (string_at env) (theConfig s));
     let s = (if setrevh1_flag (theConfig s) \<noteq> 1 then s\<lparr>theConfig := (theConfig s)\<lparr>setrevh1_flag := 0\<rparr>\<rparr> else s);
     d \<leftarrow> iniparser_sets d [(''ctrlboard:setrevh1'', put_int (sint (setrevh1_flag (theConfig s))))];
     let s = backup_run [ConfigSaveBackup] (s\<lparr>cfgIni := d\<rparr>);
     if ini_opens env
     then do {
       f \<leftarrow> iniparser_dump_ini (cfgIni s);
       Some (s\<lparr>ini_file := Some f\<rparr>)
     }
     else Some s
   }"

section \<open>Comparing with the file\<close>

text \<open>\<open>strcpy\<close> of a string of the dictionary.\<close>

definition ini_strcpy :: "dict \<Rightarrow> string \<Rightarrow> string \<Rightarrow> bytes \<Rightarrow> bytes option" where
  "ini_strcpy d key def dst = Option.bind (iniparser_getstring d (str_bytes key) (str_bytes def)) (\<lambda>s. blit dst 0 (s @ [0]))"

text \<open>The second configuration is a local variable without an initial value: \<open>c\<close> is what the memory held.  All of it is read
  from the file, the member \<open>dhcp\<close> excepted, which comes from the dictionary in memory.\<close>

definition verify_read_basic :: "dict \<Rightarrow> Config \<Rightarrow> Config option" where
  "verify_read_basic d c = do {
     x \<leftarrow> ini_str d ''application:configcheck'' ''0'' (configcheck c) 2; let c = c\<lparr>configcheck := x\<rparr>;
     x \<leftarrow> ini_str d ''application:timeinit'' ''1'' (timeinit c) 2; let c = c\<lparr>timeinit := x\<rparr>;
     x \<leftarrow> ini_int d ''basicconfig:ConfirmSelect'' 1; let c = c\<lparr>ConfirmSelect := x\<rparr>;
     x \<leftarrow> ini_str d ''application:authkey'' ''1234567890123456'' (authkey c) 17; let c = c\<lparr>authkey := x\<rparr>;
     x \<leftarrow> ini_int d ''basicconfig:devchanel'' 1; let c = c\<lparr>devchanel := x\<rparr>;
     x \<leftarrow> ini_str d ''basicconfig:devid1'' ''00'' (devid1 c) 3; let c = c\<lparr>devid1 := x\<rparr>;
     x \<leftarrow> ini_str d ''basicconfig:devid2'' ''05'' (devid2 c) 3; let c = c\<lparr>devid2 := x\<rparr>;
     x \<leftarrow> ini_str d ''basicconfig:siteid'' ''00000000'' (siteid c) 9; let c = c\<lparr>siteid := x\<rparr>;
     x \<leftarrow> ini_int d ''basicconfig:devtype'' 4; let c = c\<lparr>devtype := x\<rparr>;
     x \<leftarrow> ini_str d ''basicconfig:adminpassword'' ''7188'' (adminpassword c) 5; let c = c\<lparr>adminpassword := x\<rparr>;
     x \<leftarrow> ini_str d ''basicconfig:gpslat'' ''37.64070'' (gpslat c) 9; let c = c\<lparr>gpslat := x\<rparr>;
     x \<leftarrow> ini_str d '':gpslon'' ''122.57323'' (gpslon c) 10; let c = c\<lparr>gpslon := x\<rparr>;
     x \<leftarrow> ini_int d ''basicconfig:chargingstatus'' 2; let c = c\<lparr>chargingstatus := x\<rparr>;
     Some c
   }"

definition verify_read_net :: "dict \<Rightarrow> dict \<Rightarrow> Config \<Rightarrow> Config option" where
  "verify_read_net old d c = do {
     x \<leftarrow> ini_int old ''tcpip:dhcp'' 1; let c = c\<lparr>dhcp := ucast x\<rparr>;
     x \<leftarrow> ini_str d ''tcpip:chargermac'' ''F0:8B:FE:0F:00:33'' (chargermac c) 18; let c = c\<lparr>chargermac := x\<rparr>;
     x \<leftarrow> ini_str d ''tcpip:ipaddr'' ''192.168.001.240'' (ipaddr c) 16; let c = c\<lparr>ipaddr := x\<rparr>;
     x \<leftarrow> ini_str d ''tcpip:netmask'' ''255.255.255.000'' (netmask c) 16; let c = c\<lparr>netmask := x\<rparr>;
     x \<leftarrow> ini_str d ''tcpip:gw'' ''192.168.001.001'' (gw c) 16; let c = c\<lparr>gw := x\<rparr>;
     x \<leftarrow> ini_str d ''tcpip:dns'' ''192.168.001.001'' (dns c) 16; let c = c\<lparr>dns := x\<rparr>;
     x \<leftarrow> ini_str d ''tcpip:serverip'' ''com-me.tscontech.com'' (serverip c) 21; let c = c\<lparr>serverip := x\<rparr>;
     x \<leftarrow> ini_int d ''tcpip:serverport'' 5000; let c = c\<lparr>serverport := x\<rparr>;
     x \<leftarrow> ini_str d ''tcpip:ftpIp'' ''192.168.001.222'' (ftpIp c) 16; let c = c\<lparr>ftpIp := x\<rparr>;
     x \<leftarrow> ini_str d ''tcpip:ftpId'' ''tsct'' (ftpIp c) 5; let c = c\<lparr>ftpIp := x\<rparr>;
     x \<leftarrow> ini_str d ''tcpip:ftpPw'' ''tsct01340p@'' (ftpIp c) 12; let c = c\<lparr>ftpIp := x\<rparr>;
     Some c
   }"

definition verify_read_board :: "dict \<Rightarrow> Config \<Rightarrow> Config option" where
  "verify_read_board d c = do {
     x \<leftarrow> ini_int d ''ctrlboard:lang'' 0; let c = c\<lparr>lang := x\<rparr>;
     x \<leftarrow> ini_int d ''ctrlboard:brightness'' 8; let c = c\<lparr>brightness := x\<rparr>;
     x \<leftarrow> ini_int d ''ctrlboard:screensaver_time'' 1; let c = c\<lparr>screensaver_time := x\<rparr>;
     x \<leftarrow> ini_int d ''ctrlboard:screensaver_type_home'' 2; let c = c\<lparr>screensaver_type := x\<rparr>;
     x \<leftarrow> ini_strcpy d ''ctrlboard:keysound'' ''key1.wav'' (keysound c); let c = c\<lparr>keysound := x\<rparr>;
     x \<leftarrow> ini_int d ''ctrlboard:keylevel'' 15; let c = c\<lparr>keylevel := x\<rparr>;
     x \<leftarrow> ini_int d ''ctrlboard:audiolevel'' 15; let c = c\<lparr>audiolevel := x\<rparr>;
     Some c
   }"

definition verify_compare :: "Config \<Rightarrow> Config \<Rightarrow> bool option" where
  "verify_compare c2 c = do {
     d1 \<leftarrow> strcmp_diff (configcheck c2) (configcheck c);
     d2 \<leftarrow> strcmp_diff (authkey c2) (authkey c);
     d3 \<leftarrow> strcmp_diff (adminpassword c2) (adminpassword c);
     d4 \<leftarrow> strcmp_diff (chargermac c2) (chargermac c);
     d5 \<leftarrow> strcmp_diff (ipaddr c2) (ipaddr c);
     d6 \<leftarrow> strcmp_diff (netmask c2) (netmask c);
     d7 \<leftarrow> strcmp_diff (gw c2) (gw c);
     d8 \<leftarrow> strcmp_diff (serverip c2) (serverip c);
     d9 \<leftarrow> strcmp_diff (ftpIp c2) (ftpIp c);
     d10 \<leftarrow> strcmp_diff (ftpDns c2) (ftpDns c);
     d11 \<leftarrow> strcmp_diff (ftpId c2) (ftpId c);
     d12 \<leftarrow> strcmp_diff (ftpPw c2) (ftpPw c);
     Some (dhcp c2 \<noteq> dhcp c \<or> d1 \<or> devtype c2 \<noteq> devtype c \<or> ConfirmSelect c2 \<noteq> ConfirmSelect c \<or> d2 \<or> d3 \<or> d4 \<or> d5 \<or>
           d6 \<or> d7 \<or> d8 \<or> serverport c2 \<noteq> serverport c \<or> d9 \<or> d10 \<or> d11 \<or> d12)
   }"

text \<open>The result is 0 for no difference, 1 for a difference and -1 when the file cannot be read.\<close>

definition VerifyConfigSave :: "Config \<Rightarrow> settings \<Rightarrow> int option" where
  "VerifyConfigSave theConfig2 s =
     Option.bind (iniparser_load (ini_file s)) (\<lambda>r.
       case r of
         None \<Rightarrow> Some (- 1)
       | Some cfgIni2 \<Rightarrow> do {
           theConfig2 \<leftarrow> verify_read_basic cfgIni2 theConfig2;
           theConfig2 \<leftarrow> verify_read_net (cfgIni s) cfgIni2 theConfig2;
           theConfig2 \<leftarrow> verify_read_board cfgIni2 theConfig2;
           d \<leftarrow> verify_compare theConfig2 (theConfig s);
           Some (if d then 1 else 0)
         })"

text \<open>The memory is that of the two calls of \<open>VerifyConfigSave\<close>.  The second comparison only counts its failures.\<close>

definition ConfigSaveTask :: "settings_env \<Rightarrow> Config \<Rightarrow> settings \<Rightarrow> settings option" where
  "ConfigSaveTask env mem s = do {
     s \<leftarrow> ConfigSavePublic env s;
     ret \<leftarrow> VerifyConfigSave mem s;
     Some s
   }"

definition ConfigSave :: "settings_env \<Rightarrow> Config \<Rightarrow> Config \<Rightarrow> settings \<Rightarrow> settings option" where
  "ConfigSave env mem mem' s = do {
     bSave \<leftarrow> VerifyConfigSave mem s;
     if bSave \<noteq> 0 then ConfigSaveTask env mem' s else Some s
   }"

definition CST_EVTFileSend :: "settings_env \<Rightarrow> Config \<Rightarrow> Config \<Rightarrow> u16 \<Rightarrow> u32 \<Rightarrow> u8 \<Rightarrow> settings \<Rightarrow> settings option" where
  "CST_EVTFileSend env mem mem' nEvent pBuf len s =
     (if client_init s
      then Some (s\<lparr>CstFileEvtQ := CST_AddFileEvent \<lparr>ev_type = nEvent, Buff = pBuf, Length = len\<rparr> (CstFileEvtQ s)\<rparr>)
      else if nEvent = CST_FILE_INI_SAVE then ConfigSave env mem mem' s
      else if nEvent = CST_FILE_INI_BAKCUP then Some (backup_run [ConfigSaveBackup, ConfigSaveBackupDump] s)
      else Some s)"

section \<open>First values\<close>

definition first_config :: "Config \<Rightarrow> Config option" where
  "first_config c = do {
     x \<leftarrow> blit (configcheck c) 0 (str_bytes ''2''); let c = c\<lparr>configcheck := x\<rparr>;
     x \<leftarrow> blit (devid1 c) 0 (str_bytes ''00''); let c = c\<lparr>devid1 := x\<rparr>;
     x \<leftarrow> blit (devid2 c) 0 (str_bytes ''04''); let c = c\<lparr>devid2 := x\<rparr>;
     x \<leftarrow> blit (siteid c) 0 (str_bytes ''00000000''); let c = c\<lparr>siteid := x, devtype := BC_TYPE, devchanel := 2\<rparr>;
     x \<leftarrow> blit (adminpassword c) 0 (str_bytes ''2843''); let c = c\<lparr>adminpassword := x\<rparr>;
     x \<leftarrow> blit (gpslat c) 0 (str_bytes ''37.76555''); let c = c\<lparr>gpslat := x\<rparr>;
     x \<leftarrow> blit (gpslon c) 0 (str_bytes ''128.45454''); let c = c\<lparr>gpslon := x\<rparr>;
     x \<leftarrow> sprintf_str (chargermac c) ''F0:8B:FE:0F:00:00''; let c = c\<lparr>chargermac := x\<rparr>;
     x \<leftarrow> sprintf_str (ipaddr c) ''192.168.001.208''; let c = c\<lparr>ipaddr := x\<rparr>;
     x \<leftarrow> blit (netmask c) 0 (str_bytes ''255.255.255.000''); let c = c\<lparr>netmask := x\<rparr>;
     x \<leftarrow> sprintf_str (gw c) ''192.168.001.001''; let c = c\<lparr>gw := x\<rparr>;
     x \<leftarrow> sprintf_str (serverip c) ''com-me.tscontech.com''; let c = c\<lparr>serverip := x, serverport := 5000\<rparr>;
     x \<leftarrow> blit (ftpIp c) 0 (str_bytes ''192.168.0.100'' @ [0, 0x20, 0x20]); let c = c\<lparr>ftpIp := x\<rparr>;
     x \<leftarrow> sprintf_str (ftpDns c) ''csms-ftp.tscontech.com''; let c = c\<lparr>ftpDns := x\<rparr>;
     x \<leftarrow> sprintf_str (ftpId c) ''cptsct''; let c = c\<lparr>ftpId := x\<rparr>;
     x \<leftarrow> sprintf_str (ftpPw c) ''cp01340''; let c = c\<lparr>ftpPw := x\<rparr>;
     x \<leftarrow> sprintf_str (chkModeMac c) ''9012A100CB12'';
     Some (c\<lparr>setrevh1_flag := 0, ConfirmSelect := 1, screensaver_time := 10, screensaver_type := 2, dhcp := 1, OperationMode := 0,
       FreeChargingTime := 0, targetSoc := 100, chkModeMac := x\<rparr>)
   }"

definition first_stop :: "STOPTSVAL_TYPE \<Rightarrow> STOPTSVAL_TYPE option" where
  "first_stop t = do {
     ts \<leftarrow> sprintf_str (Time_Stamp t) ''2023-10-23T14:05:04.899Z'';
     tag \<leftarrow> sprintf_str (IdTag t) ''0000000000000000'';
     Some \<lparr>TrId = 0, Time_Stamp = ts, MeterStop_Val = 0, IdTag = tag, Stop_Reason = 0, Connector_No = 0\<rparr>
   }"

fun first_local :: "LOCAL_LIS_VAL list \<Rightarrow> LOCAL_LIS_VAL list option" where
  "first_local [] = Some []"
| "first_local (v # vs) = do {
     x \<leftarrow> sprintf_str (Id v) ''00000000000000000000'';
     vs \<leftarrow> first_local vs;
     Some (v\<lparr>Status := 0, Id := x\<rparr> # vs)
   }"

definition SW_MODEL :: bytes where
  "SW_MODEL = str_bytes ''TSCT-2007CP''"

definition ConfigInitSave :: "settings_env \<Rightarrow> Config \<Rightarrow> Config \<Rightarrow> settings \<Rightarrow> settings option" where
  "ConfigInitSave env mem mem' s = do {
     c \<leftarrow> first_config (theConfig s);
     t \<leftarrow> first_stop (StopTsConfig s);
     ls \<leftarrow> first_local (LocalListVal s);
     name \<leftarrow> blit (StrModelName s) 0 (SW_MODEL @ [0]);
     CST_EVTFileSend env mem mem' CST_FILE_INI_SAVE 0 0
       (s\<lparr>theConfig := c, StopTsConfig := t, LocalListVer := 0, LocalListVal := ls, StrModelName := name\<rparr>)
   }"

section \<open>Start-up\<close>

definition read_application :: "dict \<Rightarrow> Config \<Rightarrow> Config option" where
  "read_application d c = do {
     x \<leftarrow> ini_str d ''application:configcheck'' ''0'' (configcheck c) 2; let c = c\<lparr>configcheck := x\<rparr>;
     x \<leftarrow> ini_str d ''application:authkey'' ''1234567890123456'' (authkey c) 17; let c = c\<lparr>authkey := x\<rparr>;
     x \<leftarrow> ini_str d ''application:timeinit'' ''1'' (timeinit c) 2; let c = c\<lparr>timeinit := x\<rparr>;
     x \<leftarrow> ini_int d ''basicconfig:devtype'' 8003; let c = c\<lparr>devtype := x\<rparr>;
     Some c
   }"

definition read_basic :: "dict \<Rightarrow> Config \<Rightarrow> Config option" where
  "read_basic d c = do {
     x \<leftarrow> ini_int d ''basicconfig:devchanel'' 1; let c = c\<lparr>devchanel := x\<rparr>;
     x \<leftarrow> ini_str d ''basicconfig:devid1'' ''00'' (devid1 c) 3; let c = c\<lparr>devid1 := x\<rparr>;
     x \<leftarrow> ini_str d ''basicconfig:devid2'' ''05'' (devid2 c) 3; let c = c\<lparr>devid2 := x\<rparr>;
     x \<leftarrow> ini_str d ''basicconfig:siteid'' ''00000000'' (siteid c) 9; let c = c\<lparr>siteid := x\<rparr>;
     x \<leftarrow> ini_str d ''basicconfig:adminpassword'' ''7188'' (adminpassword c) 5; let c = c\<lparr>adminpassword := x\<rparr>;
     x \<leftarrow> ini_str d ''basicconfig:gpslat'' ''37.64070'' (gpslat c) 9; let c = c\<lparr>gpslat := x\<rparr>;
     x \<leftarrow> ini_str d ''basicconfig:gpslon'' ''122.57323'' (gpslon c) 10; let c = c\<lparr>gpslon := x\<rparr>;
     x \<leftarrow> ini_int d ''basicconfig:chargingstatus'' 2; let c = c\<lparr>chargingstatus := x\<rparr>;
     x \<leftarrow> ini_int d ''basicconfig:ConfirmSelect'' 1; let c = c\<lparr>ConfirmSelect := x\<rparr>;
     x \<leftarrow> ini_int d ''basicconfig:OperationMode'' 0; let c = c\<lparr>OperationMode := x\<rparr>;
     x \<leftarrow> ini_int d ''basicconfig:FreeChargingTime'' 0; let c = c\<lparr>FreeChargingTime := x\<rparr>;
     x \<leftarrow> ini_str d ''basicconfig:chkModeMac'' ''9012A100CB12'' (chkModeMac c) 13; let c = c\<lparr>chkModeMac := x\<rparr>;
     x \<leftarrow> ini_int d ''basicconfig:targetSoc'' 100; let c = c\<lparr>targetSoc := x\<rparr>;
     Some c
   }"

definition read_net :: "dict \<Rightarrow> Config \<Rightarrow> Config option" where
  "read_net d c = do {
     x \<leftarrow> ini_int d ''tcpip:dhcp'' 1; let c = c\<lparr>dhcp := ucast x\<rparr>;
     x \<leftarrow> ini_str d ''tcpip:chargermac'' ''F0:8B:FE:0F:00:33'' (chargermac c) 18; let c = c\<lparr>chargermac := x\<rparr>;
     x \<leftarrow> ini_str d ''tcpip:ipaddr'' ''192.168.001.240'' (ipaddr c) 16; let c = c\<lparr>ipaddr := x\<rparr>;
     x \<leftarrow> ini_str d ''tcpip:netmask'' ''255.255.255.000'' (netmask c) 16; let c = c\<lparr>netmask := x\<rparr>;
     x \<leftarrow> ini_str d ''tcpip:gw'' ''192.168.001.001'' (gw c) 16; let c = c\<lparr>gw := x\<rparr>;
     x \<leftarrow> ini_str d ''tcpip:dns'' ''192.168.001.001'' (dns c) 16; let c = c\<lparr>dns := x\<rparr>;
     x \<leftarrow> ini_str d ''tcpip:serverip'' ''com-me.tscontech.com'' (serverip c) 70; let c = c\<lparr>serverip := x\<rparr>;
     x \<leftarrow> ini_int d ''tcpip:serverport'' 5000; let c = c\<lparr>serverport := x\<rparr>;
     x \<leftarrow> ini_str d ''tcpip:ftpIp'' ''192.168.001.222'' (ftpIp c) 16; let c = c\<lparr>ftpIp := x\<rparr>;
     x \<leftarrow> ini_str d ''tcpip:ftpDns'' ''csms-ftp.tscontech.com'' (ftpDns c) 70; let c = c\<lparr>ftpDns := x\<rparr>;
     x \<leftarrow> ini_str d ''tcpip:ftpId'' ''cptsct'' (ftpId c) 10; let c = c\<lparr>ftpId := x\<rparr>;
     x \<leftarrow> ini_str d ''tcpip:ftpPw'' ''tsct01340p@'' (ftpPw c) 16; let c = c\<lparr>ftpPw := x\<rparr>;
     Some c
   }"

definition read_board :: "dict \<Rightarrow> Config \<Rightarrow> Config option" where
  "read_board d c = do {
     x \<leftarrow> ini_int d ''ctrlboard:lang'' 0; let c = c\<lparr>lang := x\<rparr>;
     x \<leftarrow> ini_int d ''ctrlboard:brightness'' 8; let c = c\<lparr>brightness := x\<rparr>;
     x \<leftarrow> ini_int d ''ctrlboard:screensaver_time'' 1; let c = c\<lparr>screensaver_time := x\<rparr>;
     x \<leftarrow> ini_int d ''ctrlboard:screensaver_type'' 2; let c = c\<lparr>screensaver_type := x\<rparr>;
     x \<leftarrow> ini_strcpy d ''ctrlboard:keysound'' ''key1.wav'' (keysound c); let c = c\<lparr>keysound := x\<rparr>;
     x \<leftarrow> ini_int d ''ctrlboard:keylevel'' 15; let c = c\<lparr>keylevel := x\<rparr>;
     x \<leftarrow> ini_int d ''ctrlboard:audiolevel'' 15; let c = c\<lparr>audiolevel := x\<rparr>;
     x \<leftarrow> ini_int d ''ctrlboard:setrevh1'' 0; let c = c\<lparr>setrevh1_flag := x\<rparr>;
     Some c
   }"

definition read_stop :: "dict \<Rightarrow> STOPTSVAL_TYPE \<Rightarrow> STOPTSVAL_TYPE option" where
  "read_stop d t = do {
     con \<leftarrow> ini_int d ''application:con_no'' 0;
     tr \<leftarrow> iniparser_getint d (str_bytes ''application:trid'') 0;
     ts \<leftarrow> ini_str d ''application:time_stamp'' ''2023-10-23T14:05:04.899Z'' (Time_Stamp t) 50;
     mv \<leftarrow> ini_int d ''application:meter_stop'' 0;
     tag \<leftarrow> ini_str d ''application:idtag'' ''0000000000000000'' (IdTag t) 21;
     r \<leftarrow> ini_int d ''application:stop_reason'' 0;
     Some \<lparr>TrId = word_of_int tr, Time_Stamp = ts, MeterStop_Val = mv, IdTag = tag, Stop_Reason = r, Connector_No = ucast con\<rparr>
   }"

text \<open>The status is looked up under \<open>application:\<close>, the identifier under \<open>ocpp:\<close>; \<open>i\<close> counts the entries.\<close>

fun read_local :: "dict \<Rightarrow> nat \<Rightarrow> LOCAL_LIS_VAL list \<Rightarrow> LOCAL_LIS_VAL list option" where
  "read_local d i [] = Some []"
| "read_local d i (v # vs) = do {
     st \<leftarrow> ini_int d (''application:local_list_'' @ [char_of (0x31 + i)] @ ''_status'') 0;
     x \<leftarrow> ini_str d (local_list_key i ''_id'') ''00000000000000000000'' (Id v) 21;
     vs \<leftarrow> read_local d (Suc i) vs;
     Some (v\<lparr>Status := ucast st, Id := x\<rparr> # vs)
   }"

definition read_settings :: "dict \<Rightarrow> settings \<Rightarrow> settings option" where
  "read_settings d s = do {
     c \<leftarrow> read_application d (theConfig s);
     v \<leftarrow> sprintf_str (applver c) ''V2.2.3T'';
     let c = (if devtype c = C_TYPE then c\<lparr>applver := v\<rparr> else c\<lparr>applver := v, devtype := BC_TYPE\<rparr>);
     name \<leftarrow> blit (StrModelName s) 0 (SW_MODEL @ [0]);
     c \<leftarrow> read_basic d c;
     t \<leftarrow> read_stop d (StopTsConfig s);
     ver \<leftarrow> ini_int d ''ocpp:local_list_ver'' 0;
     ls \<leftarrow> read_local d 0 (LocalListVal s);
     c \<leftarrow> read_net d c;
     c \<leftarrow> read_board d c;
     let c = c\<lparr>devchanel := if devtype c = B_TYPE \<or> devtype c = HC_TYPE \<or> devtype c = C_TYPE then 1 else 2\<rparr>;
     Some (s\<lparr>theConfig := c, StrModelName := name, StopTsConfig := t, LocalListVer := ver, LocalListVal := ls\<rparr>)
   }"

text \<open>\<open>keysound\<close> has the size of the path buffer.  Without a readable file the dictionary is new, and \<open>ConfigInitSave\<close> fills it.\<close>

definition new_dictionary :: dict where
  "new_dictionary = [(str_bytes ''application'', None), (str_bytes ''basicconfig'', None), (str_bytes ''tcpip'', None), (str_bytes ''ctrlboard'', None)]"

definition empty_queue :: file_queue where
  "empty_queue = \<lparr>q_head = 0, q_tail = 0, q_event = replicate 32 \<lparr>ev_type = 0, Buff = 0, Length = 0\<rparr>\<rparr>"

definition ConfigInit :: "settings_env \<Rightarrow> Config \<Rightarrow> Config \<Rightarrow> settings \<Rightarrow> settings option" where
  "ConfigInit env mem mem' s = do {
     r \<leftarrow> iniparser_load (ini_file s);
     s \<leftarrow> (case r of
            Some d \<Rightarrow> Some (s\<lparr>cfgIni := d\<rparr>)
          | None \<Rightarrow> ConfigInitSave env mem mem' (s\<lparr>cfgIni := new_dictionary, ini_file := None\<rparr>));
     s \<leftarrow> read_settings (cfgIni s) s;
     let s = s\<lparr>CstFileEvtQ := empty_queue\<rparr>;
     let s = (if configcheck (theConfig s) ! 0 = 0x32 then backup_run [ConfigSaveBackupDump] s else s);
     Some (s\<lparr>bTestModeOn := False\<rparr>)
   }"

end
