(* ===== verification/Ini_Thms.thy ===== *)
theory Ini_Thms
  imports Ini
begin

text \<open>What is written into an initialisation file is read back: lines, files, and numbers.\<close>

section \<open>Dictionary\<close>

lemma map_of_set [simp]: "map_of (dictionary_set d k v) = (map_of d)(k \<mapsto> v)"
  by (induction d k v rule: dictionary_set.induct) auto

lemma distinct_set: "distinct (map fst d) \<Longrightarrow> distinct (map fst (dictionary_set d k v))"
proof -
  have "fst ` set (dictionary_set d k v) = insert k (fst ` set d)" for d
    by (induction d k v rule: dictionary_set.induct) auto
  then show "distinct (map fst d) \<Longrightarrow> distinct (map fst (dictionary_set d k v))"
    by (induction d k v rule: dictionary_set.induct) auto
qed

section \<open>Clean words, values and lines\<close>

definition ini_word :: "bytes \<Rightarrow> bool" where
  "ini_word k \<longleftrightarrow> k \<noteq> [] \<and> \<not> is_space (hd k) \<and> \<not> is_space (last k) \<and> map to_lower k = k \<and>
     (\<forall>c\<in>set k. c \<noteq> 0 \<and> c \<noteq> newline \<and> c \<noteq> equals \<and> c \<noteq> 0x5D) \<and> \<not> starts_comment (hd k) \<and> hd k \<noteq> 0x5B"

definition ini_value :: "bytes \<Rightarrow> bool" where
  "ini_value v \<longleftrightarrow> (\<forall>c\<in>set v. c \<noteq> 0 \<and> c \<noteq> newline \<and> \<not> starts_comment c) \<and>
     (v \<noteq> [] \<longrightarrow> \<not> is_space (hd v) \<and> \<not> is_space (last v) \<and> hd v \<noteq> quote2 \<and> hd v \<noteq> quote1 \<and> last v \<noteq> backslash)"

lemma ini_word_equals: "ini_word k \<Longrightarrow> c \<in> set k \<Longrightarrow> c \<noteq> equals"
  unfolding ini_word_def by blast

lemma is_space_20 [simp]: "is_space 0x20" "is_space newline" "\<not> is_space equals" "\<not> is_space 0x5B" "\<not> is_space 0x5D"
  by (simp_all add: is_space_def)

lemma rstrip_end: "xs \<noteq> [] \<Longrightarrow> \<not> is_space (last xs) \<Longrightarrow> rstrip xs = xs"
  by (cases xs rule: rev_cases) (simp_all add: rstrip_def)

lemma rstrip_snoc: "is_space x \<Longrightarrow> rstrip (xs @ [x]) = rstrip xs"
  by (simp add: rstrip_def)

lemma rstrip_spaces [simp]: "rstrip (xs @ replicate n 0x20) = rstrip xs"
  by (induction n) (simp_all add: rstrip_snoc replicate_append_same [symmetric] flip: append_assoc)

lemma strstrip_word: "xs \<noteq> [] \<Longrightarrow> \<not> is_space (hd xs) \<Longrightarrow> \<not> is_space (last xs) \<Longrightarrow> strstrip xs = xs"
  by (cases xs) (simp_all add: strstrip_def rstrip_end)

lemma strstrip_pad:
  assumes "ini_word k"
  shows "strstrip (pad30 k @ [0x20]) = k"
proof -
  obtain c cs where k: "k = c # cs" using assms by (cases k) (auto simp: ini_word_def)
  have "dropWhile is_space (pad30 k @ [0x20]) = k @ replicate (Suc (30 - length k)) 0x20"
    using assms by (simp add: k pad30_def ini_word_def replicate_append_same)
  then show ?thesis using assms by (simp add: strstrip_def rstrip_end ini_word_def del: replicate_Suc)
qed

lemma take_key:
  assumes "ini_word k"
  shows "takeWhile (\<lambda>c. c \<noteq> equals) (pad30 k @ 0x20 # equals # v) = pad30 k @ [0x20]"
    "dropWhile (\<lambda>c. c \<noteq> equals) (pad30 k @ 0x20 # equals # v) = equals # v"
proof -
  have c: "x \<noteq> equals" if "x \<in> set (pad30 k @ [0x20])" for x
    using that ini_word_equals [OF assms] by (auto simp: pad30_def)
  have "takeWhile (\<lambda>c. c \<noteq> equals) ((pad30 k @ [0x20]) @ equals # v) = pad30 k @ [0x20]"
    by (subst takeWhile_append2) (erule c, simp)
  moreover have "dropWhile (\<lambda>c. c \<noteq> equals) ((pad30 k @ [0x20]) @ equals # v) = equals # v"
    by (subst dropWhile_append2) (erule c, simp)
  ultimately show "takeWhile (\<lambda>c. c \<noteq> equals) (pad30 k @ 0x20 # equals # v) = pad30 k @ [0x20]"
    "dropWhile (\<lambda>c. c \<noteq> equals) (pad30 k @ 0x20 # equals # v) = equals # v" by simp_all
qed

lemma scan_key:
  "ini_word k \<Longrightarrow> scan_set (\<lambda>c. c \<noteq> equals) (pad30 k @ 0x20 # equals # v) = Some (pad30 k @ [0x20], equals # v)"
  by (simp add: scan_set_def take_key)

lemma line_key_pad: "ini_word k \<Longrightarrow> length k < len \<Longrightarrow> line_key len (pad30 k @ [0x20]) = k"
  by (simp add: line_key_def strstrip_pad strlwc_def ini_word_def)

lemma scan_all: "(\<forall>c\<in>set v. P c) \<Longrightarrow> v \<noteq> [] \<Longrightarrow> scan_set P v = Some (v, [])"
  by (simp add: scan_set_def takeWhile_eq_all_conv [THEN iffD2] dropWhile_eq_Nil_conv [THEN iffD2])

text \<open>The line for an entry.\<close>

definition entry_line :: "bytes \<Rightarrow> bytes \<Rightarrow> bytes" where
  "entry_line k v = pad30 k @ [0x20, equals, 0x20] @ v"

text \<open>What the formats find in a line with the given rest after the equality sign.\<close>

lemma scan_entry:
  assumes "ini_word k" "ini_value v" "dropWhile is_space w = v"
  defines "l \<equiv> pad30 k @ 0x20 # equals # w"
  shows "scan_quoted quote2 l = None" "scan_quoted quote1 l = None"
    "v \<noteq> [] \<Longrightarrow> scan_value (\<lambda>c. \<not> starts_comment c) l = Some (pad30 k @ [0x20], v)"
    "v = [] \<Longrightarrow> scan_value P l = None"
    "scan_empty l = Some (pad30 k @ [0x20])"
proof -
  note k = scan_key [OF assms(1), of w, folded l_def]
  have q: "scan_char quote2 v = None" "scan_char quote1 v = None"
    using assms(2) by (cases v; simp add: scan_char_def ini_value_def)+
  show "scan_quoted quote2 l = None" "scan_quoted quote1 l = None"
    by (simp_all add: scan_quoted_def k scan_char_def [of equals] assms(3) q)
  show "v \<noteq> [] \<Longrightarrow> scan_value (\<lambda>c. \<not> starts_comment c) l = Some (pad30 k @ [0x20], v)"
    using assms(2) scan_all [of v "\<lambda>c. \<not> starts_comment c"]
    by (simp add: scan_value_def k scan_char_def assms(3) ini_value_def del: de_Morgan_disj)
  show "v = [] \<Longrightarrow> scan_value P l = None" by (simp add: scan_value_def k scan_char_def assms(3)) (simp add: scan_set_def)
  show "scan_empty l = Some (pad30 k @ [0x20])" by (simp add: scan_empty_def k) (simp add: scan_set_def)
qed

lemma line_value_clean: "ini_value v \<Longrightarrow> v \<noteq> [] \<Longrightarrow> line_value v = v"
  using strstrip_word [of v]
  by (cases "v = [quote2, quote2]"; cases "v = [quote1, quote1]"; simp add: line_value_def ini_value_def Let_def)

lemma entry_rstrip:
  assumes "ini_value v"
  shows "rstrip (entry_line k v) = pad30 k @ 0x20 # equals # (if v = [] then [] else 0x20 # v)"
proof (cases "v = []")
  case True
  have "rstrip ((pad30 k @ [0x20, equals]) @ [0x20]) = pad30 k @ [0x20, equals]"
    by (subst rstrip_snoc) (simp_all add: rstrip_end)
  then show ?thesis using True by (simp add: entry_line_def)
next
  case False
  then show ?thesis using assms by (simp add: entry_line_def rstrip_end ini_value_def)
qed

lemma line_of_entry:
  assumes "ini_word k" "ini_value v"
  shows "iniparser_line (rstrip (entry_line k v)) sec = (LINE_VALUE, sec, k, v)"
proof -
  obtain w where w: "rstrip (entry_line k v) = pad30 k @ 0x20 # equals # w" "dropWhile is_space w = v" "w \<noteq> [] \<longrightarrow> \<not> is_space (last w)"
    using entry_rstrip [OF assms(2), of k] assms(2) by (cases v) (auto simp: ini_value_def)
  define l where "l = pad30 k @ 0x20 # equals # w"
  obtain c cs where k: "k = c # cs" using assms(1) by (cases k) (auto simp: ini_word_def)
  have hd: "hd l = c" "\<not> is_space c" "\<not> starts_comment c" "c \<noteq> 0x5B" using assms(1) by (auto simp: l_def k pad30_def ini_word_def)
  have ne: "l \<noteq> []" "length k < length l" by (simp_all add: l_def pad30_def)
  have "last l = (if w = [] then equals else last w)" by (simp add: l_def)
  then have st: "strstrip l = l" using hd w(3) ne by (intro strstrip_word) auto
  note sc = scan_entry [OF assms w(2), folded l_def] and key = line_key_pad [OF assms(1) ne(2)]
  have "iniparser_line l sec = (LINE_VALUE, sec, k, v)"
  proof (cases "v = []")
    case True
    then show ?thesis using hd ne sc(1,2,4,5) key by (simp add: iniparser_line_def st Let_def del: de_Morgan_disj)
  next
    case False
    then show ?thesis using hd ne sc(1,2,3) key line_value_clean [OF assms(2)] by (simp add: iniparser_line_def st Let_def del: de_Morgan_disj)
  qed
  then show ?thesis by (simp add: w(1) l_def)
qed

lemma line_of_section:
  assumes "ini_word s"
  shows "iniparser_line (0x5B # s @ [0x5D]) sec = (LINE_SECTION, s, [], [])"
proof -
  have st: "strstrip (0x5B # s @ [0x5D]) = 0x5B # s @ [0x5D]" by (intro strstrip_word) simp_all
  have "\<forall>c\<in>set s. c \<noteq> 0x5D" using assms by (auto simp: ini_word_def)
  then have "takeWhile (\<lambda>c. c \<noteq> 0x5D) (s @ [0x5D]) = s" by (subst takeWhile_append2) auto
  then have "line_section (length (0x5B # s @ [0x5D])) (0x5B # s @ [0x5D]) sec = s"
    using assms strstrip_word [of s] by (simp add: line_section_def scan_set_def strlwc_def ini_word_def)
  then show ?thesis by (simp add: iniparser_line_def st Let_def)
qed

section \<open>Files\<close>

definition ini_line :: "bytes \<Rightarrow> bool" where
  "ini_line l \<longleftrightarrow> newline \<notin> set l \<and> 0 \<notin> set l \<and> length l \<le> 1022 \<and> (rstrip l \<noteq> [] \<longrightarrow> last (rstrip l) \<noteq> backslash)"

definition unlines :: "bytes list \<Rightarrow> bytes" where
  "unlines ls = concat (map (\<lambda>l. l @ [newline]) ls)"

lemma load_lines_Nil [simp]: "load_lines pend st [] = Some (Some st)"
  by (simp add: load_lines.simps)

lemma fgets_line:
  assumes "ini_line l"
  shows "fgets_chunk 1024 (l @ newline # rest) = l @ [newline]"
proof -
  have n: "x \<noteq> newline" if "x \<in> set l" for x using that assms by (auto simp: ini_line_def)
  have "takeWhile (\<lambda>c. c \<noteq> newline) (l @ newline # rest) = l"
    by (subst takeWhile_append2) (erule n, simp)
  moreover have "length l + 1 \<le> 1023" using assms by (simp add: ini_line_def)
  ultimately show ?thesis by (simp add: fgets_chunk_def)
qed

lemma load_lines_line:
  assumes "ini_line l"
  shows "load_lines [] st (l @ newline # rest) = load_lines [] (if l = [] then st else load_line (rstrip l) st) rest"
proof -
  have "0 \<notin> set (l @ [newline])" using assms by (simp add: ini_line_def)
  then have c: "cstr (l @ [newline]) = l @ [newline]" unfolding cstr_def by (subst takeWhile_eq_all_conv) auto
  show ?thesis
  proof (cases "l = []")
    case True
    then show ?thesis using fgets_line [OF assms, of rest] c by (subst load_lines.simps) (simp add: Let_def)
  next
    case False
    then show ?thesis
      using fgets_line [OF assms, of rest] c assms by (subst load_lines.simps) (auto simp: rstrip_snoc ini_line_def Let_def)
  qed
qed

lemma load_unlines:
  "\<forall>l\<in>set ls. ini_line l \<Longrightarrow>
   load_lines [] st (unlines ls) = Some (Some (fold (\<lambda>l st. if l = [] then st else load_line (rstrip l) st) ls st))"
  by (induction ls arbitrary: st) (simp_all add: unlines_def load_lines_line)

section \<open>The lines of a dictionary\<close>

definition is_section :: "bytes \<Rightarrow> bool" where
  "is_section k \<longleftrightarrow> colon \<notin> set k"

definition sec_of :: "bytes \<Rightarrow> bytes" where
  "sec_of k = takeWhile (\<lambda>c. c \<noteq> colon) k"

definition key_of :: "bytes \<Rightarrow> bytes" where
  "key_of k = tl (dropWhile (\<lambda>c. c \<noteq> colon) k)"

definition val_of :: "bytes option \<Rightarrow> bytes" where
  "val_of v = (case v of None \<Rightarrow> [] | Some s \<Rightarrow> s)"

text \<open>A dictionary that can be written: one entry per key, sections without a value, clean words and values, short lines, and
  at least one section.\<close>

definition ini_entry :: "bytes \<times> bytes option \<Rightarrow> bool" where
  "ini_entry e \<longleftrightarrow>
     (if is_section (fst e) then ini_word (fst e) \<and> length (fst e) \<le> 1000 \<and> snd e = None
      else ini_word (key_of (fst e)) \<and> map to_lower (sec_of (fst e)) = sec_of (fst e) \<and> ini_value (val_of (snd e)) \<and>
        length (key_of (fst e)) + length (val_of (snd e)) \<le> 980)"

definition ini_ok :: "dict \<Rightarrow> bool" where
  "ini_ok d \<longleftrightarrow> distinct (map fst d) \<and> list_all ini_entry d \<and> list_ex (\<lambda>e. is_section (fst e)) d"

lemma sec_key:
  assumes "\<not> is_section k"
  shows "k = sec_of k @ colon # key_of k"
proof -
  have "dropWhile (\<lambda>c. c \<noteq> colon) k \<noteq> []" using assms by (auto simp: is_section_def dropWhile_eq_Nil_conv)
  then obtain c cs where d: "dropWhile (\<lambda>c. c \<noteq> colon) k = c # cs" by (cases "dropWhile (\<lambda>c. c \<noteq> colon) k") simp_all
  have "c = colon" using hd_dropWhile [of "\<lambda>c. c \<noteq> colon" k] d by simp
  then show ?thesis using takeWhile_dropWhile_id [of "\<lambda>c. c \<noteq> colon" k] d by (simp add: sec_of_def key_of_def)
qed

lemma sec_of_section: "is_section k \<Longrightarrow> sec_of k = k"
  by (auto simp: is_section_def sec_of_def takeWhile_eq_all_conv)

lemma section_sec_of [simp]: "is_section (sec_of k)"
  by (auto simp: is_section_def sec_of_def dest: set_takeWhileD)

lemma sec_of_prefix: "is_section s \<Longrightarrow> sec_of (s @ colon # k) = s \<and> key_of (s @ colon # k) = k \<and> \<not> is_section (s @ colon # k)"
proof -
  assume "is_section s"
  then have n: "x \<noteq> colon" if "x \<in> set s" for x using that by (auto simp: is_section_def)
  have "takeWhile (\<lambda>c. c \<noteq> colon) (s @ colon # k) = s" "dropWhile (\<lambda>c. c \<noteq> colon) (s @ colon # k) = colon # k"
    by (subst takeWhile_append2, erule n, simp) (subst dropWhile_append2, erule n, simp)
  then show ?thesis by (simp add: sec_of_def key_of_def is_section_def)
qed

lemma keym_iff:
  assumes "is_section s"
  shows "take (length s + 1) k = s @ [colon] \<longleftrightarrow> \<not> is_section k \<and> sec_of k = s"
proof
  assume t: "take (length s + 1) k = s @ [colon]"
  have "k = take (length s + 1) k @ drop (length s + 1) k" by simp
  then have k: "k = s @ colon # drop (length s + 1) k" unfolding t by simp
  show "\<not> is_section k \<and> sec_of k = s" by (subst (1 2) k) (simp add: sec_of_prefix [OF assms])
next
  assume a: "\<not> is_section k \<and> sec_of k = s"
  have "k = s @ colon # key_of k" using sec_key [of k] a by simp
  then have "take (length s + 1) k = take (length s + 1) (s @ colon # key_of k)" by (rule arg_cong)
  then show "take (length s + 1) k = s @ [colon]" by simp
qed

lemma drop_keym:
  assumes "\<not> is_section k"
  shows "drop (length (sec_of k) + 1) k = key_of k"
proof -
  have "drop (length (sec_of k) + 1) (sec_of k @ colon # key_of k) = key_of k" by simp
  then show ?thesis using sec_key [OF assms] by simp
qed

section \<open>Writing and reading\<close>

definition secs :: "dict \<Rightarrow> bytes list" where
  "secs d = map fst (filter (\<lambda>e. is_section (fst e)) d)"

definition members :: "dict \<Rightarrow> bytes \<Rightarrow> dict" where
  "members d s = filter (\<lambda>e. \<not> is_section (fst e) \<and> sec_of (fst e) = s) d"

definition sec_lines :: "dict \<Rightarrow> bytes \<Rightarrow> bytes list" where
  "sec_lines d s = [] # (0x5B # s @ [0x5D]) # map (\<lambda>e. entry_line (key_of (fst e)) (val_of (snd e))) (members d s) @ [[]]"

lemma unlines_simps [simp]: "unlines [] = []" "unlines (l # ls) = l @ newline # unlines ls" "unlines (ls @ ms) = unlines ls @ unlines ms"
  by (simp_all add: unlines_def)

lemma unlines_concat: "unlines (concat lss) = concat (map unlines lss)"
  by (induction lss) simp_all

lemma dump_entry_line: "dump_entry k v = unlines [entry_line k (val_of v)]"
  by (simp add: dump_entry_def entry_line_def val_of_def)

lemma members_text:
  assumes "is_section s"
  shows "concat (map (\<lambda>(k, v). if take (length (s @ [colon])) k = s @ [colon] then dump_entry (drop (length (s @ [colon])) k) v else []) d) =
    unlines (map (\<lambda>e. entry_line (key_of (fst e)) (val_of (snd e))) (members d s))"
proof (induction d)
  case (Cons e d)
  obtain k v where e: "e = (k, v)" by (cases e)
  show ?case
  proof (cases "\<not> is_section k \<and> sec_of k = s")
    case True
    then show ?thesis using keym_iff [OF assms, of k] drop_keym [of k] Cons.IH
      by (simp add: e members_def dump_entry_line del: take_append drop_append)
  next
    case False
    then show ?thesis using keym_iff [OF assms, of k] Cons.IH by (auto simp: e members_def)
  qed
qed (simp add: members_def)

lemma ok_section:
  assumes "ini_ok d" "s \<in> set (secs d)"
  shows "is_section s" "ini_word s" "length s \<le> 1000" "iniparser_find_entry d s"
proof -
  obtain e where e: "e \<in> set d" "fst e = s" "is_section s" using assms(2) by (auto simp: secs_def)
  then have "ini_entry e" using assms(1) by (auto simp: ini_ok_def list_all_iff)
  then show *: "is_section s" "ini_word s" "length s \<le> 1000" using e by (simp_all add: ini_entry_def)
  have "strlwc s (ASCIILINESZ + 1) = s" using * by (simp add: strlwc_def ini_word_def)
  moreover have "s \<in> fst ` set d" using e by auto
  ultimately show "iniparser_find_entry d s" by (simp add: iniparser_find_entry_def map_of_eq_None_iff)
qed

lemma dump_section_text: "ini_ok d \<Longrightarrow> s \<in> set (secs d) \<Longrightarrow> iniparser_dumpsection_ini d s = unlines (sec_lines d s)"
  using ok_section [of d s] members_text [of s d] by (simp add: iniparser_dumpsection_ini_def sec_lines_def Let_def)

lemma dump_text:
  assumes "ini_ok d"
  shows "iniparser_dump_ini d = Some (unlines (concat (map (sec_lines d) (secs d)) @ [[]]))"
proof -
  have n: "iniparser_getnsec d = length (secs d)" "iniparser_getsecname d i = secs d ! i" if "i < length (secs d)" for i
    using that by (simp_all add: iniparser_getnsec_def iniparser_getsecname_def secs_def is_section_def)
  have "secs d \<noteq> []" using assms by (auto simp: ini_ok_def secs_def list_ex_iff filter_empty_conv)
  then have l: "0 < length (secs d)" by simp
  have "map (\<lambda>i. iniparser_dumpsection_ini d (iniparser_getsecname d i)) [0..<length (secs d)] = map (\<lambda>i. unlines (sec_lines d (secs d ! i))) [0..<length (secs d)]"
    using n(2) dump_section_text [OF assms] by simp
  also have "\<dots> = map (\<lambda>s. unlines (sec_lines d s)) (secs d)" by (rule nth_equalityI) simp_all
  finally show ?thesis using n(1) [OF l] l by (simp add: iniparser_dump_ini_def unlines_concat comp_def)
qed

lemma entry_ini_line:
  assumes "ini_word k" "ini_value v" "length k + length v \<le> 980"
  shows "ini_line (entry_line k v)" "entry_line k v \<noteq> []"
proof -
  have "length (entry_line k v) \<le> 1022" using assms(3) by (simp add: entry_line_def pad30_def)
  moreover have "newline \<notin> set (entry_line k v)" "0 \<notin> set (entry_line k v)"
    using assms(1,2) unfolding ini_word_def ini_value_def by (auto simp: entry_line_def pad30_def)
  moreover have "last (rstrip (entry_line k v)) \<noteq> backslash"
    using assms(2) by (simp add: entry_rstrip ini_value_def)
  ultimately show "ini_line (entry_line k v)" by (simp add: ini_line_def)
qed (simp add: entry_line_def)

lemma member_entry:
  assumes "ini_ok d" "e \<in> set (members d s)"
  shows "ini_word (key_of (fst e))" "ini_value (val_of (snd e))" "length (key_of (fst e)) + length (val_of (snd e)) \<le> 980"
    "s @ colon # key_of (fst e) = fst e"
  using assms sec_key [of "fst e"] by (auto simp: members_def ini_ok_def list_all_iff ini_entry_def)

lemma sec_lines_ok: "ini_ok d \<Longrightarrow> s \<in> set (secs d) \<Longrightarrow> l \<in> set (sec_lines d s) \<Longrightarrow> ini_line l"
proof -
  assume ok: "ini_ok d" "s \<in> set (secs d)" "l \<in> set (sec_lines d s)"
  have "ini_line []" by (simp add: ini_line_def rstrip_def)
  moreover have "ini_line (0x5B # s @ [0x5D])"
    using ok_section [OF ok(1,2)] unfolding ini_word_def by (auto simp: ini_line_def rstrip_end)
  ultimately show "ini_line l" using ok(3) member_entry [OF ok(1)] entry_ini_line(1) by (auto simp: sec_lines_def)
qed

definition read_line :: "bytes \<Rightarrow> dict \<times> bytes \<times> nat \<Rightarrow> dict \<times> bytes \<times> nat" where
  "read_line l st = (if l = [] then st else load_line (rstrip l) st)"

text \<open>What reading the lines of a section does to the dictionary.\<close>

definition put_members :: "dict \<Rightarrow> dict \<Rightarrow> dict" where
  "put_members es D = fold (\<lambda>e D. dictionary_set D (fst e) (Some (val_of (snd e)))) es D"

lemma read_members:
  assumes "\<forall>e\<in>set es. ini_word (key_of (fst e)) \<and> ini_value (val_of (snd e)) \<and> s @ colon # key_of (fst e) = fst e"
  shows "fold read_line (map (\<lambda>e. entry_line (key_of (fst e)) (val_of (snd e))) es) (D, s, n) = (put_members es D, s, n)"
  using assms
proof (induction es arbitrary: D)
  case (Cons e es)
  have "read_line (entry_line (key_of (fst e)) (val_of (snd e))) (D, s, n) = (dictionary_set D (fst e) (Some (val_of (snd e))), s, n)"
    using Cons.prems line_of_entry [of "key_of (fst e)" "val_of (snd e)" s]
    by (simp add: read_line_def load_line_def) (simp add: entry_line_def)
  then show ?case using Cons by (simp add: put_members_def)
qed (simp add: put_members_def)

lemma read_section:
  assumes "ini_ok d" "s \<in> set (secs d)"
  shows "fold read_line (sec_lines d s) (D, sec, n) = (put_members (members d s) (dictionary_set D s None), s, n)"
proof -
  have "rstrip (0x5B # s @ [0x5D]) = 0x5B # s @ [0x5D]" by (simp add: rstrip_end)
  then have "read_line (0x5B # s @ [0x5D]) (D, sec, n) = (dictionary_set D s None, s, n)"
    using ok_section [OF assms] by (simp add: read_line_def load_line_def line_of_section)
  moreover have "read_line [] st = st" for st by (simp add: read_line_def)
  ultimately show ?thesis
    using read_members [of "members d s" s "dictionary_set D s None" n] member_entry [OF assms(1)] by (simp add: sec_lines_def)
qed

lemma map_of_members:
  "distinct (map fst es) \<Longrightarrow> map_of (put_members es D) x = (if x \<in> fst ` set es then Some (Some (val_of (the (map_of es x)))) else map_of D x)"
proof (induction es arbitrary: D)
  case (Cons e es)
  then show ?case by (cases e) (auto simp: put_members_def)
qed (simp add: put_members_def)

lemma map_of_section:
  assumes "ini_ok d" "is_section s"
  shows "map_of (put_members (members d s) (dictionary_set D s None)) x =
    (if x = s then Some None
     else if \<not> is_section x \<and> sec_of x = s \<and> x \<in> fst ` set d then Some (Some (val_of (the (map_of d x)))) else map_of D x)"
proof -
  have dist: "distinct (map fst d)" using assms(1) by (simp add: ini_ok_def)
  have dm: "distinct (map fst (members d s))" unfolding members_def using dist by (simp add: distinct_map_filter)
  have mem: "x \<in> fst ` set (members d s) \<longleftrightarrow> \<not> is_section x \<and> sec_of x = s \<and> x \<in> fst ` set d" by (force simp: members_def)
  have "map_of (members d s) x = map_of d x" if m: "x \<in> fst ` set (members d s)"
  proof -
    obtain v where v: "(x, v) \<in> set (members d s)" using m by force
    then have "(x, v) \<in> set d" by (simp add: members_def)
    then show ?thesis using map_of_is_SomeI [OF dm v] map_of_is_SomeI [OF dist] by simp
  qed
  then show ?thesis using map_of_members [OF dm, of "dictionary_set D s None" x] mem assms(2) by auto
qed

lemma read_sections:
  assumes "ini_ok d" "set ss \<subseteq> set (secs d)"
  shows "\<exists>D' sec'. fold read_line (concat (map (sec_lines d) ss)) (D, sec, n) = (D', sec', n) \<and>
    (\<forall>x. map_of D' x = (if sec_of x \<in> set ss \<and> is_section x then Some None
       else if sec_of x \<in> set ss \<and> x \<in> fst ` set d then Some (Some (val_of (the (map_of d x)))) else map_of D x))"
  using assms(2)
proof (induction ss arbitrary: D sec)
  case (Cons s ss)
  let ?D = "put_members (members d s) (dictionary_set D s None)"
  have s: "s \<in> set (secs d)" using Cons.prems by simp
  have sub: "set ss \<subseteq> set (secs d)" using Cons.prems by simp
  obtain D' sec' where r: "fold read_line (concat (map (sec_lines d) ss)) (?D, s, n) = (D', sec', n)"
    "\<forall>x. map_of D' x = (if sec_of x \<in> set ss \<and> is_section x then Some None
       else if sec_of x \<in> set ss \<and> x \<in> fst ` set d then Some (Some (val_of (the (map_of d x)))) else map_of ?D x)"
    using Cons.IH [OF sub, of ?D s] by blast
  have e: "fold read_line (concat (map (sec_lines d) (s # ss))) (D, sec, n) = (D', sec', n)"
    using r(1) read_section [OF assms(1) s, of D sec n] by simp
  have "map_of D' x = (if sec_of x \<in> set (s # ss) \<and> is_section x then Some None
       else if sec_of x \<in> set (s # ss) \<and> x \<in> fst ` set d then Some (Some (val_of (the (map_of d x)))) else map_of D x)" for x
    using r(2) map_of_section [OF assms(1) ok_section(1) [OF assms(1) s], of D x] sec_of_section [of x] ok_section(1) [OF assms(1) s]
    by (cases "is_section x") (auto dest: sec_of_section)
  then show ?case using e by blast
qed simp

lemma written_file_read:
  assumes "ini_ok d"
  shows "\<exists>f d'. iniparser_dump_ini d = Some f \<and> iniparser_load (Some f) = Some (Some d') \<and>
    (\<forall>x. map_of d' x = (if is_section x then (if x \<in> fst ` set d then Some None else None)
       else if x \<in> fst ` set d \<and> sec_of x \<in> fst ` set d then Some (Some (val_of (the (map_of d x)))) else None))"
proof -
  let ?ls = "concat (map (sec_lines d) (secs d)) @ [[]]"
  have ok: "\<forall>l\<in>set ?ls. ini_line l" using sec_lines_ok [OF assms] by (auto simp: ini_line_def rstrip_def)
  have rl: "(\<lambda>l st. if l = [] then st else load_line (rstrip l) st) = read_line" by (simp add: fun_eq_iff read_line_def)
  obtain D sec where r: "fold read_line (concat (map (sec_lines d) (secs d))) ([], [], 0) = (D, sec, 0)"
    "\<forall>x. map_of D x = (if sec_of x \<in> set (secs d) \<and> is_section x then Some None
       else if sec_of x \<in> set (secs d) \<and> x \<in> fst ` set d then Some (Some (val_of (the (map_of d x)))) else None)"
    using read_sections [OF assms order_refl, of "[]" "[]" 0] by auto
  have "load_lines [] ([], [], 0) (unlines ?ls) = Some (Some (D, sec, 0))"
    using load_unlines [OF ok, of "([], [], 0)"] r(1) by (simp add: rl read_line_def [of "[]"])
  then have l: "iniparser_load (Some (unlines ?ls)) = Some (Some D)" by (simp add: iniparser_load_def)
  have mem: "sec_of x \<in> set (secs d) \<longleftrightarrow> sec_of x \<in> fst ` set d" for x by (force simp: secs_def)
  have "map_of D x = (if is_section x then (if x \<in> fst ` set d then Some None else None)
       else if x \<in> fst ` set d \<and> sec_of x \<in> fst ` set d then Some (Some (val_of (the (map_of d x)))) else None)" for x
    using r(2) mem [of x] sec_of_section [of x] by auto
  then show ?thesis using dump_text [OF assms] l by blast
qed

section \<open>Numbers\<close>

lemma digit_w8: "n < 10 \<Longrightarrow> digit_value (w8 (0x30 + n)) = int n \<and> is_digit (w8 (0x30 + n)) \<and> (w8 (0x30 + n) = 0x30 \<longleftrightarrow> n = 0)"
proof -
  have "\<forall>n\<in>{..<10}. digit_value (w8 (0x30 + n)) = int n \<and> is_digit (w8 (0x30 + n)) \<and> (w8 (0x30 + n) = 0x30 \<longleftrightarrow> n = 0)" by code_simp
  then show "n < 10 \<Longrightarrow> digit_value (w8 (0x30 + n)) = int n \<and> is_digit (w8 (0x30 + n)) \<and> (w8 (0x30 + n) = 0x30 \<longleftrightarrow> n = 0)" by blast
qed

lemma dec_nat_form:
  "(\<forall>c\<in>set (dec_nat n). \<exists>m<10. c = w8 (0x30 + m)) \<and> dec_nat n \<noteq> [] \<and> (0 < n \<longrightarrow> hd (dec_nat n) \<noteq> 0x30)"
proof (induction n rule: dec_nat.induct)
  case (1 n)
  show ?case
  proof (cases "n < 10")
    case True
    then show ?thesis using digit_w8 [of n] by (subst (1 2 3) dec_nat.simps) auto
  next
    case False
    have "\<exists>m<10. w8 (0x30 + n mod 10) = w8 (0x30 + m)" by (intro exI [of _ "n mod 10"]) simp
    then show ?thesis using 1 [OF False] False by (subst (1 2 3) dec_nat.simps) (auto simp: hd_append)
  qed
qed

lemma strtol_digits_append:
  "\<forall>c\<in>set xs. digit_value c < base \<Longrightarrow> strtol_digits base acc (xs @ ys) = strtol_digits base (strtol_digits base acc xs) ys"
  by (induction xs arbitrary: acc) simp_all

lemma strtol_digits_dec: "strtol_digits 10 0 (dec_nat n) = int n"
proof (induction n rule: dec_nat.induct)
  case (1 n)
  show ?case
  proof (cases "n < 10")
    case True
    then show ?thesis using digit_w8 [of n] by (subst dec_nat.simps) simp
  next
    case False
    have d: "\<forall>c\<in>set (dec_nat (n div 10)). digit_value c < 10" using dec_nat_form [of "n div 10"] digit_w8 by fastforce
    have "int n = 10 * int (n div 10) + int (n mod 10)" by (metis mult_div_mod_eq of_nat_add of_nat_mult of_nat_numeral)
    then show ?thesis using False 1 [OF False] digit_w8 [of "n mod 10"]
      by (subst dec_nat.simps) (simp add: strtol_digits_append [OF d])
  qed
qed

lemma strtol_unsigned_nonzero: "hd s \<noteq> 0x30 \<Longrightarrow> strtol_unsigned s = strtol_digits 10 0 s"
  by (auto simp: strtol_unsigned_def split: list.splits)

lemma strtol_unsigned_dec: "strtol_unsigned (dec_nat n) = int n"
proof (cases "n = 0")
  case True
  then show ?thesis by (subst dec_nat.simps) (simp add: w8_def strtol_unsigned_def)
next
  case False
  then show ?thesis using dec_nat_form [of n] by (simp add: strtol_unsigned_nonzero strtol_digits_dec)
qed

text \<open>A decimal number is never taken for an octal or a hexadecimal one.\<close>

lemma strtol_fmt_d:
  assumes "- (2 ^ 31) \<le> n" "n < 2 ^ 31"
  shows "strtol (fmt_d n) = n"
proof (cases "n < 0")
  case True
  then show ?thesis using assms by (simp add: fmt_d_def strtol_def strtol_unsigned_dec long_clamp_def is_space_def)
next
  case False
  obtain c cs where c: "dec_nat (nat n) = c # cs" using dec_nat_form [of "nat n"] by (cases "dec_nat (nat n)") auto
  obtain m where m: "m < 10" "c = w8 (0x30 + m)" using dec_nat_form [of "nat n"] by (auto simp: c)
  have "is_digit c" using digit_w8 [OF m(1)] m(2) by simp
  then have "\<not> is_space c" "c \<noteq> 0x2D" "c \<noteq> 0x2B" by (auto simp: is_digit_def is_space_def word_le_nat_alt)
  then show ?thesis using False assms strtol_unsigned_dec [of "nat n"] by (simp add: fmt_d_def strtol_def c long_clamp_def)
qed

lemma digit_clean: "is_digit c \<Longrightarrow> c \<noteq> 0 \<and> c \<noteq> newline \<and> \<not> starts_comment c \<and> \<not> is_space c \<and> c \<noteq> quote2 \<and> c \<noteq> quote1 \<and> c \<noteq> backslash"
  by (auto simp: is_digit_def is_space_def word_le_nat_alt)

lemma fmt_d_clean: "ini_value (fmt_d n)"
proof -
  have d: "is_digit c" if "c \<in> set (dec_nat m)" for c m
  proof -
    have "\<exists>k<10. c = w8 (0x30 + k)" using dec_nat_form [THEN conjunct1] that by (rule bspec)
    then obtain k where "k < 10" "c = w8 (0x30 + k)" by (elim exE conjE)
    then show ?thesis using digit_w8 [of k] by simp
  qed
  have ne: "dec_nat m \<noteq> []" for m using dec_nat_form [of m] by simp
  have h: "is_digit (hd (dec_nat m))" "is_digit (last (dec_nat m))" for m using d [of _ m] ne [of m] by simp_all
  have v: "ini_value (dec_nat m)" for m
    unfolding ini_value_def using digit_clean [OF d [of _ m]] digit_clean [OF h(1)] digit_clean [OF h(2)] by blast
  have "ini_value (0x2D # dec_nat m)" for m using v [of m] ne [of m] by (simp add: ini_value_def is_space_def)
  then show ?thesis using v by (simp add: fmt_d_def)
qed

section \<open>The round trip\<close>

text \<open>C40. A dictionary that is written into a file and read back has the same entries, those of sections it does not name
  excepted, which are not written; an entry without a value comes back with the empty value.\<close>

theorem ini_file_roundtrip:
  assumes "ini_ok d"
  shows "\<exists>f d'. iniparser_dump_ini d = Some f \<and> iniparser_load (Some f) = Some (Some d') \<and>
    (\<forall>x. map_of d' x = (if is_section x then (if x \<in> fst ` set d then Some None else None)
       else if x \<in> fst ` set d \<and> sec_of x \<in> fst ` set d then Some (Some (val_of (the (map_of d x)))) else None))"
  using assms by (rule written_file_read)

theorem ini_file_roundtrip_witness:
  "\<exists>f d'. iniparser_dump_ini [(str_bytes ''application'', None), (str_bytes ''application:con_no'', Some (str_bytes ''7''))] = Some f \<and>
    iniparser_load (Some f) = Some (Some d') \<and> map_of d' (str_bytes ''application:con_no'') = Some (Some (str_bytes ''7''))"
proof -
  let ?d = "[(str_bytes ''application'', None), (str_bytes ''application:con_no'', Some (str_bytes ''7''))]"
  have ok: "ini_ok ?d" by code_simp
  have "\<not> is_section (str_bytes ''application:con_no'')" "sec_of (str_bytes ''application:con_no'') = str_bytes ''application''"
    "str_bytes ''application'' \<noteq> str_bytes ''application:con_no''" by code_simp+
  then show ?thesis using ini_file_roundtrip [OF ok] by (auto simp: val_of_def)
qed

end
