(* ===== verification/Settings_Keys.thy ===== *)
theory Settings_Keys
  imports Settings Ini_Thms
begin

text \<open>The keys of the settings, and the dictionary after saving: every entry is there and the dictionary can be written.\<close>

section \<open>Entries\<close>

definition ini_key :: "string \<Rightarrow> bytes" where
  "ini_key k = strlwc (str_bytes k) (ASCIILINESZ + 1)"

lemma map_of_iniparser_set: "map_of (iniparser_set d (str_bytes k) v) = (map_of d)(ini_key k \<mapsto> v)"
  by (simp add: iniparser_set_def ini_key_def)

lemma sets_append: "iniparser_sets d (es @ fs) = Option.bind (iniparser_sets d es) (\<lambda>d. iniparser_sets d fs)"
  by (induction d es rule: iniparser_sets.induct) (auto split: bind_splits)

lemma sets_ConsE:
  assumes "iniparser_sets d ((key, v) # es) = Some d'"
  obtains w where "v = Some w" "iniparser_sets (iniparser_set d (str_bytes key) w) es = Some d'"
  using assms by (auto split: bind_splits)

lemma sets_other: "iniparser_sets d es = Some d' \<Longrightarrow> x \<notin> ini_key ` fst ` set es \<Longrightarrow> map_of d' x = map_of d x"
proof (induction d es rule: iniparser_sets.induct)
  case (2 d key v es)
  then show ?case by (elim sets_ConsE) (auto simp: map_of_iniparser_set)
qed simp

text \<open>An entry that is set is found, when no other value is set under its key.\<close>

lemma sets_found:
  assumes "iniparser_sets d es = Some d'" "x \<in> ini_key ` fst ` set es" "\<forall>e\<in>set es. ini_key (fst e) = x \<longrightarrow> snd e = v"
  shows "\<exists>w. v = Some w \<and> map_of d' x = Some w"
  using assms
proof (induction d es rule: iniparser_sets.induct)
  case (2 d key u es)
  obtain w where w: "u = Some w" "iniparser_sets (iniparser_set d (str_bytes key) w) es = Some d'"
    using "2.prems"(1) by (rule sets_ConsE)
  show ?case
  proof (cases "x \<in> ini_key ` fst ` set es")
    case True
    then show ?thesis using "2.IH" [OF w(1) w(2) True] "2.prems"(3) by simp
  next
    case False
    then have k: "ini_key key = x" using "2.prems"(2) by auto
    then have "u = v" using "2.prems"(3) by simp
    then show ?thesis using k sets_other [OF w(2) False] w(1) by (intro exI [of _ w]) (simp add: map_of_iniparser_set)
  qed
qed simp

section \<open>A dictionary that can be written\<close>

definition board_sections :: "bytes list" where
  "board_sections = map str_bytes [''application'', ''basicconfig'', ''tcpip'', ''ctrlboard'']"

definition good_key :: "string \<Rightarrow> bool" where
  "good_key k \<longleftrightarrow> (let b = ini_key k in \<not> is_section b \<and> ini_word (key_of b) \<and> length (key_of b) \<le> 60 \<and>
     map to_lower (sec_of b) = sec_of b)"

definition good_text :: "bytes \<Rightarrow> bool" where
  "good_text b \<longleftrightarrow> ini_value b \<and> length b \<le> 900"

lemma keys_set: "fst ` set (dictionary_set d k v) = insert k (fst ` set d)"
  by (induction d k v rule: dictionary_set.induct) auto

lemma entries_set: "e \<in> set (dictionary_set d k v) \<Longrightarrow> e = (k, v) \<or> e \<in> set d"
  by (induction d k v rule: dictionary_set.induct) (auto split: if_splits)

lemma set_ini_ok:
  assumes "ini_ok d" "good_key k" "good_text (val_of v)"
  shows "ini_ok (iniparser_set d (str_bytes k) v)"
proof -
  have s: "iniparser_set d (str_bytes k) v = dictionary_set d (ini_key k) v" by (simp add: iniparser_set_def ini_key_def)
  have "ini_entry (ini_key k, v)" using assms(2,3) by (simp add: ini_entry_def good_key_def good_text_def Let_def)
  then have "list_all ini_entry (dictionary_set d (ini_key k) v)"
    using assms(1) by (auto simp: ini_ok_def list_all_iff dest!: entries_set)
  moreover obtain e where "e \<in> set d" "is_section (fst e)" using assms(1) by (auto simp: ini_ok_def list_ex_iff)
  then have "fst e \<in> fst ` set (dictionary_set d (ini_key k) v)" "is_section (fst e)" by (simp_all add: keys_set)
  then have "list_ex (\<lambda>e. is_section (fst e)) (dictionary_set d (ini_key k) v)" unfolding list_ex_iff by (metis imageE)
  ultimately show ?thesis using assms(1) by (simp add: s ini_ok_def distinct_set)
qed

definition good_entry :: "string \<times> bytes option option \<Rightarrow> bool" where
  "good_entry e \<longleftrightarrow> good_key (fst e) \<and> (\<forall>w. snd e = Some w \<longrightarrow> good_text (val_of w))"

lemma sets_ini_ok: "iniparser_sets d es = Some d' \<Longrightarrow> ini_ok d \<Longrightarrow> list_all good_entry es \<Longrightarrow> ini_ok d'"
proof (induction d es rule: iniparser_sets.induct)
  case (2 d key v es)
  obtain w where w: "v = Some w" "iniparser_sets (iniparser_set d (str_bytes key) w) es = Some d'"
    using "2.prems"(1) by (rule sets_ConsE)
  have "ini_ok (iniparser_set d (str_bytes key) w)" using "2.prems"(2,3) w(1) by (simp add: set_ini_ok good_entry_def)
  then show ?case using "2.IH" [OF w(1) w(2)] "2.prems"(3) by simp
qed simp

lemma sets_keys: "iniparser_sets d es = Some d' \<Longrightarrow> fst ` set d \<subseteq> fst ` set d'"
proof (induction d es rule: iniparser_sets.induct)
  case (2 d key v es)
  then show ?case by (elim sets_ConsE) (force simp: iniparser_set_def keys_set)
qed simp

section \<open>The entries of the settings\<close>

definition main_entries :: "(u32 \<Rightarrow> bytes option) \<Rightarrow> Config \<Rightarrow> STOPTSVAL_TYPE \<Rightarrow> entries" where
  "main_entries mem c t = stop_entries c t @ config_entries mem c @
     [(''ctrlboard:setrevh1'', put_int (sint (if setrevh1_flag c \<noteq> 1 then 0 else setrevh1_flag c)))]"

definition main_keys :: "string list" where
  "main_keys =
    [''application:configcheck'', ''application:authkey'', ''application:con_no'', ''application:trid'',
     ''application:time_stamp'', ''application:meter_stop'', ''application:idtag'', ''application:stop_reason'',
     ''basicconfig:devid1'', ''basicconfig:devid2'', ''basicconfig:siteid'', ''basicconfig:adminpassword'',
     ''basicconfig:gpslat'', ''basicconfig:gpslon'', ''basicconfig:devtype'', ''basicconfig:devchanel'',
     ''basicconfig:chargingstatus'', ''basicconfig:ConfirmSelect'', ''basicconfig:OperationMode'',
     ''basicconfig:FreeChargingTime'', ''basicconfig:chkModeMac'', ''basicconfig:targetSoc'', ''tcpip:dhcp'',
     ''tcpip:chargermac'', ''tcpip:ipaddr'', ''tcpip:netmask'', ''tcpip:gw'', ''tcpip:dns'', ''tcpip:serverip'',
     ''tcpip:serverport'', ''tcpip:ftpIp'', ''tcpip:ftpDns'', ''tcpip:ftpId'', ''tcpip:ftpPw'', ''ctrlboard:lang'',
     ''ctrlboard:brightness'', ''ctrlboard:screensaver_time'', ''ctrlboard:screensaver_type'', ''ctrlboard:keysound'',
     ''ctrlboard:keylevel'', ''ctrlboard:audiolevel'', ''ctrlboard:setrevh1'']"

definition local_keys :: "string list" where
  "local_keys = ''ocpp:local_list_ver'' # concat (map (\<lambda>i. [local_list_key i ''_status'', local_list_key i ''_id'']) [0..<5])"

lemma main_entries_keys: "map fst (main_entries mem c t) = main_keys"
  by (simp add: main_entries_def stop_entries_def config_entries_def main_keys_def)

lemma main_key_mem: "e \<in> set (main_entries mem c t) \<Longrightarrow> fst e \<in> set main_keys"
  by (simp flip: main_entries_keys [of mem c t])

lemma local_entries_keys: "fst ` set (local_list_entries ver ls) \<subseteq> set local_keys"
  by (auto simp: local_list_entries_def local_keys_def split: if_splits)

lemma inj_str_bytes: "inj str_bytes"
proof -
  have "c = c'" if "word_of_nat (of_char c) = (word_of_nat (of_char c') :: u8)" for c c' :: char
  proof -
    have "unat (word_of_nat (of_char c) :: u8) = of_char c" "unat (word_of_nat (of_char c') :: u8) = of_char c'"
      by (simp_all add: unat_of_nat)
    then show ?thesis using that of_char_eq_iff [where ?'a = nat] by metis
  qed
  then show ?thesis unfolding str_bytes_def by (intro inj_mapI injI)
qed

text \<open>The keys as they are stored: section and name in small letters, digits and underscores.\<close>

definition name_char :: "char \<Rightarrow> bool" where
  "name_char c \<longleftrightarrow> (let n = of_char c :: nat in 48 \<le> n \<and> n \<le> 57 \<or> n = 95 \<or> 97 \<le> n \<and> n \<le> 122)"

definition good_name :: "string \<times> string \<Rightarrow> bool" where
  "good_name p \<longleftrightarrow> list_all name_char (fst p) \<and> list_all name_char (snd p) \<and> snd p \<noteq> [] \<and> length (snd p) \<le> 60"

definition joined :: "string \<times> string \<Rightarrow> string" where
  "joined p = fst p @ '':'' @ snd p"

definition main_names :: "(string \<times> string) list" where
  "main_names =
    [(''application'', ''configcheck''), (''application'', ''authkey''), (''application'', ''con_no''),
     (''application'', ''trid''), (''application'', ''time_stamp''), (''application'', ''meter_stop''),
     (''application'', ''idtag''), (''application'', ''stop_reason''), (''basicconfig'', ''devid1''),
     (''basicconfig'', ''devid2''), (''basicconfig'', ''siteid''), (''basicconfig'', ''adminpassword''),
     (''basicconfig'', ''gpslat''), (''basicconfig'', ''gpslon''), (''basicconfig'', ''devtype''),
     (''basicconfig'', ''devchanel''), (''basicconfig'', ''chargingstatus''), (''basicconfig'', ''confirmselect''),
     (''basicconfig'', ''operationmode''), (''basicconfig'', ''freechargingtime''), (''basicconfig'', ''chkmodemac''),
     (''basicconfig'', ''targetsoc''), (''tcpip'', ''dhcp''), (''tcpip'', ''chargermac''), (''tcpip'', ''ipaddr''),
     (''tcpip'', ''netmask''), (''tcpip'', ''gw''), (''tcpip'', ''dns''), (''tcpip'', ''serverip''),
     (''tcpip'', ''serverport''), (''tcpip'', ''ftpip''), (''tcpip'', ''ftpdns''), (''tcpip'', ''ftpid''),
     (''tcpip'', ''ftppw''), (''ctrlboard'', ''lang''), (''ctrlboard'', ''brightness''),
     (''ctrlboard'', ''screensaver_time''), (''ctrlboard'', ''screensaver_type''), (''ctrlboard'', ''keysound''),
     (''ctrlboard'', ''keylevel''), (''ctrlboard'', ''audiolevel''), (''ctrlboard'', ''setrevh1'')]"

definition local_names :: "(string \<times> string) list" where
  "local_names =
    [(''ocpp'', ''local_list_ver''), (''ocpp'', ''local_list_1_status''), (''ocpp'', ''local_list_1_id''),
     (''ocpp'', ''local_list_2_status''), (''ocpp'', ''local_list_2_id''), (''ocpp'', ''local_list_3_status''),
     (''ocpp'', ''local_list_3_id''), (''ocpp'', ''local_list_4_status''), (''ocpp'', ''local_list_4_id''),
     (''ocpp'', ''local_list_5_status''), (''ocpp'', ''local_list_5_id'')]"

lemma name_char_byte:
  assumes "name_char c"
  defines "b \<equiv> word_of_nat (of_char c) :: u8"
  shows "to_lower b = b" "b \<noteq> 0" "b \<noteq> newline" "b \<noteq> equals" "b \<noteq> 0x5D" "b \<noteq> 0x5B" "b \<noteq> colon" "\<not> is_space b" "\<not> starts_comment b"
proof -
  have u: "unat b = of_char c" by (simp add: b_def unat_of_nat)
  have r: "48 \<le> unat b \<and> unat b \<le> 57 \<or> unat b = 95 \<or> 97 \<le> unat b \<and> unat b \<le> 122"
    using assms(1) by (simp add: name_char_def u Let_def)
  then show "to_lower b = b" "b \<noteq> 0" "b \<noteq> newline" "b \<noteq> equals" "b \<noteq> 0x5D" "b \<noteq> 0x5B" "b \<noteq> colon" "\<not> is_space b" "\<not> starts_comment b"
    by (auto simp: to_lower_def is_space_def word_le_nat_alt)
qed

lemma name_byte: "list_all name_char s \<Longrightarrow> b \<in> set (str_bytes s) \<Longrightarrow> \<exists>c. name_char c \<and> b = word_of_nat (of_char c)"
  by (auto simp: str_bytes_def list_all_iff)

lemma name_lower: "list_all name_char s \<Longrightarrow> map to_lower (str_bytes s) = str_bytes s"
  by (induction s) (simp_all add: str_bytes_def name_char_byte(1))

lemma good_name_key:
  assumes "good_name p" "ini_key k = str_bytes (joined p)"
  shows "good_key k" "sec_of (ini_key k) = str_bytes (fst p)"
proof -
  obtain s t where p: "p = (s, t)" by (cases p)
  have n: "list_all name_char s" "list_all name_char t" "t \<noteq> []" "length t \<le> 60" using assms(1) by (simp_all add: good_name_def p)
  have k: "ini_key k = str_bytes s @ colon # str_bytes t" using assms(2) by (simp add: p joined_def str_bytes_def)
  have b: "b \<noteq> 0 \<and> b \<noteq> newline \<and> b \<noteq> equals \<and> b \<noteq> 0x5D \<and> b \<noteq> 0x5B \<and> b \<noteq> colon \<and> \<not> is_space b \<and> \<not> starts_comment b"
    if "b \<in> set (str_bytes s) \<or> b \<in> set (str_bytes t)" for b
  proof -
    obtain c where "name_char c" "b = word_of_nat (of_char c)" using \<open>b \<in> set (str_bytes s) \<or> _\<close> name_byte n(1,2) by blast
    then show ?thesis using name_char_byte [of c] by simp
  qed
  have sec: "is_section (str_bytes s)" using b by (auto simp: is_section_def)
  note f = sec_of_prefix [OF sec, of "str_bytes t", folded k]
  have ne: "str_bytes t \<noteq> []" using n(3) by (simp add: str_bytes_def)
  have "ini_word (str_bytes t)"
    unfolding ini_word_def using ne b name_lower [OF n(2)] hd_in_set [OF ne] last_in_set [OF ne] by blast
  then show "good_key k" using f n(4) name_lower [OF n(1)] by (simp add: good_key_def Let_def str_bytes_def [of t])
  show "sec_of (ini_key k) = str_bytes (fst p)" using f by (simp add: p)
qed

text \<open>Only some keys of the code have capital letters.\<close>

definition named :: "string \<Rightarrow> string \<times> string \<Rightarrow> bool" where
  "named k p \<longleftrightarrow> (if k = joined p then True else ini_key k = str_bytes (joined p))"

lemma plain_key:
  assumes "good_name p" "length (fst p) \<le> 60"
  shows "ini_key (joined p) = str_bytes (joined p)"
proof -
  have n: "list_all name_char (fst p)" "list_all name_char (snd p)" "length (joined p) \<le> 1024"
    using assms by (simp_all add: good_name_def joined_def)
  then have "ini_key (joined p) = map to_lower (str_bytes (joined p))" by (simp add: ini_key_def strlwc_def str_bytes_def)
  also have "\<dots> = map to_lower (str_bytes (fst p)) @ to_lower colon # map to_lower (str_bytes (snd p))"
    by (simp add: joined_def str_bytes_def)
  also have "\<dots> = str_bytes (joined p)" using name_lower [OF n(1)] name_lower [OF n(2)] by (simp add: joined_def str_bytes_def to_lower_def)
  finally show ?thesis .
qed

lemma names_good: "list_all good_name main_names" "list_all good_name local_names"
  by code_simp+

lemma keys_names:
  assumes "list_all2 named ks ps" "list_all (\<lambda>p. good_name p \<and> length (fst p) \<le> 60) ps"
  shows "map ini_key ks = map (str_bytes \<circ> joined) ps"
  using assms by (induction rule: list_all2_induct) (auto simp: named_def plain_key split: if_splits)

lemma main_keys_names: "map ini_key main_keys = map (str_bytes \<circ> joined) main_names"
proof (rule keys_names)
  show "list_all2 named main_keys main_names" by code_simp
  have "list_all (\<lambda>p. length (fst p) \<le> 60) main_names" by (simp add: main_names_def)
  then show "list_all (\<lambda>p. good_name p \<and> length (fst p) \<le> 60) main_names" using names_good(1) by (simp add: list_all_iff)
qed

lemma local_keys_names: "map ini_key local_keys = map (str_bytes \<circ> joined) local_names"
proof (rule keys_names)
  show "list_all2 named local_keys local_names" by code_simp
  have "list_all (\<lambda>p. length (fst p) \<le> 60) local_names" by (simp add: local_names_def)
  then show "list_all (\<lambda>p. good_name p \<and> length (fst p) \<le> 60) local_names" using names_good(2) by (simp add: list_all_iff)
qed

lemma distinct_main_keys: "distinct (map ini_key main_keys)"
proof -
  have "distinct (map joined main_names)" by (simp add: main_names_def joined_def)
  then show ?thesis
    unfolding main_keys_names using inj_on_subset [OF inj_str_bytes subset_UNIV] by (simp add: distinct_map comp_inj_on)
qed

section \<open>The dictionary after saving\<close>

definition saved_entries :: "(u32 \<Rightarrow> bytes option) \<Rightarrow> settings \<Rightarrow> entries" where
  "saved_entries mem s = stop_entries (theConfig s) (StopTsConfig s) @ local_list_entries (LocalListVer s) (LocalListVal s) @
     config_entries mem (theConfig s) @
     [(''ctrlboard:setrevh1'', put_int (sint (if setrevh1_flag (theConfig s) \<noteq> 1 then 0 else setrevh1_flag (theConfig s))))]"

lemma set_saved_entries:
  "set (saved_entries mem s) = set (main_entries mem (theConfig s) (StopTsConfig s)) \<union> set (local_list_entries (LocalListVer s) (LocalListVal s))"
  by (auto simp: saved_entries_def main_entries_def)

lemma main_key_section: "e \<in> set (main_entries mem c t) \<Longrightarrow> sec_of (ini_key (fst e)) \<in> set board_sections"
proof -
  assume "e \<in> set (main_entries mem c t)"
  then have "fst e \<in> set main_keys" by (rule main_key_mem)
  then have "ini_key (fst e) \<in> set (map (str_bytes \<circ> joined) main_names)" unfolding main_keys_names [symmetric] by simp
  then obtain p where p: "p \<in> set main_names" "ini_key (fst e) = str_bytes (joined p)" by auto
  have "list_all (\<lambda>p. str_bytes (fst p) \<in> set board_sections) main_names" by (simp add: main_names_def board_sections_def)
  then show ?thesis using p names_good(1) good_name_key(2) [of p "fst e"] by (simp add: list_all_iff)
qed

lemma local_key_section: "e \<in> set (local_list_entries ver ls) \<Longrightarrow> sec_of (ini_key (fst e)) = str_bytes ''ocpp''"
proof -
  assume "e \<in> set (local_list_entries ver ls)"
  then have "fst e \<in> set local_keys" using local_entries_keys by blast
  then have "ini_key (fst e) \<in> set (map (str_bytes \<circ> joined) local_names)" unfolding local_keys_names [symmetric] by simp
  then obtain p where p: "p \<in> set local_names" "ini_key (fst e) = str_bytes (joined p)" by auto
  have "list_all (\<lambda>p. fst p = ''ocpp'') local_names" by (simp add: local_names_def)
  then show ?thesis using p names_good(2) good_name_key(2) [of p "fst e"] by (simp add: list_all_iff)
qed

lemma saved_keys_good: "e \<in> set (saved_entries mem s) \<Longrightarrow> good_key (fst e)"
proof -
  assume e: "e \<in> set (saved_entries mem s)"
  have "fst e \<in> set main_keys \<or> fst e \<in> set local_keys"
    using e local_entries_keys main_key_mem unfolding set_saved_entries by blast
  then have "ini_key (fst e) \<in> set (map ini_key main_keys) \<or> ini_key (fst e) \<in> set (map ini_key local_keys)" by auto
  then obtain p where "good_name p" "ini_key (fst e) = str_bytes (joined p)"
    using names_good unfolding main_keys_names local_keys_names by (auto simp: list_all_iff)
  then show ?thesis by (rule good_name_key)
qed

lemma ocpp_not_board: "str_bytes ''ocpp'' \<notin> set board_sections"
  using inj_eq [OF inj_str_bytes] by (simp add: board_sections_def)

lemma saved_found:
  assumes "iniparser_sets d (saved_entries mem s) = Some d'" "(k, v) \<in> set (main_entries mem (theConfig s) (StopTsConfig s))"
  shows "\<exists>w. v = Some w \<and> map_of d' (ini_key k) = Some w"
proof (rule sets_found [OF assms(1)])
  let ?m = "main_entries mem (theConfig s) (StopTsConfig s)"
  show "ini_key k \<in> ini_key ` fst ` set (saved_entries mem s)" using assms(2) unfolding set_saved_entries by force
  have d: "distinct (map (ini_key \<circ> fst) ?m)" using distinct_main_keys main_entries_keys by (simp flip: map_map)
  show "\<forall>e\<in>set (saved_entries mem s). ini_key (fst e) = ini_key k \<longrightarrow> snd e = v"
  proof (intro ballI impI)
    fix e assume e: "e \<in> set (saved_entries mem s)" "ini_key (fst e) = ini_key k"
    have "e \<notin> set (local_list_entries (LocalListVer s) (LocalListVal s))"
      using local_key_section [of e] main_key_section [OF assms(2)] e(2) ocpp_not_board by auto
    then have "e \<in> set ?m" using e(1) unfolding set_saved_entries by blast
    then have "e = (k, v)" using d assms(2) e(2) unfolding distinct_map by (auto dest: inj_onD [of _ _ e "(k, v)"])
    then show "snd e = v" by simp
  qed
qed

lemma backup_try_frame:
  "theConfig (fst (backup_try call s)) = theConfig s" "cfgIni (fst (backup_try call s)) = cfgIni s"
  "ini_file (fst (backup_try call s)) = ini_file s"
  by (simp_all add: backup_try_def Let_def)

lemma backup_run_frame:
  "theConfig (backup_run calls s) = theConfig s \<and> cfgIni (backup_run calls s) = cfgIni s \<and> ini_file (backup_run calls s) = ini_file s"
  by (induction calls s rule: backup_run.induct) (simp add: backup_run.simps, subst (1 2 3) backup_run.simps, simp add: Let_def backup_try_frame)

lemma save_public:
  assumes "ConfigSavePublic env s = Some s'"
  shows "iniparser_sets (cfgIni s) (saved_entries (string_at env) s) = Some (cfgIni s')"
    "theConfig s' = (theConfig s)\<lparr>setrevh1_flag := if setrevh1_flag (theConfig s) \<noteq> 1 then 0 else setrevh1_flag (theConfig s)\<rparr>"
    "ini_opens env \<Longrightarrow> ini_file s' = iniparser_dump_ini (cfgIni s') \<and> ini_file s' \<noteq> None"
  using assms backup_run_frame
  by (auto simp: ConfigSavePublic_def saved_entries_def sets_append Let_def split: bind_splits if_splits)

end
