(* ===== verification/Settings_Thms.thy ===== *)
theory Settings_Thms
  imports Settings_Keys
begin

text \<open>What is read from the saved dictionary, and the configuration after start-up.\<close>

section \<open>Reading the file again\<close>

text \<open>Every string that is saved ends inside its array, every number has a place, and every text survives the file: no byte that the
  reader takes for something else, and no excessive length.\<close>

definition texts_clean :: "(u32 \<Rightarrow> bytes option) \<Rightarrow> settings \<Rightarrow> bool" where
  "texts_clean mem s \<longleftrightarrow> (\<forall>e\<in>set (saved_entries mem s). \<exists>w. snd e = Some w \<and> good_text (val_of w))"

text \<open>The dictionary holds the texts of the entries.\<close>

definition has_text :: "dict \<Rightarrow> string \<Rightarrow> bytes option option \<Rightarrow> bool" where
  "has_text d k v \<longleftrightarrow> v \<noteq> None \<and> map_of d (ini_key k) = Some (Some (val_of (the v)))"

definition stored :: "dict \<Rightarrow> entries \<Rightarrow> bool" where
  "stored d es \<longleftrightarrow> list_all (\<lambda>e. has_text d (fst e) (snd e)) es"

definition has_sections :: "dict \<Rightarrow> bool" where
  "has_sections d \<longleftrightarrow> set board_sections \<subseteq> fst ` set d"

definition no_nulls :: "dict \<Rightarrow> bool" where
  "no_nulls d \<longleftrightarrow> (\<forall>x. \<not> is_section x \<longrightarrow> map_of d x \<noteq> Some None)"

lemma saved_ini_ok:
  assumes "iniparser_sets d (saved_entries mem s) = Some d'" "ini_ok d" "texts_clean mem s"
  shows "ini_ok d'"
  using assms saved_keys_good by (intro sets_ini_ok [OF assms(1,2)]) (auto simp: list_all_iff good_entry_def texts_clean_def)

lemma sets_some: "\<forall>e\<in>set es. \<exists>w. snd e = Some w \<Longrightarrow> \<exists>d'. iniparser_sets d es = Some d'"
proof (induction es arbitrary: d)
  case (Cons e es)
  obtain k v where e: "e = (k, v)" by (cases e)
  obtain w where "v = Some w" using Cons.prems e by auto
  then show ?case using Cons.IH [of "iniparser_set d (str_bytes k) w"] Cons.prems by (simp add: e)
qed simp

lemma save_some:
  assumes "ini_ok (cfgIni s)" "texts_clean (string_at env) s"
  shows "\<exists>s'. ConfigSavePublic env s = Some s'"
proof -
  let ?r = "if setrevh1_flag (theConfig s) \<noteq> 1 then 0 else setrevh1_flag (theConfig s)"
  let ?es = "stop_entries (theConfig s) (StopTsConfig s) @ local_list_entries (LocalListVer s) (LocalListVal s) @ config_entries (string_at env) (theConfig s)"
  let ?last = "[(''ctrlboard:setrevh1'', put_int (sint ?r))]"
  have "\<forall>e\<in>set (saved_entries (string_at env) s). \<exists>w. snd e = Some w" using assms(2) by (auto simp: texts_clean_def)
  then obtain d' where d': "iniparser_sets (cfgIni s) (saved_entries (string_at env) s) = Some d'" using sets_some by blast
  then have "iniparser_sets (cfgIni s) (?es @ ?last) = Some d'" by (simp add: saved_entries_def)
  then obtain d where d: "iniparser_sets (cfgIni s) ?es = Some d" "iniparser_sets d ?last = Some d'"
    unfolding sets_append by (auto split: bind_splits)
  have "iniparser_dump_ini d' \<noteq> None" using dump_text [OF saved_ini_ok [OF d' assms]] by simp
  moreover obtain w where "put_int (sint ?r) = Some w" "iniparser_set d (str_bytes ''ctrlboard:setrevh1'') w = d'"
    using d(2) by (auto split: bind_splits)
  ultimately show ?thesis using d(1) backup_run_frame by (auto simp: ConfigSavePublic_def Let_def)
qed

lemma reload:
  assumes "ConfigSavePublic env s = Some s'" "ini_opens env" "ini_ok (cfgIni s)" "has_sections (cfgIni s)" "texts_clean (string_at env) s"
  shows "\<exists>d. iniparser_load (ini_file s') = Some (Some d) \<and> no_nulls d \<and> stored d (main_entries (string_at env) (theConfig s) (StopTsConfig s))"
proof -
  note sv = save_public [OF assms(1)]
  have ok: "ini_ok (cfgIni s')" by (rule saved_ini_ok [OF sv(1) assms(3,5)])
  obtain f d where d: "iniparser_dump_ini (cfgIni s') = Some f" "iniparser_load (Some f) = Some (Some d)"
    "\<forall>x. map_of d x = (if is_section x then (if x \<in> fst ` set (cfgIni s') then Some None else None)
       else if x \<in> fst ` set (cfgIni s') \<and> sec_of x \<in> fst ` set (cfgIni s') then Some (Some (val_of (the (map_of (cfgIni s') x)))) else None)"
    using written_file_read [OF ok] by blast
  have "stored d (main_entries (string_at env) (theConfig s) (StopTsConfig s))"
    unfolding stored_def list_all_iff
  proof
    fix e assume e: "e \<in> set (main_entries (string_at env) (theConfig s) (StopTsConfig s))"
    obtain k v where kv: "e = (k, v)" by (cases e)
    obtain w where w: "v = Some w" "map_of (cfgIni s') (ini_key k) = Some w" using saved_found [OF sv(1)] e kv by blast
    have "\<not> is_section (ini_key k)"
      using saved_keys_good [of e "string_at env" s] e kv by (simp add: set_saved_entries good_key_def Let_def)
    moreover have "ini_key k \<in> fst ` set (cfgIni s')" using w(2) by (metis map_of_eq_None_iff option.distinct(1))
    moreover have "sec_of (ini_key k) \<in> fst ` set (cfgIni s')"
      using main_key_section [OF e] assms(4) sets_keys [OF sv(1)] kv by (auto simp: has_sections_def)
    ultimately show "has_text d (fst e) (snd e)" using d(3) w kv by (simp add: has_text_def)
  qed
  moreover have "no_nulls d" using d(3) by (simp add: no_nulls_def)
  moreover have "ini_file s' = Some f" using sv(3) [OF assms(2)] d(1) by simp
  ultimately show ?thesis using d(2) by auto
qed

section \<open>Reading an entry\<close>

lemma ini_str_case:
  "ini_str d k def dst n = (case map_of d (ini_key k) of None \<Rightarrow> strncpy_to dst (str_bytes def) n | Some None \<Rightarrow> None | Some (Some s) \<Rightarrow> strncpy_to dst s n)"
  by (simp add: ini_str_def iniparser_getstring_def dictionary_get_def ini_key_def split: option.split)

lemma ini_strcpy_case:
  "ini_strcpy d k def dst = (case map_of d (ini_key k) of None \<Rightarrow> blit dst 0 (str_bytes def @ [0]) | Some None \<Rightarrow> None | Some (Some s) \<Rightarrow> blit dst 0 (s @ [0]))"
  by (simp add: ini_strcpy_def iniparser_getstring_def dictionary_get_def ini_key_def split: option.split)

lemma getint_case:
  "iniparser_getint d (str_bytes k) def = (case map_of d (ini_key k) of None \<Rightarrow> Some def | Some None \<Rightarrow> None | Some (Some s) \<Rightarrow> Some (strtol s))"
  by (simp add: iniparser_getint_def ini_key_def)

lemma int_text [simp]: "word_of_int (strtol (fmt_d (sint (w :: u32)))) = w"
  using sint_range_size [of w] by (simp add: strtol_fmt_d word_size)

lemma byte_text [simp]: "ucast (word_of_int (strtol (fmt_d (uint (b :: u8)))) :: u32) = b"
proof -
  have "uint b < 2 ^ LENGTH(8)" by (rule unsigned_less)
  moreover have "- (2 ^ 31) \<le> (0 :: int)" "0 \<le> uint b" by simp_all
  ultimately have "strtol (fmt_d (uint b)) = uint b" by (intro strtol_fmt_d) (rule order_trans, assumption+, simp)
  moreover have "(ucast (word_of_int (uint b) :: u32) :: u8) = b"
    by (subst ucast_eq [symmetric]) (rule bit_word_eqI, simp add: bit_simps)
  ultimately show ?thesis by simp
qed

lemma char_text [simp]: "ucast (word_of_int (strtol (fmt_d (sint (b :: u8)))) :: u32) = b"
proof -
  have "strtol (fmt_d (sint b)) = sint b"
    using sint_range_size [of b] by (intro strtol_fmt_d) (simp_all add: word_size)
  moreover have "(ucast (word_of_int (sint b) :: u32) :: u8) = b"
    by (rule bit_word_eqI) (simp add: bit_simps)
  ultimately show ?thesis by simp
qed

lemma has_text_simps [simp]:
  "has_text d k (map_option Some (c_string b)) \<longleftrightarrow> 0 \<in> set b \<and> map_of d (ini_key k) = Some (Some (cstr b))"
  "has_text d k (put_int v) \<longleftrightarrow> length (fmt_d v) < 20 \<and> map_of d (ini_key k) = Some (Some (fmt_d v))"
  "has_text d k (Some w) \<longleftrightarrow> map_of d (ini_key k) = Some (Some (val_of w))"
  by (auto simp: has_text_def c_string_def put_int_def val_of_def)

definition fill :: "nat \<Rightarrow> bytes \<Rightarrow> bytes" where
  "fill n s = take n (s @ replicate n 0)"

lemma strncpy_zeros: "length dst = n \<Longrightarrow> strncpy_to dst s n = Some (fill n s)"
  by (simp add: strncpy_to_def blit_def fill_def)

lemma cstr_fill: "0 \<in> set b \<Longrightarrow> length b = n \<Longrightarrow> cstr (fill n (cstr b)) = cstr b"
proof -
  assume b: "0 \<in> set b" "length b = n"
  obtain xs ys where x: "b = xs @ 0 # ys" "0 \<notin> set xs" using split_list_first [OF b(1)] by blast
  then have c: "cstr b = xs" by (auto simp: x(1) cstr_def takeWhile_append)
  have "n = length xs + Suc (length ys)" using b(2) x(1) by simp
  then have "fill n (cstr b) = xs @ replicate (Suc (length ys)) 0" using c by (simp add: fill_def min_def del: replicate_Suc)
  then show ?thesis using x(2) c by (auto simp: cstr_def takeWhile_append)
qed

section \<open>Start-up\<close>

text \<open>Memory after the power is switched on; \<open>n\<close> is the size of the path buffer.\<close>

definition blank_config :: "nat \<Rightarrow> Config" where
  "blank_config n =
     \<lparr>configcheck = replicate 2 0, authkey = replicate 17 0, applver = replicate 9 0, timeinit = replicate 2 0, devchanel = 0,
      devid1 = replicate 3 0, devid2 = replicate 3 0, siteid = replicate 9 0, adminpassword = replicate 5 0, gpslat = replicate 9 0,
      gpslon = replicate 10 0, devtype = 0, ConfirmSelect = 0, chargingstatus = 0, OperationMode = 0, FreeChargingTime = 0,
      chkModeMac = replicate 13 0, targetSoc = 0, chargermac = replicate 18 0, ipaddr = replicate 16 0, netmask = replicate 16 0,
      gw = replicate 16 0, dns = replicate 16 0, serverip = replicate 70 0, serverport = 0, ftpIp = replicate 16 0,
      ftpId = replicate 10 0, ftpPw = replicate 16 0, ftpDns = replicate 70 0, brightness = 0, screensaver_time = 0,
      screensaver_type = 0, lang = 0, keysound = replicate n 0, keylevel = 0, audiolevel = 0, dhcp = 0, setrevh1_flag = 0\<rparr>"

definition power_on :: "nat \<Rightarrow> bytes option \<Rightarrow> settings" where
  "power_on n file =
     \<lparr>theConfig = blank_config n,
      StopTsConfig = \<lparr>TrId = 0, Time_Stamp = replicate 50 0, MeterStop_Val = 0, IdTag = replicate 21 0, Stop_Reason = 0, Connector_No = 0\<rparr>,
      LocalListVer = 0, LocalListVal = replicate 5 \<lparr>Status = 0, Id = replicate 21 0\<rparr>, cfgIni = [], SaveConfig = backup_of (blank_config n),
      StrModelName = replicate 20 0, CstFileEvtQ = empty_queue, client_init = False, bTestModeOn = False, ini_file = file,
      backup_file = None, backup_opens = []\<rparr>"

text \<open>The lengths of the arrays.\<close>

definition config_shape :: "Config \<Rightarrow> bool" where
  "config_shape c \<longleftrightarrow>
     map length [configcheck c, authkey c, devid1 c, devid2 c, siteid c, adminpassword c, gpslat c, gpslon c, chkModeMac c, chargermac c,
       ipaddr c, netmask c, gw c, dns c, serverip c, ftpIp c, ftpId c, ftpPw c, ftpDns c] =
     [2, 17, 3, 3, 9, 5, 9, 10, 13, 18, 16, 16, 16, 16, 70, 16, 10, 16, 70]"

definition stop_shape :: "STOPTSVAL_TYPE \<Rightarrow> bool" where
  "stop_shape t \<longleftrightarrow> length (Time_Stamp t) = 50 \<and> length (IdTag t) = 21"

text \<open>The strings and the numbers that are kept.\<close>

definition kept_strings :: "Config \<Rightarrow> bytes list" where
  "kept_strings c = map cstr [configcheck c, authkey c, devid1 c, devid2 c, siteid c, adminpassword c, gpslat c, gpslon c, chkModeMac c,
     chargermac c, ipaddr c, netmask c, gw c, dns c, serverip c, ftpIp c, ftpId c, ftpPw c, ftpDns c, keysound c]"

definition kept_numbers :: "Config \<Rightarrow> u32 list" where
  "kept_numbers c = [devtype c, ConfirmSelect c, chargingstatus c, OperationMode c, FreeChargingTime c, serverport c, scast (dhcp c), lang c,
     brightness c, screensaver_time c, screensaver_type c, keylevel c, audiolevel c, setrevh1_flag c]"

lemmas read_case = ini_str_case ini_strcpy_case ini_int_def getint_case


lemma colon_key: "CHR '':'' \<in> set k \<Longrightarrow> length k \<le> 1024 \<Longrightarrow> \<not> is_section (ini_key k)"
proof -
  assume k: "CHR '':'' \<in> set k" "length k \<le> 1024"
  then have "colon \<in> set (str_bytes k)" by (force simp: str_bytes_def)
  then have "to_lower colon \<in> to_lower ` set (str_bytes k)" by (rule imageI)
  then have "colon \<in> to_lower ` set (str_bytes k)" by (simp add: to_lower_def)
  moreover have "set (ini_key k) = to_lower ` set (str_bytes k)" using k(2) by (auto simp: ini_key_def strlwc_def str_bytes_def)
  ultimately show ?thesis by (simp add: is_section_def)
qed

lemma no_nulls_text: "no_nulls d \<Longrightarrow> \<not> is_section x \<Longrightarrow> \<exists>t. map_of d x = map_option Some t"
  unfolding no_nulls_def by (metis not_None_eq option.map)

lemma read_some:
  assumes "no_nulls d" "CHR '':'' \<in> set k" "length k \<le> 1024"
  shows "\<exists>x. ini_int d k def = Some x" "length dst = n \<Longrightarrow> \<exists>x. ini_str d k df dst n = Some x"
proof -
  obtain t where "map_of d (ini_key k) = map_option Some t" using no_nulls_text [OF assms(1) colon_key [OF assms(2,3)]] by blast
  then show "\<exists>x. ini_int d k def = Some x" "length dst = n \<Longrightarrow> \<exists>x. ini_str d k df dst n = Some x"
    by (cases t; simp add: read_case strncpy_zeros)+
qed

lemma read_local_some:
  assumes "no_nulls d" "\<forall>v\<in>set vs. length (Id v) = 21"
  shows "\<exists>ls. read_local d i vs = Some ls"
  using assms(2)
proof (induction vs arbitrary: i)
  case (Cons v vs)
  let ?st = "''application:local_list_'' @ [char_of (0x31 + i)] @ ''_status''"
  obtain st where "ini_int d ?st 0 = Some st" using read_some(1) [OF assms(1), of ?st 0] by auto
  moreover obtain x where "ini_str d (local_list_key i ''_id'') ''00000000000000000000'' (Id v) 21 = Some x"
    using read_some(2) [OF assms(1), of "local_list_key i ''_id''" "Id v" 21 "''00000000000000000000''"] Cons.prems by (auto simp: local_list_key_def)
  moreover obtain ls where "read_local d (Suc i) vs = Some ls" using Cons by auto
  ultimately show ?case unfolding read_local.simps by simp
qed simp

lemma length_str_bytes: "length (str_bytes s) = length s"
  by (simp add: str_bytes_def)

lemma cstr_end: "cstr (cstr b @ 0 # xs) = cstr b"
proof -
  have "\<forall>x\<in>set (cstr b). x \<noteq> 0" by (auto simp: cstr_def dest: set_takeWhileD)
  then show ?thesis unfolding cstr_def [of "cstr b @ 0 # xs"] by (subst takeWhile_append2) auto
qed

definition same_stop :: "STOPTSVAL_TYPE \<Rightarrow> STOPTSVAL_TYPE \<Rightarrow> bool" where
  "same_stop t t' \<longleftrightarrow> TrId t' = TrId t \<and> cstr (Time_Stamp t') = cstr (Time_Stamp t) \<and> MeterStop_Val t' = MeterStop_Val t \<and>
     cstr (IdTag t') = cstr (IdTag t) \<and> Stop_Reason t' = Stop_Reason t \<and> Connector_No t' = Connector_No t"

definition reg1 :: "Config \<Rightarrow> u32" where
  "reg1 c = (if setrevh1_flag c \<noteq> 1 then 0 else setrevh1_flag c)"

lemmas stored_texts = stored_def main_entries_def stop_entries_def config_entries_def reg1_def [symmetric]

text \<open>The lengths of the arrays of which only the result of reading matters.\<close>

definition full_shape :: "nat \<Rightarrow> Config \<Rightarrow> bool" where
  "full_shape n c \<longleftrightarrow> config_shape c \<and> length (timeinit c) = 2 \<and> length (applver c) = 9 \<and> length (keysound c) = n"

lemmas shape_simps = full_shape_def config_shape_def

lemma read_application_stored:
  assumes "stored d (main_entries mem c t)" "full_shape n c0" "map_of d (ini_key ''application:timeinit'') = map_option Some ti"
  shows "read_application d c0 = Some (c0\<lparr>configcheck := fill 2 (cstr (configcheck c)), authkey := fill 17 (cstr (authkey c)),
    timeinit := fill 2 (case ti of None \<Rightarrow> str_bytes ''1'' | Some s \<Rightarrow> s), devtype := devtype c\<rparr>)"
  using assms(1,3) assms(2) [unfolded shape_simps]
  by (cases ti) (simp_all add: stored_texts read_application_def read_case strncpy_zeros Let_def)

lemma read_basic_stored:
  assumes "stored d (main_entries mem c t)" "full_shape n c0"
  shows "read_basic d c0 = Some (c0\<lparr>devchanel := devchanel c, devid1 := fill 3 (cstr (devid1 c)), devid2 := fill 3 (cstr (devid2 c)),
    siteid := fill 9 (cstr (siteid c)), adminpassword := fill 5 (cstr (adminpassword c)), gpslat := fill 9 (cstr (gpslat c)),
    gpslon := fill 10 (cstr (gpslon c)), chargingstatus := chargingstatus c, ConfirmSelect := ConfirmSelect c,
    OperationMode := OperationMode c, FreeChargingTime := FreeChargingTime c, chkModeMac := fill 13 (cstr (chkModeMac c)),
    targetSoc := word_of_int (strtol (val_of (mem (targetSoc c))))\<rparr>)"
  using assms(1) assms(2) [unfolded shape_simps]
  by (simp add: stored_texts read_basic_def read_case strncpy_zeros Let_def)

lemma read_net_stored:
  assumes "stored d (main_entries mem c t)" "full_shape n c0"
  shows "read_net d c0 = Some (c0\<lparr>dhcp := dhcp c, chargermac := fill 18 (cstr (chargermac c)), ipaddr := fill 16 (cstr (ipaddr c)),
    netmask := fill 16 (cstr (netmask c)), gw := fill 16 (cstr (gw c)), dns := fill 16 (cstr (dns c)),
    serverip := fill 70 (cstr (serverip c)), serverport := serverport c, ftpIp := fill 16 (cstr (ftpIp c)),
    ftpDns := fill 70 (cstr (ftpDns c)), ftpId := fill 10 (cstr (ftpId c)), ftpPw := fill 16 (cstr (ftpPw c))\<rparr>)"
  using assms(1) assms(2) [unfolded shape_simps]
  by (simp add: stored_texts read_net_def read_case strncpy_zeros Let_def)

lemma read_board_stored:
  assumes "stored d (main_entries mem c t)" "full_shape n c0" "length (cstr (keysound c)) < n"
  shows "read_board d c0 = Some (c0\<lparr>lang := lang c, brightness := brightness c, screensaver_time := screensaver_time c,
    screensaver_type := screensaver_type c, keysound := cstr (keysound c) @ 0 # drop (length (cstr (keysound c)) + 1) (keysound c0),
    keylevel := keylevel c, audiolevel := audiolevel c, setrevh1_flag := reg1 c\<rparr>)"
  using assms(1,3) assms(2) [unfolded shape_simps]
  by (simp add: stored_texts read_board_def read_case blit_def Let_def)

lemma read_stop_stored:
  assumes "stored d (main_entries mem c t)" "length (Time_Stamp t0) = 50" "length (IdTag t0) = 21" "stop_shape t"
    "- (2 ^ 31) \<le> sint (TrId t)" "sint (TrId t) < 2 ^ 31"
  shows "\<exists>t'. read_stop d t0 = Some t' \<and> same_stop t t'"
  using assms(1-4) strtol_fmt_d [OF assms(5,6)]
  by (simp add: stored_texts read_stop_def read_case strncpy_zeros same_stop_def stop_shape_def cstr_fill)

lemma stored_ends:
  "stored d (main_entries mem c t) \<Longrightarrow> list_all (\<lambda>b. 0 \<in> set b) [configcheck c, authkey c, devid1 c, devid2 c, siteid c, adminpassword c,
     gpslat c, gpslon c, chkModeMac c, chargermac c, ipaddr c, netmask c, gw c, dns c, serverip c, ftpIp c, ftpId c, ftpPw c, ftpDns c]"
  by (simp add: stored_texts)

lemma fill_length [simp]: "length (fill n s) = n"
  by (simp add: fill_def)

text \<open>What is read from a dictionary with the texts of the settings.\<close>

lemma read_settings_stored:
  assumes "stored d (main_entries mem c t)" "no_nulls d" "config_shape c" "stop_shape t" "length (cstr (keysound c)) < n"
    "devtype c = C_TYPE \<or> devtype c = BC_TYPE" "- (2 ^ 31) \<le> sint (TrId t)" "sint (TrId t) < 2 ^ 31"
    and s: "full_shape n (theConfig s)" "length (StrModelName s) = 20" "stop_shape (StopTsConfig s)" "\<forall>v\<in>set (LocalListVal s). length (Id v) = 21"
  shows "\<exists>s'. read_settings d s = Some s' \<and> kept_strings (theConfig s') = kept_strings c \<and>
    kept_numbers (theConfig s') = kept_numbers (c\<lparr>setrevh1_flag := reg1 c\<rparr>) \<and> same_stop t (StopTsConfig s') \<and>
    targetSoc (theConfig s') = word_of_int (strtol (val_of (mem (targetSoc c)))) \<and> ini_file s' = ini_file s"
proof -
  obtain ti where ti: "map_of d (ini_key ''application:timeinit'') = map_option Some ti"
    using no_nulls_text [OF assms(2) colon_key, of "''application:timeinit''"] by auto
  obtain ver where ver: "ini_int d ''ocpp:local_list_ver'' 0 = Some ver" using read_some(1) [OF assms(2), of "''ocpp:local_list_ver''" 0] by auto
  obtain ls where ls: "read_local d 0 (LocalListVal s) = Some ls" using read_local_some [OF assms(2) s(4)] by blast
  obtain v where v: "sprintf_str (applver (theConfig s)) ''V2.2.3T'' = Some v" "length v = 9"
    using s(1) by (auto simp: sprintf_str_def blit_def length_str_bytes full_shape_def)
  obtain m where m: "blit (StrModelName s) 0 (SW_MODEL @ [0]) = Some m" using s(2) by (simp add: SW_MODEL_def blit_def length_str_bytes)
  obtain t' where t': "read_stop d (StopTsConfig s) = Some t'" "same_stop t t'"
    using read_stop_stored [OF assms(1) _ _ assms(4,7,8), of "StopTsConfig s"] s(3) by (auto simp: stop_shape_def)
  note a = read_application_stored [OF assms(1) s(1) ti]
  note sh = assms(3) [unfolded config_shape_def] s(1) [unfolded shape_simps]
  show ?thesis
    using assms(6) sh v(2) stored_ends [OF assms(1)]
    by (simp add: read_settings_def a v(1) m Let_def read_basic_stored [OF assms(1), of n] read_net_stored [OF assms(1), of n] t'
      read_board_stored [OF assms(1) _ assms(5)] ver ls shape_simps kept_strings_def kept_numbers_def cstr_fill cstr_end) blast
qed

lemma backup_try_stop: "StopTsConfig (fst (backup_try call s)) = StopTsConfig s"
  by (simp add: backup_try_def Let_def)

lemma backup_run_stop: "StopTsConfig (backup_run calls s) = StopTsConfig s"
  by (induction calls s rule: backup_run.induct) (simp add: backup_run.simps, subst backup_run.simps, simp add: Let_def backup_try_stop)

section \<open>The comparison with the file\<close>

lemma strcmp_diff_some: "0 \<in> set y \<Longrightarrow> length (cstr y) < length x \<Longrightarrow> \<exists>r. strcmp_diff x y = Some r"
proof (induction x y rule: strcmp_diff.induct)
  case (1 x xs y ys)
  then show ?case by (auto simp: cstr_def)
qed auto

text \<open>Two strings in memory that differ.\<close>

lemma strcmp_diff_iff: "strcmp_diff x y = Some r \<Longrightarrow> 0 \<in> set x \<Longrightarrow> 0 \<in> set y \<Longrightarrow> r \<longleftrightarrow> cstr x \<noteq> cstr y"
  by (induction x y rule: strcmp_diff.induct) (auto simp: cstr_def split: if_splits)

end
