(* ===== verification/Settings_Props.thy ===== *)
theory Settings_Props
  imports Settings_Thms Ocpp_Parse_Thms
begin

text \<open>The settings survive a restart; saving never finds the file up to date; and the values of the first start.\<close>

section \<open>The comparison after saving\<close>

lemma verify_basic_stored:
  assumes "stored d (main_entries mem c t)" "full_shape n c0" "map_of d (ini_key ''application:timeinit'') = map_option Some ti"
    "map_of d (ini_key '':gpslon'') = map_option Some gl"
  shows "verify_read_basic d c0 = Some (c0\<lparr>configcheck := fill 2 (cstr (configcheck c)),
    timeinit := fill 2 (case ti of None \<Rightarrow> str_bytes ''1'' | Some s \<Rightarrow> s), ConfirmSelect := ConfirmSelect c,
    authkey := fill 17 (cstr (authkey c)), devchanel := devchanel c, devid1 := fill 3 (cstr (devid1 c)),
    devid2 := fill 3 (cstr (devid2 c)), siteid := fill 9 (cstr (siteid c)), devtype := devtype c,
    adminpassword := fill 5 (cstr (adminpassword c)), gpslat := fill 9 (cstr (gpslat c)),
    gpslon := fill 10 (case gl of None \<Rightarrow> str_bytes ''122.57323'' | Some s \<Rightarrow> s), chargingstatus := chargingstatus c\<rparr>)"
proof -
  note f = assms(1) [unfolded stored_texts, simplified]
  show ?thesis using assms(3,4) assms(2) [unfolded shape_simps]
    by (cases ti; cases gl; simp add: f verify_read_basic_def read_case strncpy_zeros Let_def)
qed

text \<open>The three strings that are copied into the address of the file server.\<close>

definition mixed_ip :: "Config \<Rightarrow> bytes" where
  "mixed_ip c = fill 12 (cstr (ftpPw c)) @ drop 12 (fill 5 (cstr (ftpId c)) @ drop 5 (fill 16 (cstr (ftpIp c))))"

lemma strncpy_part: "n \<le> length dst \<Longrightarrow> strncpy_to dst s n = Some (fill n s @ drop n dst)"
  by (simp add: strncpy_to_def blit_def fill_def min_def)

lemma verify_net_stored:
  assumes "stored d (main_entries mem c t)" "full_shape n c0" "map_option ucast (ini_int old ''tcpip:dhcp'' 1) = Some (dhcp c)"
  shows "verify_read_net old d c0 = Some (c0\<lparr>dhcp := dhcp c, chargermac := fill 18 (cstr (chargermac c)),
    ipaddr := fill 16 (cstr (ipaddr c)), netmask := fill 16 (cstr (netmask c)), gw := fill 16 (cstr (gw c)),
    dns := fill 16 (cstr (dns c)), serverip := fill 21 (cstr (serverip c)) @ drop 21 (serverip c0),
    serverport := serverport c, ftpIp := mixed_ip c\<rparr>)"
proof -
  obtain x where "ini_int old ''tcpip:dhcp'' 1 = Some x" "ucast x = dhcp c" using assms(3) by auto
  then show ?thesis
    using assms(1) assms(2) [unfolded shape_simps]
    by (simp add: stored_texts verify_read_net_def ini_str_case getint_case ini_int_def [of d] strncpy_zeros strncpy_part mixed_ip_def Let_def)
qed

lemma verify_board_stored:
  assumes "stored d (main_entries mem c t)" "full_shape n c0" "length (cstr (keysound c)) < n"
    "map_of d (ini_key ''ctrlboard:screensaver_type_home'') = map_option Some st"
  shows "verify_read_board d c0 = Some (c0\<lparr>lang := lang c, brightness := brightness c, screensaver_time := screensaver_time c,
    screensaver_type := case st of None \<Rightarrow> 2 | Some s \<Rightarrow> word_of_int (strtol s),
    keysound := cstr (keysound c) @ 0 # drop (length (cstr (keysound c)) + 1) (keysound c0), keylevel := keylevel c, audiolevel := audiolevel c\<rparr>)"
  using assms(1,3,4) assms(2) [unfolded shape_simps]
  by (cases st) (simp_all add: stored_texts verify_read_board_def read_case blit_def Let_def)

lemma cstr_short: "0 \<in> set b \<Longrightarrow> length (cstr b) < length b"
proof (induction b)
  case (Cons x b)
  then show ?case by (cases "x = 0") (simp_all add: cstr_def)
qed simp

lemma compare_defined:
  assumes "config_shape c2" "config_shape c" "list_all (\<lambda>b. 0 \<in> set b) [configcheck c, authkey c, adminpassword c, chargermac c, ipaddr c,
    netmask c, gw c, serverip c, ftpIp c, ftpId c, ftpPw c, ftpDns c]"
  shows "\<exists>r. verify_compare c2 c = Some r \<and> (strcmp_diff (ftpIp c2) (ftpIp c) = Some True \<longrightarrow> r)"
proof -
  have d: "\<exists>r. strcmp_diff x y = Some r" if "0 \<in> set y" "length x = length y" for x y
    using strcmp_diff_some [OF that(1)] cstr_short [OF that(1)] that(2) by simp
  note sh = assms(1,2) [unfolded config_shape_def]
  obtain r1 r2 r3 r4 r5 r6 where r1: "strcmp_diff (configcheck c2) (configcheck c) = Some r1" "strcmp_diff (authkey c2) (authkey c) = Some r2"
    "strcmp_diff (adminpassword c2) (adminpassword c) = Some r3" "strcmp_diff (chargermac c2) (chargermac c) = Some r4"
    "strcmp_diff (ipaddr c2) (ipaddr c) = Some r5" "strcmp_diff (netmask c2) (netmask c) = Some r6"
    using assms(3) sh d by simp metis
  obtain r7 r8 r9 r10 r11 r12 where "strcmp_diff (gw c2) (gw c) = Some r7" "strcmp_diff (serverip c2) (serverip c) = Some r8"
    "strcmp_diff (ftpIp c2) (ftpIp c) = Some r9" "strcmp_diff (ftpDns c2) (ftpDns c) = Some r10"
    "strcmp_diff (ftpId c2) (ftpId c) = Some r11" "strcmp_diff (ftpPw c2) (ftpPw c) = Some r12"
    using assms(3) sh d by simp metis
  then show ?thesis using r1 by (simp add: verify_compare_def)
qed

lemma mixed_ip_string:
  assumes "0 \<in> set (ftpPw c)" "length (cstr (ftpPw c)) \<le> 11"
  shows "cstr (mixed_ip c) = cstr (ftpPw c)" "0 \<in> set (mixed_ip c)" "length (mixed_ip c) = 16"
proof -
  obtain m where "12 - length (cstr (ftpPw c)) = Suc m" using assms(2) by (cases "12 - length (cstr (ftpPw c))") auto
  moreover have "fill 12 (cstr (ftpPw c)) = cstr (ftpPw c) @ replicate (12 - length (cstr (ftpPw c))) 0" using assms(2) by (simp add: fill_def min_def)
  ultimately have "fill 12 (cstr (ftpPw c)) = cstr (ftpPw c) @ 0 # replicate m 0" by simp
  then show "cstr (mixed_ip c) = cstr (ftpPw c)" "0 \<in> set (mixed_ip c)" by (simp_all add: mixed_ip_def cstr_end)
qed (simp add: mixed_ip_def)

lemma verify_after_save:
  assumes d: "iniparser_load (ini_file s) = Some (Some d)" "no_nulls d" "stored d (main_entries mem c t)"
    and s: "theConfig s = c\<lparr>setrevh1_flag := r\<rparr>" "map_option ucast (ini_int (cfgIni s) ''tcpip:dhcp'' 1) = Some (dhcp c)"
    and c: "config_shape c" "length (cstr (keysound c)) < n" "full_shape n junk"
  shows "\<exists>v. VerifyConfigSave junk s = Some v \<and> (length (cstr (ftpPw c)) \<le> 11 \<and> cstr (ftpPw c) \<noteq> cstr (ftpIp c) \<longrightarrow> v = 1)"
proof -
  obtain ti where ti: "map_of d (ini_key ''application:timeinit'') = map_option Some ti"
    using no_nulls_text [OF d(2) colon_key, of "''application:timeinit''"] by auto
  obtain gl where gl: "map_of d (ini_key '':gpslon'') = map_option Some gl"
    using no_nulls_text [OF d(2) colon_key, of "'':gpslon''"] by auto
  obtain st where st: "map_of d (ini_key ''ctrlboard:screensaver_type_home'') = map_option Some st"
    using no_nulls_text [OF d(2) colon_key, of "''ctrlboard:screensaver_type_home''"] by auto
  obtain c1 where c1: "verify_read_basic d junk = Some c1" "full_shape n c1" "ftpDns c1 = ftpDns junk" "ftpId c1 = ftpId junk" "ftpPw c1 = ftpPw junk"
    using verify_basic_stored [OF d(3) c(3) ti gl] c(3) by (simp add: shape_simps)
  obtain c2 where c2: "verify_read_net (cfgIni s) d c1 = Some c2" "full_shape n c2" "ftpIp c2 = mixed_ip c"
    using verify_net_stored [OF d(3) c1(2) s(2)] c1(2) c(1) by (simp add: shape_simps mixed_ip_def)
  obtain c3 where c3: "verify_read_board d c2 = Some c3" "config_shape c3" "ftpIp c3 = mixed_ip c"
    using verify_board_stored [OF d(3) c2(2) c(2) st] c2(2,3) by (auto simp: shape_simps)
  note ends = stored_ends [OF d(3)]
  obtain v where v: "verify_compare c3 (theConfig s) = Some v" "strcmp_diff (ftpIp c3) (ftpIp c) = Some True \<longrightarrow> v"
    using compare_defined [OF c3(2), of "theConfig s"] c(1) ends by (auto simp: s(1) config_shape_def)
  have "strcmp_diff (ftpIp c3) (ftpIp c) = Some True" if p: "length (cstr (ftpPw c)) \<le> 11" "cstr (ftpPw c) \<noteq> cstr (ftpIp c)"
  proof -
    have e: "0 \<in> set (ftpPw c)" "0 \<in> set (ftpIp c)" "length (ftpIp c) = 16" using ends c(1) by (simp_all add: config_shape_def)
    note m = mixed_ip_string [OF e(1) p(1)]
    obtain q where "strcmp_diff (mixed_ip c) (ftpIp c) = Some q" using strcmp_diff_some [OF e(2), of "mixed_ip c"] cstr_short [OF e(2)] e(3) m(3) by auto
    then show ?thesis using strcmp_diff_iff [OF _ m(2) e(2)] m(1) p(2) by (auto simp: c3(3))
  qed
  then show ?thesis using d(1) c1(1) c2(1) c3(1) v by (auto simp: VerifyConfigSave_def)
qed

section \<open>Restart\<close>

lemma start_from_file:
  assumes "iniparser_load f = Some (Some d)" "stored d (main_entries mem c t)" "no_nulls d" "config_shape c" "stop_shape t"
    "length (cstr (keysound c)) < n" "devtype c = C_TYPE \<or> devtype c = BC_TYPE" "- (2 ^ 31) \<le> sint (TrId t)" "sint (TrId t) < 2 ^ 31"
  shows "\<exists>s'. ConfigInit env junk junk' (power_on n f) = Some s' \<and> kept_strings (theConfig s') = kept_strings c \<and>
    kept_numbers (theConfig s') = kept_numbers (c\<lparr>setrevh1_flag := reg1 c\<rparr>) \<and> same_stop t (StopTsConfig s') \<and>
    targetSoc (theConfig s') = word_of_int (strtol (val_of (mem (targetSoc c))))"
proof -
  let ?s = "(power_on n f)\<lparr>cfgIni := d\<rparr>"
  have sh: "full_shape n (theConfig ?s)" "length (StrModelName ?s) = 20" "stop_shape (StopTsConfig ?s)" "\<forall>v\<in>set (LocalListVal ?s). length (Id v) = 21"
    by (simp_all add: power_on_def blank_config_def shape_simps stop_shape_def)
  obtain s' where s': "read_settings d ?s = Some s'" "kept_strings (theConfig s') = kept_strings c"
    "kept_numbers (theConfig s') = kept_numbers (c\<lparr>setrevh1_flag := reg1 c\<rparr>)" "same_stop t (StopTsConfig s')"
    "targetSoc (theConfig s') = word_of_int (strtol (val_of (mem (targetSoc c))))"
    using read_settings_stored [OF assms(2,3,4,5,6,7,8,9) sh] by blast
  have "ini_file (power_on n f) = f" by (simp add: power_on_def)
  then show ?thesis using s' backup_run_frame backup_run_stop assms(1) by (auto simp: ConfigInit_def Let_def)
qed

text \<open>C21. A configuration that is saved is the one that is read after the power has been switched off and on: every string, every
  number and the transaction to report, provided that the strings survive the file and the transaction id fits an \<open>int\<close>.  One
  setting is excepted: the target state of charge, whose value is saved as if it were the address of a string, becomes the number
  that happens to be written in memory at that address.\<close>

theorem config_survives_restart:
  assumes "ini_opens env" "ini_ok (cfgIni s)" "has_sections (cfgIni s)" "texts_clean (string_at env) s" "config_shape (theConfig s)"
    "stop_shape (StopTsConfig s)" "length (cstr (keysound (theConfig s))) < n" "devtype (theConfig s) = C_TYPE \<or> devtype (theConfig s) = BC_TYPE"
    "- (2 ^ 31) \<le> sint (TrId (StopTsConfig s))" "sint (TrId (StopTsConfig s)) < 2 ^ 31"
  shows "\<exists>s' s2. ConfigSavePublic env s = Some s' \<and> ConfigInit env' junk junk' (power_on n (ini_file s')) = Some s2 \<and>
    kept_strings (theConfig s2) = kept_strings (theConfig s) \<and> kept_numbers (theConfig s2) = kept_numbers (theConfig s') \<and>
    same_stop (StopTsConfig s) (StopTsConfig s2) \<and>
    targetSoc (theConfig s2) = word_of_int (strtol (val_of (string_at env (targetSoc (theConfig s)))))"
proof -
  obtain s' where s': "ConfigSavePublic env s = Some s'" using save_some [OF assms(2,4)] by blast
  obtain d where d: "iniparser_load (ini_file s') = Some (Some d)" "no_nulls d" "stored d (main_entries (string_at env) (theConfig s) (StopTsConfig s))"
    using reload [OF s' assms(1-4)] by blast
  have "theConfig s' = (theConfig s)\<lparr>setrevh1_flag := reg1 (theConfig s)\<rparr>" using save_public(2) [OF s'] by (simp add: reg1_def)
  then show ?thesis using s' start_from_file [OF d(1,3,2) assms(5-10), of env' junk junk'] by auto
qed

text \<open>C23. After the settings have been saved, the comparison with the file reports a difference all the same, since it copies the
  name and the password for the file server over the server's address: every later call of \<open>ConfigSave\<close> writes the file
  again, although nothing has changed.\<close>

theorem saved_file_never_equal:
  assumes "ini_opens env" "ini_ok (cfgIni s)" "has_sections (cfgIni s)" "texts_clean (string_at env) s" "config_shape (theConfig s)"
    "length (cstr (keysound (theConfig s))) < n" "full_shape n junk"
    "length (cstr (ftpPw (theConfig s))) \<le> 11" "cstr (ftpPw (theConfig s)) \<noteq> cstr (ftpIp (theConfig s))"
  shows "\<exists>s'. ConfigSavePublic env s = Some s' \<and> VerifyConfigSave junk s' = Some 1 \<and>
    ConfigSave env junk junk' s' = ConfigSaveTask env junk' s'"
proof -
  obtain s' where s': "ConfigSavePublic env s = Some s'" using save_some [OF assms(2,4)] by blast
  obtain d where d: "iniparser_load (ini_file s') = Some (Some d)" "no_nulls d" "stored d (main_entries (string_at env) (theConfig s) (StopTsConfig s))"
    using reload [OF s' assms(1-4)] by blast
  have "(''tcpip:dhcp'', put_int (sint (dhcp (theConfig s)))) \<in> set (main_entries (string_at env) (theConfig s) (StopTsConfig s))"
    by (simp add: main_entries_def config_entries_def)
  then have "\<exists>w. put_int (sint (dhcp (theConfig s))) = Some w \<and> map_of (cfgIni s') (ini_key ''tcpip:dhcp'') = Some w"
    using saved_found [OF save_public(1) [OF s']] by blast
  then have "map_option ucast (ini_int (cfgIni s') ''tcpip:dhcp'' 1) = Some (dhcp (theConfig s))"
    by (auto simp: read_case put_int_def split: if_splits)
  then have "VerifyConfigSave junk s' = Some 1"
    using verify_after_save [OF d(1,2,3) save_public(2) [OF s'] _ assms(5,6,7)] assms(8,9) by auto
  then show ?thesis using s' by (simp add: ConfigSave_def)
qed

section \<open>The first start\<close>

lemma cstr_str: "list_all (\<lambda>c. c \<noteq> CHR 0x00) s \<Longrightarrow> cstr (str_bytes s @ 0 # xs) = str_bytes s"
proof -
  assume "list_all (\<lambda>c. c \<noteq> CHR 0x00) s"
  then have "\<forall>x\<in>set (str_bytes s). x \<noteq> 0"
    using inj_eq [OF inj_str_bytes, of "[_]" "[CHR 0x00]"] by (auto simp: list_all_iff str_bytes_def)
  then show ?thesis unfolding cstr_def by (subst takeWhile_append2) auto
qed

lemma cstr_blank: "cstr (replicate k 0) = []"
  by (induction k) (simp_all add: cstr_def)

text \<open>The strings of \<open>ConfigInitSave\<close>, in the order of \<open>kept_strings\<close>.\<close>

definition first_strings :: "bytes list" where
  "first_strings = map str_bytes
     [''2'', '''', ''00'', ''04'', ''00000000'', ''2843'', ''37.76555'', ''128.45454'', ''9012A100CB12'',
      ''F0:8B:FE:0F:00:00'', ''192.168.001.208'', ''255.255.255.000'', ''192.168.001.001'', '''', ''com-me.tscontech.com'',
      ''192.168.0.100'', ''cptsct'', ''cp01340'', ''csms-ftp.tscontech.com'', '''']"

lemma first_config_values:
  assumes "0 < n"
  shows "\<exists>c. first_config (blank_config n) = Some c \<and> full_shape n c \<and> keysound c = replicate n 0 \<and>
    kept_strings c = first_strings \<and>
    kept_numbers c = [BC_TYPE, 1, 0, 0, 0, 5000, 1, 0, 0, 10, 2, 0, 0, 0] \<and> targetSoc c = 100 \<and>
    list_all (\<lambda>b. 0 \<in> set b) [configcheck c, authkey c, devid1 c, devid2 c, siteid c, adminpassword c,
     gpslat c, gpslon c, chkModeMac c, chargermac c, ipaddr c, netmask c, gw c, dns c, serverip c, ftpIp c, ftpId c, ftpPw c, ftpDns c]"
  using assms
  by (simp add: first_config_def sprintf_str_def blit_def blank_config_def Let_def length_str_bytes shape_simps kept_strings_def kept_numbers_def cstr_str cstr_blank first_strings_def)
    (simp add: str_bytes_def)

lemma clean_int: "- (10 ^ 10) < v \<Longrightarrow> v < 10 ^ 10 \<Longrightarrow> \<exists>x. put_int v = Some x \<and> good_text (val_of x)"
proof -
  assume v: "- (10 ^ 10) < v" "v < 10 ^ 10"
  then have "length (dec_nat (nat v)) \<le> 10" "length (dec_nat (nat (- v))) \<le> 10" by (auto intro!: dec_nat_length)
  then have "length (fmt_d v) < 20" by (auto simp: fmt_d_def)
  then show ?thesis using fmt_d_clean [of v] by (simp add: put_int_def val_of_def good_text_def)
qed

lemma clean_u32: "\<exists>x. put_int (sint (w :: u32)) = Some x \<and> good_text (val_of x)"
  using sint_range_size [of w] by (intro clean_int) (simp_all add: word_size)

lemma clean_char: "\<exists>x. put_int (sint (b :: u8)) = Some x \<and> good_text (val_of x)"
  using sint_range_size [of b] by (intro clean_int) (simp_all add: word_size)

lemma clean_u8: "\<exists>x. put_int (uint (b :: u8)) = Some x \<and> good_text (val_of x)"
proof -
  have "uint b < 2 ^ LENGTH(8)" by (rule unsigned_less)
  then show ?thesis by (intro clean_int) (auto intro: order_less_le_trans [of _ 0])
qed

lemma clean_str: "0 \<in> set b \<and> good_text (cstr b) \<Longrightarrow> \<exists>x. map_option Some (c_string b) = Some x \<and> good_text (val_of x)"
  by (simp add: c_string_def val_of_def)

text \<open>With an empty local list, the texts are those of the strings.\<close>

definition good_string :: "bytes \<Rightarrow> bool" where
  "good_string b \<longleftrightarrow> 0 \<in> set b \<and> good_text (cstr b)"

lemma texts_cleanI:
  assumes "list_all good_string [configcheck c, authkey c, devid1 c, devid2 c, siteid c, adminpassword c, gpslat c, gpslon c,
      chkModeMac c, chargermac c, ipaddr c, netmask c, gw c, dns c, serverip c, ftpIp c, ftpId c, ftpPw c, ftpDns c, keysound c,
      Time_Stamp t, IdTag t]"
    "good_text (val_of (mem (targetSoc c)))" "- (10 ^ 10) < sint (TrId t)" "sint (TrId t) < 10 ^ 10"
    "theConfig s = c" "StopTsConfig s = t" "LocalListVer s = 0"
  shows "texts_clean mem s"
proof -
  have "list_all (\<lambda>e. \<exists>w. snd e = Some w \<and> good_text (val_of w)) (saved_entries mem s)"
    using assms clean_int [OF assms(3,4)]
    by (simp add: saved_entries_def stop_entries_def config_entries_def local_list_entries_def good_string_def clean_u32 clean_u8 clean_char clean_str
      clean_int del: map_option_eq_Some)
  then show ?thesis by (simp add: texts_clean_def list_all_iff)
qed

lemma backup_try_rest:
  "LocalListVal (fst (backup_try call s)) = LocalListVal s" "StrModelName (fst (backup_try call s)) = StrModelName s"
  by (simp_all add: backup_try_def Let_def)

lemma backup_run_rest: "LocalListVal (backup_run calls s) = LocalListVal s \<and> StrModelName (backup_run calls s) = StrModelName s"
  by (induction calls s rule: backup_run.induct) (simp add: backup_run.simps, subst (1 2) backup_run.simps, simp add: Let_def backup_try_rest)

lemma save_public_rest:
  "ConfigSavePublic env s = Some s' \<Longrightarrow> LocalListVal s' = LocalListVal s \<and> StrModelName s' = StrModelName s \<and> StopTsConfig s' = StopTsConfig s"
  using backup_run_rest backup_run_stop by (auto simp: ConfigSavePublic_def Let_def split: bind_splits if_splits)

lemma entries_not_null: "mem (targetSoc c) \<noteq> None \<Longrightarrow> e \<in> set (main_entries mem c t) \<Longrightarrow> snd e \<noteq> Some None"
proof -
  assume m: "mem (targetSoc c) \<noteq> None" "e \<in> set (main_entries mem c t)"
  have "list_all (\<lambda>e. snd e \<noteq> Some None) (main_entries mem c t)"
    using m(1) by (simp add: main_entries_def stop_entries_def config_entries_def put_int_def)
  then show ?thesis using m(2) by (simp add: list_all_iff)
qed

text \<open>What is in memory after saving.\<close>

lemma saved_in_memory:
  assumes "iniparser_sets d (saved_entries mem s) = Some d'" "mem (targetSoc (theConfig s)) \<noteq> None"
  shows "stored d' (main_entries mem (theConfig s) (StopTsConfig s))"
  unfolding stored_def list_all_iff
proof
  fix e assume e: "e \<in> set (main_entries mem (theConfig s) (StopTsConfig s))"
  obtain k v where kv: "e = (k, v)" by (cases e)
  obtain w where w: "v = Some w" "map_of d' (ini_key k) = Some w" using saved_found [OF assms(1)] e kv by blast
  moreover have "w \<noteq> None" using entries_not_null [OF assms(2) e] kv w(1) by simp
  ultimately show "has_text d' (fst e) (snd e)" using kv by (auto simp: has_text_def val_of_def)
qed

lemma sets_no_nulls: "iniparser_sets d es = Some d' \<Longrightarrow> no_nulls d \<Longrightarrow> \<forall>e\<in>set es. snd e \<noteq> Some None \<Longrightarrow> no_nulls d'"
proof (induction d es rule: iniparser_sets.induct)
  case (2 d key v es)
  obtain w where w: "v = Some w" "iniparser_sets (iniparser_set d (str_bytes key) w) es = Some d'"
    using "2.prems"(1) by (rule sets_ConsE)
  have "no_nulls (iniparser_set d (str_bytes key) w)" using "2.prems"(2,3) w(1) by (auto simp: no_nulls_def map_of_iniparser_set)
  then show ?case using "2.IH" [OF w(1) w(2)] "2.prems"(3) by simp
qed simp

lemma new_dictionary_ok: "ini_ok new_dictionary" "has_sections new_dictionary" "no_nulls new_dictionary"
proof -
  have "list_all (\<lambda>e. is_section (fst e) \<and> snd e = None) new_dictionary" by code_simp
  then show "no_nulls new_dictionary" by (force simp: no_nulls_def list_all_iff dest: map_of_SomeD)
  show "ini_ok new_dictionary" by code_simp
  show "has_sections new_dictionary" by (simp add: has_sections_def new_dictionary_def board_sections_def)
qed

lemma first_texts: "list_all good_text first_strings" "good_text (str_bytes ''2023-10-23T14:05:04.899Z'')" "good_text (str_bytes ''0000000000000000'')"
  by code_simp+

text \<open>What \<open>ConfigInitSave\<close> puts into memory before it saves.\<close>

definition first_numbers :: "u32 list" where
  "first_numbers = [BC_TYPE, 1, 0, 0, 0, 5000, 1, 0, 0, 10, 2, 0, 0, 0]"

definition first_filled :: "nat \<Rightarrow> settings \<Rightarrow> bool" where
  "first_filled n s \<longleftrightarrow> full_shape n (theConfig s) \<and> keysound (theConfig s) = replicate n 0 \<and> kept_strings (theConfig s) = first_strings \<and>
     kept_numbers (theConfig s) = first_numbers \<and> targetSoc (theConfig s) = 100 \<and> stop_shape (StopTsConfig s) \<and>
     TrId (StopTsConfig s) = 0 \<and> LocalListVer s = 0 \<and> length (StrModelName s) = 20 \<and> (\<forall>v\<in>set (LocalListVal s). length (Id v) = 21)"

abbreviation (input) unread :: "nat \<Rightarrow> settings" where
  "unread n \<equiv> (power_on n None)\<lparr>cfgIni := new_dictionary, ini_file := None\<rparr>"

lemma first_memory:
  assumes "0 < n"
  shows "\<exists>s1. ConfigInitSave env junk junk' (unread n) = ConfigSave env junk junk' s1 \<and> first_filled n s1 \<and>
    cfgIni s1 = new_dictionary \<and> ini_file s1 = None \<and>
    list_all good_string [configcheck (theConfig s1), authkey (theConfig s1), devid1 (theConfig s1), devid2 (theConfig s1),
      siteid (theConfig s1), adminpassword (theConfig s1), gpslat (theConfig s1), gpslon (theConfig s1), chkModeMac (theConfig s1),
      chargermac (theConfig s1), ipaddr (theConfig s1), netmask (theConfig s1), gw (theConfig s1), dns (theConfig s1),
      serverip (theConfig s1), ftpIp (theConfig s1), ftpId (theConfig s1), ftpPw (theConfig s1), ftpDns (theConfig s1),
      keysound (theConfig s1), Time_Stamp (StopTsConfig s1), IdTag (StopTsConfig s1)]"
proof -
  let ?s = "power_on n None"
  obtain c where c: "first_config (blank_config n) = Some c" "full_shape n c" "keysound c = replicate n 0"
    "kept_strings c = first_strings" "kept_numbers c = first_numbers" "targetSoc c = 100"
    "list_all (\<lambda>b. 0 \<in> set b) [configcheck c, authkey c, devid1 c, devid2 c, siteid c, adminpassword c,
     gpslat c, gpslon c, chkModeMac c, chargermac c, ipaddr c, netmask c, gw c, dns c, serverip c, ftpIp c, ftpId c, ftpPw c, ftpDns c]"
    using first_config_values [OF assms] unfolding first_numbers_def by blast
  obtain t where t: "first_stop (StopTsConfig ?s) = Some t" "stop_shape t" "TrId t = 0" "good_string (Time_Stamp t)" "good_string (IdTag t)"
    using first_texts by (auto simp: first_stop_def power_on_def sprintf_str_def blit_def length_str_bytes stop_shape_def good_string_def cstr_str)
  obtain ls where ls: "first_local (LocalListVal ?s) = Some ls" "\<forall>v\<in>set ls. length (Id v) = 21"
    by (auto simp: power_on_def eval_nat_numeral sprintf_str_def blit_def length_str_bytes)
  obtain m where m: "blit (StrModelName ?s) 0 (SW_MODEL @ [0]) = Some m" "length m = 20"
    by (auto simp: power_on_def SW_MODEL_def blit_def length_str_bytes)
  have "list_all good_text (kept_strings c)" using first_texts(1) c(4) by simp
  then have "list_all good_string [configcheck c, authkey c, devid1 c, devid2 c, siteid c, adminpassword c, gpslat c, gpslon c,
      chkModeMac c, chargermac c, ipaddr c, netmask c, gw c, dns c, serverip c, ftpIp c, ftpId c, ftpPw c, ftpDns c, keysound c,
      Time_Stamp t, IdTag t]"
    using c(3,7) t(4,5) assms by (simp add: kept_strings_def good_string_def)
  then show ?thesis
    using c t(1,2,3) ls m
    by (intro exI [of _ "(unread n)\<lparr>theConfig := c, StopTsConfig := t, LocalListVer := 0, LocalListVal := ls, StrModelName := m\<rparr>"])
      (simp add: first_filled_def ConfigInitSave_def CST_EVTFileSend_def power_on_def)
qed

lemma first_saved:
  assumes "ini_opens env" "string_at env 100 = Some txt" "good_text txt" "full_shape n junk'" "0 < n"
  shows "\<exists>s2 c t. ConfigInitSave env junk junk' (unread n) = Some s2 \<and> stored (cfgIni s2) (main_entries (string_at env) c t) \<and>
    no_nulls (cfgIni s2) \<and> first_filled n (s2\<lparr>theConfig := c, LocalListVer := 0\<rparr>) \<and> t = StopTsConfig s2 \<and>
    theConfig s2 = c\<lparr>setrevh1_flag := 0\<rparr> \<and> ini_file s2 \<noteq> None"
proof -
  obtain s1 where s1: "ConfigInitSave env junk junk' (unread n) = ConfigSave env junk junk' s1" "first_filled n s1"
    "cfgIni s1 = new_dictionary" "ini_file s1 = None" "texts_clean (string_at env) s1"
    using first_memory [OF assms(5), of env junk junk'] texts_cleanI [OF _ _ _ _ refl refl] assms(2,3) by (auto simp: first_filled_def val_of_def)
  let ?c = "theConfig s1" and ?t = "StopTsConfig s1"
  obtain s2 where s2: "ConfigSavePublic env s1 = Some s2" using save_some [OF _ s1(5)] new_dictionary_ok(1) s1(3) by metis
  note pub = save_public [OF s2] and rest = save_public_rest [OF s2]
  obtain d where d: "iniparser_load (ini_file s2) = Some (Some d)" "no_nulls d" "stored d (main_entries (string_at env) ?c ?t)"
    using reload [OF s2 assms(1) _ _ s1(5)] new_dictionary_ok(1,2) s1(3) by auto
  have ks: "length (cstr (keysound ?c)) < n" and sh: "config_shape ?c"
    using s1(2) assms(5) by (simp_all add: first_filled_def full_shape_def cstr_blank)
  have st: "stored (cfgIni s2) (main_entries (string_at env) ?c ?t)"
    using saved_in_memory [OF pub(1)] assms(2) s1(2) by (simp add: first_filled_def)
  have "map_option ucast (ini_int (cfgIni s2) ''tcpip:dhcp'' 1) = Some (dhcp ?c)" using st by (simp add: stored_texts read_case)
  then obtain v where v: "VerifyConfigSave junk' s2 = Some v"
    using verify_after_save [OF d pub(2) _ sh ks assms(4)] by blast
  have "VerifyConfigSave junk s1 = Some (- 1)" by (simp add: VerifyConfigSave_def s1(4) iniparser_load_def)
  then have save: "ConfigSave env junk junk' s1 = Some s2" using s2 v by (simp add: ConfigSave_def ConfigSaveTask_def)
  have "no_nulls (cfgIni s2)"
  proof (rule sets_no_nulls [OF pub(1)])
    show "no_nulls (cfgIni s1)" using new_dictionary_ok(3) by (simp add: s1(3))
    show "\<forall>e\<in>set (saved_entries (string_at env) s1). snd e \<noteq> Some None"
      using entries_not_null [of "string_at env" ?c] assms(2) s1(2) unfolding set_saved_entries
      by (auto simp: local_list_entries_def put_int_def first_filled_def)
  qed
  moreover have "ini_file s2 \<noteq> None" using pub(3) [OF assms(1)] by (rule conjunct2)
  moreover have "setrevh1_flag ?c = 0" using s1(2) by (simp add: first_filled_def kept_numbers_def first_numbers_def)
  ultimately show ?thesis
    using s1(1,2) save st pub(2) rest by (intro exI [of _ s2] exI [of _ ?c] exI [of _ ?t]) (simp add: first_filled_def)
qed

text \<open>C22. A charger that finds no settings starts with those of \<open>ConfigInitSave\<close>, not with the defaults that \<open>ConfigInit\<close> names for
  missing entries: the file is written first, with all of memory, and then read.  So the password of the administrator is
  2843 and not 7188, the sound and the brightness are 0 and not 15 and 8, there is no name server, no connector is marked as
  available, and the authorisation key is empty.\<close>

theorem first_start_values:
  assumes "ini_opens env" "string_at env 100 = Some txt" "good_text txt" "full_shape n junk'" "0 < n"
  shows "\<exists>s. ConfigInit env junk junk' (power_on n None) = Some s \<and> ini_file s \<noteq> None \<and>
    kept_strings (theConfig s) = first_strings \<and>
    kept_numbers (theConfig s) = first_numbers \<and>
    targetSoc (theConfig s) = word_of_int (strtol txt)"
proof -
  obtain s2 c t where s2: "ConfigInitSave env junk junk' (unread n) = Some s2" "stored (cfgIni s2) (main_entries (string_at env) c t)"
    "no_nulls (cfgIni s2)" "first_filled n (s2\<lparr>theConfig := c, LocalListVer := 0\<rparr>)" "t = StopTsConfig s2"
    "theConfig s2 = c\<lparr>setrevh1_flag := 0\<rparr>" "ini_file s2 \<noteq> None"
    using first_saved [OF assms] by blast
  note f = s2(4) [unfolded first_filled_def]
  have h: "config_shape c" "stop_shape t" "length (cstr (keysound c)) < n" "devtype c = C_TYPE \<or> devtype c = BC_TYPE"
    "- (2 ^ 31) \<le> sint (TrId t)" "sint (TrId t) < 2 ^ 31" "setrevh1_flag c = 0"
    using f s2(5) assms(5) by (simp_all add: full_shape_def cstr_blank kept_numbers_def first_numbers_def)
  have sh: "full_shape n (theConfig s2)" "length (StrModelName s2) = 20" "stop_shape (StopTsConfig s2)" "\<forall>v\<in>set (LocalListVal s2). length (Id v) = 21"
    using f s2(6) by (simp_all add: shape_simps)
  have r: "c\<lparr>setrevh1_flag := reg1 c\<rparr> = c" using h(7) by (simp add: reg1_def)
  obtain s3 where s3: "read_settings (cfgIni s2) s2 = Some s3" "kept_strings (theConfig s3) = kept_strings c"
    "kept_numbers (theConfig s3) = kept_numbers c" "targetSoc (theConfig s3) = word_of_int (strtol txt)" "ini_file s3 = ini_file s2"
    using read_settings_stored [OF s2(2,3) h(1-6) sh] assms(2) f by (auto simp: r val_of_def)
  have "ini_file (power_on n None) = None" by (simp add: power_on_def)
  then show ?thesis
    using s2(1,7) s3 backup_run_frame f by (auto simp: ConfigInit_def Let_def iniparser_load_def)
qed

section \<open>Witnesses\<close>

text \<open>An environment where the address in question holds the text 100.\<close>

definition text_env :: settings_env where
  "text_env = \<lparr>string_at = (\<lambda>a. Some (str_bytes ''100'')), ini_opens = True\<rparr>"

lemma text_env_facts: "good_text (str_bytes ''100'')" "strtol (str_bytes ''100'') = 100"
  by code_simp+

lemma blank_shape: "full_shape n (blank_config n)"
  by (simp add: shape_simps blank_config_def)

lemma text_env_simps: "ini_opens text_env" "string_at text_env a = Some (str_bytes ''100'')"
  by (simp_all add: text_env_def)

theorem first_start_values_witness:
  "\<exists>s. ConfigInit text_env (blank_config 256) (blank_config 256) (power_on 256 None) = Some s \<and> ini_file s \<noteq> None \<and>
    kept_strings (theConfig s) = first_strings \<and> kept_numbers (theConfig s) = first_numbers \<and> targetSoc (theConfig s) = 100"
  using first_start_values [OF text_env_simps text_env_facts(1) blank_shape, of 256 "blank_config 256"] by (simp add: text_env_facts(2))

text \<open>The settings before the first saving fulfil the hypotheses.\<close>

lemma sample_settings:
  "\<exists>s. ini_ok (cfgIni s) \<and> has_sections (cfgIni s) \<and> texts_clean (string_at text_env) s \<and> first_filled 256 s"
proof -
  obtain s where s: "first_filled 256 s" "cfgIni s = new_dictionary" "texts_clean (string_at text_env) s"
    using first_memory [of 256 text_env "blank_config 256" "blank_config 256"] texts_cleanI [OF _ _ _ _ refl refl] text_env_facts(1)
    by (auto simp: first_filled_def val_of_def text_env_simps)
  then show ?thesis using new_dictionary_ok(1,2) by metis
qed

lemma first_filled_facts:
  assumes "first_filled n s" "0 < n"
  shows "config_shape (theConfig s)" "stop_shape (StopTsConfig s)" "length (cstr (keysound (theConfig s))) < n"
    "devtype (theConfig s) = C_TYPE \<or> devtype (theConfig s) = BC_TYPE" "- (2 ^ 31) \<le> sint (TrId (StopTsConfig s))"
    "sint (TrId (StopTsConfig s)) < 2 ^ 31" "length (cstr (ftpPw (theConfig s))) \<le> 11" "cstr (ftpPw (theConfig s)) \<noteq> cstr (ftpIp (theConfig s))"
  using assms inj_eq [OF inj_str_bytes]
  by (simp_all add: first_filled_def full_shape_def cstr_blank kept_numbers_def first_numbers_def kept_strings_def first_strings_def length_str_bytes)

theorem config_survives_restart_witness:
  "\<exists>s s' s2. ConfigSavePublic text_env s = Some s' \<and>
    ConfigInit text_env (blank_config 256) (blank_config 256) (power_on 256 (ini_file s')) = Some s2 \<and>
    kept_strings (theConfig s2) = first_strings \<and> targetSoc (theConfig s2) = 100"
proof -
  obtain s where s: "ini_ok (cfgIni s)" "has_sections (cfgIni s)" "texts_clean (string_at text_env) s" "first_filled 256 s"
    using sample_settings by blast
  note f = first_filled_facts [OF s(4)]
  have "kept_strings (theConfig s) = first_strings" using s(4) by (simp add: first_filled_def)
  then show ?thesis
    using config_survives_restart [OF text_env_simps(1) s(1-3) f(1-6), of text_env "blank_config 256" "blank_config 256"]
    by (auto simp: text_env_simps text_env_facts(2) val_of_def)
qed

theorem saved_file_never_equal_witness:
  "\<exists>s s'. ConfigSavePublic text_env s = Some s' \<and> VerifyConfigSave (blank_config 256) s' = Some 1 \<and>
    ConfigSave text_env (blank_config 256) (blank_config 256) s' = ConfigSaveTask text_env (blank_config 256) s'"
proof -
  obtain s where s: "ini_ok (cfgIni s)" "has_sections (cfgIni s)" "texts_clean (string_at text_env) s" "first_filled 256 s"
    using sample_settings by blast
  note f = first_filled_facts [OF s(4)]
  show ?thesis
    using saved_file_never_equal [OF text_env_simps(1) s(1-3) f(1,3) blank_shape f(7,8), of "blank_config 256"] by auto
qed

end
