(* ===== verification/Service.thy ===== *)
theory Service
  imports Settings "HOL-Library.Signed_Division"
begin

text \<open>
  The screens on which an administrator changes the settings: server, port and addresses (\<open>layer_admin_set_ip.c\<close>,
  \<open>layer_ipall.c\<close>), the settings of the charger (\<open>layer_chargerset.c\<close>), position and kind of authorisation
  (\<open>layer_chargerset2.c\<close>).

  Each file keeps the characters that are being typed in a static array \<open>sNum\<close> with the counter \<open>sCount\<close>: here \<open>ip_\<close>, \<open>cs_\<close> and
  \<open>c2_\<close> stand before their names.  A text that is shown is left out, but the local arrays it is built in are not: an operation is
  \<open>None\<close> when a string in memory has no end, when it does not fit the array it is printed into, or when it is used as a format and
  contains a percent sign.  The changes of screen that end a dialogue are in the theory \<open>Admin\<close>.
\<close>

section \<open>State\<close>

datatype ip_listener = NumInputListenersport | NumInputListenerchargerip | NumInputListenergate | NumInputListenersubnet

datatype cs_listener =
    NumKeyDateInputListener | NumInputListenerstid | NumInputListenerid1 | NumInputListenerid2 | NumInputListenersound
  | NumInputListenerlcd | NumInputListenermode1 | NumInputListenermode2 | NumInputListenermode3 | NumInputListenerpass
  | NumInputListenerTSoc

datatype c2_listener = NumInputListenerstla | NumInputListenerstlo | NumInputListenersel

text \<open>\<open>date_text\<close> are the arrays \<open>__year\<close>, \<open>__mon\<close>, \<open>__day\<close>, \<open>__hour\<close>, \<open>__min\<close>, \<open>__sec\<close>.\<close>

record service =
  conf :: Config
  setipselect :: int
  bChangedNetInfo :: bool
  bDHCPStatus :: bool
  ip_saInputListener :: "ip_listener option"
  ip_sNum :: bytes
  ip_sCount :: nat
  sIp :: bytes
  bShiftKey :: bool
  nIpKeyType :: nat
  adminsetchargerselect1 :: int
  adminsetchargerselect2 :: int
  cs_saInputListener :: "cs_listener option"
  cs_sNum :: bytes
  sNumDev :: bytes
  sNumDevDev :: bytes
  cs_sCount :: nat
  sCountDev :: nat
  sCountDevDev :: nat
  MaxDigit :: nat
  nSelect :: nat
  SleeptimeSelectControl :: bool
  timeSelectControl :: bool
  timeSelectControl_ :: bool
  sLNum :: bytes
  date_text :: "bytes list"
  admintimeStamp :: bytes
  c2_saInputListener :: "c2_listener option"
  c2_sNum :: bytes
  c2_sCount :: nat

abbreviation (input) MAX_ADDRESS :: nat where "MAX_ADDRESS \<equiv> 70"
abbreviation (input) blank :: u8 where "blank \<equiv> 0x20"
abbreviation (input) del_key :: u8 where "del_key \<equiv> 0x64"

type_synonym service_step = "service \<Rightarrow> service option"

section \<open>Strings\<close>

text \<open>\<open>sprintf\<close> of a string, and \<open>sprintf\<close> with a string as its format.\<close>

definition sprintf_s :: "bytes \<Rightarrow> bytes \<Rightarrow> bytes option" where
  "sprintf_s dst src = Option.bind (c_string src) (\<lambda>s. blit dst 0 (s @ [0]))"

definition sprintf_fmt :: "bytes \<Rightarrow> bytes \<Rightarrow> bytes option" where
  "sprintf_fmt dst src = (if 0x25 \<in> set (cstr src) then None else sprintf_s dst src)"

text \<open>A string is printed into a local array of \<open>n\<close> bytes.\<close>

abbreviation (input) shows_s :: "nat \<Rightarrow> bytes \<Rightarrow> bytes option" where "shows_s n src \<equiv> sprintf_s (replicate n 0) src"
abbreviation (input) shows_fmt :: "nat \<Rightarrow> bytes \<Rightarrow> bytes option" where "shows_fmt n src \<equiv> sprintf_fmt (replicate n 0) src"

text \<open>What every listener of a keypad does with its array: a character is appended up to a limit, the key for deleting puts a
  blank over the last one.\<close>

definition key_entry :: "nat \<Rightarrow> u8 \<Rightarrow> bytes \<Rightarrow> nat \<Rightarrow> (bytes \<times> nat) option" where
  "key_entry limit c num count =
     (if c \<noteq> del_key
      then if count < limit then map_option (\<lambda>b. (b, count + 1)) (wr num count c) else Some (num, count)
      else if 0 < count then map_option (\<lambda>b. (b, count - 1)) (wr num (count - 1) blank) else Some (num, count))"

section \<open>Server, port and addresses\<close>

text \<open>The addresses are formats, since the arguments of \<open>snprintf\<close> are in the wrong places.\<close>

definition adminsetipEnter :: service_step where
  "adminsetipEnter s = do {
     let c = conf s;
     _ \<leftarrow> shows_fmt MAX_ADDRESS (serverip c);
     _ \<leftarrow> shows_fmt MAX_ADDRESS (ipaddr c);
     _ \<leftarrow> shows_fmt MAX_ADDRESS (gw c);
     _ \<leftarrow> shows_s MAX_ADDRESS (netmask c);
     _ \<leftarrow> shows_s 18 (chargermac c);
     Some (s\<lparr>setipselect := 0, bDHCPStatus := dhcp c \<noteq> 0\<rparr>)
   }"

definition adminsetipLeave :: "service \<Rightarrow> service" where
  "adminsetipLeave s = s\<lparr>bChangedNetInfo := False\<rparr>"

text \<open>Whether the dialogue opens.\<close>

definition SetNetFuncOnPress :: "int \<Rightarrow> service \<Rightarrow> service \<times> bool" where
  "SetNetFuncOnPress n s =
     (let s = s\<lparr>setipselect := n\<rparr>
      in if bDHCPStatus s \<and> 2 < n \<and> n < 6 then (s, False)
         else (if 2 < n \<and> n \<le> 6 then s\<lparr>bChangedNetInfo := True\<rparr> else s, True))"

definition ToggleDHCP :: "service \<Rightarrow> service" where
  "ToggleDHCP s =
     (if bDHCPStatus s then s\<lparr>bDHCPStatus := False, conf := (conf s)\<lparr>dhcp := 0\<rparr>\<rparr>
      else s\<lparr>bDHCPStatus := True, conf := (conf s)\<lparr>dhcp := 1\<rparr>\<rparr>)"

definition ResetNumberserverip :: service_step where
  "ResetNumberserverip s = map_option (\<lambda>b. s\<lparr>sIp := b\<rparr>) (sprintf_s (replicate MAX_ADDRESS 0) (serverip (conf s)))"

definition ResetNumbermac :: service_step where
  "ResetNumbermac s = map_option (\<lambda>b. s\<lparr>sIp := b\<rparr>) (sprintf_s (replicate MAX_ADDRESS 0) (chargermac (conf s)))"

definition ResetNumbersport :: service_step where
  "ResetNumbersport s =
     (let t = fmt_d (sint (serverport (conf s)))
      in map_option (\<lambda>b. s\<lparr>ip_sNum := b, ip_sCount := length t\<rparr>) (blit (replicate 16 blank) 0 (t @ [0])))"

text \<open>\<open>ResetNumberchargerip\<close>, \<open>ResetNumbergate\<close> and \<open>ResetNumbersubnet\<close> for the address \<open>a\<close>.\<close>

definition reset_address :: "bytes \<Rightarrow> service_step" where
  "reset_address a s = do {
     b \<leftarrow> strncpy_src a 16;
     t \<leftarrow> c_string a;
     Some (s\<lparr>ip_sNum := b, ip_sCount := length t\<rparr>)
   }"

definition ipAllLayer_Enter :: service_step where
  "ipAllLayer_Enter s =
     (if setipselect s = 1 then ResetNumberserverip s
      else if setipselect s = 2 then map_option (\<lambda>s. s\<lparr>ip_saInputListener := Some NumInputListenersport\<rparr>) (ResetNumbersport s)
      else if setipselect s = 3
        then map_option (\<lambda>s. s\<lparr>ip_saInputListener := Some NumInputListenerchargerip\<rparr>) (reset_address (ipaddr (conf s)) s)
      else if setipselect s = 4 then map_option (\<lambda>s. s\<lparr>ip_saInputListener := Some NumInputListenergate\<rparr>) (reset_address (gw (conf s)) s)
      else if setipselect s = 5
        then map_option (\<lambda>s. s\<lparr>ip_saInputListener := Some NumInputListenersubnet\<rparr>) (reset_address (netmask (conf s)) s)
      else if setipselect s = 6 then ResetNumbermac s
      else Some s)"

definition ipAllLayer_Leave :: "service \<Rightarrow> service" where
  "ipAllLayer_Leave s =
     (if 2 \<le> setipselect s \<and> setipselect s \<le> 5 then s\<lparr>ip_saInputListener := None, setipselect := 0\<rparr> else s\<lparr>setipselect := 0\<rparr>)"

text \<open>A digit, the point or the key for deleting.  The text of the port is printed, those of the addresses are copied as they are
  and then shown.\<close>

definition aNumKeypadOnPress :: "u8 \<Rightarrow> service_step" where
  "aNumKeypadOnPress c s =
     (case ip_saInputListener s of
        None \<Rightarrow> Some s
      | Some l \<Rightarrow> do {
          (b, n) \<leftarrow> key_entry (if l = NumInputListenersport then 6 else 15) c (ip_sNum s) (ip_sCount s);
          _ \<leftarrow> (if l = NumInputListenersport then shows_s 32 b else c_string b);
          Some (s\<lparr>ip_sNum := b, ip_sCount := n\<rparr>)
        })"

definition IpKeyArr :: "bytes list" where
  "IpKeyArr = map str_bytes [''1234567890abcde'', ''fghijklmnopqrst'', ''uvwxyx.:!@#/%&-'']"

definition IpKeyArrC :: "bytes list" where
  "IpKeyArrC = map str_bytes [''1234567890ABCDE'', ''FGHIJKLMNOPQRST'', ''UVWXYZ.,!@#$%&*'']"

definition GetCharIpKeyPad :: "nat \<Rightarrow> service \<Rightarrow> u8 option" where
  "GetCharIpKeyPad num s =
     (if bShiftKey s \<and> (nIpKeyType s = 1 \<or> nIpKeyType s = 2 \<and> num < 12)
      then Option.bind (rd IpKeyArrC (nIpKeyType s)) (\<lambda>row. rd row num)
      else Option.bind (rd IpKeyArr (nIpKeyType s)) (\<lambda>row. rd row num))"

text \<open>The text is used as a format.\<close>

definition IpInfoUpdate :: "nat \<Rightarrow> service_step" where
  "IpInfoUpdate num s = do {
     t \<leftarrow> c_string (sIp s);
     b \<leftarrow> (if num = 17 then if 0 < length t then wr (sIp s) (length t - 1) 0 else Some (sIp s)
       else do {
         c \<leftarrow> GetCharIpKeyPad num s;
         b \<leftarrow> blit (sIp s) (length t) [c, 0];
         wr b (length t + 1) 0
       });
     _ \<leftarrow> shows_fmt MAX_ADDRESS b;
     Some (s\<lparr>sIp := b\<rparr>)
   }"

definition IpKeypadOnPress :: "nat \<Rightarrow> service_step" where
  "IpKeypadOnPress num s =
     (if num \<le> 14 \<or> num = 17 then IpInfoUpdate num s
      else if num = 15 then Some (s\<lparr>bShiftKey := \<not> bShiftKey s\<rparr>)
      else if num = 16 then Some (s\<lparr>nIpKeyType := if 2 < nIpKeyType s + 1 then 0 else nIpKeyType s + 1\<rparr>)
      else Some s)"

definition serverportOkOnPress :: service_step where
  "serverportOkOnPress s = map_option (\<lambda>v. s\<lparr>conf := (conf s)\<lparr>serverport := word_of_int v\<rparr>\<rparr>) (atoi (ip_sNum s))"

text \<open>The address that is built in an array of sixteen blanks.\<close>

definition typed_address :: "service \<Rightarrow> bytes option" where
  "typed_address s = sprintf_fmt (replicate 16 blank) (ip_sNum s)"

definition chargeripsetOkOnPress :: service_step where
  "chargeripsetOkOnPress s =
     map_option (\<lambda>b. s\<lparr>conf := (conf s)\<lparr>ipaddr := b\<rparr>, ip_sNum := replicate 16 0\<rparr>) (typed_address s)"

definition subnetmaskOkOnPress :: service_step where
  "subnetmaskOkOnPress s =
     map_option (\<lambda>b. s\<lparr>conf := (conf s)\<lparr>netmask := b\<rparr>, ip_sNum := replicate 16 0\<rparr>) (typed_address s)"

definition gatewayOkOnPress :: service_step where
  "gatewayOkOnPress s =
     map_option (\<lambda>b. s\<lparr>conf := (conf s)\<lparr>gw := b\<rparr>, ip_sNum := replicate 16 0\<rparr>) (typed_address s)"

definition ServeripOkOnPress :: service_step where
  "ServeripOkOnPress s =
     map_option (\<lambda>b. s\<lparr>conf := (conf s)\<lparr>serverip := b\<rparr>, sIp := replicate MAX_ADDRESS 0\<rparr>) (blit (serverip (conf s)) 0 (sIp s))"

definition MacAddressOkOnPress :: service_step where
  "MacAddressOkOnPress s = do {
     t \<leftarrow> slice (sIp s) 0 18;
     b \<leftarrow> blit (chargermac (conf s)) 0 t;
     Some (s\<lparr>conf := (conf s)\<lparr>chargermac := b\<rparr>, sIp := replicate MAX_ADDRESS 0\<rparr>)
   }"

section \<open>Settings of the charger\<close>

text \<open>A decimal digit in a \<open>char\<close>, as the code computes it.\<close>

definition digit_char :: "int \<Rightarrow> u8" where
  "digit_char v = word_of_int (v + 0x30)"

definition char_digit :: "u8 \<Rightarrow> int" where
  "char_digit c = sint c - 0x30"

definition two_chars :: "bytes \<Rightarrow> bytes \<Rightarrow> bytes option" where
  "two_chars num src = do {
     a \<leftarrow> rd src 0;
     b \<leftarrow> rd src 1;
     num \<leftarrow> wr num 0 a;
     wr num 1 b
   }"

definition ResetNumberstid :: service_step where
  "ResetNumberstid s = do {
     t \<leftarrow> slice (siteid (conf s)) 0 8;
     b \<leftarrow> blit (replicate 12 0) 0 t;
     Some (s\<lparr>cs_sCount := 8, cs_sNum := b\<rparr>)
   }"

definition ResetNumbersound :: service_step where
  "ResetNumbersound s =
     (let v = sint (audiolevel (conf s))
      in map_option (\<lambda>b. s\<lparr>cs_sCount := 2, cs_sNum := b\<rparr>) (blit (replicate 12 0) 0 [digit_char (v sdiv 10), digit_char (v smod 10)]))"

definition ResetNumberid1 :: service_step where
  "ResetNumberid1 s = do {
     a \<leftarrow> two_chars (replicate 12 0) (devid1 (conf s));
     b \<leftarrow> two_chars (replicate 12 0) (devid2 (conf s));
     Some (s\<lparr>cs_sCount := 2, sCountDev := 2, cs_sNum := a, sNumDev := b\<rparr>)
   }"

definition STR_TIME_MIN :: bytes where
  "STR_TIME_MIN = [0xEB, 0xB6, 0x84]"

definition ResetNumberlcd :: service_step where
  "ResetNumberlcd s =
     (let v = sint (screensaver_time (conf s)); buf = fmt_d v @ STR_TIME_MIN;
          n = (if 99 < v then 3 else if 9 < v then 2 else 1)
      in map_option (\<lambda>b. s\<lparr>cs_sCount := 3, cs_sNum := b\<rparr>) (blit (replicate 12 blank) 0 (take n buf)))"

definition ResetNumbermode1 :: service_step where
  "ResetNumbermode1 s =
     map_option (\<lambda>b. s\<lparr>cs_sCount := 1, cs_sNum := b\<rparr>) (blit (replicate 12 0) 0 [digit_char (sint (OperationMode (conf s)))])"

definition ResetNumbermode2 :: service_step where
  "ResetNumbermode2 s =
     (let v = sint (FreeChargingTime (conf s))
      in map_option (\<lambda>b. s\<lparr>sCountDev := 2, sNumDev := b\<rparr>) (blit (replicate 12 0) 0 [digit_char (v sdiv 10), digit_char (v smod 10)]))"

definition ResetNumbermode3 :: service_step where
  "ResetNumbermode3 s =
     map_option (\<lambda>b. s\<lparr>sCountDevDev := 12, sNumDevDev := b\<rparr>) (blit (replicate 13 0) 0 (chkModeMac (conf s)))"

definition ResetNumberpass :: service_step where
  "ResetNumberpass s = do {
     t \<leftarrow> slice (adminpassword (conf s)) 0 4;
     b \<leftarrow> blit (replicate 12 0) 0 t;
     Some (s\<lparr>cs_sCount := 4, cs_sNum := b\<rparr>)
   }"

text \<open>The digits are stored as numbers, not as characters.\<close>

definition ResetNumberTSoc :: service_step where
  "ResetNumberTSoc s =
     (let v = sint (targetSoc (conf s))
      in map_option (\<lambda>b. s\<lparr>cs_sCount := 3, cs_sNum := b\<rparr>)
        (blit (replicate 12 0) 0 [word_of_int (v sdiv 100 smod 10), word_of_int (v sdiv 10 smod 10), word_of_int (v smod 10)]))"

text \<open>The list of the settings: site and password are formats too.\<close>

definition adminsetchargerEnter :: service_step where
  "adminsetchargerEnter s = do {
     let c = conf s;
     _ \<leftarrow> shows_fmt 9 (siteid c);
     _ \<leftarrow> blit (replicate 9 0) 0 (fmt_02d (sint (audiolevel c)) @ [0]);
     _ \<leftarrow> blit (replicate 9 0) 0 (fmt_d (sint (screensaver_time c)) @ STR_TIME_MIN @ [0]);
     _ \<leftarrow> shows_fmt 9 (adminpassword c);
     Some (s\<lparr>adminsetchargerselect1 := 0, adminsetchargerselect2 := 0\<rparr>)
   }"

definition listen :: "cs_listener \<Rightarrow> service \<Rightarrow> service" where
  "listen l s = s\<lparr>cs_saInputListener := Some l\<rparr>"

text \<open>Date and time are printed with their terminators into arrays that have room for the digits only.\<close>

definition print_date :: "tm \<Rightarrow> bytes list \<Rightarrow> bytes list option" where
  "print_date t d = do {
     y \<leftarrow> Option.bind (rd d 0) (\<lambda>b. blit b 0 (fmt_d (tm_year t + 1900) @ [0]));
     mon \<leftarrow> Option.bind (rd d 1) (\<lambda>b. blit b 0 (fmt_02d (tm_mon t + 1) @ [0]));
     day \<leftarrow> Option.bind (rd d 2) (\<lambda>b. blit b 0 (fmt_02d (tm_mday t) @ [0]));
     hour \<leftarrow> Option.bind (rd d 3) (\<lambda>b. blit b 0 (fmt_02d (tm_hour t) @ [0]));
     min \<leftarrow> Option.bind (rd d 4) (\<lambda>b. blit b 0 (fmt_02d (tm_min t) @ [0]));
     sec \<leftarrow> Option.bind (rd d 5) (\<lambda>b. blit b 0 (fmt_02d (tm_sec t) @ [0]));
     Some [y, mon, day, hour, min, sec]
   }"

definition layer_chargersetEnter :: "tm \<Rightarrow> service_step" where
  "layer_chargersetEnter t s =
     (let s = s\<lparr>timeSelectControl := False\<rparr>; n = adminsetchargerselect1 s in
      if n = 1 then map_option (listen NumInputListenerstid) (ResetNumberstid s)
      else if n = 2 then map_option (listen NumInputListenerid1) (ResetNumberid1 s)
      else if n = 3 then map_option (listen NumInputListenersound) (ResetNumbersound s)
      else if n = 4 then do {
        d \<leftarrow> print_date t (date_text s);
        Some (listen NumInputListenerlcd (s\<lparr>SleeptimeSelectControl := False, date_text := d\<rparr>))
      }
      else if n = 5 then map_option (listen NumInputListenerpass) (ResetNumberpass s)
      else if n = 6 then do {
        s \<leftarrow> ResetNumbermode1 s;
        s \<leftarrow> ResetNumbermode2 s;
        s \<leftarrow> ResetNumbermode3 s;
        Some (listen NumInputListenermode1 s)
      }
      else if n = 7 then map_option (listen NumInputListenerTSoc) (ResetNumberTSoc s)
      else Some s)"

definition layer_chargersetLeave :: "service \<Rightarrow> service" where
  "layer_chargersetLeave s =
     (let n = adminsetchargerselect1 s
      in (if 1 \<le> n \<and> n \<le> 6 then s\<lparr>cs_saInputListener := None\<rparr> else s)\<lparr>adminsetchargerselect1 := 0\<rparr>)"

definition GetItemNumberDigit :: "service \<Rightarrow> nat" where
  "GetItemNumberDigit s =
     (let n = adminsetchargerselect1 s in if n = 1 then 8 else if n = 2 \<or> n = 3 then 2 else if n = 5 then 4 else 0)"

text \<open>With a single digit the counter is one already, so that the digit is taken as the first of two.\<close>

definition UpdateDateTimeNumber :: service_step where
  "UpdateDateTimeNumber s =
     (if nSelect s = 0
      then do {
        t \<leftarrow> slice (cs_sNum s) 0 4;
        b \<leftarrow> Option.bind (rd (date_text s) 0) (\<lambda>b. blit b 0 t);
        Some (s\<lparr>date_text := (date_text s)[0 := b]\<rparr>)
      }
      else if nSelect s \<le> 5
      then do {
        t \<leftarrow> slice (cs_sNum s) 0 2;
        b \<leftarrow> Option.bind (rd (date_text s) (nSelect s)) (\<lambda>b. blit b 0 (if cs_sCount s < 1 then [0x30, hd t] else t));
        Some (s\<lparr>date_text := (date_text s)[nSelect s := b]\<rparr>)
      }
      else Some s)"

definition UpdateNumberlcd :: service_step where
  "UpdateNumberlcd s = map_option (\<lambda>b. s\<lparr>SleeptimeSelectControl := True, sLNum := b\<rparr>) (blit (sLNum s) 0 (cs_sNum s))"

text \<open>The listeners with the array \<open>sNum\<close> and their limits.\<close>

definition cs_limit :: "cs_listener \<Rightarrow> service \<Rightarrow> nat" where
  "cs_limit l s =
     (case l of NumKeyDateInputListener \<Rightarrow> MaxDigit s | NumInputListenerstid \<Rightarrow> GetItemNumberDigit s | NumInputListenermode1 \<Rightarrow> 1
      | NumInputListenerpass \<Rightarrow> 4 | NumInputListenerTSoc \<Rightarrow> 3 | NumInputListenermode3 \<Rightarrow> 12 | _ \<Rightarrow> 2)"

definition cs_key :: "u8 \<Rightarrow> service_step" where
  "cs_key c s =
     (case cs_saInputListener s of
        None \<Rightarrow> Some s
      | Some l \<Rightarrow>
          if l = NumInputListenerid2 \<or> l = NumInputListenermode2
          then map_option (\<lambda>(b, n). s\<lparr>sNumDev := b, sCountDev := n\<rparr>) (key_entry (cs_limit l s) c (sNumDev s) (sCountDev s))
          else if l = NumInputListenermode3
          then map_option (\<lambda>(b, n). s\<lparr>sNumDevDev := b, sCountDevDev := n\<rparr>) (key_entry (cs_limit l s) c (sNumDevDev s) (sCountDevDev s))
          else do {
            (b, n) \<leftarrow> key_entry (cs_limit l s) c (cs_sNum s) (cs_sCount s);
            let s = s\<lparr>cs_sNum := b, cs_sCount := n\<rparr>;
            if l = NumKeyDateInputListener then UpdateDateTimeNumber s
            else if l = NumInputListenerlcd then UpdateNumberlcd s
            else Some s
          })"

text \<open>The first of the three pages of characters is the only one that is ever shown.\<close>

definition keyarr0 :: bytes where
  "keyarr0 = str_bytes ''1234567890ABCDEF''"

definition sNumKeypadChar :: bytes where
  "sNumKeypadChar = str_bytes ''0123456789d''"

definition KeypadOnPress :: "nat \<Rightarrow> service_step" where
  "KeypadOnPress n s = (if cs_saInputListener s = None then Some s else Option.bind (rd keyarr0 n) (\<lambda>c. cs_key c s))"

definition KeypadOnPress_del :: service_step where
  "KeypadOnPress_del s = cs_key del_key s"

definition bNumKeypad1OnPress :: "nat \<Rightarrow> service_step" where
  "bNumKeypad1OnPress n s = (if cs_saInputListener s = None then Some s else Option.bind (rd sNumKeypadChar n) (\<lambda>c. cs_key c s))"

text \<open>The buttons that choose what is typed.\<close>

definition SelectDateTimeSet :: "nat \<Rightarrow> service \<Rightarrow> service" where
  "SelectDateTimeSet n s =
     (let m = (if n = 0 then 4 else if n \<le> 5 then 2 else cs_sCount s)
      in listen NumKeyDateInputListener (s\<lparr>nSelect := n, timeSelectControl := True, MaxDigit := m, cs_sCount := 0, cs_sNum := replicate 12 0\<rparr>))"

definition SelectLcdTimeSetPress :: service_step where
  "SelectLcdTimeSetPress s = map_option (listen NumInputListenerlcd) (ResetNumberlcd s)"

definition SelectModeSetPress :: "service \<Rightarrow> service" where
  "SelectModeSetPress s = listen NumInputListenermode1 (s\<lparr>cs_sCount := 1\<rparr>)"

definition SelectFreeTimeSetPress :: "service \<Rightarrow> service" where
  "SelectFreeTimeSetPress s = listen NumInputListenermode2 (s\<lparr>cs_sCount := 2\<rparr>)"

definition SelectEvccMacSetPress :: "service \<Rightarrow> service" where
  "SelectEvccMacSetPress s = listen NumInputListenermode3 (s\<lparr>cs_sCount := 12\<rparr>)"

definition SelectTargetSocSetPress :: "service \<Rightarrow> service" where
  "SelectTargetSocSetPress s = listen NumInputListenerTSoc (s\<lparr>cs_sCount := 3\<rparr>)"

text \<open>The buttons that take over what has been typed.\<close>

abbreviation (input) cs_done :: "Config \<Rightarrow> service \<Rightarrow> service" where
  "cs_done c s \<equiv> s\<lparr>conf := c, cs_sNum := replicate 12 0\<rparr>"

definition PassChangeOkOnPress :: service_step where
  "PassChangeOkOnPress s = do {
     t \<leftarrow> slice (cs_sNum s) 0 4;
     b \<leftarrow> blit (adminpassword (conf s)) 0 t;
     Some (cs_done ((conf s)\<lparr>adminpassword := b\<rparr>) s)
   }"

text \<open>The digits of date and time, packed two to a byte.\<close>

definition pack_pairs :: "bytes \<Rightarrow> bytes" where
  "pack_pairs p = map (\<lambda>i. push_bit 4 (p ! (2 * i)) OR (p ! (2 * i + 1) AND 0x0F)) [0..<length p div 2]"

definition lcdOnOffOkOnPress :: service_step where
  "lcdOnOffOkOnPress s = do {
     s \<leftarrow> (if SleeptimeSelectControl s
       then map_option (\<lambda>v. s\<lparr>SleeptimeSelectControl := False, conf := (conf s)\<lparr>screensaver_time := word_of_int v\<rparr>\<rparr>) (atoi (sLNum s))
       else Some s);
     let s = (if timeSelectControl s
       then s\<lparr>admintimeStamp := pack_pairs (concat (date_text s)), timeSelectControl := False, timeSelectControl_ := True,
         date_text := map (\<lambda>p. map (\<lambda>i. if odd i then p ! i AND 0x0F else p ! i) [0..<length p]) (date_text s)\<rparr>
       else s);
     Some (cs_done (conf s) s)
   }"

text \<open>This is the dialogue for the volume.\<close>

definition chargerid2OkOnPress :: service_step where
  "chargerid2OkOnPress s = do {
     a \<leftarrow> rd (cs_sNum s) 0;
     b \<leftarrow> rd (cs_sNum s) 1;
     let v = (if a = blank \<or> b = blank then 70 else max 0 (char_digit a) * 10 + char_digit b);
     Some (cs_done ((conf s)\<lparr>audiolevel := word_of_int (if v < 0 then 70 else v)\<rparr>) s)
   }"

definition chargerid1OkOnPress :: service_step where
  "chargerid1OkOnPress s = do {
     a \<leftarrow> two_chars (devid1 (conf s)) (cs_sNum s);
     b \<leftarrow> two_chars (devid2 (conf s)) (sNumDev s);
     Some (cs_done ((conf s)\<lparr>devid1 := a, devid2 := b\<rparr>) s)
   }"

definition stationIdOkOnPress :: service_step where
  "stationIdOkOnPress s = do {
     t \<leftarrow> slice (cs_sNum s) 0 8;
     b \<leftarrow> blit (siteid (conf s)) 0 t;
     Some (cs_done ((conf s)\<lparr>siteid := b\<rparr>) s)
   }"

definition ModeOkOnPress :: service_step where
  "ModeOkOnPress s = do {
     m \<leftarrow> rd (cs_sNum s) 0;
     a \<leftarrow> rd (sNumDev s) 0;
     b \<leftarrow> rd (sNumDev s) 1;
     mac \<leftarrow> blit (chkModeMac (conf s)) 0 (sNumDevDev s);
     mac \<leftarrow> wr mac 12 0;
     Some (cs_done ((conf s)\<lparr>OperationMode := (if 0x30 \<le> sint m \<and> sint m < 0x33 then word_of_int (char_digit m) else 0),
       FreeChargingTime := word_of_int (max 0 (char_digit a) * 10 + max 0 (char_digit b)), chkModeMac := mac\<rparr>) s)
   }"

definition typed_soc :: "bytes \<Rightarrow> int option" where
  "typed_soc n =
     (if 0x30 \<le> sint (n ! 0) \<and> sint (n ! 0) \<le> 0x39
      then if 0x30 \<le> sint (n ! 1) \<and> sint (n ! 1) \<le> 0x39
        then if n ! 2 = 0x30 then if n ! 0 = 0x31 \<and> n ! 1 = 0x30 then Some 100 else None
          else if n ! 2 \<noteq> blank then None
          else Some (char_digit (n ! 0) * 10 + char_digit (n ! 1))
        else if n ! 1 \<noteq> blank then None
        else Some (char_digit (n ! 0))
      else None)"

definition TargetSocOkOnPress :: service_step where
  "TargetSocOkOnPress s = do {
     t \<leftarrow> slice (cs_sNum s) 0 3;
     Some (cs_done (case typed_soc t of None \<Rightarrow> conf s | Some v \<Rightarrow> (conf s)\<lparr>targetSoc := word_of_int v\<rparr>) s)
   }"

section \<open>Position and kind of authorisation\<close>

text \<open>The latitude is a format for an array of eight bytes.\<close>

definition ResetNumberstla :: service_step where
  "ResetNumberstla s = do {
     t \<leftarrow> slice (gpslat (conf s)) 0 8;
     b \<leftarrow> blit (replicate 18 0) 0 t;
     _ \<leftarrow> shows_fmt 8 (gpslat (conf s));
     Some (s\<lparr>c2_sCount := 8, c2_sNum := b\<rparr>)
   }"

definition ResetNumberstlo :: service_step where
  "ResetNumberstlo s = do {
     t \<leftarrow> slice (gpslon (conf s)) 0 9;
     b \<leftarrow> blit (replicate 18 0) 0 t;
     _ \<leftarrow> shows_fmt 16 (gpslon (conf s));
     Some (s\<lparr>c2_sCount := 9, c2_sNum := b\<rparr>)
   }"

definition ResetNumbersel :: service_step where
  "ResetNumbersel s = do {
     buf \<leftarrow> blit (replicate 10 0) 0 (fmt_d (sint (ConfirmSelect (conf s))) @ [0]);
     Some (s\<lparr>c2_sCount := 1, c2_sNum := buf ! 0 # replicate 17 blank\<rparr>)
   }"

definition adminsetcharger2Enter :: service_step where
  "adminsetcharger2Enter s = do {
     _ \<leftarrow> shows_fmt 32 (gpslat (conf s));
     _ \<leftarrow> shows_fmt 32 (gpslon (conf s));
     _ \<leftarrow> shows_s 32 (chargermac (conf s));
     Some (s\<lparr>adminsetchargerselect2 := 0\<rparr>)
   }"

definition layer_charger2setEnter :: service_step where
  "layer_charger2setEnter s =
     (let n = adminsetchargerselect2 s in
      if n = 1 then map_option (\<lambda>s. s\<lparr>c2_saInputListener := Some NumInputListenerstla\<rparr>) (ResetNumberstla s)
      else if n = 2 then map_option (\<lambda>s. s\<lparr>c2_saInputListener := Some NumInputListenerstlo\<rparr>) (ResetNumberstlo s)
      else if n = 5 then map_option (\<lambda>s. s\<lparr>c2_saInputListener := Some NumInputListenersel\<rparr>) (ResetNumbersel s)
      else Some s)"

definition Layer_charger2setLeave :: "service \<Rightarrow> service" where
  "Layer_charger2setLeave s =
     (let n = adminsetchargerselect2 s
      in (if n = 1 \<or> n = 2 \<or> n = 5 then s\<lparr>c2_saInputListener := None\<rparr> else s)\<lparr>adminsetchargerselect2 := 0\<rparr>)"

definition cNumKeypadOnPress :: "u8 \<Rightarrow> service_step" where
  "cNumKeypadOnPress c s =
     (case c2_saInputListener s of
        None \<Rightarrow> Some s
      | Some l \<Rightarrow> do {
          (b, n) \<leftarrow> key_entry (case l of NumInputListenerstla \<Rightarrow> 8 | NumInputListenerstlo \<Rightarrow> 9 | NumInputListenersel \<Rightarrow> 1) c (c2_sNum s) (c2_sCount s);
          _ \<leftarrow> (if l = NumInputListenerstla then shows_fmt 8 b else Some b);
          Some (s\<lparr>c2_sNum := b, c2_sCount := n\<rparr>)
        })"

definition GpsLatitudeOkOnPress :: service_step where
  "GpsLatitudeOkOnPress s = do {
     t \<leftarrow> slice (c2_sNum s) 0 9;
     b \<leftarrow> blit (gpslat (conf s)) 0 t;
     Some (s\<lparr>conf := (conf s)\<lparr>gpslat := b\<rparr>, c2_sNum := replicate 18 0\<rparr>)
   }"

definition GpsLongitudetOkOnPress :: service_step where
  "GpsLongitudetOkOnPress s = do {
     t \<leftarrow> slice (c2_sNum s) 0 10;
     b \<leftarrow> blit (gpslon (conf s)) 0 t;
     Some (s\<lparr>conf := (conf s)\<lparr>gpslon := b\<rparr>, c2_sNum := replicate 18 0\<rparr>)
   }"

definition ChargerSelectOkOnPress :: service_step where
  "ChargerSelectOkOnPress s =
     map_option (\<lambda>v. s\<lparr>conf := (conf s)\<lparr>ConfirmSelect := word_of_int v\<rparr>, c2_sNum := replicate 18 0\<rparr>) (atoi (c2_sNum s))"

end
