(* ===== verification/Admin.thy ===== *)
theory Admin
  imports Station Service
begin

text \<open>
  The screens for administration: login (\<open>layer_admin_login.c\<close>), the menu and its end (\<open>layer_common.c\<close>,
  \<open>layer_chargerlist.c\<close>, \<open>layer_admin_charger_test.c\<close>), the dialogues of the theory \<open>Service\<close>, and the test of contactor,
  router and lamp (\<open>layer_Admintest.c\<close>), together with the station of the theory \<open>Station\<close>, whose queue of actions, countdown and
  session they share.

  Which screen holds a button is written in the scene file, like the functions of a screen: it is the argument \<open>bt\<close>.  The
  results that the test screen shows for meter, card reader and network are left out.  The functions
  \<open>adminsetcharger2Enter\<close>, \<open>exitbLayer\<close> and \<open>SetCharger2SubMenu\<close> are not in the table of functions, so that nothing calls them.
  The station reads its configuration from the argument \<open>cfg\<close>: the menu is left through a restart only, after which it has the
  settings that were saved.
\<close>

section \<open>State\<close>

text \<open>\<open>pass_listening\<close>: the listener of the numeric keypad is the one of the login.  \<open>test_found\<close>: the widgets of the test screen are
  known.  \<open>ui_dead\<close>: the task of the screen library waits for the restart for ever.\<close>

record admin =
  pan :: panel
  srv :: service
  bGloAdminStatus :: bool
  bAdminExit :: bool
  spCardNum :: bytes
  spNumCount :: nat
  pass_listening :: bool
  nCurSubMenu :: int
  adminsettestselect :: int
  bTimeoutCnt :: bool
  test_found :: bool
  bMc1Check1 :: bool
  bMc2Check1 :: bool
  bLed1Check1 :: bool
  bRouterPower :: bool
  ui_dead :: bool

type_synonym admin_step = "admin \<Rightarrow> (admin \<times> panel_act list) option"

definition layer_goto :: "string \<Rightarrow> admin \<Rightarrow> admin" where
  "layer_goto l a = a\<lparr>pan := ituLayerGoto l (pan a)\<rparr>"

definition on_sess :: "(session \<Rightarrow> session) \<Rightarrow> admin \<Rightarrow> admin" where
  "on_sess f a = a\<lparr>pan := set_sess (f (sess (pan a))) (pan a)\<rparr>"

text \<open>An operation on the settings, and one that ends a dialogue.\<close>

definition on_service :: "service_step \<Rightarrow> admin_step" where
  "on_service f a = map_option (\<lambda>s. (a\<lparr>srv := s\<rparr>, [])) (f (srv a))"

definition then_goto :: "service_step \<Rightarrow> string \<Rightarrow> admin_step" where
  "then_goto f l a = map_option (\<lambda>s. (layer_goto l (a\<lparr>srv := s\<rparr>), [])) (f (srv a))"

section \<open>The menu and its end\<close>

definition AdminSetupMenuExit :: "bool \<Rightarrow> admin \<Rightarrow> admin \<times> panel_act list" where
  "AdminSetupMenuExit bSaveCfg a =
     (if bSaveCfg
      then ((on_sess LEDOn a)\<lparr>nCurSubMenu := 0, bGloAdminStatus := False, bAdminExit := True\<rparr>,
        [Called ''ResetEthernet'', Station_save, Station_reboot])
      else (a\<lparr>pan := GotoStart (pan a)\<rparr>, []))"

text \<open>\<open>exitLayer\<close>, \<open>exitaLayer\<close>, \<open>exitcLayer\<close> and \<open>exitdLayer\<close>: the call does not return.\<close>

definition exitLayer :: admin_step where
  "exitLayer a = (let (a, acts) = AdminSetupMenuExit True a in Some (a\<lparr>ui_dead := True\<rparr>, acts))"

definition ChangeSetupSubMenu :: "int \<Rightarrow> admin \<Rightarrow> admin" where
  "ChangeSetupSubMenu n a =
     (if nCurSubMenu a = n then a
      else (case map_of [(0, ''AdminSetIpLayer''), (1, ''AdminSetChargerLayer''), (2, ''AdminSetCharger2Layer''),
               (3, ''AdminChargerTestLayer''), (4, ''AdminChargerListLayer'')] n of
          None \<Rightarrow> a | Some l \<Rightarrow> layer_goto l a)\<lparr>nCurSubMenu := n\<rparr>)"

definition SetIpSubMenu :: "nat \<Rightarrow> admin_step" where
  "SetIpSubMenu n a = Some (ChangeSetupSubMenu (int n) a, [])"

section \<open>Login\<close>

definition setting2Layer :: admin_step where
  "setting2Layer a = Some (if \<not> sChCharging (sess (pan a)) then layer_goto ''AdminLoginLayer'' a else a, [])"

definition ResetPassNumber :: "admin \<Rightarrow> admin option" where
  "ResetPassNumber a = map_option (\<lambda>b. a\<lparr>spCardNum := b, spNumCount := 0\<rparr>) (blit (spCardNum a) 0 (replicate 4 blank))"

definition PassNumOnEnter :: "panel_env \<Rightarrow> admin_step" where
  "PassNumOnEnter env a = do {
     a \<leftarrow> ResetPassNumber (a\<lparr>bGloAdminStatus := True\<rparr>);
     Some (a\<lparr>pass_listening := True, pan := (TopSetTimer env 30 T_GotoStartLayer (pan a))\<lparr>shome_btn := False\<rparr>\<rparr>, [])
   }"

definition PassNumOnLeave :: admin_step where
  "PassNumOnLeave a = Some (a\<lparr>bGloAdminStatus := False, pan := TopCloseTimer (pan a), pass_listening := False\<rparr>, [])"

definition PassNumInputListener :: "u8 \<Rightarrow> admin \<Rightarrow> admin option" where
  "PassNumInputListener c a =
     (if c = 0x72
      then map_option (\<lambda>b. a\<lparr>spCardNum := b, spNumCount := 0\<rparr>) (blit (spCardNum a) 0 (replicate (spNumCount a) blank))
      else map_option (\<lambda>(b, n). a\<lparr>spCardNum := b, spNumCount := n\<rparr>) (key_entry 4 c (spCardNum a) (spNumCount a)))"

definition AdminLoginOkOnPress :: admin_step where
  "AdminLoginOkOnPress a = do {
     t \<leftarrow> slice (spCardNum a) 0 4;
     p \<leftarrow> slice (adminpassword (conf (srv a))) 0 4;
     if t = p then Some (layer_goto ''AdminSetIpLayer'' a, [])
     else if t = str_bytes ''0134'' then Some (a, [])
     else map_option (\<lambda>a. (a, [])) (ResetPassNumber a)
   }"

definition AdminLoginCancelOnPress :: admin_step where
  "AdminLoginCancelOnPress a = Some (AdminSetupMenuExit False a)"

section \<open>The screens of the menu\<close>

text \<open>The countdown starts with the first visit.\<close>

definition AdminSetIpEnter :: "panel_env \<Rightarrow> admin_step" where
  "AdminSetIpEnter env a = do {
     s \<leftarrow> adminsetipEnter (srv a);
     let a = a\<lparr>srv := s, bGloAdminStatus := True\<rparr>;
     Some (if bTimeoutCnt a then a else a\<lparr>pan := TopSetTimer env 180 T_adminTimeout (pan a), bTimeoutCnt := True\<rparr>, [])
   }"

definition AdminSetIpLeave :: admin_step where
  "AdminSetIpLeave a =
     Some (a\<lparr>srv := adminsetipLeave (srv a)\<rparr>, if bChangedNetInfo (srv a) then [Called ''NetworkReset''] else [])"

definition SetNetFunc :: "nat \<Rightarrow> admin_step" where
  "SetNetFunc n a =
     (let (s, go) = SetNetFuncOnPress (int n) (srv a); a = a\<lparr>srv := s\<rparr> in Some (if go then layer_goto ''IpAllLayer'' a else a, []))"

definition AdminSetChargerEnter :: admin_step where
  "AdminSetChargerEnter a = on_service adminsetchargerEnter (a\<lparr>bGloAdminStatus := True\<rparr>)"

definition SelectDevSetFunc :: "nat \<Rightarrow> admin_step" where
  "SelectDevSetFunc n = then_goto (\<lambda>s. Some (s\<lparr>adminsetchargerselect1 := int n\<rparr>)) ''ChargerLayer''"

definition SetCharger2SelectItem :: "nat \<Rightarrow> admin_step" where
  "SetCharger2SelectItem n = then_goto (\<lambda>s. Some (s\<lparr>adminsetchargerselect2 := int n\<rparr>)) ''Charger2Layer''"

definition adminChargerTestEnter :: admin_step where
  "adminChargerTestEnter a = Some (a\<lparr>bGloAdminStatus := True, adminsettestselect := 0\<rparr>, [])"

definition AdminSetTestSelectItem :: "nat \<Rightarrow> admin_step" where
  "AdminSetTestSelectItem n a = Some (layer_goto ''ChargerTestLayer'' (a\<lparr>adminsettestselect := int n\<rparr>), [])"

section \<open>The test screen\<close>

text \<open>A text is written in any case, but its widget is looked up for the two kinds of test only.\<close>

definition AdmintestEnter :: admin_step where
  "AdmintestEnter a =
     (let a = (if adminsettestselect a = 1 \<or> adminsettestselect a = 2 then a\<lparr>test_found := True\<rparr> else a)
      in if test_found a then Some (a\<lparr>pan := TopCloseTimer (pan a)\<rparr>, []) else None)"

definition AdmintestLeave :: "panel_env \<Rightarrow> admin_step" where
  "AdmintestLeave env a =
     (let a = (on_sess MagneticContactorOff a)\<lparr>bMc1Check1 := False, bMc2Check1 := False, bLed1Check1 := False, adminsettestselect := 0\<rparr>
      in Some (a\<lparr>pan := TopSetTimer env 180 T_adminTimeout1 (pan a)\<rparr>, []))"

definition exit4Layer :: admin_step where
  "exit4Layer a = Some (layer_goto ''AdminChargerTestLayer'' a, [])"

definition Mc1teststartOnPress :: admin_step where
  "Mc1teststartOnPress a =
     Some (if \<not> bMc1Check1 a then (on_sess MagneticContactorOn a)\<lparr>bMc1Check1 := True\<rparr>
       else (on_sess MagneticContactorOff a)\<lparr>bMc1Check1 := False\<rparr>, [])"

definition Led1teststartOnPress :: admin_step where
  "Led1teststartOnPress a =
     Some (if \<not> bLed1Check1 a then (on_sess LEDOn a)\<lparr>bLed1Check1 := True\<rparr> else (on_sess LEDOff a)\<lparr>bLed1Check1 := False\<rparr>, [])"

definition Mc2teststartOnPress :: admin_step where
  "Mc2teststartOnPress a =
     Some (if \<not> bRouterPower a then (a\<lparr>bRouterPower := True, bMc2Check1 := True\<rparr>, [Called ''RouterContactorOn''])
       else (a\<lparr>bRouterPower := False, bMc2Check1 := False\<rparr>, [Called ''RouterContactorOff'']))"

section \<open>The functions that actions call\<close>

text \<open>The three keypads: the functions differ in their names and characters.\<close>

definition keypad_functions :: "string \<Rightarrow> (string \<times> char) list \<Rightarrow> (u8 \<Rightarrow> service_step) \<Rightarrow> (string \<times> admin_step) list" where
  "keypad_functions name keys f =
     map (\<lambda>(k, c). (name @ k @ ''OnPress'', on_service (f (word_of_nat (of_char c)))))
       (map (\<lambda>d. ([d], d)) ''0123456789'' @ keys)"

definition listen_to :: "cs_listener \<Rightarrow> admin_step" where
  "listen_to l = on_service (\<lambda>s. Some (listen l s))"

definition setup_functions :: "panel_env \<Rightarrow> nat \<Rightarrow> (string \<times> admin_step) list" where
  "setup_functions env n =
     [(''adminsetipEnter'', AdminSetIpEnter env), (''adminsetipLeave'', AdminSetIpLeave), (''SetNetFuncOnPress'', SetNetFunc n),
      (''ToggleDHCP'', on_service (\<lambda>s. Some (ToggleDHCP s))), (''exitLayer'', exitLayer), (''SetIpSubMenu'', SetIpSubMenu n),
      (''adminsetchargerEnter'', AdminSetChargerEnter), (''exitaLayer'', exitLayer), (''SetChargerSubMenu'', SetIpSubMenu n),
      (''SelectDevSetFunc'', SelectDevSetFunc n), (''SetCharger2SelectItem'', SetCharger2SelectItem n),
      (''adminChargerTestEnter'', adminChargerTestEnter), (''exitcLayer'', exitLayer), (''ChargerTestSubMenu'', SetIpSubMenu n),
      (''AdminSetTestSelectItem'', AdminSetTestSelectItem n), (''exitdLayer'', exitLayer), (''ChargerListSubMenu'', SetIpSubMenu n),
      (''FtpFWupdate'', \<lambda>a. Some (layer_goto ''FtpFwUpdate'' a, [])),
      (''AdmintestEnter'', AdmintestEnter), (''AdmintestLeave'', AdmintestLeave env), (''exit4Layer'', exit4Layer),
      (''Mc1teststartOnPress'', Mc1teststartOnPress), (''Mc2teststartOnPress'', Mc2teststartOnPress),
      (''Led1teststartOnPress'', Led1teststartOnPress)]"

definition address_functions :: "nat \<Rightarrow> (string \<times> admin_step) list" where
  "address_functions n =
     [(''ipAllLayer_Enter'', on_service ipAllLayer_Enter), (''ipAllLayer_Leave'', on_service (\<lambda>s. Some (ipAllLayer_Leave s))),
      (''IpKeypadOnPress'', on_service (IpKeypadOnPress n)), (''exit1Layer'', then_goto Some ''AdminSetIpLayer''),
      (''MacAddressCancelOnPress'', then_goto Some ''AdminSetIpLayer''), (''MacAddressOkOnPress'', then_goto MacAddressOkOnPress ''AdminSetIpLayer''),
      (''ChargerGateWayCancelOnPress'', then_goto Some ''AdminSetIpLayer''), (''gatewayOkOnPress'', then_goto gatewayOkOnPress ''AdminSetIpLayer''),
      (''serverportcancelOnPress'', then_goto Some ''AdminSetIpLayer''), (''serverportOkOnPress'', then_goto serverportOkOnPress ''AdminSetIpLayer''),
      (''chargeripsetCancelOnPress'', then_goto Some ''AdminSetIpLayer''),
      (''chargeripsetOkOnPress'', then_goto chargeripsetOkOnPress ''AdminSetIpLayer''),
      (''subnetmaskCancelOnPress'', then_goto Some ''AdminSetIpLayer''), (''subnetmaskOkOnPress'', then_goto subnetmaskOkOnPress ''AdminSetIpLayer''),
      (''ServeripOkCancelPress'', then_goto Some ''AdminSetIpLayer''), (''ServeripOkOnPress'', then_goto ServeripOkOnPress ''AdminSetIpLayer'')] @
     keypad_functions ''aNumKeypad'' [(''Del'', CHR ''d''), (''Dot'', CHR ''.'')] aNumKeypadOnPress"

definition charger_functions :: "tm \<Rightarrow> nat \<Rightarrow> (string \<times> admin_step) list" where
  "charger_functions t n =
     [(''layer_chargersetEnter'', on_service (layer_chargersetEnter t)), (''layer_chargersetLeave'', on_service (\<lambda>s. Some (layer_chargersetLeave s))),
      (''KeypadOnPress_del'', on_service KeypadOnPress_del), (''KeypadOnPress'', on_service (KeypadOnPress n)),
      (''bNumKeypad1OnPress'', on_service (bNumKeypad1OnPress n)), (''exit2Layer'', then_goto Some ''AdminSetChargerLayer''),
      (''CancelONpress'', then_goto Some ''AdminSetChargerLayer''),
      (''TargetSocOkOnPress'', then_goto TargetSocOkOnPress ''AdminSetChargerLayer''),
      (''SelectTargetSocSetPress'', on_service (\<lambda>s. Some (SelectTargetSocSetPress s))),
      (''SelectEvccMacSetPress'', on_service (\<lambda>s. Some (SelectEvccMacSetPress s))),
      (''SelectFreeTimeSetPress'', on_service (\<lambda>s. Some (SelectFreeTimeSetPress s))),
      (''SelectModeSetPress'', on_service (\<lambda>s. Some (SelectModeSetPress s))), (''ModeOkOnPress'', then_goto ModeOkOnPress ''AdminSetChargerLayer''),
      (''PassChangeOkOnPress'', then_goto PassChangeOkOnPress ''AdminSetChargerLayer''),
      (''SelectDateTimeSet'', on_service (\<lambda>s. Some (SelectDateTimeSet n s))), (''SelectLcdTimeSetPress'', on_service SelectLcdTimeSetPress),
      (''lcdOnOffOkOnPress'', then_goto lcdOnOffOkOnPress ''AdminSetChargerLayer''), (''SelSoundSetPress'', listen_to NumInputListenersound),
      (''chargerid2OkOnPress'', then_goto chargerid2OkOnPress ''AdminSetChargerLayer''),
      (''stationIdOkOnPress'', then_goto stationIdOkOnPress ''AdminSetChargerLayer''), (''DevIdTwoPress'', listen_to NumInputListenerid2),
      (''DevIdOnePress'', listen_to NumInputListenerid1), (''chargerid1OkOnPress'', then_goto chargerid1OkOnPress ''AdminSetChargerLayer'')]"

definition position_functions :: "(string \<times> admin_step) list" where
  "position_functions =
     [(''layer_charger2setEnter'', on_service layer_charger2setEnter), (''Layer_charger2setLeave'', on_service (\<lambda>s. Some (Layer_charger2setLeave s))),
      (''exit3Layer'', then_goto Some ''AdminSetChargerLayer''), (''ChargerSelectCancelOnPress'', then_goto Some ''AdminSetChargerLayer''),
      (''ChargerSelectOkOnPress'', then_goto ChargerSelectOkOnPress ''AdminSetChargerLayer''),
      (''GpsLongitudetCancelOnPress'', then_goto Some ''AdminSetCharger2Layer''),
      (''GpsLongitudetOkOnPress'', then_goto GpsLongitudetOkOnPress ''AdminSetCharger2Layer''),
      (''GpsLatitudeCancelOnPress'', then_goto Some ''AdminSetCharger2Layer''),
      (''GpsLatitudeOkOnPress'', then_goto GpsLatitudeOkOnPress ''AdminSetCharger2Layer'')] @
     keypad_functions ''cNumKeypad'' ([(''del'', CHR ''d''), (''jjum'', CHR ''.'')] @ map (\<lambda>c. ([c], c)) ''ABCDEF'') cNumKeypadOnPress"

definition login_functions :: "panel_env \<Rightarrow> (string \<times> admin_step) list" where
  "login_functions env =
     [(''setting2Layer'', setting2Layer), (''PassNumOnEnter'', PassNumOnEnter env), (''PassNumOnLeave'', PassNumOnLeave),
      (''AdminLoginOkOnPress'', AdminLoginOkOnPress), (''AdminLoginCancelOnPress'', AdminLoginCancelOnPress)]"

text \<open>The functions of the screens behind the login, and those of the login.\<close>

definition inner_functions :: "panel_env \<Rightarrow> tm \<Rightarrow> nat \<Rightarrow> (string \<times> admin_step) list" where
  "inner_functions env t n = setup_functions env n @ address_functions n @ charger_functions t n @ position_functions"

definition admin_run_action :: "scene \<Rightarrow> panel_cfg \<Rightarrow> panel_env \<Rightarrow> tm \<Rightarrow> itu_action \<Rightarrow> admin_step" where
  "admin_run_action sc cfg env t act a =
     (case action_name sc act of
        None \<Rightarrow> Some (a, [])
      | Some f \<Rightarrow>
          (case map_of (login_functions env @ inner_functions env t (action_param act)) f of
             Some h \<Rightarrow> h a
           | None \<Rightarrow> map_option (\<lambda>(p, acts). (a\<lparr>pan := p\<rparr>, acts)) (run_action sc cfg env act (pan a))))"

definition admin_flush :: "scene \<Rightarrow> panel_cfg \<Rightarrow> panel_env \<Rightarrow> tm \<Rightarrow> admin_step" where
  "admin_flush sc cfg env t a =
     (if queuePos (pan a) < length (actionQueue (pan a))
      then admin_run_action sc cfg env t (actionQueue (pan a) ! queuePos (pan a)) (a\<lparr>pan := (pan a)\<lparr>queuePos := queuePos (pan a) + 1\<rparr>\<rparr>)
      else Some (a\<lparr>pan := (pan a)\<lparr>actionQueue := [], queuePos := 0\<rparr>\<rparr>, []))"

section \<open>The steps of the station with an administrator\<close>

text \<open>An event of the station, or the press of a button of these screens.\<close>

datatype admin_event = Adm_panel panel_event | Adm_press string nat

text \<open>The emergency button and the sequence task read the flag of the administration.\<close>

definition with_status :: "bool \<Rightarrow> panel_event \<Rightarrow> panel_event" where
  "with_status b ev = (case ev of Ev_emb _ pressed \<Rightarrow> Ev_emb b pressed | Ev_sequence_task _ off \<Rightarrow> Ev_sequence_task b off | _ \<Rightarrow> ev)"

definition on_panel :: "scene \<Rightarrow> panel_cfg \<Rightarrow> panel_env \<Rightarrow> panel_event \<Rightarrow> admin_step" where
  "on_panel sc cfg env ev a = map_option (\<lambda>(p, acts). (a\<lparr>pan := p\<rparr>, acts)) (panel_do sc cfg (env, with_status (bGloAdminStatus a) ev) (pan a))"

text \<open>What \<open>adminTimeout\<close> changes besides the station.\<close>

definition timeout_flags :: "admin \<times> panel_act list \<Rightarrow> admin \<times> panel_act list" where
  "timeout_flags r =
     (case r of (a, acts) \<Rightarrow>
        (if Called ''ResetEthernet'' \<in> set acts then a\<lparr>nCurSubMenu := 0, bGloAdminStatus := False, bAdminExit := True\<rparr> else a, acts))"

text \<open>A button can be pressed while its screen is visible.\<close>

definition admin_press :: "(string \<Rightarrow> string) \<Rightarrow> panel_env \<Rightarrow> tm \<Rightarrow> string \<Rightarrow> nat \<Rightarrow> admin \<Rightarrow> admin" where
  "admin_press bt env t f n a =
     (if \<not> ui_dead a \<and> bt f = visible_layer (pan a) \<and> f \<in> set (map fst (login_functions env @ inner_functions env t n)) then a\<lparr>pan := ituExecActions (Button_action f n) (pan a)\<rparr> else a)"

definition admin_do :: "scene \<Rightarrow> (string \<Rightarrow> string) \<Rightarrow> panel_cfg \<Rightarrow> panel_env \<times> tm \<times> admin_event \<Rightarrow> admin_step" where
  "admin_do sc bt cfg e a =
     (case e of (env, t, ev) \<Rightarrow>
       (case ev of
          Adm_press f n \<Rightarrow> Some (admin_press bt env t f n a, [])
        | Adm_panel Ev_flush \<Rightarrow> if ui_dead a then Some (a, []) else admin_flush sc cfg env t a
        | Adm_panel Ev_top \<Rightarrow> map_option timeout_flags (on_panel sc cfg env Ev_top a)
        | Adm_panel (Ev_key k) \<Rightarrow>
            if ui_dead a then Some (a, [])
            else if pass_listening a then map_option (\<lambda>a. (a, [])) (PassNumInputListener k a)
            else on_panel sc cfg env (Ev_key k) a
        | Adm_panel (Ev_press f n) \<Rightarrow> if ui_dead a then Some (a, []) else on_panel sc cfg env (Ev_press f n) a
        | Adm_panel ev \<Rightarrow> on_panel sc cfg env ev a))"

end
