(* ===== verification/Service_Thms.thy ===== *)
theory Service_Thms
  imports Service Settings_Thms Ocpp_Parse_Thms
begin

text \<open>
  The dialogues for the settings: the locale \<open>keypad\<close> says what a listener of a keypad owes to the text that is typed, and is
  interpreted for the dialogues; all sequences of operations on the settings of the charger stay inside their arrays and keep
  the settings in their ranges, unless the dialogue for date, time and display is opened, which overruns its arrays; confirming a dialogue that has just been opened changes nothing.
\<close>

section \<open>What a keypad does to a text\<close>

text \<open>A text of at most \<open>limit\<close> characters: the key for deleting removes the last one, every other key is appended or ignored.\<close>

definition stack_key :: "nat \<Rightarrow> u8 \<Rightarrow> bytes \<Rightarrow> bytes" where
  "stack_key limit c t = (if c = del_key then butlast t else if length t < limit then t @ [c] else t)"

lemma stack_key_length: "length t \<le> limit \<Longrightarrow> length (stack_key limit c t) \<le> limit"
  by (auto simp: stack_key_def)

lemma take_snoc_update: "n < length xs \<Longrightarrow> take (n + 1) (xs[n := c]) = take n xs @ [c]"
  by (simp add: take_Suc_conv_app_nth)

lemma key_entry_stack:
  assumes "count \<le> limit" "limit \<le> length num"
  shows "\<exists>num' count'. key_entry limit c num count = Some (num', count') \<and> length num' = length num \<and> count' \<le> limit \<and>
    take count' num' = stack_key limit c (take count num) \<and> drop limit num' = drop limit num"
  using assms take_snoc_update [of count num c] butlast_take [of count num]
  by (auto simp: key_entry_def stack_key_def wr_def)

fun run_keys :: "(u8 \<Rightarrow> 's \<Rightarrow> 's option) \<Rightarrow> bytes \<Rightarrow> 's \<Rightarrow> 's option" where
  "run_keys press [] s = Some s"
| "run_keys press (c # cs) s = Option.bind (press c s) (run_keys press cs)"

text \<open>A listener is defined for every key, keeps its invariant and treats the typed text as a stack.\<close>

locale keypad =
  fixes press :: "u8 \<Rightarrow> 's \<Rightarrow> 's option"
    and typed :: "'s \<Rightarrow> bytes"
    and ready :: "'s \<Rightarrow> bool"
    and limit :: nat
    and key :: "u8 \<Rightarrow> bool"
  assumes press: "ready s \<Longrightarrow> key c \<Longrightarrow> \<exists>s'. press c s = Some s' \<and> ready s' \<and> typed s' = stack_key limit c (typed s)"
    and typed_length: "ready s \<Longrightarrow> length (typed s) \<le> limit"
begin

lemma run:
  "ready s \<Longrightarrow> list_all key cs \<Longrightarrow> \<exists>s'. run_keys press cs s = Some s' \<and> ready s' \<and> typed s' = fold (stack_key limit) cs (typed s)"
proof (induction cs arbitrary: s)
  case (Cons c cs)
  obtain t where t: "press c s = Some t" "ready t" "typed t = stack_key limit c (typed s)" using press Cons.prems by auto
  show ?case using Cons.IH [OF t(2)] Cons.prems(2) t(1,3) by auto
qed simp

lemma clear: "ready s \<Longrightarrow> key del_key \<Longrightarrow> limit \<le> n \<Longrightarrow> \<exists>s'. run_keys press (replicate n del_key) s = Some s' \<and> ready s' \<and> typed s' = []"
proof -
  assume a: "ready s" "key del_key" "limit \<le> n"
  have "fold (stack_key limit) (replicate n del_key) t = take (length t - n) t" for t
  proof (induction n arbitrary: t)
    case (Suc n)
    then show ?case by (simp add: stack_key_def butlast_conv_take)
  qed simp
  then show ?thesis using run [OF a(1), of "replicate n del_key"] a typed_length [OF a(1)] by (simp add: list_all_length)
qed

end

section \<open>Settings of the charger\<close>

definition cs_shape :: "service \<Rightarrow> bool" where
  "cs_shape s \<longleftrightarrow> length (cs_sNum s) = 12 \<and> length (sNumDev s) = 12 \<and> length (sNumDevDev s) = 13 \<and> length (sLNum s) = 12 \<and>
     map length (date_text s) = [4, 2, 2, 2, 2, 2] \<and> cs_sCount s \<le> 12 \<and> sCountDev s \<le> 12 \<and> sCountDevDev s \<le> 12 \<and> MaxDigit s \<le> 12 \<and>
     map length [devid1 (conf s), devid2 (conf s), siteid (conf s), adminpassword (conf s), chkModeMac (conf s)] = [3, 3, 9, 5, 13]"

text \<open>What the administrator can press in the dialogues; \<open>Cs_ok_lcd\<close> is the OK button of the dialogue for date, time and
  display saver.\<close>

datatype cs_event =
    Cs_open int | Cs_leave | Cs_keypad nat | Cs_del | Cs_num nat
  | Cs_id1 | Cs_id2 | Cs_sound | Cs_lcd | Cs_date nat | Cs_mode | Cs_free | Cs_mac | Cs_soc
  | Cs_ok_pass | Cs_ok_sound | Cs_ok_id | Cs_ok_site | Cs_ok_mode | Cs_ok_soc | Cs_ok_lcd

fun cs_do :: "tm \<Rightarrow> cs_event \<Rightarrow> service_step" where
  "cs_do t (Cs_open n) s = layer_chargersetEnter t (s\<lparr>adminsetchargerselect1 := n\<rparr>)"
| "cs_do t Cs_leave s = Some (layer_chargersetLeave s)"
| "cs_do t (Cs_keypad n) s = KeypadOnPress n s"
| "cs_do t Cs_del s = KeypadOnPress_del s"
| "cs_do t (Cs_num n) s = bNumKeypad1OnPress n s"
| "cs_do t Cs_id1 s = Some (listen NumInputListenerid1 s)"
| "cs_do t Cs_id2 s = Some (listen NumInputListenerid2 s)"
| "cs_do t Cs_sound s = Some (listen NumInputListenersound s)"
| "cs_do t Cs_lcd s = SelectLcdTimeSetPress s"
| "cs_do t (Cs_date n) s = Some (SelectDateTimeSet n s)"
| "cs_do t Cs_mode s = Some (SelectModeSetPress s)"
| "cs_do t Cs_free s = Some (SelectFreeTimeSetPress s)"
| "cs_do t Cs_mac s = Some (SelectEvccMacSetPress s)"
| "cs_do t Cs_soc s = Some (SelectTargetSocSetPress s)"
| "cs_do t Cs_ok_pass s = PassChangeOkOnPress s"
| "cs_do t Cs_ok_sound s = chargerid2OkOnPress s"
| "cs_do t Cs_ok_id s = chargerid1OkOnPress s"
| "cs_do t Cs_ok_site s = stationIdOkOnPress s"
| "cs_do t Cs_ok_mode s = ModeOkOnPress s"
| "cs_do t Cs_ok_soc s = TargetSocOkOnPress s"
| "cs_do t Cs_ok_lcd s = lcdOnOffOkOnPress s"

fun cs_run :: "tm \<Rightarrow> cs_event list \<Rightarrow> service_step" where
  "cs_run t [] s = Some s"
| "cs_run t (e # es) s = Option.bind (cs_do t e s) (cs_run t es)"

text \<open>The parameters that the two keypads have.\<close>

definition cs_button :: "cs_event \<Rightarrow> bool" where
  "cs_button e \<longleftrightarrow> (case e of Cs_keypad n \<Rightarrow> n < 16 | Cs_num n \<Rightarrow> n < 11 | _ \<Rightarrow> True)"

definition cs_ranges :: "Config \<Rightarrow> bool" where
  "cs_ranges c \<longleftrightarrow> 0 \<le> sint (targetSoc c) \<and> sint (targetSoc c) \<le> 100 \<and> 0 \<le> sint (OperationMode c) \<and> sint (OperationMode c) \<le> 2 \<and>
     0 \<le> sint (FreeChargingTime c) \<and> 0 \<le> sint (audiolevel c)"

definition cs_ok :: "service \<Rightarrow> bool" where
  "cs_ok s \<longleftrightarrow> cs_shape s \<and> cs_ranges (conf s)"

text \<open>Every operation is defined and keeps the invariant.\<close>

definition safe :: "service option \<Rightarrow> bool" where
  "safe r \<longleftrightarrow> (\<exists>s. r = Some s \<and> cs_ok s)"

lemma safe_Some [simp]: "safe (Some s) \<longleftrightarrow> cs_ok s"
  by (simp add: safe_def)

lemma fmt_2_length: "0 < length (fmt_d v)"
  by (simp add: fmt_d_def dec_nat.simps)

lemmas cs_defs = cs_ok_def cs_shape_def listen_def Let_def mem_defs

lemma numeral_lengths: "length xs = 3 \<Longrightarrow> \<exists>a b c. xs = [a, b, c]" "length xs = 2 \<Longrightarrow> \<exists>a b. xs = [a, b]"
  by (auto simp: numeral_eq_Suc length_Suc_conv)

lemma key_entry_safe:
  assumes "limit \<le> length num" "count \<le> length num"
  shows "\<exists>b n. key_entry limit c num count = Some (b, n) \<and> length b = length num \<and> n \<le> max count limit"
  using assms by (auto simp: key_entry_def wr_def)

lemma date_update_safe:
  assumes "cs_ok s"
  shows "safe (UpdateDateTimeNumber s)"
proof (cases "nSelect s \<le> 5")
  case True
  have d: "map length (date_text s) = [4, 2, 2, 2, 2, 2]" "length (cs_sNum s) = 12" using assms by (simp_all add: cs_defs)
  have l: "length (date_text s) = 6" using arg_cong [OF d(1), of length] by simp
  have e: "length (date_text s ! i) = [4, 2, 2, 2, 2, 2] ! i" if "i < 6" for i using d(1) that l nth_map [of i "date_text s" length] by simp
  have n: "nSelect s = 0 \<or> nSelect s = 1 \<or> nSelect s = 2 \<or> nSelect s = 3 \<or> nSelect s = 4 \<or> nSelect s = 5" using True by linarith
  have u: "map length ((date_text s)[i := b]) = [4, 2, 2, 2, 2, 2]" if "i < 6" "length b = [4, 2, 2, 2, 2, 2] ! i" for i b
    using that d(1) by (simp add: map_update list_update_same_conv)
  have h: "\<exists>a b. take 2 (cs_sNum s) = [a, b]" using d(2) by (intro numeral_lengths(2)) simp
  show ?thesis using n assms l d(2) e [of 0] e [of 1] e [of 2] e [of 3] e [of 4] e [of 5] u [of "nSelect s"] h
    by (elim disjE) (auto simp: UpdateDateTimeNumber_def cs_defs)
qed (use assms in \<open>simp add: UpdateDateTimeNumber_def\<close>)

lemma lcd_update_safe: "cs_ok s \<Longrightarrow> safe (UpdateNumberlcd s)"
  by (simp add: UpdateNumberlcd_def cs_defs)

lemma key_safe:
  assumes "cs_ok s"
  shows "safe (cs_key c s)"
proof (cases "cs_saInputListener s")
  case None
  then show ?thesis using assms by (simp add: cs_key_def)
next
  case (Some l)
  have sh: "length (cs_sNum s) = 12" "length (sNumDev s) = 12" "length (sNumDevDev s) = 13" "cs_sCount s \<le> 12" "sCountDev s \<le> 12" "sCountDevDev s \<le> 12"
    "MaxDigit s \<le> 12"
    using assms by (simp_all add: cs_ok_def cs_shape_def)
  have lim: "cs_limit l s \<le> 12" using sh(7) by (simp add: cs_limit_def GetItemNumberDigit_def Let_def split: cs_listener.split)
  obtain b n where a: "key_entry (cs_limit l s) c (cs_sNum s) (cs_sCount s) = Some (b, n)" "length b = 12" "n \<le> 12"
    using key_entry_safe [of "cs_limit l s" "cs_sNum s" "cs_sCount s" c] sh lim by auto
  obtain b2 n2 where a2: "key_entry (cs_limit l s) c (sNumDev s) (sCountDev s) = Some (b2, n2)" "length b2 = 12" "n2 \<le> 12"
    using key_entry_safe [of "cs_limit l s" "sNumDev s" "sCountDev s" c] sh lim by auto
  obtain b3 n3 where a3: "key_entry (cs_limit l s) c (sNumDevDev s) (sCountDevDev s) = Some (b3, n3)" "length b3 = 13" "n3 \<le> 12"
    using key_entry_safe [of "cs_limit l s" "sNumDevDev s" "sCountDevDev s" c] sh lim by auto
  have k: "cs_ok (s\<lparr>cs_sNum := b, cs_sCount := n\<rparr>)" "cs_ok (s\<lparr>sNumDev := b2, sCountDev := n2\<rparr>)" "cs_ok (s\<lparr>sNumDevDev := b3, sCountDevDev := n3\<rparr>)"
    using assms a a2 a3 by (simp_all add: cs_ok_def cs_shape_def)
  show ?thesis using k date_update_safe [OF k(1)] lcd_update_safe [OF k(1)] a(1) a2(1) a3(1)
    by (cases l) (simp_all add: cs_key_def Some Let_def)
qed

lemma sint_int: "- (2 ^ 31) \<le> v \<Longrightarrow> v < 2 ^ 31 \<Longrightarrow> sint (word_of_int v :: u32) = v"
  by (simp add: signed_of_int signed_take_bit_int_eq_self)

lemma char_range: "- 176 \<le> char_digit c" "char_digit c \<le> 79"
  using sint_range_size [of c] by (simp_all add: char_digit_def word_size)

lemma typed_soc_range:
  assumes "typed_soc n = Some v"
  shows "0 \<le> v \<and> v \<le> 100"
  using assms by (auto simp: typed_soc_def char_digit_def split: if_splits)

lemma typed_soc_word: "typed_soc n = Some v \<Longrightarrow> 0 \<le> sint (word_of_int v :: u32) \<and> sint (word_of_int v :: u32) \<le> 100"
  using typed_soc_range [of n v] by (subst (1 2) sint_int) simp_all

lemma open_safe:
  assumes "cs_ok s" "n \<noteq> 4"
  shows "safe (layer_chargersetEnter t (s\<lparr>adminsetchargerselect1 := n\<rparr>))"
  using assms by (simp add: layer_chargersetEnter_def ResetNumberstid_def ResetNumberid1_def ResetNumbersound_def ResetNumberpass_def
    ResetNumbermode1_def ResetNumbermode2_def ResetNumbermode3_def ResetNumberTSoc_def two_chars_def cs_defs)

lemma confirm_safe:
  assumes "cs_ok s"
  shows "safe (PassChangeOkOnPress s)" "safe (chargerid2OkOnPress s)" "safe (chargerid1OkOnPress s)" "safe (stationIdOkOnPress s)"
    "safe (ModeOkOnPress s)" "safe (TargetSocOkOnPress s)"
proof -
  show "safe (PassChangeOkOnPress s)" "safe (stationIdOkOnPress s)"
    using assms by (simp_all add: PassChangeOkOnPress_def stationIdOkOnPress_def cs_defs cs_ranges_def)
  show "safe (chargerid1OkOnPress s)" using assms by (simp add: chargerid1OkOnPress_def two_chars_def cs_defs cs_ranges_def)
  define a b where "a = cs_sNum s ! 0" and "b = cs_sNum s ! 1"
  define v where "v = (let v = (if a = blank \<or> b = blank then 70 else max 0 (char_digit a) * 10 + char_digit b) in if v < 0 then 70 else v)"
  have "0 \<le> v \<and> v \<le> 1000" using char_range(2) [of a] char_range(2) [of b] by (auto simp: v_def Let_def)
  then have "sint (word_of_int v :: u32) = v" by (intro sint_int) simp_all
  moreover have "chargerid2OkOnPress s = Some (cs_done ((conf s)\<lparr>audiolevel := word_of_int v\<rparr>) s)"
    using assms by (simp add: chargerid2OkOnPress_def cs_defs a_def b_def v_def)
  ultimately show "safe (chargerid2OkOnPress s)"
    using assms \<open>0 \<le> v \<and> v \<le> 1000\<close> by (simp add: cs_defs cs_ranges_def)
  define m d e where "m = cs_sNum s ! 0" and "d = sNumDev s ! 0" and "e = sNumDev s ! 1"
  define w where "w = max 0 (char_digit d) * 10 + max 0 (char_digit e)"
  define k where "k = (if 0x30 \<le> sint m \<and> sint m < 0x33 then char_digit m else 0)"
  have r: "0 \<le> w \<and> w \<le> 1000" "0 \<le> k \<and> k \<le> 2" using char_range(2) [of d] char_range(2) [of e] by (auto simp: w_def k_def char_digit_def max_def)
  then have "sint (word_of_int w :: u32) = w" "sint (word_of_int k :: u32) = k" by (auto intro!: sint_int)
  note i = this
  have sh: "length (cs_sNum s) = 12" "length (sNumDev s) = 12" "length (sNumDevDev s) = 13" "length (chkModeMac (conf s)) = 13"
    using assms by (simp_all add: cs_ok_def cs_shape_def)
  have rds: "rd (cs_sNum s) 0 = Some m" "rd (sNumDev s) 0 = Some d" "rd (sNumDev s) (Suc 0) = Some e"
    using sh by (simp_all add: rd_def m_def d_def e_def)
  have mac: "blit (chkModeMac (conf s)) 0 (sNumDevDev s) = Some (sNumDevDev s)" "wr (sNumDevDev s) 12 0 = Some ((sNumDevDev s)[12 := 0])"
    using sh by (simp_all add: blit_def wr_def)
  have "ModeOkOnPress s =
    Some (cs_done ((conf s)\<lparr>OperationMode := word_of_int k, FreeChargingTime := word_of_int w, chkModeMac := (sNumDevDev s)[12 := 0]\<rparr>) s)"
    by (simp add: ModeOkOnPress_def rds mac w_def k_def)
  then show "safe (ModeOkOnPress s)" using assms r i sh(3) by (simp add: cs_ok_def cs_shape_def cs_ranges_def)
  show "safe (TargetSocOkOnPress s)"
    using assms typed_soc_word by (simp add: TargetSocOkOnPress_def cs_defs cs_ranges_def split: option.split)
qed

lemma step_safe:
  assumes "cs_ok s" "cs_button e" "e \<noteq> Cs_open 4" "e \<noteq> Cs_ok_lcd"
  shows "safe (cs_do t e s)"
proof (cases e)
  case (Cs_open n)
  then show ?thesis using open_safe [OF assms(1)] assms(3) by simp
next
  case (Cs_keypad n)
  then have "\<exists>c. rd keyarr0 n = Some c" using assms(2) by (simp add: cs_button_def keyarr0_def rd_def str_bytes_def)
  then show ?thesis using Cs_keypad key_safe [OF assms(1)] assms(1) by (auto simp: KeypadOnPress_def)
next
  case (Cs_num n)
  then have "\<exists>c. rd sNumKeypadChar n = Some c" using assms(2) by (simp add: cs_button_def sNumKeypadChar_def rd_def str_bytes_def)
  then show ?thesis using Cs_num key_safe [OF assms(1)] assms(1) by (auto simp: bNumKeypad1OnPress_def)
next
  case Cs_del
  then show ?thesis using key_safe [OF assms(1)] by (simp add: KeypadOnPress_del_def)
qed (use assms confirm_safe [OF assms(1)] in \<open>simp_all add: layer_chargersetLeave_def SelectDateTimeSet_def SelectLcdTimeSetPress_def ResetNumberlcd_def
  SelectModeSetPress_def SelectFreeTimeSetPress_def SelectEvccMacSetPress_def SelectTargetSocSetPress_def cs_defs fmt_2_length STR_TIME_MIN_def min_def\<close>)

text \<open>The dialogue for date, time and display saver cannot be opened without leaving the arrays.\<close>

lemma fmt_02d_two: "2 \<le> length (fmt_02d i)"
proof -
  have "2 \<le> length (dec_nat n)" if "10 \<le> n" for n
    using that by (subst dec_nat.simps) (simp, subst dec_nat.simps, simp)
  moreover have "0 < length (dec_nat n)" for n by (simp add: dec_nat.simps)
  ultimately show ?thesis by (auto simp: fmt_02d_def fmt_d_def Suc_le_eq)
qed

lemma open_date:
  assumes "cs_shape s"
  shows "layer_chargersetEnter t (s\<lparr>adminsetchargerselect1 := 4\<rparr>) = None"
proof -
  have d: "map length (date_text s) = [4, 2, 2, 2, 2, 2]" using assms by (simp add: cs_shape_def)
  have "length (date_text s) = 6" using arg_cong [OF d, of length] by simp
  moreover from this have "length (date_text s ! 1) = 2" using arg_cong [OF d, of "\<lambda>x. x ! 1"] by simp
  ultimately have "Option.bind (rd (date_text s) 1) (\<lambda>b. blit b 0 (fmt_02d (tm_mon t + 1) @ [0])) = None"
    using fmt_02d_two [of "tm_mon t + 1"] by (simp add: rd_def blit_def)
  then have "print_date t (date_text s) = None" unfolding print_date_def by (cases "rd (date_text s) 0 \<bind> (\<lambda>b. blit b 0 (fmt_d (tm_year t + 1900) @ [0]))") simp_all
  then show ?thesis by (simp add: layer_chargersetEnter_def Let_def)
qed

lemma settings_run:
  assumes "cs_ok s" "list_all cs_button es" "Cs_ok_lcd \<notin> set (takeWhile (\<lambda>e. e \<noteq> Cs_open 4) es)"
  shows "if Cs_open 4 \<in> set es then cs_run t es s = None else safe (cs_run t es s)"
  using assms
proof (induction es arbitrary: s)
  case (Cons e es)
  show ?case
  proof (cases "e = Cs_open 4")
    case True
    then show ?thesis using open_date [of s t] Cons.prems(1) by (simp add: cs_ok_def)
  next
    case False
    then have "e \<noteq> Cs_ok_lcd" "Cs_ok_lcd \<notin> set (takeWhile (\<lambda>e. e \<noteq> Cs_open 4) es)" using Cons.prems(3) by auto
    moreover from this obtain u where "cs_do t e s = Some u" "cs_ok u"
      using step_safe [OF Cons.prems(1) _ False] Cons.prems(2) by (auto simp: safe_def)
    ultimately show ?thesis using Cons.IH [of u] Cons.prems(2) False by simp
  qed
qed simp

text \<open>C19. The settings of the charger, whatever an administrator presses in all seven dialogues in whatever order: an access
  leaves an array exactly if the dialogue for date, time and display saver (4) is opened.  Otherwise every step is defined,
  the arrays keep their sizes, the target state of charge stays a percentage and the mode one of the three.  The
  hypotheses describe the keypads (16 and 11 keys) and that the OK button of dialogue 4 is not pressed before
  the dialogue is open; every other button may be pressed at any time.\<close>

theorem charger_settings_safe:
  assumes "cs_ok s" "list_all cs_button es" "Cs_ok_lcd \<notin> set (takeWhile (\<lambda>e. e \<noteq> Cs_open 4) es)"
  shows "(cs_run t es s = None \<longleftrightarrow> Cs_open 4 \<in> set es) \<and>
    (\<forall>s'. cs_run t es s = Some s' \<longrightarrow> cs_shape s' \<and> 0 \<le> sint (targetSoc (conf s')) \<and> sint (targetSoc (conf s')) \<le> 100 \<and>
      0 \<le> sint (OperationMode (conf s')) \<and> sint (OperationMode (conf s')) \<le> 2)"
  using settings_run [OF assms, of t] by (auto simp: safe_def cs_ok_def cs_ranges_def split: if_splits)

section \<open>Confirming what has not been changed\<close>

fun confirm_event :: "int \<Rightarrow> cs_event" where
  "confirm_event n =
     (if n = 1 then Cs_ok_site else if n = 2 then Cs_ok_id else if n = 3 then Cs_ok_sound else if n = 5 then Cs_ok_pass
      else if n = 6 then Cs_ok_mode else Cs_ok_soc)"

lemma digit_char_sint: "0 \<le> v \<Longrightarrow> v < 80 \<Longrightarrow> sint (digit_char v) = v + 0x30"
  by (simp add: digit_char_def signed_of_int signed_take_bit_int_eq_self del: of_int_add)

lemma digit_char_read: "0 \<le> v \<Longrightarrow> v < 80 \<Longrightarrow> char_digit (digit_char v) = v"
  by (simp add: char_digit_def digit_char_sint)

lemma digit_char_not_blank: "0 \<le> v \<Longrightarrow> v < 80 \<Longrightarrow> digit_char v \<noteq> blank"
proof
  assume v: "0 \<le> v" "v < 80" and "digit_char v = blank"
  then have "sint (digit_char v) = 0x20" by simp
  then show False using digit_char_sint [OF v] v by simp
qed

lemma soc_digits:
  assumes "0 \<le> v" "v < 800"
  shows "char_digit (digit_char (v sdiv 10)) * 10 + char_digit (digit_char (v smod 10)) = v" "digit_char (v sdiv 10) \<noteq> blank"
    "digit_char (v smod 10) \<noteq> blank" "0 \<le> char_digit (digit_char (v sdiv 10))" "0 \<le> char_digit (digit_char (v smod 10))"
proof -
  have d: "v sdiv 10 = v div 10" "v smod 10 = v mod 10" using assms by (simp_all add: signed_divide_int_def signed_modulo_int_def sgn_if)
  have r: "0 \<le> v div 10" "v div 10 < 80" "0 \<le> v mod 10" "v mod 10 < 80" using assms pos_mod_bound [of 10 v] by simp_all
  show "char_digit (digit_char (v sdiv 10)) * 10 + char_digit (digit_char (v smod 10)) = v" "0 \<le> char_digit (digit_char (v sdiv 10))"
    "0 \<le> char_digit (digit_char (v smod 10))"
    unfolding d using r by (simp_all add: digit_char_read)
  show "digit_char (v sdiv 10) \<noteq> blank" "digit_char (v smod 10) \<noteq> blank" unfolding d using r by (simp_all add: digit_char_not_blank)
qed

lemma small_digit: "0 \<le> v \<Longrightarrow> v < 10 \<Longrightarrow> sint (word_of_int v :: u8) = v"
  by (simp add: signed_of_int signed_take_bit_int_eq_self)

text \<open>The text of the first bytes goes from the configuration into \<open>sNum\<close> and back.\<close>

lemma blit_back:
  assumes "length c = m" "n \<le> m" "n \<le> 12"
  shows "\<exists>b. blit (replicate 12 0) 0 (take n c) = Some b \<and> length b = 12 \<and> take n b = take n c"
  using assms by (simp add: blit_def min_def)

lemma blit_same: "n \<le> length c \<Longrightarrow> blit c 0 (take n c) = Some c"
  by (simp add: blit_def min_def)

lemma confirm_site:
  assumes "cs_shape s"
  shows "\<exists>s'. cs_run t [Cs_open 1, Cs_ok_site] s = Some s' \<and> conf s' = conf s"
proof -
  have l: "length (siteid (conf s)) = 9" using assms by (simp add: cs_shape_def)
  then obtain b where "blit (replicate 12 0) 0 (take 8 (siteid (conf s))) = Some b" "length b = 12" "take 8 b = take 8 (siteid (conf s))"
    using blit_back [OF l, of 8] by auto
  then show ?thesis using l blit_same [of 8 "siteid (conf s)"]
    by (simp add: layer_chargersetEnter_def ResetNumberstid_def stationIdOkOnPress_def listen_def slice_def Let_def)
qed

lemma confirm_pass:
  assumes "cs_shape s"
  shows "\<exists>s'. cs_run t [Cs_open 5, Cs_ok_pass] s = Some s' \<and> conf s' = conf s"
proof -
  have l: "length (adminpassword (conf s)) = 5" using assms by (simp add: cs_shape_def)
  then obtain b where "blit (replicate 12 0) 0 (take 4 (adminpassword (conf s))) = Some b" "length b = 12"
    "take 4 b = take 4 (adminpassword (conf s))"
    using blit_back [OF l, of 4] by auto
  then show ?thesis using l blit_same [of 4 "adminpassword (conf s)"]
    by (simp add: layer_chargersetEnter_def ResetNumberpass_def PassChangeOkOnPress_def listen_def slice_def Let_def)
qed

lemma confirm_id:
  assumes "cs_shape s"
  shows "\<exists>s'. cs_run t [Cs_open 2, Cs_ok_id] s = Some s' \<and> conf s' = conf s"
proof -
  have "length (devid1 (conf s)) = 3" "length (devid2 (conf s)) = 3" using assms by (simp_all add: cs_shape_def)
  then obtain a b c d e f where "devid1 (conf s) = [a, b, c]" "devid2 (conf s) = [d, e, f]" using numeral_lengths(1) by meson
  then show ?thesis
    by (simp add: layer_chargersetEnter_def ResetNumberid1_def chargerid1OkOnPress_def two_chars_def listen_def rd_def wr_def Let_def
      numeral_eq_Suc)
qed

lemma confirm_sound:
  assumes "cs_shape s" "0 \<le> sint (audiolevel (conf s))" "sint (audiolevel (conf s)) < 800"
  shows "\<exists>s'. cs_run t [Cs_open 3, Cs_ok_sound] s = Some s' \<and> conf s' = conf s"
  using soc_digits [OF assms(2,3)]
  by (simp add: layer_chargersetEnter_def ResetNumbersound_def chargerid2OkOnPress_def listen_def blit_def rd_def Let_def max_def
    del: of_int_add of_int_mult of_int_numeral)

lemma confirm_soc:
  assumes "cs_shape s" "0 \<le> sint (targetSoc (conf s))"
  shows "\<exists>s'. cs_run t [Cs_open 7, Cs_ok_soc] s = Some s' \<and> conf s' = conf s"
proof -
  define v where "v = sint (targetSoc (conf s))"
  have "v sdiv 100 smod 10 = v div 100 mod 10" using assms(2)
    by (simp add: v_def signed_divide_int_def signed_modulo_int_def sgn_if pos_imp_zdiv_nonneg_iff)
  then have "sint (word_of_int (v sdiv 100 smod 10) :: u8) = v div 100 mod 10" by (simp add: small_digit)
  then have "\<not> 0x30 \<le> sint (word_of_int (v sdiv 100 smod 10) :: u8)" using pos_mod_bound [of 10 "v div 100"] by simp
  then have "typed_soc (word_of_int (v sdiv 100 smod 10) # xs) = None" for xs by (simp add: typed_soc_def)
  then show ?thesis
    by (simp add: layer_chargersetEnter_def ResetNumberTSoc_def TargetSocOkOnPress_def listen_def blit_def slice_def Let_def v_def)
qed

lemma confirm_mode:
  assumes "cs_shape s" "0 \<le> sint (OperationMode (conf s))" "sint (OperationMode (conf s)) \<le> 2" "chkModeMac (conf s) ! 12 = 0"
    "0 \<le> sint (FreeChargingTime (conf s))" "sint (FreeChargingTime (conf s)) < 800"
  shows "\<exists>s'. cs_run t [Cs_open 6, Cs_ok_mode] s = Some s' \<and> conf s' = conf s"
proof -
  have l: "length (chkModeMac (conf s)) = 13" using assms(1) by (simp add: cs_shape_def)
  have m: "(chkModeMac (conf s))[12 := 0] = chkModeMac (conf s)" using assms(4) by (metis list_update_id)
  have o: "sint (digit_char (sint (OperationMode (conf s)))) = sint (OperationMode (conf s)) + 0x30"
    using assms(2,3) by (intro digit_char_sint) simp_all
  then have "char_digit (digit_char (sint (OperationMode (conf s)))) = sint (OperationMode (conf s))" by (simp add: char_digit_def)
  then show ?thesis using soc_digits [OF assms(5,6)] l m o assms(2,3)
    by (simp add: layer_chargersetEnter_def ResetNumbermode1_def ResetNumbermode2_def ResetNumbermode3_def ModeOkOnPress_def listen_def
      blit_def rd_def wr_def Let_def max_def del: of_int_add of_int_mult of_int_numeral)
qed

text \<open>Opening a dialogue for site, connector, volume, password, mode or target state of charge and confirming it at once leaves
  all settings as they were.\<close>

theorem confirm_unchanged:
  assumes "cs_shape s" "cs_ranges (conf s)" "sint (audiolevel (conf s)) < 800" "sint (FreeChargingTime (conf s)) < 800"
    "chkModeMac (conf s) ! 12 = 0" "n \<in> {1, 2, 3, 5, 6, 7}"
  shows "\<exists>s'. cs_run t [Cs_open n, confirm_event n] s = Some s' \<and> conf s' = conf s"
proof -
  consider "n = 1" | "n = 2" | "n = 3" | "n = 5" | "n = 6" | "n = 7" using assms(6) by auto
  then show ?thesis
    by cases (use assms(2-5) confirm_site [OF assms(1)] confirm_id [OF assms(1)] confirm_sound [OF assms(1)] confirm_pass [OF assms(1)]
      confirm_mode [OF assms(1)] confirm_soc [OF assms(1)] in \<open>simp_all add: cs_ranges_def del: cs_run.simps\<close>)
qed

section \<open>The port of the server\<close>

lemma digit_code: "k < 10 \<Longrightarrow> uint (w8 (0x30 + k)) = 0x30 + int k"
  by (subst uint_nat) (simp add: unat_w8)

lemma digit_is_digit: "k < 10 \<Longrightarrow> is_digit (w8 (0x30 + k))"
  using digit_code [of k] by (simp add: is_digit_def word_le_def)

lemma atoi_digits_dec: "atoi_digits (dec_nat n @ ys) 0 = atoi_digits ys (int n)"
proof (induction n arbitrary: ys rule: dec_nat.induct)
  case (1 n)
  show ?case
  proof (cases "n < 10")
    case True
    then show ?thesis using digit_is_digit [OF True] digit_code [OF True] by (simp add: dec_nat.simps [of n])
  next
    case False
    have k: "n mod 10 < 10" by simp
    show ?thesis using False 1 [of "w8 (0x30 + n mod 10) # ys"] digit_is_digit [OF k] digit_code [OF k]
      by (simp add: dec_nat.simps [of n] zdiv_int zmod_int)
  qed
qed

lemma dec_nat_head: "\<exists>k xs. k < 10 \<and> dec_nat n = w8 (0x30 + k) # xs"
proof (induction n rule: dec_nat.induct)
  case (1 n)
  show ?case
  proof (cases "n < 10")
    case True
    then show ?thesis by (auto simp: dec_nat.simps [of n])
  next
    case False
    then show ?thesis using 1 by (auto simp: dec_nat.simps [of n])
  qed
qed

lemma atoi_dec:
  assumes "\<not> is_digit c" "n < 2 ^ 31"
  shows "atoi (dec_nat n @ c # ys) = Some (int n)"
proof -
  obtain k xs where k: "k < 10" "dec_nat n = w8 (0x30 + k) # xs" using dec_nat_head by blast
  have u: "uint (w8 (0x30 + k)) = 0x30 + int k" by (rule digit_code [OF k(1)])
  have "w8 (0x30 + k) \<noteq> 0x20 \<and> w8 (0x30 + k) \<noteq> 0x2D \<and> w8 (0x30 + k) \<noteq> 0x2B" using u k(1) by auto
  moreover have "\<not> w8 (0x30 + k) \<le> 13" using u by (simp add: word_le_def)
  ultimately have "dropWhile is_space (dec_nat n @ c # ys) = dec_nat n @ c # ys"
    "atoi_sign (dec_nat n @ c # ys) = atoi_digits (dec_nat n @ c # ys) 0"
    by (simp_all add: k(2) is_space_def)
  then show ?thesis using assms by (simp add: atoi_def atoi_digits_dec)
qed

lemma dec_nat_not_nul: "0 \<notin> set (dec_nat n)"
  using dec_nat_digits [of n] by (auto simp: is_digit_def word_le_def)

lemma dec_nat_snoc: "10 \<le> n \<Longrightarrow> dec_nat n = dec_nat (n div 10) @ [w8 (0x30 + n mod 10)]"
  by (simp add: dec_nat.simps [of n])

text \<open>The buffer of the dialogue for a port of at most five digits.\<close>

definition port_buffer :: "bytes \<Rightarrow> bytes" where
  "port_buffer t = t @ 0 # replicate (15 - length t) blank"

lemma port_opens:
  assumes "0 \<le> sint (serverport (conf s))" "sint (serverport (conf s)) < 100000"
  shows "\<exists>u. ipAllLayer_Enter (s\<lparr>setipselect := 2\<rparr>) = Some u \<and> conf u = conf s \<and> ip_saInputListener u = Some NumInputListenersport \<and>
    ip_sNum u = port_buffer (dec_nat (nat (sint (serverport (conf s))))) \<and>
    ip_sCount u = length (dec_nat (nat (sint (serverport (conf s))))) \<and> length (dec_nat (nat (sint (serverport (conf s))))) \<le> 5"
proof -
  have "length (dec_nat (nat (sint (serverport (conf s))))) \<le> 5" using assms by (intro dec_nat_length) simp_all
  then show ?thesis using assms(1)
    by (simp add: ipAllLayer_Enter_def ResetNumbersport_def fmt_d_def blit_def Let_def port_buffer_def)
qed

lemma port_printed: "0 \<notin> set t \<Longrightarrow> length t \<le> 15 \<Longrightarrow> shows_s 32 (t @ 0 # ys) \<noteq> None"
  using length_takeWhile_le [of "\<lambda>c. c \<noteq> 0" t] by (simp add: sprintf_s_def c_string_def blit_def cstr_def takeWhile_tail)

text \<open>The dialogue for the port of the server, with a port of at most five digits: a digit typed at once goes over the end of
  the text, which is then read beyond its array; confirming at once keeps the port; deleting a digit first and typing another
  one replaces the last digit.\<close>

theorem port_dialogue:
  assumes "0 \<le> sint (serverport (conf s))" "sint (serverport (conf s)) < 100000"
  shows "\<exists>u. ipAllLayer_Enter (s\<lparr>setipselect := 2\<rparr>) = Some u \<and>
    (\<forall>c. c \<noteq> del_key \<and> c \<noteq> 0 \<longrightarrow> aNumKeypadOnPress c u = None) \<and>
    (\<exists>v. serverportOkOnPress u = Some v \<and> conf v = conf s) \<and>
    (\<forall>k < 10. 10 \<le> sint (serverport (conf s)) \<longrightarrow>
       (\<exists>v. run_keys aNumKeypadOnPress [del_key, w8 (0x30 + k)] u = Some v \<and>
          map_option (\<lambda>w. sint (serverport (conf w))) (serverportOkOnPress v) = Some (sint (serverport (conf s)) div 10 * 10 + int k)))"
proof -
  define n where "n = nat (sint (serverport (conf s)))"
  have n: "sint (serverport (conf s)) = int n" "n < 100000" using assms by (simp_all add: n_def)
  obtain u where u: "ipAllLayer_Enter (s\<lparr>setipselect := 2\<rparr>) = Some u" "conf u = conf s" "ip_saInputListener u = Some NumInputListenersport"
    "ip_sNum u = port_buffer (dec_nat n)" "ip_sCount u = length (dec_nat n)" "length (dec_nat n) \<le> 5"
    using port_opens [OF assms] by (auto simp: n_def)
  have "aNumKeypadOnPress c u = None" if c: "c \<noteq> del_key" "c \<noteq> 0" for c
  proof -
    have "key_entry 6 c (ip_sNum u) (ip_sCount u) = Some (dec_nat n @ c # replicate (15 - length (dec_nat n)) blank, length (dec_nat n) + 1)"
      using u(4-6) c(1) by (simp add: key_entry_def wr_def port_buffer_def)
    then show ?thesis using c(2) dec_nat_not_nul [of n] by (simp add: aNumKeypadOnPress_def u(3) sprintf_s_def c_string_def)
  qed
  then have digit: "\<forall>c. c \<noteq> del_key \<and> c \<noteq> 0 \<longrightarrow> aNumKeypadOnPress c u = None" by blast
  have "atoi (ip_sNum u) = Some (int n)" using atoi_dec [of 0 n] n(2) by (simp add: u(4) port_buffer_def is_digit_def)
  moreover have "word_of_int (int n) = serverport (conf s)" unfolding n(1) [symmetric] by simp
  ultimately have keep: "\<exists>v. serverportOkOnPress u = Some v \<and> conf v = conf s" by (simp add: serverportOkOnPress_def u(2) del: of_int_of_nat_eq)
  have "\<exists>v. run_keys aNumKeypadOnPress [del_key, w8 (0x30 + k)] u = Some v \<and>
      map_option (\<lambda>w. sint (serverport (conf w))) (serverportOkOnPress v) = Some (int n div 10 * 10 + int k)"
    if k: "k < 10" "10 \<le> n" for k
  proof -
    define m where "m = dec_nat (n div 10)"
    define n' where "n' = n div 10 * 10 + k"
    have m: "dec_nat n = m @ [w8 (0x30 + n mod 10)]" "length m \<le> 4" "0 \<notin> set m"
      using dec_nat_snoc [OF k(2)] u(6) dec_nat_not_nul by (simp_all add: m_def)
    have "10 \<le> n'" using div_le_mono [OF k(2), of 10] by (simp add: n'_def)
    then have n': "dec_nat n' = m @ [w8 (0x30 + k)]" "n' < 2 ^ 31" using dec_nat_snoc [of n'] k n(2) by (simp_all add: n'_def m_def)
    have nz: "0 \<notin> set (m @ [w8 (0x30 + k)])" using dec_nat_not_nul [of n'] by (simp add: n'(1))
    have dk: "w8 (0x30 + k) \<noteq> del_key" using digit_is_digit [OF k(1)] by (auto simp: is_digit_def)
    let ?z = "0 # replicate (14 - length m) blank"
    let ?v = "u\<lparr>ip_sNum := m @ blank # ?z, ip_sCount := length m\<rparr>"
    have "key_entry 6 del_key (ip_sNum u) (ip_sCount u) = Some (m @ blank # ?z, length m)"
      using u(4-6) m by (simp add: key_entry_def wr_def port_buffer_def list_update_append)
    moreover have "shows_s 32 ((m @ [blank]) @ ?z) \<noteq> None" using m by (intro port_printed) simp_all
    ultimately have v: "aNumKeypadOnPress del_key u = Some ?v" by (auto simp: aNumKeypadOnPress_def u(3))
    have "key_entry 6 (w8 (0x30 + k)) (ip_sNum ?v) (ip_sCount ?v) = Some (m @ w8 (0x30 + k) # ?z, length m + 1)"
      using m dk by (simp add: key_entry_def wr_def list_update_append)
    moreover have "shows_s 32 ((m @ [w8 (0x30 + k)]) @ ?z) \<noteq> None" using m nz by (intro port_printed) simp_all
    ultimately have w: "aNumKeypadOnPress (w8 (0x30 + k)) ?v = Some (?v\<lparr>ip_sNum := m @ w8 (0x30 + k) # ?z, ip_sCount := length m + 1\<rparr>)"
      by (auto simp: aNumKeypadOnPress_def u(3))
    have "atoi (m @ w8 (0x30 + k) # ?z) = Some (int n')" using atoi_dec [of 0 n'] n' by (simp add: is_digit_def)
    moreover have "sint (word_of_int (int n') :: u32) = int n'" using n'(2) by (intro sint_int) simp_all
    ultimately show ?thesis using v w
      by (simp add: serverportOkOnPress_def n'_def zdiv_int del: of_int_of_nat_eq of_nat_add of_nat_mult) (simp add: zdiv_int)
  qed
  then have "\<forall>k < 10. 10 \<le> int n \<longrightarrow> (\<exists>v. run_keys aNumKeypadOnPress [del_key, w8 (0x30 + k)] u = Some v \<and>
      map_option (\<lambda>w. sint (serverport (conf w))) (serverportOkOnPress v) = Some (int n div 10 * 10 + int k))" by simp
  then show ?thesis using u(1) keep digit unfolding n(1) by blast
qed

section \<open>The keypads of the dialogues\<close>

text \<open>The buffer behind the typed text is blank.\<close>

definition pad :: "nat \<Rightarrow> bytes \<Rightarrow> bytes" where
  "pad limit t = t @ replicate (limit - length t) blank"

definition padded :: "nat \<Rightarrow> bytes \<Rightarrow> nat \<Rightarrow> bool" where
  "padded limit num count \<longleftrightarrow> count \<le> limit \<and> limit \<le> length num \<and> take limit num = pad limit (take count num)"

lemma padded_key:
  assumes "padded limit num count"
  shows "\<exists>num' count'. key_entry limit c num count = Some (num', count') \<and> length num' = length num \<and> padded limit num' count' \<and>
    take count' num' = stack_key limit c (take count num)"
proof -
  have l: "count \<le> limit" "limit \<le> length num" and p: "take limit num = take count num @ replicate (limit - count) blank"
    using assms by (simp_all add: padded_def pad_def)
  consider "c \<noteq> del_key" "count < limit" | "c \<noteq> del_key" "\<not> count < limit" | "c = del_key" "0 < count" | "c = del_key" "count = 0" by fastforce
  then show ?thesis
  proof cases
    case 1
    have "take limit (num[count := c]) = take count num @ c # replicate (limit - count - 1) blank"
      using 1(2) l by (simp add: take_update_swap p list_update_append Suc_diff_Suc [symmetric])
    then show ?thesis using 1 l take_snoc_update [of count num c]
      by (simp add: key_entry_def wr_def stack_key_def padded_def pad_def)
  next
    case 3
    obtain k where k: "count = Suc k" using 3(2) gr0_implies_Suc by blast
    have t: "take (Suc k) num = take k num @ [num ! k]" using k l by (simp add: take_Suc_conv_app_nth)
    have "take limit (num[k := blank]) = take k num @ replicate (limit - k) blank"
      using k l by (simp add: take_update_swap p t list_update_append Suc_diff_Suc [symmetric])
    then show ?thesis using 3 k l t by (simp add: key_entry_def wr_def stack_key_def padded_def pad_def min_def)
  qed (use assms l in \<open>auto simp: key_entry_def stack_key_def\<close>)
qed

definition cs_typed :: "service \<Rightarrow> bytes" where
  "cs_typed s = take (cs_sCount s) (cs_sNum s)"

definition ip_typed :: "service \<Rightarrow> bytes" where
  "ip_typed s = take (ip_sCount s) (ip_sNum s)"

definition pass_ready :: "service \<Rightarrow> bool" where
  "pass_ready s \<longleftrightarrow> cs_saInputListener s = Some NumInputListenerpass \<and> padded 4 (cs_sNum s) (cs_sCount s) \<and>
     length (adminpassword (conf s)) = 5"

interpretation password_pad: keypad cs_key cs_typed pass_ready 4 "\<lambda>_. True"
proof unfold_locales
  fix s c assume r: "pass_ready s"
  then have p: "padded 4 (cs_sNum s) (cs_sCount s)" by (simp add: pass_ready_def)
  show "\<exists>s'. cs_key c s = Some s' \<and> pass_ready s' \<and> cs_typed s' = stack_key 4 c (cs_typed s)"
    using padded_key [OF p, of c] r by (auto simp: cs_key_def pass_ready_def cs_limit_def cs_typed_def)
qed (auto simp: pass_ready_def padded_def cs_typed_def)

definition address_ready :: "service \<Rightarrow> bool" where
  "address_ready s \<longleftrightarrow> (\<exists>l. ip_saInputListener s = Some l \<and> l \<noteq> NumInputListenersport) \<and> length (ip_sNum s) = 16 \<and> ip_sCount s \<le> 15 \<and>
     ip_sNum s ! 15 = 0"

interpretation address_pad: keypad aNumKeypadOnPress ip_typed address_ready 15 "\<lambda>_. True"
proof unfold_locales
  fix s c assume r: "address_ready s"
  then have l: "ip_sCount s \<le> 15" "15 \<le> length (ip_sNum s)" by (simp_all add: address_ready_def)
  obtain b n where b: "key_entry 15 c (ip_sNum s) (ip_sCount s) = Some (b, n)" "length b = length (ip_sNum s)" "n \<le> 15"
    "take n b = stack_key 15 c (take (ip_sCount s) (ip_sNum s))" "drop 15 b = drop 15 (ip_sNum s)"
    using key_entry_stack [OF l, of c] by blast
  have z: "b ! 15 = 0" using arg_cong [OF b(5), of hd] r b(2) by (simp add: address_ready_def hd_drop_conv_nth)
  then have "0 \<in> set b" using b(2) r by (metis address_ready_def nth_mem numeral_less_iff semiring_norm(76,78,81))
  then show "\<exists>s'. aNumKeypadOnPress c s = Some s' \<and> address_ready s' \<and> ip_typed s' = stack_key 15 c (ip_typed s)"
    using b r z by (auto simp: aNumKeypadOnPress_def address_ready_def ip_typed_def c_string_def)
qed (auto simp: address_ready_def ip_typed_def)

text \<open>The password that a sequence of keys in its dialogue leads to.\<close>

lemma password_set:
  assumes "cs_shape s"
  shows "\<exists>u v. cs_run t [Cs_open 5] s = Some u \<and> run_keys cs_key ks u = Some v \<and>
    (\<exists>w. PassChangeOkOnPress v = Some w \<and> length (adminpassword (conf w)) = 5 \<and>
      take 4 (adminpassword (conf w)) = pad 4 (fold (stack_key 4) ks (take 4 (adminpassword (conf s)))))"
proof -
  have l: "length (adminpassword (conf s)) = 5" using assms by (simp add: cs_shape_def)
  then obtain b where b: "blit (replicate 12 0) 0 (take 4 (adminpassword (conf s))) = Some b" "length b = 12"
    "take 4 b = take 4 (adminpassword (conf s))"
    using blit_back [OF l, of 4] by auto
  obtain u where u: "cs_run t [Cs_open 5] s = Some u" "pass_ready u" "cs_typed u = take 4 (adminpassword (conf s))"
    using l b by (auto simp: layer_chargersetEnter_def ResetNumberpass_def listen_def slice_def Let_def pass_ready_def padded_def pad_def cs_typed_def)
  obtain v where v: "run_keys cs_key ks u = Some v" "pass_ready v" "cs_typed v = fold (stack_key 4) ks (take 4 (adminpassword (conf s)))"
    using password_pad.run [OF u(2)] u(3) by (auto simp: list_all_iff)
  have "4 \<le> length (cs_sNum v)" "take 4 (cs_sNum v) = pad 4 (cs_typed v)" "length (adminpassword (conf v)) = 5"
    using v(2) by (simp_all add: pass_ready_def padded_def cs_typed_def)
  moreover have "length (pad 4 (cs_typed v)) = 4" using arg_cong [OF calculation(2), of length] calculation(1) by simp
  ultimately have "PassChangeOkOnPress v \<noteq> None \<and> (\<forall>w. PassChangeOkOnPress v = Some w \<longrightarrow>
      length (adminpassword (conf w)) = 5 \<and> take 4 (adminpassword (conf w)) = pad 4 (cs_typed v))"
    by (auto simp: PassChangeOkOnPress_def slice_def blit_def)
  then show ?thesis using u(1) v(1,3) by auto
qed

section \<open>The keys for the address of the server\<close>

lemma row_cases: "rd xs i = Some x \<Longrightarrow> x \<in> set xs"
  by (auto simp: rd_def split: if_splits)

lemma cstr_insert: "0 \<notin> set t \<Longrightarrow> c \<noteq> 0 \<Longrightarrow> cstr (t @ c # 0 # ys) = t @ [c]"
  unfolding cstr_def by (subst takeWhile_append2) auto

text \<open>The keypad for the address of the server and for the hardware address has no key for the letter z, and its key for the
  percent sign makes the text, which is then used as a format, one with a conversion.\<close>

theorem address_keys:
  "GetCharIpKeyPad num s \<noteq> Some 0x7A"
  "c_string (sIp s) = Some t \<Longrightarrow> length (sIp s) = MAX_ADDRESS \<Longrightarrow> nIpKeyType s = 2 \<Longrightarrow> IpKeypadOnPress 12 s = None"
proof -
  have a: "row \<in> set IpKeyArr \<union> set IpKeyArrC \<Longrightarrow> 0x7A \<notin> set row" for row
    by (auto simp: IpKeyArr_def IpKeyArrC_def str_bytes_def)
  show "GetCharIpKeyPad num s \<noteq> Some 0x7A"
    using a by (auto simp: GetCharIpKeyPad_def split: bind_splits if_splits dest!: row_cases)
  assume s: "c_string (sIp s) = Some t" "length (sIp s) = MAX_ADDRESS" "nIpKeyType s = 2"
  have g: "GetCharIpKeyPad 12 s = Some 0x25" using s(3) by (simp add: GetCharIpKeyPad_def IpKeyArr_def rd_def str_bytes_def)
  have z: "0 \<notin> set t" using s(1) by (auto simp: c_string_def cstr_def split: if_splits dest: set_takeWhileD)
  show "IpKeypadOnPress 12 s = None"
  proof (cases "blit (sIp s) (length t) [0x25, 0]")
    case (Some b)
    then have b: "b = take (length t) (sIp s) @ 0x25 # 0 # drop (length t + 2) (sIp s)" by (simp add: blit_Some)
    have "take (length t) (sIp s) = t"
      using s(1) by (auto simp: c_string_def cstr_def split: if_splits) (metis append_eq_conv_conj takeWhile_dropWhile_id)
    then have b': "b = t @ 0x25 # 0 # drop (length t + 2) (sIp s)" using b by simp
    then have "wr b (length t + 1) 0 = Some b" by (simp add: wr_def list_update_append)
    moreover have "cstr b = t @ [0x25]" unfolding b' using z by (rule cstr_insert) simp
    ultimately show ?thesis using s(1) g Some by (simp add: IpKeypadOnPress_def IpInfoUpdate_def sprintf_fmt_def)
  qed (use s(1) g in \<open>simp add: IpKeypadOnPress_def IpInfoUpdate_def\<close>)
qed

section \<open>Settings for the witnesses\<close>

text \<open>The settings of a fresh station with the password 2843; no dialogue is open.\<close>

definition service_std :: service where
  "service_std = \<lparr>conf = (blank_config 1)\<lparr>adminpassword := str_bytes ''2843'' @ [0], siteid := str_bytes ''12345678'' @ [0],
       serverport := 5000, targetSoc := 80, audiolevel := 70\<rparr>,
     setipselect = 0, bChangedNetInfo = False, bDHCPStatus = False, ip_saInputListener = None, ip_sNum = replicate 16 0, ip_sCount = 0,
     sIp = replicate 70 0, bShiftKey = False, nIpKeyType = 0, adminsetchargerselect1 = 0, adminsetchargerselect2 = 0,
     cs_saInputListener = None, cs_sNum = replicate 12 0, sNumDev = replicate 12 0, sNumDevDev = replicate 13 0, cs_sCount = 0,
     sCountDev = 0, sCountDevDev = 0, MaxDigit = 0, nSelect = 0, SleeptimeSelectControl = False, timeSelectControl = False,
     timeSelectControl_ = False, sLNum = replicate 12 0, date_text = map (\<lambda>n. replicate n 0) [4, 2, 2, 2, 2, 2],
     admintimeStamp = replicate 7 0, c2_saInputListener = None, c2_sNum = replicate 18 0, c2_sCount = 0\<rparr>"

lemma service_std_ok: "cs_ok service_std" "length (adminpassword (conf service_std)) = 5"
  "take 4 (adminpassword (conf service_std)) = str_bytes ''2843''"
  by (simp_all add: service_std_def blank_config_def cs_ok_def cs_shape_def cs_ranges_def length_str_bytes)

definition time_std :: tm where
  "time_std = \<lparr>tm_year = 124, tm_mon = 0, tm_mday = 31, tm_hour = 12, tm_min = 0, tm_sec = 0\<rparr>"

text \<open>The target state of charge is deleted and set to 100, with some keys too many.\<close>

definition soc_events :: "cs_event list" where
  "soc_events = [Cs_open 7, Cs_del, Cs_del, Cs_del, Cs_num 1, Cs_num 0, Cs_num 0, Cs_num 9, Cs_ok_soc, Cs_leave]"

lemma soc_run: "\<exists>s. cs_run t soc_events service_std = Some s \<and> targetSoc (conf s) = 100"
  by (simp add: soc_events_def service_std_def blank_config_def layer_chargersetEnter_def ResetNumberTSoc_def listen_def blit_def rd_def wr_def
    KeypadOnPress_del_def bNumKeypad1OnPress_def sNumKeypadChar_def str_bytes_def cs_key_def cs_limit_def key_entry_def TargetSocOkOnPress_def
    slice_def typed_soc_def char_digit_def layer_chargersetLeave_def Let_def)

theorem charger_settings_safe_witness:
  "\<exists>s. cs_run time_std soc_events service_std = Some s \<and> cs_shape s \<and> targetSoc (conf s) = 100 \<and> 0 \<le> sint (targetSoc (conf s))"
proof -
  have b: "list_all cs_button soc_events" by (simp add: soc_events_def cs_button_def)
  have l: "Cs_ok_lcd \<notin> set (takeWhile (\<lambda>e. e \<noteq> Cs_open 4) soc_events)" by (simp add: soc_events_def)
  show ?thesis using charger_settings_safe [OF service_std_ok(1) b l, of time_std] soc_run [of time_std] by auto
qed

end
