(* ===== verification/Admin_Thms.thy ===== *)
theory Admin_Thms
  imports Admin Station_Thms Service_Thms
begin

text \<open>
  The screens for administration: a login succeeds for the password only, the screens behind it are reached by no other way
  whatever the station does meanwhile, and what the test of the contactor does.
\<close>

section \<open>Login\<close>

definition login_typed :: "admin \<Rightarrow> bytes" where
  "login_typed a = take (spNumCount a) (spCardNum a)"

definition login_ready :: "admin \<Rightarrow> bool" where
  "login_ready a \<longleftrightarrow> padded 4 (spCardNum a) (spNumCount a) \<and> length (spCardNum a) = 5"

interpretation login_pad: keypad PassNumInputListener login_typed login_ready 4 "\<lambda>c. c \<noteq> 0x72"
proof unfold_locales
  fix a c assume r: "login_ready a" and c: "c \<noteq> (0x72 :: u8)"
  then have p: "padded 4 (spCardNum a) (spNumCount a)" by (simp add: login_ready_def)
  show "\<exists>a'. PassNumInputListener c a = Some a' \<and> login_ready a' \<and> login_typed a' = stack_key 4 c (login_typed a)"
    using padded_key [OF p, of c] r c by (auto simp: PassNumInputListener_def login_ready_def login_typed_def)
qed (auto simp: login_ready_def padded_def login_typed_def)

text \<open>Typing leaves everything but the login's buffer alone.\<close>

lemma login_key_frame: "PassNumInputListener c a = Some b \<Longrightarrow> pan b = pan a \<and> srv b = srv a"
  by (auto simp: PassNumInputListener_def split: if_splits)

lemma login_keys_frame: "run_keys PassNumInputListener ks a = Some b \<Longrightarrow> pan b = pan a \<and> srv b = srv a"
proof (induction ks arbitrary: a)
  case (Cons k ks)
  then obtain c where "PassNumInputListener k a = Some c" "run_keys PassNumInputListener ks c = Some b" by (auto split: bind_splits)
  then show ?case using Cons.IH login_key_frame by metis
qed simp

lemma login_enter:
  assumes "length (spCardNum a) = 5"
  shows "\<exists>b. PassNumOnEnter env a = Some (b, []) \<and> login_ready b \<and> login_typed b = [] \<and> srv b = srv a \<and>
    visible_layer (pan b) = visible_layer (pan a) \<and> bGloAdminStatus b \<and> pass_listening b"
  using assms by (simp add: PassNumOnEnter_def ResetPassNumber_def blit_def login_ready_def padded_def pad_def login_typed_def)

text \<open>A login succeeds exactly if the keys typed since its screen was opened leave the first four characters of the password,
  filled up with blanks.\<close>

lemma login_iff:
  assumes "length (spCardNum a) = 5" "length (adminpassword (conf (srv a))) = 5" "visible_layer (pan a) \<noteq> ''AdminSetIpLayer''"
    and "list_all (\<lambda>c. c \<noteq> 0x72) ks"
  shows "\<exists>b c d. PassNumOnEnter env a = Some (b, []) \<and> run_keys PassNumInputListener ks b = Some c \<and> AdminLoginOkOnPress c = Some (d, []) \<and>
    srv d = srv a \<and>
    (visible_layer (pan d) = ''AdminSetIpLayer'' \<longleftrightarrow> pad 4 (fold (stack_key 4) ks []) = take 4 (adminpassword (conf (srv a))))"
proof -
  obtain b where b: "PassNumOnEnter env a = Some (b, [])" "login_ready b" "login_typed b = []" "srv b = srv a"
    "visible_layer (pan b) = visible_layer (pan a)"
    using login_enter [OF assms(1)] by metis
  obtain c where c: "run_keys PassNumInputListener ks b = Some c" "login_ready c" "login_typed c = fold (stack_key 4) ks []"
    using login_pad.run [OF b(2) assms(4)] b(3) by auto
  have f: "pan c = pan b" "srv c = srv a" using login_keys_frame [OF c(1)] b(4) by simp_all
  have l: "length (spCardNum c) = 5" "take 4 (spCardNum c) = pad 4 (fold (stack_key 4) ks [])"
    using c(2,3) by (simp_all add: login_ready_def padded_def login_typed_def)
  have v: "visible_layer (pan c) \<noteq> ''AdminSetIpLayer''" using b(5) f(1) assms(3) by simp
  let ?t = "pad 4 (fold (stack_key 4) ks [])" and ?p = "take 4 (adminpassword (conf (srv a)))"
  have "\<exists>d. AdminLoginOkOnPress c = Some (d, []) \<and> srv d = srv a \<and> (visible_layer (pan d) = ''AdminSetIpLayer'' \<longleftrightarrow> ?t = ?p)"
    using assms(2) f(2) l v
    by (cases "?t = ?p"; cases "?t = str_bytes ''0134''")
      (simp_all add: AdminLoginOkOnPress_def slice_def ResetPassNumber_def blit_def layer_goto_def)
  then show ?thesis using b(1) c(1) by blast
qed

text \<open>C18. Changing the password and logging in: the login accepts what has been typed in the dialogue, and nothing else.  A password that
  has been deleted, with or without some of its characters, is accepted as well: with four deletions the login succeeds
  without a key.\<close>

theorem password_then_login:
  assumes "cs_shape (srv a)" "length (spCardNum a) = 5" "visible_layer (pan a) \<noteq> ''AdminSetIpLayer''" "list_all (\<lambda>c. c \<noteq> 0x72) ls"
  shows "\<exists>u v w. cs_run t [Cs_open 5] (srv a) = Some u \<and> run_keys cs_key ks u = Some v \<and> PassChangeOkOnPress v = Some w \<and>
    (\<exists>b c d. PassNumOnEnter env (a\<lparr>srv := w\<rparr>) = Some (b, []) \<and> run_keys PassNumInputListener ls b = Some c \<and>
       AdminLoginOkOnPress c = Some (d, []) \<and>
       (visible_layer (pan d) = ''AdminSetIpLayer'' \<longleftrightarrow>
          pad 4 (fold (stack_key 4) ls []) = pad 4 (fold (stack_key 4) ks (take 4 (adminpassword (conf (srv a)))))))"
proof -
  obtain u v w where w: "cs_run t [Cs_open 5] (srv a) = Some u" "run_keys cs_key ks u = Some v" "PassChangeOkOnPress v = Some w"
    "length (adminpassword (conf w)) = 5"
    "take 4 (adminpassword (conf w)) = pad 4 (fold (stack_key 4) ks (take 4 (adminpassword (conf (srv a)))))"
    using password_set [OF assms(1)] by blast
  show ?thesis using login_iff [of "a\<lparr>srv := w\<rparr>" ls env] assms(2-4) w by auto
qed

section \<open>The screens behind the login\<close>

text \<open>The functions that the screens call when they are entered or left; they change no screen.\<close>

definition event_functions :: "string set" where
  "event_functions = {''PassNumOnEnter'', ''PassNumOnLeave'', ''adminsetipEnter'', ''adminsetipLeave'', ''adminsetchargerEnter'',
     ''adminChargerTestEnter'', ''AdmintestEnter'', ''AdmintestLeave'', ''ipAllLayer_Enter'', ''ipAllLayer_Leave'', ''layer_chargersetEnter'',
     ''layer_chargersetLeave'', ''layer_charger2setEnter'', ''Layer_charger2setLeave''}"

definition admin_names :: "string list" where
  "admin_names = map fst (login_functions undefined @ inner_functions undefined undefined undefined)"

lemma names_same: "map fst (login_functions env @ inner_functions env t n) = admin_names"
  by (simp add: admin_names_def login_functions_def inner_functions_def setup_functions_def address_functions_def charger_functions_def
    position_functions_def keypad_functions_def)

text \<open>The scene file: of these functions, screens call only the ones above, and a button that is not one of a screen in front of the
  login is on a screen behind it.\<close>

definition admin_scene :: "scene \<Rightarrow> (string \<Rightarrow> string) \<Rightarrow> bool" where
  "admin_scene sc bt \<longleftrightarrow> (\<forall>l e f. sc l e = Some f \<longrightarrow> f \<in> event_functions \<or> f \<notin> set admin_names) \<and>
     (\<forall>f. f \<notin> open_buttons \<longrightarrow> bt f \<in> admin_layers)"

text \<open>The next action is the button of the login, and the buffer holds the password.\<close>

definition logs_in :: "admin \<Rightarrow> bool" where
  "logs_in a \<longleftrightarrow> queuePos (pan a) < length (actionQueue (pan a)) \<and>
     (\<exists>n. actionQueue (pan a) ! queuePos (pan a) = Button_action ''AdminLoginOkOnPress'' n) \<and>
     take 4 (spCardNum a) = take 4 (adminpassword (conf (srv a)))"

definition outside :: "scene \<Rightarrow> panel_cfg \<Rightarrow> admin \<Rightarrow> bool" where
  "outside sc cfg a \<longleftrightarrow> station_net sc cfg (pan a) \<and> visible_layer (pan a) \<notin> admin_layers"

text \<open>What the station does keeps the administrator out.\<close>

lemma panel_outside:
  assumes "outside sc cfg a" "on_panel sc cfg env ev a = Some (b, acts)"
  shows "outside sc cfg b"
proof -
  obtain p where p: "panel_do sc cfg (env, with_status (bGloAdminStatus a) ev) (pan a) = Some (p, acts)" "b = a\<lparr>pan := p\<rparr>"
    using assms(2) by (auto simp: on_panel_def)
  have n: "station_net sc cfg (pan a)" using assms(1) by (simp add: outside_def)
  show ?thesis using station_keeps [OF n p(1)] station_paid [OF n p(1)] assms(1) p(2)
    by (auto simp: outside_def paid_def same_screen_def)
qed

lemma net_same:
  assumes "station_net sc cfg p" "actionQueue p' = actionQueue p" "b_nextLayer p' = b_nextLayer p" "b_nextLayer2 p' = b_nextLayer2 p"
  shows "station_net sc cfg p'"
  using assms by (simp add: station_net_def station_ok_def)

lemma net_goto:
  assumes "station_net sc cfg p" "l \<notin> admin_layers"
  shows "station_net sc cfg (ituLayerGoto l p)"
proof -
  have "moved {l} (actionQueue p) (actionQueue (ituLayerGoto l p))" using assms(2) by (intro moved_goto) (simp_all add: open_layer_def)
  then show ?thesis using moved_ok assms(1) by (simp add: station_net_def station_ok_def)
qed

text \<open>A function that leaves screen and queue alone.\<close>

definition stays :: "admin_step \<Rightarrow> bool" where
  "stays h \<longleftrightarrow> (\<forall>a b acts. h a = Some (b, acts) \<longrightarrow> actionQueue (pan b) = actionQueue (pan a) \<and> b_nextLayer (pan b) = b_nextLayer (pan a) \<and>
     b_nextLayer2 (pan b) = b_nextLayer2 (pan a) \<and> visible_layer (pan b) = visible_layer (pan a))"

lemma stays_functions:
  "stays (on_service g)" "stays (PassNumOnEnter env)" "stays PassNumOnLeave" "stays (AdminSetIpEnter env)" "stays AdminSetIpLeave"
  "stays AdminSetChargerEnter" "stays adminChargerTestEnter" "stays AdmintestEnter" "stays (AdmintestLeave env)"
proof -
  show s: "stays (on_service g)" for g by (auto simp: stays_def on_service_def)
  show "stays AdminSetChargerEnter" by (auto simp: stays_def on_service_def AdminSetChargerEnter_def)
  show "stays (PassNumOnEnter env)" by (auto simp: stays_def PassNumOnEnter_def ResetPassNumber_def split: bind_splits)
  show "stays (AdminSetIpEnter env)" by (auto simp: stays_def AdminSetIpEnter_def Let_def split: bind_splits if_splits)
  show "stays PassNumOnLeave" "stays AdminSetIpLeave" "stays adminChargerTestEnter" "stays (AdmintestLeave env)"
    by (simp_all add: stays_def PassNumOnLeave_def AdminSetIpLeave_def adminChargerTestEnter_def AdmintestLeave_def on_sess_def Let_def)
  show "stays AdmintestEnter" by (simp add: stays_def AdmintestEnter_def Let_def)
qed

text \<open>The names of these functions end alike, and no function with such a name moves to another screen.\<close>

lemma event_names: "f \<in> event_functions \<Longrightarrow> take 3 (rev f) \<in> {''ret'', ''eva''}"
  by (auto simp: event_functions_def)

abbreviation (input) calm_entry :: "string \<times> admin_step \<Rightarrow> bool" where
  "calm_entry x \<equiv> (if stays (snd x) then True else take 3 (rev (fst x)) \<notin> {''ret'', ''eva''})"

lemma calm_setup: "list_all calm_entry (setup_functions env n)"
  by (simp add: setup_functions_def stays_functions)

lemma calm_keypad: "list_all calm_entry (keypad_functions name keys f)"
  by (simp add: keypad_functions_def list_all_iff stays_functions split_beta)

lemma calm_address: "list_all calm_entry (address_functions n)"
  by (simp add: address_functions_def stays_functions calm_keypad)

lemma calm_charger: "list_all calm_entry (charger_functions t n)"
  by (simp add: charger_functions_def stays_functions listen_to_def)

lemma calm_position: "list_all calm_entry position_functions"
  unfolding position_functions_def list_all_append by (rule conjI, simp add: stays_functions, rule calm_keypad)

lemma calm_login: "list_all calm_entry (login_functions env)"
  by (simp add: login_functions_def stays_functions)

lemma event_stays:
  assumes "f \<in> event_functions" "map_of (login_functions env @ inner_functions env t n) f = Some h"
  shows "stays h"
proof -
  have "list_all calm_entry (login_functions env @ inner_functions env t n)"
    by (simp only: inner_functions_def list_all_append calm_login calm_setup calm_address calm_charger calm_position simp_thms)
  then have "calm_entry (f, h)" using map_of_SomeD [OF assms(2)] unfolding list_all_iff by (rule bspec)
  then show ?thesis using event_names [OF assms(1)] by (simp split: if_splits)
qed

text \<open>The other buttons of the station are no functions of these screens.\<close>

definition station_starts :: "string set" where
  "station_starts = {''Mai'', ''Ch2'', ''Aut'', ''Mem'', ''Rem'', ''Car'', ''QRC'', ''hom'', ''bac''}"

lemma open_starts: "f \<in> open_buttons \<Longrightarrow> f \<notin> {''setting2Layer'', ''AdminLoginOkOnPress'', ''AdminLoginCancelOnPress''} \<Longrightarrow> take 3 f \<in> station_starts"
  unfolding open_buttons_def by (elim insertE) (simp_all add: station_starts_def)

abbreviation (input) other_name :: "string \<times> admin_step \<Rightarrow> bool" where "other_name x \<equiv> take 3 (fst x) \<notin> station_starts"

lemma other_keypad: "take 3 name \<notin> station_starts \<Longrightarrow> 3 \<le> length name \<Longrightarrow> list_all other_name (keypad_functions name keys f)"
  by (simp add: keypad_functions_def list_all_iff split_beta)

lemma other_setup: "list_all other_name (setup_functions env n)"
  by (simp add: setup_functions_def station_starts_def)

lemma other_address: "list_all other_name (address_functions n)"
  unfolding address_functions_def list_all_append
  by (rule conjI, simp add: station_starts_def, rule other_keypad, simp_all add: station_starts_def)

lemma other_charger: "list_all other_name (charger_functions t n)"
  by (simp add: charger_functions_def station_starts_def)

lemma other_position: "list_all other_name position_functions"
  unfolding position_functions_def list_all_append
  by (rule conjI, simp add: station_starts_def, rule other_keypad, simp_all add: station_starts_def)

lemma other_login: "list_all other_name (login_functions env)"
  by (simp add: login_functions_def station_starts_def)

lemma open_functions:
  assumes "f \<in> open_buttons" "map_of (login_functions env @ inner_functions env t n) f = Some h"
  shows "h = setting2Layer \<or> h = AdminLoginCancelOnPress \<or> f = ''AdminLoginOkOnPress'' \<and> h = AdminLoginOkOnPress"
proof -
  have "list_all other_name (login_functions env @ inner_functions env t n)"
    by (simp only: inner_functions_def list_all_append other_login other_setup other_address other_charger other_position simp_thms)
  then have "other_name (f, h)" using map_of_SomeD [OF assms(2)] unfolding list_all_iff by (rule bspec)
  then consider "f = ''setting2Layer''" | "f = ''AdminLoginOkOnPress''" | "f = ''AdminLoginCancelOnPress''"
    using open_starts [OF assms(1)] by auto
  then show ?thesis by cases (use assms(2) in \<open>simp_all add: login_functions_def\<close>)
qed

text \<open>An action of the queue.\<close>

lemma outside_goto: "station_net sc cfg (pan a) \<Longrightarrow> l \<notin> admin_layers \<Longrightarrow> outside sc cfg (layer_goto l a)"
  using net_goto by (simp add: outside_def layer_goto_def ituLayerGoto_def Let_def ituExecActions_def)

lemma outside_stays: "stays h \<Longrightarrow> h a = Some (b, acts) \<Longrightarrow> outside sc cfg a \<Longrightarrow> outside sc cfg b"
  unfolding stays_def outside_def using net_same by metis

lemma login_press:
  assumes "AdminLoginOkOnPress a = Some (b, acts)" "outside sc cfg a"
  shows "outside sc cfg b \<or> take 4 (spCardNum a) = take 4 (adminpassword (conf (srv a))) \<and> visible_layer (pan b) = ''AdminSetIpLayer''"
  using assms
  by (auto simp: AdminLoginOkOnPress_def slice_def ResetPassNumber_def layer_goto_def ituLayerGoto_def ituExecActions_def outside_def Let_def
    split: bind_splits if_splits)

lemma action_outside:
  assumes "admin_scene sc bt" "outside sc cfg a" "admin_flush sc cfg env t a = Some (b, acts)"
  shows "outside sc cfg b \<or> logs_in a \<and> visible_layer (pan b) = ''AdminSetIpLayer''"
proof (cases "queuePos (pan a) < length (actionQueue (pan a))")
  case True
  let ?act = "actionQueue (pan a) ! queuePos (pan a)" and ?a = "a\<lparr>pan := (pan a)\<lparr>queuePos := queuePos (pan a) + 1\<rparr>\<rparr>"
  have r: "admin_run_action sc cfg env t ?act ?a = Some (b, acts)" using assms(3) True by (simp add: admin_flush_def)
  have o: "outside sc cfg ?a" using assms(2) net_same [of sc cfg "pan a" "pan ?a"] by (simp add: outside_def)
  have q: "\<not> hidden_button ?act" using assms(2) True by (simp add: outside_def station_net_def station_ok_def)
  show ?thesis
  proof (cases "action_name sc ?act")
    case None
    then show ?thesis using r o by (simp add: admin_run_action_def)
  next
    case (Some f)
    show ?thesis
    proof (cases "map_of (login_functions env @ inner_functions env t (action_param ?act)) f")
      case None
      have "on_panel sc cfg env Ev_flush a = Some (b, acts)"
        using r True \<open>action_name sc ?act = Some f\<close> None
        by (auto simp: on_panel_def with_status_def admin_run_action_def ituFlushActionQueue_def simp del: map_of_append)
      then show ?thesis using panel_outside assms(2) by blast
    next
      case (Some h)
      have h: "h ?a = Some (b, acts)" using r \<open>action_name sc ?act = Some f\<close> Some by (simp add: admin_run_action_def)
      show ?thesis
      proof (cases ?act)
        case (Layer_action l e)
        have "f \<in> set admin_names" using Some names_same by (metis map_of_SomeD fst_conv image_eqI set_map)
        then have "f \<in> event_functions"
          using assms(1) \<open>action_name sc ?act = Some f\<close> Layer_action by (auto simp: admin_scene_def action_name_def)
        then show ?thesis using outside_stays [OF event_stays [OF _ Some] h o] by blast
      next
        case (Button_action g n)
        have f: "f \<in> open_buttons" "f = g"
          using q \<open>action_name sc ?act = Some f\<close> Button_action by (auto simp: hidden_button_def action_name_def)
        have n: "station_net sc cfg (pan ?a)" using o by (simp add: outside_def)
        consider "h = setting2Layer" | "h = AdminLoginCancelOnPress" | "f = ''AdminLoginOkOnPress''" "h = AdminLoginOkOnPress"
          using open_functions [OF f(1) Some] by blast
        then show ?thesis
        proof cases
          case 1
          then show ?thesis using h o outside_goto [OF n, of "''AdminLoginLayer''"] by (auto simp: setting2Layer_def split: if_splits)
        next
          case 2
          then show ?thesis using h outside_goto [OF n, of "''mainLayer''"]
            by (auto simp: AdminLoginCancelOnPress_def AdminSetupMenuExit_def GotoStart_def layer_goto_def)
        next
          case 3
          then show ?thesis using login_press [OF h [unfolded 3(2)] o] True Button_action f(2) by (auto simp: logs_in_def)
        qed
      qed
    qed
  qed
next
  case False
  then show ?thesis using assms(2,3) by (auto simp: admin_flush_def outside_def station_net_def station_ok_def)
qed

text \<open>A step of the station with an administrator.\<close>

lemma press_outside:
  assumes "admin_scene sc bt" "outside sc cfg a"
  shows "outside sc cfg (admin_press bt env t f n a)"
proof (cases "bt f = visible_layer (pan a)")
  case True
  then have "f \<in> open_buttons" using assms by (auto simp: admin_scene_def outside_def)
  then have "moved {} (actionQueue (pan a)) (actionQueue (ituExecActions (Button_action f n) (pan a)))"
    by (intro moved_add) (auto simp: hidden_button_def)
  then show ?thesis using assms(2) moved_ok by (auto simp: admin_press_def outside_def station_net_def station_ok_def)
qed (use assms(2) in \<open>simp add: admin_press_def\<close>)

lemma step_outside:
  assumes "admin_scene sc bt" "outside sc cfg a" "admin_do sc bt cfg e a = Some (b, acts)"
  shows "outside sc cfg b \<or> logs_in a \<and> visible_layer (pan b) = ''AdminSetIpLayer''"
proof -
  obtain env t ev where e: "e = (env, t, ev)" by (cases e)
  note d = assms(3) [unfolded e admin_do_def prod.case]
  have p: "outside sc cfg b" if "on_panel sc cfg env ev' a = Some (b, acts)" for ev' using panel_outside [OF assms(2) that] .
  show ?thesis
  proof (cases ev)
    case (Adm_press f n)
    then show ?thesis using d press_outside [OF assms(1,2)] by auto
  next
    case (Adm_panel pe)
    show ?thesis
    proof (cases pe)
      case Ev_flush
      then show ?thesis using d action_outside [OF assms(1,2)] assms(2) by (auto simp: Adm_panel split: if_splits)
    next
      case Ev_top
      then obtain c acts' where "on_panel sc cfg env Ev_top a = Some (c, acts')" "pan b = pan c"
        using d by (auto simp: Adm_panel timeout_flags_def split: if_splits)
      then show ?thesis using panel_outside [OF assms(2)] by (simp add: outside_def)
    next
      case (Ev_key k)
      then show ?thesis using d p assms(2) login_key_frame by (auto simp: Adm_panel outside_def split: if_splits)
    qed (use d p assms(2) in \<open>auto simp: Adm_panel split: if_splits\<close>)
  qed
qed

text \<open>C17. Whatever the users, the vehicle, the server and the tasks do in whatever order: when a screen behind the login is visible
  and the station has started outside of them, then at some step before the button of the login has been worked off while the
  buffer held the password, and that step has shown the first of these screens.\<close>

theorem admin_needs_password:
  assumes "exec (admin_do sc bt cfg) es a = Some (a', tr)" "admin_scene sc bt" "outside sc cfg a" "visible_layer (pan a') \<in> admin_layers"
  shows "\<exists>b acts c. (b, acts, c) \<in> set tr \<and> visible_layer (pan b) \<notin> admin_layers \<and> visible_layer (pan c) = ''AdminSetIpLayer'' \<and> logs_in b"
  using assms(1,3)
proof (induction es arbitrary: a tr)
  case Nil
  then show ?case using assms(4) by (simp add: outside_def)
next
  case (Cons e es)
  from exec_Cons [OF Cons.prems(1)] obtain b acts tr' where
    b: "admin_do sc bt cfg e a = Some (b, acts)" "exec (admin_do sc bt cfg) es b = Some (a', tr')" "tr = (a, acts, b) # tr'" .
  from step_outside [OF assms(2) Cons.prems(2) b(1)] show ?case
  proof
    assume "outside sc cfg b"
    then show ?thesis using Cons.IH [OF b(2)] b(3) by (meson list.set_intros(2))
  next
    assume "logs_in a \<and> visible_layer (pan b) = ''AdminSetIpLayer''"
    then show ?thesis using Cons.prems(2) b(3) by (auto simp: outside_def)
  qed
qed
section \<open>The test of the contactor\<close>

text \<open>The contactor is closed by the test, while the emergency button is ignored and no countdown runs.\<close>

definition under_test :: "string \<Rightarrow> admin \<Rightarrow> bool" where
  "under_test l a \<longleftrightarrow> MCOn (sess (pan a)) \<and> magnet_pin (sess (pan a)) \<and> bGloAdminStatus a \<and> \<not> sDLsTopMonitoring (pan a) \<and> visible_layer (pan a) = l"

definition test_event :: "admin_event \<Rightarrow> bool" where
  "test_event ev \<longleftrightarrow> ev = Adm_panel Ev_top \<or> (\<exists>b pressed. ev = Adm_panel (Ev_emb b pressed))"

lemma test_step:
  assumes "under_test l a" "test_event ev"
  shows "\<exists>b. admin_do sc bt cfg (env, t, ev) a = Some (b, []) \<and> under_test l b"
  using assms
  by (auto simp: under_test_def test_event_def admin_do_def on_panel_def with_status_def timeout_flags_def EMBListenerOnCharge12_def on_session_def
    set_sess_def sTopMonitoringTaskFuntion_def top_again_def)

lemma test_run:
  assumes "under_test l a" "list_all (\<lambda>(env, t, ev). test_event ev) es"
  shows "\<exists>b tr. exec (admin_do sc bt cfg) es a = Some (b, tr) \<and> under_test l b \<and> list_all (\<lambda>(_, acts, _). acts = []) tr"
  using assms
proof (induction es arbitrary: a)
  case (Cons e es)
  obtain env t ev where e: "e = (env, t, ev)" by (cases e)
  obtain b where b: "admin_do sc bt cfg e a = Some (b, [])" "under_test l b" using test_step [OF Cons.prems(1), of ev sc bt cfg env t] Cons.prems(2) e by auto
  show ?case using Cons.IH [OF b(2)] Cons.prems(2) b(1) by auto
qed simp

text \<open>To the session, the button is the event \<open>Ev_test\<close> with the screen's note of the contactor.\<close>

lemma test_button_session:
  assumes "Mc1teststartOnPress a = Some (b, acts)"
  shows "session_do cfg (Ev_test (bMc1Check1 a)) (sess (pan a)) = Some (sess (pan b), [])"
  using assms by (cases "bMc1Check1 a") (auto simp: Mc1teststartOnPress_def on_sess_def set_sess_def tMc1teststartOnPress_def)

text \<open>C20. The test of the contactor: a press of its button closes the contactor in whatever state session, pilot and emergency button
  are; however often the emergency button and the countdown are looked at afterwards, nothing happens and the screen stays;
  when it is left, the contactor is opened, and only then a countdown of three minutes begins.\<close>

theorem contactor_test:
  assumes "AdmintestEnter a = Some (b, acts)" "bGloAdminStatus a" "\<not> bMc1Check1 a" "list_all (\<lambda>(env, t, ev). test_event ev) es"
  shows "\<exists>c d tr w. Mc1teststartOnPress b = Some (c, []) \<and> MCOn (sess (pan c)) \<and>
    exec (admin_do sc bt cfg) es c = Some (d, tr) \<and> MCOn (sess (pan d)) \<and> visible_layer (pan d) = visible_layer (pan a) \<and>
    list_all (\<lambda>(_, acts, _). acts = []) tr \<and>
    AdmintestLeave env d = Some (w, []) \<and> \<not> MCOn (sess (pan w)) \<and> \<not> magnet_pin (sess (pan w)) \<and>
    sTimerCount (pan w) = 180 \<and> sTimeoutListener (pan w) = Some T_adminTimeout1 \<and> sDLsTopMonitoring (pan w)"
proof -
  have b: "bGloAdminStatus b" "\<not> bMc1Check1 b" "\<not> sDLsTopMonitoring (pan b)" "visible_layer (pan b) = visible_layer (pan a)"
    using assms(1-3) by (auto simp: AdmintestEnter_def TopCloseTimer_def Let_def split: if_splits)
  obtain c where c: "Mc1teststartOnPress b = Some (c, [])" "under_test (visible_layer (pan a)) c"
    using b by (simp add: Mc1teststartOnPress_def on_sess_def set_sess_def MagneticContactorOn_def under_test_def)
  obtain d tr where d: "exec (admin_do sc bt cfg) es c = Some (d, tr)" "under_test (visible_layer (pan a)) d" "list_all (\<lambda>(_, acts, _). acts = []) tr"
    using test_run [OF c(2) assms(4)] by blast
  have "\<exists>w. AdmintestLeave env d = Some (w, []) \<and> \<not> MCOn (sess (pan w)) \<and> \<not> magnet_pin (sess (pan w)) \<and>
    sTimerCount (pan w) = 180 \<and> sTimeoutListener (pan w) = Some T_adminTimeout1 \<and> sDLsTopMonitoring (pan w)"
    by (simp add: AdmintestLeave_def on_sess_def set_sess_def MagneticContactorOff_def TopSetTimer_def Let_def)
  then show ?thesis using c d unfolding under_test_def by blast
qed
section \<open>An administrator for the witnesses\<close>

definition admin_std :: admin where
  "admin_std = \<lparr>pan = panel_start, srv = service_std, bGloAdminStatus = False, bAdminExit = False, spCardNum = replicate 5 0, spNumCount = 0,
     pass_listening = False, nCurSubMenu = 0, adminsettestselect = 0, bTimeoutCnt = False, test_found = False, bMc1Check1 = False,
     bMc2Check1 = False, bLed1Check1 = False, bRouterPower = False, ui_dead = False\<rparr>"

definition scene_admin :: scene where
  "scene_admin l e = map_of
     [((''AdminLoginLayer'', ITU_EVENT_ENTER), ''PassNumOnEnter''), ((''AdminLoginLayer'', ITU_EVENT_LEAVE), ''PassNumOnLeave''),
      ((''AdminSetIpLayer'', ITU_EVENT_ENTER), ''adminsetipEnter''), ((''AdminSetIpLayer'', ITU_EVENT_LEAVE), ''adminsetipLeave'')] (l, e)"

definition button_admin :: "string \<Rightarrow> string" where
  "button_admin f =
     (if f = ''setting2Layer'' then ''mainLayer''
      else if f = ''AdminLoginOkOnPress'' \<or> f = ''AdminLoginCancelOnPress'' then ''AdminLoginLayer''
      else ''AdminSetIpLayer'')"

lemma scene_admin_ok: "admin_scene scene_admin button_admin" "scene_ok scene_admin"
  by (auto simp: admin_scene_def scene_ok_def scene_admin_def button_admin_def event_functions_def admin_layers_def open_buttons_def
    split: if_splits dest: map_of_SomeD)

text \<open>The login screen is opened, the password is typed and confirmed.\<close>

definition login_events :: "admin_event list" where
  "login_events = [Adm_press ''setting2Layer'' 0, Adm_panel Ev_flush, Adm_panel Ev_flush, Adm_panel Ev_flush, Adm_panel Ev_flush,
     Adm_panel (Ev_key 0x32), Adm_panel (Ev_key 0x38), Adm_panel (Ev_key 0x34), Adm_panel (Ev_key 0x33),
     Adm_press ''AdminLoginOkOnPress'' 0, Adm_panel Ev_flush]"

lemmas login_eval =
  login_events_def admin_std_def scene_admin_def button_admin_def admin_do_def admin_press_def admin_flush_def admin_run_action_def
  login_functions_def setting2Layer_def PassNumOnEnter_def ResetPassNumber_def PassNumInputListener_def AdminLoginOkOnPress_def
  layer_goto_def key_entry_def map_add_def slice_def blit_def wr_def ituLayerGoto_def ituExecActions_def action_name_def action_param_def
  TopSetTimer_def Let_def

lemma blanks: "replicate 4 blank = [blank, blank, blank, blank]" "replicate 5 (0 :: u8) = [0, 0, 0, 0, 0]"
  by (simp_all add: numeral_eq_Suc)

lemma login_runs:
  "\<exists>a. result (admin_do scene_admin button_admin panel_cfg_std) (map (\<lambda>ev. (panel_env_std, time_std, ev)) login_events) admin_std = Some a \<and>
     visible_layer (pan a) = ''AdminSetIpLayer''"
  using service_std_ok(2,3)
  by (simp add: login_eval blanks panel_start_def client_start_def session_idle_def str_bytes_def)

theorem admin_needs_password_witness:
  "\<exists>a tr b acts c. exec (admin_do scene_admin button_admin panel_cfg_std) (map (\<lambda>ev. (panel_env_std, time_std, ev)) login_events) admin_std = Some (a, tr) \<and>
     visible_layer (pan a) \<in> admin_layers \<and> (b, acts, c) \<in> set tr \<and> logs_in b"
proof -
  let ?es = "map (\<lambda>ev. (panel_env_std, time_std, ev)) login_events"
  obtain a where a: "result (admin_do scene_admin button_admin panel_cfg_std) ?es admin_std = Some a" "visible_layer (pan a) = ''AdminSetIpLayer''"
    using login_runs by blast
  from exec_result [OF a(1)] obtain tr where tr: "exec (admin_do scene_admin button_admin panel_cfg_std) ?es admin_std = Some (a, tr)" ..
  have "outside scene_admin panel_cfg_std admin_std" using scene_admin_ok(2)
    by (simp add: outside_def station_net_def station_ok_def admin_std_def panel_start_def panel_cfg_std_def)
  moreover have v: "visible_layer (pan a) \<in> admin_layers" using a(2) by (simp add: admin_layers_def)
  ultimately show ?thesis using admin_needs_password [OF tr scene_admin_ok(1)] tr by blast
qed

theorem password_then_login_witness:
  "\<exists>u v w b c d. cs_run time_std [Cs_open 5] service_std = Some u \<and>
     run_keys cs_key ([del_key, del_key, del_key, del_key, 0x31, 0x32, 0x33]) u = Some v \<and> PassChangeOkOnPress v = Some w \<and>
     PassNumOnEnter panel_env_std (admin_std\<lparr>srv := w\<rparr>) = Some (b, []) \<and> run_keys PassNumInputListener [0x31, 0x32, 0x33] b = Some c \<and>
     AdminLoginOkOnPress c = Some (d, []) \<and> visible_layer (pan d) = ''AdminSetIpLayer''"
proof -
  have h: "cs_shape (srv admin_std)" "length (spCardNum admin_std) = 5" "visible_layer (pan admin_std) \<noteq> ''AdminSetIpLayer''"
    "list_all (\<lambda>c. c \<noteq> 0x72) [0x31, 0x32, 0x33 :: u8]" "srv admin_std = service_std"
    using service_std_ok(1) by (simp_all add: admin_std_def panel_start_def cs_ok_def)
  have t: "fold (stack_key 4) ([del_key, del_key, del_key, del_key, 0x31, 0x32, 0x33]) (take 4 (adminpassword (conf service_std))) = [0x31, 0x32, 0x33]"
    "fold (stack_key 4) [0x31, 0x32, 0x33] [] = [0x31, 0x32, 0x33]"
    unfolding service_std_ok(3) by (simp_all add: stack_key_def str_bytes_def)
  show ?thesis
    using password_then_login [OF h(1-4), of time_std "[del_key, del_key, del_key, del_key, 0x31, 0x32, 0x33]" panel_env_std] unfolding h(5) t by blast
qed

text \<open>Someone presses the emergency button during the test.\<close>

theorem contactor_test_witness:
  "\<exists>b acts c d tr w. AdmintestEnter (admin_std\<lparr>bGloAdminStatus := True, adminsettestselect := 2\<rparr>) = Some (b, acts) \<and>
     Mc1teststartOnPress b = Some (c, []) \<and>
     exec (admin_do scene_admin button_admin panel_cfg_std)
       (replicate 30 (panel_env_std, time_std, Adm_panel (Ev_emb False True)) @ [(panel_env_std, time_std, Adm_panel Ev_top)]) c = Some (d, tr) \<and>
     MCOn (sess (pan d)) \<and> AdmintestLeave panel_env_std d = Some (w, []) \<and> \<not> MCOn (sess (pan w))"
proof -
  let ?a = "admin_std\<lparr>bGloAdminStatus := True, adminsettestselect := 2\<rparr>"
  obtain b acts where e: "AdmintestEnter ?a = Some (b, acts)" by (simp add: AdmintestEnter_def Let_def)
  have h: "bGloAdminStatus ?a" "\<not> bMc1Check1 ?a" by (simp_all add: admin_std_def)
  have l: "list_all (\<lambda>(env, t, ev). test_event ev)
    (replicate 30 (panel_env_std, time_std, Adm_panel (Ev_emb False True)) @ [(panel_env_std, time_std, Adm_panel Ev_top)])"
    by (auto simp: test_event_def list_all_iff)
  show ?thesis using contactor_test [OF e h l, of scene_admin button_admin panel_cfg_std panel_env_std] e by blast
qed

end
