(* ===== verification/Spec2Isabelle.thy ===== *)
theory Spec2Isabelle
  imports Crc Ring Obd_Thms Secc_Charge Meter_Thms Card_Thms Charging_Props Ocpp_Parse_Thms Ocpp_Props Ocpp_Wait Station_Props Settings_Props Admin_Thms
begin

text \<open>
  A model of the control program of the TSCT-2007CP, a single-connector AC charging station
  (\<open>src/project/tsct2007a\<close>), and the theorems about it.

  \<^bold>\<open>The program.\<close>  The station talks to a watt-hour meter, a card reader, a PLC modem (the ISO 15118 link to the vehicle) and
  an OBD/IDA adapter over serial lines, watches the control pilot and the emergency button, closes the contactor, and is an
  OCPP 1.6J client over a web socket.  Every device has a task that reads its queue and one that sends requests; the
  charging screen runs a monitoring and a fault task; the OCPP client runs a task that chooses requests and one that receives.
  They communicate through \<open>shmDataAppInfo\<close> and a few global records.

  \<^bold>\<open>Theories and sources.\<close>
  \<^item> \<open>Prelude\<close>: bounded memory accesses, \<open>yields\<close> (partial correctness of an optional computation) with its structural
    rules, words and bytes.  \<open>Xor_Linear\<close> and \<open>Crc\<close> (\<open>crc16.c\<close>, \<open>crc16table.h\<close>, the tables in \<open>tsctobd.c\<close> and
    \<open>tsctsecc.c\<close>): the table-driven checksums, a bit-serial reference and their error detection.
  \<^item> \<open>Ring\<close> (the \<open>READ_QUEUE\<close> of \<open>tsctcommon.c\<close>): the ring buffer, the locale of a bounded queue and its interpretation.
  \<^item> \<open>App_Info\<close>, \<open>Obd\<close>, \<open>Obd_Link\<close> (\<open>tsctobd.c\<close>): frames, reception and both tasks of the adapter link;
    \<open>Obd_Frames\<close>, \<open>Obd_Sound\<close>, \<open>Obd_Thms\<close>: its lemmas.
  \<^item> \<open>Secc_Modbus\<close>, \<open>Secc_Steps\<close>, \<open>Secc_Vas\<close>, \<open>Secc_Link\<close> (\<open>tsctsecc.c\<close>): Modbus frames, the start-up and charging
    sequences, the value-added service and both tasks of the modem link; \<open>Secc_Recv\<close>, \<open>Secc_Thms\<close>, \<open>Secc_Run\<close>,
    \<open>Secc_Live\<close>, \<open>Secc_Charge\<close>: soundness of reception, requests, timeouts, liveness of the start-up against a modem that
    answers, and the charging sequence.
  \<^item> \<open>Common\<close>, \<open>Common_Thms\<close> (\<open>tsctcommon.c\<close>): BCD and ASCII conversions, C strings, \<open>printf\<close> of numbers.
  \<^item> \<open>Meter\<close>, \<open>Meter_Thms\<close> (\<open>cstwatthourmeter.c\<close>), \<open>Card\<close>, \<open>Card_Thms\<close> (\<open>cstcardreader.c\<close>), \<open>Pilot\<close>
    (\<open>cstcontrolpilot.c\<close>): the devices of the cabinet.
  \<^item> \<open>Charging\<close> (\<open>layer_charge.c\<close>, \<open>layer_common.c\<close>, \<open>cstordersequence.c\<close>, \<open>cstled.c\<close>, \<open>cstmagneticcontactor.c\<close>; of
    \<open>layer_qualif_test.c\<close> the contactor's button): the record \<open>session\<close>, the listeners for pilot, meter, card and emergency button, the monitoring and the fault task;
    \<open>Charging_Thms\<close>, \<open>Charging_Props\<close>: the contactor over all sequences of events, test buttons included, stops and
    accounting.
  \<^item> \<open>Ocpp_Parse\<close>, \<open>Ocpp_Parse_Thms\<close> (\<open>tsctparsing.c\<close>): the reader of OCPP messages and its round trips.
  \<^item> \<open>Ocpp_Client\<close> (state), \<open>Ocpp_Req\<close>, \<open>Ocpp_Rsp\<close>, \<open>Ocpp_Cs\<close> (\<open>ocpp_cmd.c\<close>: requests, handlers of results, handlers of
    the server's calls), \<open>Ocpp_Write\<close> and \<open>Ocpp_Run\<close> (\<open>tsctwsclient.c\<close>: the writer, the choice of the next request,
    transmission, reception, both tasks, initialisation).
  \<^item> \<open>Ocpp_Rx\<close>: the sizes of the receive buffers.  \<open>Ocpp_Inv\<close>: array sizes and key table, one lemma per operation.  \<open>Ocpp_Frames\<close>: what an operation does to the waiting
    flag and the outgoing message.  \<open>Ocpp_Write_Thms\<close>: abstract messages and the refinement of their text.
    \<open>Ocpp_Calls\<close>: runs, the locale \<open>call_client\<close> (at most one outstanding call) and its interpretation on both tasks.
    \<open>Ocpp_Safe\<close>, \<open>Ocpp_Serve\<close>, \<open>Ocpp_Props\<close>: properties of runs, reception of whole messages, and properties from the
    bytes of a message to the effect and the answer.  \<open>Ocpp_Wait\<close>: how waiting ends, by timeout or by a result.

  \<^item> \<open>Panel\<close> (the screen library's change of screen and queue of actions, the countdown of \<open>layer_top.c\<close>, the record
    \<open>panel\<close>), \<open>Screens\<close> (enter, leave, buttons, listeners and tasks of the screens of a session, from \<open>layer_main.c\<close> to
    \<open>layer_thanks.c\<close>), \<open>Station\<close> (\<open>function_table.c\<close>, the flush of the queue, the status task, and \<open>panel_do\<close>, the steps of
    the whole station).  \<open>Station_Thms\<close>: the locale \<open>budget\<close> (what needs a permission never exceeds the permissions), its
    interpretations on the steps of the station, and that charging needs an authorisation.  \<open>Station_Props\<close>: the countdown,
    the start button, a remote start, the end of a charge.

  \<^item> \<open>Ini\<close> (\<open>src/sdk/share/iniparser\<close>): the dictionary of an initialisation file, its writer and its reader, down to the
    formats of \<open>sscanf\<close>; \<open>Ini_Thms\<close>: what is written is read back.  \<open>Settings\<close> (\<open>config.c\<close>): the record \<open>settings\<close>, reading at
    start-up (\<open>ConfigInit\<close>), the first values, saving, the comparison with the file, the backup with its retries (a stack of
    calls, which ends since every failure uses up one of the listed outcomes), the file events.  \<open>Settings_Keys\<close>: the keys, all
    different, and the dictionary after saving; \<open>Settings_Thms\<close>: what is read from it; \<open>Settings_Props\<close>: a restart, the
    comparison after saving, the first start.

  \<^item> \<open>Service\<close> (\<open>layer_admin_set_ip.c\<close>, \<open>layer_ipall.c\<close>, \<open>layer_admin_set_charger.c\<close>, \<open>layer_chargerset.c\<close>,
    \<open>layer_chargerset2.c\<close>): the record \<open>service\<close> and the dialogues in which settings are typed.  \<open>Service_Thms\<close>: the locale
    \<open>keypad\<close> with its interpretations, the safety of all sequences of operations on the charger's settings, confirming without
    a change, the port of the server, the keys for its address.  \<open>Admin\<close> (\<open>layer_admin_login.c\<close>, \<open>layer_chargerlist.c\<close>,
    \<open>layer_admin_charger_test.c\<close>, \<open>layer_Admintest.c\<close>): login, menu and test screen, and \<open>admin_do\<close>, the steps of the station
    with an administrator, over the station of \<open>Station\<close> and the dialogues of \<open>Service\<close>.  \<open>Admin_Thms\<close>: the login against the
    password typed before, no other way behind it, the test of the contactor.

  \<^bold>\<open>Conventions.\<close>  Integers are words of the declared width, an \<open>int\<close> is an unbounded integer where the code cannot overflow
  it; the firmware is compiled with signed \<open>char\<close>.  C objects are lists of fixed length.  \<open>None\<close> is an access outside an
  object, the use of an uninitialised value or a conversion the C standard leaves undefined; a theorem that says
  \<open>\<dots> = Some \<dots>\<close> therefore also says that the code stays within its objects, and one that says \<open>\<dots> = None\<close> that it does not.
  Uninitialised local arrays are arguments (\<open>garbage\<close>).  Calls of drivers, of the screen library and of the operating
  system are lists of acts; their results are arguments.

  \<^bold>\<open>Atomicity.\<close>  A pass of a task is one step.  The tasks are threads without locks, so that this excludes the interleavings
  within a pass: the client task and the receiving task share \<open>Tx_Msg\<close>, and an answer that is built while a request is being
  written would be mixed with it.  Every interleaving of whole passes is covered.  A pass is one turn of the task's loop; the passes
  of the waiting task of the card screen and of the status task end at every \<open>sleep\<close> inside the turn, where \<open>panel\<close> records
  how far they are.

  \<^bold>\<open>Bounds.\<close>  Recursion follows the data; the loops that wait for input are one pass per call.  \<open>Secc_Live\<close> bounds the
  start-up by 16 exchanges, \<open>Card_Thms\<close> the polling of the card reader by 102 passes.

  \<^bold>\<open>Not modelled.\<close>  Log output, delays, thread creation; what a screen shows, sound, video, back light; the binding of
  screens to functions, which is in the binary scene file (the argument \<open>sc\<close>); the results that the test screen shows, the
  screens for the firmware file, the device type and the qualification test (but for the contactor's button);
  the SDK, the operating system and the vendored libraries under \<open>src/sdk\<close> (but for the queue of actions and the initialisation files) and
  \<open>src/openrtos\<close>; the data files and the flash below \<open>config.c\<close>, the network driver, libcurl, upgrade and the web server; the former
  TCP client (\<open>tsctclient.c\<close>, \<open>tsctpacket.c\<close>), which is not part of the build.
\<close>

end
